(* ===== verification/Prelude.thy ===== *)
theory Prelude
  imports Complex_Main "HOL-Library.Char_ord" "HOL-Library.List_Lexorder" "HOL-Library.Product_Lexorder" "HOL-Library.Option_ord"
begin

text \<open>
  Shared vocabulary of the development.
  \<^item> identifiers and instants, the JavaScript notion of a truthy string, the three-valued
    optional fields of the data-transfer objects, JSON values;
  \<^item> an operation's outcome: an error or a result, together with the state it leaves behind,
    and \<open>await\<close>, the sequencing of two such steps (an \<open>await\<close> of the source whose
    exception propagates).
\<close>

named_theorems op_defs \<open>definitions of repository and service operations\<close>
named_theorems op_ok \<open>characterisations of the successful runs of an operation\<close>
named_theorems op_fail \<open>a failing operation leaves the state as it found it\<close>

type_synonym uuid = string
type_synonym instant = int

section \<open>JavaScript values\<close>

text \<open>\<open>x && ...\<close> and \<open>!x\<close> on an optional string: absent and empty are both falsy.\<close>

definition truthy :: "string option \<Rightarrow> bool" where
  "truthy x = (case x of None \<Rightarrow> False | Some t \<Rightarrow> t \<noteq> [])"

lemma truthy_simps [simp]:
  "truthy None = False" "truthy (Some t) = (t \<noteq> [])"
  by (simp_all add: truthy_def)

text \<open>
  The optional scope of a query, \<open>...(boardId && { boardId })\<close>: a falsy scope adds no
  condition.
\<close>

definition in_scope :: "uuid option \<Rightarrow> uuid \<Rightarrow> bool" where
  "in_scope scope x = (if truthy scope then scope = Some x else True)"

lemma in_scope_None [simp]: "in_scope None x"
  by (simp add: in_scope_def)

lemma in_scope_Some: "in_scope (Some b) x \<longleftrightarrow> b = [] \<or> b = x"
  by (auto simp: in_scope_def)

text \<open>A nullable field of an update: left out (\<open>undefined\<close>), \<open>null\<close>, or a value.\<close>

datatype 'a patch = Keep | Clear | Put 'a

fun apply_patch :: "'a patch \<Rightarrow> 'a option \<Rightarrow> 'a option" where
  "apply_patch Keep old = old"
| "apply_patch Clear old = None"
| "apply_patch (Put x) old = Some x"

text \<open>A field that cannot be null: \<open>dto.f !== undefined && { f: dto.f }\<close>.\<close>

definition or_keep :: "'a option \<Rightarrow> 'a \<Rightarrow> 'a" where
  "or_keep new old = (case new of None \<Rightarrow> old | Some x \<Rightarrow> x)"

lemma or_keep_simps [simp]: "or_keep None old = old" "or_keep (Some x) old = x"
  by (simp_all add: or_keep_def)

datatype js_number = Finite rat | NaN | PosInfinity | NegInfinity

datatype json = JNull | JBool bool | JNumber js_number | JString string
  | JArray "json list" | JObject "(string \<times> json) list"

section \<open>Outcomes\<close>

definition await :: "('e + 'a) \<times> 's \<Rightarrow> ('a \<Rightarrow> 's \<Rightarrow> ('e + 'b) \<times> 's) \<Rightarrow> ('e + 'b) \<times> 's" where
  "await m k = (case m of (Inl e, s) \<Rightarrow> (Inl e, s) | (Inr x, s) \<Rightarrow> k x s)"

lemma await_simps [simp]:
  "await (Inl e, s) k = (Inl e, s)" "await (Inr x, s) k = k x s"
  by (simp_all add: await_def)

lemma await_Inr_iff:
  "await m k = (Inr y, s') \<longleftrightarrow> (\<exists>x s1. m = (Inr x, s1) \<and> k x s1 = (Inr y, s'))"
  by (cases m; cases "fst m") (auto simp: await_def)

lemma await_Inl_iff:
  "await m k = (Inl e, s') \<longleftrightarrow> m = (Inl e, s') \<or> (\<exists>x s1. m = (Inr x, s1) \<and> k x s1 = (Inl e, s'))"
  by (cases m; cases "fst m") (auto simp: await_def)

lemma await_assoc: "await (await m k) l = await m (\<lambda>x s. await (k x s) l)"
  by (cases m; cases "fst m") (auto simp: await_def)

end
