(* ===== verification/Schema.thy ===== *)
theory Schema
  imports Prelude
begin

text \<open>
  The data model: the enums and tables of \<open>prisma/schema.prisma\<close> that the modelled services
  read and write (one record per model, field names prefixed by the model's), the domain events the
  services hand to the event emitter, the exception classes of
  \<open>src/common/exceptions/app.exception.ts\<close> with the Nest HTTP exceptions used beside them, and
  the state \<open>db\<close>: the tables and the log of emitted events, oldest first.
\<close>

section \<open>Enums\<close>

datatype workspace_role = Owner | Admin | Member | Viewer
datatype invitation_status = Pending | Accepted | Expired | Revoked
datatype card_priority = Lowest | Low | Medium | High | Urgent
datatype card_status = NotStarted | Active | Done | Closed
datatype card_field_type = TextField | NumberField | DateField | SelectField | UserField
datatype document_status = DocActive | DocArchived
datatype attachment_status = FilePending | FileCompleted | FileFailed
datatype entity_type = BoardEntity | ListEntity | CardEntity | CommentEntity | LabelEntity | AssigneeEntity
  | AttachmentEntity | DocumentEntity | WorkspaceEntity
datatype notification_type = CardAssigned | CommentAdded | CommentMentioned | CardStatusNotice
  | CardPriorityNotice | CardLinked | WorkspaceInvited | WorkspaceRoleNotice

section \<open>Rows\<close>

record user_row =
  userId :: uuid
  userEmail :: string
  userPasswordHash :: "string option"
  userDisplayName :: string
  userAvatarUrl :: "string option"
  userGoogleId :: "string option"
  userIsEmailVerified :: bool
  userLastLoginAt :: "instant option"
  userCreatedAt :: instant

record refresh_token_row =
  rtId :: uuid
  rtUserId :: uuid
  rtTokenHash :: string
  rtFamilyId :: uuid
  rtReplacedBy :: "uuid option"
  rtIpAddress :: "string option"
  rtUserAgent :: "string option"
  rtExpiresAt :: instant
  rtRevokedAt :: "instant option"

record workspace_row =
  wsId :: uuid
  wsName :: string
  wsSlug :: string
  wsDescription :: "string option"
  wsAvatarUrl :: "string option"
  wsOwnerId :: uuid
  wsCreatedAt :: instant
  wsArchivedAt :: "instant option"

record member_row =
  memId :: uuid
  memWorkspaceId :: uuid
  memUserId :: uuid
  memRole :: workspace_role
  memJoinedAt :: instant

record invitation_row =
  invId :: uuid
  invWorkspaceId :: uuid
  invEmail :: string
  invRole :: workspace_role
  invToken :: string
  invInvitedBy :: uuid
  invStatus :: invitation_status
  invExpiresAt :: instant
  invAcceptedAt :: "instant option"
  invCreatedAt :: instant

record board_row =
  boardId :: uuid
  boardWorkspaceId :: uuid
  boardTitle :: string
  boardDescription :: "string option"
  boardBackgroundColor :: "string option"
  boardCreatedBy :: uuid
  boardCreatedAt :: instant
  boardUpdatedAt :: instant
  boardArchivedAt :: "instant option"
  boardDeletedAt :: "instant option"

record star_row =
  starUserId :: uuid
  starBoardId :: uuid
  starredAt :: instant

record label_row =
  labelId :: uuid
  labelWorkspaceId :: uuid
  labelName :: "string option"
  labelColor :: string
  labelCreatedAt :: instant

record list_row =
  listId :: uuid
  listBoardId :: uuid
  listTitle :: string
  listRank :: string
  listCreatedAt :: instant
  listUpdatedAt :: instant
  listArchivedAt :: "instant option"
  listDeletedAt :: "instant option"

record card_row =
  cardId :: uuid
  cardListId :: uuid
  cardTitle :: string
  cardDescription :: "json option"
  cardRank :: string
  cardDueDate :: "instant option"
  cardIsComplete :: bool
  cardCoverImageUrl :: "string option"
  cardPriority :: card_priority
  cardStatus :: card_status
  cardParentCardId :: "uuid option"
  cardEstimateMinutes :: "int option"
  cardLoggedMinutes :: int
  cardCreatedBy :: uuid
  cardCreatedAt :: instant
  cardUpdatedAt :: instant
  cardArchivedAt :: "instant option"
  cardDeletedAt :: "instant option"

record assignee_row =
  asgCardId :: uuid
  asgUserId :: uuid
  asgAssignedAt :: instant

record card_label_row =
  clCardId :: uuid
  clLabelId :: uuid

record comment_row =
  cmtId :: uuid
  cmtCardId :: uuid
  cmtAuthorId :: uuid
  cmtContent :: string
  cmtParentCommentId :: "uuid option"
  cmtCreatedAt :: instant
  cmtUpdatedAt :: instant
  cmtDeletedAt :: "instant option"

record checklist_row =
  chkId :: uuid
  chkCardId :: uuid
  chkTitle :: string
  chkRank :: string

record checklist_item_row =
  itemId :: uuid
  itemChecklistId :: uuid
  itemContent :: string
  itemIsDone :: bool
  itemRank :: string

record field_def_row =
  fdId :: uuid
  fdWorkspaceId :: uuid
  fdName :: string
  fdFieldType :: card_field_type
  fdOptions :: "json option"
  fdRequired :: bool
  fdPosition :: int

record field_value_row =
  fvFieldId :: uuid
  fvCardId :: uuid
  fvValue :: json

record time_entry_row =
  teId :: uuid
  teCardId :: uuid
  teUserId :: uuid
  teMinutes :: int
  teNote :: "string option"
  teCreatedAt :: instant

record document_row =
  docId :: uuid
  docWorkspaceId :: uuid
  docTitle :: string
  docYjsState :: "string option"
  docPreviewText :: "string option"
  docCreatedBy :: uuid
  docParentCardId :: "uuid option"
  docStatus :: document_status
  docCreatedAt :: instant
  docUpdatedAt :: instant

record snapshot_row =
  snapId :: uuid
  snapDocumentId :: uuid
  snapYjsState :: string
  snapName :: "string option"
  snapCreatedBy :: uuid
  snapCreatedAt :: instant

record file_row =
  fileId :: uuid
  fileWorkspaceId :: uuid
  fileUploadedBy :: uuid
  fileS3Bucket :: string
  fileS3Key :: string
  fileOriginalName :: string
  fileMimeType :: string
  fileSize :: int
  fileEntityType :: entity_type
  fileEntityId :: uuid
  fileStatus :: attachment_status
  fileArchivedAt :: "instant option"
  fileCreatedAt :: instant
  fileUpdatedAt :: instant

record notification_row =
  ntfId :: uuid
  ntfMessageId :: uuid
  ntfUserId :: uuid
  ntfWorkspaceId :: uuid
  ntfType :: notification_type
  ntfTitle :: string
  ntfBody :: "string option"
  ntfEntityType :: "entity_type option"
  ntfEntityId :: "uuid option"
  ntfBoardId :: "uuid option"
  ntfCardId :: "uuid option"
  ntfIsRead :: bool
  ntfReadAt :: "instant option"
  ntfCreatedAt :: instant

text \<open>The payload of an activity is a JSON object; the listeners never set its metadata.\<close>

record activity_row =
  actId :: nat
  actWorkspaceId :: uuid
  actBoardId :: "uuid option"
  actEntityType :: entity_type
  actEntityId :: uuid
  actAction :: string
  actActorId :: uuid
  actPayload :: "(string \<times> json) list"
  actCreatedAt :: instant

section \<open>Errors\<close>

text \<open>
  \<open>EntityNotFound name id\<close> and \<open>BusinessRule code\<close> are the two subclasses of
  \<open>AppException\<close>; \<open>AppError code status\<close> is a direct instance of it. \<open>PrismaError\<close> is a
  known request error of the database client that no handler caught, and \<open>JsTypeError\<close> the
  exception JavaScript raises on a property of \<open>undefined\<close>.
\<close>

datatype error =
    EntityNotFound string uuid
  | BusinessRule string
  | AppError string nat
  | BadRequest string
  | Unauthorized string
  | Forbidden string
  | NotFound string
  | PrismaError string
  | JsTypeError

definition to_upper :: "char \<Rightarrow> char" where
  "to_upper c = (if CHR ''a'' \<le> c \<and> c \<le> CHR ''z'' then char_of (of_char c - (32::nat)) else c)"

text \<open>The machine-readable code and the HTTP status an application exception carries.\<close>

fun error_code :: "error \<Rightarrow> string option" where
  "error_code (EntityNotFound name i) = Some (map to_upper name @ ''_NOT_FOUND'')"
| "error_code (BusinessRule code) = Some code"
| "error_code (AppError code st) = Some code"
| "error_code _ = None"

fun error_status :: "error \<Rightarrow> nat" where
  "error_status (EntityNotFound name i) = 404"
| "error_status (BusinessRule code) = 422"
| "error_status (AppError code st) = st"
| "error_status (BadRequest m) = 400"
| "error_status (Unauthorized m) = 401"
| "error_status (Forbidden m) = 403"
| "error_status (NotFound m) = 404"
| "error_status (PrismaError c) = 500"
| "error_status JsTypeError = 500"

section \<open>Domain events\<close>

datatype domain_event =
    BoardCreated board_row uuid
  | BoardUpdated board_row uuid
  | BoardArchived uuid uuid uuid
  | BoardUnarchived board_row uuid
  | BoardDeleted uuid uuid uuid
  | ListCreated list_row uuid
  | ListUpdated list_row uuid
  | ListMoved uuid uuid string uuid
  | ListArchived uuid uuid uuid
  | ListUnarchived list_row uuid
  | ListDeleted uuid uuid uuid
  | CardCreated card_row uuid uuid uuid
  | CardMoved uuid uuid uuid uuid string uuid
  | CardUpdated card_row uuid uuid
  | CardArchived uuid uuid uuid uuid
  | CardUnarchived card_row uuid uuid uuid
  | CardDeleted uuid uuid uuid uuid
  | CardAssigneeAdded uuid uuid uuid uuid
  | CardAssigneeRemoved uuid uuid uuid uuid
  | CardPriorityChanged uuid uuid card_priority card_priority uuid
  | CardStatusChanged uuid uuid card_status card_status bool uuid
  | CardSubcardCreated uuid uuid uuid uuid
  | CardTimeLogged uuid uuid int int uuid uuid
  | ChecklistCreated checklist_row uuid uuid
  | ChecklistUpdated uuid uuid uuid uuid
  | ChecklistDeleted uuid uuid uuid uuid
  | CommentCreated comment_row uuid uuid "string list"
  | CommentUpdated comment_row uuid uuid
  | CommentDeleted uuid uuid uuid uuid
  | WorkspaceCreated workspace_row uuid
  | MemberAdded uuid uuid workspace_role
  | MemberRemoved uuid uuid
  | MemberLeft uuid uuid
  | MemberRoleChanged uuid uuid workspace_role workspace_role
  | OwnershipTransferred uuid uuid uuid
  | InvitationCreated uuid string uuid string
  | UserRegistered uuid string string string
  | UserLoggedIn uuid string
  | PasswordResetRequested uuid string string
  | EmailVerificationRequested uuid string string
  | EmailVerified uuid string string
  | AttachmentCreated uuid uuid uuid uuid
  | AttachmentDeleted uuid uuid uuid uuid
  | DocumentCreated uuid uuid "uuid option" "uuid option" string uuid
  | DocumentRenamed uuid string uuid
  | DocumentSaved uuid instant
  | DocumentArchived uuid uuid uuid
  | DocumentSnapshotCreated uuid uuid uuid

section \<open>The state\<close>

text \<open>The key-value store keeps a string and the instant its key expires.\<close>

record db =
  users :: "user_row list"
  refreshTokens :: "refresh_token_row list"
  redis :: "string \<Rightarrow> (string \<times> instant) option"
  workspaces :: "workspace_row list"
  members :: "member_row list"
  invitations :: "invitation_row list"
  boards :: "board_row list"
  stars :: "star_row list"
  labels :: "label_row list"
  lists :: "list_row list"
  cards :: "card_row list"
  assignees :: "assignee_row list"
  cardLabels :: "card_label_row list"
  comments :: "comment_row list"
  checklists :: "checklist_row list"
  checklistItems :: "checklist_item_row list"
  fieldDefs :: "field_def_row list"
  fieldValues :: "field_value_row list"
  timeEntries :: "time_entry_row list"
  events :: "domain_event list"
  documents :: "document_row list"
  snapshots :: "snapshot_row list"
  files :: "file_row list"
  notifications :: "notification_row list"
  activities :: "activity_row list"

definition empty_db :: db where
  "empty_db = \<lparr>users = [], refreshTokens = [], redis = (\<lambda>k. None), workspaces = [], members = [], invitations = [], boards = [],
     stars = [], labels = [], lists = [], cards = [], assignees = [], cardLabels = [],
     comments = [], checklists = [], checklistItems = [], fieldDefs = [], fieldValues = [],
     timeEntries = [], events = [], documents = [], snapshots = [], files = [], notifications = [], activities = []\<rparr>"

type_synonym 'a outcome = "(error + 'a) \<times> db"

text \<open>The columns of a user that other tables show with their rows.\<close>

record user_summary =
  usId :: uuid
  usDisplayName :: string
  usEmail :: string
  usAvatarUrl :: "string option"

definition user_summary_of :: "uuid \<Rightarrow> db \<Rightarrow> user_summary option" where
  "user_summary_of i s =
     map_option (\<lambda>u. \<lparr>usId = userId u, usDisplayName = userDisplayName u, usEmail = userEmail u,
         usAvatarUrl = userAvatarUrl u\<rparr>)
       (find (\<lambda>u. userId u = i) (users s))"

text \<open>\<open>eventEmitter.emit\<close> and a database error.\<close>

definition emit :: "domain_event \<Rightarrow> db \<Rightarrow> db" where
  "emit e s = s\<lparr>events := events s @ [e]\<rparr>"

lemma emit_simps [simp]:
  "users (emit e s) = users s" "refreshTokens (emit e s) = refreshTokens s"
  "redis (emit e s) = redis s" "workspaces (emit e s) = workspaces s"
  "members (emit e s) = members s" "invitations (emit e s) = invitations s"
  "boards (emit e s) = boards s" "stars (emit e s) = stars s"
  "labels (emit e s) = labels s" "lists (emit e s) = lists s"
  "cards (emit e s) = cards s" "assignees (emit e s) = assignees s"
  "cardLabels (emit e s) = cardLabels s" "comments (emit e s) = comments s"
  "checklists (emit e s) = checklists s" "checklistItems (emit e s) = checklistItems s"
  "fieldDefs (emit e s) = fieldDefs s" "fieldValues (emit e s) = fieldValues s"
  "timeEntries (emit e s) = timeEntries s" "events (emit e s) = events s @ [e]"
  "documents (emit e s) = documents s" "snapshots (emit e s) = snapshots s" "files (emit e s) = files s"
  "notifications (emit e s) = notifications s" "activities (emit e s) = activities s"
  by (simp_all add: emit_def)

text \<open>
  The two ways a query reports failure: \<open>P2002\<close> when a unique constraint rejects a row,
  \<open>P2025\<close> when the row to change does not exist.
\<close>

definition or_conflict :: "('t option) \<Rightarrow> ('t \<Rightarrow> db \<Rightarrow> 'a outcome) \<Rightarrow> db \<Rightarrow> 'a outcome" where
  "or_conflict t k s = (case t of None \<Rightarrow> (Inl (PrismaError ''P2002''), s) | Some x \<Rightarrow> k x s)"

definition or_missing :: "('t option) \<Rightarrow> ('t \<Rightarrow> db \<Rightarrow> 'a outcome) \<Rightarrow> db \<Rightarrow> 'a outcome" where
  "or_missing t k s = (case t of None \<Rightarrow> (Inl (PrismaError ''P2025''), s) | Some x \<Rightarrow> k x s)"

lemma or_conflict_simps [simp]:
  "or_conflict None k s = (Inl (PrismaError ''P2002''), s)" "or_conflict (Some x) k s = k x s"
  by (simp_all add: or_conflict_def)

lemma or_missing_simps [simp]:
  "or_missing None k s = (Inl (PrismaError ''P2025''), s)" "or_missing (Some x) k s = k x s"
  by (simp_all add: or_missing_def)

lemma or_conflict_Inr_iff:
  "or_conflict t k s = (Inr y, s') \<longleftrightarrow> (\<exists>x. t = Some x \<and> k x s = (Inr y, s'))"
  by (cases t) simp_all

lemma or_missing_Inr_iff:
  "or_missing t k s = (Inr y, s') \<longleftrightarrow> (\<exists>x. t = Some x \<and> k x s = (Inr y, s'))"
  by (cases t) simp_all

text \<open>Roles are ordered by privilege: \<open>Viewer < Member < Admin < Owner\<close>.\<close>

fun role_rank :: "workspace_role \<Rightarrow> nat" where
  "role_rank Owner = 4" | "role_rank Admin = 3" | "role_rank Member = 2" | "role_rank Viewer = 1"

lemma role_rank_inj: "role_rank a = role_rank b \<Longrightarrow> a = b"
  by (cases a; cases b) simp_all

instantiation workspace_role :: linorder
begin

definition less_eq_workspace_role :: "workspace_role \<Rightarrow> workspace_role \<Rightarrow> bool" where
  "less_eq_workspace_role a b \<longleftrightarrow> role_rank a \<le> role_rank b"

definition less_workspace_role :: "workspace_role \<Rightarrow> workspace_role \<Rightarrow> bool" where
  "less_workspace_role a b \<longleftrightarrow> role_rank a < role_rank b"

instance
  by standard (auto simp: less_eq_workspace_role_def less_workspace_role_def dest: role_rank_inj)

end

end
