(* ===== verification/Tables.thy ===== *)
theory Tables
  imports Schema
begin

text \<open>
  Rows of a table. Lookup is \<open>find\<close>; the other queries of the object-relational mapper are
  \<open>update_by\<close>, \<open>update_many\<close>, \<open>insert_row\<close> and \<open>delete_by\<close>, and ordering is \<open>order_by\<close> (by a
  comparison the database collation decides). A table is the list of its rows in storage order.
  Every theorem quantifies over that list, so whatever order the database returns rows in, where
  the query fixes none, is covered.
\<close>

section \<open>Rows and tables\<close>

definition insert_row :: "('r \<Rightarrow> 'k) \<Rightarrow> 'r \<Rightarrow> 'r list \<Rightarrow> 'r list option" where
  "insert_row key r rows = (if key r \<in> set (map key rows) then None else Some (rows @ [r]))"

definition update_by :: "('r \<Rightarrow> 'k) \<Rightarrow> 'k \<Rightarrow> ('r \<Rightarrow> 'r) \<Rightarrow> 'r list \<Rightarrow> ('r \<times> 'r list) option" where
  "update_by key k f rows =
     (case find (\<lambda>r. key r = k) rows of
        None \<Rightarrow> None
      | Some r \<Rightarrow> Some (f r, map (\<lambda>x. if key x = k then f x else x) rows))"

definition update_many :: "('r \<Rightarrow> bool) \<Rightarrow> ('r \<Rightarrow> 'r) \<Rightarrow> 'r list \<Rightarrow> 'r list" where
  "update_many P f rows = map (\<lambda>x. if P x then f x else x) rows"

definition delete_by :: "('r \<Rightarrow> 'k) \<Rightarrow> 'k \<Rightarrow> 'r list \<Rightarrow> ('r \<times> 'r list) option" where
  "delete_by key k rows =
     (case find (\<lambda>r. key r = k) rows of
        None \<Rightarrow> None
      | Some r \<Rightarrow> Some (r, filter (\<lambda>x. key x \<noteq> k) rows))"

text \<open>The unique-key constraint of a table.\<close>

definition unique_key :: "('r \<Rightarrow> 'k) \<Rightarrow> 'r list \<Rightarrow> bool" where
  "unique_key key rows = distinct (map key rows)"

lemma find_SomeD: "find P xs = Some x \<Longrightarrow> x \<in> set xs \<and> P x"
  by (induction xs) (auto split: if_splits)

lemma find_NoneD: "find P xs = None \<Longrightarrow> x \<in> set xs \<Longrightarrow> \<not> P x"
  by (auto simp: find_None_iff)

lemma find_unique:
  assumes "unique_key key rows" "r \<in> set rows" "P r" "\<And>x. P x \<Longrightarrow> key x = key r"
  shows "find P rows = Some r"
proof -
  from assms(2,3) obtain x where x: "find P rows = Some x"
    by (cases "find P rows") (auto dest: find_NoneD)
  then have "x \<in> set rows" "P x" by (auto dest: find_SomeD)
  with assms(1,2,4) have "x = r"
    by (auto simp: unique_key_def distinct_map inj_on_def)
  with x show ?thesis by simp
qed

lemma find_key_iff:
  "unique_key key rows \<Longrightarrow> find (\<lambda>r. key r = k) rows = Some r \<longleftrightarrow> r \<in> set rows \<and> key r = k"
  by (auto dest: find_SomeD intro: find_unique)

lemma find_map_same:
  assumes "\<And>x. x \<in> set xs \<Longrightarrow> P (f x) = P x"
  shows "find P (map f xs) = map_option f (find P xs)"
  using assms by (induction xs) auto

lemma find_map_update:
  assumes "\<And>x. key (f x) = key x" "\<And>x. Q (f x) = Q x"
  shows "find (\<lambda>r. key r = j \<and> Q r) (map (\<lambda>x. if key x = i then f x else x) rows) =
         map_option (if j = i then f else id) (find (\<lambda>r. key r = j \<and> Q r) rows)"
  using assms by (induction rows) auto

lemma unique_keyD:
  "unique_key key rows \<Longrightarrow> x \<in> set rows \<Longrightarrow> y \<in> set rows \<Longrightarrow> key x = key y \<Longrightarrow> x = y"
  by (auto simp: unique_key_def distinct_map inj_on_def)

lemma unique_key_Nil [simp]: "unique_key key []"
  by (simp add: unique_key_def)

lemma unique_key_insert:
  "insert_row key r rows = Some rows' \<Longrightarrow> unique_key key rows \<Longrightarrow> unique_key key rows'"
  by (auto simp: insert_row_def unique_key_def split: if_splits)

lemma unique_key_map:
  "(\<And>x. key (f x) = key x) \<Longrightarrow> unique_key key (map f rows) = unique_key key rows"
  by (simp add: unique_key_def comp_def)

lemma unique_key_filter: "unique_key key rows \<Longrightarrow> unique_key key (filter P rows)"
  by (simp add: unique_key_def distinct_map_filter)

lemma update_by_Some_iff:
  "update_by key k f rows = Some (r, rows') \<longleftrightarrow>
     (\<exists>r0. find (\<lambda>x. key x = k) rows = Some r0 \<and> r = f r0 \<and>
           rows' = map (\<lambda>x. if key x = k then f x else x) rows)"
  by (auto simp: update_by_def split: option.splits)

lemma update_by_None_iff: "update_by key k f rows = None \<longleftrightarrow> (\<forall>r\<in>set rows. key r \<noteq> k)"
  by (auto simp: update_by_def find_None_iff split: option.splits dest!: find_SomeD)

lemma update_by_found:
  "find (\<lambda>x. key x = k) rows = Some r0 \<Longrightarrow>
   update_by key k f rows = Some (f r0, map (\<lambda>x. if key x = k then f x else x) rows)"
  by (simp add: update_by_def)

lemma insert_row_Some_iff:
  "insert_row key r rows = Some rows' \<longleftrightarrow> rows' = rows @ [r] \<and> key r \<notin> key ` set rows"
  by (auto simp: insert_row_def)

lemma delete_by_Some_iff:
  "delete_by key k rows = Some (r, rows') \<longleftrightarrow>
     find (\<lambda>x. key x = k) rows = Some r \<and> rows' = filter (\<lambda>x. key x \<noteq> k) rows"
  by (auto simp: delete_by_def split: option.splits)

lemma set_update_many: "set (update_many P f rows) = (\<lambda>x. if P x then f x else x) ` set rows"
  by (simp add: update_many_def)

section \<open>Ordering by a comparison\<close>

text \<open>\<open>orderBy\<close> on a text column: an insertion sort by the collation's comparison \<open>le\<close>.\<close>

fun place_by :: "('k \<Rightarrow> 'k \<Rightarrow> bool) \<Rightarrow> ('r \<Rightarrow> 'k) \<Rightarrow> 'r \<Rightarrow> 'r list \<Rightarrow> 'r list" where
  "place_by le key x [] = [x]"
| "place_by le key x (y # ys) =
     (if le (key x) (key y) then x # y # ys else y # place_by le key x ys)"

fun order_by :: "('k \<Rightarrow> 'k \<Rightarrow> bool) \<Rightarrow> ('r \<Rightarrow> 'k) \<Rightarrow> 'r list \<Rightarrow> 'r list" where
  "order_by le key [] = []"
| "order_by le key (x # xs) = place_by le key x (order_by le key xs)"

definition first_desc :: "('k \<Rightarrow> 'k \<Rightarrow> bool) \<Rightarrow> ('r \<Rightarrow> 'k) \<Rightarrow> 'r list \<Rightarrow> 'r option" where
  "first_desc le key rows = (case rev (order_by le key rows) of [] \<Rightarrow> None | x # _ \<Rightarrow> Some x)"

text \<open>What a collation guarantees: any two strings compare, and the comparison is transitive.\<close>

definition collation :: "('k \<Rightarrow> 'k \<Rightarrow> bool) \<Rightarrow> bool" where
  "collation le \<longleftrightarrow> (\<forall>x y. le x y \<or> le y x) \<and> (\<forall>x y z. le x y \<longrightarrow> le y z \<longrightarrow> le x z)"

lemma collation_refl: "collation le \<Longrightarrow> le x x"
  by (auto simp: collation_def)

lemma set_place_by [simp]: "set (place_by le key x ys) = insert x (set ys)"
  by (induction ys) auto

lemma set_order_by [simp]: "set (order_by le key xs) = set xs"
  by (induction xs) auto

lemma length_place_by [simp]: "length (place_by le key x ys) = Suc (length ys)"
  by (induction ys) auto

lemma length_order_by [simp]: "length (order_by le key xs) = length xs"
  by (induction xs) auto

lemma distinct_place_by: "distinct (map key' (x # ys)) \<Longrightarrow> distinct (map key' (place_by le key x ys))"
  by (induction ys) auto

lemma distinct_order_by: "distinct (map key' xs) \<Longrightarrow> distinct (map key' (order_by le key xs))"
proof (induction xs)
  case Nil
  then show ?case by simp
next
  case (Cons x xs)
  then have "distinct (map key' (x # order_by le key xs))" by simp
  then show ?case by (simp add: distinct_place_by del: list.map distinct.simps)
qed

abbreviation sorted_by :: "('k \<Rightarrow> 'k \<Rightarrow> bool) \<Rightarrow> ('r \<Rightarrow> 'k) \<Rightarrow> 'r list \<Rightarrow> bool" where
  "sorted_by le key \<equiv> sorted_wrt (\<lambda>x y. le (key x) (key y))"

lemma sorted_place_by:
  assumes "collation le" "sorted_by le key ys"
  shows "sorted_by le key (place_by le key x ys)"
  using assms(2)
proof (induction ys)
  case Nil
  then show ?case by simp
next
  case (Cons y ys)
  have tot: "\<And>a b. le a b \<or> le b a" and tr: "\<And>a b c. le a b \<Longrightarrow> le b c \<Longrightarrow> le a c"
    using assms(1) by (auto simp: collation_def)
  show ?case using Cons tot by (auto intro: tr)
qed

lemma sorted_order_by: "collation le \<Longrightarrow> sorted_by le key (order_by le key xs)"
  by (induction xs) (simp_all add: sorted_place_by)

lemma first_desc_None [simp]: "first_desc le key rows = None \<longleftrightarrow> rows = []"
  by (cases rows) (auto simp: first_desc_def split: list.splits dest: arg_cong [of _ _ length])

lemma first_desc_exists: "x \<in> set rows \<Longrightarrow> \<exists>z. first_desc le key rows = Some z"
  by (cases "first_desc le key rows") auto

lemma first_desc_SomeD:
  assumes "first_desc le key rows = Some r"
  shows "r \<in> set rows"
    and "collation le \<Longrightarrow> x \<in> set rows \<Longrightarrow> le (key x) (key r)"
proof -
  from assms obtain pre where "rev (order_by le key rows) = r # pre"
    by (auto simp: first_desc_def split: list.splits)
  then have dec: "order_by le key rows = rev pre @ [r]"
    by (metis rev_swap rev.simps(2))
  then have mem: "set rows = set (rev pre @ [r])"
    by (metis set_order_by)
  then show "r \<in> set rows" by simp
  assume c: "collation le" and x: "x \<in> set rows"
  have "sorted_by le key (rev pre @ [r])"
    using sorted_order_by [OF c, of key rows] dec by simp
  then show "le (key x) (key r)"
    using x mem by (auto simp: sorted_wrt_append collation_refl [OF c])
qed

text \<open>Ordering by a column whose order the model fixes (an instant, a position, an id).\<close>

abbreviation order_asc :: "('r \<Rightarrow> 'k::linorder) \<Rightarrow> 'r list \<Rightarrow> 'r list" where
  "order_asc key \<equiv> order_by (\<le>) key"

abbreviation order_desc :: "('r \<Rightarrow> 'k::linorder) \<Rightarrow> 'r list \<Rightarrow> 'r list" where
  "order_desc key \<equiv> order_by (\<ge>) key"

lemma collation_le: "collation ((\<le>) :: 'k::linorder \<Rightarrow> 'k \<Rightarrow> bool)"
  by (auto simp: collation_def)

lemma collation_ge: "collation ((\<ge>) :: 'k::linorder \<Rightarrow> 'k \<Rightarrow> bool)"
  by (auto simp: collation_def)


section \<open>Operations that fail without a trace\<close>

text \<open>An operation is atomic when a failing run leaves the state as it found it.\<close>

definition atomic :: "(db \<Rightarrow> 'a outcome) \<Rightarrow> bool" where
  "atomic k \<longleftrightarrow> (\<forall>s e s'. k s = (Inl e, s') \<longrightarrow> s' = s)"

lemma atomicD: "atomic k \<Longrightarrow> k s = (Inl e, s') \<Longrightarrow> s' = s"
  by (simp add: atomic_def)

lemma atomic_Inl [op_fail]: "atomic (\<lambda>s. (Inl (e s), s))"
  by (simp add: atomic_def)

lemma atomic_Inr [op_fail]: "atomic (\<lambda>s. (Inr (f s), g s))"
  by (simp add: atomic_def)

lemma atomic_keep [op_fail]: "atomic (\<lambda>s. (f s, s))"
  by (simp add: atomic_def)

lemma atomic_if [op_fail]: "atomic a \<Longrightarrow> atomic b \<Longrightarrow> atomic (\<lambda>s. if P s then a s else b s)"
  by (simp add: atomic_def)

lemma atomic_option [op_fail]:
  "atomic a \<Longrightarrow> (\<And>y. atomic (b y)) \<Longrightarrow> atomic (\<lambda>s. case x s of None \<Rightarrow> a s | Some y \<Rightarrow> b y s)"
  by (auto simp: atomic_def split: option.splits)

lemma atomic_sum [op_fail]:
  "(\<And>y. atomic (a y)) \<Longrightarrow> (\<And>y. atomic (b y)) \<Longrightarrow> atomic (\<lambda>s. case x s of Inl y \<Rightarrow> a y s | Inr y \<Rightarrow> b y s)"
  by (auto simp: atomic_def split: sum.splits)

lemma atomic_await [op_fail]:
  "atomic m \<Longrightarrow> atomic (\<lambda>s. await (m s) (\<lambda>x s'. (Inr (f s x s'), g s x s')))"
  by (auto simp: atomic_def await_Inl_iff)

lemma atomic_or_conflict [op_fail]:
  "(\<And>x. atomic (k x)) \<Longrightarrow> atomic (\<lambda>s. or_conflict (t s) k s)"
  by (auto simp: atomic_def or_conflict_def split: option.splits)

lemma atomic_or_missing [op_fail]:
  "(\<And>x. atomic (k x)) \<Longrightarrow> atomic (\<lambda>s. or_missing (t s) k s)"
  by (auto simp: atomic_def or_missing_def split: option.splits)

end
