(* ===== verification/Soft_Delete.thy ===== *)
theory Soft_Delete
  imports Tables
begin

text \<open>
  The lifecycle interface that the board, list and card repositories share: a row is active,
  archived, or marked deleted, and three operations move it between these. The locale states what a
  repository promises; the three repositories interpret it in their own theories. Its lemmas
  are the lifecycle facts the services rely on: archiving hides a row from every lookup that
  asks for active rows, unarchiving brings back a row that was not deleted, and nothing makes
  a deleted row active again.
\<close>

datatype life_op = Archive instant uuid | Unarchive instant uuid | Delete instant uuid

fun life_step ::
  "(instant \<Rightarrow> uuid \<Rightarrow> db \<Rightarrow> 'r outcome) \<Rightarrow> (instant \<Rightarrow> uuid \<Rightarrow> db \<Rightarrow> 'r outcome) \<Rightarrow>
   (instant \<Rightarrow> uuid \<Rightarrow> db \<Rightarrow> 'r outcome) \<Rightarrow> life_op \<Rightarrow> db \<Rightarrow> 'r outcome" where
  "life_step arch unarch del (Archive now i) s = arch now i s"
| "life_step arch unarch del (Unarchive now i) s = unarch now i s"
| "life_step arch unarch del (Delete now i) s = del now i s"

fun life_run ::
  "(life_op \<Rightarrow> db \<Rightarrow> 'r outcome) \<Rightarrow> life_op list \<Rightarrow> db \<Rightarrow> db" where
  "life_run step [] s = s"
| "life_run step (x # xs) s = life_run step xs (snd (step x s))"

locale soft_delete_repo =
  fixes wf :: "db \<Rightarrow> bool"
    and find_active find_any :: "uuid \<Rightarrow> uuid option \<Rightarrow> db \<Rightarrow> 'r option"
    and archive unarchive delete :: "instant \<Rightarrow> uuid \<Rightarrow> db \<Rightarrow> 'r outcome"
    and archivedAt deletedAt :: "'r \<Rightarrow> instant option"
    and set_archived :: "instant \<Rightarrow> instant option \<Rightarrow> 'r \<Rightarrow> 'r"
    and set_deleted :: "instant \<Rightarrow> 'r \<Rightarrow> 'r"
  assumes active_iff:
      "wf s \<Longrightarrow> find_active i sc s = Some r \<longleftrightarrow>
         find_any i sc s = Some r \<and> archivedAt r = None \<and> deletedAt r = None"
    and archive_ok: "wf s \<Longrightarrow> archive now i s = (Inr r, s') \<Longrightarrow>
         wf s' \<and> find_any j sc s' =
           map_option (if j = i then set_archived now (Some now) else id) (find_any j sc s)"
    and unarchive_ok: "wf s \<Longrightarrow> unarchive now i s = (Inr r, s') \<Longrightarrow>
         wf s' \<and> find_any j sc s' =
           map_option (if j = i then set_archived now None else id) (find_any j sc s)"
    and delete_ok: "wf s \<Longrightarrow> delete now i s = (Inr r, s') \<Longrightarrow>
         wf s' \<and> find_any j sc s' =
           map_option (if j = i then set_deleted now else id) (find_any j sc s)"
    and archive_fail: "archive now i s = (Inl e, s') \<Longrightarrow> s' = s"
    and unarchive_fail: "unarchive now i s = (Inl e, s') \<Longrightarrow> s' = s"
    and delete_fail: "delete now i s = (Inl e, s') \<Longrightarrow> s' = s"
    and archivedAt_set [simp]: "archivedAt (set_archived now a r) = a"
    and deletedAt_set [simp]: "deletedAt (set_archived now a r) = deletedAt r"
    and deletedAt_set_deleted [simp]: "deletedAt (set_deleted now r) = Some now"
begin

lemma archive_hides:
  assumes "wf s" "archive now i s = (Inr r, s')"
  shows "find_active i sc s' = None"
proof (rule ccontr)
  assume "find_active i sc s' \<noteq> None"
  then obtain x where x: "find_active i sc s' = Some x" by auto
  from archive_ok [OF assms] have "wf s'" and
    "find_any i sc s' = map_option (set_archived now (Some now)) (find_any i sc s)" by auto
  with x show False by (auto simp: active_iff)
qed

lemma unarchive_restores:
  assumes "wf s" "unarchive now i s = (Inr r, s')"
    and "find_any i sc s = Some x" "deletedAt x = None"
  shows "find_active i sc s' = Some (set_archived now None x)"
  using unarchive_ok [OF assms(1,2), of i sc] assms(3,4) by (auto simp: active_iff)

lemma unarchive_keeps_deleted:
  assumes "wf s" "unarchive now i s = (Inr r, s')"
    and "find_any i sc s = Some x" "deletedAt x \<noteq> None"
  shows "find_active i sc s' = None"
proof (rule ccontr)
  assume "find_active i sc s' \<noteq> None"
  then obtain y where "find_active i sc s' = Some y" by auto
  with unarchive_ok [OF assms(1,2), of i sc] assms(3,4) show False by (auto simp: active_iff)
qed

abbreviation step :: "life_op \<Rightarrow> db \<Rightarrow> 'r outcome" where
  "step \<equiv> life_step archive unarchive delete"

lemma step_wf: "wf s \<Longrightarrow> wf (snd (step x s))"
proof (cases x)
  case (Archive now i)
  assume "wf s"
  then show ?thesis using Archive
    by (cases "archive now i s"; cases "fst (archive now i s)") (auto dest: archive_ok archive_fail)
next
  case (Unarchive now i)
  assume "wf s"
  then show ?thesis using Unarchive
    by (cases "unarchive now i s"; cases "fst (unarchive now i s)")
       (auto dest: unarchive_ok unarchive_fail)
next
  case (Delete now i)
  assume "wf s"
  then show ?thesis using Delete
    by (cases "delete now i s"; cases "fst (delete now i s)") (auto dest: delete_ok delete_fail)
qed

text \<open>A row marked deleted keeps its mark through every further operation.\<close>

lemma step_deleted:
  assumes "wf s" "find_any i sc s = Some r" "deletedAt r \<noteq> None"
  shows "\<exists>r'. find_any i sc (snd (step x s)) = Some r' \<and> deletedAt r' \<noteq> None"
proof (cases x)
  case (Archive now j)
  then show ?thesis using assms
    by (cases "archive now j s"; cases "fst (archive now j s)")
       (auto dest!: archive_fail dest: archive_ok [where j = i and sc = sc])
next
  case (Unarchive now j)
  then show ?thesis using assms
    by (cases "unarchive now j s"; cases "fst (unarchive now j s)")
       (auto dest!: unarchive_fail dest: unarchive_ok [where j = i and sc = sc])
next
  case (Delete now j)
  then show ?thesis using assms
    by (cases "delete now j s"; cases "fst (delete now j s)")
       (auto dest!: delete_fail dest: delete_ok [where j = i and sc = sc])
qed

lemma deleted_stays_inactive:
  assumes "wf s" "find_any i sc s = Some r" "deletedAt r \<noteq> None"
  shows "find_active i sc (life_run step xs s) = None"
  using assms
proof (induction xs arbitrary: s r)
  case Nil
  then show ?case
    by (cases "find_active i sc s") (auto simp: active_iff)
next
  case (Cons x xs)
  from step_deleted [OF Cons.prems, of x] obtain r' where
    "find_any i sc (snd (step x s)) = Some r'" "deletedAt r' \<noteq> None" by blast
  with Cons.IH [OF step_wf [OF Cons.prems(1)]] show ?case by simp
qed

end

end
