(* ===== verification/Paging.thy ===== *)
theory Paging
  imports Tables
begin

text \<open>
  Cursor pagination. \<open>buildCursorPagination\<close> models
  \<open>src/common/utils/pagination.util.ts\<close>; \<open>trim_page\<close> is the same computation as the repositories
  of boards, lists, cards and time entries write it inline. The database client's own part,
  which rows follow a cursor row in the query's order, is the parameter \<open>after\<close>; its
  documented behaviour is \<open>follows_cursor\<close>. The lemmas show that a client that follows the
  cursors until \<open>hasMore\<close> is false sees every row once and in order.
\<close>

record 'r page =
  pageItems :: "'r list"
  pageCursor :: "uuid option"
  pageHasMore :: bool

definition buildCursorPagination :: "('r \<Rightarrow> string) \<Rightarrow> 'r list \<Rightarrow> nat \<Rightarrow> 'r page" where
  "buildCursorPagination extract items limit =
     (let hasMore = limit < length items;
          page = (if hasMore then take limit items else items);
          nextCursor = (if hasMore \<and> 0 < length page then Some (extract (last page)) else None)
      in \<lparr>pageItems = page, pageCursor = nextCursor, pageHasMore = hasMore\<rparr>)"

definition trim_page :: "('r \<Rightarrow> string) \<Rightarrow> 'r list \<Rightarrow> nat \<Rightarrow> error + 'r page" where
  "trim_page key rows limit =
     (let hasMore = limit < length rows;
          items = (if hasMore then take limit rows else rows)
      in if hasMore \<and> items = [] then Inl JsTypeError
         else Inr \<lparr>pageItems = items,
                    pageCursor = (if hasMore then Some (key (last items)) else None),
                    pageHasMore = hasMore\<rparr>)"

text \<open>
  The rows a \<open>findMany\<close> returns for a page: all rows that match, or those after the cursor row
  when the cursor is truthy (\<open>cursor: { id }, skip: 1\<close>), at most \<open>n\<close> of them.
\<close>

type_synonym 'r cursor_seek = "uuid \<Rightarrow> 'r list \<Rightarrow> error + 'r list"

definition take_page ::
  "'r cursor_seek \<Rightarrow> uuid option \<Rightarrow> nat \<Rightarrow> 'r list \<Rightarrow> error + 'r list" where
  "take_page after cursor n rows =
     (case cursor of
        None \<Rightarrow> Inr (take n rows)
      | Some c \<Rightarrow> if c = [] then Inr (take n rows)
                  else (case after c rows of Inl e \<Rightarrow> Inl e | Inr rest \<Rightarrow> Inr (take n rest)))"

text \<open>A stale cursor is retried without one (the repositories that catch \<open>P2025\<close>).\<close>

definition take_page_or_first ::
  "'r cursor_seek \<Rightarrow> uuid option \<Rightarrow> nat \<Rightarrow> 'r list \<Rightarrow> error + 'r list" where
  "take_page_or_first after cursor n rows =
     (case take_page after cursor n rows of
        Inr page \<Rightarrow> Inr page
      | Inl e \<Rightarrow> if truthy cursor \<and> e = PrismaError ''P2025'' then take_page after None n rows
                 else Inl e)"

definition follows_cursor :: "'r cursor_seek \<Rightarrow> ('r \<Rightarrow> uuid) \<Rightarrow> 'r list \<Rightarrow> bool" where
  "follows_cursor after key rows \<longleftrightarrow>
     (\<forall>pre c post. rows = pre @ c # post \<longrightarrow> after (key c) rows = Inr post)"

text \<open>A cursor seek that behaves so, for concrete inputs.\<close>

definition seek_after :: "('r \<Rightarrow> uuid) \<Rightarrow> 'r cursor_seek" where
  "seek_after key c rows =
     (case dropWhile (\<lambda>r. key r \<noteq> c) rows of
        [] \<Rightarrow> Inl (PrismaError ''P2025'') | _ # rest \<Rightarrow> Inr rest)"

lemma seek_after_follows: "distinct (map key rows) \<Longrightarrow> follows_cursor (seek_after key) key rows"
proof (unfold follows_cursor_def, intro allI impI)
  fix pre c post
  assume d: "distinct (map key rows)" and r: "rows = pre @ c # post"
  from d r have "\<forall>x\<in>set pre. key x \<noteq> key c" by (auto simp: image_iff)
  then have "dropWhile (\<lambda>x. key x \<noteq> key c) rows = c # post"
    by (simp add: r dropWhile_append1 dropWhile_append2)
  then show "seek_after key (key c) rows = Inr post"
    by (simp add: seek_after_def)
qed

text \<open>A client that follows the cursors; \<open>None\<close> when the fuel runs out.\<close>

fun walk_pages ::
  "nat \<Rightarrow> (uuid option \<Rightarrow> error + 'r page) \<Rightarrow> uuid option \<Rightarrow> (error + 'r list) option" where
  "walk_pages 0 fetch c = None"
| "walk_pages (Suc fuel) fetch c =
     (case fetch c of
        Inl e \<Rightarrow> Some (Inl e)
      | Inr p \<Rightarrow>
          if pageHasMore p
          then (case walk_pages fuel fetch (pageCursor p) of
                  None \<Rightarrow> None
                | Some (Inl e) \<Rightarrow> Some (Inl e)
                | Some (Inr rest) \<Rightarrow> Some (Inr (pageItems p @ rest)))
          else Some (Inr (pageItems p)))"

section \<open>The page computations\<close>

lemma build_page_short:
  "length items \<le> limit \<Longrightarrow>
   buildCursorPagination key items limit = \<lparr>pageItems = items, pageCursor = None, pageHasMore = False\<rparr>"
  by (simp add: buildCursorPagination_def)

lemma build_page_long:
  "0 < limit \<Longrightarrow> limit < length items \<Longrightarrow>
   buildCursorPagination key items limit =
     \<lparr>pageItems = take limit items, pageCursor = Some (key (items ! (limit - 1))), pageHasMore = True\<rparr>"
  by (auto simp: buildCursorPagination_def Let_def last_conv_nth min_def)

lemma trim_page_eq:
  "0 < limit \<Longrightarrow> trim_page key rows limit = Inr (buildCursorPagination key rows limit)"
  by (cases "limit < length rows")
     (auto simp: trim_page_def buildCursorPagination_def Let_def last_conv_nth min_def)

lemma take_page_None [simp]: "take_page after None n rows = Inr (take n rows)"
  by (simp add: take_page_def)

lemma build_page_take:
  "buildCursorPagination key (take (Suc limit) rows) limit = buildCursorPagination key rows limit"
  by (cases "limit < length rows") (auto simp: buildCursorPagination_def Let_def min_def)

lemma build_page_bound: "length (pageItems (buildCursorPagination key items limit)) \<le> limit"
  by (auto simp: buildCursorPagination_def Let_def)

section \<open>Following the cursors\<close>

text \<open>
  What the walk needs of a fetch over \<open>rows\<close>: without cursor it pages the rows, with the cursor
  of a row it pages what follows that row.
\<close>

definition pages_of ::
  "(uuid option \<Rightarrow> error + 'r page) \<Rightarrow> ('r \<Rightarrow> uuid) \<Rightarrow> nat \<Rightarrow> 'r list \<Rightarrow> bool" where
  "pages_of fetch key limit rows \<longleftrightarrow>
     fetch None = Inr (buildCursorPagination key rows limit) \<and>
     (\<forall>pre c post. rows = pre @ c # post \<longrightarrow>
        fetch (Some (key c)) = Inr (buildCursorPagination key post limit))"

lemma walk_suffix:
  assumes "pages_of fetch key limit rows" "0 < limit" "rows = pre @ post"
    and "fetch c = Inr (buildCursorPagination key post limit)" "length post < fuel"
  shows "walk_pages fuel fetch c = Some (Inr post)"
  using assms(3-5)
proof (induction fuel arbitrary: pre post c)
  case 0
  then show ?case by simp
next
  case (Suc fuel)
  show ?case
  proof (cases "limit < length post")
    case False
    with Suc.prems show ?thesis by (simp add: build_page_short)
  next
    case True
    let ?c = "post ! (limit - 1)"
    from True assms(2) have dec: "post = take (limit - 1) post @ ?c # drop limit post"
      by (metis Suc_diff_1 id_take_nth_drop less_imp_diff_less)
    then have split: "rows = (pre @ take (limit - 1) post) @ ?c # drop limit post"
      using Suc.prems(1) by simp
    with assms(1) have next_fetch:
      "fetch (Some (key ?c)) = Inr (buildCursorPagination key (drop limit post) limit)"
      unfolding pages_of_def by blast
    have rows2: "rows = (pre @ take limit post) @ drop limit post"
      using Suc.prems(1) by simp
    have "length (drop limit post) < fuel"
      using Suc.prems(3) True assms(2) by simp
    from Suc.IH [OF rows2 next_fetch this] True assms(2) Suc.prems(2)
    show ?thesis by (simp add: build_page_long)
  qed
qed

lemma walk_all:
  assumes "pages_of fetch key limit rows" "0 < limit"
  shows "walk_pages (Suc (length rows)) fetch None = Some (Inr rows)"
  by (rule walk_suffix [OF assms, of "[]"]) (use assms in \<open>auto simp: pages_of_def\<close>)

text \<open>Both ways the repositories write a page meet that requirement.\<close>

lemma pages_of_trim:
  assumes "follows_cursor after key rows" "0 < limit" "\<forall>r\<in>set rows. key r \<noteq> []"
  shows "pages_of (\<lambda>c. case take_page after c (Suc limit) rows of
                        Inl e \<Rightarrow> Inl e | Inr xs \<Rightarrow> trim_page key xs limit) key limit rows"
  using assms
  by (auto simp: pages_of_def follows_cursor_def take_page_def trim_page_eq build_page_take)

lemma pages_of_build:
  assumes "follows_cursor after key rows" "0 < limit" "\<forall>r\<in>set rows. key r \<noteq> []"
  shows "pages_of (\<lambda>c. case take_page_or_first after c (Suc limit) rows of
                        Inl e \<Rightarrow> Inl e | Inr xs \<Rightarrow> Inr (buildCursorPagination key xs limit)) key limit rows"
  using assms
  by (auto simp: pages_of_def follows_cursor_def take_page_def take_page_or_first_def build_page_take)

end
