(* ===== verification/Boards.thy ===== *)
theory Boards
  imports Soft_Delete Paging
begin

text \<open>
  Boards: \<open>BoardRepository\<close> (\<open>core/repositories/board.repository.ts\<close>), \<open>BoardService\<close>
  (\<open>core/services/board.service.ts\<close>) and \<open>assertBoardInWorkspace\<close>, the guard with which
  almost every board, list, card, checklist, comment, field and time operation starts. The clock
  (\<open>new Date()\<close>, column defaults) and the identifiers the database generates are arguments.
  The repository's lifecycle operations interpret \<open>soft_delete_repo\<close>.
\<close>

section \<open>BoardRepository\<close>

definition boardRepo_create ::
  "uuid \<Rightarrow> instant \<Rightarrow> uuid \<Rightarrow> string \<Rightarrow> string option \<Rightarrow> string option \<Rightarrow> uuid \<Rightarrow> db \<Rightarrow> board_row outcome" where
  [op_defs]: "boardRepo_create newId now ws title descr color creator s =
     (let row = \<lparr>boardId = newId, boardWorkspaceId = ws, boardTitle = title,
                 boardDescription = descr, boardBackgroundColor = color, boardCreatedBy = creator,
                 boardCreatedAt = now, boardUpdatedAt = now,
                 boardArchivedAt = None, boardDeletedAt = None\<rparr>
      in or_conflict (insert_row boardId row (boards s)) (\<lambda>rows s. (Inr row, s\<lparr>boards := rows\<rparr>)) s)"

definition boardRepo_findById :: "uuid \<Rightarrow> uuid option \<Rightarrow> db \<Rightarrow> board_row option" where
  "boardRepo_findById i ws s =
     find (\<lambda>b. boardId b = i \<and> boardArchivedAt b = None \<and> boardDeletedAt b = None \<and>
               in_scope ws (boardWorkspaceId b)) (boards s)"

definition boardRepo_findByIdIncludingArchived :: "uuid \<Rightarrow> uuid option \<Rightarrow> db \<Rightarrow> board_row option" where
  "boardRepo_findByIdIncludingArchived i ws s =
     find (\<lambda>b. boardId b = i \<and> in_scope ws (boardWorkspaceId b)) (boards s)"

definition boardRepo_findByIdIncludingDeleted :: "uuid \<Rightarrow> uuid option \<Rightarrow> db \<Rightarrow> board_row option" where
  "boardRepo_findByIdIncludingDeleted i ws s =
     find (\<lambda>b. boardId b = i \<and> in_scope ws (boardWorkspaceId b)) (boards s)"

definition boardRepo_countLists :: "uuid \<Rightarrow> db \<Rightarrow> nat" where
  "boardRepo_countLists i s =
     length (filter (\<lambda>l. listBoardId l = i \<and> listArchivedAt l = None \<and> listDeletedAt l = None) (lists s))"

definition boardRepo_countCards :: "uuid \<Rightarrow> db \<Rightarrow> nat" where
  "boardRepo_countCards i s =
     length (filter (\<lambda>c. list_ex (\<lambda>l. listId l = cardListId c \<and> listBoardId l = i) (lists s) \<and>
                         cardArchivedAt c = None \<and> cardDeletedAt c = None) (cards s))"

text \<open>Boards of a workspace, newest first; a stale cursor degrades to the first page.\<close>

definition boardRepo_findWorkspaceBoardsPage ::
  "board_row cursor_seek \<Rightarrow> uuid \<Rightarrow> uuid option \<Rightarrow> nat \<Rightarrow> db \<Rightarrow> error + board_row list" where
  "boardRepo_findWorkspaceBoardsPage after ws cursor limit s =
     take_page_or_first after cursor (Suc limit)
       (order_desc (\<lambda>b. (boardCreatedAt b, boardId b))
         (filter (\<lambda>b. boardWorkspaceId b = ws \<and> boardArchivedAt b = None \<and> boardDeletedAt b = None)
           (boards s)))"

definition boardRepo_update ::
  "instant \<Rightarrow> uuid \<Rightarrow> (board_row \<Rightarrow> board_row) \<Rightarrow> db \<Rightarrow> board_row outcome" where
  [op_defs]: "boardRepo_update now i data s =
     or_missing (update_by boardId i (\<lambda>b. (data b)\<lparr>boardUpdatedAt := now\<rparr>) (boards s))
       (\<lambda>(row, rows) s. (Inr row, s\<lparr>boards := rows\<rparr>)) s"

definition boardRepo_archive :: "instant \<Rightarrow> uuid \<Rightarrow> db \<Rightarrow> board_row outcome" where
  "boardRepo_archive now i s = boardRepo_update now i (\<lambda>b. b\<lparr>boardArchivedAt := Some now\<rparr>) s"

definition boardRepo_unarchive :: "instant \<Rightarrow> uuid \<Rightarrow> db \<Rightarrow> board_row outcome" where
  "boardRepo_unarchive now i s = boardRepo_update now i (\<lambda>b. b\<lparr>boardArchivedAt := None\<rparr>) s"

definition boardRepo_deletePermanently :: "instant \<Rightarrow> uuid \<Rightarrow> db \<Rightarrow> board_row outcome" where
  "boardRepo_deletePermanently now i s = boardRepo_update now i (\<lambda>b. b\<lparr>boardDeletedAt := Some now\<rparr>) s"

definition boardRepo_starBoard :: "instant \<Rightarrow> uuid \<Rightarrow> uuid \<Rightarrow> db \<Rightarrow> unit outcome" where
  [op_defs]: "boardRepo_starBoard now user board s =
     (if list_ex (\<lambda>x. starUserId x = user \<and> starBoardId x = board) (stars s) then (Inr (), s)
      else (Inr (), s\<lparr>stars := stars s @ [\<lparr>starUserId = user, starBoardId = board, starredAt = now\<rparr>]\<rparr>))"

definition boardRepo_unstarBoard :: "uuid \<Rightarrow> uuid \<Rightarrow> db \<Rightarrow> unit outcome" where
  [op_defs]: "boardRepo_unstarBoard user board s =
     (Inr (), s\<lparr>stars := filter (\<lambda>x. \<not> (starUserId x = user \<and> starBoardId x = board)) (stars s)\<rparr>)"

definition archived_boards :: "uuid \<Rightarrow> db \<Rightarrow> board_row list" where
  "archived_boards ws s =
     order_desc (\<lambda>b. (boardArchivedAt b, boardId b))
       (filter (\<lambda>b. boardWorkspaceId b = ws \<and> boardArchivedAt b \<noteq> None \<and> boardDeletedAt b = None)
         (boards s))"

definition boardRepo_findArchivedBoardsPage ::
  "board_row cursor_seek \<Rightarrow> uuid \<Rightarrow> uuid option \<Rightarrow> nat \<Rightarrow> db \<Rightarrow> error + board_row page" where
  "boardRepo_findArchivedBoardsPage after ws cursor limit s =
     (case take_page after cursor (Suc limit) (archived_boards ws s) of
        Inl e \<Rightarrow> Inl e
      | Inr rows \<Rightarrow> trim_page boardId rows limit)"

section \<open>assertBoardInWorkspace\<close>

definition assertBoardInWorkspace ::
  "uuid \<Rightarrow> uuid option \<Rightarrow> (db \<Rightarrow> 'a outcome) \<Rightarrow> db \<Rightarrow> 'a outcome" where
  "assertBoardInWorkspace i ws k s =
     (case boardRepo_findById i ws s of
        None \<Rightarrow> (Inl (EntityNotFound ''Board'' i), s)
      | Some b \<Rightarrow> k s)"

section \<open>BoardService\<close>

record create_board_dto =
  cbTitle :: string
  cbDescription :: "string option"
  cbBackgroundColor :: "string option"

record update_board_dto =
  ubTitle :: "string option"
  ubDescription :: "string patch"
  ubBackgroundColor :: "string patch"

definition boardService_create ::
  "uuid \<Rightarrow> instant \<Rightarrow> uuid \<Rightarrow> create_board_dto \<Rightarrow> uuid \<Rightarrow> db \<Rightarrow> board_row outcome" where
  [op_defs]: "boardService_create newId now ws dto user s =
     await (boardRepo_create newId now ws (cbTitle dto) (cbDescription dto)
              (Some (case cbBackgroundColor dto of None \<Rightarrow> ''#1A1A2E'' | Some c \<Rightarrow> c)) user s)
       (\<lambda>board s. (Inr board, emit (BoardCreated board user) s))"

definition boardService_listWorkspaceBoards ::
  "board_row cursor_seek \<Rightarrow> uuid \<Rightarrow> uuid option \<Rightarrow> nat option \<Rightarrow> db \<Rightarrow> error + board_row page" where
  "boardService_listWorkspaceBoards after ws cursor limit s =
     (let lim = (case limit of None \<Rightarrow> 20 | Some n \<Rightarrow> n)
      in case boardRepo_findWorkspaceBoardsPage after ws cursor lim s of
           Inl e \<Rightarrow> Inl e
         | Inr rows \<Rightarrow> Inr (buildCursorPagination boardId rows lim))"

definition boardService_update ::
  "instant \<Rightarrow> uuid \<Rightarrow> uuid \<Rightarrow> update_board_dto \<Rightarrow> uuid \<Rightarrow> db \<Rightarrow> board_row outcome" where
  [op_defs]: "boardService_update now i ws dto user s =
     (case boardRepo_findById i (Some ws) s of
        None \<Rightarrow> (Inl (EntityNotFound ''Board'' i), s)
      | Some board \<Rightarrow>
          await (boardRepo_update now i
                   (\<lambda>b. b\<lparr>boardTitle := or_keep (ubTitle dto) (boardTitle b),
                         boardDescription := apply_patch (ubDescription dto) (boardDescription b),
                         boardBackgroundColor :=
                           apply_patch (ubBackgroundColor dto) (boardBackgroundColor b)\<rparr>) s)
            (\<lambda>updated s. (Inr updated, emit (BoardUpdated updated user) s)))"

definition boardService_archive :: "instant \<Rightarrow> uuid \<Rightarrow> uuid \<Rightarrow> uuid \<Rightarrow> db \<Rightarrow> unit outcome" where
  [op_defs]: "boardService_archive now i ws user s =
     (case boardRepo_findById i (Some ws) s of
        None \<Rightarrow> (Inl (EntityNotFound ''Board'' i), s)
      | Some board \<Rightarrow>
          await (boardRepo_archive now i s)
            (\<lambda>_ s. (Inr (), emit (BoardArchived i ws user) s)))"

definition boardService_unarchive :: "instant \<Rightarrow> uuid \<Rightarrow> uuid \<Rightarrow> uuid \<Rightarrow> db \<Rightarrow> board_row outcome" where
  [op_defs]: "boardService_unarchive now i ws user s =
     (case boardRepo_findByIdIncludingArchived i (Some ws) s of
        None \<Rightarrow> (Inl (EntityNotFound ''Board'' i), s)
      | Some board \<Rightarrow>
          await (boardRepo_unarchive now i s)
            (\<lambda>restored s. (Inr restored, emit (BoardUnarchived restored user) s)))"

definition boardService_listArchivedBoardsPaginated ::
  "board_row cursor_seek \<Rightarrow> uuid \<Rightarrow> uuid option \<Rightarrow> nat option \<Rightarrow> db \<Rightarrow> error + board_row page" where
  "boardService_listArchivedBoardsPaginated after ws cursor limit s =
     boardRepo_findArchivedBoardsPage after ws cursor (case limit of None \<Rightarrow> 20 | Some n \<Rightarrow> n) s"

definition boardService_deletePermanently :: "instant \<Rightarrow> uuid \<Rightarrow> uuid \<Rightarrow> uuid \<Rightarrow> db \<Rightarrow> unit outcome" where
  [op_defs]: "boardService_deletePermanently now i ws user s =
     (case boardRepo_findByIdIncludingDeleted i (Some ws) s of
        None \<Rightarrow> (Inl (EntityNotFound ''Board'' i), s)
      | Some board \<Rightarrow>
          if boardDeletedAt board \<noteq> None then (Inl (BusinessRule ''BOARD_ALREADY_DELETED''), s)
          else await (boardRepo_deletePermanently now i s)
                 (\<lambda>_ s. (Inr (), emit (BoardDeleted i ws user) s)))"

definition boardService_starBoard :: "instant \<Rightarrow> uuid \<Rightarrow> uuid \<Rightarrow> uuid \<Rightarrow> db \<Rightarrow> unit outcome" where
  [op_defs]: "boardService_starBoard now user i ws s =
     (case boardRepo_findById i (Some ws) s of
        None \<Rightarrow> (Inl (EntityNotFound ''Board'' i), s)
      | Some board \<Rightarrow> boardRepo_starBoard now user i s)"

definition boardService_unstarBoard :: "uuid \<Rightarrow> uuid \<Rightarrow> uuid \<Rightarrow> db \<Rightarrow> unit outcome" where
  [op_defs]: "boardService_unstarBoard user i ws s =
     (case boardRepo_findById i (Some ws) s of
        None \<Rightarrow> (Inl (EntityNotFound ''Board'' i), s)
      | Some board \<Rightarrow> boardRepo_unstarBoard user i s)"

definition boardService_findWorkspaceIdByBoardId :: "uuid \<Rightarrow> db \<Rightarrow> uuid option" where
  "boardService_findWorkspaceIdByBoardId i s =
     (case boardRepo_findById i None s of
        Some b \<Rightarrow> Some (boardWorkspaceId b)
      | None \<Rightarrow> map_option boardWorkspaceId (boardRepo_findByIdIncludingArchived i None s))"

section \<open>Lookup and update\<close>

definition boards_wf :: "db \<Rightarrow> bool" where
  "boards_wf s \<longleftrightarrow> unique_key boardId (boards s)"

lemma boardRepo_findById_SomeD:
  assumes "boardRepo_findById i ws s = Some b"
  shows "b \<in> set (boards s)" "boardId b = i" "boardArchivedAt b = None" "boardDeletedAt b = None"
    "in_scope ws (boardWorkspaceId b)"
  using assms by (auto simp: boardRepo_findById_def dest!: find_SomeD)

lemma boardRepo_findAny_SomeD:
  assumes "boardRepo_findByIdIncludingDeleted i ws s = Some b"
  shows "b \<in> set (boards s)" "boardId b = i" "in_scope ws (boardWorkspaceId b)"
  using assms by (auto simp: boardRepo_findByIdIncludingDeleted_def dest!: find_SomeD)

lemma boardRepo_archived_eq_deleted:
  "boardRepo_findByIdIncludingArchived = boardRepo_findByIdIncludingDeleted"
  by (simp add: fun_eq_iff boardRepo_findByIdIncludingArchived_def boardRepo_findByIdIncludingDeleted_def)

lemma board_active_iff:
  assumes "boards_wf s"
  shows "boardRepo_findById i ws s = Some b \<longleftrightarrow>
    boardRepo_findByIdIncludingDeleted i ws s = Some b \<and> boardArchivedAt b = None \<and> boardDeletedAt b = None"
proof -
  have "boardRepo_findById i ws s = Some b \<longleftrightarrow> b \<in> set (boards s) \<and> boardId b = i \<and>
      boardArchivedAt b = None \<and> boardDeletedAt b = None \<and> in_scope ws (boardWorkspaceId b)"
    unfolding boardRepo_findById_def
    by (auto dest: find_SomeD intro!: find_unique [OF assms [unfolded boards_wf_def]])
  moreover have "boardRepo_findByIdIncludingDeleted i ws s = Some b \<longleftrightarrow> b \<in> set (boards s) \<and>
      boardId b = i \<and> in_scope ws (boardWorkspaceId b)"
    unfolding boardRepo_findByIdIncludingDeleted_def
    by (auto dest: find_SomeD intro!: find_unique [OF assms [unfolded boards_wf_def]])
  ultimately show ?thesis by auto
qed

lemma boardRepo_update_ok:
  assumes "boardRepo_update now i data s = (Inr row, s')"
    and "\<And>b. boardId (data b) = boardId b" "\<And>b. boardWorkspaceId (data b) = boardWorkspaceId b"
  shows "s' = s\<lparr>boards := map (\<lambda>b. if boardId b = i then (data b)\<lparr>boardUpdatedAt := now\<rparr> else b) (boards s)\<rparr>"
    and "boards_wf s' = boards_wf s"
    and "boardRepo_findByIdIncludingDeleted j ws s' =
      map_option (if j = i then (\<lambda>b. (data b)\<lparr>boardUpdatedAt := now\<rparr>) else id)
        (boardRepo_findByIdIncludingDeleted j ws s)"
proof -
  from assms(1) show s': "s' = s\<lparr>boards := map (\<lambda>b. if boardId b = i
      then (data b)\<lparr>boardUpdatedAt := now\<rparr> else b) (boards s)\<rparr>"
    by (auto simp: boardRepo_update_def or_missing_Inr_iff update_by_Some_iff)
  show "boards_wf s' = boards_wf s"
    by (simp add: s' boards_wf_def unique_key_map assms(2))
  show "boardRepo_findByIdIncludingDeleted j ws s' =
      map_option (if j = i then (\<lambda>b. (data b)\<lparr>boardUpdatedAt := now\<rparr>) else id)
        (boardRepo_findByIdIncludingDeleted j ws s)"
    unfolding boardRepo_findByIdIncludingDeleted_def s'
    by (simp add: find_map_update assms(2,3))
qed

lemma boardRepo_update_fail: "boardRepo_update now i data s = (Inl e, s') \<Longrightarrow> s' = s"
  by (auto simp: boardRepo_update_def or_missing_def split: option.splits)

definition board_set_archived :: "instant \<Rightarrow> instant option \<Rightarrow> board_row \<Rightarrow> board_row" where
  "board_set_archived now a b = b\<lparr>boardArchivedAt := a, boardUpdatedAt := now\<rparr>"

definition board_set_deleted :: "instant \<Rightarrow> board_row \<Rightarrow> board_row" where
  "board_set_deleted now b = b\<lparr>boardDeletedAt := Some now, boardUpdatedAt := now\<rparr>"

interpretation boards: soft_delete_repo boards_wf boardRepo_findById boardRepo_findByIdIncludingDeleted
  boardRepo_archive boardRepo_unarchive boardRepo_deletePermanently boardArchivedAt boardDeletedAt
  board_set_archived board_set_deleted
proof (unfold_locales, goal_cases)
  case (1 s i sc r)
  then show ?case by (rule board_active_iff)
next
  case (2 s now i r s' j sc)
  then show ?case unfolding boardRepo_archive_def
    by (simp add: boardRepo_update_ok(2,3) [OF 2(2) [unfolded boardRepo_archive_def]]
        board_set_archived_def [abs_def])
next
  case (3 s now i r s' j sc)
  then show ?case
    by (simp add: boardRepo_update_ok(2,3) [OF 3(2) [unfolded boardRepo_unarchive_def]]
        board_set_archived_def [abs_def])
next
  case (4 s now i r s' j sc)
  then show ?case
    by (simp add: boardRepo_update_ok(2,3) [OF 4(2) [unfolded boardRepo_deletePermanently_def]]
        board_set_deleted_def [abs_def])
qed (auto simp: boardRepo_archive_def boardRepo_unarchive_def boardRepo_deletePermanently_def
      board_set_archived_def board_set_deleted_def dest: boardRepo_update_fail)

end
