(* ===== verification/Rank_Service.thy ===== *)
theory Rank_Service
  imports Tables
begin

text \<open>
  \<open>LexorankService\<close> (\<open>src/modules/board/lexorank/lexorank.service.ts\<close>). The \<open>lexorank\<close>
  package is not part of the repository, so its operations are a parameter \<open>lx\<close>: parsing and the
  three generators may throw, which is \<open>None\<close>. Its documented behaviour with respect to the order
  \<open>le\<close> the database sorts rank strings by is \<open>lexorank_laws\<close>, a hypothesis of the theorems that
  need it. The locale \<open>rank_service\<close> is what lists, cards and checklists rely on.
\<close>

record 'r lexorank =
  lxMiddle :: 'r
  lxParse :: "string \<Rightarrow> 'r option"
  lxGenPrev :: "'r \<Rightarrow> 'r option"
  lxGenNext :: "'r \<Rightarrow> 'r option"
  lxBetween :: "'r \<Rightarrow> 'r \<Rightarrow> 'r option"
  lxToString :: "'r \<Rightarrow> string"

definition getInitialRank :: "'r lexorank \<Rightarrow> string" where
  "getInitialRank lx = lxToString lx (lxMiddle lx)"

text \<open>Everything the library throws becomes the business rule error.\<close>

definition rank_or_invalid :: "'r lexorank \<Rightarrow> 'r option \<Rightarrow> error + string" where
  "rank_or_invalid lx r =
     (case r of None \<Rightarrow> Inl (BusinessRule ''INVALID_RANK'') | Some x \<Rightarrow> Inr (lxToString lx x))"

definition getRankBetween ::
  "'r lexorank \<Rightarrow> string option \<Rightarrow> string option \<Rightarrow> error + string" where
  "getRankBetween lx prevRank nextRank =
     (if \<not> truthy prevRank \<and> \<not> truthy nextRank then Inr (getInitialRank lx)
      else if \<not> truthy prevRank \<and> truthy nextRank then
        rank_or_invalid lx (Option.bind (lxParse lx (the nextRank)) (lxGenPrev lx))
      else if truthy prevRank \<and> \<not> truthy nextRank then
        rank_or_invalid lx (Option.bind (lxParse lx (the prevRank)) (lxGenNext lx))
      else
        (case (lxParse lx (the prevRank), lxParse lx (the nextRank)) of
           (Some parsedPrev, Some parsedNext) \<Rightarrow>
             rank_or_invalid lx (lxBetween lx parsedPrev parsedNext)
         | _ \<Rightarrow> Inl (BusinessRule ''INVALID_RANK'')))"

section \<open>The interface of the ordered containers\<close>

locale rank_service =
  fixes initial :: string
    and between :: "string option \<Rightarrow> string option \<Rightarrow> error + string"
  assumes between_neither: "\<not> truthy p \<Longrightarrow> \<not> truthy n \<Longrightarrow> between p n = Inr initial"
    and between_error: "between p n = Inl e \<Longrightarrow> e = BusinessRule ''INVALID_RANK''"
begin

text \<open>A caller that falls back to the initial rank always gets a rank.\<close>

lemma fallback_total:
  "\<exists>r. (case between p n of Inl e \<Rightarrow> Inr initial | Inr x \<Rightarrow> Inr x) = (Inr r :: error + string)"
  by (cases "between p n") auto

text \<open>A caller that does not can only fail with the rule error, and not on two absent ranks.\<close>

lemma failure_needs_rank:
  assumes "between p n = Inl e"
  shows "e = BusinessRule ''INVALID_RANK'' \<and> (truthy p \<or> truthy n)"
  using between_neither [of p n] between_error [OF assms] assms by auto

end

lemma rank_or_invalid_error:
  "rank_or_invalid lx r = Inl e \<Longrightarrow> e = BusinessRule ''INVALID_RANK''"
  by (auto simp: rank_or_invalid_def split: option.splits)

interpretation lexo: rank_service "getInitialRank lx" "getRankBetween lx" for lx :: "'r lexorank"
proof
  fix p n :: "string option" and e
  show "\<not> truthy p \<Longrightarrow> \<not> truthy n \<Longrightarrow> getRankBetween lx p n = Inr (getInitialRank lx)"
    by (simp add: getRankBetween_def)
  assume "getRankBetween lx p n = Inl e"
  then show "e = BusinessRule ''INVALID_RANK''"
    by (auto simp: getRankBetween_def dest: rank_or_invalid_error split: if_splits option.splits)
qed

section \<open>Positions\<close>

definition strictly_before :: "(string \<Rightarrow> string \<Rightarrow> bool) \<Rightarrow> string \<Rightarrow> string \<Rightarrow> bool" where
  "strictly_before le a b \<longleftrightarrow> le a b \<and> \<not> le b a"

text \<open>
  What the package documents: its strings parse back, \<open>genNext\<close> and \<open>genPrev\<close> give later and
  earlier ranks, and \<open>between\<close> of two ordered ranks gives one strictly between them.
\<close>

definition lexorank_laws :: "'r lexorank \<Rightarrow> (string \<Rightarrow> string \<Rightarrow> bool) \<Rightarrow> bool" where
  "lexorank_laws lx le \<longleftrightarrow>
     (\<forall>a r. lxParse lx a = Some r \<longrightarrow> lxToString lx r = a) \<and>
     (\<forall>r. lxParse lx (lxToString lx r) = Some r \<and> lxToString lx r \<noteq> []) \<and>
     (\<forall>r r'. lxGenNext lx r = Some r' \<longrightarrow> strictly_before le (lxToString lx r) (lxToString lx r')) \<and>
     (\<forall>r r'. lxGenPrev lx r = Some r' \<longrightarrow> strictly_before le (lxToString lx r') (lxToString lx r)) \<and>
     (\<forall>a b c. strictly_before le (lxToString lx a) (lxToString lx b) \<longrightarrow> lxBetween lx a b = Some c \<longrightarrow>
        strictly_before le (lxToString lx a) (lxToString lx c) \<and>
        strictly_before le (lxToString lx c) (lxToString lx b))"

lemma lexorank_lawsD:
  assumes "lexorank_laws lx le"
  shows "lxParse lx a = Some r \<Longrightarrow> lxToString lx r = a"
    and "lxGenNext lx r = Some r' \<Longrightarrow> strictly_before le (lxToString lx r) (lxToString lx r')"
    and "lxGenPrev lx r = Some r' \<Longrightarrow> strictly_before le (lxToString lx r') (lxToString lx r)"
    and "strictly_before le (lxToString lx r1) (lxToString lx r2) \<Longrightarrow> lxBetween lx r1 r2 = Some c \<Longrightarrow>
           strictly_before le (lxToString lx r1) (lxToString lx c) \<and>
           strictly_before le (lxToString lx c) (lxToString lx r2)"
  using assms unfolding lexorank_laws_def by blast+

lemma rank_after:
  assumes "lexorank_laws lx le" "truthy (Some p)" "getRankBetween lx (Some p) None = Inr r"
  shows "strictly_before le p r"
proof -
  from assms(2,3) obtain a b where
    "lxParse lx p = Some a" "lxGenNext lx a = Some b" "r = lxToString lx b"
    by (auto simp: getRankBetween_def rank_or_invalid_def bind_eq_Some_conv split: option.splits)
  with lexorank_lawsD(1,2) [OF assms(1)] show ?thesis by metis
qed

text \<open>The rank generated after the last row of a container comes after every row of it.\<close>

lemma rank_appended:
  assumes "collation le" "lexorank_laws lx le" "first_desc le key rows = Some z" "key z \<noteq> []"
    and "getRankBetween lx (Some (key z)) None = Inr r" "x \<in> set rows"
  shows "strictly_before le (key x) r"
proof -
  have "strictly_before le (key z) r"
    using rank_after [OF assms(2) _ assms(5)] assms(4) by simp
  moreover have "le (key x) (key z)"
    by (rule first_desc_SomeD(2) [OF assms(3,1,6)])
  ultimately show ?thesis using assms(1) unfolding strictly_before_def collation_def by blast
qed

lemma rank_before:
  assumes "lexorank_laws lx le" "truthy (Some n)" "getRankBetween lx None (Some n) = Inr r"
  shows "strictly_before le r n"
proof -
  from assms(2,3) obtain a b where
    "lxParse lx n = Some a" "lxGenPrev lx a = Some b" "r = lxToString lx b"
    by (auto simp: getRankBetween_def rank_or_invalid_def bind_eq_Some_conv split: option.splits)
  with lexorank_lawsD(1,3) [OF assms(1)] show ?thesis by metis
qed

lemma rank_between:
  assumes "lexorank_laws lx le" "truthy (Some p)" "truthy (Some n)" "strictly_before le p n"
    and "getRankBetween lx (Some p) (Some n) = Inr r"
  shows "strictly_before le p r \<and> strictly_before le r n"
proof -
  from assms(2,3,5) obtain a b c where
    "lxParse lx p = Some a" "lxParse lx n = Some b" "lxBetween lx a b = Some c" "r = lxToString lx c"
    by (auto simp: getRankBetween_def rank_or_invalid_def split: option.splits)
  moreover from this have "p = lxToString lx a" "n = lxToString lx b"
    by (simp_all only: lexorank_lawsD(1) [OF assms(1)])
  ultimately show ?thesis using assms(4) lexorank_lawsD(4) [OF assms(1), of a b c] by simp
qed

text \<open>All four cases at once: the generated rank respects whichever neighbours are given.\<close>

lemma getRankBetween_places:
  assumes "lexorank_laws lx le"
    and "truthy p \<and> truthy n \<longrightarrow> strictly_before le (the p) (the n)" "getRankBetween lx p n = Inr r"
  shows "(truthy p \<longrightarrow> strictly_before le (the p) r) \<and> (truthy n \<longrightarrow> strictly_before le r (the n))"
proof -
  have falsy: "getRankBetween lx None n = getRankBetween lx p n" if "\<not> truthy p"
    using that by (simp add: getRankBetween_def)
  have falsy': "getRankBetween lx p None = getRankBetween lx p n" if "\<not> truthy n"
    using that by (simp add: getRankBetween_def)
  have some: "x = Some (the x)" if "truthy x" for x
    using that by (cases x) auto
  show ?thesis
  proof (cases "truthy p"; cases "truthy n")
    assume "truthy p" "truthy n"
    with rank_between [OF assms(1), of "the p" "the n" r] assms(2,3) show ?thesis by (simp flip: some)
  next
    assume "truthy p" "\<not> truthy n"
    with rank_after [OF assms(1), of "the p" r] assms(3) falsy' show ?thesis by (simp flip: some)
  next
    assume "\<not> truthy p" "truthy n"
    with rank_before [OF assms(1), of "the n" r] assms(3) falsy show ?thesis by (simp flip: some)
  qed simp
qed

text \<open>
  A concrete instance, to evaluate the model on: a rank is a positive number written in unary, and
  the order compares lengths. There is room after a rank, and before and between ranks that leave a
  gap.
\<close>

definition unary :: "nat \<Rightarrow> string" where
  "unary n = replicate (Suc n) CHR ''x''"

definition unary_lexorank :: "nat lexorank" where
  "unary_lexorank = \<lparr>
     lxMiddle = 99,
     lxParse = (\<lambda>t. if t = unary (length t - 1) then Some (length t - 1) else None),
     lxGenPrev = (\<lambda>n. if n = 0 then None else Some (n div 2)),
     lxGenNext = (\<lambda>n. Some (n + 10)),
     lxBetween = (\<lambda>a b. if a + 1 < b then Some ((a + b) div 2) else None),
     lxToString = unary\<rparr>"

definition shorter :: "string \<Rightarrow> string \<Rightarrow> bool" where
  "shorter a b \<longleftrightarrow> length a \<le> length b"

lemma length_unary [simp]: "length (unary n) = Suc n"
  by (simp add: unary_def)

lemma unary_not_Nil [simp]: "unary n \<noteq> []"
  by (simp add: unary_def)

lemma collation_shorter: "collation shorter"
  by (auto simp: collation_def shorter_def)

lemma unary_lexorank_laws: "lexorank_laws unary_lexorank shorter"
  by (auto simp: lexorank_laws_def unary_lexorank_def strictly_before_def shorter_def split: if_splits)

end
