(* ===== verification/Board_Lists.thy ===== *)
theory Board_Lists
  imports Boards Rank_Service
begin

text \<open>
  Lists (the columns of a board): \<open>ListRepository\<close> (\<open>list/repositories/list.repository.ts\<close>) and
  \<open>ListService\<close> (\<open>list/services/list.service.ts\<close>). \<open>le\<close> is the database's order on rank
  strings and \<open>lx\<close> the lexorank package. The repository's lifecycle operations interpret
  \<open>soft_delete_repo\<close>.
\<close>

section \<open>ListRepository\<close>

definition listRepo_create :: "uuid \<Rightarrow> instant \<Rightarrow> uuid \<Rightarrow> string \<Rightarrow> string \<Rightarrow> db \<Rightarrow> list_row outcome" where
  [op_defs]: "listRepo_create newId now board title rank s =
     (let row = \<lparr>listId = newId, listBoardId = board, listTitle = title, listRank = rank,
                 listCreatedAt = now, listUpdatedAt = now,
                 listArchivedAt = None, listDeletedAt = None\<rparr>
      in or_conflict (insert_row listId row (lists s)) (\<lambda>rows s. (Inr row, s\<lparr>lists := rows\<rparr>)) s)"

definition listRepo_findActiveById :: "uuid \<Rightarrow> uuid option \<Rightarrow> db \<Rightarrow> list_row option" where
  "listRepo_findActiveById i board s =
     find (\<lambda>l. listId l = i \<and> listArchivedAt l = None \<and> listDeletedAt l = None \<and>
               in_scope board (listBoardId l)) (lists s)"

definition listRepo_findByIdIncludingDeleted :: "uuid \<Rightarrow> uuid option \<Rightarrow> db \<Rightarrow> list_row option" where
  "listRepo_findByIdIncludingDeleted i board s =
     find (\<lambda>l. listId l = i \<and> in_scope board (listBoardId l)) (lists s)"

definition listRepo_findByIdIncludingArchived :: "uuid \<Rightarrow> uuid option \<Rightarrow> db \<Rightarrow> list_row option" where
  "listRepo_findByIdIncludingArchived i board s = listRepo_findByIdIncludingDeleted i board s"

definition listRepo_findLastInBoard :: "(string \<Rightarrow> string \<Rightarrow> bool) \<Rightarrow> uuid \<Rightarrow> db \<Rightarrow> list_row option" where
  "listRepo_findLastInBoard le board s =
     first_desc le listRank
       (filter (\<lambda>l. listBoardId l = board \<and> listArchivedAt l = None \<and> listDeletedAt l = None) (lists s))"

definition listRepo_update :: "instant \<Rightarrow> uuid \<Rightarrow> (list_row \<Rightarrow> list_row) \<Rightarrow> db \<Rightarrow> list_row outcome" where
  [op_defs]: "listRepo_update now i data s =
     or_missing (update_by listId i (\<lambda>l. (data l)\<lparr>listUpdatedAt := now\<rparr>) (lists s))
       (\<lambda>(row, rows) s. (Inr row, s\<lparr>lists := rows\<rparr>)) s"

definition listRepo_archive :: "instant \<Rightarrow> uuid \<Rightarrow> db \<Rightarrow> list_row outcome" where
  "listRepo_archive now i s = listRepo_update now i (\<lambda>l. l\<lparr>listArchivedAt := Some now\<rparr>) s"

definition listRepo_unarchive :: "instant \<Rightarrow> uuid \<Rightarrow> db \<Rightarrow> list_row outcome" where
  "listRepo_unarchive now i s = listRepo_update now i (\<lambda>l. l\<lparr>listArchivedAt := None\<rparr>) s"

definition listRepo_deletePermanently :: "instant \<Rightarrow> uuid \<Rightarrow> db \<Rightarrow> list_row outcome" where
  "listRepo_deletePermanently now i s = listRepo_update now i (\<lambda>l. l\<lparr>listDeletedAt := Some now\<rparr>) s"

definition archived_lists :: "uuid \<Rightarrow> db \<Rightarrow> list_row list" where
  "archived_lists board s =
     order_desc (\<lambda>l. (listArchivedAt l, listId l))
       (filter (\<lambda>l. listBoardId l = board \<and> listArchivedAt l \<noteq> None \<and> listDeletedAt l = None) (lists s))"

definition listRepo_findArchivedByBoardIdPage ::
  "list_row cursor_seek \<Rightarrow> uuid \<Rightarrow> uuid option \<Rightarrow> nat \<Rightarrow> db \<Rightarrow> error + list_row page" where
  "listRepo_findArchivedByBoardIdPage after board cursor limit s =
     (case take_page after cursor (Suc limit) (archived_lists board s) of
        Inl e \<Rightarrow> Inl e
      | Inr rows \<Rightarrow> trim_page listId rows limit)"

section \<open>ListService\<close>

definition listService_create ::
  "(string \<Rightarrow> string \<Rightarrow> bool) \<Rightarrow> 'r lexorank \<Rightarrow> uuid \<Rightarrow> instant \<Rightarrow> uuid \<Rightarrow> uuid \<Rightarrow> string \<Rightarrow> uuid \<Rightarrow>
   db \<Rightarrow> list_row outcome" where
  [op_defs]: "listService_create le lx newId now board ws title user =
     assertBoardInWorkspace board (Some ws) (\<lambda>s.
       case (case listRepo_findLastInBoard le board s of
               Some lastList \<Rightarrow> getRankBetween lx (Some (listRank lastList)) None
             | None \<Rightarrow> Inr (getInitialRank lx)) of
         Inl e \<Rightarrow> (Inl e, s)
       | Inr rank \<Rightarrow>
           await (listRepo_create newId now board title rank s)
             (\<lambda>list s. (Inr list, emit (ListCreated list user) s)))"

definition listService_update ::
  "instant \<Rightarrow> uuid \<Rightarrow> uuid \<Rightarrow> uuid \<Rightarrow> string option \<Rightarrow> uuid \<Rightarrow> db \<Rightarrow> list_row outcome" where
  [op_defs]: "listService_update now board ws i title user =
     assertBoardInWorkspace board (Some ws) (\<lambda>s.
       case listRepo_findActiveById i (Some board) s of
         None \<Rightarrow> (Inl (EntityNotFound ''List'' i), s)
       | Some list \<Rightarrow>
           await (listRepo_update now i (\<lambda>l. l\<lparr>listTitle := or_keep title (listTitle l)\<rparr>) s)
             (\<lambda>updated s. (Inr updated, emit (ListUpdated updated user) s)))"

definition listService_move ::
  "'r lexorank \<Rightarrow> instant \<Rightarrow> uuid \<Rightarrow> uuid \<Rightarrow> uuid \<Rightarrow> string option \<Rightarrow> string option \<Rightarrow> uuid \<Rightarrow>
   db \<Rightarrow> list_row outcome" where
  [op_defs]: "listService_move lx now board ws i prevRank nextRank user =
     assertBoardInWorkspace board (Some ws) (\<lambda>s.
       case listRepo_findActiveById i (Some board) s of
         None \<Rightarrow> (Inl (EntityNotFound ''List'' i), s)
       | Some list \<Rightarrow>
           (case getRankBetween lx prevRank nextRank of
              Inl e \<Rightarrow> (Inl e, s)
            | Inr newRank \<Rightarrow>
                await (listRepo_update now i (\<lambda>l. l\<lparr>listRank := newRank\<rparr>) s)
                  (\<lambda>updated s. (Inr updated, emit (ListMoved i board newRank user) s))))"

definition listService_archive :: "instant \<Rightarrow> uuid \<Rightarrow> uuid \<Rightarrow> uuid \<Rightarrow> uuid \<Rightarrow> db \<Rightarrow> unit outcome" where
  [op_defs]: "listService_archive now board ws i user =
     assertBoardInWorkspace board (Some ws) (\<lambda>s.
       case listRepo_findActiveById i (Some board) s of
         None \<Rightarrow> (Inl (EntityNotFound ''List'' i), s)
       | Some list \<Rightarrow>
           await (listRepo_archive now i s)
             (\<lambda>_ s. (Inr (), emit (ListArchived i board user) s)))"

definition listService_unarchive :: "instant \<Rightarrow> uuid \<Rightarrow> uuid \<Rightarrow> uuid \<Rightarrow> uuid \<Rightarrow> db \<Rightarrow> list_row outcome" where
  [op_defs]: "listService_unarchive now board ws i user =
     assertBoardInWorkspace board (Some ws) (\<lambda>s.
       case listRepo_findByIdIncludingArchived i (Some board) s of
         None \<Rightarrow> (Inl (EntityNotFound ''List'' i), s)
       | Some list \<Rightarrow>
           await (listRepo_unarchive now i s)
             (\<lambda>restored s. (Inr restored, emit (ListUnarchived restored user) s)))"

definition listService_listArchivedListsPaginated ::
  "list_row cursor_seek \<Rightarrow> uuid \<Rightarrow> uuid \<Rightarrow> uuid option \<Rightarrow> nat option \<Rightarrow> db \<Rightarrow> list_row page outcome" where
  "listService_listArchivedListsPaginated after board ws cursor limit =
     assertBoardInWorkspace board (Some ws) (\<lambda>s.
       (listRepo_findArchivedByBoardIdPage after board cursor
          (case limit of None \<Rightarrow> 20 | Some n \<Rightarrow> n) s, s))"

definition listService_deletePermanently ::
  "instant \<Rightarrow> uuid \<Rightarrow> uuid \<Rightarrow> uuid \<Rightarrow> uuid \<Rightarrow> db \<Rightarrow> unit outcome" where
  [op_defs]: "listService_deletePermanently now board ws i user =
     assertBoardInWorkspace board (Some ws) (\<lambda>s.
       case listRepo_findByIdIncludingArchived i (Some board) s of
         None \<Rightarrow> (Inl (EntityNotFound ''List'' i), s)
       | Some list \<Rightarrow>
           if listDeletedAt list \<noteq> None then (Inl (BusinessRule ''LIST_ALREADY_DELETED''), s)
           else await (listRepo_deletePermanently now i s)
                  (\<lambda>_ s. (Inr (), emit (ListDeleted i board user) s)))"

section \<open>Lookup and update\<close>

definition lists_wf :: "db \<Rightarrow> bool" where
  "lists_wf s \<longleftrightarrow> unique_key listId (lists s)"

lemma listRepo_findActiveById_SomeD:
  assumes "listRepo_findActiveById i board s = Some l"
  shows "l \<in> set (lists s)" "listId l = i" "listArchivedAt l = None" "listDeletedAt l = None"
    "in_scope board (listBoardId l)"
  using assms by (auto simp: listRepo_findActiveById_def dest!: find_SomeD)

lemma listRepo_findAny_SomeD:
  assumes "listRepo_findByIdIncludingDeleted i board s = Some l"
  shows "l \<in> set (lists s)" "listId l = i" "in_scope board (listBoardId l)"
  using assms by (auto simp: listRepo_findByIdIncludingDeleted_def dest!: find_SomeD)

lemma list_active_iff:
  assumes "lists_wf s"
  shows "listRepo_findActiveById i board s = Some l \<longleftrightarrow>
    listRepo_findByIdIncludingDeleted i board s = Some l \<and> listArchivedAt l = None \<and> listDeletedAt l = None"
proof -
  have "listRepo_findActiveById i board s = Some l \<longleftrightarrow> l \<in> set (lists s) \<and> listId l = i \<and>
      listArchivedAt l = None \<and> listDeletedAt l = None \<and> in_scope board (listBoardId l)"
    unfolding listRepo_findActiveById_def
    by (auto dest: find_SomeD intro!: find_unique [OF assms [unfolded lists_wf_def]])
  moreover have "listRepo_findByIdIncludingDeleted i board s = Some l \<longleftrightarrow> l \<in> set (lists s) \<and>
      listId l = i \<and> in_scope board (listBoardId l)"
    unfolding listRepo_findByIdIncludingDeleted_def
    by (auto dest: find_SomeD intro!: find_unique [OF assms [unfolded lists_wf_def]])
  ultimately show ?thesis by auto
qed

lemma listRepo_update_ok:
  assumes "listRepo_update now i data s = (Inr row, s')"
    and "\<And>l. listId (data l) = listId l" "\<And>l. listBoardId (data l) = listBoardId l"
  shows "s' = s\<lparr>lists := map (\<lambda>l. if listId l = i then (data l)\<lparr>listUpdatedAt := now\<rparr> else l) (lists s)\<rparr>"
    and "lists_wf s' = lists_wf s"
    and "listRepo_findByIdIncludingDeleted j board s' =
      map_option (if j = i then (\<lambda>l. (data l)\<lparr>listUpdatedAt := now\<rparr>) else id)
        (listRepo_findByIdIncludingDeleted j board s)"
proof -
  from assms(1) show s': "s' = s\<lparr>lists := map (\<lambda>l. if listId l = i
      then (data l)\<lparr>listUpdatedAt := now\<rparr> else l) (lists s)\<rparr>"
    by (auto simp: listRepo_update_def or_missing_Inr_iff update_by_Some_iff)
  show "lists_wf s' = lists_wf s"
    by (simp add: s' lists_wf_def unique_key_map assms(2))
  show "listRepo_findByIdIncludingDeleted j board s' =
      map_option (if j = i then (\<lambda>l. (data l)\<lparr>listUpdatedAt := now\<rparr>) else id)
        (listRepo_findByIdIncludingDeleted j board s)"
    unfolding listRepo_findByIdIncludingDeleted_def s'
    by (simp add: find_map_update assms(2,3))
qed

lemma listRepo_update_fail: "listRepo_update now i data s = (Inl e, s') \<Longrightarrow> s' = s"
  by (auto simp: listRepo_update_def or_missing_def split: option.splits)

definition list_set_archived :: "instant \<Rightarrow> instant option \<Rightarrow> list_row \<Rightarrow> list_row" where
  "list_set_archived now a l = l\<lparr>listArchivedAt := a, listUpdatedAt := now\<rparr>"

definition list_set_deleted :: "instant \<Rightarrow> list_row \<Rightarrow> list_row" where
  "list_set_deleted now l = l\<lparr>listDeletedAt := Some now, listUpdatedAt := now\<rparr>"

interpretation lists: soft_delete_repo lists_wf listRepo_findActiveById listRepo_findByIdIncludingDeleted
  listRepo_archive listRepo_unarchive listRepo_deletePermanently listArchivedAt listDeletedAt
  list_set_archived list_set_deleted
proof (unfold_locales, goal_cases)
  case (1 s i sc r)
  then show ?case by (rule list_active_iff)
next
  case (2 s now i r s' j sc)
  then show ?case
    by (simp add: listRepo_update_ok(2,3) [OF 2(2) [unfolded listRepo_archive_def]]
        list_set_archived_def [abs_def])
next
  case (3 s now i r s' j sc)
  then show ?case
    by (simp add: listRepo_update_ok(2,3) [OF 3(2) [unfolded listRepo_unarchive_def]]
        list_set_archived_def [abs_def])
next
  case (4 s now i r s' j sc)
  then show ?case
    by (simp add: listRepo_update_ok(2,3) [OF 4(2) [unfolded listRepo_deletePermanently_def]]
        list_set_deleted_def [abs_def])
qed (auto simp: listRepo_archive_def listRepo_unarchive_def listRepo_deletePermanently_def
      list_set_archived_def list_set_deleted_def dest: listRepo_update_fail)

section \<open>Positions\<close>

text \<open>A new list goes after every active list of its board.\<close>

lemma list_created_last:
  assumes "collation le" "lexorank_laws lx le" "\<forall>l\<in>set (lists s). listRank l \<noteq> []"
    and "listService_create le lx newId now board ws title user s = (Inr row, s')"
    and "l \<in> set (lists s)" "listBoardId l = board" "listArchivedAt l = None" "listDeletedAt l = None"
  shows "strictly_before le (listRank l) (listRank row)"
proof -
  let ?act = "filter (\<lambda>l. listBoardId l = board \<and> listArchivedAt l = None \<and> listDeletedAt l = None) (lists s)"
  from assms(5-8) have mem: "l \<in> set ?act" by simp
  then obtain z where z: "first_desc le listRank ?act = Some z"
    by (blast dest: first_desc_exists)
  then have "listRepo_findLastInBoard le board s = Some z"
    by (simp add: listRepo_findLastInBoard_def)
  with assms(4) have "getRankBetween lx (Some (listRank z)) None = Inr (listRank row)"
    by (simp add: listService_create_def assertBoardInWorkspace_def listRepo_create_def
          await_Inr_iff or_conflict_Inr_iff Let_def split: option.splits sum.splits) auto
  moreover have "listRank z \<noteq> []"
    using first_desc_SomeD(1) [OF z] assms(3) by simp
  ultimately show ?thesis using rank_appended [OF assms(1,2) z _ _ mem] by simp
qed

end
