(* ===== verification/Js_Text.thy ===== *)
theory Js_Text
  imports Prelude
begin

text \<open>
  The JavaScript string operations the services use. A \<open>char\<close> is a code unit below 256, so the
  strings of the model are the Latin-1 ones; \<open>\s\<close> of a regular expression and \<open>trim\<close> know the
  seven white-space code units in that range, and \<open>toLowerCase\<close> the letters A to Z and the accented
  capitals.
\<close>

definition code :: "char \<Rightarrow> nat" where
  "code c = of_char c"

definition is_space :: "char \<Rightarrow> bool" where
  "is_space c \<longleftrightarrow> code c \<in> {9, 10, 11, 12, 13, 32, 160}"

definition is_digit :: "char \<Rightarrow> bool" where
  "is_digit c \<longleftrightarrow> 48 \<le> code c \<and> code c \<le> 57"

definition is_lower :: "char \<Rightarrow> bool" where
  "is_lower c \<longleftrightarrow> 97 \<le> code c \<and> code c \<le> 122"

definition is_upper :: "char \<Rightarrow> bool" where
  "is_upper c \<longleftrightarrow> 65 \<le> code c \<and> code c \<le> 90"

definition lower_char :: "char \<Rightarrow> char" where
  "lower_char c =
     (if is_upper c \<or> (192 \<le> code c \<and> code c \<le> 222 \<and> code c \<noteq> 215)
      then char_of (code c + 32) else c)"

definition toLowerCase :: "string \<Rightarrow> string" where
  "toLowerCase t = map lower_char t"

definition js_trim :: "string \<Rightarrow> string" where
  "js_trim t = rev (dropWhile is_space (rev (dropWhile is_space t)))"

text \<open>\<open>replace(/\s+/g, x)\<close>: every maximal run of white space becomes one \<open>x\<close>.\<close>

fun replace_spaces :: "string \<Rightarrow> string \<Rightarrow> string" where
  "replace_spaces x [] = []"
| "replace_spaces x [c] = (if is_space c then x else [c])"
| "replace_spaces x (c # d # cs) =
     (if is_space c then (if is_space d then replace_spaces x (d # cs) else x @ replace_spaces x (d # cs))
      else c # replace_spaces x (d # cs))"

lemma code_lower_char [simp]:
  "code (lower_char c) =
     (if is_upper c \<or> (192 \<le> code c \<and> code c \<le> 222 \<and> code c \<noteq> 215) then code c + 32 else code c)"
  by (auto simp: lower_char_def code_def is_upper_def)

lemma lower_char_idem [simp]: "lower_char (lower_char c) = lower_char c"
proof -
  have "\<not> is_upper (lower_char c) \<and>
      \<not> (192 \<le> code (lower_char c) \<and> code (lower_char c) \<le> 222 \<and> code (lower_char c) \<noteq> 215)"
    by (auto simp: is_upper_def)
  then show ?thesis unfolding lower_char_def [of "lower_char c"] by auto
qed

lemma toLowerCase_idem [simp]: "toLowerCase (toLowerCase t) = toLowerCase t"
  by (simp add: toLowerCase_def comp_def)

lemma set_js_trim: "set (js_trim t) \<subseteq> set t"
proof -
  have "set (js_trim t) \<subseteq> set (dropWhile is_space t)"
    unfolding js_trim_def by (metis set_dropWhileD set_rev subsetI)
  then show ?thesis by (meson set_dropWhileD subset_eq)
qed

lemma set_replace_spaces:
  "set (replace_spaces x t) \<subseteq> {c \<in> set t. \<not> is_space c} \<union> set x"
  by (induction x t rule: replace_spaces.induct) auto

text \<open>\<open>t.includes(q)\<close>.\<close>

definition js_includes :: "string \<Rightarrow> string \<Rightarrow> bool" where
  "js_includes t q \<longleftrightarrow> list_ex (\<lambda>n. take (length q) (drop n t) = q) [0..<Suc (length t)]"

end
