(* ===== verification/Workspaces.thy ===== *)
theory Workspaces
  imports Tables Paging Js_Text
begin

text \<open>
  Workspaces and their member table: \<open>WorkspaceRepository\<close> and \<open>WorkspaceMemberRepository\<close>
  (\<open>src/modules/workspace/repositories/\<close>) and \<open>WorkspaceService\<close>
  (\<open>src/modules/workspace/services/workspace.service.ts\<close>). The random suffixes of a slug
  (\<open>randomBytes(3).toString('hex')\<close>) are the list \<open>draws\<close>, which also bounds the search loop:
  running out of draws is \<open>None\<close>, and \<open>unique_slug_enough\<close> says how many draws are enough.
\<close>

section \<open>WorkspaceMemberRepository\<close>

definition memberRepo_findMember :: "uuid \<Rightarrow> uuid \<Rightarrow> db \<Rightarrow> member_row option" where
  "memberRepo_findMember ws user s =
     find (\<lambda>m. memWorkspaceId m = ws \<and> memUserId m = user) (members s)"

definition memberRepo_findMemberById :: "uuid \<Rightarrow> db \<Rightarrow> member_row option" where
  "memberRepo_findMemberById i s = find (\<lambda>m. memId m = i) (members s)"

definition memberRepo_findMembersWithUser :: "uuid \<Rightarrow> db \<Rightarrow> (member_row \<times> user_summary option) list" where
  "memberRepo_findMembersWithUser ws s =
     map (\<lambda>m. (m, user_summary_of (memUserId m) s))
       (order_asc memJoinedAt (filter (\<lambda>m. memWorkspaceId m = ws) (members s)))"

definition memberRepo_countOwners :: "uuid \<Rightarrow> db \<Rightarrow> nat" where
  "memberRepo_countOwners ws s =
     length (filter (\<lambda>m. memWorkspaceId m = ws \<and> memRole m = Owner) (members s))"

definition memberRepo_findOtherOwner :: "uuid \<Rightarrow> uuid \<Rightarrow> db \<Rightarrow> member_row option" where
  "memberRepo_findOtherOwner ws excludeUser s =
     find (\<lambda>m. memWorkspaceId m = ws \<and> memRole m = Owner \<and> memUserId m \<noteq> excludeUser) (members s)"

text \<open>Both keys of the table: the row id and the pair (workspace, user).\<close>

definition insert_member :: "member_row \<Rightarrow> member_row list \<Rightarrow> member_row list option" where
  "insert_member m rows =
     (if list_ex (\<lambda>x. memWorkspaceId x = memWorkspaceId m \<and> memUserId x = memUserId m) rows then None
      else insert_row memId m rows)"

definition memberRepo_updateRole :: "uuid \<Rightarrow> workspace_role \<Rightarrow> db \<Rightarrow> member_row outcome" where
  [op_defs]: "memberRepo_updateRole i role s =
     or_missing (update_by memId i (\<lambda>m. m\<lparr>memRole := role\<rparr>) (members s))
       (\<lambda>(row, rows) s. (Inr row, s\<lparr>members := rows\<rparr>)) s"

definition memberRepo_removeMember :: "uuid \<Rightarrow> db \<Rightarrow> unit outcome" where
  [op_defs]: "memberRepo_removeMember i s =
     or_missing (delete_by memId i (members s))
       (\<lambda>(row, rows) s. (Inr (), s\<lparr>members := rows\<rparr>)) s"

section \<open>WorkspaceRepository\<close>

definition workspaceRepo_createWorkspaceWithOwner ::
  "uuid \<Rightarrow> uuid \<Rightarrow> instant \<Rightarrow> string \<Rightarrow> string \<Rightarrow> string option \<Rightarrow> string option \<Rightarrow> uuid \<Rightarrow>
   db \<Rightarrow> workspace_row outcome" where
  [op_defs]: "workspaceRepo_createWorkspaceWithOwner newId newMem now name slug descr avatar owner s =
     (let ws = \<lparr>wsId = newId, wsName = name, wsSlug = slug, wsDescription = descr,
                wsAvatarUrl = avatar, wsOwnerId = owner, wsCreatedAt = now, wsArchivedAt = None\<rparr>;
          mem = \<lparr>memId = newMem, memWorkspaceId = newId, memUserId = owner, memRole = Owner,
                 memJoinedAt = now\<rparr>
      in or_conflict
           (if list_ex (\<lambda>w. wsSlug w = slug) (workspaces s) then None
            else insert_row wsId ws (workspaces s))
           (\<lambda>wrows _. or_conflict (insert_member mem (members s))
              (\<lambda>mrows s. (Inr ws, s\<lparr>workspaces := wrows, members := mrows\<rparr>)) s) s)"

definition workspaceRepo_findById :: "uuid \<Rightarrow> db \<Rightarrow> workspace_row option" where
  "workspaceRepo_findById i s = find (\<lambda>w. wsId w = i \<and> wsArchivedAt w = None) (workspaces s)"

definition workspaceRepo_findBySlug :: "string \<Rightarrow> db \<Rightarrow> workspace_row option" where
  "workspaceRepo_findBySlug slug s =
     find (\<lambda>w. wsSlug w = slug \<and> wsArchivedAt w = None) (workspaces s)"

definition workspaceRepo_existsBySlug :: "string \<Rightarrow> db \<Rightarrow> bool" where
  "workspaceRepo_existsBySlug slug s \<longleftrightarrow> list_ex (\<lambda>w. wsSlug w = slug) (workspaces s)"

definition workspaceRepo_findUserWorkspacesPage ::
  "workspace_row cursor_seek \<Rightarrow> uuid \<Rightarrow> uuid option \<Rightarrow> nat \<Rightarrow> db \<Rightarrow>
   error + (workspace_row \<times> workspace_role) list" where
  "workspaceRepo_findUserWorkspacesPage after user cursor limit s =
     (case take_page_or_first after cursor (Suc limit)
             (order_desc (\<lambda>w. (wsCreatedAt w, wsId w))
               (filter (\<lambda>w. wsArchivedAt w = None \<and>
                            list_ex (\<lambda>m. memWorkspaceId m = wsId w \<and> memUserId m = user) (members s))
                 (workspaces s))) of
        Inl e \<Rightarrow> Inl e
      | Inr wss \<Rightarrow>
          Inr (map (\<lambda>w. (w, case memberRepo_findMember (wsId w) user s of
                              None \<Rightarrow> Viewer | Some m \<Rightarrow> memRole m)) wss))"

text \<open>\<open>update\<close> on the workspace table; the slug is unique.\<close>

definition workspaceRepo_update ::
  "uuid \<Rightarrow> (workspace_row \<Rightarrow> workspace_row) \<Rightarrow> db \<Rightarrow> workspace_row outcome" where
  [op_defs]: "workspaceRepo_update i data s =
     or_missing (update_by wsId i data (workspaces s))
       (\<lambda>(row, rows) s.
          if list_ex (\<lambda>w. wsId w \<noteq> i \<and> wsSlug w = wsSlug row) (workspaces s)
          then (Inl (PrismaError ''P2002''), s)
          else (Inr row, s\<lparr>workspaces := rows\<rparr>)) s"

definition workspaceRepo_archive :: "instant \<Rightarrow> uuid \<Rightarrow> db \<Rightarrow> unit outcome" where
  [op_defs]: "workspaceRepo_archive now i s =
     await (workspaceRepo_update i (\<lambda>w. w\<lparr>wsArchivedAt := Some now\<rparr>) s) (\<lambda>_ s. (Inr (), s))"

section \<open>WorkspaceService\<close>

record create_workspace_dto =
  cwName :: string
  cwDescription :: "string option"
  cwAvatarUrl :: "string option"

record update_workspace_dto =
  uwName :: "string option"
  uwDescription :: "string patch"
  uwAvatarUrl :: "string patch"

definition slug_char :: "char \<Rightarrow> bool" where
  "slug_char c \<longleftrightarrow> is_lower c \<or> is_digit c \<or> c = CHR ''-''"

definition base_slug :: "string \<Rightarrow> string" where
  "base_slug name =
     (let t = replace_spaces ''-''
                (filter (\<lambda>c. slug_char c \<or> is_space c) (js_trim (toLowerCase name)))
      in if t = [] then ''workspace'' else t)"

fun slug_search :: "(string \<Rightarrow> bool) \<Rightarrow> string \<Rightarrow> string list \<Rightarrow> string \<Rightarrow> (string \<times> string list) option" where
  "slug_search exists base draws slug =
     (if \<not> exists slug then Some (slug, draws)
      else (case draws of
              [] \<Rightarrow> None
            | d # ds \<Rightarrow> slug_search exists base ds (base @ ''-'' @ d)))"

declare slug_search.simps [simp del]

definition workspaceService_generateUniqueSlug ::
  "string \<Rightarrow> string list \<Rightarrow> db \<Rightarrow> (string \<times> string list) option" where
  "workspaceService_generateUniqueSlug name draws s =
     slug_search (\<lambda>slug. workspaceRepo_existsBySlug slug s) (base_slug name) draws (base_slug name)"

text \<open>
  The retry loop of \<open>create\<close>: \<open>ids\<close> are the identifiers the database would generate on each of
  the three attempts. \<open>None\<close> is the slug search running out of draws.
\<close>

fun workspace_create_loop ::
  "(uuid \<times> uuid) list \<Rightarrow> instant \<Rightarrow> create_workspace_dto \<Rightarrow> uuid \<Rightarrow> string \<Rightarrow> string list \<Rightarrow> db \<Rightarrow>
   workspace_row outcome option" where
  "workspace_create_loop [] now dto user slug draws s = Some (Inl (BusinessRule ''SLUG_COLLISION''), s)"
| "workspace_create_loop ((newId, newMem) # ids) now dto user slug draws s =
     (case workspaceRepo_createWorkspaceWithOwner newId newMem now (cwName dto) slug
             (cwDescription dto) (cwAvatarUrl dto) user s of
        (Inr ws, s1) \<Rightarrow> Some (Inr ws, emit (WorkspaceCreated ws user) s1)
      | (Inl e, s1) \<Rightarrow>
          if e = PrismaError ''P2002'' then
            (case workspaceService_generateUniqueSlug (cwName dto) draws s1 of
               None \<Rightarrow> None
             | Some (slug', draws') \<Rightarrow> workspace_create_loop ids now dto user slug' draws' s1)
          else Some (Inl e, s1))"

definition workspaceService_create ::
  "(uuid \<times> uuid) \<Rightarrow> (uuid \<times> uuid) \<Rightarrow> (uuid \<times> uuid) \<Rightarrow> string list \<Rightarrow> instant \<Rightarrow>
   create_workspace_dto \<Rightarrow> uuid \<Rightarrow> db \<Rightarrow> workspace_row outcome option" where
  "workspaceService_create id1 id2 id3 draws now dto user s =
     (case workspaceService_generateUniqueSlug (cwName dto) draws s of
        None \<Rightarrow> None
      | Some (slug, draws') \<Rightarrow> workspace_create_loop [id1, id2, id3] now dto user slug draws' s)"

definition workspaceService_findAllForUser ::
  "workspace_row cursor_seek \<Rightarrow> uuid \<Rightarrow> uuid option \<Rightarrow> nat option \<Rightarrow> db \<Rightarrow>
   error + (workspace_row \<times> workspace_role) page" where
  "workspaceService_findAllForUser after user cursor limit s =
     (let lim = (case limit of None \<Rightarrow> 20 | Some n \<Rightarrow> n)
      in case workspaceRepo_findUserWorkspacesPage after user cursor lim s of
           Inl e \<Rightarrow> Inl e
         | Inr rows \<Rightarrow> Inr (buildCursorPagination (\<lambda>(w, r). wsId w) rows lim))"

definition workspaceService_findById :: "uuid \<Rightarrow> db \<Rightarrow> error + workspace_row" where
  "workspaceService_findById ws s =
     (case workspaceRepo_findById ws s of
        None \<Rightarrow> Inl (EntityNotFound ''Workspace'' ws) | Some w \<Rightarrow> Inr w)"

definition workspaceService_findByIdWithRole ::
  "uuid \<Rightarrow> uuid \<Rightarrow> db \<Rightarrow> error + (workspace_row \<times> workspace_role)" where
  "workspaceService_findByIdWithRole ws user s =
     (case workspaceService_findById ws s of
        Inl e \<Rightarrow> Inl e
      | Inr w \<Rightarrow> (case memberRepo_findMember ws user s of
                    None \<Rightarrow> Inl (Forbidden ''FORBIDDEN'') | Some m \<Rightarrow> Inr (w, memRole m)))"

definition workspaceService_findBySlug ::
  "string \<Rightarrow> uuid \<Rightarrow> db \<Rightarrow> error + (workspace_row \<times> workspace_role)" where
  "workspaceService_findBySlug slug user s =
     (case workspaceRepo_findBySlug slug s of
        None \<Rightarrow> Inl (EntityNotFound ''Workspace'' slug)
      | Some w \<Rightarrow> (case memberRepo_findMember (wsId w) user s of
                     None \<Rightarrow> Inl (Forbidden ''FORBIDDEN'') | Some m \<Rightarrow> Inr (w, memRole m)))"

definition workspace_patch :: "update_workspace_dto \<Rightarrow> workspace_row \<Rightarrow> workspace_row" where
  "workspace_patch dto w = w\<lparr>wsName := or_keep (uwName dto) (wsName w),
     wsDescription := apply_patch (uwDescription dto) (wsDescription w),
     wsAvatarUrl := apply_patch (uwAvatarUrl dto) (wsAvatarUrl w)\<rparr>"

fun workspace_update_loop ::
  "nat \<Rightarrow> uuid \<Rightarrow> update_workspace_dto \<Rightarrow> string \<Rightarrow> string \<Rightarrow> string list \<Rightarrow> db \<Rightarrow>
   workspace_row outcome option" where
  "workspace_update_loop 0 ws dto name slug draws s = Some (Inl (BusinessRule ''SLUG_COLLISION''), s)"
| "workspace_update_loop (Suc attempts) ws dto name slug draws s =
     (case workspaceRepo_update ws (\<lambda>w. (workspace_patch dto w)\<lparr>wsSlug := slug\<rparr>) s of
        (Inr updated, s1) \<Rightarrow> Some (Inr updated, s1)
      | (Inl e, s1) \<Rightarrow>
          if e = PrismaError ''P2002'' then
            (case workspaceService_generateUniqueSlug name draws s1 of
               None \<Rightarrow> None
             | Some (slug', draws') \<Rightarrow> workspace_update_loop attempts ws dto name slug' draws' s1)
          else Some (Inl e, s1))"

definition workspaceService_update ::
  "string list \<Rightarrow> uuid \<Rightarrow> update_workspace_dto \<Rightarrow> db \<Rightarrow> workspace_row outcome option" where
  "workspaceService_update draws ws dto s =
     (case workspaceService_findById ws s of
        Inl e \<Rightarrow> Some (Inl e, s)
      | Inr existing \<Rightarrow>
          if truthy (uwName dto) \<and> uwName dto \<noteq> Some (wsName existing) then
            (case workspaceService_generateUniqueSlug (the (uwName dto)) draws s of
               None \<Rightarrow> None
             | Some (slug, draws') \<Rightarrow>
                 workspace_update_loop 3 ws dto (the (uwName dto)) slug draws' s)
          else Some (workspaceRepo_update ws (workspace_patch dto) s))"

definition workspaceService_archive :: "instant \<Rightarrow> uuid \<Rightarrow> db \<Rightarrow> unit outcome" where
  [op_defs]: "workspaceService_archive now ws s =
     (case workspaceService_findById ws s of
        Inl e \<Rightarrow> (Inl e, s)
      | Inr w \<Rightarrow> workspaceRepo_archive now ws s)"

definition workspaceService_isUserMember :: "uuid \<Rightarrow> uuid \<Rightarrow> db \<Rightarrow> bool" where
  "workspaceService_isUserMember ws user s \<longleftrightarrow> memberRepo_findMember ws user s \<noteq> None"

section \<open>Members\<close>

lemma memberRepo_findMember_SomeD:
  assumes "memberRepo_findMember ws user s = Some m"
  shows "m \<in> set (members s)" "memWorkspaceId m = ws" "memUserId m = user"
  using assms by (auto simp: memberRepo_findMember_def dest!: find_SomeD)

lemma isUserMember_iff:
  "workspaceService_isUserMember ws user s \<longleftrightarrow>
     (\<exists>m\<in>set (members s). memWorkspaceId m = ws \<and> memUserId m = user)"
  by (auto simp: workspaceService_isUserMember_def memberRepo_findMember_def find_None_iff)

section \<open>Slugs\<close>

lemma base_slug_chars: "\<forall>c\<in>set (base_slug name). slug_char c"
proof -
  let ?kept = "filter (\<lambda>c. slug_char c \<or> is_space c) (js_trim (toLowerCase name))"
  have "\<forall>c\<in>set (replace_spaces ''-'' ?kept). slug_char c"
  proof
    fix c assume "c \<in> set (replace_spaces ''-'' ?kept)"
    then have "(c \<in> set ?kept \<and> \<not> is_space c) \<or> c = CHR ''-''"
      using set_replace_spaces [of "''-''" ?kept] by auto
    then show "slug_char c" by (auto simp: slug_char_def)
  qed
  moreover have "\<forall>c\<in>set ''workspace''. slug_char c"
    by (simp add: slug_char_def is_lower_def code_def)
  ultimately show ?thesis
    by (cases "replace_spaces ''-'' ?kept = []")
       (simp_all only: base_slug_def Let_def if_True if_False simp_thms)
qed

lemma base_slug_nonempty: "base_slug name \<noteq> []"
  by (simp add: base_slug_def Let_def)

lemma slug_search_result:
  assumes "slug_search exists base draws slug = Some (t, rest)"
  shows "\<not> exists t \<and> (t = slug \<or> (\<exists>d\<in>set draws. t = base @ ''-'' @ d)) \<and> set rest \<subseteq> set draws"
  using assms
proof (induction draws arbitrary: slug)
  case Nil
  then show ?case by (cases "exists slug") (simp_all add: slug_search.simps [of _ _ "[]"])
next
  case (Cons d ds)
  show ?case
  proof (cases "exists slug")
    case False
    with Cons.prems show ?thesis by (simp add: slug_search.simps [of _ _ "d # ds"])
  next
    case True
    with Cons.prems have "slug_search exists base ds (base @ ''-'' @ d) = Some (t, rest)"
      by (simp add: slug_search.simps [of _ _ "d # ds"])
    from Cons.IH [OF this] show ?thesis by auto
  qed
qed

lemma slug_search_enough:
  assumes "d \<in> set draws" "\<not> exists (base @ ''-'' @ d)"
  shows "\<exists>t rest. slug_search exists base draws slug = Some (t, rest)"
  using assms
proof (induction draws arbitrary: slug)
  case Nil
  then show ?case by simp
next
  case (Cons x ds)
  show ?case
  proof (cases "exists slug")
    case False
    then show ?thesis by (simp add: slug_search.simps [of _ _ "x # ds"])
  next
    case True
    have "\<exists>t rest. slug_search exists base ds (base @ ''-'' @ x) = Some (t, rest)"
    proof (cases "x = d")
      case True
      with Cons.prems(2) show ?thesis by (simp add: slug_search.simps [of exists base ds])
    next
      case False
      with Cons show ?thesis by simp
    qed
    with True show ?thesis by (simp add: slug_search.simps [of _ _ "x # ds"])
  qed
qed

text \<open>As many different draws as there are workspaces always leave a free slug.\<close>

lemma unique_slug_enough:
  assumes "distinct draws" "length (workspaces s) < length draws"
  shows "\<exists>t rest. workspaceService_generateUniqueSlug name draws s = Some (t, rest)"
proof -
  let ?b = "base_slug name"
  have inj: "inj_on (\<lambda>d. ?b @ ''-'' @ d) (set draws)" by (auto simp: inj_on_def)
  have "card (wsSlug ` set (workspaces s)) \<le> length (workspaces s)"
    by (meson card_image_le card_length finite_set le_trans)
  moreover have "card ((\<lambda>d. ?b @ ''-'' @ d) ` set draws) = length draws"
    using assms(1) card_image [OF inj] by (simp only: distinct_card)
  ultimately have "\<not> (\<lambda>d. ?b @ ''-'' @ d) ` set draws \<subseteq> wsSlug ` set (workspaces s)"
    using assms(2) card_mono [of "wsSlug ` set (workspaces s)" "(\<lambda>d. ?b @ ''-'' @ d) ` set draws"]
    by auto
  then obtain d where "d \<in> set draws" "?b @ ''-'' @ d \<notin> wsSlug ` set (workspaces s)" by auto
  then have "\<not> workspaceRepo_existsBySlug (?b @ ''-'' @ d) s"
    unfolding workspaceRepo_existsBySlug_def list_ex_iff by (metis imageI)
  with \<open>d \<in> set draws\<close> show ?thesis
    unfolding workspaceService_generateUniqueSlug_def by (rule slug_search_enough)
qed

end
