(* ===== verification/Cards.thy ===== *)
theory Cards
  imports Board_Lists Workspaces
begin

text \<open>
  Cards: \<open>CardRepository\<close> (\<open>card/repositories/card.repository.ts\<close>), \<open>CardService\<close>
  (\<open>card/services/card.service.ts\<close>) and \<open>card/utils/card-status.util.ts\<close>. Dates arrive
  validated by \<open>IsDateString\<close>, so the data-transfer objects carry the instant they denote. The
  repository's lifecycle operations interpret \<open>soft_delete_repo\<close>. Every operation that writes has
  an effect lemma (\<open>..._ok\<close>) that says under which guards it succeeds and what it changes.
\<close>

section \<open>Status\<close>

definition isStatusTransitionAllowed :: "card_status \<Rightarrow> card_status \<Rightarrow> bool" where
  "isStatusTransitionAllowed from to \<longleftrightarrow> from \<noteq> to"

definition isCompleteFromStatus :: "card_status \<Rightarrow> bool" where
  "isCompleteFromStatus st \<longleftrightarrow> st \<in> {Done, Closed}"

section \<open>CardRepository\<close>

text \<open>A card with its relation graph; a user is shown by id, name and avatar.\<close>

record user_profile =
  upId :: uuid
  upDisplayName :: string
  upAvatarUrl :: "string option"

record card_details =
  cdCard :: card_row
  cdAssignees :: "user_profile option list"
  cdLabels :: "label_row option list"

definition user_profile_of :: "uuid \<Rightarrow> db \<Rightarrow> user_profile option" where
  "user_profile_of i s =
     map_option (\<lambda>u. \<lparr>upId = userId u, upDisplayName = userDisplayName u, upAvatarUrl = userAvatarUrl u\<rparr>)
       (find (\<lambda>u. userId u = i) (users s))"

definition with_details :: "db \<Rightarrow> card_row \<Rightarrow> card_details" where
  "with_details s c =
     \<lparr>cdCard = c,
      cdAssignees = map (\<lambda>a. user_profile_of (asgUserId a) s)
                      (filter (\<lambda>a. asgCardId a = cardId c) (assignees s)),
      cdLabels = map (\<lambda>x. find (\<lambda>l. labelId l = clLabelId x) (labels s))
                   (filter (\<lambda>x. clCardId x = cardId c) (cardLabels s))\<rparr>"

text \<open>\<open>list: { boardId }\<close>: the card's list is one of the board's.\<close>

definition card_on_board :: "uuid \<Rightarrow> db \<Rightarrow> card_row \<Rightarrow> bool" where
  "card_on_board board s c \<longleftrightarrow> list_ex (\<lambda>l. listId l = cardListId c \<and> listBoardId l = board) (lists s)"

definition card_in_scope :: "uuid option \<Rightarrow> db \<Rightarrow> card_row \<Rightarrow> bool" where
  "card_in_scope board s c = (if truthy board then card_on_board (the board) s c else True)"

definition find_active_card :: "uuid \<Rightarrow> uuid option \<Rightarrow> db \<Rightarrow> card_row option" where
  "find_active_card i board s =
     find (\<lambda>c. cardId c = i \<and> cardArchivedAt c = None \<and> cardDeletedAt c = None \<and>
               card_in_scope board s c) (cards s)"

definition cardRepo_findActiveById :: "uuid \<Rightarrow> uuid option \<Rightarrow> db \<Rightarrow> card_details option" where
  "cardRepo_findActiveById i board s = map_option (with_details s) (find_active_card i board s)"

definition cardRepo_findByIdIncludingDeleted :: "uuid \<Rightarrow> uuid option \<Rightarrow> db \<Rightarrow> card_row option" where
  "cardRepo_findByIdIncludingDeleted i board s =
     find (\<lambda>c. cardId c = i \<and> card_in_scope board s c) (cards s)"

definition cardRepo_findByIdIncludingArchived :: "uuid \<Rightarrow> uuid option \<Rightarrow> db \<Rightarrow> card_row option" where
  "cardRepo_findByIdIncludingArchived i board s =
     find (\<lambda>c. cardId c = i \<and> card_in_scope board s c) (cards s)"

definition cardRepo_findLastInList :: "(string \<Rightarrow> string \<Rightarrow> bool) \<Rightarrow> uuid \<Rightarrow> db \<Rightarrow> card_row option" where
  "cardRepo_findLastInList le list s =
     first_desc le cardRank
       (filter (\<lambda>c. cardListId c = list \<and> cardArchivedAt c = None \<and> cardDeletedAt c = None) (cards s))"

text \<open>\<open>createMany\<close> with \<open>skipDuplicates\<close>, and \<open>upsert\<close> with an empty update, on the join tables.\<close>

definition add_assignee :: "instant \<Rightarrow> uuid \<Rightarrow> uuid \<Rightarrow> assignee_row list \<Rightarrow> assignee_row list" where
  "add_assignee now cid user rows =
     (if list_ex (\<lambda>a. asgCardId a = cid \<and> asgUserId a = user) rows then rows
      else rows @ [\<lparr>asgCardId = cid, asgUserId = user, asgAssignedAt = now\<rparr>])"

definition add_card_label :: "uuid \<Rightarrow> uuid \<Rightarrow> card_label_row list \<Rightarrow> card_label_row list" where
  "add_card_label cid label rows =
     (if list_ex (\<lambda>x. clCardId x = cid \<and> clLabelId x = label) rows then rows
      else rows @ [\<lparr>clCardId = cid, clLabelId = label\<rparr>])"

definition cardRepo_create ::
  "instant \<Rightarrow> card_row \<Rightarrow> uuid list option \<Rightarrow> uuid list option \<Rightarrow> db \<Rightarrow> card_details outcome" where
  [op_defs]: "cardRepo_create now row assigneeIds labelIds s =
     or_conflict (insert_row cardId row (cards s))
       (\<lambda>rows s.
          let s1 = s\<lparr>cards := rows,
                     assignees := fold (add_assignee now (cardId row))
                       (case assigneeIds of None \<Rightarrow> [] | Some us \<Rightarrow> us) (assignees s),
                     cardLabels := fold (add_card_label (cardId row))
                       (case labelIds of None \<Rightarrow> [] | Some ls \<Rightarrow> ls) (cardLabels s)\<rparr>
          in (Inr (with_details s1 row), s1)) s"

definition set_card :: "instant \<Rightarrow> uuid \<Rightarrow> (card_row \<Rightarrow> card_row) \<Rightarrow> db \<Rightarrow> db" where
  "set_card now i data s =
     s\<lparr>cards := map (\<lambda>c. if cardId c = i then (data c)\<lparr>cardUpdatedAt := now\<rparr> else c) (cards s)\<rparr>"

definition cardRepo_update :: "instant \<Rightarrow> uuid \<Rightarrow> (card_row \<Rightarrow> card_row) \<Rightarrow> db \<Rightarrow> card_row outcome" where
  [op_defs]: "cardRepo_update now i data s =
     or_missing (update_by cardId i (\<lambda>c. (data c)\<lparr>cardUpdatedAt := now\<rparr>) (cards s))
       (\<lambda>(row, rows) s. (Inr row, s\<lparr>cards := rows\<rparr>)) s"

definition cardRepo_moveCard :: "instant \<Rightarrow> uuid \<Rightarrow> uuid \<Rightarrow> string \<Rightarrow> db \<Rightarrow> card_row outcome" where
  "cardRepo_moveCard now i targetList newRank s =
     cardRepo_update now i (\<lambda>c. c\<lparr>cardListId := targetList, cardRank := newRank\<rparr>) s"

definition cardRepo_archive :: "instant \<Rightarrow> uuid \<Rightarrow> db \<Rightarrow> card_row outcome" where
  "cardRepo_archive now i s = cardRepo_update now i (\<lambda>c. c\<lparr>cardArchivedAt := Some now\<rparr>) s"

definition cardRepo_unarchive :: "instant \<Rightarrow> uuid \<Rightarrow> db \<Rightarrow> card_row outcome" where
  "cardRepo_unarchive now i s = cardRepo_update now i (\<lambda>c. c\<lparr>cardArchivedAt := None\<rparr>) s"

definition cardRepo_deletePermanently :: "instant \<Rightarrow> uuid \<Rightarrow> db \<Rightarrow> card_row outcome" where
  "cardRepo_deletePermanently now i s = cardRepo_update now i (\<lambda>c. c\<lparr>cardDeletedAt := Some now\<rparr>) s"

definition cardRepo_addAssignee :: "instant \<Rightarrow> uuid \<Rightarrow> uuid \<Rightarrow> db \<Rightarrow> db" where
  "cardRepo_addAssignee now cid user s = s\<lparr>assignees := add_assignee now cid user (assignees s)\<rparr>"

definition cardRepo_removeAssignee :: "uuid \<Rightarrow> uuid \<Rightarrow> db \<Rightarrow> db" where
  "cardRepo_removeAssignee cid user s =
     s\<lparr>assignees := filter (\<lambda>a. \<not> (asgCardId a = cid \<and> asgUserId a = user)) (assignees s)\<rparr>"

definition cardRepo_addLabel :: "uuid \<Rightarrow> uuid \<Rightarrow> db \<Rightarrow> db" where
  "cardRepo_addLabel cid label s = s\<lparr>cardLabels := add_card_label cid label (cardLabels s)\<rparr>"

definition cardRepo_removeLabel :: "uuid \<Rightarrow> uuid \<Rightarrow> db \<Rightarrow> db" where
  "cardRepo_removeLabel cid label s =
     s\<lparr>cardLabels := filter (\<lambda>x. \<not> (clCardId x = cid \<and> clLabelId x = label)) (cardLabels s)\<rparr>"

definition archived_cards :: "uuid \<Rightarrow> db \<Rightarrow> card_row list" where
  "archived_cards board s =
     order_desc (\<lambda>c. (cardArchivedAt c, cardId c))
       (filter (\<lambda>c. cardArchivedAt c \<noteq> None \<and> cardDeletedAt c = None \<and> card_on_board board s c) (cards s))"

definition cardRepo_findArchivedByBoardIdPage ::
  "card_details cursor_seek \<Rightarrow> uuid \<Rightarrow> uuid option \<Rightarrow> nat \<Rightarrow> db \<Rightarrow> error + card_details page" where
  "cardRepo_findArchivedByBoardIdPage after board cursor limit s =
     (case take_page after cursor (Suc limit) (map (with_details s) (archived_cards board s)) of
        Inl e \<Rightarrow> Inl e
      | Inr rows \<Rightarrow> trim_page (\<lambda>d. cardId (cdCard d)) rows limit)"

text \<open>\<open>updatePriority\<close> and \<open>updateStatus\<close> turn the database's \<open>P2025\<close> into the entity error.\<close>

definition card_or_not_found :: "uuid \<Rightarrow> 'a outcome \<Rightarrow> 'a outcome" where
  "card_or_not_found i m =
     (case m of (Inl e, s) \<Rightarrow> (if e = PrismaError ''P2025'' then (Inl (EntityNotFound ''Card'' i), s) else (Inl e, s))
      | (Inr x, s) \<Rightarrow> (Inr x, s))"

definition cardRepo_updatePriority :: "instant \<Rightarrow> uuid \<Rightarrow> card_priority \<Rightarrow> db \<Rightarrow> card_row outcome" where
  "cardRepo_updatePriority now i p s =
     card_or_not_found i (cardRepo_update now i (\<lambda>c. c\<lparr>cardPriority := p\<rparr>) s)"

definition cardRepo_updateStatus :: "instant \<Rightarrow> uuid \<Rightarrow> card_status \<Rightarrow> bool \<Rightarrow> db \<Rightarrow> card_row outcome" where
  "cardRepo_updateStatus now i st isComplete s =
     card_or_not_found i (cardRepo_update now i (\<lambda>c. c\<lparr>cardStatus := st, cardIsComplete := isComplete\<rparr>) s)"

definition active_subcards :: "uuid \<Rightarrow> db \<Rightarrow> card_row list" where
  "active_subcards parent s =
     filter (\<lambda>c. cardParentCardId c = Some parent \<and> cardArchivedAt c = None \<and> cardDeletedAt c = None) (cards s)"

definition cardRepo_findSubcards :: "(string \<Rightarrow> string \<Rightarrow> bool) \<Rightarrow> uuid \<Rightarrow> db \<Rightarrow> card_row list" where
  "cardRepo_findSubcards le parent s = order_by le cardRank (active_subcards parent s)"

definition cardRepo_attachSubcard :: "instant \<Rightarrow> uuid \<Rightarrow> uuid \<Rightarrow> db \<Rightarrow> card_row outcome" where
  "cardRepo_attachSubcard now child parent s =
     cardRepo_update now child (\<lambda>c. c\<lparr>cardParentCardId := Some parent\<rparr>) s"

definition cardRepo_detachSubcard :: "instant \<Rightarrow> uuid \<Rightarrow> db \<Rightarrow> card_row outcome" where
  "cardRepo_detachSubcard now child s =
     cardRepo_update now child (\<lambda>c. c\<lparr>cardParentCardId := None\<rparr>) s"

definition cardRepo_countSubcards :: "uuid \<Rightarrow> db \<Rightarrow> nat" where
  "cardRepo_countSubcards parent s = length (active_subcards parent s)"


section \<open>CardService\<close>

record create_card_dto =
  ccTitle :: string
  ccDescription :: "json option"
  ccDueDate :: "instant option"
  ccCoverImageUrl :: "string option"
  ccAssigneeIds :: "uuid list option"
  ccLabelIds :: "uuid list option"
  ccPriority :: "card_priority option"
  ccStatus :: "card_status option"
  ccParentCardId :: "uuid option"
  ccEstimateMinutes :: "int option"

record update_card_dto =
  ucTitle :: "string option"
  ucDescription :: "json option"
  ucDueDate :: "instant patch"
  ucIsComplete :: "bool option"
  ucStatus :: "card_status option"
  ucPriority :: "card_priority option"
  ucEstimateMinutes :: "int patch"
  ucCoverImageUrl :: "string patch"

record move_card_dto =
  mcTargetListId :: uuid
  mcPrevRank :: "string option"
  mcNextRank :: "string option"

text \<open>The two validation loops stop at the first offending id.\<close>

fun validateAssignees :: "uuid \<Rightarrow> uuid list \<Rightarrow> db \<Rightarrow> error option" where
  "validateAssignees ws [] s = None"
| "validateAssignees ws (u # us) s =
     (if workspaceService_isUserMember ws u s then validateAssignees ws us s
      else Some (BadRequest (''User '' @ u @ '' is not a member of workspace '' @ ws)))"

definition labelRepo_findById :: "uuid \<Rightarrow> db \<Rightarrow> label_row option" where
  "labelRepo_findById i s = find (\<lambda>l. labelId l = i) (labels s)"

definition label_in_workspace :: "uuid \<Rightarrow> uuid \<Rightarrow> db \<Rightarrow> bool" where
  "label_in_workspace ws i s \<longleftrightarrow>
     (case labelRepo_findById i s of None \<Rightarrow> False | Some l \<Rightarrow> labelWorkspaceId l = ws)"

definition label_not_available :: "uuid \<Rightarrow> uuid \<Rightarrow> error" where
  "label_not_available ws i = BadRequest (''Label '' @ i @ '' is not available in workspace '' @ ws)"

fun validateLabels :: "uuid \<Rightarrow> uuid list \<Rightarrow> db \<Rightarrow> error option" where
  "validateLabels ws [] s = None"
| "validateLabels ws (i # is) s =
     (if label_in_workspace ws i s then validateLabels ws is s else Some (label_not_available ws i))"

definition validate_relations :: "uuid \<Rightarrow> create_card_dto \<Rightarrow> db \<Rightarrow> error option" where
  "validate_relations ws dto s =
     (case validateAssignees ws (case ccAssigneeIds dto of None \<Rightarrow> [] | Some us \<Rightarrow> us) s of
        Some e \<Rightarrow> Some e
      | None \<Rightarrow> validateLabels ws (case ccLabelIds dto of None \<Rightarrow> [] | Some ls \<Rightarrow> ls) s)"

text \<open>The rank of a new card: after the last one, or initial when that rank does not parse.\<close>

definition card_append_rank :: "(string \<Rightarrow> string \<Rightarrow> bool) \<Rightarrow> 'r lexorank \<Rightarrow> uuid \<Rightarrow> db \<Rightarrow> string" where
  "card_append_rank le lx list s =
     (case cardRepo_findLastInList le list s of
        Some lastCard \<Rightarrow>
          (case getRankBetween lx (Some (cardRank lastCard)) None of
             Inl e \<Rightarrow> getInitialRank lx | Inr r \<Rightarrow> r)
      | None \<Rightarrow> getInitialRank lx)"

text \<open>The row both creating operations insert; columns that are left out take their default.\<close>

definition new_card_row ::
  "uuid \<Rightarrow> instant \<Rightarrow> uuid \<Rightarrow> create_card_dto \<Rightarrow> string \<Rightarrow> card_status \<Rightarrow> uuid option \<Rightarrow> uuid \<Rightarrow> card_row" where
  "new_card_row newId now list dto rank st parent user =
     \<lparr>cardId = newId, cardListId = list, cardTitle = ccTitle dto, cardDescription = ccDescription dto,
      cardRank = rank, cardDueDate = ccDueDate dto, cardIsComplete = isCompleteFromStatus st,
      cardCoverImageUrl = ccCoverImageUrl dto,
      cardPriority = (case ccPriority dto of None \<Rightarrow> Medium | Some p \<Rightarrow> p), cardStatus = st,
      cardParentCardId = parent, cardEstimateMinutes = ccEstimateMinutes dto,
      cardLoggedMinutes = 0, cardCreatedBy = user, cardCreatedAt = now, cardUpdatedAt = now,
      cardArchivedAt = None, cardDeletedAt = None\<rparr>"

definition parent_of_new_card :: "uuid \<Rightarrow> create_card_dto \<Rightarrow> db \<Rightarrow> error + uuid option" where
  "parent_of_new_card board dto s =
     (if truthy (ccParentCardId dto) then
        (case cardRepo_findActiveById (the (ccParentCardId dto)) (Some board) s of
           None \<Rightarrow> Inl (EntityNotFound ''Card'' (the (ccParentCardId dto)))
         | Some parent \<Rightarrow>
             if truthy (cardParentCardId (cdCard parent)) then Inl (BusinessRule ''MAX_DEPTH'')
             else Inr (Some (cardId (cdCard parent))))
      else Inr None)"

definition cardService_create ::
  "(string \<Rightarrow> string \<Rightarrow> bool) \<Rightarrow> 'r lexorank \<Rightarrow> uuid \<Rightarrow> instant \<Rightarrow> uuid \<Rightarrow> uuid \<Rightarrow> uuid \<Rightarrow>
   create_card_dto \<Rightarrow> uuid \<Rightarrow> db \<Rightarrow> card_details outcome" where
  [op_defs]: "cardService_create le lx newId now board ws list dto user s =
     (case listRepo_findActiveById list (Some board) s of
        None \<Rightarrow> (Inl (EntityNotFound ''List'' list), s)
      | Some l \<Rightarrow>
          (case validate_relations ws dto s of
             Some e \<Rightarrow> (Inl e, s)
           | None \<Rightarrow>
               (case parent_of_new_card board dto s of
                  Inl e \<Rightarrow> (Inl e, s)
                | Inr parent \<Rightarrow>
                    let st = (case ccStatus dto of None \<Rightarrow> NotStarted | Some st \<Rightarrow> st);
                        rank = card_append_rank le lx list s
                    in await (cardRepo_create now (new_card_row newId now list dto rank st parent user)
                                (ccAssigneeIds dto) (ccLabelIds dto) s)
                         (\<lambda>d s. (Inr d, emit (CardCreated (cdCard d) board list user) s)))))"

text \<open>\<open>assertBoardInWorkspace\<close>, then the active card of the board: how most operations start.\<close>

definition with_card ::
  "uuid \<Rightarrow> uuid \<Rightarrow> uuid \<Rightarrow> (card_details \<Rightarrow> db \<Rightarrow> 'a outcome) \<Rightarrow> db \<Rightarrow> 'a outcome" where
  "with_card board ws i k =
     assertBoardInWorkspace board (Some ws) (\<lambda>s.
       case cardRepo_findActiveById i (Some board) s of
         None \<Rightarrow> (Inl (EntityNotFound ''Card'' i), s)
       | Some d \<Rightarrow> k d s)"

definition cardService_getCardDetails :: "uuid \<Rightarrow> uuid \<Rightarrow> uuid \<Rightarrow> db \<Rightarrow> card_details outcome" where
  [op_defs]: "cardService_getCardDetails board ws i = with_card board ws i (\<lambda>d s. (Inr d, s))"

text \<open>How \<open>update\<close> keeps status and completion in step: the pair that is written, if any.\<close>

definition update_completion :: "card_status option \<Rightarrow> bool option \<Rightarrow> card_status \<Rightarrow> card_status option \<times> bool option" where
  "update_completion st isComplete existing =
     (case st of
        Some x \<Rightarrow> (Some x, Some (isCompleteFromStatus x))
      | None \<Rightarrow>
          (case isComplete of
             None \<Rightarrow> (None, None)
           | Some b \<Rightarrow>
               (if b \<and> existing \<noteq> Closed then Some Done
                else if \<not> b \<and> existing \<noteq> NotStarted then Some Active
                else Some existing, Some b)))"

definition card_patch :: "update_card_dto \<Rightarrow> card_status option \<times> bool option \<Rightarrow> card_row \<Rightarrow> card_row" where
  "card_patch dto completion c =
     c\<lparr>cardTitle := or_keep (ucTitle dto) (cardTitle c),
       cardDescription := (case ucDescription dto of None \<Rightarrow> cardDescription c | Some j \<Rightarrow> Some j),
       cardDueDate := apply_patch (ucDueDate dto) (cardDueDate c),
       cardIsComplete := or_keep (snd completion) (cardIsComplete c),
       cardStatus := or_keep (fst completion) (cardStatus c),
       cardPriority := or_keep (ucPriority dto) (cardPriority c),
       cardEstimateMinutes := apply_patch (ucEstimateMinutes dto) (cardEstimateMinutes c),
       cardCoverImageUrl := apply_patch (ucCoverImageUrl dto) (cardCoverImageUrl c)\<rparr>"

definition cardService_update ::
  "instant \<Rightarrow> uuid \<Rightarrow> uuid \<Rightarrow> uuid \<Rightarrow> update_card_dto \<Rightarrow> uuid \<Rightarrow> db \<Rightarrow> card_row outcome" where
  [op_defs]: "cardService_update now board ws i dto user =
     with_card board ws i (\<lambda>existing s.
       await (cardRepo_update now i (card_patch dto
                (update_completion (ucStatus dto) (ucIsComplete dto) (cardStatus (cdCard existing)))) s)
         (\<lambda>updated s. (Inr updated, emit (CardUpdated updated board user) s)))"

definition cardService_updatePriority ::
  "instant \<Rightarrow> uuid \<Rightarrow> uuid \<Rightarrow> uuid \<Rightarrow> card_priority \<Rightarrow> uuid \<Rightarrow> db \<Rightarrow> card_row outcome" where
  [op_defs]: "cardService_updatePriority now board ws i to user =
     with_card board ws i (\<lambda>existing s.
       if cardPriority (cdCard existing) = to then (Inr (cdCard existing), s)
       else await (cardRepo_updatePriority now i to s)
              (\<lambda>updated s. (Inr updated,
                 emit (CardPriorityChanged i board (cardPriority (cdCard existing)) to user) s)))"

definition cardService_updateStatus ::
  "instant \<Rightarrow> uuid \<Rightarrow> uuid \<Rightarrow> uuid \<Rightarrow> card_status \<Rightarrow> uuid \<Rightarrow> db \<Rightarrow> card_row outcome" where
  [op_defs]: "cardService_updateStatus now board ws i to user =
     with_card board ws i (\<lambda>existing s.
       if \<not> isStatusTransitionAllowed (cardStatus (cdCard existing)) to then (Inr (cdCard existing), s)
       else let isComplete = isCompleteFromStatus to
            in await (cardRepo_updateStatus now i to isComplete s)
                 (\<lambda>updated s. (Inr updated,
                    emit (CardStatusChanged i board (cardStatus (cdCard existing)) to isComplete user) s)))"

section \<open>Subcards\<close>

definition cardService_createSubcard ::
  "(string \<Rightarrow> string \<Rightarrow> bool) \<Rightarrow> 'r lexorank \<Rightarrow> uuid \<Rightarrow> instant \<Rightarrow> uuid \<Rightarrow> uuid \<Rightarrow> uuid \<Rightarrow>
   create_card_dto \<Rightarrow> uuid \<Rightarrow> db \<Rightarrow> card_details outcome" where
  [op_defs]: "cardService_createSubcard le lx newId now board ws parentId dto user =
     with_card board ws parentId (\<lambda>parent s.
       if truthy (cardParentCardId (cdCard parent)) then (Inl (BusinessRule ''MAX_DEPTH''), s)
       else
         (case validate_relations ws dto s of
            Some e \<Rightarrow> (Inl e, s)
          | None \<Rightarrow>
              let st = (case ccStatus dto of None \<Rightarrow> NotStarted | Some st \<Rightarrow> st);
                  list = cardListId (cdCard parent);
                  rank = card_append_rank le lx list s
              in await (cardRepo_create now (new_card_row newId now list dto rank st (Some parentId) user)
                          (ccAssigneeIds dto) (ccLabelIds dto) s)
                   (\<lambda>d s. (Inr d, emit (CardSubcardCreated parentId (cardId (cdCard d)) board user) s))))"

definition cardService_attachSubcard ::
  "instant \<Rightarrow> uuid \<Rightarrow> uuid \<Rightarrow> uuid \<Rightarrow> uuid \<Rightarrow> uuid \<Rightarrow> db \<Rightarrow> card_row outcome" where
  [op_defs]: "cardService_attachSubcard now board ws parentId subcardId user =
     with_card board ws parentId (\<lambda>parent s.
       if truthy (cardParentCardId (cdCard parent)) then (Inl (BusinessRule ''MAX_DEPTH''), s)
       else
         (case cardRepo_findActiveById subcardId (Some board) s of
            None \<Rightarrow> (Inl (EntityNotFound ''Card'' subcardId), s)
          | Some child \<Rightarrow>
              if cardId (cdCard child) = parentId then (Inl (BusinessRule ''CYCLE''), s)
              else if truthy (cardParentCardId (cdCard child)) then
                (Inl (BusinessRule ''ALREADY_HAS_PARENT''), s)
              else if 0 < cardRepo_countSubcards (cardId (cdCard child)) s then
                (Inl (BusinessRule ''HAS_SUBCARDS''), s)
              else await (cardRepo_attachSubcard now subcardId parentId s)
                     (\<lambda>attached s. (Inr attached,
                        emit (CardSubcardCreated parentId subcardId board user) s))))"

definition cardService_detachSubcard ::
  "instant \<Rightarrow> uuid \<Rightarrow> uuid \<Rightarrow> uuid \<Rightarrow> uuid \<Rightarrow> db \<Rightarrow> card_row outcome" where
  [op_defs]: "cardService_detachSubcard now board ws subcardId user =
     with_card board ws subcardId (\<lambda>child s.
       if \<not> truthy (cardParentCardId (cdCard child)) then (Inl (BusinessRule ''NO_PARENT''), s)
       else await (cardRepo_detachSubcard now subcardId s)
              (\<lambda>detached s. (Inr detached, emit (CardUpdated detached board user) s)))"

record rollup =
  rlTotal :: nat
  rlDone :: nat
  rlEstimateSum :: int
  rlLoggedSum :: int

definition subcard_rollup :: "card_row list \<Rightarrow> rollup" where
  "subcard_rollup subcards =
     \<lparr>rlTotal = length subcards,
      rlDone = length (filter (\<lambda>c. isCompleteFromStatus (cardStatus c)) subcards),
      rlEstimateSum = fold (\<lambda>c sum. sum + (case cardEstimateMinutes c of None \<Rightarrow> 0 | Some m \<Rightarrow> m)) subcards 0,
      rlLoggedSum = fold (\<lambda>c sum. sum + cardLoggedMinutes c) subcards 0\<rparr>"

definition cardService_getWithSubcards ::
  "(string \<Rightarrow> string \<Rightarrow> bool) \<Rightarrow> uuid \<Rightarrow> uuid \<Rightarrow> uuid \<Rightarrow> db \<Rightarrow> (card_details \<times> card_row list \<times> rollup) outcome" where
  [op_defs]: "cardService_getWithSubcards le board ws i =
     with_card board ws i (\<lambda>parent s.
       let subcards = cardRepo_findSubcards le i s
       in (Inr (parent, subcards, subcard_rollup subcards), s))"

section \<open>Moving, archiving, relations\<close>

definition cardService_move ::
  "'r lexorank \<Rightarrow> instant \<Rightarrow> uuid \<Rightarrow> uuid \<Rightarrow> uuid \<Rightarrow> move_card_dto \<Rightarrow> uuid \<Rightarrow> db \<Rightarrow> card_row outcome" where
  [op_defs]: "cardService_move lx now board ws i dto user =
     with_card board ws i (\<lambda>d s.
       case listRepo_findActiveById (mcTargetListId dto) (Some board) s of
         None \<Rightarrow> (Inl (BadRequest (''Target list '' @ mcTargetListId dto @
                                   '' does not belong to board '' @ board)), s)
       | Some target \<Rightarrow>
           let newRank = (case getRankBetween lx (mcPrevRank dto) (mcNextRank dto) of
                            Inl e \<Rightarrow> getInitialRank lx | Inr r \<Rightarrow> r)
           in await (cardRepo_moveCard now i (mcTargetListId dto) newRank s)
                (\<lambda>moved s. (Inr moved,
                   emit (CardMoved i board (cardListId (cdCard d)) (mcTargetListId dto) newRank user) s)))"

definition cardService_archive :: "instant \<Rightarrow> uuid \<Rightarrow> uuid \<Rightarrow> uuid \<Rightarrow> uuid \<Rightarrow> db \<Rightarrow> unit outcome" where
  [op_defs]: "cardService_archive now board ws i user =
     with_card board ws i (\<lambda>d s.
       await (cardRepo_archive now i s)
         (\<lambda>_ s. (Inr (), emit (CardArchived i board (cardListId (cdCard d)) user) s)))"

definition cardService_unarchive :: "instant \<Rightarrow> uuid \<Rightarrow> uuid \<Rightarrow> uuid \<Rightarrow> uuid \<Rightarrow> db \<Rightarrow> card_row outcome" where
  [op_defs]: "cardService_unarchive now board ws i user =
     assertBoardInWorkspace board (Some ws) (\<lambda>s.
       case cardRepo_findByIdIncludingArchived i (Some board) s of
         None \<Rightarrow> (Inl (EntityNotFound ''Card'' i), s)
       | Some c \<Rightarrow>
           await (cardRepo_unarchive now i s)
             (\<lambda>restored s. (Inr restored,
                emit (CardUnarchived restored board (cardListId restored) user) s)))"

definition cardService_listArchivedCardsPaginated ::
  "card_details cursor_seek \<Rightarrow> uuid \<Rightarrow> uuid \<Rightarrow> uuid option \<Rightarrow> nat option \<Rightarrow> db \<Rightarrow> card_details page outcome" where
  "cardService_listArchivedCardsPaginated after board ws cursor limit s =
     (case boardRepo_findById board (Some ws) s of
        None \<Rightarrow> (Inl (EntityNotFound ''Board'' board), s)
      | Some b \<Rightarrow>
          (cardRepo_findArchivedByBoardIdPage after board cursor
             (case limit of None \<Rightarrow> 20 | Some n \<Rightarrow> n) s, s))"

definition cardService_deletePermanently ::
  "instant \<Rightarrow> uuid \<Rightarrow> uuid \<Rightarrow> uuid \<Rightarrow> uuid \<Rightarrow> db \<Rightarrow> unit outcome" where
  [op_defs]: "cardService_deletePermanently now board ws i user =
     assertBoardInWorkspace board (Some ws) (\<lambda>s.
       case cardRepo_findByIdIncludingDeleted i (Some board) s of
         None \<Rightarrow> (Inl (EntityNotFound ''Card'' i), s)
       | Some c \<Rightarrow>
           if cardDeletedAt c \<noteq> None then (Inl (BusinessRule ''CARD_ALREADY_DELETED''), s)
           else await (cardRepo_deletePermanently now i s)
                  (\<lambda>_ s. (Inr (), emit (CardDeleted i board (cardListId c) user) s)))"

definition cardService_addAssignee ::
  "instant \<Rightarrow> uuid \<Rightarrow> uuid \<Rightarrow> uuid \<Rightarrow> uuid \<Rightarrow> uuid \<Rightarrow> db \<Rightarrow> unit outcome" where
  [op_defs]: "cardService_addAssignee now board ws i assignee addedBy s =
     (case cardRepo_findActiveById i (Some board) s of
        None \<Rightarrow> (Inl (EntityNotFound ''Card'' i), s)
      | Some d \<Rightarrow>
          if \<not> workspaceService_isUserMember ws assignee s then
            (Inl (BadRequest (''User '' @ assignee @ '' is not a member of workspace '' @ ws)), s)
          else (Inr (), emit (CardAssigneeAdded i board assignee addedBy) (cardRepo_addAssignee now i assignee s)))"

definition cardService_removeAssignee ::
  "uuid \<Rightarrow> uuid \<Rightarrow> uuid \<Rightarrow> uuid \<Rightarrow> uuid \<Rightarrow> db \<Rightarrow> unit outcome" where
  [op_defs]: "cardService_removeAssignee board ws i assignee removedBy =
     with_card board ws i (\<lambda>d s.
       (Inr (), emit (CardAssigneeRemoved i board assignee removedBy) (cardRepo_removeAssignee i assignee s)))"

definition cardService_addLabel :: "uuid \<Rightarrow> uuid \<Rightarrow> uuid \<Rightarrow> uuid \<Rightarrow> db \<Rightarrow> unit outcome" where
  [op_defs]: "cardService_addLabel board ws i label s =
     (case cardRepo_findActiveById i (Some board) s of
        None \<Rightarrow> (Inl (EntityNotFound ''Card'' i), s)
      | Some d \<Rightarrow>
          if \<not> label_in_workspace ws label s then (Inl (label_not_available ws label), s)
          else (Inr (), cardRepo_addLabel i label s))"

definition cardService_removeLabel :: "uuid \<Rightarrow> uuid \<Rightarrow> uuid \<Rightarrow> uuid \<Rightarrow> db \<Rightarrow> unit outcome" where
  [op_defs]: "cardService_removeLabel board ws i label =
     with_card board ws i (\<lambda>d s. (Inr (), cardRepo_removeLabel i label s))"

definition cardService_findTitleById :: "uuid \<Rightarrow> db \<Rightarrow> string option" where
  "cardService_findTitleById i s = map_option (\<lambda>d. cardTitle (cdCard d)) (cardRepo_findActiveById i None s)"

definition cardService_findAssigneeIdsByCardId :: "uuid \<Rightarrow> db \<Rightarrow> uuid list" where
  "cardService_findAssigneeIdsByCardId i s =
     filter (\<lambda>x. x \<noteq> [])
       (List.map_filter (map_option upId)
         (case cardRepo_findActiveById i None s of None \<Rightarrow> [] | Some d \<Rightarrow> cdAssignees d))"


section \<open>Lookup and update\<close>

definition cards_wf :: "db \<Rightarrow> bool" where
  "cards_wf s \<longleftrightarrow> unique_key cardId (cards s)"

lemma find_active_card_SomeD:
  assumes "find_active_card i board s = Some c"
  shows "c \<in> set (cards s)" "cardId c = i" "cardArchivedAt c = None" "cardDeletedAt c = None"
    "card_in_scope board s c"
  using assms by (auto simp: find_active_card_def dest!: find_SomeD)

lemma cardRepo_findActiveById_iff:
  "cardRepo_findActiveById i board s = Some d \<longleftrightarrow>
     (\<exists>c. find_active_card i board s = Some c \<and> d = with_details s c)"
  by (auto simp: cardRepo_findActiveById_def)

lemma cdCard_with_details [simp]: "cdCard (with_details s c) = c"
  by (simp add: with_details_def)

lemma cardRepo_findAny_SomeD:
  assumes "cardRepo_findByIdIncludingDeleted i board s = Some c"
  shows "c \<in> set (cards s)" "cardId c = i" "card_in_scope board s c"
  using assms by (auto simp: cardRepo_findByIdIncludingDeleted_def dest!: find_SomeD)

lemma cardRepo_archived_eq_deleted:
  "cardRepo_findByIdIncludingArchived = cardRepo_findByIdIncludingDeleted"
  by (simp add: fun_eq_iff cardRepo_findByIdIncludingArchived_def cardRepo_findByIdIncludingDeleted_def)

lemma card_active_iff:
  assumes "cards_wf s"
  shows "find_active_card i board s = Some c \<longleftrightarrow>
    cardRepo_findByIdIncludingDeleted i board s = Some c \<and> cardArchivedAt c = None \<and> cardDeletedAt c = None"
proof -
  have "find_active_card i board s = Some c \<longleftrightarrow> c \<in> set (cards s) \<and> cardId c = i \<and>
      cardArchivedAt c = None \<and> cardDeletedAt c = None \<and> card_in_scope board s c"
    unfolding find_active_card_def
    by (auto dest: find_SomeD intro!: find_unique [OF assms [unfolded cards_wf_def]])
  moreover have "cardRepo_findByIdIncludingDeleted i board s = Some c \<longleftrightarrow> c \<in> set (cards s) \<and>
      cardId c = i \<and> card_in_scope board s c"
    unfolding cardRepo_findByIdIncludingDeleted_def
    by (auto dest: find_SomeD intro!: find_unique [OF assms [unfolded cards_wf_def]])
  ultimately show ?thesis by auto
qed

lemma cardRepo_update_Inr_iff:
  "cardRepo_update now i data s = (Inr row, s') \<longleftrightarrow>
     (\<exists>c. find (\<lambda>c. cardId c = i) (cards s) = Some c \<and> row = (data c)\<lparr>cardUpdatedAt := now\<rparr> \<and>
          s' = set_card now i data s)"
  by (auto simp: cardRepo_update_def or_missing_Inr_iff update_by_Some_iff set_card_def)

lemma cardRepo_update_fail: "cardRepo_update now i data s = (Inl e, s') \<Longrightarrow> s' = s"
  by (auto simp: cardRepo_update_def or_missing_def split: option.splits)

lemma set_card_simps [simp]:
  "lists (set_card now i data s) = lists s" "boards (set_card now i data s) = boards s"
  "cards (set_card now i data s) =
     map (\<lambda>c. if cardId c = i then (data c)\<lparr>cardUpdatedAt := now\<rparr> else c) (cards s)"
  "timeEntries (set_card now i data s) = timeEntries s" "events (set_card now i data s) = events s"
  "assignees (set_card now i data s) = assignees s" "members (set_card now i data s) = members s"
  by (simp_all add: set_card_def)

lemma card_in_scope_lists: "lists s' = lists s \<Longrightarrow> card_in_scope board s' = card_in_scope board s"
  by (simp add: fun_eq_iff card_in_scope_def card_on_board_def)

text \<open>An update that keeps id and list is seen by every later lookup.\<close>

lemma cardRepo_update_ok:
  assumes "cardRepo_update now i data s = (Inr row, s')"
    and "\<And>c. cardId (data c) = cardId c" "\<And>c. cardListId (data c) = cardListId c"
  shows "s' = set_card now i data s"
    and "cards_wf s' = cards_wf s"
    and "cardRepo_findByIdIncludingDeleted j board s' =
      map_option (if j = i then (\<lambda>c. (data c)\<lparr>cardUpdatedAt := now\<rparr>) else id)
        (cardRepo_findByIdIncludingDeleted j board s)"
proof -
  from assms(1) show s': "s' = set_card now i data s" by (auto simp: cardRepo_update_Inr_iff)
  show "cards_wf s' = cards_wf s"
    by (simp add: s' cards_wf_def unique_key_map assms(2))
  have scope: "card_in_scope board s' = card_in_scope board s"
    by (rule card_in_scope_lists) (simp add: s')
  have keep: "card_in_scope board s ((data c)\<lparr>cardUpdatedAt := now\<rparr>) = card_in_scope board s c" for c
    by (simp add: card_in_scope_def card_on_board_def assms(3))
  have cs: "cards s' = map (\<lambda>c. if cardId c = i then (data c)\<lparr>cardUpdatedAt := now\<rparr> else c) (cards s)"
    by (simp add: s')
  show "cardRepo_findByIdIncludingDeleted j board s' =
      map_option (if j = i then (\<lambda>c. (data c)\<lparr>cardUpdatedAt := now\<rparr>) else id)
        (cardRepo_findByIdIncludingDeleted j board s)"
    unfolding cardRepo_findByIdIncludingDeleted_def scope cs
    by (rule find_map_update) (simp_all add: keep assms(2))
qed

definition card_set_archived :: "instant \<Rightarrow> instant option \<Rightarrow> card_row \<Rightarrow> card_row" where
  "card_set_archived now a c = c\<lparr>cardArchivedAt := a, cardUpdatedAt := now\<rparr>"

definition card_set_deleted :: "instant \<Rightarrow> card_row \<Rightarrow> card_row" where
  "card_set_deleted now c = c\<lparr>cardDeletedAt := Some now, cardUpdatedAt := now\<rparr>"

interpretation cards: soft_delete_repo cards_wf find_active_card cardRepo_findByIdIncludingDeleted
  cardRepo_archive cardRepo_unarchive cardRepo_deletePermanently cardArchivedAt cardDeletedAt
  card_set_archived card_set_deleted
proof (unfold_locales, goal_cases)
  case (1 s i sc r)
  then show ?case by (rule card_active_iff)
next
  case (2 s now i r s' j sc)
  then show ?case
    by (simp add: cardRepo_update_ok(2,3) [OF 2(2) [unfolded cardRepo_archive_def]]
        card_set_archived_def [abs_def])
next
  case (3 s now i r s' j sc)
  then show ?case
    by (simp add: cardRepo_update_ok(2,3) [OF 3(2) [unfolded cardRepo_unarchive_def]]
        card_set_archived_def [abs_def])
next
  case (4 s now i r s' j sc)
  then show ?case
    by (simp add: cardRepo_update_ok(2,3) [OF 4(2) [unfolded cardRepo_deletePermanently_def]]
        card_set_deleted_def [abs_def])
qed (auto simp: cardRepo_archive_def cardRepo_unarchive_def cardRepo_deletePermanently_def
      card_set_archived_def card_set_deleted_def dest: cardRepo_update_fail)

section \<open>Guards\<close>

lemma assertBoardInWorkspace_Inr_iff:
  "assertBoardInWorkspace board ws k s = (Inr y, s') \<longleftrightarrow>
     (\<exists>b. boardRepo_findById board ws s = Some b) \<and> k s = (Inr y, s')"
  by (auto simp: assertBoardInWorkspace_def split: option.splits)

lemma with_card_Inr_iff:
  "with_card board ws i k s = (Inr y, s') \<longleftrightarrow>
     (\<exists>b. boardRepo_findById board (Some ws) s = Some b) \<and>
     (\<exists>c. find_active_card i (Some board) s = Some c \<and> k (with_details s c) s = (Inr y, s'))"
  by (auto simp: with_card_def assertBoardInWorkspace_Inr_iff cardRepo_findActiveById_def split: option.splits)

lemma card_or_not_found_Inr_iff:
  "card_or_not_found i m = (Inr y, s') \<longleftrightarrow> m = (Inr y, s')"
  by (cases m; cases "fst m") (auto simp: card_or_not_found_def)

lemma with_card_cases:
  "with_card board ws i k s = (Inl (EntityNotFound ''Board'' board), s) \<or>
   with_card board ws i k s = (Inl (EntityNotFound ''Card'' i), s) \<or>
   (\<exists>b c. boardRepo_findById board (Some ws) s = Some b \<and> find_active_card i (Some board) s = Some c \<and>
      with_card board ws i k s = k (with_details s c) s)"
  by (auto simp: with_card_def assertBoardInWorkspace_def cardRepo_findActiveById_def split: option.splits)

lemma validateAssignees_None_iff:
  "validateAssignees ws us s = None \<longleftrightarrow> (\<forall>u\<in>set us. workspaceService_isUserMember ws u s)"
  by (induction us) auto

lemma validateLabels_None_iff:
  "validateLabels ws is s = None \<longleftrightarrow> (\<forall>i\<in>set is. label_in_workspace ws i s)"
  by (induction "is") auto

lemma assignees_after_create:
  "set (fold (add_assignee now cid) us rows) =
     set rows \<union> {\<lparr>asgCardId = cid, asgUserId = u, asgAssignedAt = now\<rparr> | u.
       u \<in> set us \<and> \<not> (\<exists>a\<in>set rows. asgCardId a = cid \<and> asgUserId a = u)}"
  by (induction us arbitrary: rows) (auto simp: add_assignee_def list_ex_iff)

end
