(* ===== verification/Card_Writes.thy ===== *)
theory Card_Writes
  imports Cards
begin

text \<open>
  What the card table promises, apart from the code that writes it: a labelled step relation
  \<open>card_write\<close> over the rows, with one kind of step per way the services may change them, and the
  invariants that hold along it. \<open>Card_Effects\<close> shows that each service operation takes such a
  step, so every invariant proved here once holds of all of them.
\<close>

section \<open>Predicates on rows\<close>

definition is_active :: "card_row \<Rightarrow> bool" where
  "is_active c \<longleftrightarrow> cardArchivedAt c = None \<and> cardDeletedAt c = None"

definition completion_ok :: "card_row \<Rightarrow> bool" where
  "completion_ok c \<longleftrightarrow> cardIsComplete c = isCompleteFromStatus (cardStatus c)"

text \<open>An edit keeps identity, parent and logged time, and makes no row active or undeleted.\<close>

definition card_edit :: "card_row \<Rightarrow> card_row \<Rightarrow> bool" where
  "card_edit c d \<longleftrightarrow> cardId d = cardId c \<and> cardParentCardId d = cardParentCardId c \<and>
     cardLoggedMinutes d = cardLoggedMinutes c \<and> (is_active d \<longrightarrow> is_active c) \<and>
     (cardDeletedAt c \<noteq> None \<longrightarrow> cardDeletedAt d \<noteq> None) \<and> (completion_ok c \<longrightarrow> completion_ok d)"

definition at_id :: "uuid \<Rightarrow> (card_row \<Rightarrow> card_row) \<Rightarrow> card_row list \<Rightarrow> card_row list" where
  "at_id i f cs = map (\<lambda>c. if cardId c = i then f c else c) cs"

lemma cards_set_card [simp]:
  "cards (set_card now i data s) = at_id i (\<lambda>c. (data c)\<lparr>cardUpdatedAt := now\<rparr>) (cards s)"
  by (simp add: set_card_def at_id_def)

declare set_card_simps(3) [simp del]

lemma set_at_id: "set (at_id i f cs) = (\<lambda>c. if cardId c = i then f c else c) ` set cs"
  by (simp add: at_id_def)

section \<open>The step relation\<close>

datatype write_kind = Unchanged | Added uuid | Edited uuid | Restored uuid | Attached uuid uuid
  | Detached uuid | Logged uuid int

inductive card_write :: "write_kind \<Rightarrow> card_row list \<Rightarrow> card_row list \<Rightarrow> bool" where
  write_none: "card_write Unchanged cs cs"
| write_add: "cardId row = i \<Longrightarrow> i \<noteq> [] \<Longrightarrow> i \<notin> cardId ` set cs \<Longrightarrow> is_active row \<Longrightarrow> completion_ok row \<Longrightarrow>
    cardLoggedMinutes row = 0 \<Longrightarrow>
    cardParentCardId row = None \<or>
      (\<exists>p\<in>set cs. is_active p \<and> \<not> truthy (cardParentCardId p) \<and> cardParentCardId row = Some (cardId p)) \<Longrightarrow>
    card_write (Added i) cs (cs @ [row])"
| write_edit: "(\<And>c. c \<in> set cs \<Longrightarrow> cardId c = i \<Longrightarrow> card_edit c (f c)) \<Longrightarrow> card_write (Edited i) cs (at_id i f cs)"
| write_restore: "card_write (Restored i) cs
    (at_id i (\<lambda>c. c\<lparr>cardArchivedAt := None, cardUpdatedAt := now\<rparr>) cs)"
| write_attach: "p \<in> set cs \<Longrightarrow> is_active p \<Longrightarrow> \<not> truthy (cardParentCardId p) \<Longrightarrow> cardId p \<noteq> i \<Longrightarrow>
    (\<forall>c\<in>set cs. is_active c \<longrightarrow> cardParentCardId c \<noteq> Some i) \<Longrightarrow>
    card_write (Attached i (cardId p)) cs
      (at_id i (\<lambda>c. c\<lparr>cardParentCardId := Some (cardId p), cardUpdatedAt := now\<rparr>) cs)"
| write_detach: "card_write (Detached i) cs
    (at_id i (\<lambda>c. c\<lparr>cardParentCardId := None, cardUpdatedAt := now\<rparr>) cs)"
| write_log: "card_write (Logged i m) cs
    (at_id i (\<lambda>c. c\<lparr>cardLoggedMinutes := cardLoggedMinutes c + m, cardUpdatedAt := now\<rparr>) cs)"

inductive_cases card_write_addedE: "card_write (Added i) cs cs'"
inductive_simps card_write_unchanged [simp]: "card_write Unchanged cs cs'"

section \<open>Invariants\<close>

definition rows_ok :: "card_row list \<Rightarrow> bool" where
  "rows_ok cs \<longleftrightarrow> unique_key cardId cs \<and> (\<forall>c\<in>set cs. cardId c \<noteq> []) \<and>
     (\<forall>c\<in>set cs. \<forall>p. cardParentCardId c = Some p \<longrightarrow> p \<in> cardId ` set cs)"

definition all_complete_ok :: "card_row list \<Rightarrow> bool" where
  "all_complete_ok cs \<longleftrightarrow> (\<forall>c\<in>set cs. completion_ok c)"

definition depth_ok :: "card_row list \<Rightarrow> bool" where
  "depth_ok cs \<longleftrightarrow> (\<forall>c\<in>set cs. \<forall>p\<in>set cs. is_active c \<longrightarrow> is_active p \<longrightarrow>
     cardParentCardId c = Some (cardId p) \<longrightarrow> cardParentCardId p = None)"

lemma rows_ok_parent_truthy:
  "rows_ok cs \<Longrightarrow> c \<in> set cs \<Longrightarrow> truthy (cardParentCardId c) = (cardParentCardId c \<noteq> None)"
  unfolding rows_ok_def by (cases "cardParentCardId c") (simp, metis imageE option.distinct(1) truthy_simps(2))

lemma at_id_ids [simp]: "(\<And>c. cardId c = i \<Longrightarrow> c \<in> set cs \<Longrightarrow> cardId (f c) = i) \<Longrightarrow> map cardId (at_id i f cs) = map cardId cs"
  by (auto simp: at_id_def)

lemma at_id_id_image:
  "(\<And>c. cardId c = i \<Longrightarrow> c \<in> set cs \<Longrightarrow> cardId (f c) = i) \<Longrightarrow> cardId ` set (at_id i f cs) = cardId ` set cs"
  by (metis at_id_ids list.set_map)

text \<open>Every step keeps the ids it finds, in order.\<close>

lemma write_keeps_ids:
  "card_write k cs cs' \<Longrightarrow> \<exists>new. map cardId cs' = map cardId cs @ new \<and> (\<forall>i\<in>set new. i \<notin> cardId ` set cs \<and> i \<noteq> [])
     \<and> distinct new"
  by (induction rule: card_write.induct) (auto simp: card_edit_def)

lemma rows_ok_at_id:
  assumes "rows_ok cs" "\<And>c. c \<in> set cs \<Longrightarrow> cardId c = i \<Longrightarrow> cardId (f c) = i"
    and "\<And>c. c \<in> set cs \<Longrightarrow> cardId c = i \<Longrightarrow> cardParentCardId (f c) = cardParentCardId c \<or>
      cardParentCardId (f c) = None \<or> (\<exists>p\<in>set cs. cardParentCardId (f c) = Some (cardId p))"
  shows "rows_ok (at_id i f cs)"
proof -
  have ids: "map cardId (at_id i f cs) = map cardId cs" using assms(2) by simp
  then have img: "cardId ` set (at_id i f cs) = cardId ` set cs" by (metis list.set_map)
  have par: "q \<in> cardId ` set cs"
    if "c \<in> set (at_id i f cs)" "cardParentCardId c = Some q" for c q
  proof -
    from that(1) obtain d where d: "d \<in> set cs" "c = (if cardId d = i then f d else d)"
      by (auto simp: set_at_id)
    show ?thesis
    proof (cases "cardId d = i")
      case False
      with d that(2) assms(1) show ?thesis by (auto simp: rows_ok_def)
    next
      case True
      with d that(2) have "cardParentCardId (f d) = Some q" by simp
      with assms(3) [OF d(1) True] d(1) assms(1) show ?thesis by (auto simp: rows_ok_def)
    qed
  qed
  have ne: "\<forall>c\<in>set (at_id i f cs). cardId c \<noteq> []"
    using img assms(1) unfolding rows_ok_def by (metis imageE imageI)
  from ids par ne img assms(1) show ?thesis by (simp add: rows_ok_def unique_key_def)
qed

lemma write_rows_ok: "card_write k cs cs' \<Longrightarrow> rows_ok cs \<Longrightarrow> rows_ok cs'"
proof (induction rule: card_write.induct)
  case (write_add row i cs)
  then show ?case by (auto simp: rows_ok_def unique_key_def)
next
  case (write_edit cs i f)
  then show ?case by (intro rows_ok_at_id) (auto simp: card_edit_def)
qed (auto intro!: rows_ok_at_id)

lemma write_complete_ok: "card_write k cs cs' \<Longrightarrow> all_complete_ok cs \<Longrightarrow> all_complete_ok cs'"
  unfolding all_complete_ok_def
  by (induction rule: card_write.induct) (auto simp: set_at_id card_edit_def completion_ok_def)

lemma write_deleted:
  assumes "card_write k cs cs'" "c \<in> set cs" "cardDeletedAt c \<noteq> None"
  shows "\<exists>c'\<in>set cs'. cardId c' = cardId c \<and> cardDeletedAt c' \<noteq> None"
proof -
  have gen: "\<exists>c'\<in>set (at_id i f cs). cardId c' = cardId c \<and> cardDeletedAt c' \<noteq> None"
    if "cardId c = i \<Longrightarrow> cardId (f c) = cardId c \<and> cardDeletedAt (f c) \<noteq> None" for i f
    using that assms(2,3) by (cases "cardId c = i") (force simp: set_at_id)+
  show ?thesis
    using assms(1)
  proof cases
    case (write_edit i f)
    then show ?thesis using gen assms by (auto simp: card_edit_def)
  qed (use assms gen in auto)
qed

text \<open>Only logging changes a counter, and a new card starts at zero.\<close>

lemma at_id_counter:
  assumes "c \<in> set (at_id i f cs)"
    and "\<And>x. x \<in> set cs \<Longrightarrow> cardId x = i \<Longrightarrow> cardId (f x) = cardId x \<and> cardLoggedMinutes (f x) = cardLoggedMinutes x"
  shows "\<exists>c0\<in>set cs. cardId c = cardId c0 \<and> cardLoggedMinutes c = cardLoggedMinutes c0"
proof -
  from assms(1) obtain c0 where c0: "c0 \<in> set cs" "c = (if cardId c0 = i then f c0 else c0)"
    by (auto simp: set_at_id)
  have "cardId c = cardId c0 \<and> cardLoggedMinutes c = cardLoggedMinutes c0"
    using assms(2) [OF c0(1)] unfolding c0(2) by simp
  with c0(1) show ?thesis by blast
qed

lemma write_counters:
  assumes "card_write k cs cs'" "\<And>i m. k \<noteq> Logged i m" "c \<in> set cs'"
  shows "(\<exists>c0\<in>set cs. cardId c = cardId c0 \<and> cardLoggedMinutes c = cardLoggedMinutes c0) \<or>
    (cardId c \<notin> cardId ` set cs \<and> cardLoggedMinutes c = 0)"
  using assms(1)
proof cases
  case (write_add row i)
  show ?thesis
  proof (cases "c = row")
    case True
    with write_add show ?thesis by simp
  next
    case False
    with assms(3) write_add(2) have "c \<in> set cs" by simp
    then show ?thesis by blast
  qed
next
  case (write_log i m now)
  with assms(2) show ?thesis by blast
qed (use assms(3) in \<open>auto dest!: at_id_counter simp: card_edit_def\<close>)

section \<open>Nesting depth\<close>

lemma depth_okD:
  "depth_ok cs \<Longrightarrow> c \<in> set cs \<Longrightarrow> p \<in> set cs \<Longrightarrow> is_active c \<Longrightarrow> is_active p \<Longrightarrow>
   cardParentCardId c = Some (cardId p) \<Longrightarrow> cardParentCardId p = None"
  unfolding depth_ok_def by blast

lemma depth_at_id:
  assumes "depth_ok cs"
    and "\<And>c. c \<in> set cs \<Longrightarrow> cardId c = i \<Longrightarrow> cardId (f c) = i \<and> cardParentCardId (f c) \<in> {cardParentCardId c, None}"
    and "\<And>c. c \<in> set cs \<Longrightarrow> cardId c = i \<Longrightarrow> is_active (f c) \<longrightarrow> is_active c"
  shows "depth_ok (at_id i f cs)"
  unfolding depth_ok_def
proof (intro ballI impI)
  fix c p assume m: "c \<in> set (at_id i f cs)" "p \<in> set (at_id i f cs)"
    and act: "is_active c" "is_active p" and par: "cardParentCardId c = Some (cardId p)"
  from m obtain c0 p0 where o: "c0 \<in> set cs" "c = (if cardId c0 = i then f c0 else c0)"
    "p0 \<in> set cs" "p = (if cardId p0 = i then f p0 else p0)" by (auto simp: set_at_id)
  have was: "is_active x0 \<and> cardId x = cardId x0 \<and> cardParentCardId x \<in> {cardParentCardId x0, None}"
    if "x0 \<in> set cs" "x = (if cardId x0 = i then f x0 else x0)" "is_active x" for x x0
    using that assms(2,3) [of x0] by (cases "cardId x0 = i") auto
  note wc = was [OF o(1,2) act(1)] and wp = was [OF o(3,4) act(2)]
  from wc wp par have "cardParentCardId c0 = Some (cardId p0)" by auto
  with wc wp depth_okD [OF assms(1) o(1,3)] show "cardParentCardId p = None" by auto
qed

lemma depth_add:
  assumes "rows_ok cs" "depth_ok cs" "cardId row \<notin> cardId ` set cs"
    and "cardParentCardId row = None \<or>
      (\<exists>p\<in>set cs. is_active p \<and> \<not> truthy (cardParentCardId p) \<and> cardParentCardId row = Some (cardId p))"
  shows "depth_ok (cs @ [row])"
proof -
  have no_child: "cardParentCardId c \<noteq> Some (cardId row)" if "c \<in> set cs" for c
    using that assms(1,3) by (auto simp: rows_ok_def)
  have no_self: "cardParentCardId row \<noteq> Some (cardId row)"
    using assms(3,4) by (metis imageI option.distinct(1) option.inject)
  have par: "cardParentCardId p = None" if "p \<in> set cs" "cardParentCardId row = Some (cardId p)" for p
  proof -
    from assms(4) that(2) obtain q where q: "q \<in> set cs" "\<not> truthy (cardParentCardId q)" "cardId q = cardId p"
      by auto
    from assms(1) q that(1) have "q = p" by (auto simp: rows_ok_def intro: unique_keyD)
    with q rows_ok_parent_truthy [OF assms(1) q(1)] show ?thesis by simp
  qed
  show ?thesis
    unfolding depth_ok_def
  proof (intro ballI impI)
    fix c p assume "c \<in> set (cs @ [row])" "p \<in> set (cs @ [row])" and act: "is_active c" "is_active p"
      and link: "cardParentCardId c = Some (cardId p)"
    then consider "c \<in> set cs" "p \<in> set cs" | "c = row" "p \<in> set cs" | "p = row" by auto
    then show "cardParentCardId p = None"
    proof cases
      case 1
      then show ?thesis by (rule depth_okD [OF assms(2) _ _ act link])
    next
      case 2
      with link show ?thesis by (intro par) simp_all
    next
      case 3
      with link no_child no_self \<open>c \<in> set (cs @ [row])\<close> show ?thesis by auto
    qed
  qed
qed

lemma depth_attach:
  assumes "rows_ok cs" "depth_ok cs" "p \<in> set cs" "\<not> truthy (cardParentCardId p)" "cardId p \<noteq> i"
    and "\<forall>c\<in>set cs. is_active c \<longrightarrow> cardParentCardId c \<noteq> Some i"
  shows "depth_ok (at_id i (\<lambda>c. c\<lparr>cardParentCardId := Some (cardId p), cardUpdatedAt := now\<rparr>) cs)"
    (is "depth_ok (at_id i ?f cs)")
  unfolding depth_ok_def
proof (intro ballI impI)
  fix c q assume m: "c \<in> set (at_id i ?f cs)" "q \<in> set (at_id i ?f cs)"
    and act: "is_active c" "is_active q" and par: "cardParentCardId c = Some (cardId q)"
  from m obtain c0 q0 where o: "c0 \<in> set cs" "c = (if cardId c0 = i then ?f c0 else c0)"
    "q0 \<in> set cs" "q = (if cardId q0 = i then ?f q0 else q0)" by (auto simp: set_at_id)
  have none: "cardParentCardId p = None"
    using rows_ok_parent_truthy [OF assms(1,3)] assms(4) by simp
  have ids: "cardId c = cardId c0" "cardId q = cardId q0" using o by auto
  have act0: "is_active c0" "is_active q0" using o act by (auto simp: is_active_def split: if_splits)
  show "cardParentCardId q = None"
  proof (cases "cardId c0 = i")
    case True
    then have "cardId q0 = cardId p" using o(2) par ids(2) by simp
    with o(3) assms(1,3) have "q0 = p" by (auto simp: rows_ok_def intro: unique_keyD)
    with o(4) none assms(5) show ?thesis by simp
  next
    case False
    then have c0: "cardParentCardId c0 = Some (cardId q0)" using o(2) par ids(2) by simp
    with assms(6) o(1) act0(1) have "cardId q0 \<noteq> i" by blast
    then have "q = q0" using o(4) by simp
    with depth_okD [OF assms(2) o(1,3) act0 c0] show ?thesis by simp
  qed
qed

lemma write_depth_ok:
  assumes "card_write k cs cs'" "rows_ok cs" "depth_ok cs" "\<And>i. k \<noteq> Restored i"
  shows "depth_ok cs'"
  using assms(1)
proof cases
  case (write_add row i)
  then show ?thesis using depth_add [OF assms(2,3)] by auto
next
  case (write_edit i f)
  show ?thesis unfolding write_edit(2)
  proof (rule depth_at_id [OF assms(3)])
    fix c assume "c \<in> set cs" "cardId c = i"
    from write_edit(3) [OF this] \<open>cardId c = i\<close>
    show "cardId (f c) = i \<and> cardParentCardId (f c) \<in> {cardParentCardId c, None}"
      and "is_active (f c) \<longrightarrow> is_active c" by (simp_all add: card_edit_def)
  qed
next
  case (write_attach p i now)
  then show ?thesis using depth_attach [OF assms(2,3)] by auto
next
  case (write_detach i now)
  show ?thesis unfolding write_detach(2)
    by (rule depth_at_id [OF assms(3)]) (auto simp: is_active_def)
next
  case (write_log i m now)
  show ?thesis unfolding write_log(2)
    by (rule depth_at_id [OF assms(3)]) (auto simp: is_active_def)
qed (use assms in auto)

end
