(* ===== verification/Card_Effects.thy ===== *)
theory Card_Effects
  imports Card_Writes
begin

text \<open>
  The operations of \<open>CardService\<close> implement the step relation of \<open>Card_Writes\<close>: every run,
  successful or not, takes the card table along one step of the listed kinds. Failing runs leave
  the whole state alone.
\<close>

section \<open>Failing runs\<close>

lemma atomic_assert_board [op_fail]: "atomic k \<Longrightarrow> atomic (assertBoardInWorkspace board ws k)"
  by (auto simp: atomic_def assertBoardInWorkspace_def split: option.splits)

lemma atomic_with_card [op_fail]: "(\<And>d. atomic (k d)) \<Longrightarrow> atomic (with_card board ws i k)"
  by (auto simp: with_card_def intro!: op_fail)

lemma atomic_cardRepo_update [op_fail]: "atomic (\<lambda>s. cardRepo_update now i (data s) s)"
  by (auto simp: atomic_def dest: cardRepo_update_fail)

lemma atomic_or_not_found [op_fail]: "atomic m \<Longrightarrow> atomic (\<lambda>s. card_or_not_found i (m s))"
  by (auto simp: atomic_def card_or_not_found_def split: prod.splits sum.splits if_splits)

lemma atomic_cardRepo_create [op_fail]: "atomic (\<lambda>s. cardRepo_create now (row s) us ls s)"
  by (auto simp: atomic_def cardRepo_create_def or_conflict_def Let_def split: option.splits)

lemma atomic_card_repo [op_fail]:
  "atomic (cardRepo_archive now i)" "atomic (cardRepo_unarchive now i)"
  "atomic (cardRepo_deletePermanently now i)" "atomic (\<lambda>s. cardRepo_moveCard now i l (r s) s)"
  "atomic (cardRepo_attachSubcard now i p)" "atomic (cardRepo_detachSubcard now i)"
  "atomic (cardRepo_updatePriority now i p')" "atomic (cardRepo_updateStatus now i st b)"
  unfolding cardRepo_archive_def [abs_def] cardRepo_unarchive_def [abs_def]
    cardRepo_deletePermanently_def [abs_def] cardRepo_moveCard_def [abs_def]
    cardRepo_attachSubcard_def [abs_def] cardRepo_detachSubcard_def [abs_def]
    cardRepo_updatePriority_def [abs_def] cardRepo_updateStatus_def [abs_def]
  by (intro op_fail)+

lemma atomic_card_service [op_fail]:
  "atomic (cardService_create le lx newId now board ws list dto user)"
  "atomic (cardService_update now board ws i udto user)"
  "atomic (cardService_updatePriority now board ws i p user)"
  "atomic (cardService_updateStatus now board ws i st user)"
  "atomic (cardService_createSubcard le lx newId now board ws i dto user)"
  "atomic (cardService_attachSubcard now board ws i j user)"
  "atomic (cardService_detachSubcard now board ws i user)"
  "atomic (cardService_move lx now board ws i mdto user)"
  "atomic (cardService_archive now board ws i user)"
  "atomic (cardService_unarchive now board ws i user)"
  "atomic (cardService_deletePermanently now board ws i user)"
  "atomic (cardService_addAssignee now board ws i u user)"
  "atomic (cardService_removeAssignee board ws i u user)"
  "atomic (cardService_addLabel board ws i l)"
  "atomic (cardService_removeLabel board ws i l)"
  unfolding cardService_create_def [abs_def] cardService_update_def cardService_updatePriority_def
    cardService_updateStatus_def cardService_createSubcard_def cardService_attachSubcard_def
    cardService_detachSubcard_def cardService_move_def cardService_archive_def
    cardService_unarchive_def cardService_deletePermanently_def cardService_addAssignee_def [abs_def]
    cardService_removeAssignee_def cardService_addLabel_def [abs_def] cardService_removeLabel_def Let_def
  by (intro op_fail)+

section \<open>Refinement of the step relation\<close>

definition card_refines :: "write_kind set \<Rightarrow> (db \<Rightarrow> 'a outcome) \<Rightarrow> db \<Rightarrow> bool" where
  "card_refines K k s \<longleftrightarrow>
     (rows_ok (cards s) \<longrightarrow> (\<exists>kind \<in> insert Unchanged K. card_write kind (cards s) (cards (snd (k s)))))"

lemma refines_same: "cards (snd (k s)) = cards s \<Longrightarrow> card_refines K k s"
  by (auto simp: card_refines_def)

lemma refines_with_card:
  assumes "\<And>b c. rows_ok (cards s) \<Longrightarrow> boardRepo_findById board (Some ws) s = Some b \<Longrightarrow>
    find_active_card i (Some board) s = Some c \<Longrightarrow> card_refines K (k (with_details s c)) s"
  shows "card_refines K (with_card board ws i k) s"
proof (cases "rows_ok (cards s)")
  case True
  from with_card_cases [of board ws i k s] show ?thesis
  proof (elim disjE exE conjE)
    fix b c assume "boardRepo_findById board (Some ws) s = Some b" "find_active_card i (Some board) s = Some c"
      and eq: "with_card board ws i k s = k (with_details s c) s"
    from assms [OF True this(1,2)] show ?thesis by (simp add: card_refines_def eq)
  qed (simp_all add: refines_same)
qed (simp add: card_refines_def)

lemma refines_assert_board:
  "(\<And>b. boardRepo_findById board ws s = Some b \<Longrightarrow> card_refines K k s) \<Longrightarrow>
   card_refines K (assertBoardInWorkspace board ws k) s"
  by (auto simp: assertBoardInWorkspace_def card_refines_def split: option.splits)

text \<open>A repository update followed by an event takes the step its row update describes.\<close>

lemma refines_update:
  assumes "rows_ok (cards s) \<Longrightarrow>
      card_write kind (cards s) (at_id i (\<lambda>c. (data c)\<lparr>cardUpdatedAt := now\<rparr>) (cards s))" "kind \<in> K"
  shows "card_refines K (\<lambda>s. await (cardRepo_update now i data s) (\<lambda>x s'. (Inr (f x s'), emit (g x s') s'))) s"
    (is "card_refines K ?k s")
proof (cases "cardRepo_update now i data s")
  case (Pair r s1)
  show ?thesis
  proof (cases r)
    case (Inl e)
    with Pair have "s1 = s" by (auto dest: cardRepo_update_fail)
    with Pair Inl show ?thesis by (intro refines_same) simp
  next
    case (Inr x)
    with Pair have "s1 = set_card now i data s" by (auto simp: cardRepo_update_Inr_iff)
    with Pair Inr assms show ?thesis by (auto simp: card_refines_def)
  qed
qed

lemma refines_not_found_update:
  assumes "rows_ok (cards s) \<Longrightarrow>
      card_write kind (cards s) (at_id i (\<lambda>c. (data c)\<lparr>cardUpdatedAt := now\<rparr>) (cards s))" "kind \<in> K"
  shows "card_refines K (\<lambda>s. await (card_or_not_found j (cardRepo_update now i data s))
      (\<lambda>x s'. (Inr (f x s'), emit (g x s') s'))) s"
proof (cases "cardRepo_update now i data s")
  case (Pair r s1)
  show ?thesis
  proof (cases r)
    case (Inl e)
    with Pair have "s1 = s" by (auto dest: cardRepo_update_fail)
    with Pair Inl show ?thesis by (intro refines_same) (simp add: card_or_not_found_def)
  next
    case (Inr x)
    with Pair have "s1 = set_card now i data s" by (auto simp: cardRepo_update_Inr_iff)
    with Pair Inr assms show ?thesis by (auto simp: card_refines_def card_or_not_found_def)
  qed
qed


lemma refines_if:
  "(P s \<Longrightarrow> card_refines K a s) \<Longrightarrow> (\<not> P s \<Longrightarrow> card_refines K b s) \<Longrightarrow>
   card_refines K (\<lambda>s. if P s then a s else b s) s"
  by (auto simp: card_refines_def)

lemma refines_option:
  "(x s = None \<Longrightarrow> card_refines K a s) \<Longrightarrow> (\<And>y. x s = Some y \<Longrightarrow> card_refines K (b y) s) \<Longrightarrow>
   card_refines K (\<lambda>s. case x s of None \<Rightarrow> a s | Some y \<Rightarrow> b y s) s"
  by (auto simp: card_refines_def split: option.splits)

lemma refines_sum:
  "(\<And>y. x s = Inl y \<Longrightarrow> card_refines K (a y) s) \<Longrightarrow> (\<And>y. x s = Inr y \<Longrightarrow> card_refines K (b y) s) \<Longrightarrow>
   card_refines K (\<lambda>s. case x s of Inl y \<Rightarrow> a y s | Inr y \<Rightarrow> b y s) s"
  by (auto simp: card_refines_def split: sum.splits)

lemmas refines_intros = refines_with_card refines_assert_board refines_if refines_option refines_sum

text \<open>Inserting a new active card under an active root card, or under none.\<close>

lemma refines_create:
  assumes "newId \<noteq> []"
    and "parent = None \<or> (\<exists>p\<in>set (cards s). is_active p \<and> \<not> truthy (cardParentCardId p) \<and> parent = Some (cardId p))"
  shows "card_refines {Added newId} (\<lambda>s. await
      (cardRepo_create now (new_card_row newId now list dto (rank s) st parent user) us ls s)
      (\<lambda>d s'. (Inr (f d s'), emit (g d s') s'))) s"
proof (cases "newId \<in> cardId ` set (cards s)")
  case True
  then have "insert_row cardId (new_card_row newId now list dto (rank s) st parent user) (cards s) = None"
    by (simp add: insert_row_def new_card_row_def)
  then show ?thesis by (intro refines_same) (simp add: cardRepo_create_def)
next
  case False
  let ?row = "new_card_row newId now list dto (rank s) st parent user"
  have "insert_row cardId ?row (cards s) = Some (cards s @ [?row])"
    using False by (simp add: insert_row_def new_card_row_def)
  moreover have "card_write (Added newId) (cards s) (cards s @ [?row])"
    by (rule write_add) (use assms False in
      \<open>auto simp: new_card_row_def is_active_def completion_ok_def\<close>)
  ultimately show ?thesis
    by (simp add: card_refines_def cardRepo_create_def Let_def)
qed

lemma find_active_is_active: "find_active_card i board s = Some c \<Longrightarrow> is_active c"
  by (simp add: find_active_card_SomeD is_active_def)

lemma parent_of_new_card_Inr:
  assumes "parent_of_new_card board dto s = Inr parent"
  shows "parent = None \<or>
    (\<exists>p\<in>set (cards s). is_active p \<and> \<not> truthy (cardParentCardId p) \<and> parent = Some (cardId p))"
  using assms
  by (auto simp: parent_of_new_card_def cardRepo_findActiveById_def split: if_splits option.splits
      intro: find_active_is_active dest: find_active_card_SomeD)

lemma create_refines:
  assumes "newId \<noteq> []"
  shows "card_refines {Added newId} (cardService_create le lx newId now board ws list dto user) s"
  unfolding cardService_create_def [abs_def] Let_def
  by (intro refines_intros)
     (auto intro!: refines_same refines_create [OF assms] dest: parent_of_new_card_Inr)

lemma createSubcard_refines:
  assumes "newId \<noteq> []"
  shows "card_refines {Added newId} (cardService_createSubcard le lx newId now board ws i dto user) s"
  unfolding cardService_createSubcard_def Let_def
  by (intro refines_intros)
     (auto intro!: refines_same refines_create [OF assms] intro: find_active_is_active
       dest: find_active_card_SomeD)

lemma completion_update:
  "completion_ok c \<Longrightarrow> completion_ok (card_patch dto (update_completion st b old) c)"
  by (auto simp: completion_ok_def card_patch_def update_completion_def isCompleteFromStatus_def
      split: option.splits if_splits)

lemma card_edit_updated: "card_edit c d \<Longrightarrow> card_edit c (d\<lparr>cardUpdatedAt := now\<rparr>)"
  by (simp add: card_edit_def completion_ok_def is_active_def)

lemma write_edit': "(\<And>c. card_edit c (f c)) \<Longrightarrow>
   card_write (Edited i) cs (at_id i (\<lambda>c. (f c)\<lparr>cardUpdatedAt := now\<rparr>) cs)"
  by (rule write_edit) (rule card_edit_updated)

lemmas refines_edit = refines_update [where kind = "Edited i" and K = "{Edited i}" for i, OF write_edit' singletonI]
  refines_not_found_update [where kind = "Edited i" and K = "{Edited i}" for i, OF write_edit' singletonI]

lemma card_edit_patch: "card_edit c (card_patch dto (update_completion st b old) c)"
  using completion_update [of c dto st b old]
  by (auto simp: card_edit_def is_active_def card_patch_def)

lemma card_edit_fields:
  "card_edit c (c\<lparr>cardPriority := p\<rparr>)" "card_edit c (c\<lparr>cardStatus := st, cardIsComplete := isCompleteFromStatus st\<rparr>)"
  "card_edit c (c\<lparr>cardListId := l, cardRank := r\<rparr>)" "card_edit c (c\<lparr>cardArchivedAt := Some now\<rparr>)"
  "card_edit c (c\<lparr>cardDeletedAt := Some now\<rparr>)" "card_edit c (c\<lparr>cardEstimateMinutes := e\<rparr>)"
  by (simp_all add: card_edit_def is_active_def completion_ok_def)

lemma update_refines: "card_refines {Edited i} (cardService_update now board ws i dto user) s"
  unfolding cardService_update_def
  by (intro refines_intros refines_edit card_edit_patch)

lemma updatePriority_refines: "card_refines {Edited i} (cardService_updatePriority now board ws i p user) s"
  unfolding cardService_updatePriority_def cardRepo_updatePriority_def
  by (intro refines_intros refines_edit card_edit_fields) (simp_all add: refines_same)

lemma updateStatus_refines: "card_refines {Edited i} (cardService_updateStatus now board ws i st user) s"
  unfolding cardService_updateStatus_def cardRepo_updateStatus_def Let_def
  by (intro refines_intros refines_edit card_edit_fields) (simp_all add: refines_same)

lemma move_refines: "card_refines {Edited i} (cardService_move lx now board ws i dto user) s"
  unfolding cardService_move_def cardRepo_moveCard_def Let_def
  by (intro refines_intros refines_edit card_edit_fields) (simp_all add: refines_same)

lemma archive_refines: "card_refines {Edited i} (cardService_archive now board ws i user) s"
  unfolding cardService_archive_def cardRepo_archive_def
  by (intro refines_intros refines_edit card_edit_fields)

lemma deletePermanently_refines: "card_refines {Edited i} (cardService_deletePermanently now board ws i user) s"
  unfolding cardService_deletePermanently_def cardRepo_deletePermanently_def
  by (intro refines_intros refines_edit card_edit_fields) (simp_all add: refines_same)

lemma unarchive_refines: "card_refines {Restored i} (cardService_unarchive now board ws i user) s"
  unfolding cardService_unarchive_def cardRepo_unarchive_def
  by (intro refines_intros refines_update [where kind = "Restored i"])
     (simp_all add: refines_same write_restore)

lemma detachSubcard_refines: "card_refines {Detached i} (cardService_detachSubcard now board ws i user) s"
  unfolding cardService_detachSubcard_def cardRepo_detachSubcard_def
  by (intro refines_intros refines_update [where kind = "Detached i"])
     (simp_all add: refines_same write_detach)

lemma attachSubcard_refines:
  "card_refines {Attached child parent} (cardService_attachSubcard now board ws parent child user) s"
  unfolding cardService_attachSubcard_def cardRepo_attachSubcard_def
proof (intro refines_with_card refines_if refines_option, goal_cases)
  case (6 b p d)
  from 6(5) obtain c where c: "find_active_card child (Some board) s = Some c" "d = with_details s c"
    by (auto simp: cardRepo_findActiveById_iff)
  note p = find_active_card_SomeD [OF 6(3)] and c' = find_active_card_SomeD [OF c(1)]
  have free: "\<forall>x\<in>set (cards s). is_active x \<longrightarrow> cardParentCardId x \<noteq> Some child"
    using 6 c c' by (auto simp: cardRepo_countSubcards_def active_subcards_def filter_empty_conv is_active_def)
  have "card_write (Attached child (cardId p)) (cards s)
      (at_id child (\<lambda>x. x\<lparr>cardParentCardId := Some (cardId p), cardUpdatedAt := now\<rparr>) (cards s))"
    by (rule write_attach) (use 6 p c c' free find_active_is_active [OF 6(3)] in auto)
  with p(2) show ?case by (intro refines_update [where kind = "Attached child parent"]) auto
qed (auto intro: refines_same)

text \<open>The operations on the join tables do not touch the card rows.\<close>

lemma relations_refine:
  "card_refines K (cardService_addAssignee now board ws i u user) s"
  "card_refines K (cardService_removeAssignee board ws i u user) s"
  "card_refines K (cardService_addLabel board ws i l) s"
  "card_refines K (cardService_removeLabel board ws i l) s"
  unfolding cardService_addAssignee_def [abs_def] cardService_removeAssignee_def
    cardService_addLabel_def [abs_def] cardService_removeLabel_def
  by (intro refines_intros refines_same; simp add: cardRepo_addAssignee_def cardRepo_removeAssignee_def
      cardRepo_addLabel_def cardRepo_removeLabel_def)+

end
