(* ===== verification/Card_Time.thy ===== *)
theory Card_Time
  imports Card_Effects
begin

text \<open>
  Estimates and time entries: \<open>CardTimeRepository\<close>
  (\<open>card-time/repositories/card-time.repository.ts\<close>) and \<open>CardTimeService\<close>
  (\<open>card-time/services/card-time.service.ts\<close>). The counter a card carries and the sum of its
  entries are kept in step by the transaction of \<open>addEntry\<close>; \<open>time_ok\<close> is that invariant. Minutes
  are unbounded integers here, as the route validates them to 1..1440 and the column is 32 bits wide.
\<close>

section \<open>CardTimeRepository\<close>

definition timeRepo_addEntry ::
  "uuid \<Rightarrow> instant \<Rightarrow> uuid \<Rightarrow> uuid \<Rightarrow> int \<Rightarrow> string option \<Rightarrow> db \<Rightarrow> time_entry_row outcome" where
  [op_defs]: "timeRepo_addEntry newId now cid user minutes memo s =
     (let entry = \<lparr>teId = newId, teCardId = cid, teUserId = user, teMinutes = minutes,
                   teNote = memo, teCreatedAt = now\<rparr>
      in or_conflict (insert_row teId entry (timeEntries s))
           (\<lambda>entries s.
              case update_by cardId cid
                     (\<lambda>c. c\<lparr>cardLoggedMinutes := cardLoggedMinutes c + minutes, cardUpdatedAt := now\<rparr>)
                     (cards s) of
                None \<Rightarrow> (Inl (EntityNotFound ''Card'' cid), s)
              | Some (_, rows) \<Rightarrow> (Inr entry, s\<lparr>timeEntries := entries, cards := rows\<rparr>)) s)"

definition card_entries :: "uuid \<Rightarrow> db \<Rightarrow> time_entry_row list" where
  "card_entries cid s =
     order_desc (\<lambda>t. (teCreatedAt t, teId t)) (filter (\<lambda>t. teCardId t = cid) (timeEntries s))"

definition timeRepo_listForCard ::
  "time_entry_row cursor_seek \<Rightarrow> uuid \<Rightarrow> uuid option \<Rightarrow> nat \<Rightarrow> db \<Rightarrow>
   error + (time_entry_row \<times> user_summary option) page" where
  "timeRepo_listForCard after cid cursor limit s =
     (case take_page after cursor (Suc limit) (card_entries cid s) of
        Inl e \<Rightarrow> Inl e
      | Inr entries \<Rightarrow>
          (let hasMore = limit < length entries;
               items = (if hasMore then take limit entries else entries);
               nextCursor = (if 0 < length items then Some (teId (last items)) else None)
           in Inr \<lparr>pageItems = map (\<lambda>t. (t, user_summary_of (teUserId t) s)) items,
                    pageCursor = nextCursor, pageHasMore = hasMore\<rparr>))"

definition timeRepo_sumForCard :: "uuid \<Rightarrow> db \<Rightarrow> int" where
  "timeRepo_sumForCard cid s = sum_list (map teMinutes (filter (\<lambda>t. teCardId t = cid) (timeEntries s)))"

section \<open>CardTimeService\<close>

record log_time_dto =
  ltMinutes :: int
  ltNote :: "string option"

definition timeService_setEstimate ::
  "instant \<Rightarrow> uuid \<Rightarrow> uuid \<Rightarrow> uuid \<Rightarrow> int \<Rightarrow> uuid \<Rightarrow> db \<Rightarrow> card_row outcome" where
  [op_defs]: "timeService_setEstimate now board ws i estimate user =
     with_card board ws i (\<lambda>existing s.
       await (cardRepo_update now i (\<lambda>c. c\<lparr>cardEstimateMinutes := Some estimate\<rparr>) s)
         (\<lambda>updated s. (Inr updated, emit (CardUpdated updated board user) s)))"

definition timeService_logTime ::
  "uuid \<Rightarrow> instant \<Rightarrow> uuid \<Rightarrow> uuid \<Rightarrow> uuid \<Rightarrow> log_time_dto \<Rightarrow> uuid \<Rightarrow> db \<Rightarrow> card_details outcome" where
  [op_defs]: "timeService_logTime newId now board ws i dto user =
     with_card board ws i (\<lambda>existing s.
       await (timeRepo_addEntry newId now i user (ltMinutes dto) (ltNote dto) s)
         (\<lambda>entry s.
            case cardRepo_findActiveById i (Some board) s of
              None \<Rightarrow> (Inl (EntityNotFound ''Card'' i), s)
            | Some updated \<Rightarrow>
                (Inr updated, emit (CardTimeLogged i board (ltMinutes dto)
                   (cardLoggedMinutes (cdCard updated)) (teId entry) user) s)))"

record tracking =
  trEstimate :: "int option"
  trLogged :: int
  trRemaining :: int
  trEntries :: "(time_entry_row \<times> user_summary option) page"

definition timeService_getTracking ::
  "time_entry_row cursor_seek \<Rightarrow> uuid \<Rightarrow> uuid \<Rightarrow> uuid \<Rightarrow> uuid option \<Rightarrow> nat option \<Rightarrow> db \<Rightarrow> tracking outcome" where
  [op_defs]: "timeService_getTracking after board ws i cursor limit =
     with_card board ws i (\<lambda>d s.
       case timeRepo_listForCard after i cursor (case limit of None \<Rightarrow> 20 | Some n \<Rightarrow> n) s of
         Inl e \<Rightarrow> (Inl e, s)
       | Inr entries \<Rightarrow>
           (let logged = cardLoggedMinutes (cdCard d);
                estimate = cardEstimateMinutes (cdCard d);
                remaining = (case estimate of Some e \<Rightarrow> max 0 (e - logged) | None \<Rightarrow> 0)
            in (Inr \<lparr>trEstimate = estimate, trLogged = logged, trRemaining = remaining,
                     trEntries = entries\<rparr>, s)))"

section \<open>Effects\<close>

lemma timeRepo_addEntry_Inr_iff:
  "timeRepo_addEntry newId now i user m memo s = (Inr entry, s') \<longleftrightarrow>
     newId \<notin> teId ` set (timeEntries s) \<and> i \<in> cardId ` set (cards s) \<and>
     entry = \<lparr>teId = newId, teCardId = i, teUserId = user, teMinutes = m, teNote = memo, teCreatedAt = now\<rparr> \<and>
     s' = s\<lparr>timeEntries := timeEntries s @ [entry],
            cards := at_id i (\<lambda>c. c\<lparr>cardLoggedMinutes := cardLoggedMinutes c + m, cardUpdatedAt := now\<rparr>) (cards s)\<rparr>"
proof -
  have "i \<in> cardId ` set (cards s) \<longleftrightarrow> find (\<lambda>c. cardId c = i) (cards s) \<noteq> None"
    by (auto simp: find_None_iff)
  then show ?thesis
    by (auto simp: timeRepo_addEntry_def Let_def or_conflict_Inr_iff insert_row_Some_iff update_by_def at_id_def
        split: option.splits)
qed

lemma atomic_addEntry [op_fail]: "atomic (timeRepo_addEntry newId now i user m memo)"
  by (auto simp: atomic_def timeRepo_addEntry_def or_conflict_def Let_def split: option.splits)

text \<open>After its entry is written the card is still there: the second lookup cannot fail.\<close>

lemma logTime_refetch:
  assumes "find_active_card i (Some board) s = Some c"
    and "timeRepo_addEntry newId now i user m memo s = (Inr entry, s1)"
  shows "find_active_card i (Some board) s1 =
    Some (c\<lparr>cardLoggedMinutes := cardLoggedMinutes c + m, cardUpdatedAt := now\<rparr>)"
proof -
  let ?f = "\<lambda>c. c\<lparr>cardLoggedMinutes := cardLoggedMinutes c + m, cardUpdatedAt := now\<rparr>"
  from assms(2) have s1: "cards s1 = map (\<lambda>c. if cardId c = i then ?f c else c) (cards s)" "lists s1 = lists s"
    by (auto simp: timeRepo_addEntry_Inr_iff at_id_def)
  have scope: "card_in_scope (Some board) s1 = card_in_scope (Some board) s"
    by (rule card_in_scope_lists) (rule s1(2))
  have keep: "card_in_scope (Some board) s (?f c) = card_in_scope (Some board) s c" for c
    by (simp add: card_in_scope_def card_on_board_def)
  have "find_active_card i (Some board) s1 = map_option ?f (find_active_card i (Some board) s)"
    unfolding find_active_card_def s1(1) scope
    by (subst find_map_update) (simp_all add: keep)
  with assms(1) show ?thesis by simp
qed

lemma logTime_Inr_iff:
  "timeService_logTime newId now board ws i dto user s = (Inr d, s') \<longleftrightarrow>
     (\<exists>b c entry s1. boardRepo_findById board (Some ws) s = Some b \<and> find_active_card i (Some board) s = Some c \<and>
        timeRepo_addEntry newId now i user (ltMinutes dto) (ltNote dto) s = (Inr entry, s1) \<and>
        d = with_details s1 (c\<lparr>cardLoggedMinutes := cardLoggedMinutes c + ltMinutes dto, cardUpdatedAt := now\<rparr>) \<and>
        s' = emit (CardTimeLogged i board (ltMinutes dto) (cardLoggedMinutes c + ltMinutes dto) newId user) s1)"
proof -
  let ?run = "timeRepo_addEntry newId now i user (ltMinutes dto) (ltNote dto) s"
  let ?card = "\<lambda>c. c\<lparr>cardLoggedMinutes := cardLoggedMinutes c + ltMinutes dto, cardUpdatedAt := now\<rparr>"
  have "await ?run (\<lambda>entry s. case cardRepo_findActiveById i (Some board) s of
          None \<Rightarrow> (Inl (EntityNotFound ''Card'' i), s)
        | Some updated \<Rightarrow> (Inr updated, emit (CardTimeLogged i board (ltMinutes dto)
             (cardLoggedMinutes (cdCard updated)) (teId entry) user) s)) = (Inr d, s') \<longleftrightarrow>
      (\<exists>entry s1. ?run = (Inr entry, s1) \<and> d = with_details s1 (?card c) \<and>
        s' = emit (CardTimeLogged i board (ltMinutes dto) (cardLoggedMinutes c + ltMinutes dto) newId user) s1)"
    if c: "find_active_card i (Some board) s = Some c" for c
  proof (cases ?run)
    case (Pair r s1)
    show ?thesis
    proof (cases r)
      case (Inr entry)
      with Pair have run: "?run = (Inr entry, s1)" by simp
      then have "teId entry = newId" by (simp add: timeRepo_addEntry_Inr_iff)
      with run logTime_refetch [OF c run] show ?thesis by (auto simp: cardRepo_findActiveById_def)
    qed (simp add: Pair)
  qed
  then show ?thesis unfolding timeService_logTime_def with_card_Inr_iff by auto
qed

lemma atomic_logTime [op_fail]: "atomic (timeService_logTime newId now board ws i dto user)"
proof (unfold atomic_def, intro allI impI)
  fix s e s' assume run: "timeService_logTime newId now board ws i dto user s = (Inl e, s')"
  show "s' = s"
    using with_card_cases [of board ws i _ s] run
    by (auto simp: timeService_logTime_def with_card_def assertBoardInWorkspace_def
        cardRepo_findActiveById_def await_Inl_iff logTime_refetch atomicD [OF atomic_addEntry]
        split: option.splits)
qed

lemma atomic_setEstimate [op_fail]: "atomic (timeService_setEstimate now board ws i est user)"
  unfolding timeService_setEstimate_def by (intro op_fail)

lemma setEstimate_refines: "card_refines {Edited i} (timeService_setEstimate now board ws i est user) s"
  unfolding timeService_setEstimate_def by (intro refines_intros refines_edit card_edit_fields)

lemma logTime_refines:
  "card_refines {Logged i (ltMinutes dto)} (timeService_logTime newId now board ws i dto user) s"
proof (cases "timeService_logTime newId now board ws i dto user s")
  case (Pair r s')
  show ?thesis
  proof (cases r)
    case (Inl e)
    with Pair show ?thesis by (auto intro!: refines_same dest: atomicD [OF atomic_logTime])
  next
    case (Inr d)
    with Pair have "cards s' = at_id i (\<lambda>c. c\<lparr>cardLoggedMinutes := cardLoggedMinutes c + ltMinutes dto,
        cardUpdatedAt := now\<rparr>) (cards s)"
      by (auto simp: logTime_Inr_iff timeRepo_addEntry_Inr_iff)
    with Pair show ?thesis by (auto simp: card_refines_def intro: write_log)
  qed
qed

section \<open>The counter and the entries\<close>

definition time_ok :: "db \<Rightarrow> bool" where
  "time_ok s \<longleftrightarrow> (\<forall>c\<in>set (cards s). cardLoggedMinutes c = timeRepo_sumForCard (cardId c) s) \<and>
     (\<forall>t\<in>set (timeEntries s). teCardId t \<in> cardId ` set (cards s))"

text \<open>Every step that is not a log entry leaves the counters alone, and a new card has no entries.\<close>

lemma write_time_ok:
  assumes "card_write k (cards s) (cards s')" "timeEntries s' = timeEntries s" "\<And>i m. k \<noteq> Logged i m"
    and "time_ok s"
  shows "time_ok s'"
proof -
  from write_keeps_ids [OF assms(1)] obtain new where
    ids: "map cardId (cards s') = map cardId (cards s) @ new" by blast
  then have "cardId ` set (cards s') = cardId ` set (cards s) \<union> set new" by (metis list.set_map set_append)
  then have known: "\<forall>t\<in>set (timeEntries s'). teCardId t \<in> cardId ` set (cards s')"
    using assms(2,4) by (auto simp: time_ok_def)
  have sums: "timeRepo_sumForCard i s' = timeRepo_sumForCard i s" for i
    by (simp add: timeRepo_sumForCard_def assms(2))
  have fresh: "timeRepo_sumForCard i s = 0" if "i \<notin> cardId ` set (cards s)" for i
  proof -
    have "filter (\<lambda>t. teCardId t = i) (timeEntries s) = []"
      using assms(4) that by (auto simp: time_ok_def filter_empty_conv)
    then show ?thesis by (simp add: timeRepo_sumForCard_def)
  qed
  have "cardLoggedMinutes c = timeRepo_sumForCard (cardId c) s" if "c \<in> set (cards s')" for c
    using write_counters [OF assms(1,3) that] fresh assms(4) by (auto simp: time_ok_def)
  with known sums show ?thesis by (simp add: time_ok_def)
qed

lemma addEntry_time_ok:
  assumes "timeRepo_addEntry newId now i user m memo s = (Inr entry, s')" "time_ok s"
  shows "time_ok s'"
proof -
  from assms(1) have s': "timeEntries s' = timeEntries s @ [entry]" "teCardId entry = i" "teMinutes entry = m"
    "cards s' = at_id i (\<lambda>c. c\<lparr>cardLoggedMinutes := cardLoggedMinutes c + m, cardUpdatedAt := now\<rparr>) (cards s)"
    and mem: "i \<in> cardId ` set (cards s)"
    by (auto simp: timeRepo_addEntry_Inr_iff)
  have ids: "cardId ` set (cards s') = cardId ` set (cards s)"
    unfolding s'(4) by (rule at_id_id_image) simp
  have sums: "timeRepo_sumForCard j s' = timeRepo_sumForCard j s + (if j = i then m else 0)" for j
    by (simp add: timeRepo_sumForCard_def s'(1-3))
  have "cardLoggedMinutes c = timeRepo_sumForCard (cardId c) s'" if "c \<in> set (cards s')" for c
    using that assms(2) by (auto simp: s'(4) set_at_id time_ok_def sums split: if_splits)
  moreover have "\<forall>t\<in>set (timeEntries s'). teCardId t \<in> cardId ` set (cards s')"
    using assms(2) mem s'(1,2) unfolding ids by (auto simp: time_ok_def)
  ultimately show ?thesis by (simp add: time_ok_def)
qed

end
