(* ===== verification/Checklists.thy ===== *)
theory Checklists
  imports Card_Effects
begin

text \<open>
  Checklists: \<open>ChecklistRepository\<close> (\<open>checklist/repositories/checklist.repository.ts\<close>) and
  \<open>ChecklistService\<close> (\<open>checklist/services/checklist.service.ts\<close>), promotion of an item to a
  subcard included. The creation and update times of the two tables are not read by the
  service and are left out.
\<close>

section \<open>ChecklistRepository\<close>

record checklist_details =
  ckRow :: checklist_row
  ckItems :: "checklist_item_row list"

definition with_items :: "(string \<Rightarrow> string \<Rightarrow> bool) \<Rightarrow> db \<Rightarrow> checklist_row \<Rightarrow> checklist_details" where
  "with_items le s k =
     \<lparr>ckRow = k, ckItems = order_by le itemRank (filter (\<lambda>x. itemChecklistId x = chkId k) (checklistItems s))\<rparr>"

definition checklistRepo_createChecklist ::
  "(string \<Rightarrow> string \<Rightarrow> bool) \<Rightarrow> uuid \<Rightarrow> uuid \<Rightarrow> string \<Rightarrow> string \<Rightarrow> db \<Rightarrow> checklist_details outcome" where
  [op_defs]: "checklistRepo_createChecklist le newId cid title rank s =
     (let row = \<lparr>chkId = newId, chkCardId = cid, chkTitle = title, chkRank = rank\<rparr>
      in or_conflict (insert_row chkId row (checklists s))
           (\<lambda>rows s. let s1 = s\<lparr>checklists := rows\<rparr> in (Inr (with_items le s1 row), s1)) s)"

text \<open>\<open>card: { archivedAt: null }\<close>: the checklist's card is not archived.\<close>

definition card_not_archived :: "uuid \<Rightarrow> db \<Rightarrow> bool" where
  "card_not_archived cid s \<longleftrightarrow> list_ex (\<lambda>c. cardId c = cid \<and> cardArchivedAt c = None) (cards s)"

definition checklistRepo_findActiveChecklist ::
  "(string \<Rightarrow> string \<Rightarrow> bool) \<Rightarrow> uuid \<Rightarrow> db \<Rightarrow> checklist_details option" where
  "checklistRepo_findActiveChecklist le i s =
     map_option (with_items le s)
       (find (\<lambda>k. chkId k = i \<and> card_not_archived (chkCardId k) s) (checklists s))"

definition checklistRepo_findChecklistsByCard ::
  "(string \<Rightarrow> string \<Rightarrow> bool) \<Rightarrow> uuid \<Rightarrow> db \<Rightarrow> checklist_details list" where
  "checklistRepo_findChecklistsByCard le cid s =
     map (with_items le s)
       (order_by le chkRank
         (filter (\<lambda>k. chkCardId k = cid \<and> card_not_archived (chkCardId k) s) (checklists s)))"

definition checklistRepo_updateChecklist ::
  "(string \<Rightarrow> string \<Rightarrow> bool) \<Rightarrow> uuid \<Rightarrow> string option \<Rightarrow> db \<Rightarrow> checklist_details outcome" where
  [op_defs]: "checklistRepo_updateChecklist le i title s =
     or_missing (update_by chkId i (\<lambda>k. k\<lparr>chkTitle := or_keep title (chkTitle k)\<rparr>) (checklists s))
       (\<lambda>(row, rows) s. let s1 = s\<lparr>checklists := rows\<rparr> in (Inr (with_items le s1 row), s1)) s"

definition checklistRepo_deleteChecklist :: "uuid \<Rightarrow> db \<Rightarrow> unit outcome" where
  [op_defs]: "checklistRepo_deleteChecklist i s =
     or_missing (delete_by chkId i (checklists s))
       (\<lambda>(row, rows) s. (Inr (), s\<lparr>checklists := rows,
            checklistItems := filter (\<lambda>x. itemChecklistId x \<noteq> i) (checklistItems s)\<rparr>)) s"

definition checklistRepo_createItem :: "uuid \<Rightarrow> uuid \<Rightarrow> string \<Rightarrow> string \<Rightarrow> db \<Rightarrow> checklist_item_row outcome" where
  [op_defs]: "checklistRepo_createItem newId checklist content rank s =
     (let row = \<lparr>itemId = newId, itemChecklistId = checklist, itemContent = content,
                 itemIsDone = False, itemRank = rank\<rparr>
      in or_conflict (insert_row itemId row (checklistItems s))
           (\<lambda>rows s. (Inr row, s\<lparr>checklistItems := rows\<rparr>)) s)"

definition checklistRepo_findItem :: "uuid \<Rightarrow> db \<Rightarrow> checklist_item_row option" where
  "checklistRepo_findItem i s = find (\<lambda>x. itemId x = i) (checklistItems s)"

definition checklistRepo_updateItem ::
  "uuid \<Rightarrow> string option \<Rightarrow> bool option \<Rightarrow> db \<Rightarrow> checklist_item_row outcome" where
  [op_defs]: "checklistRepo_updateItem i content isDone s =
     or_missing (update_by itemId i
         (\<lambda>x. x\<lparr>itemContent := or_keep content (itemContent x), itemIsDone := or_keep isDone (itemIsDone x)\<rparr>)
         (checklistItems s))
       (\<lambda>(row, rows) s. (Inr row, s\<lparr>checklistItems := rows\<rparr>)) s"

definition checklistRepo_deleteItem :: "uuid \<Rightarrow> db \<Rightarrow> unit outcome" where
  [op_defs]: "checklistRepo_deleteItem i s =
     or_missing (delete_by itemId i (checklistItems s))
       (\<lambda>(row, rows) s. (Inr (), s\<lparr>checklistItems := rows\<rparr>)) s"

section \<open>ChecklistService\<close>

definition getChecklistInCard ::
  "(string \<Rightarrow> string \<Rightarrow> bool) \<Rightarrow> uuid \<Rightarrow> uuid \<Rightarrow> (checklist_details \<Rightarrow> db \<Rightarrow> 'a outcome) \<Rightarrow> db \<Rightarrow> 'a outcome" where
  "getChecklistInCard le i cid k s =
     (case checklistRepo_findActiveChecklist le i s of
        None \<Rightarrow> (Inl (EntityNotFound ''CardChecklist'' i), s)
      | Some d \<Rightarrow> if chkCardId (ckRow d) \<noteq> cid then (Inl (EntityNotFound ''CardChecklist'' i), s) else k d s)"

definition getItemInChecklist ::
  "uuid \<Rightarrow> uuid \<Rightarrow> (checklist_item_row \<Rightarrow> db \<Rightarrow> 'a outcome) \<Rightarrow> db \<Rightarrow> 'a outcome" where
  "getItemInChecklist i checklist k s =
     (case checklistRepo_findItem i s of
        None \<Rightarrow> (Inl (EntityNotFound ''ChecklistItem'' i), s)
      | Some x \<Rightarrow> if itemChecklistId x \<noteq> checklist then (Inl (EntityNotFound ''ChecklistItem'' i), s) else k x s)"

text \<open>The rank after the last of some ordered ranks; a rank that does not parse is an error here.\<close>

definition rank_after_last :: "'r lexorank \<Rightarrow> string list \<Rightarrow> error + string" where
  "rank_after_last lx ranks =
     (if ranks = [] then Inr (getInitialRank lx) else getRankBetween lx (Some (last ranks)) None)"

definition checklistService_createChecklist ::
  "(string \<Rightarrow> string \<Rightarrow> bool) \<Rightarrow> 'r lexorank \<Rightarrow> uuid \<Rightarrow> uuid \<Rightarrow> uuid \<Rightarrow> uuid \<Rightarrow> string \<Rightarrow> uuid \<Rightarrow>
   db \<Rightarrow> checklist_details outcome" where
  [op_defs]: "checklistService_createChecklist le lx newId ws board cid title user =
     with_card board ws cid (\<lambda>d s.
       case rank_after_last lx (map (\<lambda>k. chkRank (ckRow k)) (checklistRepo_findChecklistsByCard le cid s)) of
         Inl e \<Rightarrow> (Inl e, s)
       | Inr rank \<Rightarrow>
           await (checklistRepo_createChecklist le newId cid title rank s)
             (\<lambda>k s. (Inr k, emit (ChecklistCreated (ckRow k) board user) s)))"

definition checklistService_getChecklists ::
  "(string \<Rightarrow> string \<Rightarrow> bool) \<Rightarrow> uuid \<Rightarrow> uuid \<Rightarrow> uuid \<Rightarrow> db \<Rightarrow> checklist_details list outcome" where
  [op_defs]: "checklistService_getChecklists le ws board cid =
     with_card board ws cid (\<lambda>d s. (Inr (checklistRepo_findChecklistsByCard le cid s), s))"

definition checklistService_renameChecklist ::
  "(string \<Rightarrow> string \<Rightarrow> bool) \<Rightarrow> uuid \<Rightarrow> uuid \<Rightarrow> uuid \<Rightarrow> uuid \<Rightarrow> string option \<Rightarrow> uuid \<Rightarrow>
   db \<Rightarrow> checklist_details outcome" where
  [op_defs]: "checklistService_renameChecklist le ws board cid checklist title user =
     with_card board ws cid (\<lambda>d. getChecklistInCard le checklist cid (\<lambda>k s.
       await (checklistRepo_updateChecklist le checklist title s)
         (\<lambda>updated s. (Inr updated, emit (ChecklistUpdated checklist cid board user) s))))"

definition checklistService_deleteChecklist ::
  "(string \<Rightarrow> string \<Rightarrow> bool) \<Rightarrow> uuid \<Rightarrow> uuid \<Rightarrow> uuid \<Rightarrow> uuid \<Rightarrow> uuid \<Rightarrow> db \<Rightarrow> unit outcome" where
  [op_defs]: "checklistService_deleteChecklist le ws board cid checklist user =
     with_card board ws cid (\<lambda>d. getChecklistInCard le checklist cid (\<lambda>k s.
       await (checklistRepo_deleteChecklist checklist s)
         (\<lambda>_ s. (Inr (), emit (ChecklistDeleted checklist cid board user) s))))"

definition checklistService_addItem ::
  "(string \<Rightarrow> string \<Rightarrow> bool) \<Rightarrow> 'r lexorank \<Rightarrow> uuid \<Rightarrow> uuid \<Rightarrow> uuid \<Rightarrow> uuid \<Rightarrow> uuid \<Rightarrow> string \<Rightarrow> uuid \<Rightarrow>
   db \<Rightarrow> checklist_item_row outcome" where
  [op_defs]: "checklistService_addItem le lx newId ws board cid checklist content user =
     assertBoardInWorkspace board (Some ws) (getChecklistInCard le checklist cid (\<lambda>k s.
       case rank_after_last lx (map itemRank (ckItems k)) of
         Inl e \<Rightarrow> (Inl e, s)
       | Inr rank \<Rightarrow>
           await (checklistRepo_createItem newId checklist content rank s)
             (\<lambda>item s. (Inr item, emit (ChecklistUpdated checklist cid board user) s))))"

definition checklistService_updateItem ::
  "uuid \<Rightarrow> uuid \<Rightarrow> uuid \<Rightarrow> uuid \<Rightarrow> uuid \<Rightarrow> string option \<Rightarrow> bool option \<Rightarrow> uuid \<Rightarrow>
   db \<Rightarrow> checklist_item_row outcome" where
  [op_defs]: "checklistService_updateItem ws board cid checklist i content isDone user =
     with_card board ws cid (\<lambda>d. getItemInChecklist i checklist (\<lambda>x s.
       await (checklistRepo_updateItem i content isDone s)
         (\<lambda>updated s. (Inr updated, emit (ChecklistUpdated checklist cid board user) s))))"

definition checklistService_removeItem ::
  "uuid \<Rightarrow> uuid \<Rightarrow> uuid \<Rightarrow> uuid \<Rightarrow> uuid \<Rightarrow> uuid \<Rightarrow> db \<Rightarrow> unit outcome" where
  [op_defs]: "checklistService_removeItem ws board cid checklist i user =
     with_card board ws cid (\<lambda>d. getItemInChecklist i checklist (\<lambda>x s.
       await (checklistRepo_deleteItem i s)
         (\<lambda>_ s. (Inr (), emit (ChecklistUpdated checklist cid board user) s))))"

text \<open>The card a promotion creates has the item's content as title and nothing else set.\<close>

definition titled_card :: "string \<Rightarrow> create_card_dto" where
  "titled_card title = \<lparr>ccTitle = title, ccDescription = None, ccDueDate = None, ccCoverImageUrl = None,
     ccAssigneeIds = None, ccLabelIds = None, ccPriority = None, ccStatus = None,
     ccParentCardId = None, ccEstimateMinutes = None\<rparr>"

definition checklistService_promoteItemToSubcard ::
  "(string \<Rightarrow> string \<Rightarrow> bool) \<Rightarrow> 'r lexorank \<Rightarrow> uuid \<Rightarrow> instant \<Rightarrow> uuid \<Rightarrow> uuid \<Rightarrow> uuid \<Rightarrow> uuid \<Rightarrow> uuid \<Rightarrow>
   uuid \<Rightarrow> db \<Rightarrow> card_details outcome" where
  [op_defs]: "checklistService_promoteItemToSubcard le lx newId now ws board cid checklist i user =
     with_card board ws cid (\<lambda>d. getItemInChecklist i checklist (\<lambda>item s.
       await (cardService_createSubcard le lx newId now board ws cid (titled_card (itemContent item)) user s)
         (\<lambda>subcard s.
            case checklistRepo_updateItem i None (Some True) s of
              (Inl e, s) \<Rightarrow> (Inl (AppError ''PROMOTE_FAILED'' 500), s)
            | (Inr _, s) \<Rightarrow> (Inr subcard, emit (ChecklistUpdated checklist cid board user) s))))"

section \<open>Effects\<close>

lemma getChecklistInCard_Inr_iff:
  "getChecklistInCard le i cid k s = (Inr y, s') \<longleftrightarrow>
     (\<exists>r. find (\<lambda>k. chkId k = i \<and> card_not_archived (chkCardId k) s) (checklists s) = Some r \<and>
          chkCardId r = cid \<and> k (with_items le s r) s = (Inr y, s'))"
  by (auto simp: getChecklistInCard_def checklistRepo_findActiveChecklist_def with_items_def
      split: option.splits if_splits)

lemma getItemInChecklist_Inr_iff:
  "getItemInChecklist i checklist k s = (Inr y, s') \<longleftrightarrow>
     (\<exists>x. checklistRepo_findItem i s = Some x \<and> itemChecklistId x = checklist \<and> k x s = (Inr y, s'))"
  by (auto simp: getItemInChecklist_def split: option.splits if_splits)

lemma atomic_getChecklistInCard [op_fail]: "(\<And>d. atomic (k d)) \<Longrightarrow> atomic (getChecklistInCard le i cid k)"
  by (auto simp: atomic_def getChecklistInCard_def split: option.splits)

lemma atomic_getItemInChecklist [op_fail]: "(\<And>d. atomic (k d)) \<Longrightarrow> atomic (getItemInChecklist i checklist k)"
  by (auto simp: atomic_def getItemInChecklist_def split: option.splits)

lemma atomic_checklist_repo [op_fail]:
  "atomic (checklistRepo_createChecklist le newId cid title rank)" "atomic (checklistRepo_updateChecklist le i title')"
  "atomic (checklistRepo_deleteChecklist i)" "atomic (checklistRepo_createItem newId k content rank)"
  "atomic (checklistRepo_updateItem i content' done)" "atomic (checklistRepo_deleteItem i)"
  by (auto simp: atomic_def checklistRepo_createChecklist_def checklistRepo_updateChecklist_def
      checklistRepo_deleteChecklist_def checklistRepo_createItem_def checklistRepo_updateItem_def
      checklistRepo_deleteItem_def or_conflict_def or_missing_def Let_def split: option.splits)

lemma atomic_checklist_service [op_fail]:
  "atomic (checklistService_createChecklist le lx newId ws board cid title user)"
  "atomic (checklistService_renameChecklist le ws board cid checklist title' user)"
  "atomic (checklistService_deleteChecklist le ws board cid checklist user)"
  "atomic (checklistService_addItem le lx newId ws board cid checklist content user)"
  "atomic (checklistService_updateItem ws board cid checklist i content' done user)"
  "atomic (checklistService_removeItem ws board cid checklist i user)"
  unfolding checklistService_createChecklist_def checklistService_renameChecklist_def
    checklistService_deleteChecklist_def checklistService_addItem_def checklistService_updateItem_def
    checklistService_removeItem_def
  by (intro op_fail)+

text \<open>The item is still there after the subcard was created, so promotion never half-succeeds.\<close>

lemma createSubcard_items:
  "checklistItems (snd (cardService_createSubcard le lx newId now board ws i dto user s)) = checklistItems s"
proof (cases "cardService_createSubcard le lx newId now board ws i dto user s")
  case (Pair r s')
  show ?thesis
  proof (cases r)
    case (Inl e)
    with Pair show ?thesis by (auto dest: atomicD [OF atomic_card_service(5)])
  next
    case (Inr d)
    with Pair have "cardService_createSubcard le lx newId now board ws i dto user s = (Inr d, s')" by simp
    then have "checklistItems s' = checklistItems s"
      by (auto simp: cardService_createSubcard_def with_card_Inr_iff await_Inr_iff cardRepo_create_def
          or_conflict_Inr_iff Let_def split: if_splits option.splits)
    with Pair show ?thesis by simp
  qed
qed

lemma updateItem_found:
  "checklistRepo_findItem i s = Some x \<Longrightarrow>
   checklistRepo_updateItem i content done s =
     (Inr (x\<lparr>itemContent := or_keep content (itemContent x), itemIsDone := or_keep done (itemIsDone x)\<rparr>),
      s\<lparr>checklistItems := map (\<lambda>x. if itemId x = i then x\<lparr>itemContent := or_keep content (itemContent x),
          itemIsDone := or_keep done (itemIsDone x)\<rparr> else x) (checklistItems s)\<rparr>)"
  by (simp add: checklistRepo_updateItem_def checklistRepo_findItem_def update_by_def)

lemma promote_marks_item:
  assumes "checklistRepo_findItem i s = Some x"
    "cardService_createSubcard le lx newId now board ws cid dto user s = (r, s1)"
  shows "checklistRepo_updateItem i None (Some True) s1 = (Inr (x\<lparr>itemIsDone := True\<rparr>),
    s1\<lparr>checklistItems := map (\<lambda>x. if itemId x = i then x\<lparr>itemIsDone := True\<rparr> else x) (checklistItems s)\<rparr>)"
proof -
  have "checklistItems s1 = checklistItems s"
    using createSubcard_items [of le lx newId now board ws cid dto user s] assms(2) by simp
  then have "checklistRepo_findItem i s1 = Some x" using assms(1) by (simp add: checklistRepo_findItem_def)
  with updateItem_found [OF this, of None "Some True"] \<open>checklistItems s1 = checklistItems s\<close>
  show ?thesis by simp
qed

lemma atomic_promote [op_fail]:
  "atomic (checklistService_promoteItemToSubcard le lx newId now ws board cid checklist i user)"
  unfolding atomic_def
proof (intro allI impI)
  fix s e s' assume run: "checklistService_promoteItemToSubcard le lx newId now ws board cid checklist i user s = (Inl e, s')"
  let ?create = "\<lambda>item. cardService_createSubcard le lx newId now board ws cid (titled_card (itemContent item)) user s"
  have body: "s' = s" if "checklistRepo_findItem i s = Some item"
    and "await (?create item) (\<lambda>subcard s. case checklistRepo_updateItem i None (Some True) s of
          (Inl e, s) \<Rightarrow> (Inl (AppError ''PROMOTE_FAILED'' 500), s)
        | (Inr _, s) \<Rightarrow> (Inr subcard, emit (ChecklistUpdated checklist cid board user) s)) = (Inl e, s')" for item
  proof (cases "?create item")
    case (Pair r s1)
    show ?thesis
      using that(2) promote_marks_item [OF that(1) Pair] Pair
      by (cases r) (auto dest: atomicD [OF atomic_card_service(5)])
  qed
  from run show "s' = s"
    unfolding checklistService_promoteItemToSubcard_def
    using with_card_cases [of board ws cid _ s]
    by (auto simp: with_card_def assertBoardInWorkspace_def getItemInChecklist_def intro: body
        split: option.splits if_splits)
qed

lemma promote_Inr_iff:
  "checklistService_promoteItemToSubcard le lx newId now ws board cid checklist i user s = (Inr d, s') \<longleftrightarrow>
     (\<exists>b c item s1. boardRepo_findById board (Some ws) s = Some b \<and> find_active_card cid (Some board) s = Some c \<and>
        checklistRepo_findItem i s = Some item \<and> itemChecklistId item = checklist \<and>
        cardService_createSubcard le lx newId now board ws cid (titled_card (itemContent item)) user s = (Inr d, s1) \<and>
        s' = emit (ChecklistUpdated checklist cid board user)
          (s1\<lparr>checklistItems := map (\<lambda>x. if itemId x = i then x\<lparr>itemIsDone := True\<rparr> else x) (checklistItems s)\<rparr>))"
proof -
  let ?create = "\<lambda>item. cardService_createSubcard le lx newId now board ws cid (titled_card (itemContent item)) user s"
  have "await (?create item) (\<lambda>subcard s. case checklistRepo_updateItem i None (Some True) s of
          (Inl e, s) \<Rightarrow> (Inl (AppError ''PROMOTE_FAILED'' 500), s)
        | (Inr _, s) \<Rightarrow> (Inr subcard, emit (ChecklistUpdated checklist cid board user) s)) = (Inr d, s') \<longleftrightarrow>
      (\<exists>s1. ?create item = (Inr d, s1) \<and> s' = emit (ChecklistUpdated checklist cid board user)
        (s1\<lparr>checklistItems := map (\<lambda>x. if itemId x = i then x\<lparr>itemIsDone := True\<rparr> else x) (checklistItems s)\<rparr>))"
    if item: "checklistRepo_findItem i s = Some item" for item
  proof (cases "?create item")
    case (Pair r s1)
    show ?thesis using promote_marks_item [OF item Pair] Pair by (cases r) auto
  qed
  then show ?thesis
    unfolding checklistService_promoteItemToSubcard_def with_card_Inr_iff getItemInChecklist_Inr_iff by auto
qed

end
