(* ===== verification/Samples.thy ===== *)
theory Samples
  imports Schema Rank_Service
begin

text \<open>
  A small concrete database the properties are evaluated on: a workspace \<open>w\<close> with its owner \<open>u\<close>
  and a member \<open>m\<close>, a board \<open>b\<close> with one list \<open>l\<close>, and two cards \<open>a\<close> and \<open>c\<close> in it.
\<close>

definition sample_card :: "uuid \<Rightarrow> uuid \<Rightarrow> string \<Rightarrow> card_row" where
  "sample_card i list rank =
     \<lparr>cardId = i, cardListId = list, cardTitle = ''Card'', cardDescription = None, cardRank = rank, cardDueDate = None,
      cardIsComplete = False, cardCoverImageUrl = None, cardPriority = Medium, cardStatus = NotStarted,
      cardParentCardId = None, cardEstimateMinutes = None, cardLoggedMinutes = 0, cardCreatedBy = ''u'',
      cardCreatedAt = 0, cardUpdatedAt = 0, cardArchivedAt = None, cardDeletedAt = None\<rparr>"

definition sample_user :: "uuid \<Rightarrow> string \<Rightarrow> user_row" where
  "sample_user i email =
     \<lparr>userId = i, userEmail = email, userPasswordHash = None, userDisplayName = ''User'', userAvatarUrl = None,
      userGoogleId = None, userIsEmailVerified = True, userLastLoginAt = None, userCreatedAt = 0\<rparr>"

definition sample_member :: "uuid \<Rightarrow> uuid \<Rightarrow> workspace_role \<Rightarrow> member_row" where
  "sample_member i user role =
     \<lparr>memId = i, memWorkspaceId = ''w'', memUserId = user, memRole = role, memJoinedAt = 0\<rparr>"

definition sample_board :: board_row where
  "sample_board =
     \<lparr>boardId = ''b'', boardWorkspaceId = ''w'', boardTitle = ''Board'', boardDescription = None,
      boardBackgroundColor = None, boardCreatedBy = ''u'', boardCreatedAt = 0, boardUpdatedAt = 0,
      boardArchivedAt = None, boardDeletedAt = None\<rparr>"

definition sample_list :: list_row where
  "sample_list =
     \<lparr>listId = ''l'', listBoardId = ''b'', listTitle = ''To do'', listRank = unary 5, listCreatedAt = 0,
      listUpdatedAt = 0, listArchivedAt = None, listDeletedAt = None\<rparr>"

definition sample_db :: db where
  "sample_db = empty_db\<lparr>
     users := [sample_user ''u'' ''u@x.org'', sample_user ''m'' ''m@x.org''],
     workspaces := [\<lparr>wsId = ''w'', wsName = ''Team'', wsSlug = ''team'', wsDescription = None,
       wsAvatarUrl = None, wsOwnerId = ''u'', wsCreatedAt = 0, wsArchivedAt = None\<rparr>],
     members := [sample_member ''mu'' ''u'' Owner, sample_member ''mm'' ''m'' Member],
     boards := [sample_board], lists := [sample_list],
     cards := [sample_card ''a'' ''l'' (unary 3), sample_card ''c'' ''l'' (unary 7)]\<rparr>"

lemmas sample_db_defs = sample_db_def sample_card_def sample_user_def sample_member_def sample_board_def
  sample_list_def empty_db_def

end
