(* ===== verification/Card_System.thy ===== *)
theory Card_System
  imports Card_Time Checklists Samples
begin

text \<open>
  The card operations as one system: \<open>card_action\<close> has a constructor per service call that may
  write a card, \<open>exec_card\<close> runs it on the state, \<open>run_cards\<close> runs a history of calls in the order
  the database serialised them. The invariants of \<open>Card_Writes\<close> and \<open>Card_Time\<close> hold along every
  history, whoever makes the calls and however they fail.
\<close>

section \<open>Actions\<close>

datatype card_action =
    CreateCard uuid uuid uuid uuid create_card_dto uuid
  | UpdateCard uuid uuid uuid update_card_dto uuid
  | SetPriority uuid uuid uuid card_priority uuid
  | SetStatus uuid uuid uuid card_status uuid
  | CreateSubcard uuid uuid uuid uuid create_card_dto uuid
  | AttachSubcard uuid uuid uuid uuid uuid
  | DetachSubcard uuid uuid uuid uuid
  | MoveCard uuid uuid uuid move_card_dto uuid
  | ArchiveCard uuid uuid uuid uuid
  | UnarchiveCard uuid uuid uuid uuid
  | DeleteCard uuid uuid uuid uuid
  | AddAssignee uuid uuid uuid uuid uuid
  | RemoveAssignee uuid uuid uuid uuid uuid
  | AddLabel uuid uuid uuid uuid
  | RemoveLabel uuid uuid uuid uuid
  | SetEstimate uuid uuid uuid int uuid
  | LogTime uuid uuid uuid uuid log_time_dto uuid
  | PromoteItem uuid uuid uuid uuid uuid uuid uuid

definition forget :: "'a outcome \<Rightarrow> unit outcome" where
  "forget m = await m (\<lambda>_ s. (Inr (), s))"

fun exec_card ::
  "(string \<Rightarrow> string \<Rightarrow> bool) \<Rightarrow> 'r lexorank \<Rightarrow> instant \<Rightarrow> card_action \<Rightarrow> db \<Rightarrow> unit outcome" where
  "exec_card le lx now (CreateCard newId board ws list dto user) s =
     forget (cardService_create le lx newId now board ws list dto user s)"
| "exec_card le lx now (UpdateCard board ws i dto user) s = forget (cardService_update now board ws i dto user s)"
| "exec_card le lx now (SetPriority board ws i p user) s = forget (cardService_updatePriority now board ws i p user s)"
| "exec_card le lx now (SetStatus board ws i st user) s = forget (cardService_updateStatus now board ws i st user s)"
| "exec_card le lx now (CreateSubcard newId board ws i dto user) s =
     forget (cardService_createSubcard le lx newId now board ws i dto user s)"
| "exec_card le lx now (AttachSubcard board ws parent child user) s =
     forget (cardService_attachSubcard now board ws parent child user s)"
| "exec_card le lx now (DetachSubcard board ws i user) s = forget (cardService_detachSubcard now board ws i user s)"
| "exec_card le lx now (MoveCard board ws i dto user) s = forget (cardService_move lx now board ws i dto user s)"
| "exec_card le lx now (ArchiveCard board ws i user) s = forget (cardService_archive now board ws i user s)"
| "exec_card le lx now (UnarchiveCard board ws i user) s = forget (cardService_unarchive now board ws i user s)"
| "exec_card le lx now (DeleteCard board ws i user) s = forget (cardService_deletePermanently now board ws i user s)"
| "exec_card le lx now (AddAssignee board ws i u user) s = forget (cardService_addAssignee now board ws i u user s)"
| "exec_card le lx now (RemoveAssignee board ws i u user) s = forget (cardService_removeAssignee board ws i u user s)"
| "exec_card le lx now (AddLabel board ws i l) s = forget (cardService_addLabel board ws i l s)"
| "exec_card le lx now (RemoveLabel board ws i l) s = forget (cardService_removeLabel board ws i l s)"
| "exec_card le lx now (SetEstimate board ws i m user) s = forget (timeService_setEstimate now board ws i m user s)"
| "exec_card le lx now (LogTime newId board ws i dto user) s = forget (timeService_logTime newId now board ws i dto user s)"
| "exec_card le lx now (PromoteItem newId ws board i checklist item user) s =
     forget (checklistService_promoteItemToSubcard le lx newId now ws board i checklist item user s)"

definition run_cards ::
  "(string \<Rightarrow> string \<Rightarrow> bool) \<Rightarrow> 'r lexorank \<Rightarrow> (instant \<times> card_action) list \<Rightarrow> db \<Rightarrow> db" where
  "run_cards le lx = fold (\<lambda>(now, a) s. snd (exec_card le lx now a s))"

text \<open>The ids the database generates are never empty.\<close>

fun ids_ok :: "card_action \<Rightarrow> bool" where
  "ids_ok (CreateCard newId _ _ _ _ _) = (newId \<noteq> [])"
| "ids_ok (CreateSubcard newId _ _ _ _ _) = (newId \<noteq> [])"
| "ids_ok (PromoteItem newId _ _ _ _ _ _) = (newId \<noteq> [])"
| "ids_ok _ = True"

fun write_kinds :: "card_action \<Rightarrow> write_kind set" where
  "write_kinds (CreateCard newId _ _ _ _ _) = {Added newId}"
| "write_kinds (CreateSubcard newId _ _ _ _ _) = {Added newId}"
| "write_kinds (PromoteItem newId _ _ _ _ _ _) = {Added newId}"
| "write_kinds (UpdateCard _ _ i _ _) = {Edited i}"
| "write_kinds (SetPriority _ _ i _ _) = {Edited i}"
| "write_kinds (SetStatus _ _ i _ _) = {Edited i}"
| "write_kinds (MoveCard _ _ i _ _) = {Edited i}"
| "write_kinds (ArchiveCard _ _ i _) = {Edited i}"
| "write_kinds (DeleteCard _ _ i _) = {Edited i}"
| "write_kinds (SetEstimate _ _ i _ _) = {Edited i}"
| "write_kinds (UnarchiveCard _ _ i _) = {Restored i}"
| "write_kinds (AttachSubcard _ _ parent child _) = {Attached child parent}"
| "write_kinds (DetachSubcard _ _ i _) = {Detached i}"
| "write_kinds (LogTime _ _ _ i dto _) = {Logged i (ltMinutes dto)}"
| "write_kinds _ = {}"

fun is_unarchive :: "card_action \<Rightarrow> bool" where
  "is_unarchive (UnarchiveCard _ _ _ _) = True"
| "is_unarchive _ = False"

section \<open>One action\<close>

lemma forget_snd [simp]: "snd (forget m) = snd m"
  by (cases m; cases "fst m") (auto simp: forget_def await_def)

lemma forget_Inl_iff [simp]: "fst (forget m) = Inl e \<longleftrightarrow> fst m = Inl e"
  by (cases m; cases "fst m") (auto simp: forget_def await_def)

lemma card_refines_forget: "card_refines K (\<lambda>s. forget (m s)) s = card_refines K m s"
  by (simp add: card_refines_def)

lemma atomic_fst: "atomic m \<Longrightarrow> fst (m s) = Inl e \<Longrightarrow> snd (m s) = s"
  by (cases "m s") (auto simp: atomic_def)

lemma promote_refines:
  assumes "newId \<noteq> []"
  shows "card_refines {Added newId} (checklistService_promoteItemToSubcard le lx newId now ws board cid checklist i user) s"
proof (cases "fst (checklistService_promoteItemToSubcard le lx newId now ws board cid checklist i user s)")
  case (Inl e)
  show ?thesis
    by (rule refines_same) (use atomic_fst [OF atomic_promote Inl] in simp)
next
  case (Inr d)
  then obtain s' where run: "checklistService_promoteItemToSubcard le lx newId now ws board cid checklist i user s = (Inr d, s')"
    by (metis prod.collapse)
  then obtain dto s1 where "cardService_createSubcard le lx newId now board ws cid dto user s = (Inr d, s1)"
    and "cards s' = cards s1"
    by (auto simp: promote_Inr_iff)
  with createSubcard_refines [OF assms, of le lx now board ws cid dto user s] run show ?thesis
    by (simp add: card_refines_def)
qed

lemma exec_refines: "ids_ok a \<Longrightarrow> card_refines (write_kinds a) (exec_card le lx now a) s"
  by (cases a)
     (simp_all add: exec_card.simps [abs_def] card_refines_forget create_refines update_refines updatePriority_refines
       updateStatus_refines createSubcard_refines attachSubcard_refines detachSubcard_refines move_refines
       archive_refines unarchive_refines deletePermanently_refines relations_refine setEstimate_refines
       logTime_refines promote_refines)

lemma exec_write:
  assumes "ids_ok a" "rows_ok (cards s)"
  shows "\<exists>k \<in> insert Unchanged (write_kinds a). card_write k (cards s) (cards (snd (exec_card le lx now a s)))"
  using exec_refines [OF assms(1)] assms(2) by (auto simp: card_refines_def)

lemma exec_atomic: "fst (exec_card le lx now a s) = Inl e \<Longrightarrow> snd (exec_card le lx now a s) = s"
  by (cases a) (auto intro!: atomic_fst op_fail)

section \<open>Frames\<close>

text \<open>Operations that leave a part of the state alone, on success as on failure.\<close>

definition keeps :: "(db \<Rightarrow> 'p) \<Rightarrow> (db \<Rightarrow> 'a outcome) \<Rightarrow> bool" where
  "keeps part k \<longleftrightarrow> (\<forall>s. part (snd (k s)) = part s)"

lemma keepsD: "keeps part k \<Longrightarrow> part (snd (k s)) = part s"
  by (simp add: keeps_def)

lemma keeps_plain: "(\<And>s. part (g s) = part s) \<Longrightarrow> keeps part (\<lambda>s. (f s, g s))"
  by (simp add: keeps_def)

lemma keeps_if: "keeps part a \<Longrightarrow> keeps part b \<Longrightarrow> keeps part (\<lambda>s. if P s then a s else b s)"
  by (simp add: keeps_def)

lemma keeps_option:
  "keeps part a \<Longrightarrow> (\<And>y. keeps part (b y)) \<Longrightarrow> keeps part (\<lambda>s. case x s of None \<Rightarrow> a s | Some y \<Rightarrow> b y s)"
  by (auto simp: keeps_def split: option.splits)

lemma keeps_sum:
  "(\<And>y. keeps part (a y)) \<Longrightarrow> (\<And>y. keeps part (b y)) \<Longrightarrow>
   keeps part (\<lambda>s. case x s of Inl y \<Rightarrow> a y s | Inr y \<Rightarrow> b y s)"
  by (auto simp: keeps_def split: sum.splits)

lemma keeps_await:
  assumes "keeps part m" "\<And>s x s'. part (g s x s') = part s'"
  shows "keeps part (\<lambda>s. await (m s) (\<lambda>x s'. (f s x s', g s x s')))"
  unfolding keeps_def
proof
  fix s show "part (snd (await (m s) (\<lambda>x s'. (f s x s', g s x s')))) = part s"
    using keepsD [OF assms(1), of s] assms(2) by (cases "m s"; cases "fst (m s)") auto
qed

lemma card_or_not_found_snd [simp]: "snd (card_or_not_found i m) = snd m"
  by (cases m; cases "fst m") (auto simp: card_or_not_found_def)

lemma keeps_not_found: "keeps part m \<Longrightarrow> keeps part (\<lambda>s. card_or_not_found i (m s))"
  unfolding keeps_def by simp

lemma keeps_with_card: "(\<And>d. keeps part (k d)) \<Longrightarrow> keeps part (with_card board ws i k)"
  unfolding keeps_def with_card_def assertBoardInWorkspace_def by (auto split: option.splits)

lemma keeps_assert_board: "keeps part k \<Longrightarrow> keeps part (assertBoardInWorkspace board ws k)"
  unfolding keeps_def assertBoardInWorkspace_def by (auto split: option.splits)

lemma entries_kept_by_repo:
  "keeps timeEntries (\<lambda>s. cardRepo_update now i (data s) s)"
  "keeps timeEntries (\<lambda>s. cardRepo_create now (row s) us ls s)"
  by (auto simp: keeps_def cardRepo_update_def cardRepo_create_def or_missing_def or_conflict_def Let_def
      split: option.splits)

lemmas keeps_intros = keeps_with_card keeps_assert_board keeps_if keeps_option keeps_sum keeps_not_found
  keeps_await entries_kept_by_repo keeps_plain

lemma entries_kept:
  "keeps timeEntries (cardService_create le lx newId now board ws list dto user)"
  "keeps timeEntries (cardService_update now board ws i udto user)"
  "keeps timeEntries (cardService_updatePriority now board ws i p user)"
  "keeps timeEntries (cardService_updateStatus now board ws i st user)"
  "keeps timeEntries (cardService_createSubcard le lx newId now board ws i dto user)"
  "keeps timeEntries (cardService_attachSubcard now board ws i j user)"
  "keeps timeEntries (cardService_detachSubcard now board ws i user)"
  "keeps timeEntries (cardService_move lx now board ws i mdto user)"
  "keeps timeEntries (cardService_archive now board ws i user)"
  "keeps timeEntries (cardService_unarchive now board ws i user)"
  "keeps timeEntries (cardService_deletePermanently now board ws i user)"
  "keeps timeEntries (cardService_addAssignee now board ws i u user)"
  "keeps timeEntries (cardService_removeAssignee board ws i u user)"
  "keeps timeEntries (cardService_addLabel board ws i l)"
  "keeps timeEntries (cardService_removeLabel board ws i l)"
  "keeps timeEntries (timeService_setEstimate now board ws i m user)"
  unfolding cardService_create_def [abs_def] cardService_update_def cardService_updatePriority_def
    cardService_updateStatus_def cardService_createSubcard_def cardService_attachSubcard_def
    cardService_detachSubcard_def cardService_move_def cardService_archive_def
    cardService_unarchive_def cardService_deletePermanently_def cardService_addAssignee_def [abs_def]
    cardService_removeAssignee_def cardService_addLabel_def [abs_def] cardService_removeLabel_def
    timeService_setEstimate_def Let_def cardRepo_archive_def cardRepo_unarchive_def
    cardRepo_deletePermanently_def cardRepo_moveCard_def cardRepo_attachSubcard_def cardRepo_detachSubcard_def
    cardRepo_updatePriority_def cardRepo_updateStatus_def
  by (intro keeps_intros; simp add: cardRepo_addAssignee_def cardRepo_removeAssignee_def
      cardRepo_addLabel_def cardRepo_removeLabel_def)+

lemma promote_keeps_entries:
  "keeps timeEntries (checklistService_promoteItemToSubcard le lx newId now ws board i checklist item user)"
  unfolding keeps_def
proof
  fix s let ?p = "checklistService_promoteItemToSubcard le lx newId now ws board i checklist item user s"
  show "timeEntries (snd ?p) = timeEntries s"
  proof (cases "fst ?p")
    case (Inl e)
    then show ?thesis using atomic_fst [OF atomic_promote Inl] by simp
  next
    case (Inr d)
    then obtain s' where run: "?p = (Inr d, s')" by (metis prod.collapse)
    then obtain dto s1 where "cardService_createSubcard le lx newId now board ws i dto user s = (Inr d, s1)"
      and "timeEntries s' = timeEntries s1"
      by (auto simp: promote_Inr_iff)
    with keepsD [OF entries_kept(5), of le lx newId now board ws i dto user s] run show ?thesis by simp
  qed
qed

lemma exec_entries:
  "\<nexists>newId board ws i dto user. a = LogTime newId board ws i dto user \<Longrightarrow>
   timeEntries (snd (exec_card le lx now a s)) = timeEntries s"
  by (cases a) (auto simp: entries_kept [THEN keepsD] promote_keeps_entries [THEN keepsD])

lemma exec_time_ok:
  assumes "ids_ok a" "rows_ok (cards s)" "time_ok s"
  shows "time_ok (snd (exec_card le lx now a s))"
proof (cases "\<exists>newId board ws i dto user. a = LogTime newId board ws i dto user")
  case True
  then obtain newId board ws i dto user where a: "a = LogTime newId board ws i dto user" by blast
  show ?thesis
  proof (cases "timeService_logTime newId now board ws i dto user s")
    case (Pair r s')
    show ?thesis
    proof (cases r)
      case (Inl e)
      with Pair have "s' = s" by (auto dest: atomicD [OF atomic_logTime])
      with Pair a assms(3) show ?thesis by simp
    next
      case (Inr d)
      with Pair obtain entry s1 where "timeRepo_addEntry newId now i user (ltMinutes dto) (ltNote dto) s = (Inr entry, s1)"
        and s': "s' = emit (CardTimeLogged i board (ltMinutes dto) (cardLoggedMinutes (cdCard d)) newId user) s1"
        by (auto simp: logTime_Inr_iff)
      from addEntry_time_ok [OF this(1) assms(3)] s' Pair a show ?thesis
        by (simp add: time_ok_def timeRepo_sumForCard_def)
    qed
  qed
next
  case False
  from exec_write [OF assms(1,2), of le lx now] obtain k where k: "k \<in> insert Unchanged (write_kinds a)"
    "card_write k (cards s) (cards (snd (exec_card le lx now a s)))" by blast
  show ?thesis
  proof (rule write_time_ok [OF k(2) _ _ assms(3)])
    show "timeEntries (snd (exec_card le lx now a s)) = timeEntries s"
      using False by (rule exec_entries)
    fix i m show "k \<noteq> Logged i m" using k(1) False by (cases a) auto
  qed
qed

section \<open>Histories\<close>

lemma run_cards_simps [simp]:
  "run_cards le lx [] s = s"
  "run_cards le lx ((now, a) # h) s = run_cards le lx h (snd (exec_card le lx now a s))"
  by (simp_all add: run_cards_def)

lemma run_cards_induct:
  assumes "P s" "\<forall>a\<in>snd ` set h. Q a"
    and "\<And>s now a. P s \<Longrightarrow> Q a \<Longrightarrow> P (snd (exec_card le lx now a s))"
  shows "P (run_cards le lx h s)"
  using assms(1,2)
proof (induction h arbitrary: s)
  case (Cons x h)
  then show ?case using assms(3) by (cases x) auto
qed simp

lemma exec_rows_ok: "ids_ok a \<Longrightarrow> rows_ok (cards s) \<Longrightarrow> rows_ok (cards (snd (exec_card le lx now a s)))"
  using exec_write write_rows_ok by blast

lemma exec_complete_ok:
  "ids_ok a \<Longrightarrow> rows_ok (cards s) \<Longrightarrow> all_complete_ok (cards s) \<Longrightarrow>
   all_complete_ok (cards (snd (exec_card le lx now a s)))"
  using exec_write write_complete_ok by blast

lemma exec_depth_ok:
  assumes "ids_ok a" "\<not> is_unarchive a" "rows_ok (cards s)" "depth_ok (cards s)"
  shows "depth_ok (cards (snd (exec_card le lx now a s)))"
proof -
  from exec_write [OF assms(1,3), of le lx now] obtain k where k: "k \<in> insert Unchanged (write_kinds a)"
    "card_write k (cards s) (cards (snd (exec_card le lx now a s)))" by blast
  have "k \<noteq> Restored i" for i using k(1) assms(2) by (cases a) auto
  with write_depth_ok [OF k(2) assms(3,4)] show ?thesis by blast
qed

lemma exec_deleted:
  assumes "ids_ok a" "rows_ok (cards s)" "\<exists>c\<in>set (cards s). cardId c = i \<and> cardDeletedAt c \<noteq> None"
  shows "\<exists>c\<in>set (cards (snd (exec_card le lx now a s))). cardId c = i \<and> cardDeletedAt c \<noteq> None"
  using exec_write [OF assms(1,2)] assms(3) write_deleted by metis

section \<open>Properties\<close>

lemma rows_ok_code [code]:
  "rows_ok cs \<longleftrightarrow> unique_key cardId cs \<and> (\<forall>c\<in>set cs. cardId c \<noteq> []) \<and>
     (\<forall>c\<in>set cs. case cardParentCardId c of None \<Rightarrow> True | Some p \<Rightarrow> p \<in> cardId ` set cs)"
  by (auto simp: rows_ok_def split: option.splits)

text \<open>A history on the sample board: a card, a subcard of it, statuses, time and removals.\<close>

definition sample_history :: "(instant \<times> card_action) list" where
  "sample_history =
     [(1, CreateSubcard ''x'' ''b'' ''w'' ''a'' (titled_card ''child'') ''u''),
      (2, SetStatus ''b'' ''w'' ''x'' Done ''u''),
      (3, LogTime ''t'' ''b'' ''w'' ''a'' \<lparr>ltMinutes = 30, ltNote = None\<rparr> ''u''),
      (4, DeleteCard ''b'' ''w'' ''c'' ''u'')]"

text \<open>The calls that undo the depth limit: a subcard is archived while its parent becomes a subcard.\<close>

definition nesting_history :: "(instant \<times> card_action) list" where
  "nesting_history =
     [(1, CreateSubcard ''x'' ''b'' ''w'' ''a'' (titled_card ''child'') ''u''),
      (2, ArchiveCard ''b'' ''w'' ''x'' ''u''),
      (3, AttachSubcard ''b'' ''w'' ''c'' ''a'' ''u''),
      (4, UnarchiveCard ''b'' ''w'' ''x'' ''u'')]"

text \<open>C2: Whatever history of card calls runs, successful or failing, the card table stays consistent: ids
  are unique, every parent reference names a card of the table, and every card's completion flag agrees
  with its status (true exactly for \<open>done\<close> and \<open>closed\<close>).\<close>

theorem card_table_consistent:
  assumes "rows_ok (cards s)" "all_complete_ok (cards s)" "\<forall>a\<in>snd ` set h. ids_ok a"
  shows "rows_ok (cards (run_cards le lx h s)) \<and> all_complete_ok (cards (run_cards le lx h s))"
  by (rule run_cards_induct [where P = "\<lambda>s. rows_ok (cards s) \<and> all_complete_ok (cards s)" and Q = ids_ok])
     (use assms in \<open>simp_all add: exec_rows_ok exec_complete_ok\<close>)

theorem card_table_consistent_witness:
  "rows_ok (cards (run_cards shorter unary_lexorank sample_history sample_db)) \<and>
   all_complete_ok (cards (run_cards shorter unary_lexorank sample_history sample_db))"
  by (rule card_table_consistent; code_simp)

text \<open>C10: Along every history without an unarchive call, no active card sits below an active subcard: subcards
  nest one level deep.\<close>

theorem subcards_nest_one_level:
  assumes "rows_ok (cards s)" "depth_ok (cards s)" "\<forall>a\<in>snd ` set h. ids_ok a \<and> \<not> is_unarchive a"
  shows "depth_ok (cards (run_cards le lx h s))"
proof -
  have "rows_ok (cards (run_cards le lx h s)) \<and> depth_ok (cards (run_cards le lx h s))"
    by (rule run_cards_induct [where P = "\<lambda>s. rows_ok (cards s) \<and> depth_ok (cards s)"
          and Q = "\<lambda>a. ids_ok a \<and> \<not> is_unarchive a"])
       (use assms in \<open>simp_all add: exec_rows_ok exec_depth_ok\<close>)
  then show ?thesis by blast
qed

theorem subcards_nest_one_level_witness:
  "depth_ok (cards (run_cards shorter unary_lexorank sample_history sample_db))"
  by (rule subcards_nest_one_level; code_simp)

text \<open>The depth limit is not an invariant of the whole service: attaching counts active subcards only and
  unarchiving checks nothing, so four accepted calls on a two-card board (create a subcard, archive it,
  attach its parent under the other card, unarchive it) end with three active cards in a chain.\<close>

theorem unarchive_breaks_nesting:
  "depth_ok (cards sample_db) \<and> \<not> depth_ok (cards (run_cards shorter unary_lexorank nesting_history sample_db))"
  by code_simp

text \<open>C4: Along every history of card calls, the logged minutes of each card equal the sum of its time entries,
  and every time entry belongs to a card of the table.\<close>

theorem logged_time_is_sum_of_entries:
  assumes "rows_ok (cards s)" "time_ok s" "\<forall>a\<in>snd ` set h. ids_ok a"
  shows "time_ok (run_cards le lx h s)"
proof -
  have "rows_ok (cards (run_cards le lx h s)) \<and> time_ok (run_cards le lx h s)"
    by (rule run_cards_induct [where P = "\<lambda>s. rows_ok (cards s) \<and> time_ok s" and Q = ids_ok])
       (use assms in \<open>simp_all add: exec_rows_ok exec_time_ok\<close>)
  then show ?thesis by blast
qed

theorem logged_time_is_sum_of_entries_witness:
  "time_ok (run_cards shorter unary_lexorank sample_history sample_db)"
  by (rule logged_time_is_sum_of_entries; code_simp)

text \<open>C11: A permanently deleted card never comes back: after any further history, unarchive calls included, no
  lookup of active cards finds it, on its board or on any other.\<close>

theorem deleted_card_never_returns:
  assumes "rows_ok (cards s)" "c \<in> set (cards s)" "cardDeletedAt c \<noteq> None" "\<forall>a\<in>snd ` set h. ids_ok a"
  shows "cardRepo_findActiveById (cardId c) board (run_cards le lx h s) = None"
proof -
  let ?s = "run_cards le lx h s"
  let ?P = "\<lambda>s. rows_ok (cards s) \<and> (\<exists>d\<in>set (cards s). cardId d = cardId c \<and> cardDeletedAt d \<noteq> None)"
  have "?P ?s"
  proof (rule run_cards_induct [where P = ?P and Q = ids_ok])
    show "?P s" using assms(1-3) by blast
    show "\<forall>a\<in>snd ` set h. ids_ok a" by (rule assms(4))
    show "?P (snd (exec_card le lx now a s))" if "?P s" "ids_ok a" for s now a
      using that exec_rows_ok [OF that(2)] exec_deleted [OF that(2)] by metis
  qed
  then obtain d where d: "unique_key cardId (cards ?s)" "d \<in> set (cards ?s)" "cardId d = cardId c" "cardDeletedAt d \<noteq> None"
    by (auto simp: rows_ok_def)
  have "find_active_card (cardId c) board ?s = None"
  proof (cases "find_active_card (cardId c) board ?s")
    case (Some x)
    note x = find_active_card_SomeD [OF Some]
    have "x = d" by (rule unique_keyD [OF d(1) x(1) d(2)]) (simp add: x(2) d(3))
    with x(4) d(4) show ?thesis by simp
  qed
  then show ?thesis by (simp add: cardRepo_findActiveById_def)
qed

theorem deleted_card_never_returns_witness:
  "cardRepo_findActiveById ''c'' (Some ''b'') (run_cards shorter unary_lexorank
     [(5, UnarchiveCard ''b'' ''w'' ''c'' ''u'')]
     (run_cards shorter unary_lexorank sample_history sample_db)) = None"
proof -
  let ?s = "run_cards shorter unary_lexorank sample_history sample_db"
  have 1: "rows_ok (cards ?s)" by code_simp
  have 2: "cards ?s ! 1 \<in> set (cards ?s)" by code_simp
  have 3: "cardDeletedAt (cards ?s ! 1) \<noteq> None" by code_simp
  have 4: "cardId (cards ?s ! 1) = ''c''" by code_simp
  show ?thesis
    by (rule deleted_card_never_returns [OF 1 2 3, unfolded 4]) simp
qed



end
