(* ===== verification/Card_Properties.thy ===== *)
theory Card_Properties
  imports Card_System
begin

text \<open>
  Properties of single card operations: where a new or moved card is placed, that calls reach only
  the board and workspace they name, that assignments and labels stay duplicate-free along every
  history, and what promoting a checklist item leaves behind.
\<close>

section \<open>The row a call writes\<close>

text \<open>The existing card whose row an action may change, with the board and workspace it names.\<close>

fun write_target :: "card_action \<Rightarrow> (uuid \<times> uuid \<times> uuid) option" where
  "write_target (UpdateCard board ws i _ _) = Some (board, ws, i)"
| "write_target (SetPriority board ws i _ _) = Some (board, ws, i)"
| "write_target (SetStatus board ws i _ _) = Some (board, ws, i)"
| "write_target (MoveCard board ws i _ _) = Some (board, ws, i)"
| "write_target (ArchiveCard board ws i _) = Some (board, ws, i)"
| "write_target (UnarchiveCard board ws i _) = Some (board, ws, i)"
| "write_target (DeleteCard board ws i _) = Some (board, ws, i)"
| "write_target (AttachSubcard board ws _ child _) = Some (board, ws, child)"
| "write_target (DetachSubcard board ws i _) = Some (board, ws, i)"
| "write_target (SetEstimate board ws i _ _) = Some (board, ws, i)"
| "write_target (LogTime _ board ws i _ _) = Some (board, ws, i)"
| "write_target _ = None"

fun kind_target :: "write_kind \<Rightarrow> uuid option" where
  "kind_target (Edited i) = Some i"
| "kind_target (Restored i) = Some i"
| "kind_target (Attached i _) = Some i"
| "kind_target (Detached i) = Some i"
| "kind_target (Logged i _) = Some i"
| "kind_target _ = None"

lemma at_id_keeps: "c \<in> set cs \<Longrightarrow> cardId c \<noteq> i \<Longrightarrow> c \<in> set (at_id i f cs)"
  by (force simp: set_at_id)

lemma write_frame:
  assumes "card_write k cs cs'" "c \<in> set cs" "kind_target k \<noteq> Some (cardId c)"
  shows "c \<in> set cs'"
  using assms(1) by cases (use assms(2,3) in \<open>auto intro: at_id_keeps\<close>)

lemma write_kinds_target:
  "k \<in> insert Unchanged (write_kinds a) \<Longrightarrow> kind_target k = Some i \<Longrightarrow> \<exists>board ws. write_target a = Some (board, ws, i)"
  by (cases a) auto

text \<open>A run that succeeded found its target on the board, and the board in the workspace.\<close>

definition reachable_card :: "uuid \<Rightarrow> uuid \<Rightarrow> uuid \<Rightarrow> db \<Rightarrow> bool" where
  "reachable_card board ws i s \<longleftrightarrow>
     (\<exists>b. boardRepo_findById board (Some ws) s = Some b) \<and>
     (\<exists>c\<in>set (cards s). cardId c = i \<and> card_in_scope (Some board) s c)"

lemma found_in_scope:
  "find_active_card i (Some board) s = Some c \<Longrightarrow> \<exists>c\<in>set (cards s). cardId c = i \<and> card_in_scope (Some board) s c"
  "cardRepo_findByIdIncludingDeleted i (Some board) s = Some c \<Longrightarrow>
     \<exists>c\<in>set (cards s). cardId c = i \<and> card_in_scope (Some board) s c"
  using find_active_card_SomeD [of i "Some board" s c] cardRepo_findAny_SomeD [of i "Some board" s c] by blast+

lemma with_card_reachable:
  "with_card board ws i k s = (Inr y, s') \<Longrightarrow> reachable_card board ws i s"
  by (auto simp: with_card_Inr_iff reachable_card_def dest: found_in_scope)

lemma forget_Inr: "fst (forget m) = Inr u \<Longrightarrow> \<exists>y s'. m = (Inr y, s')"
  by (cases m; cases "fst m") (auto simp: forget_def)

lemma attach_reachable:
  "cardService_attachSubcard now board ws parent child user s = (Inr y, s') \<Longrightarrow> reachable_card board ws child s"
  by (auto simp: cardService_attachSubcard_def with_card_Inr_iff reachable_card_def cardRepo_findActiveById_def
      dest: found_in_scope split: if_splits option.splits)

lemma unarchive_reachable:
  "cardService_unarchive now board ws i user s = (Inr y, s') \<Longrightarrow> reachable_card board ws i s"
  "cardService_deletePermanently now board ws i user s = (Inr y', s') \<Longrightarrow> reachable_card board ws i s"
  by (auto simp: cardService_unarchive_def cardService_deletePermanently_def assertBoardInWorkspace_Inr_iff
      cardRepo_archived_eq_deleted reachable_card_def dest: found_in_scope split: option.splits if_splits)

lemma exec_reachable:
  assumes "fst (exec_card le lx now a s) = Inr u" "write_target a = Some (board, ws, i)"
  shows "reachable_card board ws i s"
  using assms
  by (cases a)
     (auto dest!: forget_Inr dest: attach_reachable unarchive_reachable with_card_reachable
       simp: cardService_update_def cardService_updatePriority_def cardService_updateStatus_def
       cardService_move_def cardService_archive_def cardService_detachSubcard_def timeService_setEstimate_def
       timeService_logTime_def)

section \<open>Relations of cards\<close>

text \<open>No user is assigned twice to a card, and no label attached twice.\<close>

definition relations_ok :: "db \<Rightarrow> bool" where
  "relations_ok s \<longleftrightarrow> unique_key (\<lambda>a. (asgCardId a, asgUserId a)) (assignees s) \<and>
     unique_key (\<lambda>x. (clCardId x, clLabelId x)) (cardLabels s)"

definition relations :: "db \<Rightarrow> assignee_row list \<times> card_label_row list" where
  "relations s = (assignees s, cardLabels s)"

lemma relations_ok_eq: "relations s = relations s' \<Longrightarrow> relations_ok s = relations_ok s'"
  by (simp add: relations_def relations_ok_def)

lemma unique_add_assignee:
  "unique_key (\<lambda>a. (asgCardId a, asgUserId a)) rows \<Longrightarrow>
   unique_key (\<lambda>a. (asgCardId a, asgUserId a)) (add_assignee now cid user rows)"
  by (auto simp: add_assignee_def unique_key_def list_ex_iff)

lemma unique_add_label:
  "unique_key (\<lambda>x. (clCardId x, clLabelId x)) rows \<Longrightarrow>
   unique_key (\<lambda>x. (clCardId x, clLabelId x)) (add_card_label cid label rows)"
  by (auto simp: add_card_label_def unique_key_def list_ex_iff)

lemma unique_filter: "unique_key key rows \<Longrightarrow> unique_key key (filter P rows)"
  by (simp add: unique_key_def distinct_map_filter)

lemma unique_fold:
  "(\<And>x rows. unique_key key rows \<Longrightarrow> unique_key key (f x rows)) \<Longrightarrow> unique_key key rows \<Longrightarrow>
   unique_key key (fold f xs rows)"
  by (induction xs arbitrary: rows) auto

lemma create_relations_ok:
  "relations_ok s \<Longrightarrow> relations_ok (snd (cardRepo_create now row us ls s))"
  by (auto simp: cardRepo_create_def or_conflict_def relations_ok_def Let_def
      intro!: unique_fold unique_add_assignee unique_add_label split: option.splits)

text \<open>\<open>honours P k\<close>: every run of \<open>k\<close>, successful or not, keeps \<open>P\<close>.\<close>

definition honours :: "(db \<Rightarrow> bool) \<Rightarrow> (db \<Rightarrow> 'a outcome) \<Rightarrow> bool" where
  "honours P k \<longleftrightarrow> (\<forall>s. P s \<longrightarrow> P (snd (k s)))"

lemma honoursD: "honours P k \<Longrightarrow> P s \<Longrightarrow> P (snd (k s))"
  by (simp add: honours_def)

lemma honours_plain: "(\<And>s. P s \<Longrightarrow> P (g s)) \<Longrightarrow> honours P (\<lambda>s. (f s, g s))"
  by (simp add: honours_def)

lemma honours_if: "honours P a \<Longrightarrow> honours P b \<Longrightarrow> honours P (\<lambda>s. if Q s then a s else b s)"
  by (simp add: honours_def)

lemma honours_option:
  "honours P a \<Longrightarrow> (\<And>y. honours P (b y)) \<Longrightarrow> honours P (\<lambda>s. case x s of None \<Rightarrow> a s | Some y \<Rightarrow> b y s)"
  by (auto simp: honours_def split: option.splits)

lemma honours_sum:
  "(\<And>y. honours P (a y)) \<Longrightarrow> (\<And>y. honours P (b y)) \<Longrightarrow>
   honours P (\<lambda>s. case x s of Inl y \<Rightarrow> a y s | Inr y \<Rightarrow> b y s)"
  by (auto simp: honours_def split: sum.splits)

lemma honours_await:
  assumes "honours P m" "\<And>s x s'. P s' \<Longrightarrow> P (g s x s')"
  shows "honours P (\<lambda>s. await (m s) (\<lambda>x s'. (f s x s', g s x s')))"
  unfolding honours_def
proof (intro allI impI)
  fix s assume "P s"
  from honoursD [OF assms(1) this] assms(2)
  show "P (snd (await (m s) (\<lambda>x s'. (f s x s', g s x s'))))" by (cases "m s"; cases "fst (m s)") auto
qed

lemma honours_with_card: "(\<And>d. honours P (k d)) \<Longrightarrow> honours P (with_card board ws i k)"
  unfolding honours_def with_card_def assertBoardInWorkspace_def by (auto split: option.splits)

lemma honours_create: "honours relations_ok (\<lambda>s. cardRepo_create now (row s) us ls s)"
  by (simp add: honours_def create_relations_ok)

lemma relations_ok_emit [simp]: "relations_ok (emit e s) = relations_ok s"
  by (rule relations_ok_eq) (simp add: relations_def)

lemma relation_writes_ok:
  "honours relations_ok (cardService_create le lx newId now board ws list dto user)"
  "honours relations_ok (cardService_createSubcard le lx newId now board ws i dto user)"
  "honours relations_ok (cardService_addAssignee now board ws i u user)"
  "honours relations_ok (cardService_removeAssignee board ws i u user)"
  "honours relations_ok (cardService_addLabel board ws i l)"
  "honours relations_ok (cardService_removeLabel board ws i l)"
  unfolding cardService_create_def [abs_def] cardService_createSubcard_def cardService_addAssignee_def [abs_def]
    cardService_removeAssignee_def cardService_addLabel_def [abs_def] cardService_removeLabel_def Let_def
  by (intro honours_with_card honours_if honours_option honours_sum honours_await honours_create honours_plain;
      simp add: cardRepo_addAssignee_def cardRepo_removeAssignee_def cardRepo_addLabel_def cardRepo_removeLabel_def
        relations_ok_def unique_add_assignee unique_add_label unique_filter)+

lemma relations_kept_by_repo: "keeps relations (\<lambda>s. cardRepo_update now i (data s) s)"
  by (auto simp: keeps_def relations_def cardRepo_update_def or_missing_def split: option.splits)

lemma relations_kept_by_entry: "keeps relations (timeRepo_addEntry newId now i user m memo)"
  by (auto simp: keeps_def relations_def timeRepo_addEntry_def or_conflict_def Let_def split: option.splits)

lemma relations_kept:
  "keeps relations (cardService_update now board ws i udto user)"
  "keeps relations (cardService_updatePriority now board ws i p user)"
  "keeps relations (cardService_updateStatus now board ws i st user)"
  "keeps relations (cardService_attachSubcard now board ws i j user)"
  "keeps relations (cardService_detachSubcard now board ws i user)"
  "keeps relations (cardService_move lx now board ws i mdto user)"
  "keeps relations (cardService_archive now board ws i user)"
  "keeps relations (cardService_unarchive now board ws i user)"
  "keeps relations (cardService_deletePermanently now board ws i user)"
  "keeps relations (timeService_setEstimate now board ws i m user)"
  unfolding cardService_update_def cardService_updatePriority_def
    cardService_updateStatus_def cardService_attachSubcard_def cardService_detachSubcard_def cardService_move_def
    cardService_archive_def cardService_unarchive_def cardService_deletePermanently_def timeService_setEstimate_def
    Let_def cardRepo_archive_def cardRepo_unarchive_def
    cardRepo_deletePermanently_def cardRepo_moveCard_def cardRepo_attachSubcard_def cardRepo_detachSubcard_def
    cardRepo_updatePriority_def cardRepo_updateStatus_def
  by (intro keeps_with_card keeps_assert_board keeps_if keeps_option keeps_sum keeps_not_found keeps_await
        relations_kept_by_repo keeps_plain; simp add: relations_def)+

lemma logTime_relations: "keeps relations (timeService_logTime newId now board ws i dto user)"
  unfolding timeService_logTime_def
proof (rule keeps_with_card, unfold keeps_def, intro allI)
  fix s
  show "relations (snd (await (timeRepo_addEntry newId now i user (ltMinutes dto) (ltNote dto) s)
      (\<lambda>entry s. case cardRepo_findActiveById i (Some board) s of
          None \<Rightarrow> (Inl (EntityNotFound ''Card'' i), s)
        | Some updated \<Rightarrow> (Inr updated, emit (CardTimeLogged i board (ltMinutes dto)
            (cardLoggedMinutes (cdCard updated)) (teId entry) user) s)))) = relations s"
    using keepsD [OF relations_kept_by_entry, of newId now i user "ltMinutes dto" "ltNote dto" s]
    by (cases "timeRepo_addEntry newId now i user (ltMinutes dto) (ltNote dto) s")
       (auto simp: await_def relations_def split: sum.splits option.splits)
qed

lemma promote_relations:
  assumes "relations_ok s"
  shows "relations_ok (snd (checklistService_promoteItemToSubcard le lx newId now ws board i checklist item user s))"
    (is "relations_ok (snd ?p)")
proof (cases "fst ?p")
  case (Inl e)
  then show ?thesis using atomic_fst [OF atomic_promote Inl] assms by simp
next
  case (Inr d)
  then obtain s' where run: "?p = (Inr d, s')" by (metis prod.collapse)
  then obtain dto s1 where "cardService_createSubcard le lx newId now board ws i dto user s = (Inr d, s1)"
    and "relations s' = relations s1"
    by (auto simp: promote_Inr_iff relations_def)
  with honoursD [OF relation_writes_ok(2) assms, of le lx newId now board ws i dto user] run
  show ?thesis by (simp add: relations_ok_eq [of s' s1])
qed

lemma keeps_relations_ok: "keeps relations k \<Longrightarrow> relations_ok s \<Longrightarrow> relations_ok (snd (k s))"
  using relations_ok_eq keepsD by metis

lemma exec_relations_ok:
  assumes "relations_ok s"
  shows "relations_ok (snd (exec_card le lx now a s))"
  using assms
  by (cases a)
     (simp_all add: relation_writes_ok [THEN honoursD] promote_relations
       relations_kept [THEN keeps_relations_ok] logTime_relations [THEN keeps_relations_ok])

section \<open>Creation\<close>

lemma cardRepo_create_Inr:
  assumes "cardRepo_create now row us ls s = (Inr d, s')"
  shows "cdCard d = row \<and> cards s' = cards s @ [row]"
  using assms by (auto simp: cardRepo_create_def or_conflict_Inr_iff insert_row_Some_iff Let_def)

lemma cardService_create_Inr:
  assumes "cardService_create le lx newId now board ws list dto user s = (Inr d, s')"
  shows "\<exists>st parent. cdCard d = new_card_row newId now list dto (card_append_rank le lx list s) st parent user \<and>
    cards s' = cards s @ [cdCard d]"
  using assms unfolding cardService_create_def Let_def
  by (auto simp: await_Inr_iff dest!: cardRepo_create_Inr split: option.splits [where ?'b = "card_details outcome"] sum.splits)

section \<open>Properties\<close>



text \<open>C12: A card created through the service is appended to its list: it comes strictly after every active card of
  the list in the order the database sorts ranks by, and the only change of the card table is the new row.
  The hypotheses are the documented laws of the rank package and that the ranks in the list have a
  successor.\<close>

theorem created_card_is_last:
  assumes "collation le" "lexorank_laws lx le"
    and run: "cardService_create le lx newId now board ws list dto user s = (Inr d, s')"
    and ranks: "\<forall>z\<in>set (cards s). cardListId z = list \<longrightarrow>
      cardRank z \<noteq> [] \<and> (\<exists>r. getRankBetween lx (Some (cardRank z)) None = Inr r)"
  shows "cards s' = cards s @ [cdCard d] \<and> cardListId (cdCard d) = list \<and> is_active (cdCard d) \<and>
    (\<forall>x\<in>set (cards s). cardListId x = list \<longrightarrow> is_active x \<longrightarrow>
       strictly_before le (cardRank x) (cardRank (cdCard d)))"
proof -
  from cardService_create_Inr [OF run] obtain st parent where
    d: "cdCard d = new_card_row newId now list dto (card_append_rank le lx list s) st parent user"
    and s': "cards s' = cards s @ [cdCard d]" by blast
  let ?here = "filter (\<lambda>c. cardListId c = list \<and> cardArchivedAt c = None \<and> cardDeletedAt c = None) (cards s)"
  have last: "strictly_before le (cardRank x) (card_append_rank le lx list s)" if "x \<in> set ?here" for x
  proof -
    from first_desc_exists [OF that] obtain z where z1: "first_desc le cardRank ?here = Some z" by blast
    note z = z1 first_desc_SomeD(1) [OF z1]
    with ranks obtain r where r: "cardRank z \<noteq> []" "getRankBetween lx (Some (cardRank z)) None = Inr r" by auto
    from rank_appended [OF assms(1,2) z(1) r that] z(1) r(2) show ?thesis
      by (simp add: card_append_rank_def cardRepo_findLastInList_def)
  qed
  show ?thesis
    using s' last by (auto simp: d new_card_row_def is_active_def)
qed

theorem created_card_is_last_witness:
  "\<exists>(d :: card_details) (s' :: db). cards s' = cards sample_db @ [cdCard d] \<and> cardListId (cdCard d) = ''l'' \<and> is_active (cdCard d) \<and>
    (\<forall>x\<in>set (cards sample_db). cardListId x = ''l'' \<longrightarrow> is_active x \<longrightarrow>
       strictly_before shorter (cardRank x) (cardRank (cdCard d)))"
proof -
  let ?m = "cardService_create shorter unary_lexorank ''x'' 1 ''b'' ''w'' ''l'' (titled_card ''New'') ''u'' sample_db"
  have "isl (fst ?m) = False" by code_simp
  then obtain d s' where run: "?m = (Inr d, s')" by (cases ?m; cases "fst ?m") auto
  have "\<forall>z\<in>set (cards sample_db). cardListId z = ''l'' \<longrightarrow>
      cardRank z \<noteq> [] \<and> (\<exists>r. getRankBetween unary_lexorank (Some (cardRank z)) None = Inr r)"
    by (simp add: sample_db_defs getRankBetween_def rank_or_invalid_def unary_lexorank_def)
  from created_card_is_last [OF collation_shorter unary_lexorank_laws run this] show ?thesis by blast
qed

text \<open>C13: A moved card lands where the caller asked: in the target list, which is an active list of the board,
  strictly after the given previous neighbour and strictly before the given next one; no other row changes
  and nothing but list and rank (and the update time) of the moved row. The hypotheses are the laws of the rank
  package, that the given neighbours are in order and that a rank between them exists.\<close>

theorem moved_card_lands_between:
  assumes "lexorank_laws lx le"
    and run: "cardService_move lx now board ws i dto user s = (Inr moved, s')"
    and order: "truthy (mcPrevRank dto) \<and> truthy (mcNextRank dto) \<longrightarrow>
      strictly_before le (the (mcPrevRank dto)) (the (mcNextRank dto))"
    and room: "getRankBetween lx (mcPrevRank dto) (mcNextRank dto) = Inr r"
  shows "(truthy (mcPrevRank dto) \<longrightarrow> strictly_before le (the (mcPrevRank dto)) (cardRank moved)) \<and>
    (truthy (mcNextRank dto) \<longrightarrow> strictly_before le (cardRank moved) (the (mcNextRank dto))) \<and>
    cardListId moved = mcTargetListId dto \<and>
    (\<exists>l. listRepo_findActiveById (mcTargetListId dto) (Some board) s = Some l) \<and>
    cards s' = at_id i (\<lambda>c. c\<lparr>cardListId := mcTargetListId dto, cardRank := cardRank moved, cardUpdatedAt := now\<rparr>) (cards s)"
proof -
  from run room obtain l c where
    "listRepo_findActiveById (mcTargetListId dto) (Some board) s = Some l"
    and m: "moved = c\<lparr>cardListId := mcTargetListId dto, cardRank := r, cardUpdatedAt := now\<rparr>"
    and "cards s' = at_id i (\<lambda>c. c\<lparr>cardListId := mcTargetListId dto, cardRank := r, cardUpdatedAt := now\<rparr>) (cards s)"
    by (auto simp: cardService_move_def with_card_Inr_iff await_Inr_iff cardRepo_moveCard_def
        cardRepo_update_Inr_iff split: option.splits)
  moreover have "truthy (mcPrevRank dto) \<longrightarrow> strictly_before le (the (mcPrevRank dto)) r"
    and "truthy (mcNextRank dto) \<longrightarrow> strictly_before le r (the (mcNextRank dto))"
    using getRankBetween_places [OF assms(1) order room] by blast+
  ultimately show ?thesis by simp
qed

theorem moved_card_lands_between_witness:
  "\<exists>moved :: card_row. strictly_before shorter (unary 3) (cardRank moved) \<and> strictly_before shorter (cardRank moved) (unary 7)"
proof -
  let ?dto = "\<lparr>mcTargetListId = ''l'', mcPrevRank = Some (unary 3), mcNextRank = Some (unary 7)\<rparr>"
  let ?m = "cardService_move unary_lexorank 1 ''b'' ''w'' ''a'' ?dto ''u'' sample_db"
  have "isl (fst ?m) = False" by code_simp
  then obtain moved s' where run: "?m = (Inr moved, s')" by (cases ?m; cases "fst ?m") auto
  have "getRankBetween unary_lexorank (mcPrevRank ?dto) (mcNextRank ?dto) = Inr (unary 5)"
    by (simp add: getRankBetween_def rank_or_invalid_def unary_lexorank_def)
  from moved_card_lands_between [OF unary_lexorank_laws run _ this]
  have "strictly_before shorter (unary 3) (cardRank moved) \<and> strictly_before shorter (cardRank moved) (unary 7)"
    by (simp add: strictly_before_def shorter_def)
  then show ?thesis by blast
qed

text \<open>Along every history of card calls no user is assigned twice to a card and no label is attached twice,
  however often the same assignment is requested.\<close>

theorem relations_stay_unique:
  assumes "relations_ok s"
  shows "relations_ok (run_cards le lx h s)"
  using assms by (rule run_cards_induct [where P = relations_ok and Q = "\<lambda>_. True"]) (simp_all add: exec_relations_ok)

theorem relations_stay_unique_witness:
  "relations_ok (run_cards shorter unary_lexorank
     [(1, AddAssignee ''b'' ''w'' ''a'' ''m'' ''u''), (2, AddAssignee ''b'' ''w'' ''a'' ''m'' ''u'')] sample_db)"
  by (rule relations_stay_unique) (simp add: relations_ok_def sample_db_def empty_db_def unique_key_def)

text \<open>Only members are assigned: when an assignment succeeds the assignee is a member of the named workspace and
  the card is an active card of the board, and exactly that assignment is added; when it is then removed
  the user is no longer assigned.\<close>

theorem only_members_are_assigned:
  assumes run: "cardService_addAssignee now board ws i u user s = (Inr r, s')"
  shows "workspaceService_isUserMember ws u s \<and> (\<exists>c. find_active_card i (Some board) s = Some c) \<and>
    assignees s' = add_assignee now i u (assignees s) \<and>
    (\<exists>a\<in>set (assignees s'). asgCardId a = i \<and> asgUserId a = u) \<and>
    (\<forall>a\<in>set (assignees (cardRepo_removeAssignee i u s')). \<not> (asgCardId a = i \<and> asgUserId a = u))"
  using run
  by (auto simp: cardService_addAssignee_def cardRepo_findActiveById_def cardRepo_addAssignee_def
      cardRepo_removeAssignee_def add_assignee_def list_ex_iff split: option.splits if_splits)

theorem only_members_are_assigned_witness:
  "workspaceService_isUserMember ''w'' ''m'' sample_db"
proof -
  let ?m = "cardService_addAssignee 1 ''b'' ''w'' ''a'' ''m'' ''u'' sample_db"
  have "isl (fst ?m) = False" by code_simp
  then obtain r s' where run: "?m = (Inr r, s')" by (cases ?m; cases "fst ?m") auto
  from only_members_are_assigned [OF run] show ?thesis by blast
qed

text \<open>Promoting a checklist item: when it succeeds, the item belongs to the named checklist, exactly one card
  is added, it carries the item's text as title and the promoting card as parent, and the item is marked
  done.\<close>

theorem promoted_item_becomes_subcard:
  assumes run: "checklistService_promoteItemToSubcard le lx newId now ws board i checklist item user s = (Inr d, s')"
  shows "\<exists>x. checklistRepo_findItem item s = Some x \<and> itemChecklistId x = checklist \<and>
    cards s' = cards s @ [cdCard d] \<and> cardId (cdCard d) = newId \<and> cardTitle (cdCard d) = itemContent x \<and>
    cardParentCardId (cdCard d) = Some i \<and>
    checklistRepo_findItem item s' = Some (x\<lparr>itemIsDone := True\<rparr>)"
proof -
  from run obtain x s1 where x: "checklistRepo_findItem item s = Some x" "itemChecklistId x = checklist"
    and create: "cardService_createSubcard le lx newId now board ws i (titled_card (itemContent x)) user s = (Inr d, s1)"
    and s': "s' = emit (ChecklistUpdated checklist i board user) (s1\<lparr>checklistItems :=
        map (\<lambda>x. if itemId x = item then x\<lparr>itemIsDone := True\<rparr> else x) (checklistItems s)\<rparr>)"
    by (auto simp: promote_Inr_iff)
  from create have "cards s1 = cards s @ [cdCard d]" "cardId (cdCard d) = newId" "cardTitle (cdCard d) = itemContent x"
    "cardParentCardId (cdCard d) = Some i"
    by (auto simp: cardService_createSubcard_def with_card_Inr_iff await_Inr_iff cardRepo_create_def
        or_conflict_Inr_iff insert_row_Some_iff Let_def new_card_row_def titled_card_def split: if_splits option.splits)
  moreover have "checklistRepo_findItem item s' = Some (x\<lparr>itemIsDone := True\<rparr>)"
    using x(1) find_map_update [of itemId "\<lambda>x. x\<lparr>itemIsDone := True\<rparr>" "\<lambda>_. True" item item "checklistItems s"]
    by (simp add: s' checklistRepo_findItem_def)
  ultimately show ?thesis using x by (simp add: s')
qed

text \<open>The sample board with a checklist \<open>k\<close> on card \<open>a\<close>, holding the item \<open>t\<close>.\<close>

definition checklist_db :: db where
  "checklist_db = sample_db\<lparr>
     checklists := [\<lparr>chkId = ''k'', chkCardId = ''a'', chkTitle = ''Steps'', chkRank = unary 3\<rparr>],
     checklistItems := [\<lparr>itemId = ''t'', itemChecklistId = ''k'', itemContent = ''Ship'', itemIsDone = False, itemRank = unary 3\<rparr>]\<rparr>"

theorem promoted_item_becomes_subcard_witness:
  "\<exists>(x :: checklist_item_row) s'. checklistRepo_findItem ''t'' checklist_db = Some x \<and>
    checklistRepo_findItem ''t'' s' = Some (x\<lparr>itemIsDone := True\<rparr>)"
proof -
  let ?m = "checklistService_promoteItemToSubcard shorter unary_lexorank ''x'' 1 ''w'' ''b'' ''a'' ''k'' ''t'' ''u'' checklist_db"
  have "isl (fst ?m) = False" by code_simp
  then obtain d s' where run: "?m = (Inr d, s')" by (cases ?m; cases "fst ?m") auto
  from promoted_item_becomes_subcard [OF run] show ?thesis by blast
qed

text \<open>The item is checked against the checklist, but the checklist is not checked against the card: promoting
  an item of card \<open>a\<close> under card \<open>c\<close> succeeds and makes a subcard of \<open>c\<close>.\<close>

theorem promotion_crosses_cards:
  "chkCardId (hd (checklists checklist_db)) = ''a'' \<and>
   (case checklistService_promoteItemToSubcard shorter unary_lexorank ''x'' 1 ''w'' ''b'' ''c'' ''k'' ''t'' ''u'' checklist_db of
      (Inl e, s') \<Rightarrow> False
    | (Inr d, s') \<Rightarrow> cardParentCardId (cdCard d) = Some ''c'')"
  by code_simp

text \<open>Creating a card does not check that the board belongs to the workspace of the request, unlike updating
  one: for a user who is no member of the board's workspace, creating in the list under another workspace
  id succeeds, while updating an existing card under that id is refused.\<close>

theorem create_ignores_the_workspace:
  "\<not> workspaceService_isUserMember ''w'' ''z'' sample_db \<and>
   \<not> isl (fst (cardService_create shorter unary_lexorank ''x'' 1 ''b'' ''v'' ''l'' (titled_card ''Spam'') ''z'' sample_db)) \<and>
   fst (cardService_updateStatus 1 ''b'' ''v'' ''a'' Done ''z'' sample_db) = Inl (EntityNotFound ''Board'' ''b'')"
  by code_simp

text \<open>Unarchiving looks a card up without regard to its deletion: unarchiving a deleted card is accepted and
  announced to the board as a restored card, although the row stays deleted and no lookup finds it.\<close>

theorem deleted_card_is_announced_as_restored:
  "(case cardService_unarchive 2 ''b'' ''w'' ''c'' ''u''
           (snd (cardService_deletePermanently 1 ''b'' ''w'' ''c'' ''u'' sample_db)) of
      (Inl e, s') \<Rightarrow> False
    | (Inr c, s') \<Rightarrow> cardDeletedAt c = Some 1 \<and>
        last (events s') = CardUnarchived c ''b'' ''l'' ''u'' \<and> find_active_card ''c'' (Some ''b'') s' = None)"
  by code_simp

end
