(* ===== verification/Text_Formats.thy ===== *)
theory Text_Formats
  imports Js_Text Tables
begin

text \<open>
  The text formats the services recognise: mentions in a comment
  (\<open>comment/utils/mention-parser.util.ts\<close>) and version-4 UUIDs
  (\<open>common/utils/validation.util.ts\<close>). Both are regular expressions; \<open>match_mention\<close> follows the
  matcher's greedy choice and its backtracking order.
\<close>

section \<open>Character classes\<close>

definition is_letter :: "char \<Rightarrow> bool" where
  "is_letter c \<longleftrightarrow> is_lower c \<or> is_upper c"

definition local_char :: "char \<Rightarrow> bool" where
  "local_char c \<longleftrightarrow> is_letter c \<or> is_digit c \<or> c \<in> set ''._%+-''"

definition domain_char :: "char \<Rightarrow> bool" where
  "domain_char c \<longleftrightarrow> is_letter c \<or> is_digit c \<or> c \<in> set ''.-''"

definition hex_char :: "char \<Rightarrow> bool" where
  "hex_char c \<longleftrightarrow> is_digit c \<or> (97 \<le> code c \<and> code c \<le> 102) \<or> (65 \<le> code c \<and> code c \<le> 70)"

section \<open>Mentions\<close>

text \<open>
  \<open>[a-z0-9.-]+\.[a-z]{2,}\<close> at the start of \<open>t\<close>: the first part takes the whole run of its class and
  gives back characters until a dot and two letters follow, so the last possible dot wins.
\<close>

definition match_domain :: "string \<Rightarrow> string option" where
  "match_domain t =
     (let run = takeWhile domain_char t;
          fits = (\<lambda>k. run ! k = CHR ''.'' \<and> 2 \<le> length (takeWhile is_letter (drop (Suc k) run)))
      in map_option (\<lambda>k. take (Suc k) run @ takeWhile is_letter (drop (Suc k) run))
           (find fits (rev [1..<length run])))"

text \<open>What follows an at-sign: the address, when there is one.\<close>

definition match_mention :: "string \<Rightarrow> string option" where
  "match_mention t =
     (let name = takeWhile local_char t
      in case dropWhile local_char t of
           [] \<Rightarrow> None
         | c # rest \<Rightarrow>
             if name \<noteq> [] \<and> c = CHR ''@''
             then map_option (\<lambda>d. name @ CHR ''@'' # d) (match_domain rest) else None)"

function mentions :: "string \<Rightarrow> string list" where
  "mentions [] = []"
| "mentions (c # cs) =
     (if c = CHR ''@'' then
        (case match_mention cs of Some m \<Rightarrow> m # mentions (drop (length m) cs) | None \<Rightarrow> mentions cs)
      else mentions cs)"
  by pat_completeness auto
termination by (relation "measure length") auto

text \<open>A JavaScript \<open>Set\<close> lists its members in the order they were first added.\<close>

definition set_order :: "'a list \<Rightarrow> 'a list" where
  "set_order xs = rev (remdups (rev xs))"

definition parseMentionedEmails :: "string \<Rightarrow> string list" where
  "parseMentionedEmails content = set_order (map toLowerCase (mentions content))"

section \<open>UUIDs\<close>

definition isUuidV4 :: "string \<Rightarrow> bool" where
  "isUuidV4 t \<longleftrightarrow> length t = 36 \<and>
     (\<forall>k<36. if k \<in> {8, 13, 18, 23} then t ! k = CHR ''-'' else hex_char (t ! k)) \<and>
     t ! 14 = CHR ''4'' \<and> t ! 19 \<in> set ''89abAB''"

section \<open>What the mention parser returns\<close>

lemma set_order_distinct: "distinct (set_order xs)" "set (set_order xs) = set xs"
  by (simp_all add: set_order_def)

lemma prefix_take: "d = take n t \<Longrightarrow> d = take (length d) t"
  by (cases "n \<le> length t") simp_all

lemma match_domain_SomeD:
  assumes "match_domain t = Some d"
  shows "\<exists>h tl. d = h @ CHR ''.'' # tl \<and> h \<noteq> [] \<and> (\<forall>c\<in>set h. domain_char c) \<and>
    2 \<le> length tl \<and> (\<forall>c\<in>set tl. is_letter c) \<and> d = take (length d) t"
proof -
  let ?run = "takeWhile domain_char t"
  from assms obtain k where k: "k \<in> {1..<length ?run}" "?run ! k = CHR ''.''"
    "2 \<le> length (takeWhile is_letter (drop (Suc k) ?run))"
    and d: "d = take (Suc k) ?run @ takeWhile is_letter (drop (Suc k) ?run)"
    by (auto simp: match_domain_def Let_def dest!: find_SomeD)
  have dom: "\<forall>c\<in>set ?run. domain_char c" by (auto dest: set_takeWhileD)
  have take_Suc: "take (Suc k) ?run = take k ?run @ [CHR ''.'']"
    using k(1,2) by (simp add: take_Suc_conv_app_nth)
  let ?h = "take k ?run" and ?tl = "takeWhile is_letter (drop (Suc k) ?run)"
  have "?h \<noteq> []" using k(1) by auto
  moreover have "\<forall>c\<in>set ?h. domain_char c" using dom by (meson in_set_takeD)
  moreover have "\<forall>c\<in>set ?tl. is_letter c" by (auto dest: set_takeWhileD)
  moreover have "d = take (length d) t"
  proof -
    have tl: "takeWhile is_letter (drop (Suc k) ?run) = take (length ?tl) (drop (Suc k) ?run)"
      by (metis takeWhile_eq_take)
    have "d = take (Suc k) ?run @ take (length ?tl) (drop (Suc k) ?run)" using d tl by simp
    then have "d = take (Suc k + length ?tl) ?run" by (simp only: take_add)
    moreover have "?run = take (length ?run) t" by (metis takeWhile_eq_take)
    ultimately have "d = take (min (Suc k + length ?tl) (length ?run)) t" by (metis take_take)
    then show ?thesis by (rule prefix_take)
  qed
  moreover have "d = ?h @ CHR ''.'' # ?tl" using d take_Suc by simp
  ultimately show ?thesis using k(3) by blast
qed


definition email_shaped :: "string \<Rightarrow> bool" where
  "email_shaped m \<longleftrightarrow> (\<exists>name h tl. m = name @ CHR ''@'' # h @ CHR ''.'' # tl \<and> name \<noteq> [] \<and> h \<noteq> [] \<and>
     2 \<le> length tl \<and> (\<forall>c\<in>set name. local_char c) \<and> (\<forall>c\<in>set h. domain_char c) \<and> (\<forall>c\<in>set tl. is_letter c))"

lemma match_mention_SomeD:
  assumes "match_mention t = Some m"
  shows "email_shaped m" "m = take (length m) t"
proof -
  let ?name = "takeWhile local_char t"
  from assms obtain rest d where rest: "dropWhile local_char t = CHR ''@'' # rest" and ne: "?name \<noteq> []"
    and d: "match_domain rest = Some d" and m: "m = ?name @ CHR ''@'' # d"
    by (auto simp: match_mention_def Let_def split: list.splits if_splits)
  have loc: "\<forall>c\<in>set ?name. local_char c" by (auto dest: set_takeWhileD)
  from match_domain_SomeD [OF d] obtain h tl where dd: "d = h @ CHR ''.'' # tl" "h \<noteq> []"
    "\<forall>c\<in>set h. domain_char c" "2 \<le> length tl" "\<forall>c\<in>set tl. is_letter c" "d = take (length d) rest" by blast
  then show "email_shaped m" unfolding email_shaped_def using m ne loc
    by (intro exI [of _ ?name] exI [of _ h] exI [of _ tl]) simp
  have "t = ?name @ CHR ''@'' # rest" using rest by (metis takeWhile_dropWhile_id)
  then have "take (length m) t = take (length m) (?name @ CHR ''@'' # rest)" by simp
  also have "\<dots> = ?name @ CHR ''@'' # take (length d) rest" using m by simp
  also have "\<dots> = m" using m dd(6) by simp
  finally show "m = take (length m) t" by simp
qed

text \<open>Every raw mention stands in the text, after an at-sign.\<close>

lemma mentions_sound:
  "m \<in> set (mentions t) \<Longrightarrow> email_shaped m \<and> (\<exists>pre post. t = pre @ CHR ''@'' # m @ post)"
proof (induction t rule: mentions.induct)
  case 1
  then show ?case by simp
next
  case (2 c cs)
  have skip: ?case if "email_shaped m \<and> (\<exists>pre post. cs = pre @ CHR ''@'' # m @ post)"
    using that by (metis append_Cons)
  show ?case
  proof (cases "c = CHR ''@'' \<and> match_mention cs \<noteq> None")
    case False
    then have "m \<in> set (mentions cs)" using 2(4) by (auto split: if_splits)
    moreover have "c = CHR ''@'' \<Longrightarrow> match_mention cs = None" using False by simp
    ultimately have "email_shaped m \<and> (\<exists>pre post. cs = pre @ CHR ''@'' # m @ post)"
      using 2(1,3) by blast
    then show ?thesis by (rule skip)
  next
    case True
    then obtain m0 where m0: "match_mention cs = Some m0" by auto
    note sd = match_mention_SomeD [OF m0]
    have dec: "cs = m0 @ drop (length m0) cs" by (metis append_take_drop_id sd(2))
    from 2(4) True m0 have "m = m0 \<or> m \<in> set (mentions (drop (length m0) cs))" by simp
    then show ?thesis
    proof
      assume "m = m0"
      with sd(1) dec True show ?thesis by (metis append_Nil)
    next
      assume "m \<in> set (mentions (drop (length m0) cs))"
      with 2(2) True m0 obtain pre post where "email_shaped m" "drop (length m0) cs = pre @ CHR ''@'' # m @ post"
        by blast
      with dec have "cs = (m0 @ pre) @ CHR ''@'' # m @ post" by simp
      with skip \<open>email_shaped m\<close> show ?thesis by blast
    qed
  qed
qed

lemma parseMentionedEmails_distinct: "distinct (parseMentionedEmails t)"
  by (simp add: parseMentionedEmails_def set_order_distinct)

lemma parseMentionedEmails_set: "set (parseMentionedEmails t) = toLowerCase ` set (mentions t)"
  by (simp add: parseMentionedEmails_def set_order_distinct)

end
