(* ===== verification/Card_Fields.thy ===== *)
theory Card_Fields
  imports Card_Effects Text_Formats
begin

text \<open>
  Custom fields: \<open>CardFieldRepository\<close> (\<open>card-fields/repositories/card-field.repository.ts\<close>),
  \<open>CardFieldService\<close> (\<open>card-fields/services/card-field.service.ts\<close>) and
  \<open>card-fields/utils/custom-field-validator.util.ts\<close>. Which strings \<open>Date.parse\<close> accepts beyond
  the ISO format is up to the JavaScript engine, so it is the parameter \<open>parses\<close>. A value is
  \<open>None\<close> when the request leaves it out (\<open>undefined\<close>). The database client refuses
  \<open>undefined\<close> and a bare \<open>null\<close> for a required JSON column with a validation error.
\<close>

section \<open>The validator\<close>

definition select_options :: "json option \<Rightarrow> string list" where
  "select_options options =
     List.map_filter (\<lambda>o'. case o' of JString t \<Rightarrow> Some t | _ \<Rightarrow> None)
       (case options of
          Some (JObject kvs) \<Rightarrow>
            (case map_of (rev kvs) ''options'' of Some (JArray xs) \<Rightarrow> xs | _ \<Rightarrow> [])
        | Some (JArray xs) \<Rightarrow> xs
        | _ \<Rightarrow> [])"

definition validateFieldValue ::
  "(string \<Rightarrow> bool) \<Rightarrow> card_field_type \<Rightarrow> json option \<Rightarrow> json option \<Rightarrow> error option" where
  "validateFieldValue parses ty options value =
     (case value of
        None \<Rightarrow> None
      | Some JNull \<Rightarrow> None
      | Some v \<Rightarrow>
          (case ty of
             TextField \<Rightarrow> (case v of JString t \<Rightarrow> None | _ \<Rightarrow> Some (BadRequest ''Text field expects a string''))
           | NumberField \<Rightarrow>
               (case v of JNumber (Finite q) \<Rightarrow> None
                | _ \<Rightarrow> Some (BadRequest ''Number field expects a finite number''))
           | DateField \<Rightarrow>
               (case v of JString t \<Rightarrow> if parses t then None else Some (BadRequest ''Date field expects ISO 8601 string'')
                | _ \<Rightarrow> Some (BadRequest ''Date field expects ISO 8601 string''))
           | SelectField \<Rightarrow>
               (case v of JString t \<Rightarrow> if t \<in> set (select_options options) then None
                            else Some (BadRequest ''Select value not in field options'')
                | _ \<Rightarrow> Some (BadRequest ''Select value not in field options''))
           | UserField \<Rightarrow>
               (case v of JString t \<Rightarrow> if isUuidV4 t then None else Some (BadRequest ''User field expects a user UUID'')
                | _ \<Rightarrow> Some (BadRequest ''User field expects a user UUID''))))"

section \<open>CardFieldRepository\<close>

definition field_name_taken :: "uuid \<Rightarrow> uuid \<Rightarrow> string \<Rightarrow> db \<Rightarrow> bool" where
  "field_name_taken i ws name s \<longleftrightarrow>
     list_ex (\<lambda>f. fdId f \<noteq> i \<and> fdWorkspaceId f = ws \<and> fdName f = name) (fieldDefs s)"

definition fieldRepo_createDef :: "field_def_row \<Rightarrow> db \<Rightarrow> field_def_row outcome" where
  [op_defs]: "fieldRepo_createDef row s =
     (if fdId row \<in> fdId ` set (fieldDefs s) \<or> field_name_taken (fdId row) (fdWorkspaceId row) (fdName row) s
      then (Inl (BusinessRule ''FIELD_NAME_EXISTS''), s)
      else (Inr row, s\<lparr>fieldDefs := fieldDefs s @ [row]\<rparr>))"

definition fieldRepo_findDefById :: "uuid \<Rightarrow> db \<Rightarrow> field_def_row option" where
  "fieldRepo_findDefById i s = find (\<lambda>f. fdId f = i) (fieldDefs s)"

definition fieldRepo_listDefs :: "uuid \<Rightarrow> db \<Rightarrow> field_def_row list" where
  "fieldRepo_listDefs ws s = order_asc fdPosition (filter (\<lambda>f. fdWorkspaceId f = ws) (fieldDefs s))"

definition fieldRepo_updateDef ::
  "uuid \<Rightarrow> (field_def_row \<Rightarrow> field_def_row) \<Rightarrow> db \<Rightarrow> field_def_row outcome" where
  [op_defs]: "fieldRepo_updateDef i data s =
     (case update_by fdId i data (fieldDefs s) of
        None \<Rightarrow> (Inl (EntityNotFound ''CardFieldDef'' i), s)
      | Some (row, rows) \<Rightarrow>
          if field_name_taken i (fdWorkspaceId row) (fdName row) s
          then (Inl (BusinessRule ''FIELD_NAME_EXISTS''), s)
          else (Inr row, s\<lparr>fieldDefs := rows\<rparr>))"

definition fieldRepo_deleteDef :: "uuid \<Rightarrow> db \<Rightarrow> unit outcome" where
  [op_defs]: "fieldRepo_deleteDef i s =
     (case delete_by fdId i (fieldDefs s) of
        None \<Rightarrow> (Inl (EntityNotFound ''CardFieldDef'' i), s)
      | Some (row, rows) \<Rightarrow>
          (Inr (), s\<lparr>fieldDefs := rows, fieldValues := filter (\<lambda>v. fvFieldId v \<noteq> i) (fieldValues s)\<rparr>))"

definition fieldRepo_setValue :: "uuid \<Rightarrow> uuid \<Rightarrow> json option \<Rightarrow> db \<Rightarrow> field_value_row outcome" where
  [op_defs]: "fieldRepo_setValue i cid value s =
     (case value of
        None \<Rightarrow> (Inl (PrismaError ''VALIDATION''), s)
      | Some JNull \<Rightarrow> (Inl (PrismaError ''VALIDATION''), s)
      | Some v \<Rightarrow>
          (let row = \<lparr>fvFieldId = i, fvCardId = cid, fvValue = v\<rparr>
           in case update_by (\<lambda>x. (fvFieldId x, fvCardId x)) (i, cid) (\<lambda>x. x\<lparr>fvValue := v\<rparr>) (fieldValues s) of
                Some (r, rows) \<Rightarrow> (Inr r, s\<lparr>fieldValues := rows\<rparr>)
              | None \<Rightarrow> (Inr row, s\<lparr>fieldValues := fieldValues s @ [row]\<rparr>)))"

definition fieldRepo_listValuesForCard :: "uuid \<Rightarrow> db \<Rightarrow> (field_value_row \<times> field_def_row option) list" where
  "fieldRepo_listValuesForCard cid s =
     map (\<lambda>v. (v, fieldRepo_findDefById (fvFieldId v) s)) (filter (\<lambda>v. fvCardId v = cid) (fieldValues s))"

section \<open>CardFieldService\<close>

record create_field_dto =
  cfName :: string
  cfFieldType :: card_field_type
  cfOptions :: "json option"
  cfRequired :: "bool option"
  cfPosition :: "int option"

record update_field_dto =
  ufName :: "string option"
  ufOptions :: "json option"
  ufRequired :: "bool option"
  ufPosition :: "int option"

definition fieldService_createDef :: "uuid \<Rightarrow> uuid \<Rightarrow> create_field_dto \<Rightarrow> db \<Rightarrow> field_def_row outcome" where
  [op_defs]: "fieldService_createDef newId ws dto =
     fieldRepo_createDef \<lparr>fdId = newId, fdWorkspaceId = ws, fdName = cfName dto,
       fdFieldType = cfFieldType dto, fdOptions = cfOptions dto,
       fdRequired = or_keep (cfRequired dto) False, fdPosition = or_keep (cfPosition dto) 0\<rparr>"

definition fieldService_listDefs :: "uuid \<Rightarrow> db \<Rightarrow> field_def_row list" where
  "fieldService_listDefs ws s = fieldRepo_listDefs ws s"

text \<open>The definition must exist in the workspace.\<close>

definition with_field :: "uuid \<Rightarrow> uuid \<Rightarrow> (field_def_row \<Rightarrow> db \<Rightarrow> 'a outcome) \<Rightarrow> db \<Rightarrow> 'a outcome" where
  "with_field ws i k s =
     (case fieldRepo_findDefById i s of
        None \<Rightarrow> (Inl (EntityNotFound ''CardFieldDef'' i), s)
      | Some f \<Rightarrow> if fdWorkspaceId f \<noteq> ws then (Inl (EntityNotFound ''CardFieldDef'' i), s) else k f s)"

definition field_patch :: "update_field_dto \<Rightarrow> field_def_row \<Rightarrow> field_def_row" where
  "field_patch dto f = f\<lparr>fdName := or_keep (ufName dto) (fdName f),
     fdOptions := (case ufOptions dto of None \<Rightarrow> fdOptions f | Some j \<Rightarrow> Some j),
     fdRequired := or_keep (ufRequired dto) (fdRequired f),
     fdPosition := or_keep (ufPosition dto) (fdPosition f)\<rparr>"

definition fieldService_updateDef :: "uuid \<Rightarrow> uuid \<Rightarrow> update_field_dto \<Rightarrow> db \<Rightarrow> field_def_row outcome" where
  [op_defs]: "fieldService_updateDef ws i dto =
     with_field ws i (\<lambda>f. fieldRepo_updateDef i (field_patch dto))"

definition fieldService_deleteDef :: "uuid \<Rightarrow> uuid \<Rightarrow> db \<Rightarrow> unit outcome" where
  [op_defs]: "fieldService_deleteDef ws i = with_field ws i (\<lambda>f. fieldRepo_deleteDef i)"

definition not_a_member :: "uuid \<Rightarrow> card_field_type \<Rightarrow> json option \<Rightarrow> db \<Rightarrow> bool" where
  "not_a_member ws ty value s \<longleftrightarrow>
     (case value of Some (JString u) \<Rightarrow> ty = UserField \<and> \<not> workspaceService_isUserMember ws u s | _ \<Rightarrow> False)"

definition fieldService_setValue ::
  "(string \<Rightarrow> bool) \<Rightarrow> uuid \<Rightarrow> uuid \<Rightarrow> uuid \<Rightarrow> uuid \<Rightarrow> json option \<Rightarrow> db \<Rightarrow> field_value_row outcome" where
  [op_defs]: "fieldService_setValue parses board ws cid i value =
     assertBoardInWorkspace board (Some ws) (with_field ws i (\<lambda>f s.
       case cardRepo_findActiveById cid (Some board) s of
         None \<Rightarrow> (Inl (EntityNotFound ''Card'' cid), s)
       | Some d \<Rightarrow>
           (case validateFieldValue parses (fdFieldType f) (fdOptions f) value of
              Some e \<Rightarrow> (Inl e, s)
            | None \<Rightarrow>
                if not_a_member ws (fdFieldType f) value s then
                  (Inl (BadRequest ''Referenced user is not a member of this workspace''), s)
                else fieldRepo_setValue i cid value s)))"

definition fieldService_listValues ::
  "uuid \<Rightarrow> uuid \<Rightarrow> uuid \<Rightarrow> db \<Rightarrow> (field_value_row \<times> field_def_row option) list outcome" where
  [op_defs]: "fieldService_listValues board ws cid =
     with_card board ws cid (\<lambda>d s. (Inr (fieldRepo_listValuesForCard cid s), s))"

section \<open>Effects\<close>

lemma with_field_Inr_iff:
  "with_field ws i k s = (Inr y, s') \<longleftrightarrow>
     (\<exists>f. fieldRepo_findDefById i s = Some f \<and> fdWorkspaceId f = ws \<and> k f s = (Inr y, s'))"
  by (auto simp: with_field_def split: option.splits if_splits)

lemma atomic_with_field [op_fail]: "(\<And>f. atomic (k f)) \<Longrightarrow> atomic (with_field ws i k)"
  by (auto simp: atomic_def with_field_def split: option.splits)

lemma atomic_field_repo [op_fail]:
  "atomic (fieldRepo_createDef row)" "atomic (fieldRepo_updateDef i data)" "atomic (fieldRepo_deleteDef i)"
  "atomic (fieldRepo_setValue i cid value)"
  by (auto simp: atomic_def fieldRepo_createDef_def fieldRepo_updateDef_def fieldRepo_deleteDef_def
      fieldRepo_setValue_def Let_def split: option.splits json.splits)

lemma atomic_field_service [op_fail]:
  "atomic (fieldService_createDef newId ws dto)" "atomic (fieldService_updateDef ws i udto)"
  "atomic (fieldService_deleteDef ws i)" "atomic (fieldService_setValue parses board ws cid i value)"
  unfolding fieldService_createDef_def fieldService_updateDef_def fieldService_deleteDef_def
    fieldService_setValue_def
  by (intro op_fail)+

section \<open>What the field tables hold\<close>

text \<open>A stored value has the type of its definition; select options may change later.\<close>

definition type_matches :: "(string \<Rightarrow> bool) \<Rightarrow> card_field_type \<Rightarrow> json \<Rightarrow> bool" where
  "type_matches parses ty v \<longleftrightarrow>
     (case ty of
        TextField \<Rightarrow> \<exists>t. v = JString t
      | NumberField \<Rightarrow> \<exists>q. v = JNumber (Finite q)
      | DateField \<Rightarrow> \<exists>t. v = JString t \<and> parses t
      | SelectField \<Rightarrow> \<exists>t. v = JString t
      | UserField \<Rightarrow> \<exists>t. v = JString t \<and> isUuidV4 t)"

lemma validated_type_matches:
  assumes "validateFieldValue parses ty options (Some v) = None" "v \<noteq> JNull"
  shows "type_matches parses ty v"
  using assms
  by (auto simp: validateFieldValue_def type_matches_def
      split: json.splits card_field_type.splits js_number.splits if_splits)

definition fields_ok :: "(string \<Rightarrow> bool) \<Rightarrow> db \<Rightarrow> bool" where
  "fields_ok parses s \<longleftrightarrow>
     unique_key fdId (fieldDefs s) \<and> unique_key (\<lambda>f. (fdWorkspaceId f, fdName f)) (fieldDefs s) \<and>
     unique_key (\<lambda>v. (fvFieldId v, fvCardId v)) (fieldValues s) \<and>
     (\<forall>v\<in>set (fieldValues s). \<exists>f\<in>set (fieldDefs s). fdId f = fvFieldId v \<and>
        type_matches parses (fdFieldType f) (fvValue v))"

lemma fields_ok_createDef:
  assumes "fields_ok parses s" "fieldRepo_createDef row s = (Inr r, s')"
  shows "fields_ok parses s'"
proof -
  from assms(2) have s': "s' = s\<lparr>fieldDefs := fieldDefs s @ [row]\<rparr>"
    and new: "fdId row \<notin> fdId ` set (fieldDefs s)" "\<not> field_name_taken (fdId row) (fdWorkspaceId row) (fdName row) s"
    by (auto simp: fieldRepo_createDef_def split: if_splits)
  have "(fdWorkspaceId row, fdName row) \<notin> (\<lambda>f. (fdWorkspaceId f, fdName f)) ` set (fieldDefs s)"
  proof
    assume "(fdWorkspaceId row, fdName row) \<in> (\<lambda>f. (fdWorkspaceId f, fdName f)) ` set (fieldDefs s)"
    then obtain f where "f \<in> set (fieldDefs s)" "fdWorkspaceId f = fdWorkspaceId row" "fdName f = fdName row"
      by auto
    moreover from this(1) new(1) have "fdId f \<noteq> fdId row" by (metis imageI)
    ultimately show False using new(2) by (auto simp: field_name_taken_def list_ex_iff)
  qed
  with assms(1) new s' show ?thesis by (auto simp: fields_ok_def unique_key_def)
qed

lemma fields_ok_deleteDef:
  assumes "fields_ok parses s" "fieldRepo_deleteDef i s = (Inr r, s')"
  shows "fields_ok parses s' \<and> (\<forall>v\<in>set (fieldValues s'). fvFieldId v \<noteq> i)"
proof -
  from assms(2) have s': "s' = s\<lparr>fieldDefs := filter (\<lambda>f. fdId f \<noteq> i) (fieldDefs s),
      fieldValues := filter (\<lambda>v. fvFieldId v \<noteq> i) (fieldValues s)\<rparr>"
    by (auto simp: fieldRepo_deleteDef_def delete_by_Some_iff split: option.splits)
  with assms(1) show ?thesis by (fastforce simp: fields_ok_def intro!: unique_key_filter)
qed

lemma distinct_map_update:
  assumes "unique_key key rows" "unique_key h rows" "\<And>x. x \<in> set rows \<Longrightarrow> key x = i \<Longrightarrow>
      \<forall>y\<in>set rows. key y \<noteq> i \<longrightarrow> h y \<noteq> h (f x)"
  shows "unique_key h (map (\<lambda>x. if key x = i then f x else x) rows)"
  using assms
proof (induction rows)
  case Nil
  then show ?case by simp
next
  case (Cons a rows)
  have tail: "unique_key h (map (\<lambda>x. if key x = i then f x else x) rows)"
    using Cons by (auto simp: unique_key_def)
  have "h (if key a = i then f a else a) \<noteq> h (if key y = i then f y else y)" if y: "y \<in> set rows" for y
  proof -
    have "key a \<noteq> key y" "h a \<noteq> h y" using Cons.prems(1,2) y by (auto simp: unique_key_def)
    then show ?thesis using Cons.prems(3) [of a] Cons.prems(3) [of y] y by (auto split: if_splits)
  qed
  with tail show ?case by (fastforce simp: unique_key_def)
qed

lemma fields_ok_updateDef:
  assumes "fields_ok parses s" "fieldRepo_updateDef i (field_patch dto) s = (Inr r, s')"
  shows "fields_ok parses s'"
proof -
  let ?f = "\<lambda>x. if fdId x = i then field_patch dto x else x"
  from assms(2) obtain f0 where f0: "find (\<lambda>x. fdId x = i) (fieldDefs s) = Some f0"
    and free: "\<not> field_name_taken i (fdWorkspaceId (field_patch dto f0)) (fdName (field_patch dto f0)) s"
    and s': "s' = s\<lparr>fieldDefs := map ?f (fieldDefs s)\<rparr>"
    by (auto simp: fieldRepo_updateDef_def update_by_def split: option.splits if_splits)
  have uid: "unique_key fdId (fieldDefs s)" using assms(1) by (simp add: fields_ok_def)
  have only: "x = f0" if "x \<in> set (fieldDefs s)" "fdId x = i" for x
    using that uid f0 by (auto dest!: find_SomeD intro: unique_keyD)
  have keep: "fdId (field_patch dto x) = fdId x" "fdFieldType (field_patch dto x) = fdFieldType x" for x
    by (simp_all add: field_patch_def)
  have "unique_key (\<lambda>f. (fdWorkspaceId f, fdName f)) (map ?f (fieldDefs s))"
    by (rule distinct_map_update [OF uid])
       (use assms(1) free only in \<open>auto simp: fields_ok_def field_name_taken_def list_ex_iff\<close>)
  moreover have "unique_key fdId (map ?f (fieldDefs s))"
    using uid by (subst unique_key_map) (simp_all add: keep)
  moreover have "\<exists>f\<in>set (map ?f (fieldDefs s)). fdId f = fvFieldId v \<and> type_matches parses (fdFieldType f) (fvValue v)"
    if v: "v \<in> set (fieldValues s)" for v
  proof -
    from assms(1) v obtain f where "f \<in> set (fieldDefs s)" "fdId f = fvFieldId v"
      "type_matches parses (fdFieldType f) (fvValue v)" by (auto simp: fields_ok_def)
    then show ?thesis by (intro bexI [of _ "?f f"]) (auto simp: keep)
  qed
  ultimately show ?thesis using assms(1) s' by (simp add: fields_ok_def)
qed

lemma fieldRepo_setValue_value:
  "v \<noteq> JNull \<Longrightarrow> fieldRepo_setValue i cid (Some v) s =
     (case update_by (\<lambda>x. (fvFieldId x, fvCardId x)) (i, cid) (\<lambda>x. x\<lparr>fvValue := v\<rparr>) (fieldValues s) of
        Some (r, rows) \<Rightarrow> (Inr r, s\<lparr>fieldValues := rows\<rparr>)
      | None \<Rightarrow> let row = \<lparr>fvFieldId = i, fvCardId = cid, fvValue = v\<rparr>
          in (Inr row, s\<lparr>fieldValues := fieldValues s @ [row]\<rparr>))"
  unfolding fieldRepo_setValue_def Let_def by (cases v) auto

lemma fieldRepo_setValue_cases:
  assumes "fieldRepo_setValue i cid (Some v) s = (Inr r, s')" "v \<noteq> JNull"
  shows "s' = s\<lparr>fieldValues := map (\<lambda>x. if (fvFieldId x, fvCardId x) = (i, cid) then x\<lparr>fvValue := v\<rparr> else x)
           (fieldValues s)\<rparr> \<or>
    (s' = s\<lparr>fieldValues := fieldValues s @ [\<lparr>fvFieldId = i, fvCardId = cid, fvValue = v\<rparr>]\<rparr> \<and>
     (\<forall>x\<in>set (fieldValues s). (fvFieldId x, fvCardId x) \<noteq> (i, cid)))"
proof (cases "update_by (\<lambda>x. (fvFieldId x, fvCardId x)) (i, cid) (\<lambda>x. x\<lparr>fvValue := v\<rparr>) (fieldValues s)")
  case None
  with assms show ?thesis by (auto simp: fieldRepo_setValue_value Let_def update_by_None_iff)
next
  case (Some a)
  with assms show ?thesis by (cases a) (auto simp: fieldRepo_setValue_value update_by_Some_iff)
qed

lemma fields_ok_setValue:
  assumes "fields_ok parses s" "fieldRepo_setValue i cid value s = (Inr r, s')"
    and "f \<in> set (fieldDefs s)" "fdId f = i" "validateFieldValue parses (fdFieldType f) (fdOptions f) value = None"
  shows "fields_ok parses s'"
proof -
  from assms(2) obtain v where v: "value = Some v" "v \<noteq> JNull"
    by (auto simp: fieldRepo_setValue_def split: option.splits json.splits)
  have ty: "type_matches parses (fdFieldType f) v"
    using validated_type_matches assms(5) v by blast
  let ?f = "\<lambda>x. if (fvFieldId x, fvCardId x) = (i, cid) then x\<lparr>fvValue := v\<rparr> else x"
  from fieldRepo_setValue_cases [OF assms(2) [unfolded v(1)] v(2)] consider
    "s' = s\<lparr>fieldValues := map ?f (fieldValues s)\<rparr>"
  | "s' = s\<lparr>fieldValues := fieldValues s @ [\<lparr>fvFieldId = i, fvCardId = cid, fvValue = v\<rparr>]\<rparr>"
    "\<forall>x\<in>set (fieldValues s). (fvFieldId x, fvCardId x) \<noteq> (i, cid)"
    by (elim disjE conjE)
  then show ?thesis
  proof cases
    case 1
    have "unique_key (\<lambda>v. (fvFieldId v, fvCardId v)) (map ?f (fieldValues s))"
      using assms(1) by (subst unique_key_map) (auto simp: fields_ok_def)
    moreover have "\<exists>g\<in>set (fieldDefs s). fdId g = fvFieldId x \<and> type_matches parses (fdFieldType g) (fvValue x)"
      if x: "x \<in> set (map ?f (fieldValues s))" for x
    proof -
      from x obtain x0 where x0: "x0 \<in> set (fieldValues s)" "x = ?f x0" by auto
      show ?thesis
      proof (cases "(fvFieldId x0, fvCardId x0) = (i, cid)")
        case True
        with x0(2) have "fvFieldId x = fdId f" "fvValue x = v" using assms(4) by simp_all
        with assms(3) ty show ?thesis by auto
      next
        case False
        with x0(2) have "x = x0" by auto
        with x0(1) assms(1) show ?thesis by (simp add: fields_ok_def)
      qed
    qed
    ultimately show ?thesis using assms(1) 1 by (simp add: fields_ok_def)
  next
    case 2
    then show ?thesis using assms(1,3,4) ty by (auto simp: fields_ok_def unique_key_def)
  qed
qed

lemma setValue_service_ok:
  assumes "fields_ok parses s" "fieldService_setValue parses board ws cid i value s = (Inr r, s')"
  shows "fields_ok parses s'"
proof -
  from assms(2) obtain f where f: "fieldRepo_findDefById i s = Some f"
    and v: "validateFieldValue parses (fdFieldType f) (fdOptions f) value = None"
    and run: "fieldRepo_setValue i cid value s = (Inr r, s')"
    by (auto simp: fieldService_setValue_def assertBoardInWorkspace_Inr_iff with_field_Inr_iff
        split: option.splits if_splits)
  from f have "f \<in> set (fieldDefs s)" "fdId f = i" by (auto simp: fieldRepo_findDefById_def dest!: find_SomeD)
  from fields_ok_setValue [OF assms(1) run this v] show ?thesis .
qed

end
