(* ===== verification/Comments.thy ===== *)
theory Comments
  imports Card_Effects Text_Formats
begin

text \<open>
  Card comments: \<open>CardCommentRepository\<close> (\<open>comment/repositories/comment.repository.ts\<close>) and
  \<open>CardCommentService\<close> (\<open>comment/services/comment.service.ts\<close>). Replies are one level deep;
  \<open>threads_ok\<close> is that invariant. Only the author changes or removes a comment. The markup
  stripping of the data-transfer object happens before the service and is not part of it.
\<close>

section \<open>CardCommentRepository\<close>

record comment_details =
  cmRow :: comment_row
  cmAuthor :: "user_profile option"

definition with_author :: "db \<Rightarrow> comment_row \<Rightarrow> comment_details" where
  "with_author s c = \<lparr>cmRow = c, cmAuthor = user_profile_of (cmtAuthorId c) s\<rparr>"

definition commentRepo_create :: "comment_row \<Rightarrow> db \<Rightarrow> comment_details outcome" where
  [op_defs]: "commentRepo_create row s =
     or_conflict (insert_row cmtId row (comments s))
       (\<lambda>rows s. (Inr (with_author s row), s\<lparr>comments := rows\<rparr>)) s"

definition find_active_comment :: "uuid \<Rightarrow> uuid option \<Rightarrow> db \<Rightarrow> comment_row option" where
  "find_active_comment i cid s =
     find (\<lambda>c. cmtId c = i \<and> cmtDeletedAt c = None \<and> in_scope cid (cmtCardId c)) (comments s)"

definition commentRepo_findActiveById :: "uuid \<Rightarrow> uuid option \<Rightarrow> db \<Rightarrow> comment_details option" where
  "commentRepo_findActiveById i cid s = map_option (with_author s) (find_active_comment i cid s)"

definition active_comments :: "uuid \<Rightarrow> db \<Rightarrow> comment_row list" where
  "active_comments cid s =
     order_desc (\<lambda>c. (cmtCreatedAt c, cmtId c))
       (filter (\<lambda>c. cmtCardId c = cid \<and> cmtDeletedAt c = None) (comments s))"

definition commentRepo_findCardCommentsPage ::
  "comment_details cursor_seek \<Rightarrow> uuid \<Rightarrow> uuid option \<Rightarrow> nat \<Rightarrow> db \<Rightarrow> error + comment_details list" where
  "commentRepo_findCardCommentsPage after cid cursor limit s =
     take_page_or_first after cursor (Suc limit) (map (with_author s) (active_comments cid s))"

definition commentRepo_update :: "instant \<Rightarrow> uuid \<Rightarrow> string \<Rightarrow> db \<Rightarrow> comment_details outcome" where
  [op_defs]: "commentRepo_update now i content s =
     or_missing (update_by cmtId i (\<lambda>c. c\<lparr>cmtContent := content, cmtUpdatedAt := now\<rparr>) (comments s))
       (\<lambda>(row, rows) s. (Inr (with_author s row), s\<lparr>comments := rows\<rparr>)) s"

definition commentRepo_softDelete :: "instant \<Rightarrow> uuid \<Rightarrow> db \<Rightarrow> unit outcome" where
  [op_defs]: "commentRepo_softDelete now i s =
     or_missing (update_by cmtId i (\<lambda>c. c\<lparr>cmtDeletedAt := Some now, cmtUpdatedAt := now\<rparr>) (comments s))
       (\<lambda>(row, rows) s. (Inr (), s\<lparr>comments := rows\<rparr>)) s"

definition commentRepo_findRepliesByParentId :: "uuid \<Rightarrow> db \<Rightarrow> comment_details list" where
  "commentRepo_findRepliesByParentId parent s =
     map (with_author s)
       (order_asc cmtCreatedAt
         (filter (\<lambda>c. cmtParentCommentId c = Some parent \<and> cmtDeletedAt c = None) (comments s)))"

section \<open>CardCommentService\<close>

definition new_comment :: "uuid \<Rightarrow> instant \<Rightarrow> uuid \<Rightarrow> string \<Rightarrow> uuid option \<Rightarrow> uuid \<Rightarrow> comment_row" where
  "new_comment newId now cid content parent user =
     \<lparr>cmtId = newId, cmtCardId = cid, cmtAuthorId = user, cmtContent = content,
      cmtParentCommentId = parent, cmtCreatedAt = now, cmtUpdatedAt = now, cmtDeletedAt = None\<rparr>"

definition check_reply :: "uuid \<Rightarrow> uuid option \<Rightarrow> db \<Rightarrow> error option" where
  "check_reply cid parent s =
     (if truthy parent then
        (case commentRepo_findActiveById (the parent) (Some cid) s of
           None \<Rightarrow> Some (EntityNotFound ''CardComment'' (the parent))
         | Some p \<Rightarrow> if truthy (cmtParentCommentId (cmRow p)) then Some (BusinessRule ''MAX_THREAD_DEPTH'')
                     else None)
      else None)"

definition commentService_create ::
  "uuid \<Rightarrow> instant \<Rightarrow> uuid \<Rightarrow> uuid \<Rightarrow> uuid \<Rightarrow> string \<Rightarrow> uuid option \<Rightarrow> uuid \<Rightarrow> db \<Rightarrow> comment_details outcome" where
  [op_defs]: "commentService_create newId now board ws cid content parent user =
     with_card board ws cid (\<lambda>d s.
       case check_reply cid parent s of
         Some e \<Rightarrow> (Inl e, s)
       | None \<Rightarrow>
           await (commentRepo_create (new_comment newId now cid content parent user) s)
             (\<lambda>c s. (Inr c, emit (CommentCreated (cmRow c) board user (parseMentionedEmails content)) s)))"

definition commentService_getCardComments ::
  "comment_details cursor_seek \<Rightarrow> uuid \<Rightarrow> uuid \<Rightarrow> uuid \<Rightarrow> uuid option \<Rightarrow> nat option \<Rightarrow> db \<Rightarrow>
   comment_details page outcome" where
  [op_defs]: "commentService_getCardComments after board ws cid cursor limit =
     with_card board ws cid (\<lambda>d s.
       let lim = (case limit of None \<Rightarrow> 20 | Some n \<Rightarrow> n)
       in case commentRepo_findCardCommentsPage after cid cursor lim s of
            Inl e \<Rightarrow> (Inl e, s)
          | Inr rows \<Rightarrow> (Inr (buildCursorPagination (\<lambda>c. cmtId (cmRow c)) rows lim), s))"

text \<open>The comment of the card, for its author only.\<close>

definition with_own_comment ::
  "uuid \<Rightarrow> uuid \<Rightarrow> uuid \<Rightarrow> (comment_details \<Rightarrow> db \<Rightarrow> 'a outcome) \<Rightarrow> db \<Rightarrow> 'a outcome" where
  "with_own_comment i cid user k s =
     (case commentRepo_findActiveById i (Some cid) s of
        None \<Rightarrow> (Inl (EntityNotFound ''CardComment'' i), s)
      | Some c \<Rightarrow> if cmtAuthorId (cmRow c) \<noteq> user then (Inl (Forbidden ''FORBIDDEN''), s) else k c s)"

definition commentService_update ::
  "instant \<Rightarrow> uuid \<Rightarrow> uuid \<Rightarrow> uuid \<Rightarrow> uuid \<Rightarrow> string option \<Rightarrow> uuid \<Rightarrow> db \<Rightarrow> comment_details outcome" where
  [op_defs]: "commentService_update now board ws cid i content user =
     with_card board ws cid (\<lambda>d. with_own_comment i cid user (\<lambda>c s.
       await (commentRepo_update now i (or_keep content (cmtContent (cmRow c))) s)
         (\<lambda>updated s. (Inr updated, emit (CommentUpdated (cmRow updated) board user) s))))"

definition commentService_delete ::
  "instant \<Rightarrow> uuid \<Rightarrow> uuid \<Rightarrow> uuid \<Rightarrow> uuid \<Rightarrow> uuid \<Rightarrow> db \<Rightarrow> unit outcome" where
  [op_defs]: "commentService_delete now board ws cid i user =
     with_card board ws cid (\<lambda>d. with_own_comment i cid user (\<lambda>c s.
       await (commentRepo_softDelete now i s)
         (\<lambda>_ s. (Inr (), emit (CommentDeleted i cid board user) s))))"

definition commentService_listThread ::
  "uuid \<Rightarrow> uuid \<Rightarrow> uuid \<Rightarrow> uuid \<Rightarrow> db \<Rightarrow> (comment_details \<times> comment_details list) outcome" where
  [op_defs]: "commentService_listThread board ws cid i =
     with_card board ws cid (\<lambda>d s.
       case commentRepo_findActiveById i (Some cid) s of
         None \<Rightarrow> (Inl (EntityNotFound ''CardComment'' i), s)
       | Some parent \<Rightarrow> (Inr (parent, commentRepo_findRepliesByParentId i s), s))"

section \<open>Effects\<close>

lemma cmRow_with_author [simp]: "cmRow (with_author s c) = c"
  by (simp add: with_author_def)

lemma find_active_comment_SomeD:
  assumes "find_active_comment i cid s = Some c"
  shows "c \<in> set (comments s)" "cmtId c = i" "cmtDeletedAt c = None" "in_scope cid (cmtCardId c)"
  using assms by (auto simp: find_active_comment_def dest!: find_SomeD)

lemma with_own_comment_Inr_iff:
  "with_own_comment i cid user k s = (Inr y, s') \<longleftrightarrow>
     (\<exists>c. find_active_comment i (Some cid) s = Some c \<and> cmtAuthorId c = user \<and>
          k (with_author s c) s = (Inr y, s'))"
  by (auto simp: with_own_comment_def commentRepo_findActiveById_def split: option.splits if_splits)

lemma atomic_with_own_comment [op_fail]: "(\<And>c. atomic (k c)) \<Longrightarrow> atomic (with_own_comment i cid user k)"
  by (auto simp: atomic_def with_own_comment_def split: option.splits)

lemma atomic_comment_repo [op_fail]:
  "atomic (commentRepo_create row)" "atomic (commentRepo_update now i content)"
  "atomic (commentRepo_softDelete now i)"
  by (auto simp: atomic_def commentRepo_create_def commentRepo_update_def commentRepo_softDelete_def
      or_conflict_def or_missing_def split: option.splits)

lemma atomic_comment_service [op_fail]:
  "atomic (commentService_create newId now board ws cid content parent user)"
  "atomic (commentService_update now board ws cid i content' user)"
  "atomic (commentService_delete now board ws cid i user)"
  unfolding commentService_create_def commentService_update_def commentService_delete_def
  by (intro op_fail)+

lemma comment_create_Inr_iff:
  "commentService_create newId now board ws cid content parent user s = (Inr d, s') \<longleftrightarrow>
     (\<exists>b c. boardRepo_findById board (Some ws) s = Some b \<and> find_active_card cid (Some board) s = Some c) \<and>
     check_reply cid parent s = None \<and> newId \<notin> cmtId ` set (comments s) \<and>
     d = with_author s (new_comment newId now cid content parent user) \<and>
     s' = emit (CommentCreated (cmRow d) board user (parseMentionedEmails content))
       (s\<lparr>comments := comments s @ [new_comment newId now cid content parent user]\<rparr>)"
  by (auto simp: commentService_create_def with_card_Inr_iff await_Inr_iff commentRepo_create_def
      or_conflict_Inr_iff insert_row_Some_iff new_comment_def split: option.splits)

lemma comment_update_Inr:
  assumes "commentService_update now board ws cid i content user s = (Inr d, s')"
  shows "\<exists>c. find_active_comment i (Some cid) s = Some c \<and> cmtAuthorId c = user \<and>
    comments s' = map (\<lambda>x. if cmtId x = i then x\<lparr>cmtContent := or_keep content (cmtContent c),
      cmtUpdatedAt := now\<rparr> else x) (comments s)"
  using assms
  by (auto simp: commentService_update_def with_card_Inr_iff with_own_comment_Inr_iff await_Inr_iff
      commentRepo_update_def or_missing_Inr_iff update_by_Some_iff)

lemma comment_delete_Inr:
  assumes "commentService_delete now board ws cid i user s = (Inr d, s')"
  shows "\<exists>c. find_active_comment i (Some cid) s = Some c \<and> cmtAuthorId c = user \<and>
    comments s' = map (\<lambda>x. if cmtId x = i then x\<lparr>cmtDeletedAt := Some now, cmtUpdatedAt := now\<rparr> else x)
      (comments s)"
  using assms
  by (auto simp: commentService_delete_def with_card_Inr_iff with_own_comment_Inr_iff await_Inr_iff
      commentRepo_softDelete_def or_missing_Inr_iff update_by_Some_iff)

section \<open>Threads\<close>

text \<open>
  A reply hangs under a comment of the same card that is itself no reply. Ids are unique and not
  empty, and a parent is never empty either.
\<close>

definition threads_ok :: "comment_row list \<Rightarrow> bool" where
  "threads_ok cs \<longleftrightarrow> unique_key cmtId cs \<and>
     (\<forall>c\<in>set cs. \<forall>p. cmtParentCommentId c = Some p \<longrightarrow> p \<noteq> [] \<longrightarrow>
        (\<exists>q\<in>set cs. cmtId q = p \<and> cmtCardId q = cmtCardId c \<and> \<not> truthy (cmtParentCommentId q)))"

lemma threads_ok_map:
  assumes "threads_ok cs" "\<And>c. cmtId (f c) = cmtId c \<and> cmtCardId (f c) = cmtCardId c \<and>
    cmtParentCommentId (f c) = cmtParentCommentId c"
  shows "threads_ok (map f cs)"
proof -
  have "unique_key cmtId (map f cs)" using assms by (simp add: threads_ok_def unique_key_map)
  moreover have "\<exists>q\<in>set (map f cs). cmtId q = p \<and> cmtCardId q = cmtCardId c \<and> \<not> truthy (cmtParentCommentId q)"
    if c: "c \<in> set (map f cs)" and p: "cmtParentCommentId c = Some p" "p \<noteq> []" for c p
  proof -
    from c obtain c0 where c0: "c0 \<in> set cs" "c = f c0" by auto
    with p assms(2) have "cmtParentCommentId c0 = Some p" by simp
    with assms(1) c0(1) p(2) obtain q where "q \<in> set cs" "cmtId q = p" "cmtCardId q = cmtCardId c0"
      "\<not> truthy (cmtParentCommentId q)" unfolding threads_ok_def by blast
    then show ?thesis using assms(2) c0(2) by (intro bexI [of _ "f q"]) auto
  qed
  ultimately show ?thesis by (simp add: threads_ok_def)
qed

lemma threads_ok_update: "threads_ok cs \<Longrightarrow>
    threads_ok (map (\<lambda>x. if cmtId x = i then x\<lparr>cmtContent := t, cmtUpdatedAt := now\<rparr> else x) cs)"
  by (rule threads_ok_map) simp_all

lemma threads_ok_delete: "threads_ok cs \<Longrightarrow>
    threads_ok (map (\<lambda>x. if cmtId x = i then x\<lparr>cmtDeletedAt := d, cmtUpdatedAt := now\<rparr> else x) cs)"
  by (rule threads_ok_map) simp_all

lemma threads_ok_create:
  assumes "threads_ok (comments s)" "check_reply cid parent s = None" "newId \<notin> cmtId ` set (comments s)"
    and "cid \<noteq> []"
  shows "threads_ok (comments s @ [new_comment newId now cid content parent user])"
proof -
  let ?row = "new_comment newId now cid content parent user"
  have "\<exists>q\<in>set (comments s). cmtId q = p \<and> cmtCardId q = cid \<and> \<not> truthy (cmtParentCommentId q)"
    if "parent = Some p" "p \<noteq> []" for p
  proof -
    from assms(2) that obtain q where q: "find_active_comment p (Some cid) s = Some q"
      "\<not> truthy (cmtParentCommentId q)"
      by (auto simp: check_reply_def commentRepo_findActiveById_def split: option.splits if_splits)
    from find_active_comment_SomeD [OF q(1)] q(2) assms(4) show ?thesis by (auto simp: in_scope_Some)
  qed
  moreover have "unique_key cmtId (comments s @ [?row])"
    using assms(1,3) by (auto simp: threads_ok_def unique_key_def new_comment_def)
  ultimately show ?thesis using assms(1) unfolding threads_ok_def
    by (auto simp: new_comment_def)
qed

end
