(* ===== verification/Labels.thy ===== *)
theory Labels
  imports Card_Effects
begin

text \<open>
  Labels: \<open>LabelRepository\<close> (\<open>label/repositories/label.repository.ts\<close>) and \<open>LabelService\<close>
  (\<open>label/services/label.service.ts\<close>). A label belongs to a workspace; attaching it to a card is
  a row of the join table, which deleting the label removes by cascade.
\<close>

section \<open>LabelRepository\<close>

record create_label_dto =
  clName :: "string option"
  clColor :: string
  clOnCardId :: "uuid option"

record update_label_dto =
  ulName :: "string patch"
  ulColor :: "string option"

definition new_label :: "uuid \<Rightarrow> instant \<Rightarrow> uuid \<Rightarrow> create_label_dto \<Rightarrow> label_row" where
  "new_label newId now ws dto =
     \<lparr>labelId = newId, labelWorkspaceId = ws, labelName = clName dto, labelColor = clColor dto,
      labelCreatedAt = now\<rparr>"

definition labelRepo_createWithCard :: "label_row \<Rightarrow> uuid option \<Rightarrow> db \<Rightarrow> label_row outcome" where
  [op_defs]: "labelRepo_createWithCard row cid s =
     or_conflict (insert_row labelId row (labels s))
       (\<lambda>lrows s.
          if \<not> truthy cid then (Inr row, s\<lparr>labels := lrows\<rparr>)
          else or_conflict (insert_row (\<lambda>x. (clCardId x, clLabelId x))
                              \<lparr>clCardId = the cid, clLabelId = labelId row\<rparr> (cardLabels s))
                 (\<lambda>jrows s. (Inr row, s\<lparr>labels := lrows, cardLabels := jrows\<rparr>)) s) s"

definition labelRepo_findAvailableLabels :: "uuid \<Rightarrow> db \<Rightarrow> label_row list" where
  "labelRepo_findAvailableLabels ws s =
     order_asc labelCreatedAt (filter (\<lambda>l. labelWorkspaceId l = ws) (labels s))"

definition labelRepo_update :: "uuid \<Rightarrow> (label_row \<Rightarrow> label_row) \<Rightarrow> db \<Rightarrow> label_row outcome" where
  [op_defs]: "labelRepo_update i data s =
     or_missing (update_by labelId i data (labels s)) (\<lambda>(row, rows) s. (Inr row, s\<lparr>labels := rows\<rparr>)) s"

text \<open>Active cards in active lists of active boards of the workspace that carry the label.\<close>

definition labelRepo_findCardsForLabel ::
  "uuid \<Rightarrow> uuid \<Rightarrow> db \<Rightarrow> (card_details \<times> list_row option) list" where
  "labelRepo_findCardsForLabel i ws s =
     map (\<lambda>c. (with_details s c, find (\<lambda>l. listId l = cardListId c) (lists s)))
       (order_desc cardCreatedAt
         (filter (\<lambda>c. list_ex (\<lambda>x. clCardId x = cardId c \<and> clLabelId x = i) (cardLabels s) \<and>
            list_ex (\<lambda>l. listId l = cardListId c \<and> listDeletedAt l = None \<and> listArchivedAt l = None \<and>
               list_ex (\<lambda>b. boardId b = listBoardId l \<and> boardWorkspaceId b = ws \<and>
                            boardDeletedAt b = None \<and> boardArchivedAt b = None) (boards s)) (lists s) \<and>
            cardDeletedAt c = None \<and> cardArchivedAt c = None) (cards s)))"

definition labelRepo_delete :: "uuid \<Rightarrow> db \<Rightarrow> unit outcome" where
  [op_defs]: "labelRepo_delete i s =
     or_missing (delete_by labelId i (labels s))
       (\<lambda>(row, rows) s. (Inr (), s\<lparr>labels := rows,
            cardLabels := filter (\<lambda>x. clLabelId x \<noteq> i) (cardLabels s)\<rparr>)) s"

section \<open>LabelService\<close>

definition labelService_createLabel ::
  "uuid \<Rightarrow> instant \<Rightarrow> uuid \<Rightarrow> uuid \<Rightarrow> create_label_dto \<Rightarrow> db \<Rightarrow> label_row outcome" where
  [op_defs]: "labelService_createLabel newId now board ws dto =
     assertBoardInWorkspace board (Some ws)
       (labelRepo_createWithCard (new_label newId now ws dto) (clOnCardId dto))"

definition labelService_createWorkspaceLabel ::
  "uuid \<Rightarrow> instant \<Rightarrow> uuid \<Rightarrow> create_label_dto \<Rightarrow> db \<Rightarrow> label_row outcome" where
  [op_defs]: "labelService_createWorkspaceLabel newId now ws dto =
     labelRepo_createWithCard (new_label newId now ws dto) (clOnCardId dto)"

definition labelService_getLabelsForBoard :: "uuid \<Rightarrow> uuid \<Rightarrow> db \<Rightarrow> label_row list outcome" where
  [op_defs]: "labelService_getLabelsForBoard board ws =
     assertBoardInWorkspace board (Some ws) (\<lambda>s. (Inr (labelRepo_findAvailableLabels ws s), s))"

definition labelService_getWorkspaceLabels :: "uuid \<Rightarrow> db \<Rightarrow> label_row list" where
  "labelService_getWorkspaceLabels ws s = labelRepo_findAvailableLabels ws s"

text \<open>The label must exist in the workspace, or the operation answers that there is none.\<close>

definition with_label :: "uuid \<Rightarrow> uuid \<Rightarrow> (db \<Rightarrow> 'a outcome) \<Rightarrow> db \<Rightarrow> 'a outcome" where
  "with_label ws i k s =
     (if \<not> label_in_workspace ws i s then (Inl (EntityNotFound ''Label'' i), s) else k s)"

definition labelService_getCardsForLabel ::
  "uuid \<Rightarrow> uuid \<Rightarrow> db \<Rightarrow> (card_details \<times> list_row option) list outcome" where
  [op_defs]: "labelService_getCardsForLabel ws i =
     with_label ws i (\<lambda>s. (Inr (labelRepo_findCardsForLabel i ws s), s))"

definition label_patch :: "update_label_dto \<Rightarrow> label_row \<Rightarrow> label_row" where
  "label_patch dto l = l\<lparr>labelName := apply_patch (ulName dto) (labelName l),
                         labelColor := or_keep (ulColor dto) (labelColor l)\<rparr>"

definition labelService_updateWorkspaceLabel :: "uuid \<Rightarrow> uuid \<Rightarrow> update_label_dto \<Rightarrow> db \<Rightarrow> label_row outcome" where
  [op_defs]: "labelService_updateWorkspaceLabel ws i dto =
     with_label ws i (labelRepo_update i (label_patch dto))"

definition labelService_updateLabel ::
  "uuid \<Rightarrow> uuid \<Rightarrow> uuid \<Rightarrow> update_label_dto \<Rightarrow> db \<Rightarrow> label_row outcome" where
  [op_defs]: "labelService_updateLabel board ws i dto =
     assertBoardInWorkspace board (Some ws) (with_label ws i (labelRepo_update i (label_patch dto)))"

definition labelService_deleteWorkspaceLabel :: "uuid \<Rightarrow> uuid \<Rightarrow> db \<Rightarrow> unit outcome" where
  [op_defs]: "labelService_deleteWorkspaceLabel ws i = with_label ws i (labelRepo_delete i)"

definition labelService_deleteLabel :: "uuid \<Rightarrow> uuid \<Rightarrow> uuid \<Rightarrow> db \<Rightarrow> unit outcome" where
  [op_defs]: "labelService_deleteLabel board ws i =
     assertBoardInWorkspace board (Some ws) (with_label ws i (labelRepo_delete i))"

section \<open>Effects\<close>

lemma with_label_Inr_iff:
  "with_label ws i k s = (Inr y, s') \<longleftrightarrow> label_in_workspace ws i s \<and> k s = (Inr y, s')"
  by (simp add: with_label_def)

lemma atomic_with_label [op_fail]: "atomic k \<Longrightarrow> atomic (with_label ws i k)"
  by (auto simp: atomic_def with_label_def)

lemma atomic_label_repo [op_fail]:
  "atomic (labelRepo_createWithCard row cid)" "atomic (labelRepo_update i data)" "atomic (labelRepo_delete i)"
  by (auto simp: atomic_def labelRepo_createWithCard_def labelRepo_update_def labelRepo_delete_def
      or_conflict_def or_missing_def split: option.splits if_splits)

lemma atomic_label_service [op_fail]:
  "atomic (labelService_createLabel newId now board ws dto)"
  "atomic (labelService_createWorkspaceLabel newId now ws dto)"
  "atomic (labelService_updateLabel board ws i udto)"
  "atomic (labelService_updateWorkspaceLabel ws i udto)"
  "atomic (labelService_deleteLabel board ws i)"
  "atomic (labelService_deleteWorkspaceLabel ws i)"
  unfolding labelService_createLabel_def labelService_createWorkspaceLabel_def labelService_updateLabel_def
    labelService_updateWorkspaceLabel_def labelService_deleteLabel_def labelService_deleteWorkspaceLabel_def
  by (intro op_fail)+

lemma label_repo_frame:
  "cards (snd (labelRepo_createWithCard row cid s)) = cards s"
  "cards (snd (labelRepo_update i data s)) = cards s"
  "cards (snd (labelRepo_delete i s)) = cards s"
  "timeEntries (snd (labelRepo_createWithCard row cid s)) = timeEntries s"
  "timeEntries (snd (labelRepo_update i data s)) = timeEntries s"
  "timeEntries (snd (labelRepo_delete i s)) = timeEntries s"
  by (auto simp: labelRepo_createWithCard_def labelRepo_update_def labelRepo_delete_def
      or_conflict_def or_missing_def split: option.splits)

lemma labelRepo_delete_Inr_iff:
  "labelRepo_delete i s = (Inr u, s') \<longleftrightarrow>
     (\<exists>row. labelRepo_findById i s = Some row) \<and>
     s' = s\<lparr>labels := filter (\<lambda>l. labelId l \<noteq> i) (labels s),
            cardLabels := filter (\<lambda>x. clLabelId x \<noteq> i) (cardLabels s)\<rparr>"
  by (auto simp: labelRepo_delete_def or_missing_Inr_iff delete_by_Some_iff labelRepo_findById_def)

text \<open>Every join row points to a label: the foreign key of \<open>card_labels\<close>.\<close>

definition label_links_ok :: "db \<Rightarrow> bool" where
  "label_links_ok s \<longleftrightarrow> (\<forall>x\<in>set (cardLabels s). clLabelId x \<in> labelId ` set (labels s))"

lemma labelRepo_delete_links:
  assumes "label_links_ok s" "labelRepo_delete i s = (Inr u, s')"
  shows "label_links_ok s' \<and> labelRepo_findById i s' = None \<and>
    (\<forall>x\<in>set (cardLabels s'). clLabelId x \<noteq> i) \<and>
    (\<forall>x\<in>set (cardLabels s). clLabelId x \<noteq> i \<longrightarrow> x \<in> set (cardLabels s'))"
  using assms by (auto simp: labelRepo_delete_Inr_iff label_links_ok_def labelRepo_findById_def find_None_iff)

end
