(* ===== verification/Memberships.thy ===== *)
theory Memberships
  imports Workspaces "HOL-Library.AList"
begin

text \<open>
  Membership management: \<open>MembershipService\<close> (\<open>src/modules/workspace/services/membership.service.ts\<close>).
  Role changes, removals and departures first read the member table and decide, then write; nothing
  holds the table in between. The two halves are separate definitions, composed by the operations and
  interleaved in \<open>Ownership\<close>.
\<close>

section \<open>MembershipService\<close>

definition membershipService_requireWorkspace :: "uuid \<Rightarrow> db \<Rightarrow> error option" where
  "membershipService_requireWorkspace ws s =
     (case workspaceRepo_findById ws s of None \<Rightarrow> Some (EntityNotFound ''Workspace'' ws) | Some w \<Rightarrow> None)"

definition membershipService_getMembers ::
  "uuid \<Rightarrow> db \<Rightarrow> error + (member_row \<times> user_summary option) list" where
  "membershipService_getMembers ws s =
     (case membershipService_requireWorkspace ws s of
        Some e \<Rightarrow> Inl e | None \<Rightarrow> Inr (memberRepo_findMembersWithUser ws s))"

text \<open>The role of the acting user in the workspace, when an actor is given.\<close>

definition actor_role :: "uuid \<Rightarrow> uuid option \<Rightarrow> db \<Rightarrow> workspace_role option" where
  "actor_role ws actor s =
     (if truthy actor then map_option memRole (memberRepo_findMember ws (the actor) s) else None)"

text \<open>An owner who loses the role or the membership hands the workspace row to another owner.\<close>

definition hand_over :: "uuid \<Rightarrow> uuid \<Rightarrow> db \<Rightarrow> unit outcome" where
  [op_defs]: "hand_over ws user s =
     (case workspaceRepo_findById ws s of
        None \<Rightarrow> (Inr (), s)
      | Some w \<Rightarrow>
          if wsOwnerId w \<noteq> user then (Inr (), s)
          else (case memberRepo_findOtherOwner ws user s of
                  None \<Rightarrow> (Inr (), s)
                | Some next \<Rightarrow>
                    await (workspaceRepo_update ws (\<lambda>w. w\<lparr>wsOwnerId := memUserId next\<rparr>) s)
                      (\<lambda>_ s. (Inr (), s))))"

definition role_change_check :: "uuid \<Rightarrow> uuid \<Rightarrow> workspace_role \<Rightarrow> uuid option \<Rightarrow> db \<Rightarrow> error + member_row" where
  "role_change_check ws i role actor s =
     (case memberRepo_findMemberById i s of
        None \<Rightarrow> Inl (EntityNotFound ''WorkspaceMember'' i)
      | Some m \<Rightarrow>
          if memWorkspaceId m \<noteq> ws then Inl (EntityNotFound ''WorkspaceMember'' i)
          else if actor_role ws actor s = Some Admin \<and> memRole m = Owner then
            Inl (Forbidden ''Admins cannot modify the role of a workspace owner'')
          else if actor_role ws actor s = Some Admin \<and> role = Owner then
            Inl (Forbidden ''Only workspace owners can promote members to owner'')
          else if memRole m = Owner \<and> role \<noteq> Owner \<and> memberRepo_countOwners ws s \<le> 1 then
            Inl (BusinessRule ''CANNOT_REMOVE_OWNER'')
          else Inr m)"

definition role_change_commit :: "uuid \<Rightarrow> member_row \<Rightarrow> workspace_role \<Rightarrow> db \<Rightarrow> member_row outcome" where
  [op_defs]: "role_change_commit ws m role s =
     await (if memRole m = Owner \<and> role \<noteq> Owner then hand_over ws (memUserId m) s else (Inr (), s))
       (\<lambda>_ s. await (memberRepo_updateRole (memId m) role s)
          (\<lambda>updated s. (Inr updated, emit (MemberRoleChanged ws (memUserId m) (memRole m) role) s)))"

definition membershipService_updateMemberRole ::
  "uuid \<Rightarrow> uuid \<Rightarrow> workspace_role \<Rightarrow> uuid option \<Rightarrow> db \<Rightarrow> member_row outcome" where
  [op_defs]: "membershipService_updateMemberRole ws i role actor s =
     (case role_change_check ws i role actor s of
        Inl e \<Rightarrow> (Inl e, s) | Inr m \<Rightarrow> role_change_commit ws m role s)"

definition removal_check :: "uuid \<Rightarrow> uuid \<Rightarrow> uuid option \<Rightarrow> db \<Rightarrow> error + member_row" where
  "removal_check ws i actor s =
     (case memberRepo_findMemberById i s of
        None \<Rightarrow> Inl (EntityNotFound ''WorkspaceMember'' i)
      | Some m \<Rightarrow>
          if memWorkspaceId m \<noteq> ws then Inl (EntityNotFound ''WorkspaceMember'' i)
          else if actor_role ws actor s = Some Admin \<and> memRole m = Owner then
            Inl (Forbidden ''Admins cannot remove a workspace owner'')
          else if memRole m = Owner \<and> memberRepo_countOwners ws s \<le> 1 then
            Inl (BusinessRule ''CANNOT_REMOVE_OWNER'')
          else Inr m)"

definition departure_check :: "uuid \<Rightarrow> uuid \<Rightarrow> db \<Rightarrow> error + member_row" where
  "departure_check ws user s =
     (case memberRepo_findMember ws user s of
        None \<Rightarrow> Inl (EntityNotFound ''WorkspaceMember'' user)
      | Some m \<Rightarrow>
          if memRole m = Owner \<and> memberRepo_countOwners ws s \<le> 1 then
            Inl (BusinessRule ''CANNOT_LEAVE_AS_SOLE_OWNER'')
          else Inr m)"

text \<open>Removal and departure write the same and differ in the event.\<close>

definition removal_commit :: "uuid \<Rightarrow> member_row \<Rightarrow> domain_event \<Rightarrow> db \<Rightarrow> unit outcome" where
  [op_defs]: "removal_commit ws m event s =
     await (if memRole m = Owner then hand_over ws (memUserId m) s else (Inr (), s))
       (\<lambda>_ s. await (memberRepo_removeMember (memId m) s) (\<lambda>_ s. (Inr (), emit event s)))"

definition membershipService_removeMember :: "uuid \<Rightarrow> uuid \<Rightarrow> uuid option \<Rightarrow> db \<Rightarrow> unit outcome" where
  [op_defs]: "membershipService_removeMember ws i actor s =
     (case removal_check ws i actor s of
        Inl e \<Rightarrow> (Inl e, s) | Inr m \<Rightarrow> removal_commit ws m (MemberRemoved ws (memUserId m)) s)"

definition membershipService_leaveWorkspace :: "uuid \<Rightarrow> uuid \<Rightarrow> db \<Rightarrow> unit outcome" where
  [op_defs]: "membershipService_leaveWorkspace ws user s =
     (case departure_check ws user s of
        Inl e \<Rightarrow> (Inl e, s) | Inr m \<Rightarrow> removal_commit ws m (MemberLeft ws user) s)"

text \<open>The three updates of the transfer run in one transaction: it rolls back when one of them fails.\<close>

definition transfer_transaction :: "uuid \<Rightarrow> uuid \<Rightarrow> uuid \<Rightarrow> uuid \<Rightarrow> db \<Rightarrow> member_row outcome" where
  [op_defs]: "transfer_transaction ws current target newOwner s =
     (case await (memberRepo_updateRole current Admin s)
             (\<lambda>_ s. await (memberRepo_updateRole target Owner s)
                (\<lambda>updated s. await (workspaceRepo_update ws (\<lambda>w. w\<lparr>wsOwnerId := newOwner\<rparr>) s)
                   (\<lambda>_ s. (Inr updated, s)))) of
        (Inl e, _) \<Rightarrow> (Inl e, s)
      | (Inr updated, s') \<Rightarrow> (Inr updated, s'))"

definition membershipService_transferOwnership :: "uuid \<Rightarrow> uuid \<Rightarrow> uuid \<Rightarrow> db \<Rightarrow> member_row outcome" where
  [op_defs]: "membershipService_transferOwnership ws current newOwner s =
     (case memberRepo_findMember ws current s of
        None \<Rightarrow> (Inl (Forbidden ''Only current workspace owner can transfer ownership''), s)
      | Some m \<Rightarrow>
          if memRole m \<noteq> Owner then (Inl (Forbidden ''Only current workspace owner can transfer ownership''), s)
          else (case memberRepo_findMember ws newOwner s of
                  None \<Rightarrow> (Inl (BusinessRule ''TARGET_NOT_MEMBER''), s)
                | Some t \<Rightarrow>
                    await (transfer_transaction ws (memId m) (memId t) newOwner s)
                      (\<lambda>updated s. (Inr updated, emit (OwnershipTransferred ws current newOwner) s))))"

text \<open>
  The map from lowercase emails to user ids, in order of insertion: a later member with the same email
  overwrites the value and keeps the place.
\<close>

definition membershipService_findUserIdsByEmails :: "uuid \<Rightarrow> string list \<Rightarrow> db \<Rightarrow> (string \<times> uuid) list" where
  "membershipService_findUserIdsByEmails ws emails s =
     (let normalized = filter (\<lambda>e. e \<noteq> []) (map (\<lambda>e. js_trim (toLowerCase e)) emails)
      in if normalized = [] then []
         else fold (\<lambda>(m, u) found.
                let email = toLowerCase (case u of None \<Rightarrow> [] | Some x \<Rightarrow> usEmail x)
                in if email \<noteq> [] \<and> email \<in> set normalized then AList.update email (memUserId m) found else found)
              (memberRepo_findMembersWithUser ws s) [])"

section \<open>Decisions\<close>

lemma role_change_check_Inr_iff:
  "role_change_check ws i role actor s = Inr m \<longleftrightarrow>
     memberRepo_findMemberById i s = Some m \<and> memWorkspaceId m = ws \<and>
     (actor_role ws actor s = Some Admin \<longrightarrow> memRole m \<noteq> Owner \<and> role \<noteq> Owner) \<and>
     (memRole m = Owner \<and> role \<noteq> Owner \<longrightarrow> 2 \<le> memberRepo_countOwners ws s)"
  by (auto simp: role_change_check_def split: option.splits if_splits)

lemma removal_check_Inr_iff:
  "removal_check ws i actor s = Inr m \<longleftrightarrow>
     memberRepo_findMemberById i s = Some m \<and> memWorkspaceId m = ws \<and>
     (actor_role ws actor s = Some Admin \<longrightarrow> memRole m \<noteq> Owner) \<and>
     (memRole m = Owner \<longrightarrow> 2 \<le> memberRepo_countOwners ws s)"
  by (auto simp: removal_check_def split: option.splits if_splits)

lemma departure_check_Inr_iff:
  "departure_check ws user s = Inr m \<longleftrightarrow>
     memberRepo_findMember ws user s = Some m \<and> (memRole m = Owner \<longrightarrow> 2 \<le> memberRepo_countOwners ws s)"
  by (auto simp: departure_check_def split: option.splits if_splits)

end
