(* ===== verification/Auth.thy ===== *)
theory Auth
  imports Tables Js_Text
begin

text \<open>
  Accounts and sessions: \<open>UserRepository\<close>, \<open>RefreshTokenRepository\<close>, \<open>PasswordService\<close>,
  \<open>JwtTokenService\<close>, \<open>TokenBlacklistService\<close>, \<open>AuthService\<close> and \<open>TokenCleanupTask\<close>
  (\<open>src/modules/auth/\<close>). Hashing, password hashing and token signing belong to other packages
  and are the parameter \<open>cr\<close>; random values are arguments. Redis is the map \<open>redis\<close> of the state:
  a key is present while the clock is before its expiry.
\<close>

section \<open>Cryptography, draws, Redis\<close>

record claims =
  clSub :: uuid
  clEmail :: string
  clDisplayName :: string
  clAvatarUrl :: "string option"
  clIsEmailVerified :: bool
  clJti :: uuid
  clExp :: instant

datatype jwt_failure = JwtExpired | JwtInvalid

record crypto =
  crSha256 :: "string \<Rightarrow> string"
  crBcryptHash :: "string \<Rightarrow> string \<Rightarrow> string"
  crBcryptCompare :: "string \<Rightarrow> string \<Rightarrow> bool"
  crSign :: "claims \<Rightarrow> string"
  crVerify :: "instant \<Rightarrow> string \<Rightarrow> jwt_failure + claims"

definition hashToken :: "crypto \<Rightarrow> string \<Rightarrow> string" where
  "hashToken cr token = crSha256 cr token"

definition redis_get :: "instant \<Rightarrow> string \<Rightarrow> db \<Rightarrow> string option" where
  "redis_get now k s =
     (case redis s k of None \<Rightarrow> None | Some (v, till) \<Rightarrow> if now < till then Some v else None)"

definition redis_set_ex :: "instant \<Rightarrow> string \<Rightarrow> string \<Rightarrow> int \<Rightarrow> db \<Rightarrow> db" where
  "redis_set_ex now k v seconds s = s\<lparr>redis := (redis s)(k := Some (v, now + seconds * 1000))\<rparr>"

definition redis_del :: "string \<Rightarrow> db \<Rightarrow> db" where
  "redis_del k s = s\<lparr>redis := (redis s)(k := None)\<rparr>"

definition redis_getdel :: "instant \<Rightarrow> string \<Rightarrow> db \<Rightarrow> string option \<times> db" where
  "redis_getdel now k s = (redis_get now k s, redis_del k s)"

section \<open>UserRepository\<close>

definition new_user :: "uuid \<Rightarrow> instant \<Rightarrow> string \<Rightarrow> string option \<Rightarrow> string \<Rightarrow> user_row" where
  "new_user newId now email pw name =
     \<lparr>userId = newId, userEmail = email, userPasswordHash = pw, userDisplayName = name,
      userAvatarUrl = None, userGoogleId = None, userIsEmailVerified = False,
      userLastLoginAt = None, userCreatedAt = now\<rparr>"

text \<open>The unique columns of the table: id, email, Google id.\<close>

definition user_clash :: "user_row \<Rightarrow> user_row \<Rightarrow> bool" where
  "user_clash u v \<longleftrightarrow> userId u = userId v \<or> userEmail u = userEmail v \<or>
     (userGoogleId u \<noteq> None \<and> userGoogleId u = userGoogleId v)"

definition insert_user :: "user_row \<Rightarrow> user_row list \<Rightarrow> user_row list option" where
  "insert_user u rows = (if list_ex (user_clash u) rows then None else Some (rows @ [u]))"

definition userRepo_createUser :: "uuid \<Rightarrow> instant \<Rightarrow> string \<Rightarrow> string \<Rightarrow> string \<Rightarrow> db \<Rightarrow> user_row outcome" where
  [op_defs]: "userRepo_createUser newId now email pwHash name s =
     (let u = new_user newId now email (Some pwHash) name
      in case insert_user u (users s) of
           None \<Rightarrow> (Inl (AppError ''EMAIL_ALREADY_EXISTS'' 409), s)
         | Some rows \<Rightarrow> (Inr u, s\<lparr>users := rows\<rparr>))"

definition userRepo_findByEmail :: "string \<Rightarrow> db \<Rightarrow> user_row option" where
  "userRepo_findByEmail email s = find (\<lambda>u. userEmail u = email) (users s)"

definition userRepo_findById :: "uuid \<Rightarrow> db \<Rightarrow> user_row option" where
  "userRepo_findById i s = find (\<lambda>u. userId u = i) (users s)"

text \<open>The record without its password hash.\<close>

definition public_user :: "user_row \<Rightarrow> user_row" where
  "public_user u = u\<lparr>userPasswordHash := None\<rparr>"

definition userRepo_findByIdPublic :: "uuid \<Rightarrow> db \<Rightarrow> user_row option" where
  "userRepo_findByIdPublic i s = map_option public_user (userRepo_findById i s)"

definition userRepo_findUserSummaryByEmail :: "string \<Rightarrow> db \<Rightarrow> user_summary option" where
  "userRepo_findUserSummaryByEmail email s =
     map_option (\<lambda>u. \<lparr>usId = userId u, usDisplayName = userDisplayName u, usEmail = userEmail u,
         usAvatarUrl = userAvatarUrl u\<rparr>)
       (userRepo_findByEmail email s)"

definition userRepo_findByGoogleId :: "string \<Rightarrow> db \<Rightarrow> user_row option" where
  "userRepo_findByGoogleId g s = find (\<lambda>u. userGoogleId u = Some g) (users s)"

definition userRepo_update :: "uuid \<Rightarrow> (user_row \<Rightarrow> user_row) \<Rightarrow> db \<Rightarrow> user_row outcome" where
  [op_defs]: "userRepo_update i data s =
     or_missing (update_by userId i data (users s))
       (\<lambda>(u, rows) s.
          if list_ex (\<lambda>v. userId v \<noteq> i \<and> user_clash u v) (users s) then (Inl (PrismaError ''P2002''), s)
          else (Inr u, s\<lparr>users := rows\<rparr>)) s"

definition userRepo_createGoogleUser ::
  "uuid \<Rightarrow> instant \<Rightarrow> string \<Rightarrow> string \<Rightarrow> string \<Rightarrow> string option \<Rightarrow> db \<Rightarrow> user_row outcome" where
  [op_defs]: "userRepo_createGoogleUser newId now email googleId name avatar s =
     (let u = (new_user newId now email None name)\<lparr>userGoogleId := Some googleId, userAvatarUrl := avatar,
                userIsEmailVerified := True, userLastLoginAt := Some now\<rparr>
      in or_conflict (insert_user u (users s)) (\<lambda>rows s. (Inr u, s\<lparr>users := rows\<rparr>)) s)"

section \<open>RefreshTokenRepository\<close>

definition new_token ::
  "uuid \<Rightarrow> uuid \<Rightarrow> string \<Rightarrow> uuid \<Rightarrow> string option \<Rightarrow> string option \<Rightarrow> instant \<Rightarrow> refresh_token_row" where
  "new_token newId user hash family ip agent expires =
     \<lparr>rtId = newId, rtUserId = user, rtTokenHash = hash, rtFamilyId = family, rtReplacedBy = None,
      rtIpAddress = ip, rtUserAgent = agent, rtExpiresAt = expires, rtRevokedAt = None\<rparr>"

definition insert_token :: "refresh_token_row \<Rightarrow> refresh_token_row list \<Rightarrow> refresh_token_row list option" where
  "insert_token t rows =
     (if list_ex (\<lambda>x. rtTokenHash x = rtTokenHash t) rows then None else insert_row rtId t rows)"

definition tokenRepo_create :: "refresh_token_row \<Rightarrow> db \<Rightarrow> refresh_token_row outcome" where
  [op_defs]: "tokenRepo_create t s =
     or_conflict (insert_token t (refreshTokens s)) (\<lambda>rows s. (Inr t, s\<lparr>refreshTokens := rows\<rparr>)) s"

definition tokenRepo_findByTokenHash :: "string \<Rightarrow> db \<Rightarrow> refresh_token_row option" where
  "tokenRepo_findByTokenHash h s = find (\<lambda>t. rtTokenHash t = h) (refreshTokens s)"

definition tokenRepo_findByTokenHashWithUser :: "string \<Rightarrow> db \<Rightarrow> (refresh_token_row \<times> user_row option) option" where
  "tokenRepo_findByTokenHashWithUser h s =
     map_option (\<lambda>t. (t, userRepo_findById (rtUserId t) s)) (tokenRepo_findByTokenHash h s)"

definition tokenRepo_rotate :: "instant \<Rightarrow> uuid \<Rightarrow> refresh_token_row \<Rightarrow> db \<Rightarrow> refresh_token_row outcome" where
  [op_defs]: "tokenRepo_rotate now previous successor s =
     or_conflict (insert_token successor (refreshTokens s))
       (\<lambda>rows s. or_missing (update_by rtId previous
            (\<lambda>t. t\<lparr>rtRevokedAt := Some now, rtReplacedBy := Some (rtId successor)\<rparr>) rows)
          (\<lambda>(_, rows') s. (Inr successor, s\<lparr>refreshTokens := rows'\<rparr>)) s) s"

definition revoke :: "instant \<Rightarrow> refresh_token_row \<Rightarrow> refresh_token_row" where
  "revoke now t = t\<lparr>rtRevokedAt := Some now\<rparr>"

definition revoke_where :: "instant \<Rightarrow> (refresh_token_row \<Rightarrow> bool) \<Rightarrow> db \<Rightarrow> db" where
  "revoke_where now P s =
     s\<lparr>refreshTokens := update_many (\<lambda>t. P t \<and> rtRevokedAt t = None) (revoke now) (refreshTokens s)\<rparr>"

definition tokenRepo_revokeFamily :: "instant \<Rightarrow> uuid \<Rightarrow> db \<Rightarrow> db" where
  "tokenRepo_revokeFamily now family = revoke_where now (\<lambda>t. rtFamilyId t = family)"

definition tokenRepo_revokeByTokenHash :: "instant \<Rightarrow> string \<Rightarrow> db \<Rightarrow> db" where
  "tokenRepo_revokeByTokenHash now h = revoke_where now (\<lambda>t. rtTokenHash t = h)"

definition tokenRepo_revokeAllByUserId :: "instant \<Rightarrow> uuid \<Rightarrow> db \<Rightarrow> db" where
  "tokenRepo_revokeAllByUserId now user = revoke_where now (\<lambda>t. rtUserId t = user)"

definition tokenRepo_deleteExpiredTokens :: "instant \<Rightarrow> db \<Rightarrow> nat \<times> db" where
  "tokenRepo_deleteExpiredTokens older s =
     (let old = (\<lambda>t. rtExpiresAt t < older \<or> (case rtRevokedAt t of None \<Rightarrow> False | Some r \<Rightarrow> r < older))
      in (length (filter old (refreshTokens s)),
          s\<lparr>refreshTokens := filter (\<lambda>t. \<not> old t) (refreshTokens s)\<rparr>))"

definition handleTokenCleanup :: "instant \<Rightarrow> db \<Rightarrow> db" where
  "handleTokenCleanup now s = snd (tokenRepo_deleteExpiredTokens (now - 30 * 24 * 60 * 60 * 1000) s)"

section \<open>Access tokens and their blacklist\<close>

text \<open>The claims of a new token; times are whole seconds, kept here in milliseconds.\<close>

definition user_claims :: "instant \<Rightarrow> uuid \<Rightarrow> user_row \<Rightarrow> claims" where
  "user_claims now jti u =
     \<lparr>clSub = userId u, clEmail = userEmail u, clDisplayName = userDisplayName u,
      clAvatarUrl = userAvatarUrl u, clIsEmailVerified = userIsEmailVerified u, clJti = jti,
      clExp = (now div 1000 + 15 * 60) * 1000\<rparr>"

definition generateAccessToken :: "crypto \<Rightarrow> instant \<Rightarrow> uuid \<Rightarrow> user_row \<Rightarrow> string" where
  "generateAccessToken cr now jti u = crSign cr (user_claims now jti u)"

definition verifyAccessToken :: "crypto \<Rightarrow> instant \<Rightarrow> string \<Rightarrow> error + claims" where
  "verifyAccessToken cr now token =
     (case crVerify cr now token of
        Inr c \<Rightarrow> Inr c
      | Inl JwtExpired \<Rightarrow> Inl (Unauthorized ''TOKEN_EXPIRED'')
      | Inl JwtInvalid \<Rightarrow> Inl (Unauthorized ''TOKEN_INVALID''))"

text \<open>\<open>Math.ceil(ms / 1000)\<close>.\<close>

definition ceil_seconds :: "int \<Rightarrow> int" where
  "ceil_seconds ms = - ((- ms) div 1000)"

definition blacklist :: "instant \<Rightarrow> uuid \<Rightarrow> instant \<Rightarrow> db \<Rightarrow> db" where
  "blacklist now jti expiresAt s =
     (let ttl = ceil_seconds (expiresAt - now)
      in if 0 < ttl then redis_set_ex now (''blacklist:'' @ jti) ''1'' ttl s else s)"

definition isBlacklisted :: "instant \<Rightarrow> uuid \<Rightarrow> db \<Rightarrow> bool" where
  "isBlacklisted now jti s \<longleftrightarrow> redis_get now (''blacklist:'' @ jti) s \<noteq> None"


section \<open>AuthService\<close>

record auth_user =
  auId :: uuid
  auEmail :: string
  auDisplayName :: string
  auAvatarUrl :: "string option"
  auIsEmailVerified :: bool
  auCreatedAt :: instant

record token_pair =
  tpAccessToken :: string
  tpRefreshToken :: string
  tpExpiresIn :: nat

text \<open>What a session draws at random: the raw refresh token, three identifiers.\<close>

record session_draws =
  sdRaw :: string
  sdTokenId :: uuid
  sdFamilyId :: uuid
  sdJti :: uuid

definition auth_user_of :: "user_row \<Rightarrow> auth_user" where
  "auth_user_of u = \<lparr>auId = userId u, auEmail = userEmail u, auDisplayName = userDisplayName u,
     auAvatarUrl = userAvatarUrl u, auIsEmailVerified = userIsEmailVerified u, auCreatedAt = userCreatedAt u\<rparr>"

definition refresh_expiry :: "instant \<Rightarrow> instant" where
  "refresh_expiry now = now + 7 * 24 * 60 * 60 * 1000"

definition issueTokenPair ::
  "crypto \<Rightarrow> session_draws \<Rightarrow> instant \<Rightarrow> user_row \<Rightarrow> string option \<Rightarrow> string option \<Rightarrow> db \<Rightarrow> token_pair outcome" where
  [op_defs]: "issueTokenPair cr d now u ip agent s =
     await (tokenRepo_create (new_token (sdTokenId d) (userId u) (hashToken cr (sdRaw d)) (sdFamilyId d)
              ip agent (refresh_expiry now)) s)
       (\<lambda>_ s. (Inr \<lparr>tpAccessToken = generateAccessToken cr now (sdJti d) u,
                    tpRefreshToken = sdRaw d, tpExpiresIn = 900\<rparr>, s))"

definition createEmailVerificationToken :: "crypto \<Rightarrow> string \<Rightarrow> instant \<Rightarrow> uuid \<Rightarrow> db \<Rightarrow> db" where
  "createEmailVerificationToken cr raw now user s =
     redis_set_ex now (''email_verification:'' @ hashToken cr raw) user 86400 s"

definition authService_register ::
  "crypto \<Rightarrow> session_draws \<Rightarrow> uuid \<Rightarrow> string \<Rightarrow> string \<Rightarrow> instant \<Rightarrow> string \<Rightarrow> string \<Rightarrow> string \<Rightarrow>
   string option \<Rightarrow> string option \<Rightarrow> db \<Rightarrow> (auth_user \<times> token_pair) outcome" where
  [op_defs]: "authService_register cr d newId salt verifyRaw now email password name ip agent s =
     await (userRepo_createUser newId now email (crBcryptHash cr salt password) name s)
       (\<lambda>u s. await (issueTokenPair cr d now u ip agent (createEmailVerificationToken cr verifyRaw now (userId u) s))
          (\<lambda>tokens s. (Inr (auth_user_of u, tokens),
             emit (UserRegistered (userId u) (userEmail u) (userDisplayName u) verifyRaw) s)))"

text \<open>The account, when the password matches.\<close>

definition check_password :: "crypto \<Rightarrow> user_row option \<Rightarrow> string \<Rightarrow> error + user_row" where
  "check_password cr user password =
     (case user of
        None \<Rightarrow> Inl (Unauthorized ''INVALID_CREDENTIALS'')
      | Some u \<Rightarrow>
          if \<not> truthy (userPasswordHash u) then Inl (Unauthorized ''INVALID_CREDENTIALS'')
          else if \<not> crBcryptCompare cr password (the (userPasswordHash u))
          then Inl (Unauthorized ''INVALID_CREDENTIALS'')
          else Inr u)"

definition authService_login ::
  "crypto \<Rightarrow> session_draws \<Rightarrow> instant \<Rightarrow> string \<Rightarrow> string \<Rightarrow> string option \<Rightarrow> string option \<Rightarrow> db \<Rightarrow>
   (auth_user \<times> token_pair) outcome" where
  [op_defs]: "authService_login cr d now email password ip agent s =
     (case check_password cr (userRepo_findByEmail email s) password of
        Inl e \<Rightarrow> (Inl e, s)
      | Inr u \<Rightarrow>
          await (userRepo_update (userId u) (\<lambda>u. u\<lparr>userLastLoginAt := Some now\<rparr>) s)
            (\<lambda>_ s. await (issueTokenPair cr d now u ip agent s)
               (\<lambda>tokens s. (Inr (auth_user_of u, tokens), emit (UserLoggedIn (userId u) ''email'') s))))"

text \<open>
  \<open>refreshTokens\<close> reads the presented token and decides, then writes. The two halves are
  separate definitions because requests interleave between them.
\<close>

datatype refresh_decision = Refuse error | Reused uuid | Rotate refresh_token_row user_row

definition refresh_decide :: "crypto \<Rightarrow> instant \<Rightarrow> string \<Rightarrow> db \<Rightarrow> refresh_decision" where
  "refresh_decide cr now token s =
     (case tokenRepo_findByTokenHashWithUser (hashToken cr token) s of
        None \<Rightarrow> Refuse (Unauthorized ''TOKEN_INVALID'')
      | Some (t, user) \<Rightarrow>
          if rtExpiresAt t < now then Refuse (Unauthorized ''REFRESH_TOKEN_EXPIRED'')
          else if rtRevokedAt t \<noteq> None then Reused (rtFamilyId t)
          else (case user of None \<Rightarrow> Refuse JsTypeError | Some u \<Rightarrow> Rotate t u))"

definition refresh_commit ::
  "crypto \<Rightarrow> session_draws \<Rightarrow> instant \<Rightarrow> string option \<Rightarrow> string option \<Rightarrow> refresh_decision \<Rightarrow> db \<Rightarrow>
   token_pair outcome" where
  "refresh_commit cr d now ip agent decision s =
     (case decision of
        Refuse e \<Rightarrow> (Inl e, s)
      | Reused family \<Rightarrow> (Inl (Unauthorized ''TOKEN_REUSE_DETECTED''), tokenRepo_revokeFamily now family s)
      | Rotate t u \<Rightarrow>
          await (tokenRepo_rotate now (rtId t) (new_token (sdTokenId d) (rtUserId t) (hashToken cr (sdRaw d))
                   (rtFamilyId t) ip agent (refresh_expiry now)) s)
            (\<lambda>successor s. (Inr \<lparr>tpAccessToken = generateAccessToken cr now (sdJti d) u,
                                 tpRefreshToken = sdRaw d, tpExpiresIn = 900\<rparr>, s)))"

definition authService_refreshTokens ::
  "crypto \<Rightarrow> session_draws \<Rightarrow> instant \<Rightarrow> string \<Rightarrow> string option \<Rightarrow> string option \<Rightarrow> db \<Rightarrow> token_pair outcome" where
  [op_defs]: "authService_refreshTokens cr d now token ip agent s =
     refresh_commit cr d now ip agent (refresh_decide cr now token s) s"

definition maybe_blacklist :: "instant \<Rightarrow> uuid option \<Rightarrow> instant option \<Rightarrow> db \<Rightarrow> db" where
  "maybe_blacklist now jti expires s =
     (case expires of Some e \<Rightarrow> if truthy jti then blacklist now (the jti) e s else s | None \<Rightarrow> s)"

definition authService_logout ::
  "crypto \<Rightarrow> instant \<Rightarrow> string option \<Rightarrow> uuid option \<Rightarrow> instant option \<Rightarrow> db \<Rightarrow> db" where
  "authService_logout cr now token jti expires s =
     maybe_blacklist now jti expires
       (if truthy token then tokenRepo_revokeByTokenHash now (hashToken cr (the token)) s else s)"

definition authService_tryVerifyAccessToken :: "crypto \<Rightarrow> instant \<Rightarrow> string \<Rightarrow> claims option" where
  "authService_tryVerifyAccessToken cr now token =
     (case verifyAccessToken cr now token of Inl e \<Rightarrow> None | Inr c \<Rightarrow> Some c)"

definition authService_logoutAllDevices :: "instant \<Rightarrow> uuid \<Rightarrow> uuid option \<Rightarrow> instant option \<Rightarrow> db \<Rightarrow> db" where
  "authService_logoutAllDevices now user jti expires s =
     maybe_blacklist now jti expires (tokenRepo_revokeAllByUserId now user s)"

definition authService_forgotPassword :: "crypto \<Rightarrow> string \<Rightarrow> instant \<Rightarrow> string \<Rightarrow> db \<Rightarrow> db" where
  "authService_forgotPassword cr raw now email s =
     (case userRepo_findByEmail email s of
        None \<Rightarrow> s
      | Some u \<Rightarrow>
          emit (PasswordResetRequested (userId u) (userEmail u) raw)
            (redis_set_ex now (''password_reset:'' @ hashToken cr raw) (userId u) 3600 s))"

definition replace_password :: "crypto \<Rightarrow> string \<Rightarrow> string \<Rightarrow> instant \<Rightarrow> uuid \<Rightarrow> db \<Rightarrow> unit outcome" where
  "replace_password cr salt password now user s =
     await (userRepo_update user (\<lambda>u. u\<lparr>userPasswordHash := Some (crBcryptHash cr salt password)\<rparr>) s)
       (\<lambda>_ s. (Inr (), tokenRepo_revokeAllByUserId now user s))"

definition authService_resetPassword ::
  "crypto \<Rightarrow> session_draws \<Rightarrow> string \<Rightarrow> instant \<Rightarrow> string \<Rightarrow> string \<Rightarrow> string option \<Rightarrow> string option \<Rightarrow> db \<Rightarrow>
   token_pair outcome" where
  [op_defs]: "authService_resetPassword cr d salt now token newPassword ip agent s =
     (let (user, s) = redis_getdel now (''password_reset:'' @ hashToken cr token) s
      in if \<not> truthy user then (Inl (Unauthorized ''TOKEN_INVALID''), s)
         else case userRepo_findById (the user) s of
                None \<Rightarrow> (Inl (Unauthorized ''USER_NOT_FOUND''), s)
              | Some u \<Rightarrow>
                  await (replace_password cr salt newPassword now (the user) s)
                    (\<lambda>_ s. issueTokenPair cr d now u ip agent s))"

definition authService_requestEmailVerification :: "crypto \<Rightarrow> string \<Rightarrow> instant \<Rightarrow> uuid \<Rightarrow> db \<Rightarrow> unit outcome" where
  [op_defs]: "authService_requestEmailVerification cr raw now user s =
     (case userRepo_findById user s of
        None \<Rightarrow> (Inl (NotFound ''USER_NOT_FOUND''), s)
      | Some u \<Rightarrow>
          if userIsEmailVerified u then (Inl (BusinessRule ''EMAIL_ALREADY_VERIFIED''), s)
          else (Inr (), emit (EmailVerificationRequested (userId u) (userEmail u) raw)
                          (createEmailVerificationToken cr raw now (userId u) s)))"

definition authService_verifyEmail :: "crypto \<Rightarrow> instant \<Rightarrow> string \<Rightarrow> db \<Rightarrow> unit outcome" where
  [op_defs]: "authService_verifyEmail cr now raw s =
     (let (user, s) = redis_getdel now (''email_verification:'' @ hashToken cr raw) s
      in if \<not> truthy user then (Inl (Unauthorized ''TOKEN_INVALID''), s)
         else case userRepo_findById (the user) s of
                None \<Rightarrow> (Inl (Unauthorized ''TOKEN_INVALID''), s)
              | Some u \<Rightarrow>
                  await (userRepo_update (the user) (\<lambda>u. u\<lparr>userIsEmailVerified := True\<rparr>) s)
                    (\<lambda>_ s. (Inr (), emit (EmailVerified (the user) (userEmail u) (userDisplayName u)) s)))"

record google_profile =
  gpGoogleId :: string
  gpEmail :: string
  gpDisplayName :: string
  gpAvatarUrl :: "string option"

definition link_google :: "instant \<Rightarrow> google_profile \<Rightarrow> user_row \<Rightarrow> db \<Rightarrow> user_row outcome" where
  "link_google now p u =
     userRepo_update (userId u)
       (\<lambda>x. x\<lparr>userGoogleId := Some (gpGoogleId p),
             userAvatarUrl := (if truthy (gpAvatarUrl p) then gpAvatarUrl p else userAvatarUrl u),
             userIsEmailVerified := True, userLastLoginAt := Some now\<rparr>)"

definition authService_findOrCreateGoogleUser :: "uuid \<Rightarrow> instant \<Rightarrow> google_profile \<Rightarrow> db \<Rightarrow> user_row outcome" where
  [op_defs]: "authService_findOrCreateGoogleUser newId now p s =
     (if gpEmail p = [] then (Inl (Unauthorized ''Google account must have a valid email''), s)
      else case userRepo_findByGoogleId (gpGoogleId p) s of
        Some u \<Rightarrow>
          userRepo_update (userId u)
            (\<lambda>x. x\<lparr>userDisplayName := gpDisplayName p,
                  userAvatarUrl := (case gpAvatarUrl p of None \<Rightarrow> userAvatarUrl x | Some a \<Rightarrow> Some a),
                  userLastLoginAt := Some now\<rparr>) s
      | None \<Rightarrow>
          (case userRepo_findByEmail (toLowerCase (gpEmail p)) s of
             Some u \<Rightarrow> link_google now p u s
           | None \<Rightarrow>
               (case userRepo_createGoogleUser newId now (toLowerCase (gpEmail p)) (gpGoogleId p)
                       (gpDisplayName p) (gpAvatarUrl p) s of
                  (Inr u, s1) \<Rightarrow> (Inr u, s1)
                | (Inl e, s1) \<Rightarrow>
                    (if e = PrismaError ''P2002'' then
                       (case userRepo_findByEmail (toLowerCase (gpEmail p)) s1 of
                          Some u \<Rightarrow> link_google now p u s1
                        | None \<Rightarrow> (Inl e, s1))
                     else (Inl e, s1)))))"

definition authService_validateOAuthState :: "instant \<Rightarrow> string option \<Rightarrow> db \<Rightarrow> unit outcome" where
  [op_defs]: "authService_validateOAuthState now st s =
     (if \<not> truthy st then (Inl (Unauthorized ''INVALID_OAUTH_STATE''), s)
      else if redis_get now (''oauth:state:'' @ the st) s = None
      then (Inl (Unauthorized ''INVALID_OAUTH_STATE''), s)
      else (Inr (), redis_del (''oauth:state:'' @ the st) s))"

definition authService_handleGoogleCallback ::
  "crypto \<Rightarrow> session_draws \<Rightarrow> instant \<Rightarrow> user_row \<Rightarrow> string option \<Rightarrow> string option \<Rightarrow> db \<Rightarrow>
   (auth_user \<times> token_pair) outcome" where
  [op_defs]: "authService_handleGoogleCallback cr d now u ip agent s =
     await (issueTokenPair cr d now u ip agent s)
       (\<lambda>tokens s. (Inr (auth_user_of u, tokens), emit (UserLoggedIn (userId u) ''google'') s))"

definition authService_getProfile :: "uuid \<Rightarrow> db \<Rightarrow> error + user_row" where
  "authService_getProfile user s =
     (case userRepo_findByIdPublic user s of None \<Rightarrow> Inl (NotFound ''USER_NOT_FOUND'') | Some u \<Rightarrow> Inr u)"

definition authService_getUserByEmail :: "string \<Rightarrow> db \<Rightarrow> user_row option" where
  "authService_getUserByEmail email s = userRepo_findByEmail email s"

definition authService_findUserSummaryByEmail :: "string \<Rightarrow> db \<Rightarrow> user_summary option" where
  "authService_findUserSummaryByEmail email s = userRepo_findUserSummaryByEmail email s"

definition authService_updateProfile :: "uuid \<Rightarrow> string option \<Rightarrow> string patch \<Rightarrow> db \<Rightarrow> user_row outcome" where
  [op_defs]: "authService_updateProfile user name avatar s =
     await (userRepo_update user
              (\<lambda>u. u\<lparr>userDisplayName := (if truthy name then the name else userDisplayName u),
                    userAvatarUrl := apply_patch avatar (userAvatarUrl u)\<rparr>) s)
       (\<lambda>u s. (Inr (public_user u), s))"

definition authService_changePassword ::
  "crypto \<Rightarrow> session_draws \<Rightarrow> string \<Rightarrow> instant \<Rightarrow> uuid \<Rightarrow> string \<Rightarrow> string \<Rightarrow> uuid option \<Rightarrow> instant option \<Rightarrow>
   string option \<Rightarrow> string option \<Rightarrow> db \<Rightarrow> token_pair outcome" where
  [op_defs]: "authService_changePassword cr d salt now user current newPassword jti expires ip agent s =
     (case check_password cr (userRepo_findById user s) current of
        Inl e \<Rightarrow> (Inl e, s)
      | Inr u \<Rightarrow>
          await (replace_password cr salt newPassword now user s)
            (\<lambda>_ s. issueTokenPair cr d now u ip agent (maybe_blacklist now jti expires s)))"

end
