(* ===== verification/Invitations.thy ===== *)
theory Invitations
  imports Memberships Auth
begin

text \<open>
  Invitations: \<open>WorkspaceInvitationRepository\<close> and \<open>InvitationService\<close>
  (\<open>src/modules/workspace/services/invitation.service.ts\<close>). The table keeps the hash of the token,
  the event carries the token itself.
\<close>

section \<open>WorkspaceInvitationRepository\<close>

definition invitationRepo_createInvitation ::
  "uuid \<Rightarrow> instant \<Rightarrow> uuid \<Rightarrow> string \<Rightarrow> workspace_role \<Rightarrow> string \<Rightarrow> uuid \<Rightarrow> instant \<Rightarrow> db \<Rightarrow> invitation_row outcome" where
  [op_defs]: "invitationRepo_createInvitation newId now ws email role token invitedBy expiresAt s =
     (let row = \<lparr>invId = newId, invWorkspaceId = ws, invEmail = email, invRole = role, invToken = token,
                 invInvitedBy = invitedBy, invStatus = Pending, invExpiresAt = expiresAt,
                 invAcceptedAt = None, invCreatedAt = now\<rparr>
      in or_conflict (if list_ex (\<lambda>x. invToken x = token) (invitations s) then None
                      else insert_row invId row (invitations s))
           (\<lambda>rows s. (Inr row, s\<lparr>invitations := rows\<rparr>)) s)"

definition invitationRepo_findByToken :: "string \<Rightarrow> db \<Rightarrow> invitation_row option" where
  "invitationRepo_findByToken token s = find (\<lambda>x. invToken x = token) (invitations s)"

definition invitationRepo_findById :: "uuid \<Rightarrow> db \<Rightarrow> invitation_row option" where
  "invitationRepo_findById i s = find (\<lambda>x. invId x = i) (invitations s)"

definition invitationRepo_findPendingByEmailAndWorkspace ::
  "instant \<Rightarrow> string \<Rightarrow> uuid \<Rightarrow> db \<Rightarrow> invitation_row option" where
  "invitationRepo_findPendingByEmailAndWorkspace now email ws s =
     find (\<lambda>x. invWorkspaceId x = ws \<and> invEmail x = email \<and> invStatus x = Pending \<and> now < invExpiresAt x)
       (invitations s)"

definition invitationRepo_findWorkspaceInvitations ::
  "uuid \<Rightarrow> db \<Rightarrow> (invitation_row \<times> user_summary option) list" where
  "invitationRepo_findWorkspaceInvitations ws s =
     map (\<lambda>x. (x, user_summary_of (invInvitedBy x) s))
       (order_desc invCreatedAt (filter (\<lambda>x. invWorkspaceId x = ws \<and> invStatus x = Pending) (invitations s)))"

definition invitationRepo_updateStatus ::
  "uuid \<Rightarrow> invitation_status \<Rightarrow> instant option \<Rightarrow> db \<Rightarrow> invitation_row outcome" where
  [op_defs]: "invitationRepo_updateStatus i st acceptedAt s =
     or_missing (update_by invId i
         (\<lambda>x. x\<lparr>invStatus := st, invAcceptedAt := (case acceptedAt of None \<Rightarrow> invAcceptedAt x | Some a \<Rightarrow> Some a)\<rparr>)
         (invitations s))
       (\<lambda>(row, rows) s. (Inr row, s\<lparr>invitations := rows\<rparr>)) s"

section \<open>InvitationService\<close>

record invite_member_dto =
  imEmail :: string
  imRole :: workspace_role

definition already_member :: "uuid \<Rightarrow> string \<Rightarrow> db \<Rightarrow> bool" where
  "already_member ws email s \<longleftrightarrow>
     (case authService_findUserSummaryByEmail email s of
        None \<Rightarrow> False | Some u \<Rightarrow> memberRepo_findMember ws (usId u) s \<noteq> None)"

definition invite_check :: "instant \<Rightarrow> uuid \<Rightarrow> invite_member_dto \<Rightarrow> uuid \<Rightarrow> db \<Rightarrow> error option" where
  "invite_check now ws dto invitedBy s =
     (case membershipService_requireWorkspace ws s of
        Some e \<Rightarrow> Some e
      | None \<Rightarrow>
          if map_option memRole (memberRepo_findMember ws invitedBy s) = Some Admin \<and> imRole dto \<in> {Owner, Admin}
          then Some (Forbidden ''Admins can only invite members with role member or viewer'')
          else if already_member ws (imEmail dto) s then Some (BusinessRule ''ALREADY_A_MEMBER'')
          else if invitationRepo_findPendingByEmailAndWorkspace now (imEmail dto) ws s \<noteq> None
          then Some (BusinessRule ''INVITATION_ALREADY_SENT'')
          else None)"

text \<open>The inviter's profile is read last, after the row is written and the event is out.\<close>

definition invitationService_inviteMember ::
  "crypto \<Rightarrow> string \<Rightarrow> uuid \<Rightarrow> instant \<Rightarrow> uuid \<Rightarrow> invite_member_dto \<Rightarrow> uuid \<Rightarrow> db \<Rightarrow>
   (invitation_row \<times> user_summary) outcome" where
  [op_defs]: "invitationService_inviteMember cr rawToken newId now ws dto invitedBy s =
     (case invite_check now ws dto invitedBy s of
        Some e \<Rightarrow> (Inl e, s)
      | None \<Rightarrow>
          await (invitationRepo_createInvitation newId now ws (imEmail dto) (imRole dto) (hashToken cr rawToken)
                   invitedBy (now + 7 * 24 * 60 * 60 * 1000) s)
            (\<lambda>invitation s0.
               let s = emit (InvitationCreated ws (imEmail dto) invitedBy rawToken) s0
               in case authService_getProfile invitedBy s of
                    Inl e \<Rightarrow> (Inl e, s)
                  | Inr u \<Rightarrow>
                      (Inr (invitation, \<lparr>usId = userId u, usDisplayName = userDisplayName u,
                         usEmail = userEmail u, usAvatarUrl = userAvatarUrl u\<rparr>), s)))"

definition invitationService_getInvitations ::
  "uuid \<Rightarrow> db \<Rightarrow> error + (invitation_row \<times> user_summary option) list" where
  "invitationService_getInvitations ws s =
     (case membershipService_requireWorkspace ws s of
        Some e \<Rightarrow> Inl e | None \<Rightarrow> Inr (invitationRepo_findWorkspaceInvitations ws s))"

definition accept_check :: "crypto \<Rightarrow> instant \<Rightarrow> string \<Rightarrow> uuid \<Rightarrow> db \<Rightarrow> error + invitation_row" where
  "accept_check cr now token user s =
     (case invitationRepo_findByToken (hashToken cr token) s of
        None \<Rightarrow> Inl (BusinessRule ''INVITATION_EXPIRED'')
      | Some invite \<Rightarrow>
          if invStatus invite \<noteq> Pending \<or> invExpiresAt invite < now then Inl (BusinessRule ''INVITATION_EXPIRED'')
          else (case workspaceRepo_findById (invWorkspaceId invite) s of
             None \<Rightarrow> Inl (BusinessRule ''INVITATION_EXPIRED'')
           | Some w \<Rightarrow>
               (case authService_getProfile user s of
                  Inl e \<Rightarrow> Inl e
                | Inr u \<Rightarrow>
                    if toLowerCase (invEmail invite) \<noteq> toLowerCase (userEmail u)
                    then Inl (BusinessRule ''INVITATION_EMAIL_MISMATCH'')
                    else if memberRepo_findMember (invWorkspaceId invite) user s \<noteq> None
                    then Inl (BusinessRule ''ALREADY_A_MEMBER'')
                    else Inr invite)))"

definition accept_transaction :: "uuid \<Rightarrow> instant \<Rightarrow> invitation_row \<Rightarrow> uuid \<Rightarrow> db \<Rightarrow> member_row outcome" where
  [op_defs]: "accept_transaction newId now invite user s =
     (let m = \<lparr>memId = newId, memWorkspaceId = invWorkspaceId invite, memUserId = user, memRole = invRole invite,
               memJoinedAt = now\<rparr>
      in or_conflict (insert_member m (members s))
           (\<lambda>mrows _. or_missing (update_by invId (invId invite)
                (\<lambda>x. x\<lparr>invStatus := Accepted, invAcceptedAt := Some now\<rparr>) (invitations s))
              (\<lambda>(_, irows) s. (Inr m, s\<lparr>members := mrows, invitations := irows\<rparr>)) s) s)"

definition invitationService_acceptInvitation ::
  "crypto \<Rightarrow> uuid \<Rightarrow> instant \<Rightarrow> string \<Rightarrow> uuid \<Rightarrow> db \<Rightarrow> member_row outcome" where
  [op_defs]: "invitationService_acceptInvitation cr newId now token user s =
     (case accept_check cr now token user s of
        Inl e \<Rightarrow> (Inl e, s)
      | Inr invite \<Rightarrow>
          await (accept_transaction newId now invite user s)
            (\<lambda>m s. (Inr m, emit (MemberAdded (invWorkspaceId invite) user (invRole invite)) s)))"

definition invitationService_revokeInvitation :: "uuid \<Rightarrow> uuid \<Rightarrow> db \<Rightarrow> unit outcome" where
  [op_defs]: "invitationService_revokeInvitation ws i s =
     (case invitationRepo_findById i s of
        None \<Rightarrow> (Inl (EntityNotFound ''WorkspaceInvitation'' i), s)
      | Some invite \<Rightarrow>
          if invWorkspaceId invite \<noteq> ws \<or> invStatus invite \<noteq> Pending
          then (Inl (EntityNotFound ''WorkspaceInvitation'' i), s)
          else await (invitationRepo_updateStatus i Revoked None s) (\<lambda>_ s. (Inr (), s)))"

section \<open>What acceptance needs and does\<close>

lemma accept_check_Inr_iff:
  "accept_check cr now token user s = Inr invite \<longleftrightarrow>
     invitationRepo_findByToken (hashToken cr token) s = Some invite \<and> invStatus invite = Pending \<and>
     now \<le> invExpiresAt invite \<and> workspaceRepo_findById (invWorkspaceId invite) s \<noteq> None \<and>
     (\<exists>u. authService_getProfile user s = Inr u \<and> toLowerCase (invEmail invite) = toLowerCase (userEmail u)) \<and>
     memberRepo_findMember (invWorkspaceId invite) user s = None"
  by (auto simp: accept_check_def split: option.splits sum.splits if_splits)

lemma invite_check_None_iff:
  "invite_check now ws dto invitedBy s = None \<longleftrightarrow>
     workspaceRepo_findById ws s \<noteq> None \<and>
     (map_option memRole (memberRepo_findMember ws invitedBy s) = Some Admin \<longrightarrow> imRole dto \<notin> {Owner, Admin}) \<and>
     \<not> already_member ws (imEmail dto) s \<and>
     invitationRepo_findPendingByEmailAndWorkspace now (imEmail dto) ws s = None"
  by (auto simp: invite_check_def membershipService_requireWorkspace_def split: option.splits if_splits)

lemma insert_member_Some_iff:
  "insert_member m rows = Some rows' \<longleftrightarrow>
     rows' = rows @ [m] \<and> memId m \<notin> memId ` set rows \<and>
     (\<forall>x\<in>set rows. (memWorkspaceId x, memUserId x) \<noteq> (memWorkspaceId m, memUserId m))"
  by (auto simp: insert_member_def insert_row_Some_iff list_ex_iff)

lemma accept_transaction_Inr_iff:
  "accept_transaction newId now invite user s = (Inr m, s') \<longleftrightarrow>
     m = \<lparr>memId = newId, memWorkspaceId = invWorkspaceId invite, memUserId = user, memRole = invRole invite,
          memJoinedAt = now\<rparr> \<and>
     newId \<notin> memId ` set (members s) \<and>
     (\<forall>x\<in>set (members s). (memWorkspaceId x, memUserId x) \<noteq> (invWorkspaceId invite, user)) \<and>
     find (\<lambda>x. invId x = invId invite) (invitations s) \<noteq> None \<and>
     s' = s\<lparr>members := members s @ [m],
            invitations := map (\<lambda>x. if invId x = invId invite then x\<lparr>invStatus := Accepted, invAcceptedAt := Some now\<rparr>
              else x) (invitations s)\<rparr>"
  by (auto simp: accept_transaction_def or_conflict_Inr_iff or_missing_Inr_iff insert_member_Some_iff
      update_by_Some_iff Let_def)

end
