(* ===== verification/Ownership.thy ===== *)
theory Ownership
  imports Invitations Samples
begin

text \<open>
  Who owns a workspace. \<open>ownership_ok\<close> says that every workspace has an owner among its members and
  that the owner an active workspace row names is one of them; every operation that runs alone keeps
  it (\<open>workspace_step\<close>). Two operations whose reads both precede their writes do not.
\<close>

section \<open>The invariant\<close>

definition owner_in :: "uuid \<Rightarrow> uuid \<Rightarrow> member_row list \<Rightarrow> bool" where
  "owner_in ws user rows \<longleftrightarrow> (\<exists>m\<in>set rows. memWorkspaceId m = ws \<and> memUserId m = user \<and> memRole m = Owner)"

definition has_owner :: "uuid \<Rightarrow> member_row list \<Rightarrow> bool" where
  "has_owner ws rows \<longleftrightarrow> (\<exists>m\<in>set rows. memWorkspaceId m = ws \<and> memRole m = Owner)"

definition member_table_ok :: "member_row list \<Rightarrow> bool" where
  "member_table_ok rows \<longleftrightarrow> unique_key memId rows \<and> unique_key (\<lambda>m. (memWorkspaceId m, memUserId m)) rows"

definition owners_ok :: "workspace_row list \<Rightarrow> member_row list \<Rightarrow> bool" where
  "owners_ok wss rows \<longleftrightarrow> (\<forall>w\<in>set wss. has_owner (wsId w) rows \<and>
     (wsArchivedAt w = None \<longrightarrow> owner_in (wsId w) (wsOwnerId w) rows))"

definition ownership_ok :: "db \<Rightarrow> bool" where
  "ownership_ok s \<longleftrightarrow> member_table_ok (members s) \<and> unique_key wsId (workspaces s) \<and>
     owners_ok (workspaces s) (members s)"

lemma owner_in_has: "owner_in ws u rows \<Longrightarrow> has_owner ws rows"
  by (auto simp: owner_in_def has_owner_def)

lemma has_owner_iff: "has_owner ws rows \<longleftrightarrow> (\<exists>u. owner_in ws u rows)"
  by (auto simp: owner_in_def has_owner_def)

lemma ownership_okD:
  assumes "ownership_ok s"
  shows "unique_key memId (members s)" "unique_key (\<lambda>m. (memWorkspaceId m, memUserId m)) (members s)"
    "unique_key wsId (workspaces s)" "owners_ok (workspaces s) (members s)"
  using assms by (simp_all add: ownership_ok_def member_table_ok_def)

lemma same_member:
  assumes "member_table_ok rows" "m \<in> set rows" "x \<in> set rows"
  shows "memId x = memId m \<longleftrightarrow> x = m" "memWorkspaceId x = memWorkspaceId m \<and> memUserId x = memUserId m \<longleftrightarrow> x = m"
  using assms by (auto simp: member_table_ok_def dest: unique_keyD)

section \<open>Changing one member\<close>

definition with_role :: "uuid \<Rightarrow> workspace_role \<Rightarrow> member_row list \<Rightarrow> member_row list" where
  "with_role i role rows = map (\<lambda>m. if memId m = i then m\<lparr>memRole := role\<rparr> else m) rows"

definition without :: "uuid \<Rightarrow> member_row list \<Rightarrow> member_row list" where
  "without i rows = filter (\<lambda>m. memId m \<noteq> i) rows"

lemma updateRole_Inr_iff:
  "memberRepo_updateRole i role s = (Inr r, s') \<longleftrightarrow>
     (\<exists>m. find (\<lambda>m. memId m = i) (members s) = Some m \<and> r = m\<lparr>memRole := role\<rparr>) \<and>
     s' = s\<lparr>members := with_role i role (members s)\<rparr>"
  by (auto simp: memberRepo_updateRole_def or_missing_Inr_iff update_by_Some_iff with_role_def)

lemma removeMember_Inr_iff:
  "memberRepo_removeMember i s = (Inr r, s') \<longleftrightarrow>
     (\<exists>m. find (\<lambda>m. memId m = i) (members s) = Some m) \<and> s' = s\<lparr>members := without i (members s)\<rparr>"
  by (auto simp: memberRepo_removeMember_def or_missing_Inr_iff delete_by_Some_iff without_def)

lemma atomic_member_repo: "atomic (memberRepo_updateRole i role)" "atomic (memberRepo_removeMember i)"
  by (auto simp: atomic_def memberRepo_updateRole_def memberRepo_removeMember_def or_missing_def
      split: option.splits)

lemma with_role_table [simp]: "member_table_ok (with_role i role rows) = member_table_ok rows"
proof -
  have "map memId (with_role i role rows) = map memId rows"
    "map (\<lambda>m. (memWorkspaceId m, memUserId m)) (with_role i role rows) = map (\<lambda>m. (memWorkspaceId m, memUserId m)) rows"
    by (auto simp: with_role_def)
  then show ?thesis by (simp add: member_table_ok_def unique_key_def)
qed

lemma without_table: "member_table_ok rows \<Longrightarrow> member_table_ok (without i rows)"
  by (simp add: member_table_ok_def without_def unique_key_filter)

lemma owner_in_with_role:
  assumes "member_table_ok rows" "m \<in> set rows"
  shows "owner_in ws u (with_role (memId m) role rows) \<longleftrightarrow>
    (if ws = memWorkspaceId m \<and> u = memUserId m then role = Owner else owner_in ws u rows)"
proof -
  have map: "with_role (memId m) role rows = map (\<lambda>x. if x = m then x\<lparr>memRole := role\<rparr> else x) rows"
    unfolding with_role_def using same_member(1) [OF assms] by (intro map_cong) auto
  show ?thesis
  proof (cases "ws = memWorkspaceId m \<and> u = memUserId m")
    case True
    have "x = m" if "x \<in> set rows" "memWorkspaceId x = ws" "memUserId x = u" for x
      using same_member(2) [OF assms that(1)] that(2,3) True by simp
    then show ?thesis unfolding map owner_in_def using True assms(2) by (auto split: if_splits)
  next
    case False
    then show ?thesis unfolding map owner_in_def by (auto split: if_splits)
  qed
qed

lemma owner_in_without:
  assumes "member_table_ok rows" "m \<in> set rows"
  shows "owner_in ws u (without (memId m) rows) \<longleftrightarrow>
    \<not> (ws = memWorkspaceId m \<and> u = memUserId m) \<and> owner_in ws u rows"
  using same_member [OF assms] unfolding without_def owner_in_def by auto

text \<open>Two owner rows of one workspace belong to two users.\<close>

lemma other_owner:
  assumes "member_table_ok (members s)" "m \<in> set (members s)" "memWorkspaceId m = ws"
    and "2 \<le> memberRepo_countOwners ws s"
  shows "\<exists>u. u \<noteq> memUserId m \<and> owner_in ws u (members s)"
proof (rule ccontr)
  assume none: "\<not> (\<exists>u. u \<noteq> memUserId m \<and> owner_in ws u (members s))"
  let ?own = "filter (\<lambda>m. memWorkspaceId m = ws \<and> memRole m = Owner) (members s)"
  have "x = m" if "x \<in> set ?own" for x
    using that none same_member(2) [OF assms(1,2), of x] assms(3) by (auto simp: owner_in_def)
  then have "set ?own \<subseteq> {m}" by blast
  moreover have "distinct ?own"
    using assms(1) by (simp add: member_table_ok_def unique_key_def distinct_map)
  ultimately have "length ?own \<le> 1"
    by (metis card_mono distinct_card finite.emptyI finite_insert is_singletonI is_singleton_altdef)
  with assms(4) show False by (simp add: memberRepo_countOwners_def)
qed

section \<open>Workspace rows\<close>

lemma workspace_update_Inr:
  assumes "workspaceRepo_update i data s = (Inr row, s')"
  shows "s' = s\<lparr>workspaces := map (\<lambda>w. if wsId w = i then data w else w) (workspaces s)\<rparr>"
  using assms by (auto simp: workspaceRepo_update_def or_missing_Inr_iff update_by_Some_iff split: if_splits)

lemma atomic_workspace_update: "atomic (workspaceRepo_update i data)"
  by (auto simp: atomic_def workspaceRepo_update_def or_missing_def split: option.splits if_splits)

lemma find_workspace_SomeD:
  assumes "workspaceRepo_findById i s = Some w"
  shows "w \<in> set (workspaces s)" "wsId w = i" "wsArchivedAt w = None"
  using assms by (auto simp: workspaceRepo_findById_def dest!: find_SomeD)

lemma findOtherOwner_cases:
  "memberRepo_findOtherOwner ws u s = None \<Longrightarrow> owner_in ws v (members s) \<Longrightarrow> v = u"
  "memberRepo_findOtherOwner ws u s = Some n \<Longrightarrow> owner_in ws (memUserId n) (members s) \<and> memUserId n \<noteq> u"
  by (auto simp: memberRepo_findOtherOwner_def owner_in_def find_None_iff dest!: find_SomeD)

text \<open>Naming an owner of the workspace in its row.\<close>

lemma ownership_ok_owner_row:
  assumes "ownership_ok s" "owner_in ws user (members s)"
  shows "ownership_ok (s\<lparr>workspaces := map (\<lambda>w. if wsId w = ws then w\<lparr>wsOwnerId := user\<rparr> else w) (workspaces s)\<rparr>)"
proof -
  let ?f = "\<lambda>w. if wsId w = ws then w\<lparr>wsOwnerId := user\<rparr> else w"
  note ok = ownership_okD [OF assms(1)]
  have "has_owner (wsId (?f w)) (members s) \<and>
      (wsArchivedAt (?f w) = None \<longrightarrow> owner_in (wsId (?f w)) (wsOwnerId (?f w)) (members s))"
    if "w \<in> set (workspaces s)" for w
    using that ok(4) assms(2) by (cases "wsId w = ws") (simp_all add: owners_ok_def owner_in_has)
  then have "owners_ok (map ?f (workspaces s)) (members s)" unfolding owners_ok_def set_map by blast
  moreover have "unique_key wsId (map ?f (workspaces s))" using ok(3) by (subst unique_key_map) simp_all
  ultimately show ?thesis using assms(1) by (simp add: ownership_ok_def)
qed

text \<open>
  After the hand-over the members are as before, and no active row of the workspace names the
  departing user when there is another owner to name.
\<close>

lemma hand_over_ok:
  assumes "hand_over ws user s = (r, s1)" "ownership_ok s"
  shows "members s1 = members s \<and> ownership_ok s1 \<and>
    (r = Inr () \<longrightarrow> (\<exists>u. u \<noteq> user \<and> owner_in ws u (members s)) \<longrightarrow>
      (\<forall>w\<in>set (workspaces s1). wsId w = ws \<longrightarrow> wsArchivedAt w = None \<longrightarrow> wsOwnerId w \<noteq> user))"
proof -
  note ok = ownership_okD [OF assms(2)]
  have found: "w' = w" if "w \<in> set (workspaces s)" "w' \<in> set (workspaces s)" "wsId w = ws" "wsId w' = ws" for w w'
    using that ok(3) by (auto dest: unique_keyD)
  show ?thesis
  proof (cases "workspaceRepo_findById ws s")
    case None
    then have none: "\<forall>w\<in>set (workspaces s). wsId w = ws \<longrightarrow> wsArchivedAt w \<noteq> None"
      by (auto simp: workspaceRepo_findById_def find_None_iff)
    have "s1 = s" using None assms(1) by (simp add: hand_over_def)
    with assms(2) none show ?thesis by blast
  next
    case (Some w)
    note w = find_workspace_SomeD [OF Some]
    show ?thesis
    proof (cases "wsOwnerId w = user")
      case False
      with Some assms w found show ?thesis by (auto simp: hand_over_def)
    next
      case True
      show ?thesis
      proof (cases "memberRepo_findOtherOwner ws user s")
        case None
        with Some True assms show ?thesis by (auto simp: hand_over_def dest: findOtherOwner_cases(1))
      next
        case (Some n)
        note n = findOtherOwner_cases(2) [OF Some]
        let ?f = "\<lambda>w. w\<lparr>wsOwnerId := memUserId n\<rparr>"
        obtain q s2 where run: "workspaceRepo_update ws ?f s = (q, s2)" by (metis surj_pair)
        have r: "(r, s1) = await (q, s2) (\<lambda>_ s. (Inr (), s))"
          using assms(1) Some True run \<open>workspaceRepo_findById ws s = Some w\<close> by (simp add: hand_over_def)
        show ?thesis
        proof (cases q)
          case (Inl e)
          with r run assms(2) show ?thesis by (auto dest: atomicD [OF atomic_workspace_update])
        next
          case (Inr x)
          with run have s2: "s2 = s\<lparr>workspaces := map (\<lambda>w. if wsId w = ws then ?f w else w) (workspaces s)\<rparr>"
            by (auto dest: workspace_update_Inr)
          have "ownership_ok s2" unfolding s2
            by (rule ownership_ok_owner_row [OF assms(2)]) (use n in simp)
          moreover have "\<forall>w\<in>set (workspaces s2). wsId w = ws \<longrightarrow> wsOwnerId w \<noteq> user"
          proof -
            have rows: "workspaces s2 = map (\<lambda>w. if wsId w = ws then ?f w else w) (workspaces s)" by (simp add: s2)
            have "wsId (if wsId w = ws then ?f w else w) = ws \<longrightarrow> wsOwnerId (if wsId w = ws then ?f w else w) \<noteq> user" for w
              using n by simp
            then show ?thesis unfolding rows set_map by (intro ballI) (elim imageE, simp only:)
          qed
          moreover have "members s2 = members s" by (simp add: s2)
          ultimately show ?thesis using r Inr by simp
        qed
      qed
    qed
  qed
qed

section \<open>Losing an owner\<close>

text \<open>A member table in which only \<open>user\<close> of \<open>ws\<close> may have stopped being an owner.\<close>

lemma ownership_ok_drop:
  assumes "ownership_ok s" "member_table_ok rows"
    and "\<And>w u. \<not> (w = ws \<and> u = user) \<Longrightarrow> owner_in w u (members s) \<Longrightarrow> owner_in w u rows"
    and "u \<noteq> user" "owner_in ws u (members s)"
    and "\<forall>w\<in>set (workspaces s). wsId w = ws \<longrightarrow> wsArchivedAt w = None \<longrightarrow> wsOwnerId w \<noteq> user"
  shows "ownership_ok (s\<lparr>members := rows\<rparr>)"
proof -
  have "has_owner (wsId w) rows" if "w \<in> set (workspaces s)" for w
  proof (cases "wsId w = ws")
    case True
    with assms(3-5) show ?thesis by (auto intro: owner_in_has)
  next
    case False
    from that assms(1) obtain v where "owner_in (wsId w) v (members s)"
      by (auto simp: ownership_ok_def owners_ok_def has_owner_iff)
    with assms(3) False show ?thesis by (auto intro: owner_in_has)
  qed
  moreover have "owner_in (wsId w) (wsOwnerId w) rows" if "w \<in> set (workspaces s)" "wsArchivedAt w = None" for w
    using that assms(1,3,6) by (auto simp: ownership_ok_def owners_ok_def)
  ultimately show ?thesis using assms(1,2) by (simp add: ownership_ok_def owners_ok_def)
qed

text \<open>Nobody stops being an owner.\<close>

lemma ownership_ok_mono:
  assumes "ownership_ok s" "member_table_ok rows"
    and "\<And>w u. owner_in w u (members s) \<Longrightarrow> owner_in w u rows"
  shows "ownership_ok (s\<lparr>members := rows\<rparr>)"
  using assms by (simp add: ownership_ok_def owners_ok_def has_owner_iff) blast

lemma ownership_ok_emit [simp]: "ownership_ok (emit e s) = ownership_ok s"
  by (simp add: ownership_ok_def)

section \<open>The operations\<close>

lemma check_member:
  "memberRepo_findMemberById i s = Some m \<Longrightarrow> m \<in> set (members s)"
  "memberRepo_findMember ws user s = Some m \<Longrightarrow> m \<in> set (members s)"
  by (auto simp: memberRepo_findMemberById_def memberRepo_findMember_def dest: find_SomeD)

text \<open>The write half of a removal, for a member the check admitted.\<close>

lemma removal_commit_ok:
  assumes "removal_commit ws m event s = (r, s')" "ownership_ok s" "m \<in> set (members s)" "memWorkspaceId m = ws"
    and "memRole m = Owner \<longrightarrow> 2 \<le> memberRepo_countOwners ws s"
  shows "ownership_ok s'"
proof -
  let ?hand = "if memRole m = Owner then hand_over ws (memUserId m) s else (Inr (), s)"
  obtain q s1 where hand: "?hand = (q, s1)" by (metis surj_pair)
  have mt: "member_table_ok (members s)" using assms(2) by (simp add: ownership_ok_def)
  have s1: "members s1 = members s" "ownership_ok s1"
    using hand hand_over_ok [of ws "memUserId m" s q s1] assms(2) by (auto split: if_splits)
  have run: "(r, s') = await (q, s1) (\<lambda>_ s. await (memberRepo_removeMember (memId m) s) (\<lambda>_ s. (Inr (), emit event s)))"
    using assms(1) hand by (simp add: removal_commit_def)
  show ?thesis
  proof (cases q)
    case (Inl e)
    with run s1 show ?thesis by simp
  next
    case (Inr x)
    obtain q2 s2 where rem: "memberRepo_removeMember (memId m) s1 = (q2, s2)" by (metis surj_pair)
    show ?thesis
    proof (cases q2)
      case (Inl e)
      with rem have "s2 = s1" by (auto dest: atomicD [OF atomic_member_repo(2)])
      with run Inr rem Inl s1 show ?thesis by simp
    next
      case (Inr y)
      with rem have s2: "s2 = s1\<lparr>members := without (memId m) (members s)\<rparr>"
        using s1(1) by (auto simp: removeMember_Inr_iff)
      have "ownership_ok s2"
      proof (cases "memRole m = Owner")
        case True
        with assms(5) other_owner [OF mt assms(3,4)] obtain u where u: "u \<noteq> memUserId m" "owner_in ws u (members s)"
          by blast
        have named: "\<forall>w\<in>set (workspaces s1). wsId w = ws \<longrightarrow> wsArchivedAt w = None \<longrightarrow> wsOwnerId w \<noteq> memUserId m"
          using hand True \<open>q = Inr x\<close> u hand_over_ok [of ws "memUserId m" s q s1] assms(2) by auto
        show ?thesis unfolding s2
        proof (rule ownership_ok_drop [OF s1(2) without_table [OF mt] _ u(1) _ named])
          show "owner_in w v (without (memId m) (members s))"
            if "\<not> (w = ws \<and> v = memUserId m)" "owner_in w v (members s1)" for w v
            using that s1(1) owner_in_without [OF mt assms(3), of w v] assms(4) by auto
        qed (use u s1(1) in simp)
      next
        case False
        have "owner_in w v (without (memId m) (members s))" if "owner_in w v (members s1)" for w v
        proof -
          from that s1(1) obtain x where x: "x \<in> set (members s)" "memWorkspaceId x = w" "memUserId x = v" "memRole x = Owner"
            by (auto simp: owner_in_def)
          with same_member(2) [OF mt assms(3) x(1)] False have "\<not> (w = memWorkspaceId m \<and> v = memUserId m)" by auto
          with that s1(1) owner_in_without [OF mt assms(3)] show ?thesis by simp
        qed
        then show ?thesis unfolding s2 by (rule ownership_ok_mono [OF s1(2) without_table [OF mt]])
      qed
      with run \<open>q = Inr x\<close> rem Inr show ?thesis by simp
    qed
  qed
qed

lemma role_change_commit_ok:
  assumes "role_change_commit ws m role s = (r, s')" "ownership_ok s" "m \<in> set (members s)" "memWorkspaceId m = ws"
    and "memRole m = Owner \<and> role \<noteq> Owner \<longrightarrow> 2 \<le> memberRepo_countOwners ws s"
  shows "ownership_ok s'"
proof -
  let ?drop = "memRole m = Owner \<and> role \<noteq> Owner"
  obtain q s1 where hand: "(if ?drop then hand_over ws (memUserId m) s else (Inr (), s)) = (q, s1)" by (metis surj_pair)
  have mt: "member_table_ok (members s)" using assms(2) by (simp add: ownership_ok_def)
  have s1: "members s1 = members s" "ownership_ok s1"
    using hand hand_over_ok [of ws "memUserId m" s q s1] assms(2) by (auto split: if_splits)
  have run: "(r, s') = await (q, s1) (\<lambda>_ s. await (memberRepo_updateRole (memId m) role s)
      (\<lambda>updated s. (Inr updated, emit (MemberRoleChanged ws (memUserId m) (memRole m) role) s)))"
    using assms(1) hand by (simp add: role_change_commit_def)
  show ?thesis
  proof (cases q)
    case (Inl e)
    with run s1 show ?thesis by simp
  next
    case (Inr x)
    obtain q2 s2 where upd: "memberRepo_updateRole (memId m) role s1 = (q2, s2)" by (metis surj_pair)
    show ?thesis
    proof (cases q2)
      case (Inl e)
      with upd have "s2 = s1" by (auto dest: atomicD [OF atomic_member_repo(1)])
      with run Inr upd Inl s1 show ?thesis by simp
    next
      case (Inr y)
      with upd have s2: "s2 = s1\<lparr>members := with_role (memId m) role (members s)\<rparr>"
        using s1(1) by (auto simp: updateRole_Inr_iff)
      note own = owner_in_with_role [OF mt assms(3), of _ _ role]
      have "ownership_ok s2"
      proof (cases ?drop)
        case True
        with assms(5) other_owner [OF mt assms(3,4)] obtain u where u: "u \<noteq> memUserId m" "owner_in ws u (members s)"
          by blast
        have named: "\<forall>w\<in>set (workspaces s1). wsId w = ws \<longrightarrow> wsArchivedAt w = None \<longrightarrow> wsOwnerId w \<noteq> memUserId m"
          using hand True \<open>q = Inr x\<close> u hand_over_ok [of ws "memUserId m" s q s1] assms(2) by auto
        show ?thesis unfolding s2
        proof (rule ownership_ok_drop [OF s1(2) _ _ u(1) _ named])
          show "owner_in w v (with_role (memId m) role (members s))"
            if "\<not> (w = ws \<and> v = memUserId m)" "owner_in w v (members s1)" for w v
            using that s1(1) own [of w v] assms(4) by auto
        qed (use u mt s1(1) in simp_all)
      next
        case False
        have "owner_in w v (with_role (memId m) role (members s))" if "owner_in w v (members s1)" for w v
        proof -
          from that s1(1) obtain x where x: "x \<in> set (members s)" "memWorkspaceId x = w" "memUserId x = v" "memRole x = Owner"
            by (auto simp: owner_in_def)
          then have "memRole m = Owner" if "w = memWorkspaceId m \<and> v = memUserId m"
            using same_member(2) [OF mt assms(3) x(1)] that by auto
          with that s1(1) own False show ?thesis by auto
        qed
        then show ?thesis unfolding s2 by (rule ownership_ok_mono [OF s1(2) with_role_table [THEN iffD2, OF mt]])
      qed
      with run \<open>q = Inr x\<close> upd Inr show ?thesis by simp
    qed
  qed
qed

lemma updateMemberRole_ok:
  assumes "membershipService_updateMemberRole ws i role actor s = (r, s')" "ownership_ok s"
  shows "ownership_ok s'"
proof (cases "role_change_check ws i role actor s")
  case (Inl e)
  with assms show ?thesis by (simp add: membershipService_updateMemberRole_def)
next
  case (Inr m)
  from assms(1) Inr have "role_change_commit ws m role s = (r, s')"
    by (simp add: membershipService_updateMemberRole_def)
  with role_change_commit_ok [OF _ assms(2)] Inr [unfolded role_change_check_Inr_iff] check_member(1)
  show ?thesis by blast
qed

lemma removeMember_ok:
  assumes "membershipService_removeMember ws i actor s = (r, s')" "ownership_ok s"
  shows "ownership_ok s'"
proof (cases "removal_check ws i actor s")
  case (Inl e)
  with assms show ?thesis by (simp add: membershipService_removeMember_def)
next
  case (Inr m)
  from assms(1) Inr have "removal_commit ws m (MemberRemoved ws (memUserId m)) s = (r, s')"
    by (simp add: membershipService_removeMember_def)
  with removal_commit_ok [OF _ assms(2)] Inr [unfolded removal_check_Inr_iff] check_member(1)
  show ?thesis by blast
qed

lemma leaveWorkspace_ok:
  assumes "membershipService_leaveWorkspace ws user s = (r, s')" "ownership_ok s"
  shows "ownership_ok s'"
proof (cases "departure_check ws user s")
  case (Inl e)
  with assms show ?thesis by (simp add: membershipService_leaveWorkspace_def)
next
  case (Inr m)
  then have m: "memberRepo_findMember ws user s = Some m" "memRole m = Owner \<longrightarrow> 2 \<le> memberRepo_countOwners ws s"
    by (simp_all add: departure_check_Inr_iff)
  from assms(1) Inr have "removal_commit ws m (MemberLeft ws user) s = (r, s')"
    by (simp add: membershipService_leaveWorkspace_def)
  with removal_commit_ok [OF _ assms(2)] memberRepo_findMember_SomeD [OF m(1)] m(2) show ?thesis by blast
qed

text \<open>The transfer names the new owner in both tables at once.\<close>

lemma transfer_transaction_ok:
  assumes "transfer_transaction ws (memId m) (memId t) user s = (r, s')" "ownership_ok s"
    and "m \<in> set (members s)" "t \<in> set (members s)" "memWorkspaceId m = ws" "memWorkspaceId t = ws" "memUserId t = user"
  shows "ownership_ok s' \<and> (\<forall>x. r = Inr x \<longrightarrow> owner_in ws user (members s'))"
proof (cases r)
  case (Inl e)
  with assms(1,2) show ?thesis by (auto simp: transfer_transaction_def split: prod.splits sum.splits)
next
  case (Inr x)
  let ?rows1 = "with_role (memId m) Admin (members s)"
  let ?rows2 = "with_role (memId t) Owner ?rows1"
  let ?f = "\<lambda>w. if wsId w = ws then w\<lparr>wsOwnerId := user\<rparr> else w"
  have mt: "member_table_ok (members s)" using assms(2) by (simp add: ownership_ok_def)
  from assms(1) Inr have "await (memberRepo_updateRole (memId m) Admin s)
      (\<lambda>_ s. await (memberRepo_updateRole (memId t) Owner s)
        (\<lambda>updated s. await (workspaceRepo_update ws (\<lambda>w. w\<lparr>wsOwnerId := user\<rparr>) s) (\<lambda>_ s. (Inr updated, s)))) = (Inr x, s')"
    by (auto simp: transfer_transaction_def split: prod.splits sum.splits)
  then have s': "s' = s\<lparr>members := ?rows2, workspaces := map ?f (workspaces s)\<rparr>"
    by (auto simp: await_Inr_iff updateRole_Inr_iff dest!: workspace_update_Inr)
  let ?t = "if memId t = memId m then t\<lparr>memRole := Admin\<rparr> else t"
  have "?t \<in> set ?rows1" unfolding with_role_def set_map using assms(4) by (rule imageI)
  moreover have "memId ?t = memId t" "memWorkspaceId ?t = ws" "memUserId ?t = user"
    using assms(6,7) by simp_all
  ultimately obtain t1 where t1: "t1 \<in> set ?rows1" "memId t1 = memId t" "memWorkspaceId t1 = ws" "memUserId t1 = user"
    by blast
  have own1: "owner_in w u ?rows1 \<longleftrightarrow> \<not> (w = ws \<and> u = memUserId m) \<and> owner_in w u (members s)" for w u
    using owner_in_with_role [OF mt assms(3), of w u Admin] assms(5) by simp
  have own2: "owner_in w u ?rows2 \<longleftrightarrow> (w = ws \<and> u = user) \<or> owner_in w u ?rows1" for w u
    using owner_in_with_role [of ?rows1 t1 w u Owner] mt t1 by auto
  have new: "owner_in ws user ?rows2" by (simp add: own2)
  have keep: "owner_in w u ?rows2" if "w \<noteq> ws" "owner_in w u (members s)" for w u
    using that by (simp add: own1 own2)
  have "has_owner (wsId (?f w)) ?rows2 \<and>
      (wsArchivedAt (?f w) = None \<longrightarrow> owner_in (wsId (?f w)) (wsOwnerId (?f w)) ?rows2)" if "w \<in> set (workspaces s)" for w
  proof (cases "wsId w = ws")
    case True
    with new show ?thesis by (auto intro: owner_in_has)
  next
    case False
    with that assms(2) have "\<exists>u. owner_in (wsId w) u (members s)"
      "wsArchivedAt w = None \<longrightarrow> owner_in (wsId w) (wsOwnerId w) (members s)"
      by (auto simp: ownership_ok_def owners_ok_def has_owner_iff)
    with False keep show ?thesis by (auto intro: owner_in_has)
  qed
  then have "owners_ok (map ?f (workspaces s)) ?rows2" unfolding owners_ok_def set_map by blast
  moreover have "unique_key wsId (map ?f (workspaces s))"
    using ownership_okD(3) [OF assms(2)] by (subst unique_key_map) simp_all
  ultimately show ?thesis using mt new by (simp add: s' ownership_ok_def)
qed

lemma transferOwnership_ok:
  assumes "membershipService_transferOwnership ws current user s = (r, s')" "ownership_ok s"
  shows "ownership_ok s' \<and> (\<forall>x. r = Inr x \<longrightarrow> owner_in ws user (members s'))"
proof (cases "\<exists>m t. memberRepo_findMember ws current s = Some m \<and> memRole m = Owner \<and> memberRepo_findMember ws user s = Some t")
  case False
  with assms show ?thesis
    by (auto simp: membershipService_transferOwnership_def split: option.splits if_splits)
next
  case True
  then obtain m t where m: "memberRepo_findMember ws current s = Some m" "memRole m = Owner"
    and t: "memberRepo_findMember ws user s = Some t" by blast
  obtain q s1 where tr: "transfer_transaction ws (memId m) (memId t) user s = (q, s1)" by (metis surj_pair)
  from memberRepo_findMember_SomeD [OF m(1)] memberRepo_findMember_SomeD [OF t]
  have "ownership_ok s1 \<and> (\<forall>x. q = Inr x \<longrightarrow> owner_in ws user (members s1))"
    by (intro transfer_transaction_ok [OF tr assms(2)]) auto
  moreover have "(r, s') = await (q, s1) (\<lambda>updated s. (Inr updated, emit (OwnershipTransferred ws current user) s))"
    using assms(1) m t tr by (simp add: membershipService_transferOwnership_def)
  ultimately show ?thesis by (cases q) auto
qed

text \<open>Creating, editing and archiving a workspace, accepting an invitation.\<close>

lemma createWithOwner_fail:
  "workspaceRepo_createWorkspaceWithOwner i j now n slug d a u s = (Inl e, s') \<Longrightarrow> s' = s"
  by (auto simp: workspaceRepo_createWorkspaceWithOwner_def or_conflict_def Let_def split: option.splits)

lemma createWithOwner_Inr:
  assumes "workspaceRepo_createWorkspaceWithOwner newId newMem now n slug d a u s = (Inr w, s')"
  shows "s' = s\<lparr>workspaces := workspaces s @ [w],
      members := members s @ [\<lparr>memId = newMem, memWorkspaceId = newId, memUserId = u, memRole = Owner, memJoinedAt = now\<rparr>]\<rparr>"
    "wsId w = newId" "wsOwnerId w = u" "wsSlug w = slug" "wsName w = n" "newId \<notin> wsId ` set (workspaces s)"
    "newMem \<notin> memId ` set (members s)" "\<forall>x\<in>set (workspaces s). wsSlug x \<noteq> slug"
    "\<forall>x\<in>set (members s). (memWorkspaceId x, memUserId x) \<noteq> (newId, u)"
  using assms
  by (auto simp: workspaceRepo_createWorkspaceWithOwner_def or_conflict_Inr_iff insert_member_Some_iff
      insert_row_Some_iff Let_def list_ex_iff split: if_splits)

lemma create_loop_cases:
  assumes "workspace_create_loop ids now dto user slug draws s = Some (r, s')"
  shows "s' = s \<or> (\<exists>newId newMem slug w s1. r = Inr w \<and> s' = emit (WorkspaceCreated w user) s1 \<and>
    workspaceRepo_createWorkspaceWithOwner newId newMem now (cwName dto) slug (cwDescription dto) (cwAvatarUrl dto) user s =
      (Inr w, s1))"
  using assms
proof (induction ids arbitrary: slug draws)
  case (Cons x ids)
  obtain newId newMem where x: "x = (newId, newMem)" by (cases x)
  obtain q s1 where run: "workspaceRepo_createWorkspaceWithOwner newId newMem now (cwName dto) slug (cwDescription dto)
      (cwAvatarUrl dto) user s = (q, s1)" by (metis surj_pair)
  show ?case
  proof (cases q)
    case (Inl e)
    with run have "s1 = s" by (auto dest: createWithOwner_fail)
    with Cons.prems x run Inl Cons.IH show ?thesis
      by (auto split: if_splits option.splits prod.splits)
  next
    case (Inr w)
    with Cons.prems x run show ?thesis by auto
  qed
qed simp

lemma createWithOwner_ok:
  assumes "workspaceRepo_createWorkspaceWithOwner newId newMem now n slug d a u s = (Inr w, s')" "ownership_ok s"
  shows "ownership_ok s'"
proof -
  note new = createWithOwner_Inr [OF assms(1)]
  let ?m = "\<lparr>memId = newMem, memWorkspaceId = newId, memUserId = u, memRole = Owner, memJoinedAt = now\<rparr>"
  have mono: "owner_in w' u' (members s) \<longrightarrow> owner_in w' u' (members s @ [?m])"
    "has_owner w' (members s) \<longrightarrow> has_owner w' (members s @ [?m])" for w' u'
    by (auto simp: owner_in_def has_owner_def)
  have "owner_in newId u (members s @ [?m])" by (auto simp: owner_in_def)
  then have "owners_ok (workspaces s @ [w]) (members s @ [?m])"
    using ownership_okD(4) [OF assms(2)] mono new(2,3) by (auto simp: owners_ok_def intro: owner_in_has)
  moreover have "member_table_ok (members s @ [?m])"
    using ownership_okD(1,2) [OF assms(2)] new(7,9) by (auto simp: member_table_ok_def unique_key_def)
  moreover have "unique_key wsId (workspaces s @ [w])"
    using ownership_okD(3) [OF assms(2)] new(2,6) by (auto simp: unique_key_def)
  ultimately show ?thesis by (simp add: new(1) ownership_ok_def)
qed

lemma workspace_create_ok:
  assumes "workspaceService_create id1 id2 id3 draws now dto user s = Some (r, s')" "ownership_ok s"
  shows "ownership_ok s'"
proof -
  from assms(1) obtain slug draws' where "workspace_create_loop [id1, id2, id3] now dto user slug draws' s = Some (r, s')"
    by (auto simp: workspaceService_create_def split: option.splits prod.splits simp del: workspace_create_loop.simps)
  from create_loop_cases [OF this] assms(2) createWithOwner_ok show ?thesis by auto
qed

lemma workspace_update_ok:
  assumes "workspaceRepo_update i data s = (r, s')" "ownership_ok s"
    and "\<And>w. wsId (data w) = wsId w \<and> wsOwnerId (data w) = wsOwnerId w \<and>
      (wsArchivedAt (data w) = None \<longrightarrow> wsArchivedAt w = None)"
  shows "ownership_ok s'"
proof (cases r)
  case (Inl e)
  with assms(1,2) show ?thesis by (auto dest: atomicD [OF atomic_workspace_update])
next
  case (Inr x)
  let ?g = "\<lambda>w. if wsId w = i then data w else w"
  from assms(1) Inr have s': "s' = s\<lparr>workspaces := map ?g (workspaces s)\<rparr>" by (auto dest: workspace_update_Inr)
  have "has_owner (wsId (?g w)) (members s) \<and>
      (wsArchivedAt (?g w) = None \<longrightarrow> owner_in (wsId (?g w)) (wsOwnerId (?g w)) (members s))"
    if "w \<in> set (workspaces s)" for w
    using that ownership_okD(4) [OF assms(2)] assms(3) [of w] by (auto simp: owners_ok_def)
  then have "owners_ok (map ?g (workspaces s)) (members s)" unfolding owners_ok_def set_map by blast
  moreover have "unique_key wsId (map ?g (workspaces s))"
    using ownership_okD(3) [OF assms(2)] assms(3) by (subst unique_key_map) simp_all
  ultimately show ?thesis using assms(2) by (simp add: s' ownership_ok_def)
qed

lemma update_loop_ok:
  "workspace_update_loop n ws dto name slug draws s = Some (r, s') \<Longrightarrow> ownership_ok s \<Longrightarrow> ownership_ok s'"
proof (induction n arbitrary: slug draws)
  case (Suc n)
  let ?f = "\<lambda>w. (workspace_patch dto w)\<lparr>wsSlug := slug\<rparr>"
  obtain q s1 where run: "workspaceRepo_update ws ?f s = (q, s1)" by (metis surj_pair)
  have ok: "ownership_ok s1" by (rule workspace_update_ok [OF run Suc.prems(2)]) (simp add: workspace_patch_def)
  show ?case
  proof (cases q)
    case (Inl e)
    with run have "s1 = s" by (auto dest: atomicD [OF atomic_workspace_update])
    with Suc.prems run Inl Suc.IH show ?thesis by (auto split: if_splits option.splits prod.splits)
  next
    case (Inr w)
    with Suc.prems run ok show ?thesis by auto
  qed
qed simp

lemma workspaceService_update_ok:
  assumes "workspaceService_update draws ws dto s = Some (r, s')" "ownership_ok s"
  shows "ownership_ok s'"
  using assms workspace_update_ok [OF _ assms(2), of ws "workspace_patch dto"] update_loop_ok
  by (auto simp: workspaceService_update_def workspace_patch_def split: sum.splits option.splits prod.splits if_splits
      simp del: workspace_update_loop.simps)

lemma archive_ok:
  assumes "workspaceService_archive now ws s = (r, s')" "ownership_ok s"
  shows "ownership_ok s'"
proof (cases "workspaceService_findById ws s")
  case (Inl e)
  with assms show ?thesis by (simp add: workspaceService_archive_def)
next
  case (Inr w)
  obtain q s1 where run: "workspaceRepo_update ws (\<lambda>w. w\<lparr>wsArchivedAt := Some now\<rparr>) s = (q, s1)" by (metis surj_pair)
  have "ownership_ok s1" by (rule workspace_update_ok [OF run assms(2)]) simp
  with assms(1) Inr run show ?thesis by (cases q) (auto simp: workspaceService_archive_def workspaceRepo_archive_def)
qed

lemma accept_ok:
  assumes "invitationService_acceptInvitation cr newId now token user s = (r, s')" "ownership_ok s"
  shows "ownership_ok s'"
proof (cases "accept_check cr now token user s")
  case (Inl e)
  with assms show ?thesis by (simp add: invitationService_acceptInvitation_def)
next
  case (Inr invite)
  obtain q s1 where run: "accept_transaction newId now invite user s = (q, s1)" by (metis surj_pair)
  show ?thesis
  proof (cases q)
    case (Inl e)
    with run have "s1 = s"
      by (auto simp: accept_transaction_def or_conflict_def or_missing_def Let_def split: option.splits)
    with assms Inr run Inl show ?thesis by (simp add: invitationService_acceptInvitation_def)
  next
    case right: (Inr m)
    with run have m: "memId m \<notin> memId ` set (members s)"
      "\<forall>x\<in>set (members s). (memWorkspaceId x, memUserId x) \<noteq> (memWorkspaceId m, memUserId m)"
      "members s1 = members s @ [m]" "workspaces s1 = workspaces s"
      by (auto simp: accept_transaction_Inr_iff)
    have "member_table_ok (members s @ [m])"
      using ownership_okD(1,2) [OF assms(2)] m(1,2) by (auto simp: member_table_ok_def unique_key_def)
    then have "ownership_ok (s\<lparr>members := members s @ [m]\<rparr>)"
      by (rule ownership_ok_mono [OF assms(2)]) (auto simp: owner_in_def)
    with m(3,4) have "ownership_ok s1" by (simp add: ownership_ok_def)
    with assms(1) Inr run right show ?thesis by (auto simp: invitationService_acceptInvitation_def)
  qed
qed

section \<open>Workspaces in operation\<close>

inductive workspace_step :: "crypto \<Rightarrow> db \<Rightarrow> db \<Rightarrow> bool" for cr where
  create: "workspaceService_create id1 id2 id3 draws now dto user s = Some (r, s') \<Longrightarrow> workspace_step cr s s'"
| edit: "workspaceService_update draws ws dto' s = Some (r, s') \<Longrightarrow> workspace_step cr s s'"
| archive: "workspaceService_archive now ws s = (r1, s') \<Longrightarrow> workspace_step cr s s'"
| change_role: "membershipService_updateMemberRole ws i role actor s = (r2, s') \<Longrightarrow> workspace_step cr s s'"
| remove: "membershipService_removeMember ws i actor s = (r1, s') \<Longrightarrow> workspace_step cr s s'"
| leave: "membershipService_leaveWorkspace ws user s = (r1, s') \<Longrightarrow> workspace_step cr s s'"
| transfer: "membershipService_transferOwnership ws current user s = (r2, s') \<Longrightarrow> workspace_step cr s s'"
| invite: "invitationService_inviteMember cr raw newId now ws dto2 user s = (r3, s') \<Longrightarrow> workspace_step cr s s'"
| accept: "invitationService_acceptInvitation cr newId now token user s = (r2, s') \<Longrightarrow> workspace_step cr s s'"
| revoke: "invitationService_revokeInvitation ws i s = (r1, s') \<Longrightarrow> workspace_step cr s s'"

lemma invite_frame:
  "invitationService_inviteMember cr raw newId now ws dto user s = (r, s') \<Longrightarrow>
   members s' = members s \<and> workspaces s' = workspaces s"
  by (auto simp: invitationService_inviteMember_def invitationRepo_createInvitation_def or_conflict_def Let_def
      split: option.splits sum.splits if_splits)

lemma revoke_frame:
  "invitationService_revokeInvitation ws i s = (r, s') \<Longrightarrow>
   members s' = members s \<and> workspaces s' = workspaces s"
  by (auto simp: invitationService_revokeInvitation_def invitationRepo_updateStatus_def or_missing_def
      split: option.splits if_splits)

lemma workspace_step_ok: "workspace_step cr s s' \<Longrightarrow> ownership_ok s \<Longrightarrow> ownership_ok s'"
proof (induction rule: workspace_step.induct)
  case (invite raw newId now ws dto2 user s r3 s')
  from invite_frame [OF invite(1)] invite(2) show ?case by (simp add: ownership_ok_def)
next
  case (revoke ws i s r1 s')
  from revoke_frame [OF revoke(1)] revoke(2) show ?case by (simp add: ownership_ok_def)
qed (blast dest: transferOwnership_ok intro: workspace_create_ok workspaceService_update_ok archive_ok
      updateMemberRole_ok removeMember_ok leaveWorkspace_ok accept_ok)+

section \<open>Spent invitations\<close>

definition spent :: "string \<Rightarrow> db \<Rightarrow> bool" where
  "spent h s \<longleftrightarrow> (case invitationRepo_findByToken h s of None \<Rightarrow> False | Some x \<Rightarrow> invStatus x \<noteq> Pending)"

lemma invitations_of_repo:
  "workspaceRepo_update i data s = (q, s') \<Longrightarrow> invitations s' = invitations s"
  "memberRepo_updateRole i role s = (q2, s') \<Longrightarrow> invitations s' = invitations s"
  "memberRepo_removeMember i s = (q3, s') \<Longrightarrow> invitations s' = invitations s"
  "workspaceRepo_createWorkspaceWithOwner i j now n slug d a u s = (q4, s') \<Longrightarrow> invitations s' = invitations s"
  by (auto simp: workspaceRepo_update_def memberRepo_updateRole_def memberRepo_removeMember_def
      workspaceRepo_createWorkspaceWithOwner_def or_missing_def or_conflict_def Let_def
      split: option.splits if_splits)

lemma invitations_await:
  assumes "await m k = (r, s')" "\<And>q s1. m = (q, s1) \<Longrightarrow> invitations s1 = I"
    and "\<And>x s1. invitations s1 = I \<Longrightarrow> invitations (snd (k x s1)) = I"
  shows "invitations s' = I"
proof (cases m)
  case (Pair q s1)
  with assms show ?thesis by (cases q) (metis await_simps snd_conv)+
qed

lemma invitations_hand_over: "invitations (snd (hand_over ws u s)) = invitations s"
proof -
  have "invitations (snd (await (workspaceRepo_update ws f s) (\<lambda>_ s. (Inr (), s)))) = invitations s" for f
    using invitations_of_repo(1) [of ws f s] by (cases "workspaceRepo_update ws f s"; cases "fst (workspaceRepo_update ws f s)") auto
  then show ?thesis by (auto simp: hand_over_def split: option.splits)
qed

lemma invitations_removal: "invitations (snd (removal_commit ws m e s)) = invitations s"
proof -
  obtain r s' where run: "removal_commit ws m e s = (r, s')" by (metis surj_pair)
  have "invitations s' = invitations s"
    using run unfolding removal_commit_def
  proof (rule invitations_await)
    show "invitations s1 = invitations s" if "(if memRole m = Owner then hand_over ws (memUserId m) s else (Inr (), s)) = (q, s1)" for q s1
      using that invitations_hand_over [of ws "memUserId m" s] by (auto split: if_splits)
    show "invitations (snd (await (memberRepo_removeMember (memId m) s1) (\<lambda>_ s. (Inr (), emit e s)))) = invitations s"
      if "invitations s1 = invitations s" for s1
      using that invitations_of_repo(3) [of "memId m" s1]
      by (cases "memberRepo_removeMember (memId m) s1"; cases "fst (memberRepo_removeMember (memId m) s1)") auto
  qed
  with run show ?thesis by simp
qed

lemma invitations_role_change: "invitations (snd (role_change_commit ws m role s)) = invitations s"
proof -
  obtain r s' where run: "role_change_commit ws m role s = (r, s')" by (metis surj_pair)
  have "invitations s' = invitations s"
    using run unfolding role_change_commit_def
  proof (rule invitations_await)
    show "invitations s1 = invitations s"
      if "(if memRole m = Owner \<and> role \<noteq> Owner then hand_over ws (memUserId m) s else (Inr (), s)) = (q, s1)" for q s1
      using that invitations_hand_over [of ws "memUserId m" s] by (auto split: if_splits)
    show "invitations (snd (await (memberRepo_updateRole (memId m) role s1)
        (\<lambda>updated s. (Inr updated, emit (MemberRoleChanged ws (memUserId m) (memRole m) role) s)))) = invitations s"
      if "invitations s1 = invitations s" for s1
      using that invitations_of_repo(2) [of "memId m" role s1]
      by (cases "memberRepo_updateRole (memId m) role s1"; cases "fst (memberRepo_updateRole (memId m) role s1)") auto
  qed
  with run show ?thesis by simp
qed

lemma invitations_transfer: "invitations (snd (membershipService_transferOwnership ws current user s)) = invitations s"
proof -
  have tr: "invitations (snd (transfer_transaction ws i j user s)) = invitations s" for i j
    using invitations_of_repo(1,2)
    by (auto simp: transfer_transaction_def await_Inr_iff split: prod.splits sum.splits)
  have "invitations (snd (await (transfer_transaction ws i j user s) (\<lambda>x s. (Inr x, emit e s)))) = invitations s" for i j e
    using tr [of i j] by (cases "transfer_transaction ws i j user s"; cases "fst (transfer_transaction ws i j user s)") auto
  then show ?thesis by (auto simp: membershipService_transferOwnership_def split: option.splits)
qed

lemma invitations_update_loop:
  "workspace_update_loop n ws dto name slug draws s = Some (r, s') \<Longrightarrow> invitations s' = invitations s"
proof (induction n arbitrary: slug draws s)
  case (Suc n)
  let ?f = "\<lambda>w. (workspace_patch dto w)\<lparr>wsSlug := slug\<rparr>"
  obtain q s1 where run: "workspaceRepo_update ws ?f s = (q, s1)" by (metis surj_pair)
  from invitations_of_repo(1) [OF run] Suc.prems run Suc.IH [of _ _ s1] show ?case
    by (cases q) (auto split: if_splits option.splits prod.splits)
qed simp

text \<open>A token that is spent stays spent, whatever happens to the workspaces.\<close>

lemma spent_map:
  assumes "spent h s" "invitations s' = map f (invitations s)"
    and "\<And>x. invToken (f x) = invToken x \<and> (invStatus (f x) = Pending \<longrightarrow> invStatus x = Pending)"
  shows "spent h s'"
proof -
  from assms(3) have tok: "invToken (f x) = invToken x" for x by blast
  have "invitationRepo_findByToken h s' = map_option f (invitationRepo_findByToken h s)"
    unfolding invitationRepo_findByToken_def assms(2) by (rule find_map_same) (simp add: tok)
  with assms(1,3) show ?thesis by (auto simp: spent_def split: option.splits)
qed

lemma spent_append: "spent h s \<Longrightarrow> invitations s' = invitations s @ rows \<Longrightarrow> spent h s'"
proof -
  have "find P (xs @ ys) = (case find P xs of None \<Rightarrow> find P ys | Some x \<Rightarrow> Some x)"
    for P :: "invitation_row \<Rightarrow> bool" and xs ys by (induction xs) auto
  then show "spent h s \<Longrightarrow> invitations s' = invitations s @ rows \<Longrightarrow> spent h s'"
    by (auto simp: spent_def invitationRepo_findByToken_def split: option.splits)
qed

lemma spent_same: "spent h s \<Longrightarrow> invitations s' = invitations s \<Longrightarrow> spent h s'"
  by (simp add: spent_def invitationRepo_findByToken_def)

lemma accept_invitations:
  assumes "invitationService_acceptInvitation cr newId now token user s = (r, s')"
  shows "invitations s' = invitations s \<or> (\<exists>i. invitations s' =
    map (\<lambda>x. if invId x = i then x\<lparr>invStatus := Accepted, invAcceptedAt := Some now\<rparr> else x) (invitations s))"
proof (cases "accept_check cr now token user s")
  case (Inl e)
  with assms show ?thesis by (simp add: invitationService_acceptInvitation_def)
next
  case (Inr invite)
  obtain q s1 where run: "accept_transaction newId now invite user s = (q, s1)" by (metis surj_pair)
  show ?thesis
  proof (cases q)
    case (Inl e)
    with run have "s1 = s"
      by (auto simp: accept_transaction_def or_conflict_def or_missing_def Let_def split: option.splits)
    with assms Inr run Inl show ?thesis by (simp add: invitationService_acceptInvitation_def)
  next
    case right: (Inr m)
    with run have "invitations s1 = map (\<lambda>x. if invId x = invId invite
        then x\<lparr>invStatus := Accepted, invAcceptedAt := Some now\<rparr> else x) (invitations s)"
      by (auto simp: accept_transaction_Inr_iff)
    with assms Inr run right show ?thesis by (auto simp: invitationService_acceptInvitation_def)
  qed
qed

lemma accept_spends:
  assumes "invitationService_acceptInvitation cr newId now token user s = (Inr m, s')"
  shows "spent (hashToken cr token) s'"
proof -
  from assms obtain invite s1 where chk: "accept_check cr now token user s = Inr invite"
    and run: "accept_transaction newId now invite user s = (Inr m, s1)"
    and s': "s' = emit (MemberAdded (invWorkspaceId invite) user (invRole invite)) s1"
    by (auto simp: invitationService_acceptInvitation_def await_Inr_iff split: sum.splits)
  let ?f = "\<lambda>x. if invId x = invId invite then x\<lparr>invStatus := Accepted, invAcceptedAt := Some now\<rparr> else x"
  from run have i: "invitations s' = map ?f (invitations s)" by (auto simp: accept_transaction_Inr_iff s')
  have "invitationRepo_findByToken (hashToken cr token) s' =
      map_option ?f (invitationRepo_findByToken (hashToken cr token) s)"
    unfolding invitationRepo_findByToken_def i by (rule find_map_same) simp
  with chk show ?thesis by (simp add: spent_def accept_check_Inr_iff)
qed

lemma spent_refused:
  "spent (hashToken cr token) s \<Longrightarrow>
   invitationService_acceptInvitation cr newId now token user s = (Inl (BusinessRule ''INVITATION_EXPIRED''), s)"
  by (auto simp: spent_def invitationService_acceptInvitation_def accept_check_def split: option.splits)

lemma invite_invitations:
  assumes "invitationService_inviteMember cr raw newId now ws dto user s = (r, s')"
  shows "\<exists>rows. invitations s' = invitations s @ rows"
proof (cases "invite_check now ws dto user s")
  case (Some e)
  with assms show ?thesis by (simp add: invitationService_inviteMember_def)
next
  case None
  obtain q s1 where run: "invitationRepo_createInvitation newId now ws (imEmail dto) (imRole dto) (hashToken cr raw)
      user (now + 7 * 24 * 60 * 60 * 1000) s = (q, s1)" by (metis surj_pair)
  then have "\<exists>rows. invitations s1 = invitations s @ rows"
    by (auto simp: invitationRepo_createInvitation_def or_conflict_def insert_row_Some_iff Let_def
        split: option.splits if_splits)
  moreover have "invitations s' = invitations s1"
    using assms None run by (cases q) (auto simp: invitationService_inviteMember_def Let_def split: sum.splits)
  ultimately show ?thesis by simp
qed

lemma workspace_step_spent: "workspace_step cr s s' \<Longrightarrow> spent h s \<Longrightarrow> spent h s'"
proof (induction rule: workspace_step.induct)
  case (create id1 id2 id3 draws now dto user s r s')
  from create(1) obtain slug draws' where "workspace_create_loop [id1, id2, id3] now dto user slug draws' s = Some (r, s')"
    by (auto simp: workspaceService_create_def split: option.splits prod.splits simp del: workspace_create_loop.simps)
  from create_loop_cases [OF this] invitations_of_repo(4) have "invitations s' = invitations s" by auto
  with create(2) show ?case by (rule spent_same)
next
  case (edit draws ws dto' s r s')
  from edit(1) invitations_of_repo(1) invitations_update_loop have "invitations s' = invitations s"
    by (auto simp: workspaceService_update_def split: sum.splits option.splits prod.splits if_splits
        simp del: workspace_update_loop.simps)
  with edit(2) show ?case by (rule spent_same)
next
  case (archive now ws s r1 s')
  obtain q s1 where run: "workspaceRepo_update ws (\<lambda>w. w\<lparr>wsArchivedAt := Some now\<rparr>) s = (q, s1)" by (metis surj_pair)
  from archive(1) invitations_of_repo(1) [OF run] run have "invitations s' = invitations s"
    by (cases q) (auto simp: workspaceService_archive_def workspaceRepo_archive_def split: sum.splits)
  with archive(2) show ?case by (rule spent_same)
next
  case (change_role ws i role actor s r2 s')
  from change_role(1) invitations_role_change have "invitations s' = invitations s"
    by (auto simp: membershipService_updateMemberRole_def split: sum.splits) (metis snd_conv)
  with change_role(2) show ?case by (rule spent_same)
next
  case (remove ws i actor s r1 s')
  from remove(1) invitations_removal have "invitations s' = invitations s"
    by (auto simp: membershipService_removeMember_def split: sum.splits) (metis snd_conv)
  with remove(2) show ?case by (rule spent_same)
next
  case (leave ws user s r1 s')
  from leave(1) invitations_removal have "invitations s' = invitations s"
    by (auto simp: membershipService_leaveWorkspace_def split: sum.splits) (metis snd_conv)
  with leave(2) show ?case by (rule spent_same)
next
  case (transfer ws current user s r2 s')
  with invitations_transfer [of ws current user s] show ?case by (auto intro: spent_same)
next
  case (invite raw newId now ws dto2 user s r3 s')
  with invite_invitations show ?case by (blast intro: spent_append)
next
  case (accept newId now token user s r2 s')
  from accept_invitations [OF accept(1)] show ?case
  proof
    assume "\<exists>i. invitations s' = map (\<lambda>x. if invId x = i then x\<lparr>invStatus := Accepted, invAcceptedAt := Some now\<rparr> else x)
      (invitations s)"
    then obtain i where "invitations s' = map (\<lambda>x. if invId x = i then x\<lparr>invStatus := Accepted, invAcceptedAt := Some now\<rparr>
      else x) (invitations s)" by blast
    with accept(2) show ?case by (rule spent_map) simp
  qed (rule spent_same [OF accept(2)])
next
  case (revoke ws i s r1 s')
  then have "invitations s' = invitations s \<or> invitations s' = map (\<lambda>x. if invId x = i then x\<lparr>invStatus := Revoked\<rparr> else x)
      (invitations s)"
    by (auto simp: invitationService_revokeInvitation_def invitationRepo_updateStatus_def or_missing_def
        update_by_Some_iff split: option.splits if_splits)
  then show ?case
  proof
    assume "invitations s' = map (\<lambda>x. if invId x = i then x\<lparr>invStatus := Revoked\<rparr> else x) (invitations s)"
    with revoke(2) show ?case by (rule spent_map) simp
  qed (rule spent_same [OF revoke(2)])
qed

section \<open>What an admin can do\<close>

lemma admin_role_change_owners:
  assumes "ownership_ok s" "role_change_check ws i role actor s = Inr m" "memRole m \<noteq> Owner" "role \<noteq> Owner"
  shows "owner_in w u (members (snd (role_change_commit ws m role s))) = owner_in w u (members s)"
proof -
  have mt: "member_table_ok (members s)" using assms(1) by (simp add: ownership_ok_def)
  have mem: "m \<in> set (members s)" using assms(2) by (auto simp: role_change_check_Inr_iff dest: check_member)
  have "\<not> owner_in (memWorkspaceId m) (memUserId m) (members s)"
  proof
    assume "owner_in (memWorkspaceId m) (memUserId m) (members s)"
    then obtain x where x: "x \<in> set (members s)" "memWorkspaceId x = memWorkspaceId m" "memUserId x = memUserId m"
      "memRole x = Owner" by (auto simp: owner_in_def)
    with same_member(2) [OF mt mem x(1)] assms(3) show False by simp
  qed
  then have kept: "owner_in w u (with_role (memId m) role (members s)) = owner_in w u (members s)"
    using owner_in_with_role [OF mt mem] assms(4) by auto
  obtain q s1 where run: "memberRepo_updateRole (memId m) role s = (q, s1)" by (metis surj_pair)
  show ?thesis
  
proof (cases q)
    case (Inl e)
    with run have "s1 = s" by (auto dest: atomicD [OF atomic_member_repo(1)])
    with run Inl assms(3) show ?thesis by (simp add: role_change_commit_def)
  next
    case (Inr x)
    with run have "members s1 = with_role (memId m) role (members s)" by (auto simp: updateRole_Inr_iff)
    with run Inr assms(3) kept show ?thesis by (simp add: role_change_commit_def)
  qed
qed

lemma admin_removal_owners:
  assumes "ownership_ok s" "removal_check ws i actor s = Inr m" "memRole m \<noteq> Owner"
  shows "owner_in w u (members (snd (removal_commit ws m e s))) = owner_in w u (members s)"
proof -
  have mt: "member_table_ok (members s)" using assms(1) by (simp add: ownership_ok_def)
  have mem: "m \<in> set (members s)" using assms(2) by (auto simp: removal_check_Inr_iff dest: check_member)
  have "\<not> (w = memWorkspaceId m \<and> u = memUserId m)" if "owner_in w u (members s)"
  proof
    assume wu: "w = memWorkspaceId m \<and> u = memUserId m"
    from that obtain x where x: "x \<in> set (members s)" "memWorkspaceId x = w" "memUserId x = u"
      "memRole x = Owner" by (auto simp: owner_in_def)
    with same_member(2) [OF mt mem x(1)] assms(3) wu show False by simp
  qed
  then have kept: "owner_in w u (without (memId m) (members s)) = owner_in w u (members s)"
    using owner_in_without [OF mt mem] by blast
  obtain q s1 where run: "memberRepo_removeMember (memId m) s = (q, s1)" by (metis surj_pair)
  show ?thesis
  
proof (cases q)
    case (Inl e')
    with run have "s1 = s" by (auto dest: atomicD [OF atomic_member_repo(2)])
    with run Inl assms(3) show ?thesis by (simp add: removal_commit_def)
  next
    case (Inr x)
    with run have "members s1 = without (memId m) (members s)" by (auto simp: removeMember_Inr_iff)
    with run Inr assms(3) kept show ?thesis by (simp add: removal_commit_def)
  qed
qed

section \<open>Properties\<close>

text \<open>The sample workspace with a second owner, and with an admin and an invitation.\<close>

definition two_owners :: db where
  "two_owners = sample_db\<lparr>members := [sample_member ''mu'' ''u'' Owner, sample_member ''mm'' ''m'' Owner]\<rparr>"

definition with_admin :: db where
  "with_admin = sample_db\<lparr>members := [sample_member ''mu'' ''u'' Owner, sample_member ''mm'' ''m'' Admin]\<rparr>"

definition plain_crypto :: crypto where
  "plain_crypto = \<lparr>crSha256 = (\<lambda>t. CHR ''#'' # t), crBcryptHash = (\<lambda>salt pw. salt @ pw),
     crBcryptCompare = (\<lambda>pw h. h = pw), crSign = clSub, crVerify = (\<lambda>now t. Inl JwtInvalid)\<rparr>"

definition invited :: db where
  "invited = snd (invitationService_inviteMember plain_crypto ''k'' ''i'' 0 ''w''
     \<lparr>imEmail = ''N@x.org'', imRole = Viewer\<rparr> ''u''
     (sample_db\<lparr>users := users sample_db @ [sample_user ''n'' ''n@x.org'']\<rparr>))"

lemmas sample_ownership_defs = two_owners_def with_admin_def sample_db_defs ownership_ok_def owners_ok_def
  member_table_ok_def has_owner_def owner_in_def unique_key_def

text \<open>C3: Whatever workspace operations run one after the other (creation, renaming, archiving, role changes,
  removals, departures, ownership transfers, invitations), every workspace keeps an owner among its members
  and the owner named by every active workspace row is a member with the owner role.\<close>

theorem every_workspace_keeps_an_owner:
  assumes "(workspace_step cr)\<^sup>*\<^sup>* s s'" "ownership_ok s"
  shows "ownership_ok s'"
  using assms by (induction rule: rtranclp_induct) (auto intro: workspace_step_ok)

theorem every_workspace_keeps_an_owner_witness:
  "ownership_ok (snd (membershipService_leaveWorkspace ''w'' ''u'' two_owners)) \<and>
   workspaces (snd (membershipService_leaveWorkspace ''w'' ''u'' two_owners)) \<noteq> []"
proof -
  have 1: "workspace_step plain_crypto two_owners (snd (membershipService_leaveWorkspace ''w'' ''u'' two_owners))"
    by (rule workspace_step.leave) (rule surjective_pairing)
  have 2: "ownership_ok two_owners" by (simp add: sample_ownership_defs)
  have 3: "workspaces (snd (membershipService_leaveWorkspace ''w'' ''u'' two_owners)) \<noteq> []" by code_simp
  from every_workspace_keeps_an_owner [OF r_into_rtranclp [of "workspace_step plain_crypto", OF 1] 2] 3
  show ?thesis by blast
qed

text \<open>The count of owners is read before the write and not re-checked: when the two owners of a workspace
  leave at the same time, both checks pass on the same state, both departures commit, and the workspace is
  left without any owner.\<close>

theorem concurrent_departures_leave_no_owner:
  "ownership_ok two_owners \<and>
   (\<exists>a b s1 s2. departure_check ''w'' ''u'' two_owners = Inr a \<and> departure_check ''w'' ''m'' two_owners = Inr b \<and>
     removal_commit ''w'' a (MemberLeft ''w'' ''u'') two_owners = (Inr (), s1) \<and>
     removal_commit ''w'' b (MemberLeft ''w'' ''m'') s1 = (Inr (), s2) \<and>
     memberRepo_countOwners ''w'' s2 = 0 \<and> workspaceRepo_findById ''w'' s2 \<noteq> None)"
  by (simp add: sample_ownership_defs departure_check_def memberRepo_findMember_def memberRepo_countOwners_def
      removal_commit_def hand_over_def workspaceRepo_findById_def memberRepo_findOtherOwner_def
      workspaceRepo_update_def update_by_def memberRepo_removeMember_def delete_by_def)

text \<open>The hand-over reads active workspaces only: once a workspace is archived, an owner who leaves stays
  named as the owner of the row although the membership is gone.\<close>

theorem archived_workspace_keeps_stale_owner:
  "\<exists>s1 s2 w. workspaceService_archive 1 ''w'' two_owners = (Inr (), s1) \<and>
     membershipService_leaveWorkspace ''w'' ''u'' s1 = (Inr (), s2) \<and>
     w \<in> set (workspaces s2) \<and> wsOwnerId w = ''u'' \<and> memberRepo_findMember (wsId w) ''u'' s2 = None"
  by (simp add: sample_ownership_defs workspaceService_archive_def workspaceService_findById_def
      workspaceRepo_archive_def membershipService_leaveWorkspace_def departure_check_def memberRepo_findMember_def
      memberRepo_countOwners_def removal_commit_def hand_over_def workspaceRepo_findById_def
      workspaceRepo_update_def update_by_def memberRepo_removeMember_def delete_by_def)

text \<open>Calls made by an admin never change who the owners are: no role change and no removal requested by an
  admin of the workspace, accepted or refused, adds or removes an owner of any workspace.\<close>

theorem admin_calls_keep_owners:
  assumes "ownership_ok s" "actor_role ws (Some admin) s = Some Admin"
  shows "owner_in w u (members (snd (membershipService_updateMemberRole ws i role (Some admin) s))) =
      owner_in w u (members s) \<and>
    owner_in w u (members (snd (membershipService_removeMember ws i (Some admin) s))) = owner_in w u (members s)"
proof
  show "owner_in w u (members (snd (membershipService_updateMemberRole ws i role (Some admin) s))) =
      owner_in w u (members s)"
    using admin_role_change_owners [OF assms(1)] assms(2)
    by (auto simp: membershipService_updateMemberRole_def role_change_check_Inr_iff split: sum.splits)
  show "owner_in w u (members (snd (membershipService_removeMember ws i (Some admin) s))) = owner_in w u (members s)"
    using admin_removal_owners [OF assms(1)] assms(2)
    by (auto simp: membershipService_removeMember_def removal_check_Inr_iff split: sum.splits)
qed

theorem admin_calls_keep_owners_witness:
  "owner_in ''w'' ''u'' (members (snd (membershipService_removeMember ''w'' ''mu'' (Some ''m'') with_admin))) \<and>
   \<not> owner_in ''w'' ''m'' (members (snd (membershipService_updateMemberRole ''w'' ''mm'' Owner (Some ''m'') with_admin)))"
proof -
  have "ownership_ok with_admin" by (simp add: sample_ownership_defs)
  moreover have "actor_role ''w'' (Some ''m'') with_admin = Some Admin"
    by (simp add: actor_role_def memberRepo_findMember_def with_admin_def sample_member_def)
  ultimately have
    "owner_in ''w'' ''u'' (members (snd (membershipService_removeMember ''w'' ''mu'' (Some ''m'') with_admin))) =
      owner_in ''w'' ''u'' (members with_admin)"
    "owner_in ''w'' ''m'' (members (snd (membershipService_updateMemberRole ''w'' ''mm'' Owner (Some ''m'') with_admin))) =
      owner_in ''w'' ''m'' (members with_admin)"
    using admin_calls_keep_owners by blast+
  then show ?thesis by (simp add: owner_in_def with_admin_def sample_member_def)
qed

text \<open>C14: An invitation works once: after it was accepted, and after any further workspace operations, every
  attempt to accept the same token, by any user and at any time, is refused as expired and changes nothing.\<close>

theorem invitation_works_once:
  assumes "invitationService_acceptInvitation cr newId now token user s = (Inr m, s1)"
    and "(workspace_step cr)\<^sup>*\<^sup>* s1 s2"
  shows "invitationService_acceptInvitation cr newId' later token user' s2 =
    (Inl (BusinessRule ''INVITATION_EXPIRED''), s2)"
proof -
  from assms(2) accept_spends [OF assms(1)] have "spent (hashToken cr token) s2"
    by (induction rule: rtranclp_induct) (auto intro: workspace_step_spent)
  then show ?thesis by (rule spent_refused)
qed

theorem invitation_works_once_witness:
  "fst (invitationService_acceptInvitation plain_crypto ''q'' 9 ''k'' ''n''
     (snd (invitationService_acceptInvitation plain_crypto ''p'' 5 ''k'' ''n'' invited))) =
   Inl (BusinessRule ''INVITATION_EXPIRED'')"
proof -
  let ?r = "invitationService_acceptInvitation plain_crypto ''p'' 5 ''k'' ''n'' invited"
  have "fst ?r = Inr \<lparr>memId = ''p'', memWorkspaceId = ''w'', memUserId = ''n'', memRole = Viewer, memJoinedAt = 5\<rparr>"
    by code_simp
  then have "?r = (Inr \<lparr>memId = ''p'', memWorkspaceId = ''w'', memUserId = ''n'', memRole = Viewer, memJoinedAt = 5\<rparr>, snd ?r)"
    by (metis prod.collapse)
  from invitation_works_once [OF this rtranclp.rtrancl_refl] show ?thesis by simp
qed

text \<open>A user joins by invitation only with a pending, unexpired invitation of an active workspace that was
  issued to the same email address up to case, and joins with exactly the role it was issued for.\<close>

theorem joining_needs_matching_invitation:
  assumes "invitationService_acceptInvitation cr newId now token user s = (Inr m, s')"
  shows "\<exists>invite u. invitationRepo_findByToken (hashToken cr token) s = Some invite \<and> invStatus invite = Pending \<and>
    now \<le> invExpiresAt invite \<and> workspaceRepo_findById (invWorkspaceId invite) s \<noteq> None \<and>
    authService_getProfile user s = Inr u \<and> toLowerCase (userEmail u) = toLowerCase (invEmail invite) \<and>
    members s' = members s @ [\<lparr>memId = newId, memWorkspaceId = invWorkspaceId invite, memUserId = user,
      memRole = invRole invite, memJoinedAt = now\<rparr>]"
proof -
  from assms obtain invite s1 where chk: "accept_check cr now token user s = Inr invite"
    and run: "accept_transaction newId now invite user s = (Inr m, s1)"
    and s': "s' = emit (MemberAdded (invWorkspaceId invite) user (invRole invite)) s1"
    by (auto simp: invitationService_acceptInvitation_def await_Inr_iff split: sum.splits)
  from chk run s' show ?thesis by (auto simp: accept_check_Inr_iff accept_transaction_Inr_iff)
qed

theorem joining_needs_matching_invitation_witness:
  "\<exists>invite. invitationRepo_findByToken ''#k'' invited = Some invite \<and> invStatus invite = Pending \<and> invRole invite = Viewer"
proof -
  let ?r = "invitationService_acceptInvitation plain_crypto ''p'' 5 ''k'' ''n'' invited"
  have "fst ?r = Inr \<lparr>memId = ''p'', memWorkspaceId = ''w'', memUserId = ''n'', memRole = Viewer, memJoinedAt = 5\<rparr>"
    by code_simp
  then have run: "?r = (Inr \<lparr>memId = ''p'', memWorkspaceId = ''w'', memUserId = ''n'', memRole = Viewer, memJoinedAt = 5\<rparr>, snd ?r)"
    by (metis prod.collapse)
  have last: "map memRole (members (snd ?r)) = map memRole (members invited) @ [Viewer]" by code_simp
  from joining_needs_matching_invitation [OF run] obtain invite where
    "invitationRepo_findByToken (hashToken plain_crypto ''k'') invited = Some invite" "invStatus invite = Pending"
    "members (snd ?r) = members invited @ [\<lparr>memId = ''p'', memWorkspaceId = invWorkspaceId invite, memUserId = ''n'',
      memRole = invRole invite, memJoinedAt = 5\<rparr>]" by blast
  moreover from this(3) last have "invRole invite = Viewer" by simp
  ultimately show ?thesis by (auto simp: hashToken_def plain_crypto_def)
qed

end
