(* ===== verification/Access_Guards.thy ===== *)
theory Access_Guards
  imports Memberships Auth Boards Samples
begin

text \<open>
  The guards in front of the handlers: \<open>JwtAuthGuard\<close>, \<open>EmailVerifiedGuard\<close>, \<open>RbacGuard\<close>,
  \<open>AnonymousGuard\<close> and \<open>WsAuthGuard\<close> (\<open>src/common/guards/\<close>), \<open>WorkspaceMemberGuard\<close> and
  \<open>WsWorkspaceMemberGuard\<close> (\<open>src/modules/workspace/guards/\<close>), \<open>WsBoardAccessGuard\<close>
  (\<open>src/modules/board/realtime/guards/\<close>) and their composition \<open>WorkspaceAuth\<close>; with them the
  logout handler of \<open>AuthController\<close>, which reads the same headers. The format check of a workspace
  id is the parameter \<open>is_uuid\<close>; a cache that answers is assumed, the code ignores one that does not.
\<close>

section \<open>HTTP guards\<close>

record http_request =
  rqAuthorization :: "string option"
  rqRefreshCookie :: "string option"
  rqMethod :: string
  rqWorkspaceId :: "string option"

definition bearer_prefix :: string where
  "bearer_prefix = ''Bearer ''"

text \<open>\<open>authHeader.split(' ')[1]\<close> of a header that starts with \<open>Bearer\<close> and a space.\<close>

definition bearer_token :: "string option \<Rightarrow> string option" where
  "bearer_token header =
     (case header of
        None \<Rightarrow> None
      | Some h \<Rightarrow> if take 7 h = bearer_prefix then Some (takeWhile (\<lambda>c. c \<noteq> CHR '' '') (drop 7 h)) else None)"

definition jwtAuthGuard_canActivate :: "crypto \<Rightarrow> instant \<Rightarrow> http_request \<Rightarrow> db \<Rightarrow> error + claims" where
  "jwtAuthGuard_canActivate cr now rq s =
     (case bearer_token (rqAuthorization rq) of
        None \<Rightarrow> Inl (Unauthorized ''TOKEN_INVALID'')
      | Some token \<Rightarrow>
          (case verifyAccessToken cr now token of
             Inl e \<Rightarrow> Inl e
           | Inr c \<Rightarrow>
               if isBlacklisted now (clJti c) s then Inl (Unauthorized ''TOKEN_REVOKED'') else Inr c))"

definition isVerifiedInDb :: "instant \<Rightarrow> uuid \<Rightarrow> db \<Rightarrow> bool \<times> db" where
  "isVerifiedInDb now user s =
     (if redis_get now (''email_verified:'' @ user) s = Some ''1'' then (True, s)
      else (case userRepo_findById user s of
              None \<Rightarrow> (False, s)
            | Some u \<Rightarrow>
                if \<not> userIsEmailVerified u then (False, s)
                else (True, redis_set_ex now (''email_verified:'' @ user) ''1'' 300 s)))"

definition read_only_methods :: "string list" where
  "read_only_methods = [''GET'', ''HEAD'', ''OPTIONS'']"

definition emailVerifiedGuard_canActivate :: "instant \<Rightarrow> bool \<Rightarrow> claims option \<Rightarrow> http_request \<Rightarrow> db \<Rightarrow> unit outcome" where
  "emailVerifiedGuard_canActivate now skip user rq s =
     (if skip then (Inr (), s)
      else (case user of
              None \<Rightarrow> (Inr (), s)
            | Some c \<Rightarrow>
                if clSub c = [] \<or> clIsEmailVerified c \<or> rqMethod rq \<in> set read_only_methods then (Inr (), s)
                else (case isVerifiedInDb now (clSub c) s of
                        (True, s') \<Rightarrow> (Inr (), s')
                      | (False, s') \<Rightarrow> (Inl (Forbidden ''EMAIL_NOT_VERIFIED''), s'))))"

definition workspaceMemberGuard_canActivate ::
  "(string \<Rightarrow> bool) \<Rightarrow> claims option \<Rightarrow> http_request \<Rightarrow> db \<Rightarrow> error + member_row" where
  "workspaceMemberGuard_canActivate is_uuid user rq s =
     (if \<not> truthy (map_option clSub user) \<or> \<not> truthy (rqWorkspaceId rq) then Inl (Forbidden ''FORBIDDEN'')
      else if \<not> is_uuid (the (rqWorkspaceId rq)) then Inl (BadRequest ''Validation failed (uuid is expected)'')
      else (case memberRepo_findMember (the (rqWorkspaceId rq)) (clSub (the user)) s of
              None \<Rightarrow> Inl (Forbidden ''FORBIDDEN'')
            | Some m \<Rightarrow> Inr m))"

definition rbacGuard_canActivate :: "workspace_role list \<Rightarrow> member_row option \<Rightarrow> error + unit" where
  "rbacGuard_canActivate required member =
     (case required of
        [] \<Rightarrow> Inr ()
      | r # rs \<Rightarrow>
          (case member of
             None \<Rightarrow> Inl (Forbidden ''FORBIDDEN'')
           | Some m \<Rightarrow>
               if role_rank (memRole m) < fold min (map role_rank rs) (role_rank r)
               then Inl (Forbidden ''FORBIDDEN'') else Inr ()))"

text \<open>The four guards of the decorator, in its order; each may use what the earlier ones attached.\<close>

definition workspaceAuth ::
  "crypto \<Rightarrow> (string \<Rightarrow> bool) \<Rightarrow> workspace_role list \<Rightarrow> bool \<Rightarrow> instant \<Rightarrow> http_request \<Rightarrow> db \<Rightarrow> (claims \<times> member_row) outcome" where
  "workspaceAuth cr is_uuid roles skip now rq s =
     (case jwtAuthGuard_canActivate cr now rq s of
        Inl e \<Rightarrow> (Inl e, s)
      | Inr c \<Rightarrow>
          await (emailVerifiedGuard_canActivate now skip (Some c) rq s)
            (\<lambda>_ s. case workspaceMemberGuard_canActivate is_uuid (Some c) rq s of
                     Inl e \<Rightarrow> (Inl e, s)
                   | Inr m \<Rightarrow> (case rbacGuard_canActivate roles (Some m) of
                                 Inl e \<Rightarrow> (Inl e, s) | Inr _ \<Rightarrow> (Inr (c, m), s))))"

definition usable_refresh :: "crypto \<Rightarrow> instant \<Rightarrow> string option \<Rightarrow> db \<Rightarrow> bool" where
  "usable_refresh cr now cookie s \<longleftrightarrow> truthy cookie \<and>
     (case tokenRepo_findByTokenHash (hashToken cr (the cookie)) s of
        None \<Rightarrow> False | Some t \<Rightarrow> rtRevokedAt t = None \<and> now < rtExpiresAt t)"

definition anonymousGuard_canActivate :: "crypto \<Rightarrow> instant \<Rightarrow> http_request \<Rightarrow> db \<Rightarrow> error + unit" where
  "anonymousGuard_canActivate cr now rq s =
     (let live = (case bearer_token (rqAuthorization rq) of
                    None \<Rightarrow> False
                  | Some token \<Rightarrow>
                      (case verifyAccessToken cr now token of
                         Inl e \<Rightarrow> False | Inr c \<Rightarrow> \<not> isBlacklisted now (clJti c) s))
      in if live \<or> usable_refresh cr now (rqRefreshCookie rq) s
         then Inl (Forbidden ''ALREADY_AUTHENTICATED'') else Inr ())"

section \<open>Socket guards\<close>

text \<open>What authentication attached to a socket; an old token may lack the verification claim.\<close>

record socket_user =
  suSub :: uuid
  suJti :: "uuid option"
  suIsEmailVerified :: "bool option"

text \<open>A socket guard passes, or answers with an error code.\<close>

definition wsAuthGuard_canActivate :: "instant \<Rightarrow> socket_user option \<Rightarrow> db \<Rightarrow> string option" where
  "wsAuthGuard_canActivate now user s =
     (case user of
        None \<Rightarrow> Some ''TOKEN_INVALID''
      | Some u \<Rightarrow>
          if truthy (suJti u) \<and> isBlacklisted now (the (suJti u)) s then Some ''TOKEN_REVOKED''
          else if suIsEmailVerified u = Some False then Some ''EMAIL_NOT_VERIFIED''
          else None)"

definition wsWorkspaceMemberGuard_canActivate :: "socket_user option \<Rightarrow> uuid option \<Rightarrow> db \<Rightarrow> string option" where
  "wsWorkspaceMemberGuard_canActivate user ws s =
     (if \<not> truthy (map_option suSub user) then Some ''TOKEN_INVALID''
      else if \<not> truthy ws then None
      else if memberRepo_findMember (the ws) (suSub (the user)) s = None then Some ''BOARD_ACCESS_DENIED''
      else None)"

definition wsBoardAccessGuard_canActivate :: "socket_user option \<Rightarrow> uuid option \<Rightarrow> db \<Rightarrow> string option" where
  "wsBoardAccessGuard_canActivate user board s =
     (if \<not> truthy (map_option suSub user) then Some ''TOKEN_INVALID''
      else if \<not> truthy board then None
      else (case boardRepo_findById (the board) None s of
              None \<Rightarrow> Some ''BOARD_NOT_FOUND''
            | Some b \<Rightarrow>
                if memberRepo_findMember (boardWorkspaceId b) (suSub (the user)) s = None
                then Some ''BOARD_ACCESS_DENIED'' else None))"

section \<open>The logout handler\<close>

text \<open>
  The route has no guard, so \<open>user\<close> is what an earlier middleware attached, if any. Nothing is
  revoked unless the refresh cookie came along.
\<close>

definition authController_logout :: "crypto \<Rightarrow> instant \<Rightarrow> claims option \<Rightarrow> http_request \<Rightarrow> db \<Rightarrow> db" where
  "authController_logout cr now user rq s =
     (let fromUser = (map_option clJti user, map_option clExp user);
          (jti, expires) =
            (if truthy (fst fromUser) then fromUser
             else (case bearer_token (rqAuthorization rq) of
                     None \<Rightarrow> fromUser
                   | Some token \<Rightarrow>
                       (case authService_tryVerifyAccessToken cr now token of
                          None \<Rightarrow> fromUser | Some c \<Rightarrow> (Some (clJti c), Some (clExp c)))))
      in if truthy (rqRefreshCookie rq) then authService_logout cr now (rqRefreshCookie rq) jti expires s else s)"

section \<open>Facts\<close>

lemma rbac_Inr_iff:
  "rbacGuard_canActivate required (Some m) = Inr () \<longleftrightarrow>
     required = [] \<or> (\<exists>r\<in>set required. role_rank r \<le> role_rank (memRole m))"
proof -
  have fold_min: "k < fold min ns n \<longleftrightarrow> k < n \<and> (\<forall>x\<in>set ns. k < x)" for ns n and k :: nat
    by (induction ns arbitrary: n) auto
  show ?thesis
    by (cases required) (auto simp: rbacGuard_canActivate_def fold_min not_le split: if_splits)
qed

lemma jwtAuthGuard_Inr_iff:
  "jwtAuthGuard_canActivate cr now rq s = Inr c \<longleftrightarrow>
     (\<exists>token. bearer_token (rqAuthorization rq) = Some token \<and> verifyAccessToken cr now token = Inr c \<and>
        \<not> isBlacklisted now (clJti c) s)"
  by (auto simp: jwtAuthGuard_canActivate_def split: option.splits sum.splits)

lemma workspaceMemberGuard_Inr_iff:
  "workspaceMemberGuard_canActivate is_uuid (Some c) rq s = Inr m \<longleftrightarrow>
     (\<exists>ws. rqWorkspaceId rq = Some ws \<and> ws \<noteq> [] \<and> clSub c \<noteq> [] \<and> is_uuid ws \<and>
        memberRepo_findMember ws (clSub c) s = Some m)"
  by (cases "rqWorkspaceId rq") (auto simp: workspaceMemberGuard_canActivate_def truthy_def split: option.splits)

lemma emailVerified_frame:
  assumes "emailVerifiedGuard_canActivate now skip user rq s = (r, s')"
  shows "members s' = members s \<and> users s' = users s"
  using assms
  by (auto simp: emailVerifiedGuard_canActivate_def isVerifiedInDb_def redis_set_ex_def split: option.splits if_splits prod.splits bool.splits)

lemma workspaceAuth_Inr_iff:
  "workspaceAuth cr is_uuid roles skip now rq s = (Inr (c, m), s') \<longleftrightarrow>
     jwtAuthGuard_canActivate cr now rq s = Inr c \<and>
     emailVerifiedGuard_canActivate now skip (Some c) rq s = (Inr (), s') \<and>
     workspaceMemberGuard_canActivate is_uuid (Some c) rq s' = Inr m \<and> rbacGuard_canActivate roles (Some m) = Inr ()"
proof (cases "jwtAuthGuard_canActivate cr now rq s")
  case (Inr c')
  obtain q s1 where ev: "emailVerifiedGuard_canActivate now skip (Some c') rq s = (q, s1)" by (metis surj_pair)
  show ?thesis
  proof (cases q)
    case right: (Inr u)
    show ?thesis
    proof (cases "workspaceMemberGuard_canActivate is_uuid (Some c') rq s1")
      case (Inr m')
      then show ?thesis
        using \<open>jwtAuthGuard_canActivate cr now rq s = Inr c'\<close> ev right
        by (cases "rbacGuard_canActivate roles (Some m')") (auto simp: workspaceAuth_def)
    qed (use Inr ev right in \<open>auto simp: workspaceAuth_def\<close>)
  qed (use Inr ev in \<open>auto simp: workspaceAuth_def\<close>)
qed (simp add: workspaceAuth_def)

text \<open>The time to live of a blacklist entry covers what is left of the token.\<close>

lemma ceil_seconds_bounds: "ms \<le> ceil_seconds ms * 1000" "ceil_seconds ms * 1000 < ms + 1000"
proof -
  show "ms \<le> ceil_seconds ms * 1000" unfolding ceil_seconds_def by linarith
  show "ceil_seconds ms * 1000 < ms + 1000" unfolding ceil_seconds_def by linarith
qed

lemma blacklisted_until:
  assumes "now \<le> later" "later < expires"
  shows "isBlacklisted later jti (blacklist now jti expires s)"
proof -
  have ttl: "0 < ceil_seconds (expires - now)" and till: "later < now + ceil_seconds (expires - now) * 1000"
    using ceil_seconds_bounds(1) [of "expires - now"] assms by linarith+
  show ?thesis
    using ttl till by (simp add: isBlacklisted_def blacklist_def Let_def redis_set_ex_def redis_get_def)
qed

section \<open>Properties\<close>

text \<open>A token service for concrete runs: every token is accepted for a quarter of an hour.\<close>

definition demo_claims :: claims where
  "demo_claims = \<lparr>clSub = ''m'', clEmail = ''m@x.org'', clDisplayName = ''User'', clAvatarUrl = None,
     clIsEmailVerified = True, clJti = ''j'', clExp = 900000\<rparr>"

definition demo_crypto :: crypto where
  "demo_crypto = \<lparr>crSha256 = (\<lambda>t. CHR ''#'' # t), crBcryptHash = (\<lambda>salt pw. salt @ pw),
     crBcryptCompare = (\<lambda>pw h. h = pw), crSign = clSub,
     crVerify = (\<lambda>now t. if now < 900000 then Inr demo_claims else Inl JwtExpired)\<rparr>"

definition demo_request :: http_request where
  "demo_request = \<lparr>rqAuthorization = Some ''Bearer t'', rqRefreshCookie = None, rqMethod = ''POST'',
     rqWorkspaceId = Some ''w''\<rparr>"

text \<open>C6: A request passes the workspace guards only with a bearer token that verifies and is not blacklisted,
  whose subject is a member of the workspace in the route with a role at least as high as one of the required
  roles; and a mutating request additionally needs a verified email, by claim or in the database, unless the
  route opts out.\<close>

theorem workspace_auth_sound:
  assumes "workspaceAuth cr is_uuid roles skip now rq s = (Inr (c, m), s')"
  shows "(\<exists>token ws. bearer_token (rqAuthorization rq) = Some token \<and> verifyAccessToken cr now token = Inr c \<and>
      rqWorkspaceId rq = Some ws \<and> memberRepo_findMember ws (clSub c) s = Some m) \<and>
    \<not> isBlacklisted now (clJti c) s \<and>
    (roles \<noteq> [] \<longrightarrow> (\<exists>r\<in>set roles. role_rank r \<le> role_rank (memRole m))) \<and>
    (skip \<or> rqMethod rq \<in> set read_only_methods \<or> clIsEmailVerified c \<or> fst (isVerifiedInDb now (clSub c) s))"
proof -
  from assms have jwt: "jwtAuthGuard_canActivate cr now rq s = Inr c"
    and ev: "fst (emailVerifiedGuard_canActivate now skip (Some c) rq s) = Inr ()"
    and wm: "workspaceMemberGuard_canActivate is_uuid (Some c) rq (snd (emailVerifiedGuard_canActivate now skip (Some c) rq s)) = Inr m"
    and rb: "rbacGuard_canActivate roles (Some m) = Inr ()"
    by (auto simp: workspaceAuth_Inr_iff)
  have mem: "memberRepo_findMember ws u (snd (emailVerifiedGuard_canActivate now skip (Some c) rq s)) =
      memberRepo_findMember ws u s" for ws u
    using emailVerified_frame [OF surjective_pairing, of now skip "Some c" rq s] by (simp add: memberRepo_findMember_def)
  have "clSub c \<noteq> []" using wm by (auto simp: workspaceMemberGuard_Inr_iff)
  then have "skip \<or> rqMethod rq \<in> set read_only_methods \<or> clIsEmailVerified c \<or> fst (isVerifiedInDb now (clSub c) s)"
    using ev by (auto simp: emailVerifiedGuard_canActivate_def split: if_splits prod.splits bool.splits)
  with jwt wm rb mem show ?thesis
    by (auto simp: jwtAuthGuard_Inr_iff workspaceMemberGuard_Inr_iff rbac_Inr_iff)
qed

theorem workspace_auth_sound_witness:
  "\<exists>m. memberRepo_findMember ''w'' ''m'' sample_db = Some m \<and> role_rank Member \<le> role_rank (memRole m)"
proof -
  have "workspaceAuth demo_crypto (\<lambda>_. True) [Owner, Admin, Member] False 5 demo_request sample_db =
      (Inr (demo_claims, sample_member ''mm'' ''m'' Member), sample_db)"
    by (simp add: workspaceAuth_def jwtAuthGuard_canActivate_def demo_request_def bearer_token_def bearer_prefix_def
        verifyAccessToken_def demo_crypto_def demo_claims_def isBlacklisted_def redis_get_def sample_db_defs
        emailVerifiedGuard_canActivate_def workspaceMemberGuard_canActivate_def memberRepo_findMember_def
        rbacGuard_canActivate_def)
  from workspace_auth_sound [OF this] show ?thesis
    by (auto simp: demo_request_def demo_claims_def)
qed

text \<open>The read route of a role set admits exactly the members of at least its weakest role: the roles are
  thresholds of one hierarchy, owner over admin over member over viewer.\<close>

theorem rbac_is_threshold:
  "rbacGuard_canActivate roles (Some m) = Inr () \<longleftrightarrow> roles = [] \<or> (\<exists>r\<in>set roles. r \<le> memRole m)"
  unfolding rbac_Inr_iff less_eq_workspace_role_def by simp

text \<open>C17: After a logout that names an access token, that token is refused by the JWT guard for the rest of its
  life: the blacklist entry lasts at least as long as the token, whatever the rounding to seconds.\<close>

theorem logged_out_token_refused:
  assumes "bearer_token (rqAuthorization rq) = Some token" "clJti c \<noteq> []" "now \<le> later"
    and expiry: "\<forall>t c'. crVerify cr t token = Inr c' \<longrightarrow> c' = c \<and> t < clExp c"
  shows "\<exists>e. jwtAuthGuard_canActivate cr later rq
    (authService_logout cr now cookie (Some (clJti c)) (Some (clExp c)) s) = Inl e"
proof (cases "crVerify cr later token")
  case (Inl f)
  with assms(1) show ?thesis by (cases f) (simp_all add: jwtAuthGuard_canActivate_def verifyAccessToken_def)
next
  case (Inr c')
  with expiry have c': "c' = c" "later < clExp c" by blast+
  have "isBlacklisted later (clJti c) (authService_logout cr now cookie (Some (clJti c)) (Some (clExp c)) s)"
    using blacklisted_until [OF assms(3) c'(2)] assms(2)
    by (simp add: authService_logout_def maybe_blacklist_def truthy_def)
  with assms(1) Inr c'(1) show ?thesis by (simp add: jwtAuthGuard_canActivate_def verifyAccessToken_def)
qed

theorem logged_out_token_refused_witness:
  "\<exists>e. jwtAuthGuard_canActivate demo_crypto 899999 demo_request
    (authService_logout demo_crypto 5 None (Some ''j'') (Some 900000) sample_db) = Inl e"
proof -
  have "bearer_token (rqAuthorization demo_request) = Some ''t''"
    by (simp add: demo_request_def bearer_token_def bearer_prefix_def)
  moreover have "\<forall>t c'. crVerify demo_crypto t ''t'' = Inr c' \<longrightarrow> c' = demo_claims \<and> t < clExp demo_claims"
    by (auto simp: demo_crypto_def demo_claims_def split: if_splits)
  moreover have "clJti demo_claims \<noteq> []" by (simp add: demo_claims_def)
  ultimately have "\<exists>e. jwtAuthGuard_canActivate demo_crypto 899999 demo_request
    (authService_logout demo_crypto 5 None (Some (clJti demo_claims)) (Some (clExp demo_claims)) sample_db) = Inl e"
    by (intro logged_out_token_refused [where now = 5 and later = 899999 and token = "''t''"]) simp_all
  then show ?thesis by (simp add: demo_claims_def)
qed

text \<open>The logout handler revokes nothing without the refresh cookie: a client that sends only its bearer
  token is logged out with success, and the token keeps passing the JWT guard.\<close>

theorem logout_without_cookie_revokes_nothing:
  "rqRefreshCookie demo_request = None \<and>
   authController_logout demo_crypto 5 None demo_request sample_db = sample_db \<and>
   jwtAuthGuard_canActivate demo_crypto 6 demo_request (authController_logout demo_crypto 5 None demo_request sample_db) =
     Inr demo_claims"
  by (simp add: authController_logout_def demo_request_def jwtAuthGuard_canActivate_def bearer_token_def
      bearer_prefix_def verifyAccessToken_def demo_crypto_def demo_claims_def isBlacklisted_def redis_get_def Let_def
      sample_db_defs)

end
