(* ===== verification/Auth_Sessions.thy ===== *)
theory Auth_Sessions
  imports Auth
begin

text \<open>
  Refresh-token families. A login starts a family, rotation replaces its one usable token, and
  replaying a replaced token revokes the family. The operations that touch the token table form
  the step relation \<open>session_step\<close>; along it every family has at most one usable token. The
  last section shows what two interleaved rotations do.
\<close>

section \<open>Tokens in use\<close>

definition active_rows :: "uuid \<Rightarrow> refresh_token_row list \<Rightarrow> refresh_token_row list" where
  "active_rows family rows = filter (\<lambda>t. rtFamilyId t = family \<and> rtRevokedAt t = None) rows"

definition active_of :: "uuid \<Rightarrow> db \<Rightarrow> refresh_token_row list" where
  "active_of user s = filter (\<lambda>t. rtUserId t = user \<and> rtRevokedAt t = None) (refreshTokens s)"

definition token_table_ok :: "refresh_token_row list \<Rightarrow> bool" where
  "token_table_ok rows \<longleftrightarrow> unique_key rtId rows \<and> unique_key rtTokenHash rows \<and>
     (\<forall>f. length (active_rows f rows) \<le> 1)"

abbreviation active_in :: "uuid \<Rightarrow> db \<Rightarrow> refresh_token_row list" where
  "active_in family s \<equiv> active_rows family (refreshTokens s)"

abbreviation tokens_ok :: "db \<Rightarrow> bool" where
  "tokens_ok s \<equiv> token_table_ok (refreshTokens s)"

lemma redis_tokens [simp]:
  "refreshTokens (redis_set_ex now k v ttl s) = refreshTokens s" "refreshTokens (redis_del k s) = refreshTokens s"
  "refreshTokens (blacklist now jti e s) = refreshTokens s"
  "refreshTokens (maybe_blacklist now jti' e' s) = refreshTokens s"
  "refreshTokens (createEmailVerificationToken cr raw now u s) = refreshTokens s"
  by (auto simp: redis_set_ex_def redis_del_def blacklist_def maybe_blacklist_def
      createEmailVerificationToken_def Let_def split: option.splits)

lemma redis_users [simp]:
  "users (redis_set_ex now k v ttl s) = users s" "users (redis_del k s) = users s"
  "users (blacklist now jti e s) = users s" "users (maybe_blacklist now jti' e' s) = users s"
  by (auto simp: redis_set_ex_def redis_del_def blacklist_def maybe_blacklist_def Let_def split: option.splits)

lemma userRepo_update_tokens: "userRepo_update i data s = (r, s') \<Longrightarrow> refreshTokens s' = refreshTokens s"
  by (auto simp: userRepo_update_def or_missing_def split: option.splits if_splits)

lemma userRepo_createUser_tokens:
  "userRepo_createUser i now e p n s = (r, s') \<Longrightarrow> refreshTokens s' = refreshTokens s"
  by (auto simp: userRepo_createUser_def Let_def split: option.splits)

section \<open>Issuing, rotating, revoking\<close>

lemma insert_token_Some_iff:
  "insert_token t rows = Some rows' \<longleftrightarrow>
     rows' = rows @ [t] \<and> rtId t \<notin> rtId ` set rows \<and> rtTokenHash t \<notin> rtTokenHash ` set rows"
proof -
  have "list_ex (\<lambda>x. rtTokenHash x = rtTokenHash t) rows \<longleftrightarrow> rtTokenHash t \<in> rtTokenHash ` set rows"
    unfolding list_ex_iff image_iff by metis
  then show ?thesis by (auto simp: insert_token_def insert_row_Some_iff)
qed

lemma issue_Inr:
  assumes "issueTokenPair cr d now u ip agent s = (Inr p, s')"
  shows "refreshTokens s' = refreshTokens s @ [new_token (sdTokenId d) (userId u) (hashToken cr (sdRaw d))
      (sdFamilyId d) ip agent (refresh_expiry now)]"
    and "sdTokenId d \<notin> rtId ` set (refreshTokens s)"
    and "hashToken cr (sdRaw d) \<notin> rtTokenHash ` set (refreshTokens s)"
    and "tpRefreshToken p = sdRaw d" "s' = s\<lparr>refreshTokens := refreshTokens s'\<rparr>"
  using assms
  by (auto simp: issueTokenPair_def await_Inr_iff tokenRepo_create_def or_conflict_Inr_iff
      insert_token_Some_iff new_token_def)

lemma issue_Inl: "issueTokenPair cr d now u ip agent s = (Inl e, s') \<Longrightarrow> s' = s"
  by (auto simp: issueTokenPair_def await_Inl_iff tokenRepo_create_def or_conflict_def split: option.splits)

lemma issue_tokens_ok:
  assumes "issueTokenPair cr d now u ip agent s = (r, s')" "tokens_ok s"
    and "sdFamilyId d \<notin> rtFamilyId ` set (refreshTokens s)"
  shows "tokens_ok s'"
proof (cases r)
  case (Inl e)
  with assms(1) have "s' = s" by (auto dest: issue_Inl)
  with assms(2) show ?thesis by simp
next
  case (Inr p)
  note i = issue_Inr [OF assms(1) [unfolded Inr]]
  have none: "active_in (sdFamilyId d) s = []"
    using assms(3) unfolding active_rows_def filter_empty_conv by (metis imageI)
  have "length (active_in f s') \<le> 1" for f
    using none assms(2) by (cases "f = sdFamilyId d") (simp_all add: active_rows_def i(1) new_token_def token_table_ok_def)
  with i(1-3) assms(2) show ?thesis by (auto simp: token_table_ok_def unique_key_def new_token_def)
qed

lemma filter_revoked:
  "filter (\<lambda>t. Q t \<and> rtRevokedAt t = None) (map (\<lambda>x. if P x \<and> rtRevokedAt x = None then revoke now x else x) xs) =
     filter (\<lambda>t. \<not> P t) (filter (\<lambda>t. Q t \<and> rtRevokedAt t = None) xs)"
  by (induction xs) (auto simp: revoke_def)

lemma active_in_revoke: "active_in f (revoke_where now P s) = filter (\<lambda>t. \<not> P t) (active_in f s)"
  by (simp add: active_rows_def revoke_where_def update_many_def filter_revoked del: filter_filter)

lemma active_of_revoke: "active_of u (revoke_where now P s) = filter (\<lambda>t. \<not> P t) (active_of u s)"
  by (simp add: active_of_def revoke_where_def update_many_def filter_revoked del: filter_filter)

lemma revoke_where_tokens_ok: "tokens_ok s \<Longrightarrow> tokens_ok (revoke_where now P s)"
proof -
  assume ok: "tokens_ok s"
  have "length (active_in f (revoke_where now P s)) \<le> 1" for f
    using ok length_filter_le [of _ "active_in f s"] unfolding active_in_revoke token_table_ok_def
    by (meson le_trans)
  moreover have "map rtId (refreshTokens (revoke_where now P s)) = map rtId (refreshTokens s)"
    "map rtTokenHash (refreshTokens (revoke_where now P s)) = map rtTokenHash (refreshTokens s)"
    by (simp_all add: revoke_where_def update_many_def revoke_def)
  ultimately show ?thesis using ok by (simp add: token_table_ok_def unique_key_def)
qed

lemma rotate_Inr_iff:
  "tokenRepo_rotate now i t s = (Inr r, s') \<longleftrightarrow>
     rtId t \<notin> rtId ` set (refreshTokens s) \<and> rtTokenHash t \<notin> rtTokenHash ` set (refreshTokens s) \<and>
     (\<exists>x\<in>set (refreshTokens s @ [t]). rtId x = i) \<and> r = t \<and>
     s' = s\<lparr>refreshTokens := map (\<lambda>x. if rtId x = i then x\<lparr>rtRevokedAt := Some now, rtReplacedBy := Some (rtId t)\<rparr>
       else x) (refreshTokens s @ [t])\<rparr>"
proof -
  have "(\<exists>x\<in>set (refreshTokens s @ [t]). rtId x = i) \<longleftrightarrow> find (\<lambda>x. rtId x = i) (refreshTokens s @ [t]) \<noteq> None"
    by (auto simp: find_None_iff)
  then show ?thesis
    by (auto simp: tokenRepo_rotate_def or_conflict_Inr_iff or_missing_Inr_iff insert_token_Some_iff
        update_by_Some_iff)
qed

lemma rotate_InrI:
  assumes "rtId t \<notin> rtId ` set (refreshTokens s)" "rtTokenHash t \<notin> rtTokenHash ` set (refreshTokens s)"
    and "i \<in> rtId ` set (refreshTokens s)"
  shows "tokenRepo_rotate now i t s = (Inr t, s\<lparr>refreshTokens :=
    map (\<lambda>x. if rtId x = i then x\<lparr>rtRevokedAt := Some now, rtReplacedBy := Some (rtId t)\<rparr> else x)
      (refreshTokens s @ [t])\<rparr>)"
  unfolding rotate_Inr_iff using assms by auto

lemma rotate_Inl: "tokenRepo_rotate now i t s = (Inl e, s') \<Longrightarrow> s' = s"
  by (auto simp: tokenRepo_rotate_def or_conflict_def or_missing_def split: option.splits)

text \<open>Rotation of the family's usable token leaves the successor as the only usable one.\<close>

lemma rotate_active:
  assumes "tokenRepo_rotate now (rtId old) t s = (Inr r, s')" "unique_key rtId (refreshTokens s)"
    and "old \<in> set (refreshTokens s)" "rtRevokedAt t = None" "rtFamilyId t = rtFamilyId old"
  shows "active_in f s' = filter (\<lambda>x. x \<noteq> old) (active_in f s) @ (if f = rtFamilyId old then [t] else [])"
proof -
  from assms(1) have new: "rtId t \<notin> rtId ` set (refreshTokens s)" and
    s': "refreshTokens s' = map (\<lambda>x. if rtId x = rtId old
      then x\<lparr>rtRevokedAt := Some now, rtReplacedBy := Some (rtId t)\<rparr> else x) (refreshTokens s @ [t])"
    by (auto simp: rotate_Inr_iff)
  have "rtId t \<noteq> rtId old" using new assms(3) by auto
  moreover have "filter (\<lambda>x. rtFamilyId x = f \<and> rtRevokedAt x = None)
      (map (\<lambda>x. if rtId x = rtId old then x\<lparr>rtRevokedAt := Some now, rtReplacedBy := Some (rtId t)\<rparr> else x) xs) =
      filter (\<lambda>x. x \<noteq> old) (filter (\<lambda>x. rtFamilyId x = f \<and> rtRevokedAt x = None) xs)"
    if "set xs \<subseteq> set (refreshTokens s)" for xs
    using that
  proof (induction xs)
    case (Cons x xs)
    then have "rtId x = rtId old \<longleftrightarrow> x = old" using assms(2,3) by (auto dest: unique_keyD)
    with Cons show ?case by auto
  qed simp
  ultimately show ?thesis using s' assms(4,5) by (auto simp: active_rows_def)
qed

lemma rotate_tokens_ok:
  assumes "tokenRepo_rotate now (rtId old) t s = (Inr r, s')" "tokens_ok s"
    and "old \<in> set (refreshTokens s)" "rtRevokedAt old = None" "rtRevokedAt t = None"
    and "rtFamilyId t = rtFamilyId old"
  shows "tokens_ok s'"
proof -
  have uid: "unique_key rtId (refreshTokens s)" using assms(2) by (simp add: token_table_ok_def)
  note act = rotate_active [OF assms(1) uid assms(3,5,6)]
  have mem: "old \<in> set (active_in (rtFamilyId old) s)" using assms(3,4) by (simp add: active_rows_def)
  have "length (active_in f s') \<le> 1" for f
  proof (cases "f = rtFamilyId old")
    case True
    have "length (active_in (rtFamilyId old) s) \<le> 1" using assms(2) by (simp add: token_table_ok_def)
    with mem have "active_in (rtFamilyId old) s = [old]"
      by (cases "active_in (rtFamilyId old) s") auto
    with act [of f] True show ?thesis by simp
  next
    case False
    have "length (active_in f s) \<le> 1" using assms(2) by (simp add: token_table_ok_def)
    with act [of f] False show ?thesis by (simp add: le_trans [OF length_filter_le])
  qed
  moreover have "unique_key rtId (refreshTokens s')" "unique_key rtTokenHash (refreshTokens s')"
    using assms(1,2) by (auto simp: rotate_Inr_iff token_table_ok_def unique_key_def comp_def if_distrib cong: if_cong)
  ultimately show ?thesis by (simp add: token_table_ok_def)
qed


lemma length_active_filter: "length (active_rows f (filter P rows)) \<le> length (active_rows f rows)"
  by (induction rows) (auto simp: active_rows_def)

section \<open>The operations\<close>

lemma find_token_SomeD:
  assumes "tokenRepo_findByTokenHash h s = Some t"
  shows "t \<in> set (refreshTokens s)" "rtTokenHash t = h"
  using assms by (auto simp: tokenRepo_findByTokenHash_def dest!: find_SomeD)

lemma refresh_decide_cases:
  "refresh_decide cr now token s = Rotate t u \<longleftrightarrow>
     tokenRepo_findByTokenHash (hashToken cr token) s = Some t \<and> userRepo_findById (rtUserId t) s = Some u \<and>
     now \<le> rtExpiresAt t \<and> rtRevokedAt t = None"
  "refresh_decide cr now token s = Reused f \<longleftrightarrow>
     (\<exists>t. tokenRepo_findByTokenHash (hashToken cr token) s = Some t \<and> now \<le> rtExpiresAt t \<and>
        rtRevokedAt t \<noteq> None \<and> f = rtFamilyId t)"
  by (auto simp: refresh_decide_def tokenRepo_findByTokenHashWithUser_def split: option.splits)

lemma refresh_tokens_ok:
  assumes "authService_refreshTokens cr d now token ip agent s = (r, s')" "tokens_ok s"
  shows "tokens_ok s'"
proof (cases "refresh_decide cr now token s")
  case (Refuse e)
  with assms show ?thesis by (simp add: authService_refreshTokens_def refresh_commit_def)
next
  case (Reused f)
  with assms show ?thesis
    by (auto simp: authService_refreshTokens_def refresh_commit_def tokenRepo_revokeFamily_def
        revoke_where_tokens_ok)
next
  case (Rotate t u)
  let ?new = "new_token (sdTokenId d) (rtUserId t) (hashToken cr (sdRaw d)) (rtFamilyId t) ip agent (refresh_expiry now)"
  from Rotate have t: "t \<in> set (refreshTokens s)" "rtRevokedAt t = None"
    by (auto simp: refresh_decide_cases dest: find_token_SomeD)
  show ?thesis
  proof (cases "tokenRepo_rotate now (rtId t) ?new s")
    case (Pair x s1)
    show ?thesis
    proof (cases x)
      case (Inl e)
      with Pair Rotate assms show ?thesis
        by (auto simp: authService_refreshTokens_def refresh_commit_def dest: rotate_Inl)
    next
      case (Inr y)
      with Pair have run: "tokenRepo_rotate now (rtId t) ?new s = (Inr y, s1)" by simp
      have "tokens_ok s1"
        by (rule rotate_tokens_ok [OF run assms(2) t]) (simp_all add: new_token_def)
      with run Rotate assms(1) show ?thesis
        by (auto simp: authService_refreshTokens_def refresh_commit_def)
    qed
  qed
qed

lemma replace_password_tokens:
  "replace_password cr salt pw now u s = (r, s') \<Longrightarrow>
     refreshTokens s' = refreshTokens s \<or> refreshTokens s' = refreshTokens (tokenRepo_revokeAllByUserId now u s)"
  by (cases "userRepo_update u (\<lambda>x. x\<lparr>userPasswordHash := Some (crBcryptHash cr salt pw)\<rparr>) s";
      cases "fst (userRepo_update u (\<lambda>x. x\<lparr>userPasswordHash := Some (crBcryptHash cr salt pw)\<rparr>) s)")
     (auto simp: replace_password_def await_def tokenRepo_revokeAllByUserId_def revoke_where_def
       dest: userRepo_update_tokens)

lemma revoke_where_families: "rtFamilyId ` set (refreshTokens (revoke_where now P s)) = rtFamilyId ` set (refreshTokens s)"
proof -
  have "map rtFamilyId (refreshTokens (revoke_where now P s)) = map rtFamilyId (refreshTokens s)"
    by (simp add: revoke_where_def update_many_def revoke_def)
  then show ?thesis by (metis list.set_map)
qed

lemma replace_password_ok:
  assumes "replace_password cr salt pw now u s = (r, s')" "tokens_ok s"
  shows "tokens_ok s' \<and> rtFamilyId ` set (refreshTokens s') = rtFamilyId ` set (refreshTokens s)"
  using replace_password_tokens [OF assms(1)]
proof
  assume eq: "refreshTokens s' = refreshTokens s"
  with assms(2) show ?thesis by simp
next
  assume eq: "refreshTokens s' = refreshTokens (tokenRepo_revokeAllByUserId now u s)"
  with assms(2) show ?thesis
    by (simp add: tokenRepo_revokeAllByUserId_def revoke_where_tokens_ok revoke_where_families)
qed

text \<open>A login, in the four ways the service offers it, and the operations on running sessions.\<close>

inductive session_step :: "crypto \<Rightarrow> db \<Rightarrow> db \<Rightarrow> bool" for cr where
  register: "sdFamilyId d \<notin> rtFamilyId ` set (refreshTokens s) \<Longrightarrow>
    authService_register cr d newId salt raw now email pw name ip agent s = (r, s') \<Longrightarrow> session_step cr s s'"
| login: "sdFamilyId d \<notin> rtFamilyId ` set (refreshTokens s) \<Longrightarrow>
    authService_login cr d now email pw ip agent s = (r, s') \<Longrightarrow> session_step cr s s'"
| google: "sdFamilyId d \<notin> rtFamilyId ` set (refreshTokens s) \<Longrightarrow>
    authService_handleGoogleCallback cr d now u ip agent s = (r, s') \<Longrightarrow> session_step cr s s'"
| reset: "sdFamilyId d \<notin> rtFamilyId ` set (refreshTokens s) \<Longrightarrow>
    authService_resetPassword cr d salt now token pw ip agent s = (r', s') \<Longrightarrow> session_step cr s s'"
| change: "sdFamilyId d \<notin> rtFamilyId ` set (refreshTokens s) \<Longrightarrow>
    authService_changePassword cr d salt now user pw new jti exp' ip agent s = (r', s') \<Longrightarrow> session_step cr s s'"
| refresh: "authService_refreshTokens cr d now token ip agent s = (r', s') \<Longrightarrow> session_step cr s s'"
| logout: "session_step cr s (authService_logout cr now token' jti exp' s)"
| logout_all: "session_step cr s (authService_logoutAllDevices now user jti exp' s)"
| cleanup: "session_step cr s (handleTokenCleanup now s)"

lemma await_issue_ok:
  assumes "await m (\<lambda>x s. await (issueTokenPair cr d now (u x) ip agent (g x s)) (\<lambda>p s. (Inr (f x p), emit (e x p) s))) = (r, s')"
    and "\<And>x s1. m = (Inr x, s1) \<Longrightarrow> refreshTokens (g x s1) = refreshTokens s"
    and "\<And>e s1. m = (Inl e, s1) \<Longrightarrow> refreshTokens s1 = refreshTokens s"
    and "tokens_ok s" "sdFamilyId d \<notin> rtFamilyId ` set (refreshTokens s)"
  shows "tokens_ok s'"
proof (cases m)
  case (Pair x s1)
  show ?thesis
  proof (cases x)
    case (Inl e')
    with assms(1) Pair have "s' = s1" by simp
    with assms(3) [of e' s1] Pair Inl assms(4) show ?thesis by simp
  next
    case (Inr y)
    with Pair have m: "m = (Inr y, s1)" by simp
    obtain q s2 where run: "issueTokenPair cr d now (u y) ip agent (g y s1) = (q, s2)" by (metis surj_pair)
    have "tokens_ok (g y s1)" using assms(2) [OF m] assms(4) by simp
    with issue_tokens_ok [OF run] assms(2) [OF m] assms(5) have "tokens_ok s2" by simp
    moreover have "refreshTokens s' = refreshTokens s2"
      using assms(1) m run by (cases q) auto
    ultimately show ?thesis by simp
  qed
qed

lemma register_tokens_ok:
  assumes "authService_register cr d newId salt raw now email pw name ip agent s = (r, s')" "tokens_ok s"
    and "sdFamilyId d \<notin> rtFamilyId ` set (refreshTokens s)"
  shows "tokens_ok s'"
  by (rule await_issue_ok [OF assms(1) [unfolded authService_register_def]])
     (use assms(2,3) in \<open>auto dest: userRepo_createUser_tokens\<close>)

lemma login_tokens_ok:
  assumes "authService_login cr d now email pw ip agent s = (r, s')" "tokens_ok s"
    and "sdFamilyId d \<notin> rtFamilyId ` set (refreshTokens s)"
  shows "tokens_ok s'"
proof (cases "check_password cr (userRepo_findByEmail email s) pw")
  case (Inl e)
  with assms(1,2) show ?thesis by (simp add: authService_login_def)
next
  case (Inr u)
  note run = assms(1) [unfolded authService_login_def Inr sum.case]
  show ?thesis
    by (rule await_issue_ok [OF run]) (use assms(2,3) in \<open>auto dest: userRepo_update_tokens\<close>)
qed

lemma google_tokens_ok:
  assumes "authService_handleGoogleCallback cr d now u ip agent s = (r, s')" "tokens_ok s"
    and "sdFamilyId d \<notin> rtFamilyId ` set (refreshTokens s)"
  shows "tokens_ok s'"
proof -
  obtain q s2 where run: "issueTokenPair cr d now u ip agent s = (q, s2)" by (metis surj_pair)
  have "refreshTokens s' = refreshTokens s2"
    using assms(1) run by (cases q) (auto simp: authService_handleGoogleCallback_def)
  with issue_tokens_ok [OF run assms(2,3)] show ?thesis by simp
qed

lemma change_then_issue_ok:
  assumes "await (replace_password cr salt pw now user s0) (\<lambda>_ s. issueTokenPair cr d now u ip agent (g s)) = (r, s')"
    and "\<And>s. refreshTokens (g s) = refreshTokens s"
    and "refreshTokens s0 = refreshTokens s" "tokens_ok s" "sdFamilyId d \<notin> rtFamilyId ` set (refreshTokens s)"
  shows "tokens_ok s'"
proof -
  have s0: "tokens_ok s0" "sdFamilyId d \<notin> rtFamilyId ` set (refreshTokens s0)"
    using assms(3-5) by simp_all
  obtain q s1 where rp: "replace_password cr salt pw now user s0 = (q, s1)" by (metis surj_pair)
  note ok = replace_password_ok [OF rp s0(1)]
  show ?thesis
  proof (cases q)
    case (Inl e)
    with assms(1) rp ok show ?thesis by simp
  next
    case (Inr y)
    with assms(1) rp have run: "issueTokenPair cr d now u ip agent (g s1) = (r, s')" by simp
    have "tokens_ok (g s1)" using assms(2) ok by simp
    moreover have "sdFamilyId d \<notin> rtFamilyId ` set (refreshTokens (g s1))"
      using assms(2) ok s0(2) by simp
    ultimately show ?thesis by (rule issue_tokens_ok [OF run])
  qed
qed

lemma reset_tokens_ok:
  assumes "authService_resetPassword cr d salt now token pw ip agent s = (r, s')" "tokens_ok s"
    and "sdFamilyId d \<notin> rtFamilyId ` set (refreshTokens s)"
  shows "tokens_ok s'"
proof -
  let ?k = "''password_reset:'' @ hashToken cr token"
  have frame: "tokens_ok (redis_del ?k s)" using assms(2) by simp
  show ?thesis
  proof (cases "truthy (redis_get now ?k s) \<and> userRepo_findById (the (redis_get now ?k s)) (redis_del ?k s) \<noteq> None")
    case False
    then have "s' = redis_del ?k s"
      using assms(1) by (auto simp: authService_resetPassword_def redis_getdel_def split: if_splits option.splits)
    with frame show ?thesis by simp
  next
    case True
    then obtain u where "userRepo_findById (the (redis_get now ?k s)) (redis_del ?k s) = Some u" by auto
    with True assms(1) have run: "await (replace_password cr salt pw now (the (redis_get now ?k s)) (redis_del ?k s))
        (\<lambda>_ s. issueTokenPair cr d now u ip agent s) = (r, s')"
      by (simp add: authService_resetPassword_def redis_getdel_def)
    show ?thesis by (rule change_then_issue_ok [OF run _ _ assms(2,3)]) simp_all
  qed
qed

lemma change_tokens_ok:
  assumes "authService_changePassword cr d salt now user pw new jti exp' ip agent s = (r, s')" "tokens_ok s"
    and "sdFamilyId d \<notin> rtFamilyId ` set (refreshTokens s)"
  shows "tokens_ok s'"
proof (cases "check_password cr (userRepo_findById user s) pw")
  case (Inl e)
  with assms(1,2) show ?thesis by (simp add: authService_changePassword_def)
next
  case (Inr u)
  note run = assms(1) [unfolded authService_changePassword_def Inr sum.case]
  show ?thesis by (rule change_then_issue_ok [OF run _ _ assms(2,3)]) simp_all
qed

lemma cleanup_tokens_ok: "tokens_ok s \<Longrightarrow> tokens_ok (handleTokenCleanup now s)"
proof -
  assume ok: "tokens_ok s"
  have "length (active_in f (handleTokenCleanup now s)) \<le> length (active_in f s)" for f
    unfolding handleTokenCleanup_def tokenRepo_deleteExpiredTokens_def Let_def
    by (simp add: length_active_filter)
  with ok show ?thesis
    unfolding token_table_ok_def handleTokenCleanup_def tokenRepo_deleteExpiredTokens_def Let_def
    by (auto simp: intro!: unique_key_filter) (meson le_trans)
qed

lemma session_step_tokens_ok: "session_step cr s s' \<Longrightarrow> tokens_ok s \<Longrightarrow> tokens_ok s'"
proof (induction rule: session_step.induct)
  case (logout s now token' jti exp')
  then show ?case
    by (simp add: authService_logout_def tokenRepo_revokeByTokenHash_def revoke_where_tokens_ok)
next
  case (logout_all s now user jti exp')
  then show ?case
    by (simp add: authService_logoutAllDevices_def tokenRepo_revokeAllByUserId_def revoke_where_tokens_ok)
qed (blast intro: register_tokens_ok login_tokens_ok google_tokens_ok reset_tokens_ok change_tokens_ok
      refresh_tokens_ok cleanup_tokens_ok)+


section \<open>Rotation, reuse, revocation\<close>

lemma refresh_Inr:
  assumes "authService_refreshTokens cr d now token ip agent s = (Inr p, s')"
  shows "\<exists>t u. refresh_decide cr now token s = Rotate t u \<and> tpRefreshToken p = sdRaw d \<and>
    tokenRepo_rotate now (rtId t) (new_token (sdTokenId d) (rtUserId t) (hashToken cr (sdRaw d))
      (rtFamilyId t) ip agent (refresh_expiry now)) s =
      (Inr (new_token (sdTokenId d) (rtUserId t) (hashToken cr (sdRaw d)) (rtFamilyId t) ip agent (refresh_expiry now)), s')"
  using assms
  by (cases "refresh_decide cr now token s")
     (auto simp: authService_refreshTokens_def refresh_commit_def await_Inr_iff rotate_Inr_iff)

text \<open>After a rotation the old token is on record as revoked, in the family of its successor.\<close>

lemma refresh_old_token:
  assumes "authService_refreshTokens cr d now token ip agent s = (Inr p, s')" "tokens_ok s"
  shows "\<exists>t. tokenRepo_findByTokenHash (hashToken cr token) s = Some t \<and>
    tokenRepo_findByTokenHash (hashToken cr token) s' =
      Some (t\<lparr>rtRevokedAt := Some now, rtReplacedBy := Some (sdTokenId d)\<rparr>) \<and>
    active_in (rtFamilyId t) s' = [new_token (sdTokenId d) (rtUserId t) (hashToken cr (sdRaw d))
      (rtFamilyId t) ip agent (refresh_expiry now)]"
proof -
  from refresh_Inr [OF assms(1)] obtain t u where dec: "refresh_decide cr now token s = Rotate t u"
    and run: "tokenRepo_rotate now (rtId t) (new_token (sdTokenId d) (rtUserId t) (hashToken cr (sdRaw d))
      (rtFamilyId t) ip agent (refresh_expiry now)) s =
      (Inr (new_token (sdTokenId d) (rtUserId t) (hashToken cr (sdRaw d)) (rtFamilyId t) ip agent (refresh_expiry now)), s')"
    by blast
  let ?new = "new_token (sdTokenId d) (rtUserId t) (hashToken cr (sdRaw d)) (rtFamilyId t) ip agent (refresh_expiry now)"
  let ?f = "\<lambda>x. if rtId x = rtId t then x\<lparr>rtRevokedAt := Some now, rtReplacedBy := Some (rtId ?new)\<rparr> else x"
  from dec have found: "tokenRepo_findByTokenHash (hashToken cr token) s = Some t" and live: "rtRevokedAt t = None"
    by (auto simp: refresh_decide_cases)
  note t = find_token_SomeD [OF found]
  have uid: "unique_key rtId (refreshTokens s)" and uh: "unique_key rtTokenHash (refreshTokens s)"
    and one: "length (active_in (rtFamilyId t) s) \<le> 1"
    using assms(2) by (simp_all add: token_table_ok_def)
  from run have s': "refreshTokens s' = map ?f (refreshTokens s @ [?new])"
    and new: "hashToken cr (sdRaw d) \<notin> rtTokenHash ` set (refreshTokens s)"
    by (auto simp: rotate_Inr_iff new_token_def)
  have "tokens_ok s'" by (rule rotate_tokens_ok [OF run assms(2) t(1) live]) (simp_all add: new_token_def)
  then have uh': "unique_key rtTokenHash (refreshTokens s')" by (simp add: token_table_ok_def)
  have "?f t \<in> set (refreshTokens s')" unfolding s' using t(1) by (auto simp: image_iff)
  then have "tokenRepo_findByTokenHash (hashToken cr token) s' = Some (?f t)"
    unfolding tokenRepo_findByTokenHash_def using t(2) by (subst find_key_iff [OF uh']) simp
  moreover have "active_in (rtFamilyId t) s = [t]"
  proof -
    have "t \<in> set (active_in (rtFamilyId t) s)" using t(1) live by (simp add: active_rows_def)
    with one show ?thesis by (cases "active_in (rtFamilyId t) s") auto
  qed
  then have "active_in (rtFamilyId t) s' = [?new]"
    using rotate_active [OF run uid t(1), of "rtFamilyId t"] by (simp add: new_token_def)
  ultimately show ?thesis using found by (simp add: new_token_def)
qed

lemma reuse_revokes_family:
  assumes "tokenRepo_findByTokenHash (hashToken cr token) s = Some t" "now \<le> rtExpiresAt t" "rtRevokedAt t \<noteq> None"
  shows "authService_refreshTokens cr d now token ip agent s =
      (Inl (Unauthorized ''TOKEN_REUSE_DETECTED''), tokenRepo_revokeFamily now (rtFamilyId t) s)"
    and "active_in (rtFamilyId t) (tokenRepo_revokeFamily now (rtFamilyId t) s) = []"
proof -
  have "refresh_decide cr now token s = Reused (rtFamilyId t)"
    using assms by (auto simp: refresh_decide_cases)
  then show "authService_refreshTokens cr d now token ip agent s =
      (Inl (Unauthorized ''TOKEN_REUSE_DETECTED''), tokenRepo_revokeFamily now (rtFamilyId t) s)"
    by (simp add: authService_refreshTokens_def refresh_commit_def)
  show "active_in (rtFamilyId t) (tokenRepo_revokeFamily now (rtFamilyId t) s) = []"
    unfolding tokenRepo_revokeFamily_def active_in_revoke by (simp add: active_rows_def)
qed

lemma revokeAll_active: "active_of user (tokenRepo_revokeAllByUserId now user s) = []"
  unfolding tokenRepo_revokeAllByUserId_def active_of_revoke by (simp add: active_of_def filter_empty_conv)

lemma change_then_issue_active:
  assumes "await (replace_password cr salt pw now user s0) (\<lambda>_ s. issueTokenPair cr d now u ip agent (g s)) = (Inr p, s')"
    and "\<And>s. refreshTokens (g s) = refreshTokens s" "userId u = user"
  shows "active_of user s' = [new_token (sdTokenId d) user (hashToken cr (sdRaw d)) (sdFamilyId d) ip agent (refresh_expiry now)]"
proof -
  from assms(1) obtain s1 where rp: "replace_password cr salt pw now user s0 = (Inr (), s1)"
    and run: "issueTokenPair cr d now u ip agent (g s1) = (Inr p, s')" by (auto simp: await_Inr_iff)
  from rp obtain s00 where "s1 = tokenRepo_revokeAllByUserId now user s00"
    by (auto simp: replace_password_def await_Inr_iff)
  then have "filter (\<lambda>t. rtUserId t = user \<and> rtRevokedAt t = None) (refreshTokens s1) = []"
    using revokeAll_active by (simp add: active_of_def)
  with issue_Inr(1) [OF run] assms(2,3) show ?thesis by (simp add: active_of_def new_token_def)
qed

section \<open>Two requests at once\<close>

text \<open>
  \<open>rotate\<close> revokes its predecessor without checking that it is still usable, so two requests that
  both read the token before either writes both succeed.
\<close>

lemma interleaved_rotation:
  assumes "refresh_decide cr now token s = Rotate t u" "tokens_ok s"
    and "sdTokenId d1 \<noteq> sdTokenId d2" "hashToken cr (sdRaw d1) \<noteq> hashToken cr (sdRaw d2)"
    and "\<forall>d\<in>{d1, d2}. sdTokenId d \<notin> rtId ` set (refreshTokens s) \<and>
      hashToken cr (sdRaw d) \<notin> rtTokenHash ` set (refreshTokens s)"
  shows "\<exists>p1 s1 p2 s2. refresh_commit cr d1 now ip agent (Rotate t u) s = (Inr p1, s1) \<and>
    refresh_commit cr d2 now ip agent (Rotate t u) s1 = (Inr p2, s2) \<and>
    active_in (rtFamilyId t) s2 =
      [new_token (sdTokenId d1) (rtUserId t) (hashToken cr (sdRaw d1)) (rtFamilyId t) ip agent (refresh_expiry now),
       new_token (sdTokenId d2) (rtUserId t) (hashToken cr (sdRaw d2)) (rtFamilyId t) ip agent (refresh_expiry now)]"
proof -
  let ?new = "\<lambda>d. new_token (sdTokenId d) (rtUserId t) (hashToken cr (sdRaw d)) (rtFamilyId t) ip agent (refresh_expiry now)"
  let ?f = "\<lambda>r x. if rtId x = rtId t then x\<lparr>rtRevokedAt := Some now, rtReplacedBy := Some r\<rparr> else x"
  from assms(1) have found: "tokenRepo_findByTokenHash (hashToken cr token) s = Some t" and live: "rtRevokedAt t = None"
    by (auto simp: refresh_decide_cases)
  have mem: "t \<in> set (refreshTokens s)" by (rule find_token_SomeD(1) [OF found])
  then have fresh: "rtId t \<noteq> sdTokenId d1" "rtId t \<noteq> sdTokenId d2" using assms(5) by (metis imageI insertCI)+
  obtain s1 where s1_def: "s1 = s\<lparr>refreshTokens := map (?f (sdTokenId d1)) (refreshTokens s @ [?new d1])\<rparr>" by blast
  obtain s2 where s2_def: "s2 = s1\<lparr>refreshTokens := map (?f (sdTokenId d2)) (refreshTokens s1 @ [?new d2])\<rparr>" by blast
  have "map rtId (refreshTokens s1) = map rtId (refreshTokens s) @ [sdTokenId d1]"
    "map rtTokenHash (refreshTokens s1) = map rtTokenHash (refreshTokens s) @ [hashToken cr (sdRaw d1)]"
    by (simp_all add: s1_def new_token_def)
  then have "set (map rtId (refreshTokens s1)) = set (map rtId (refreshTokens s) @ [sdTokenId d1])"
    "set (map rtTokenHash (refreshTokens s1)) = set (map rtTokenHash (refreshTokens s) @ [hashToken cr (sdRaw d1)])"
    by (simp_all only:)
  then have ids: "rtId ` set (refreshTokens s1) = insert (sdTokenId d1) (rtId ` set (refreshTokens s))"
    "rtTokenHash ` set (refreshTokens s1) = insert (hashToken cr (sdRaw d1)) (rtTokenHash ` set (refreshTokens s))"
    by (simp_all only: set_append set_map list.set Un_insert_right Un_empty_right)
  have r1: "tokenRepo_rotate now (rtId t) (?new d1) s = (Inr (?new d1), s1)"
    unfolding s1_def using assms(5) mem by (auto simp: rotate_Inr_iff new_token_def)
  have fresh2: "rtId (?new d2) \<notin> rtId ` set (refreshTokens s1)"
      "rtTokenHash (?new d2) \<notin> rtTokenHash ` set (refreshTokens s1)"
    unfolding ids using assms(3-5) by (simp_all add: new_token_def)
  have "rtId t \<in> rtId ` set (refreshTokens s1)" unfolding ids using mem by simp
  from rotate_InrI [OF fresh2 this, of now]
  have r2: "tokenRepo_rotate now (rtId t) (?new d2) s1 = (Inr (?new d2), s2)"
    by (simp add: s2_def new_token_def)
  have uid: "unique_key rtId (refreshTokens s)" using assms(2) by (simp add: token_table_ok_def)
  have "t \<in> set (active_in (rtFamilyId t) s)" using mem live by (simp add: active_rows_def)
  moreover have "length (active_in (rtFamilyId t) s) \<le> 1" using assms(2) by (simp add: token_table_ok_def)
  ultimately have "active_in (rtFamilyId t) s = [t]" by (cases "active_in (rtFamilyId t) s") auto
  then have a1: "active_in (rtFamilyId t) s1 = [?new d1]"
    using rotate_active [OF r1 uid mem, of "rtFamilyId t"] by (simp add: new_token_def)
  have same: "active_rows (rtFamilyId t) (map (?f (sdTokenId d2)) rows) = active_rows (rtFamilyId t) rows"
    if "\<forall>x\<in>set rows. rtId x = rtId t \<longrightarrow> rtRevokedAt x \<noteq> None" for rows
    using that by (induction rows) (auto simp: active_rows_def)
  have "\<forall>x\<in>set (refreshTokens s1 @ [?new d2]). rtId x = rtId t \<longrightarrow> rtRevokedAt x \<noteq> None"
    using fresh by (auto simp: s1_def new_token_def)
  from same [OF this] have "active_in (rtFamilyId t) s2 = active_rows (rtFamilyId t) (refreshTokens s1 @ [?new d2])"
    by (simp add: s2_def)
  also have "\<dots> = active_in (rtFamilyId t) s1 @ [?new d2]" by (simp add: active_rows_def new_token_def)
  finally have "active_in (rtFamilyId t) s2 = [?new d1, ?new d2]" by (simp add: a1)
  with r1 r2 show ?thesis by (auto simp: refresh_commit_def)
qed


section \<open>Concrete values\<close>

text \<open>A crypto parameter, an account and its draws, to evaluate the properties on.\<close>

definition sample_crypto :: crypto where
  "sample_crypto = \<lparr>crSha256 = (\<lambda>t. CHR ''#'' # t), crBcryptHash = (\<lambda>salt pw. salt @ pw),
     crBcryptCompare = (\<lambda>pw h. h = ''s'' @ pw), crSign = clSub, crVerify = (\<lambda>now t. Inl JwtInvalid)\<rparr>"

definition sample_draws :: "char \<Rightarrow> session_draws" where
  "sample_draws c = \<lparr>sdRaw = [c], sdTokenId = [c], sdFamilyId = [c], sdJti = [c]\<rparr>"

definition sample_account :: db where
  "sample_account = empty_db\<lparr>users := [new_user ''u'' 0 ''a@b.cd'' (Some ''spw'') ''Ann'']\<rparr>"

definition sample_session :: db where
  "sample_session = snd (authService_login sample_crypto (sample_draws CHR ''1'') 0 ''a@b.cd'' ''pw'' None None sample_account)"

lemmas sample_defs = sample_crypto_def sample_draws_def sample_account_def sample_session_def empty_db_def
  new_user_def

lemma sample_session_eq:
  "sample_session = emit (UserLoggedIn ''u'' ''email'')
     (sample_account\<lparr>users := [(new_user ''u'' 0 ''a@b.cd'' (Some ''spw'') ''Ann'')\<lparr>userLastLoginAt := Some 0\<rparr>],
        refreshTokens := [new_token ''1'' ''u'' ''#1'' ''1'' None None (refresh_expiry 0)]\<rparr>)"
  by (simp add: sample_defs authService_login_def check_password_def userRepo_findByEmail_def
      userRepo_update_def update_by_def user_clash_def issueTokenPair_def tokenRepo_create_def insert_token_def
      insert_row_def hashToken_def new_token_def)

lemma sample_login:
  "authService_login sample_crypto (sample_draws CHR ''1'') 0 ''a@b.cd'' ''pw'' None None sample_account =
     (fst (authService_login sample_crypto (sample_draws CHR ''1'') 0 ''a@b.cd'' ''pw'' None None sample_account),
      sample_session)"
  by (simp add: sample_session_def)

lemma sample_session_ok: "tokens_ok sample_session"
  by (simp add: sample_session_eq token_table_ok_def active_rows_def unique_key_def)

lemma sample_refresh:
  "authService_refreshTokens sample_crypto (sample_draws CHR ''2'') 5 ''1'' None None sample_session =
     (Inr \<lparr>tpAccessToken = ''u'', tpRefreshToken = ''2'', tpExpiresIn = 900\<rparr>,
      sample_session\<lparr>refreshTokens :=
        [(new_token ''1'' ''u'' ''#1'' ''1'' None None (refresh_expiry 0))\<lparr>rtRevokedAt := Some 5, rtReplacedBy := Some ''2''\<rparr>,
         new_token ''2'' ''u'' ''#2'' ''1'' None None (refresh_expiry 5)]\<rparr>)"
  by (simp add: authService_refreshTokens_def refresh_decide_def refresh_commit_def sample_session_eq
      tokenRepo_findByTokenHashWithUser_def tokenRepo_findByTokenHash_def userRepo_findById_def
      tokenRepo_rotate_def insert_token_def insert_row_def update_by_def hashToken_def new_token_def
      sample_crypto_def sample_draws_def refresh_expiry_def generateAccessToken_def user_claims_def new_user_def
      sample_account_def empty_db_def)

section \<open>Properties\<close>

text \<open>C1: Starting from a consistent token table, whatever sequence of logins, rotations, logouts,
  password changes and clean-ups runs (each login drawing a new family id), every family has at most
  one usable refresh token, and ids and hashes stay unique.\<close>

theorem one_usable_token_per_family:
  assumes "(session_step cr)\<^sup>*\<^sup>* s s'" "tokens_ok s"
  shows "tokens_ok s'"
  using assms by (induction rule: rtranclp_induct) (auto intro: session_step_tokens_ok)

theorem one_usable_token_per_family_witness:
  "tokens_ok (snd (authService_refreshTokens sample_crypto (sample_draws CHR ''2'') 5 ''1'' None None sample_session))"
proof -
  have 1: "session_step sample_crypto sample_account sample_session"
    by (rule session_step.login [OF _ sample_login]) (simp add: sample_defs)
  have 2: "session_step sample_crypto sample_session
      (snd (authService_refreshTokens sample_crypto (sample_draws CHR ''2'') 5 ''1'' None None sample_session))"
    by (rule session_step.refresh) (rule surjective_pairing)
  have "tokens_ok sample_account"
    by (simp add: sample_account_def empty_db_def token_table_ok_def active_rows_def)
  with one_usable_token_per_family [OF rtranclp.rtrancl_into_rtrancl [OF r_into_rtranclp [of "session_step sample_crypto", OF 1] 2]]
  show ?thesis .
qed

text \<open>C8: A refresh succeeds once. After it the presented token is refused, as reuse, at any time before
  it would have expired, and that refusal revokes the whole family: the successor token is dead too.\<close>

theorem replayed_token_ends_session:
  assumes "authService_refreshTokens cr d now token ip agent s = (Inr p, s1)" "tokens_ok s"
    and "tokenRepo_findByTokenHash (hashToken cr token) s = Some t" "later \<le> rtExpiresAt t"
  shows "length (active_in (rtFamilyId t) s1) = 1 \<and>
    (\<exists>s2. authService_refreshTokens cr d' later token ip' agent' s1 =
        (Inl (Unauthorized ''TOKEN_REUSE_DETECTED''), s2) \<and> active_in (rtFamilyId t) s2 = [])"
proof -
  from refresh_old_token [OF assms(1,2)] assms(3) have
    old: "tokenRepo_findByTokenHash (hashToken cr token) s1 =
      Some (t\<lparr>rtRevokedAt := Some now, rtReplacedBy := Some (sdTokenId d)\<rparr>)"
    and one: "length (active_in (rtFamilyId t) s1) = 1" by auto
  let ?t = "t\<lparr>rtRevokedAt := Some now, rtReplacedBy := Some (sdTokenId d)\<rparr>"
  have "later \<le> rtExpiresAt ?t" "rtRevokedAt ?t \<noteq> None" using assms(4) by simp_all
  from reuse_revokes_family [OF old this] one show ?thesis by simp
qed

theorem replayed_token_ends_session_witness:
  "\<exists>s2. authService_refreshTokens sample_crypto (sample_draws CHR ''3'') 9 ''1'' None None
      (snd (authService_refreshTokens sample_crypto (sample_draws CHR ''2'') 5 ''1'' None None sample_session)) =
      (Inl (Unauthorized ''TOKEN_REUSE_DETECTED''), s2) \<and> active_in ''1'' s2 = []"
proof -
  let ?t = "new_token ''1'' ''u'' ''#1'' ''1'' None None (refresh_expiry 0)"
  have found: "tokenRepo_findByTokenHash (hashToken sample_crypto ''1'') sample_session = Some ?t"
    by (simp add: tokenRepo_findByTokenHash_def sample_session_eq hashToken_def sample_crypto_def new_token_def)
  have fam: "rtFamilyId ?t = ''1''" and late: "9 \<le> rtExpiresAt ?t"
    by (simp_all add: new_token_def refresh_expiry_def)
  from replayed_token_ends_session [OF sample_refresh sample_session_ok found late,
      where d' = "sample_draws CHR ''3''" and ip' = None and agent' = None]
  show ?thesis unfolding fam sample_refresh snd_conv by (rule conjunct2)
qed

text \<open>Rotation does not re-check that the token is still usable, so when two requests read the same
  token before either writes, both succeed and the family ends with two usable tokens: the reuse goes
  undetected.\<close>

theorem concurrent_refresh_forks_family:
  assumes "refresh_decide cr now token s = Rotate t u" "tokens_ok s"
    and "sdTokenId d1 \<noteq> sdTokenId d2" "hashToken cr (sdRaw d1) \<noteq> hashToken cr (sdRaw d2)"
    and "\<forall>d\<in>{d1, d2}. sdTokenId d \<notin> rtId ` set (refreshTokens s) \<and>
      hashToken cr (sdRaw d) \<notin> rtTokenHash ` set (refreshTokens s)"
  shows "\<exists>p1 s1 p2 s2. refresh_commit cr d1 now ip agent (refresh_decide cr now token s) s = (Inr p1, s1) \<and>
    refresh_commit cr d2 now ip agent (refresh_decide cr now token s) s1 = (Inr p2, s2) \<and>
    length (active_in (rtFamilyId t) s2) = 2"
  using interleaved_rotation [OF assms] assms(1) by fastforce

theorem concurrent_refresh_forks_family_witness:
  "\<exists>p1 s1 p2 s2. refresh_commit sample_crypto (sample_draws CHR ''2'') 5 None None
      (refresh_decide sample_crypto 5 ''1'' sample_session) sample_session = (Inr p1, s1) \<and>
    refresh_commit sample_crypto (sample_draws CHR ''3'') 5 None None
      (refresh_decide sample_crypto 5 ''1'' sample_session) s1 = (Inr p2, s2) \<and> length (active_in ''1'' s2) = 2"
proof -
  let ?t = "new_token ''1'' ''u'' ''#1'' ''1'' None None (refresh_expiry 0)"
  let ?u = "(new_user ''u'' 0 ''a@b.cd'' (Some ''spw'') ''Ann'')\<lparr>userLastLoginAt := Some 0\<rparr>"
  have "refresh_decide sample_crypto 5 ''1'' sample_session = Rotate ?t ?u"
    by (simp add: refresh_decide_def tokenRepo_findByTokenHashWithUser_def tokenRepo_findByTokenHash_def
        userRepo_findById_def sample_session_eq hashToken_def sample_crypto_def new_token_def refresh_expiry_def new_user_def)
  from concurrent_refresh_forks_family [where ?d1.0 = "sample_draws CHR ''2''" and ?d2.0 = "sample_draws CHR ''3''"
        and ip = None and agent = None, OF this sample_session_ok]
  show ?thesis by (simp add: sample_draws_def hashToken_def sample_crypto_def sample_session_eq new_token_def)
qed

text \<open>Changing the password ends every other session of the account: afterwards its only usable refresh
  token is the one the change itself issued.\<close>

theorem change_password_leaves_one_session:
  assumes "authService_changePassword cr d salt now user pw new jti expires ip agent s = (Inr p, s')"
  shows "map rtTokenHash (active_of user s') = [hashToken cr (tpRefreshToken p)]"
proof -
  from assms obtain u where u: "check_password cr (userRepo_findById user s) pw = Inr u"
    by (auto simp: authService_changePassword_def split: sum.splits)
  then have "userId u = user"
    by (auto simp: check_password_def userRepo_findById_def split: option.splits if_splits dest: find_SomeD)
  note run = assms [unfolded authService_changePassword_def u sum.case]
  have "tpRefreshToken p = sdRaw d" using run by (auto simp: await_Inr_iff issue_Inr(4))
  with change_then_issue_active [OF run _ \<open>userId u = user\<close>] show ?thesis by (simp add: new_token_def)
qed

theorem change_password_leaves_one_session_witness:
  "map rtTokenHash (active_of ''u'' (snd (authService_changePassword sample_crypto (sample_draws CHR ''2'') ''s'' 7 ''u''
      ''pw'' ''new'' None None None None sample_session))) = [''#2'']"
proof -
  let ?s' = "snd (authService_changePassword sample_crypto (sample_draws CHR ''2'') ''s'' 7 ''u''
      ''pw'' ''new'' None None None None sample_session)"
  have "authService_changePassword sample_crypto (sample_draws CHR ''2'') ''s'' 7 ''u'' ''pw'' ''new'' None None None None
      sample_session = (Inr \<lparr>tpAccessToken = ''u'', tpRefreshToken = ''2'', tpExpiresIn = 900\<rparr>, ?s')"
    by (simp add: authService_changePassword_def check_password_def userRepo_findById_def sample_session_eq
        replace_password_def userRepo_update_def update_by_def user_clash_def tokenRepo_revokeAllByUserId_def
        revoke_where_def update_many_def revoke_def issueTokenPair_def tokenRepo_create_def insert_token_def insert_row_def
        maybe_blacklist_def hashToken_def generateAccessToken_def user_claims_def new_token_def sample_crypto_def
        sample_draws_def sample_account_def new_user_def empty_db_def)
  from change_password_leaves_one_session [OF this] show ?thesis by (simp add: hashToken_def sample_crypto_def)
qed

text \<open>C16: A password-reset link works at most once: whatever the first attempt with it returned, any later
  attempt with the same token is refused and changes no account and no session.\<close>

theorem reset_token_single_use:
  assumes "authService_resetPassword cr d salt now token pw ip agent s = (r, s1)"
  shows "\<exists>s2. authService_resetPassword cr d' salt' later token pw' ip' agent' s1 =
    (Inl (Unauthorized ''TOKEN_INVALID''), s2) \<and> users s2 = users s1 \<and> refreshTokens s2 = refreshTokens s1"
proof -
  let ?k = "''password_reset:'' @ hashToken cr token"
  have issue: "redis s2 = redis s0" if "issueTokenPair cr d now u ip agent s0 = (x, s2)" for u s0 x s2
    using that by (cases x) (auto simp: issueTokenPair_def await_Inr_iff await_Inl_iff tokenRepo_create_def
        or_conflict_def split: option.splits)
  have replace: "redis s2 = redis s0" if "replace_password cr salt pw now u s0 = (x, s2)" for u s0 x s2
    using that by (cases x) (auto simp: replace_password_def await_Inr_iff await_Inl_iff userRepo_update_def
        or_missing_def tokenRepo_revokeAllByUserId_def revoke_where_def split: option.splits if_splits)
  have "redis s1 ?k = None"
    using assms
    by (auto simp: authService_resetPassword_def redis_getdel_def redis_del_def await_def
        split: if_splits option.splits prod.splits sum.splits dest!: issue replace)
  then show ?thesis by (simp add: authService_resetPassword_def redis_getdel_def redis_get_def del: append.simps)
qed

theorem reset_token_single_use_witness:
  "\<exists>s2. authService_resetPassword sample_crypto (sample_draws CHR ''3'') ''s'' 9 ''r'' ''y'' None None
      (snd (authService_resetPassword sample_crypto (sample_draws CHR ''2'') ''s'' 8 ''r'' ''x'' None None
        (authService_forgotPassword sample_crypto ''r'' 0 ''a@b.cd'' sample_session))) =
    (Inl (Unauthorized ''TOKEN_INVALID''), s2)"
  using reset_token_single_use [OF surjective_pairing] by blast

end
