(* ===== verification/Redis_Sets.thy ===== *)
theory Redis_Sets
  imports Prelude "HOL-Library.AList"
begin

text \<open>
  The Redis structures the realtime services keep: sorted sets (a member has one score), hashes (a
  field has one value) and sets, as lists without duplicate keys. What the services rely on is the
  locale \<open>keyed_store\<close>, interpreted on both. A key that holds nothing does not exist, so an empty
  structure stands for an absent one. The hash also stands for JavaScript's \<open>Map\<close>, whose loops
  run in order of insertion: writing a key that is there keeps its place, a new one comes last.
\<close>

section \<open>Structures\<close>

type_synonym zset = "(string \<times> instant) list"
type_synonym 'v rhash = "(string \<times> 'v) list"

definition zscore :: "zset \<Rightarrow> string \<Rightarrow> instant option" where
  "zscore z m = map_of z m"

definition zrem :: "string \<Rightarrow> zset \<Rightarrow> zset" where
  "zrem m z = filter (\<lambda>x. fst x \<noteq> m) z"

definition zadd :: "string \<Rightarrow> instant \<Rightarrow> zset \<Rightarrow> zset" where
  "zadd m score z = (m, score) # zrem m z"

definition zcard :: "zset \<Rightarrow> nat" where
  "zcard z = length z"

text \<open>Members with a score in the range, by score and then by name; no upper bound is \<open>+inf\<close>.\<close>

definition zrangebyscore :: "instant \<Rightarrow> instant option \<Rightarrow> zset \<Rightarrow> string list" where
  "zrangebyscore lo hi z =
     map fst (sort_key (\<lambda>x. (snd x, fst x))
       (filter (\<lambda>x. lo \<le> snd x \<and> (case hi of None \<Rightarrow> True | Some h \<Rightarrow> snd x \<le> h)) z))"

definition zremrangebyscore :: "instant \<Rightarrow> instant \<Rightarrow> zset \<Rightarrow> zset" where
  "zremrangebyscore lo hi z = filter (\<lambda>x. \<not> (lo \<le> snd x \<and> snd x \<le> hi)) z"

definition hget :: "'v rhash \<Rightarrow> string \<Rightarrow> 'v option" where
  "hget h f = map_of h f"

definition hdel :: "string \<Rightarrow> 'v rhash \<Rightarrow> 'v rhash" where
  "hdel f h = filter (\<lambda>x. fst x \<noteq> f) h"

definition hset :: "string \<Rightarrow> 'v \<Rightarrow> 'v rhash \<Rightarrow> 'v rhash" where
  "hset f v h = AList.update f v h"

definition hmget :: "'v rhash \<Rightarrow> string list \<Rightarrow> 'v option list" where
  "hmget h fs = map (hget h) fs"

definition sadd :: "string \<Rightarrow> string list \<Rightarrow> string list" where
  "sadd x xs = List.insert x xs"

definition srem :: "string \<Rightarrow> string list \<Rightarrow> string list" where
  "srem x xs = removeAll x xs"

section \<open>What clients rely on\<close>

locale keyed_store =
  fixes get :: "'s \<Rightarrow> 'k \<Rightarrow> 'v option" and put :: "'k \<Rightarrow> 'v \<Rightarrow> 's \<Rightarrow> 's" and del :: "'k \<Rightarrow> 's \<Rightarrow> 's"
    and ok :: "'s \<Rightarrow> bool"
  assumes get_put: "get (put k v s) j = (if j = k then Some v else get s j)"
    and get_del: "get (del k s) j = (if j = k then None else get s j)"
    and ok_put: "ok s \<Longrightarrow> ok (put k v s)"
    and ok_del: "ok s \<Longrightarrow> ok (del k s)"
begin

lemma get_del_many: "get (fold del ks s) j = (if j \<in> set ks then None else get s j)"
  by (induction ks arbitrary: s) (auto simp: get_del)

lemma ok_del_many: "ok s \<Longrightarrow> ok (fold del ks s)"
  by (induction ks arbitrary: s) (auto intro: ok_del)

lemma get_del_put: "get (del k (put k v s)) = get (del k s)"
  by (auto simp: fun_eq_iff get_put get_del)

end

definition keys_distinct :: "(string \<times> 'v) list \<Rightarrow> bool" where
  "keys_distinct z \<longleftrightarrow> distinct (map fst z)"

lemma map_of_without: "map_of (filter (\<lambda>x. fst x \<noteq> k) z) j = (if j = k then None else map_of z j)"
  by (induction z) auto

lemma keys_distinct_without: "keys_distinct z \<Longrightarrow> keys_distinct (filter P z)"
  by (simp add: keys_distinct_def distinct_map_filter)

interpretation zs: keyed_store zscore zadd zrem keys_distinct
  by unfold_locales
     (auto simp: zscore_def zadd_def zrem_def map_of_without keys_distinct_without,
      auto simp: keys_distinct_def distinct_map_filter)

interpretation hs: keyed_store hget hset hdel keys_distinct
  by unfold_locales
     (simp_all add: hget_def hset_def hdel_def map_of_without keys_distinct_without update_conv',
      simp_all add: keys_distinct_def distinct_update)

lemmas store_simps = zs.get_put zs.get_del zs.get_del_many hs.get_put hs.get_del hs.get_del_many

lemma zscore_Some_iff: "keys_distinct z \<Longrightarrow> zscore z m = Some t \<longleftrightarrow> (m, t) \<in> set z"
  by (simp add: zscore_def keys_distinct_def)

lemma set_zrangebyscore:
  "keys_distinct z \<Longrightarrow> set (zrangebyscore lo hi z) =
     {m. \<exists>t. zscore z m = Some t \<and> lo \<le> t \<and> (case hi of None \<Rightarrow> True | Some h \<Rightarrow> t \<le> h)}"
  by (cases hi) (auto simp: zrangebyscore_def zscore_Some_iff image_iff)

lemma distinct_zrangebyscore: "keys_distinct z \<Longrightarrow> distinct (zrangebyscore lo hi z)"
proof -
  assume "keys_distinct z"
  then have "keys_distinct (filter P z)" for P by (rule keys_distinct_without)
  then show ?thesis
    by (simp add: zrangebyscore_def keys_distinct_def distinct_map)
qed

lemma zcard_0_iff: "zcard z = 0 \<longleftrightarrow> zscore z = Map.empty"
  by (cases z) (auto simp: zcard_def zscore_def fun_eq_iff split: if_splits)

lemma set_sadd [simp]: "set (sadd x xs) = insert x (set xs)"
  by (simp add: sadd_def)

lemma set_srem [simp]: "set (srem x xs) = set xs - {x}"
  by (auto simp: srem_def)

lemma set_srem_many: "set (fold srem ks xs) = set xs - set ks"
  by (induction ks arbitrary: xs) auto

end
