(* ===== verification/Collaborator_Color.thy ===== *)
theory Collaborator_Color
  imports Prelude "HOL-Library.Word"
begin

unbundle bit_operations_syntax

text \<open>
  The colour of a collaborator (\<open>common/utils/collaborator-color.util.ts\<close>; \<open>PresenceService\<close> has a
  copy of it): a 32-bit FNV-1a hash of the user id picks a place in a palette of sixteen colours,
  probing goes round the palette for one that is free, and a full palette falls back to a hue.
\<close>

section \<open>Hash\<close>

text \<open>\<open>Math.imul\<close> and \<open>^=\<close> work on 32 bits; \<open>>>> 0\<close> reads the bits as an unsigned number.\<close>

definition hashUserId :: "string \<Rightarrow> nat" where
  "hashUserId user =
     unat (fold (\<lambda>c h. (h XOR of_nat (of_char c)) * 16777619) user (2166136261 :: 32 word))"

lemma hashUserId_bound: "hashUserId user < 2 ^ 32"
  unfolding hashUserId_def by (rule order.strict_trans2 [OF unsigned_less]) simp

section \<open>Probing the palette\<close>

definition COLLABORATOR_COLORS :: "string list" where
  "COLLABORATOR_COLORS =
     [''#E11D48'', ''#2563EB'', ''#059669'', ''#D97706'', ''#7C3AED'', ''#0891B2'', ''#DB2777'', ''#4F46E5'',
      ''#EA580C'', ''#16A34A'', ''#9333EA'', ''#0284C7'', ''#CA8A04'', ''#65A30D'', ''#0D9488'', ''#C026D3'']"

lemma length_colors [simp]: "length COLLABORATOR_COLORS = 16"
  by (simp add: COLLABORATOR_COLORS_def)

lemma distinct_colors: "distinct COLLABORATOR_COLORS"
  by (simp add: COLLABORATOR_COLORS_def)

text \<open>The loop: the index it stops at and the number of attempts it made.\<close>

function probe_color :: "string list \<Rightarrow> nat \<Rightarrow> nat \<Rightarrow> nat \<times> nat" where
  "probe_color taken idx attempts =
     (if COLLABORATOR_COLORS ! idx \<in> set taken \<and> attempts < length COLLABORATOR_COLORS
      then probe_color taken ((idx + 1) mod length COLLABORATOR_COLORS) (attempts + 1)
      else (idx, attempts))"
  by pat_completeness auto
termination
  by (relation "measure (\<lambda>(taken, idx, attempts). 16 - attempts)") auto

declare probe_color.simps [simp del]

fun show_nat :: "nat \<Rightarrow> string" where
  "show_nat n = (if n < 10 then [char_of (48 + n)] else show_nat (n div 10) @ [char_of (48 + n mod 10)])"

declare show_nat.simps [simp del]

text \<open>
  \<open>Math.round((hash + attempts * 137.508) % 360)\<close> in exact arithmetic. The code comes here after
  sixteen attempts only, when the fraction is 0.128, far from where rounding a double could matter.
\<close>

definition golden_hue :: "nat \<Rightarrow> nat \<Rightarrow> nat" where
  "golden_hue hash attempts =
     (let x = of_nat hash + of_nat attempts * (137508 / 1000) :: rat
      in nat \<lfloor>x - 360 * of_int \<lfloor>x / 360\<rfloor> + 1 / 2\<rfloor>)"

definition assignCollaboratorColor :: "string \<Rightarrow> string list \<Rightarrow> string" where
  "assignCollaboratorColor user taken =
     (let hash = hashUserId user;
          (idx, attempts) = probe_color taken (hash mod length COLLABORATOR_COLORS) 0
      in if COLLABORATOR_COLORS ! idx \<notin> set taken then COLLABORATOR_COLORS ! idx
         else ''hsl('' @ show_nat (golden_hue hash attempts) @ '', 75%, 50%)'')"

section \<open>Facts\<close>

text \<open>Probing stops at a free colour, or has gone round the whole palette and found none.\<close>

lemma probe_color_result:
  assumes "idx < 16" "attempts \<le> 16" "probe_color taken idx attempts = (i, n)"
  shows "i < 16 \<and> n \<le> 16 \<and> attempts \<le> n \<and> i = (idx + (n - attempts)) mod 16 \<and>
    (\<forall>k < n - attempts. COLLABORATOR_COLORS ! ((idx + k) mod 16) \<in> set taken) \<and>
    (n < 16 \<longrightarrow> COLLABORATOR_COLORS ! i \<notin> set taken)"
  using assms
proof (induction taken idx attempts rule: probe_color.induct)
  case (1 taken idx attempts)
  show ?case
  proof (cases "COLLABORATOR_COLORS ! idx \<in> set taken \<and> attempts < 16")
    case False
    with 1(2-4) show ?thesis by (subst (asm) probe_color.simps) auto
  next
    case True
    have run: "probe_color taken ((idx + 1) mod 16) (attempts + 1) = (i, n)"
      using True 1(4) by (subst (asm) probe_color.simps) simp
    from 1(1) True run have
      n: "i < 16" "n \<le> 16" "Suc attempts \<le> n" "i = (Suc idx mod 16 + (n - Suc attempts)) mod 16"
      and seen: "\<forall>k < n - Suc attempts. COLLABORATOR_COLORS ! ((Suc idx mod 16 + k) mod 16) \<in> set taken"
      and free: "n < 16 \<longrightarrow> COLLABORATOR_COLORS ! i \<notin> set taken" by auto
    have "COLLABORATOR_COLORS ! ((idx + k) mod 16) \<in> set taken" if "k < n - attempts" for k
    proof (cases k)
      case 0
      then show ?thesis using True 1(2) by simp
    next
      case (Suc k')
      then have "k' < n - Suc attempts" using that by simp
      with seen have "COLLABORATOR_COLORS ! ((Suc idx mod 16 + k') mod 16) \<in> set taken" by blast
      moreover have "(Suc idx mod 16 + k') mod 16 = (idx + k) mod 16" by (simp add: Suc mod_simps)
      ultimately show ?thesis by simp
    qed
    moreover have "i = (idx + (n - attempts)) mod 16"
    proof -
      from n(3) have "Suc idx + (n - Suc attempts) = idx + (n - attempts)" by simp
      with n(4) show ?thesis by (metis mod_add_left_eq)
    qed
    ultimately show ?thesis using n free by auto
  qed
qed

lemma palette_covered:
  assumes "\<forall>k < 16. COLLABORATOR_COLORS ! ((idx + k) mod 16) \<in> set taken" "idx < 16"
  shows "set COLLABORATOR_COLORS \<subseteq> set taken"
proof
  fix c assume "c \<in> set COLLABORATOR_COLORS"
  then obtain j where j: "j < 16" "c = COLLABORATOR_COLORS ! j" by (auto simp: in_set_conv_nth)
  have "(idx + (j + 16 - idx) mod 16) mod 16 = j"
    using j(1) assms(2) by (simp add: mod_simps)
  moreover have "(j + 16 - idx) mod 16 < 16" by simp
  ultimately show "c \<in> set taken" using assms(1) j(2) by metis
qed

text \<open>While the palette has a free colour, the result is one.\<close>

lemma assigned_color_free:
  assumes "\<not> set COLLABORATOR_COLORS \<subseteq> set taken"
  shows "assignCollaboratorColor user taken \<in> set COLLABORATOR_COLORS - set taken"
proof -
  let ?idx = "hashUserId user mod 16"
  obtain i n where run: "probe_color taken ?idx 0 = (i, n)" by (cases "probe_color taken ?idx 0")
  from probe_color_result [OF _ _ this] have
    res: "i < 16" "n \<le> 16" "\<forall>k < n. COLLABORATOR_COLORS ! ((?idx + k) mod 16) \<in> set taken"
      "n < 16 \<longrightarrow> COLLABORATOR_COLORS ! i \<notin> set taken" by auto
  have "n < 16"
  proof (rule ccontr)
    assume "\<not> n < 16"
    with res(2,3) have "\<forall>k < 16. COLLABORATOR_COLORS ! ((?idx + k) mod 16) \<in> set taken" by simp
    with palette_covered assms show False by simp
  qed
  with res have "COLLABORATOR_COLORS ! i \<notin> set taken" "i < 16" by auto
  with run show ?thesis
    by (simp add: assignCollaboratorColor_def)
qed

lemma few_taken:
  assumes "length taken < 16"
  shows "\<not> set COLLABORATOR_COLORS \<subseteq> set taken"
proof
  assume "set COLLABORATOR_COLORS \<subseteq> set taken"
  then have "card (set COLLABORATOR_COLORS) \<le> card (set taken)" by (rule card_mono [rotated]) simp
  moreover have "card (set COLLABORATOR_COLORS) = 16" using distinct_card [OF distinct_colors] by simp
  ultimately show False using assms card_length [of taken] by linarith
qed

end
