(* ===== verification/Presence.thy ===== *)
theory Presence
  imports Redis_Sets Collaborator_Color
begin

text \<open>
  \<open>PresenceService\<close> (\<open>board/realtime/services/presence.service.ts\<close>): who is looking at a board. A
  board has a sorted set of sockets by last heartbeat and a hash of socket entries; a set tracks the
  boards with viewers. Operations that go to Redis twice are split at that point, so that other
  calls can run in between. Stored entries are the objects themselves: their JSON text parses back.
\<close>

section \<open>State\<close>

record presence_entry =
  peUserId :: uuid
  peSocketId :: string
  peDisplayName :: string
  peAvatarUrl :: "string option"
  peColor :: string
  peConnectedAt :: instant

record presence_user =
  puUserId :: uuid
  puDisplayName :: string
  puAvatarUrl :: "string option"
  puColor :: string
  puConnectedAt :: instant

record presence =
  prBoards :: "uuid list"
  prActive :: "uuid \<Rightarrow> zset"
  prMeta :: "uuid \<Rightarrow> presence_entry rhash"

definition no_presence :: presence where
  "no_presence = \<lparr>prBoards = [], prActive = (\<lambda>_. []), prMeta = (\<lambda>_. [])\<rparr>"

definition STALE_THRESHOLD_MS :: instant where
  "STALE_THRESHOLD_MS = 90000"

section \<open>Operations\<close>

definition addPresence :: "instant \<Rightarrow> uuid \<Rightarrow> presence_entry \<Rightarrow> presence \<Rightarrow> presence" where
  "addPresence now board entry p =
     p\<lparr>prBoards := sadd board (prBoards p),
       prActive := (prActive p)(board := zadd (peSocketId entry) now (prActive p board)),
       prMeta := (prMeta p)(board := hset (peSocketId entry) entry (prMeta p board))\<rparr>"

text \<open>The pipeline of the removal: the entry that was there and how many sockets remain.\<close>

definition remove_pipeline :: "uuid \<Rightarrow> string \<Rightarrow> presence \<Rightarrow> (presence_entry option \<times> nat) \<times> presence" where
  "remove_pipeline board socket p =
     (let active = zrem socket (prActive p board)
      in ((hget (prMeta p board) socket, zcard active),
          p\<lparr>prActive := (prActive p)(board := active),
            prMeta := (prMeta p)(board := hdel socket (prMeta p board))\<rparr>))"

definition untrack_if_empty :: "uuid \<Rightarrow> nat \<Rightarrow> presence \<Rightarrow> presence" where
  "untrack_if_empty board remaining p =
     (if remaining = 0 then p\<lparr>prBoards := srem board (prBoards p)\<rparr> else p)"

definition removePresence :: "uuid \<Rightarrow> string \<Rightarrow> presence \<Rightarrow> presence_entry option \<times> presence" where
  "removePresence board socket p =
     (let ((entry, remaining), p1) = remove_pipeline board socket p
      in (entry, untrack_if_empty board remaining p1))"

definition updateHeartbeat :: "instant \<Rightarrow> uuid \<Rightarrow> string \<Rightarrow> presence \<Rightarrow> presence" where
  "updateHeartbeat now board socket p =
     p\<lparr>prActive := (prActive p)(board := zadd socket now (prActive p board))\<rparr>"

definition public_entry :: "presence_entry \<Rightarrow> presence_user" where
  "public_entry e = \<lparr>puUserId = peUserId e, puDisplayName = peDisplayName e, puAvatarUrl = peAvatarUrl e,
     puColor = peColor e, puConnectedAt = peConnectedAt e\<rparr>"

text \<open>The loop over the fetched entries: one viewer per user, the first entry wins.\<close>

fun collect_viewers :: "uuid list \<Rightarrow> presence_entry option list \<Rightarrow> presence_user list" where
  "collect_viewers seen [] = []"
| "collect_viewers seen (None # raws) = collect_viewers seen raws"
| "collect_viewers seen (Some e # raws) =
     (if peUserId e \<in> set seen then collect_viewers seen raws
      else public_entry e # collect_viewers (peUserId e # seen) raws)"

definition getBoardViewers :: "instant \<Rightarrow> uuid \<Rightarrow> presence \<Rightarrow> presence_user list" where
  "getBoardViewers now board p =
     collect_viewers [] (hmget (prMeta p board)
       (zrangebyscore (now - STALE_THRESHOLD_MS) None (prActive p board)))"

definition getCollaboratorColor :: "instant \<Rightarrow> uuid \<Rightarrow> uuid \<Rightarrow> presence \<Rightarrow> string" where
  "getCollaboratorColor now user board p =
     (let viewers = getBoardViewers now board p
      in case find (\<lambda>v. puUserId v = user) viewers of
           Some v \<Rightarrow> puColor v
         | None \<Rightarrow> assignCollaboratorColor user (map puColor viewers))"

text \<open>The cleanup: find the stale sockets of every tracked board, then prune what was found.\<close>

definition cleanup_check :: "instant \<Rightarrow> presence \<Rightarrow> (uuid \<times> string list) list" where
  "cleanup_check now p =
     filter (\<lambda>(board, sockets). sockets \<noteq> [])
       (map (\<lambda>board. (board, zrangebyscore 0 (Some (now - STALE_THRESHOLD_MS)) (prActive p board))) (prBoards p))"

definition prune_board :: "uuid \<times> string list \<Rightarrow> presence \<Rightarrow> (presence_entry option list \<times> nat) \<times> presence" where
  "prune_board stale p =
     (case stale of (board, sockets) \<Rightarrow>
        let active = fold zrem sockets (prActive p board)
        in ((hmget (prMeta p board) sockets, zcard active),
            p\<lparr>prActive := (prActive p)(board := active),
              prMeta := (prMeta p)(board := fold hdel sockets (prMeta p board))\<rparr>))"

fun prune_boards ::
  "(uuid \<times> string list) list \<Rightarrow> presence \<Rightarrow> ((uuid \<times> presence_entry) list \<times> uuid list) \<times> presence" where
  "prune_boards [] p = (([], []), p)"
| "prune_boards (stale # rest) p =
     (let ((metas, remaining), p1) = prune_board stale p;
          ((results, empties), p2) = prune_boards rest p1
      in ((map (Pair (fst stale)) (List.map_filter id metas) @ results,
           if remaining = 0 then fst stale # empties else empties), p2))"

definition cleanup_prune :: "(uuid \<times> string list) list \<Rightarrow> presence \<Rightarrow> (uuid \<times> presence_entry) list \<times> presence" where
  "cleanup_prune stale p =
     (let ((results, empties), p1) = prune_boards stale p
      in (results, p1\<lparr>prBoards := fold srem empties (prBoards p1)\<rparr>))"

definition cleanupStaleEntries :: "instant \<Rightarrow> presence \<Rightarrow> (uuid \<times> presence_entry) list \<times> presence" where
  "cleanupStaleEntries now p = cleanup_prune (cleanup_check now p) p"

section \<open>The two views of a socket\<close>

text \<open>A socket's entry and its last heartbeat; every operation is understood through these two.\<close>

definition entry_of :: "presence \<Rightarrow> uuid \<Rightarrow> string \<Rightarrow> presence_entry option" where
  "entry_of p board socket = hget (prMeta p board) socket"

definition beat_of :: "presence \<Rightarrow> uuid \<Rightarrow> string \<Rightarrow> instant option" where
  "beat_of p board socket = zscore (prActive p board) socket"

definition keys_ok :: "presence \<Rightarrow> bool" where
  "keys_ok p \<longleftrightarrow> (\<forall>b. keys_distinct (prActive p b) \<and> keys_distinct (prMeta p b))"

lemma add_views [simp]:
  "entry_of (addPresence now b e p) c k = (if c = b \<and> k = peSocketId e then Some e else entry_of p c k)"
  "beat_of (addPresence now b e p) c k = (if c = b \<and> k = peSocketId e then Some now else beat_of p c k)"
  "keys_ok p \<Longrightarrow> keys_ok (addPresence now b e p)" "prBoards (addPresence now b e p) = sadd b (prBoards p)"
  by (auto simp: entry_of_def beat_of_def addPresence_def store_simps keys_ok_def zs.ok_put hs.ok_put)

lemma heartbeat_views [simp]:
  "entry_of (updateHeartbeat now b s p) = entry_of p"
  "beat_of (updateHeartbeat now b s p) c k = (if c = b \<and> k = s then Some now else beat_of p c k)"
  "keys_ok p \<Longrightarrow> keys_ok (updateHeartbeat now b s p)"
  "prBoards (updateHeartbeat now b s p) = prBoards p"
  by (auto simp: entry_of_def beat_of_def updateHeartbeat_def store_simps keys_ok_def zs.ok_put fun_eq_iff)

lemma pipeline_views [simp]:
  "entry_of (snd (remove_pipeline b s p)) c k = (if c = b \<and> k = s then None else entry_of p c k)"
  "beat_of (snd (remove_pipeline b s p)) c k = (if c = b \<and> k = s then None else beat_of p c k)"
  "keys_ok p \<Longrightarrow> keys_ok (snd (remove_pipeline b s p))"
  "prBoards (snd (remove_pipeline b s p)) = prBoards p"
  by (auto simp: entry_of_def beat_of_def remove_pipeline_def Let_def store_simps keys_ok_def zs.ok_del hs.ok_del)

lemma untrack_views [simp]:
  "entry_of (untrack_if_empty b n p) = entry_of p" "beat_of (untrack_if_empty b n p) = beat_of p"
  "keys_ok (untrack_if_empty b n p) = keys_ok p"
  by (simp_all add: fun_eq_iff entry_of_def beat_of_def untrack_if_empty_def keys_ok_def)

lemma remove_views [simp]:
  "entry_of (snd (removePresence b s p)) c k = (if c = b \<and> k = s then None else entry_of p c k)"
  "beat_of (snd (removePresence b s p)) c k = (if c = b \<and> k = s then None else beat_of p c k)"
  "keys_ok p \<Longrightarrow> keys_ok (snd (removePresence b s p))"
  "fst (removePresence b s p) = entry_of p b s"
  by (simp_all add: removePresence_def Let_def case_prod_beta) (simp add: remove_pipeline_def entry_of_def Let_def)

lemma prune_board_views [simp]:
  "entry_of (snd (prune_board (b, ss) p)) c k = (if c = b \<and> k \<in> set ss then None else entry_of p c k)"
  "beat_of (snd (prune_board (b, ss) p)) c k = (if c = b \<and> k \<in> set ss then None else beat_of p c k)"
  "keys_ok p \<Longrightarrow> keys_ok (snd (prune_board (b, ss) p))"
  "prBoards (snd (prune_board (b, ss) p)) = prBoards p"
  by (auto simp: entry_of_def beat_of_def prune_board_def Let_def store_simps keys_ok_def
      zs.ok_del_many hs.ok_del_many)

text \<open>What the pruning of several boards removes.\<close>

definition pruned :: "(uuid \<times> string list) list \<Rightarrow> uuid \<Rightarrow> string \<Rightarrow> bool" where
  "pruned stale b k \<longleftrightarrow> (\<exists>ss. (b, ss) \<in> set stale \<and> k \<in> set ss)"

lemma pruned_simps [simp]:
  "pruned [] b k = False" "pruned ((c, ss) # stale) b k \<longleftrightarrow> (b = c \<and> k \<in> set ss) \<or> pruned stale b k"
  by (auto simp: pruned_def)

lemma prune_boards_Cons [simp]:
  "snd (prune_boards (stale # rest) p) = snd (prune_boards rest (snd (prune_board stale p)))"
  by (simp add: Let_def case_prod_beta)

declare prune_boards.simps(2) [simp del]

lemma prune_boards_views [simp]:
  "entry_of (snd (prune_boards stale p)) c k = (if pruned stale c k then None else entry_of p c k)"
  "beat_of (snd (prune_boards stale p)) c k = (if pruned stale c k then None else beat_of p c k)"
  "prBoards (snd (prune_boards stale p)) = prBoards p"
  by (induction stale arbitrary: p) auto

lemma prune_boards_keys [simp]: "keys_ok p \<Longrightarrow> keys_ok (snd (prune_boards stale p))"
  by (induction stale arbitrary: p) auto

section \<open>Invariant\<close>

text \<open>
  Every entry is filed under its socket, has a heartbeat, and its board is tracked, so that the
  cleanup sees it. A heartbeat without an entry is possible.
\<close>

definition presence_ok :: "presence \<Rightarrow> bool" where
  "presence_ok p \<longleftrightarrow> keys_ok p \<and>
     (\<forall>b k e. entry_of p b k = Some e \<longrightarrow> b \<in> set (prBoards p) \<and> beat_of p b k \<noteq> None \<and> peSocketId e = k)"

lemma presence_okD:
  "presence_ok p \<Longrightarrow> entry_of p b k = Some e \<Longrightarrow> b \<in> set (prBoards p) \<and> beat_of p b k \<noteq> None \<and> peSocketId e = k"
  by (simp add: presence_ok_def)

lemma no_presence_ok: "presence_ok no_presence"
  by (simp add: presence_ok_def no_presence_def entry_of_def keys_ok_def keys_distinct_def hget_def)

lemma add_ok: "presence_ok p \<Longrightarrow> presence_ok (addPresence now b e p)"
  unfolding presence_ok_def by auto

lemma heartbeat_ok: "presence_ok p \<Longrightarrow> presence_ok (updateHeartbeat now b s p)"
  unfolding presence_ok_def by simp blast

text \<open>Boards without any heartbeat may be untracked.\<close>

lemma untrack_ok:
  assumes "presence_ok p" "\<And>b k. b \<in> set bs \<Longrightarrow> beat_of p b k = None"
  shows "presence_ok (p\<lparr>prBoards := fold srem bs (prBoards p)\<rparr>)"
proof -
  have "entry_of (p\<lparr>prBoards := x\<rparr>) = entry_of p" "beat_of (p\<lparr>prBoards := x\<rparr>) = beat_of p"
    "keys_ok (p\<lparr>prBoards := x\<rparr>) = keys_ok p" for x
    by (simp_all add: fun_eq_iff entry_of_def beat_of_def keys_ok_def)
  then show ?thesis
    using assms(1) assms(2) unfolding presence_ok_def by (force simp: set_srem_many)
qed

lemma pipeline_ok: "presence_ok p \<Longrightarrow> presence_ok (snd (remove_pipeline b s p))"
  unfolding presence_ok_def by (auto split: if_splits)

lemma remove_ok:
  assumes "presence_ok p"
  shows "presence_ok (snd (removePresence b s p))"
proof (cases "zcard (zrem s (prActive p b)) = 0")
  case True
  let ?p = "snd (remove_pipeline b s p)"
  have "zcard (prActive ?p b) = 0" using True by (simp add: remove_pipeline_def Let_def)
  then have "beat_of ?p b k = None" for k by (simp add: beat_of_def zcard_0_iff)
  with untrack_ok [OF pipeline_ok [OF assms], of "[b]" b s] have
    "presence_ok (?p\<lparr>prBoards := srem b (prBoards ?p)\<rparr>)" by simp
  with True show ?thesis
    by (simp add: removePresence_def remove_pipeline_def untrack_if_empty_def Let_def)
next
  case False
  with pipeline_ok [OF assms, of b s] show ?thesis
    by (simp add: removePresence_def remove_pipeline_def untrack_if_empty_def Let_def)
qed

lemma emptied_boards:
  "b \<in> set (snd (fst (prune_boards stale p))) \<Longrightarrow> beat_of (snd (prune_boards stale p)) b k = None"
proof (induction stale arbitrary: p)
  case (Cons x stale)
  obtain c ss where x: "x = (c, ss)" by (cases x)
  let ?p1 = "snd (prune_board x p)"
  have "b \<in> set (snd (fst (prune_boards stale ?p1))) \<or> b = c \<and> zcard (prActive ?p1 c) = 0"
    using Cons.prems
    by (auto simp: prune_boards.simps(2) Let_def case_prod_beta x prune_board_def split: if_splits)
  then show ?case
  proof
    assume "b \<in> set (snd (fst (prune_boards stale ?p1)))"
    then show ?thesis using Cons.IH by simp
  next
    assume "b = c \<and> zcard (prActive ?p1 c) = 0"
    then have "beat_of ?p1 b k = None" by (simp add: beat_of_def zcard_0_iff)
    then show ?thesis by simp
  qed
qed simp

lemma prune_ok: "presence_ok p \<Longrightarrow> presence_ok (snd (prune_boards stale p))"
  unfolding presence_ok_def by (auto split: if_splits)

text \<open>Pruning is safe for any list of sockets, in particular for one found some time earlier.\<close>

lemma cleanup_prune_ok:
  assumes "presence_ok p"
  shows "presence_ok (snd (cleanup_prune stale p))"
  using untrack_ok [OF prune_ok [OF assms], of "snd (fst (prune_boards stale p))" stale] emptied_boards
  by (simp add: cleanup_prune_def Let_def case_prod_beta)

lemma cleanup_views [simp]:
  "entry_of (snd (cleanup_prune stale p)) c k = (if pruned stale c k then None else entry_of p c k)"
  "beat_of (snd (cleanup_prune stale p)) c k = (if pruned stale c k then None else beat_of p c k)"
proof -
  have "entry_of (q\<lparr>prBoards := x\<rparr>) = entry_of q" "beat_of (q\<lparr>prBoards := x\<rparr>) = beat_of q" for q x
    by (simp_all add: fun_eq_iff entry_of_def beat_of_def)
  then show "entry_of (snd (cleanup_prune stale p)) c k = (if pruned stale c k then None else entry_of p c k)"
    "beat_of (snd (cleanup_prune stale p)) c k = (if pruned stale c k then None else beat_of p c k)"
    by (simp_all add: cleanup_prune_def Let_def case_prod_beta)
qed

lemma pruned_check_iff:
  assumes "keys_ok p"
  shows "pruned (cleanup_check now p) b k \<longleftrightarrow> b \<in> set (prBoards p) \<and>
    (\<exists>t. beat_of p b k = Some t \<and> 0 \<le> t \<and> t \<le> now - STALE_THRESHOLD_MS)"
proof -
  have "k \<in> set (zrangebyscore 0 (Some h) (prActive p b)) \<longleftrightarrow> (\<exists>t. beat_of p b k = Some t \<and> 0 \<le> t \<and> t \<le> h)" for h
    using assms by (simp add: keys_ok_def set_zrangebyscore beat_of_def)
  note in_range = this
  have "pruned (cleanup_check now p) b k \<longleftrightarrow> b \<in> set (prBoards p) \<and>
      k \<in> set (zrangebyscore 0 (Some (now - STALE_THRESHOLD_MS)) (prActive p b))"
    by (force simp: pruned_def cleanup_check_def)
  with in_range show ?thesis by simp
qed

section \<open>Viewers\<close>

lemma collect_viewers_users:
  "puUserId ` set (collect_viewers seen raws) = peUserId ` {e. Some e \<in> set raws} - set seen"
  by (induction seen raws rule: collect_viewers.induct) (auto simp: public_entry_def)

lemma collect_viewers_distinct:
  "distinct (map puUserId (collect_viewers seen raws)) \<and> puUserId ` set (collect_viewers seen raws) \<inter> set seen = {}"
  by (induction seen raws rule: collect_viewers.induct) (auto simp: public_entry_def)

lemma viewer_iff:
  assumes "keys_ok p"
  shows "u \<in> puUserId ` set (getBoardViewers now b p) \<longleftrightarrow>
    (\<exists>k e t. entry_of p b k = Some e \<and> peUserId e = u \<and> beat_of p b k = Some t \<and> now - STALE_THRESHOLD_MS \<le> t)"
  using assms
  by (auto simp: getBoardViewers_def collect_viewers_users hmget_def keys_ok_def set_zrangebyscore
      entry_of_def beat_of_def image_iff) (metis, force)

lemma find_by_key: "distinct (map key vs) \<Longrightarrow> v \<in> set vs \<Longrightarrow> key v = x \<Longrightarrow> find (\<lambda>v. key v = x) vs = Some v"
  by (induction vs) (auto simp: image_iff)

lemma keys_ok_ok: "presence_ok p \<Longrightarrow> keys_ok p"
  by (simp add: presence_ok_def)

lemma cleanup_keys [simp]: "keys_ok p \<Longrightarrow> keys_ok (snd (cleanup_prune stale p))"
proof -
  assume "keys_ok p"
  then have "keys_ok (snd (prune_boards stale p))" by simp
  then show ?thesis by (simp add: cleanup_prune_def Let_def case_prod_beta keys_ok_def)
qed

section \<open>Histories\<close>

datatype presence_action =
    AddPresence instant uuid presence_entry
  | RemovePresence uuid string
  | Heartbeat instant uuid string
  | CleanupCheck instant
  | CleanupPrune

text \<open>What the last check found travels with the state: the prune may come any number of calls later.\<close>

fun presence_step :: "presence_action \<Rightarrow> presence \<times> (uuid \<times> string list) list \<Rightarrow> presence \<times> (uuid \<times> string list) list" where
  "presence_step (AddPresence now b e) (p, found) = (addPresence now b e p, found)"
| "presence_step (RemovePresence b k) (p, found) = (snd (removePresence b k p), found)"
| "presence_step (Heartbeat now b k) (p, found) = (updateHeartbeat now b k p, found)"
| "presence_step (CleanupCheck now) (p, found) = (p, cleanup_check now p)"
| "presence_step CleanupPrune (p, found) = (snd (cleanup_prune found p), found)"

definition presence_run :: "presence_action list \<Rightarrow> presence \<times> (uuid \<times> string list) list \<Rightarrow> presence \<times> (uuid \<times> string list) list" where
  "presence_run = fold presence_step"

lemma presence_step_ok: "presence_ok (fst x) \<Longrightarrow> presence_ok (fst (presence_step a x))"
  by (cases "(a, x)" rule: presence_step.cases) (auto simp: add_ok remove_ok heartbeat_ok cleanup_prune_ok)

lemma presence_run_ok: "presence_ok (fst x) \<Longrightarrow> presence_ok (fst (presence_run h x))"
  unfolding presence_run_def by (induction h arbitrary: x) (auto simp: presence_step_ok)

section \<open>Properties\<close>

definition sample_entry :: "uuid \<Rightarrow> string \<Rightarrow> presence_entry" where
  "sample_entry user socket = \<lparr>peUserId = user, peSocketId = socket, peDisplayName = ''User'',
     peAvatarUrl = None, peColor = ''#2563EB'', peConnectedAt = 0\<rparr>"

definition sample_presence :: presence where
  "sample_presence = addPresence 1000 ''b'' (sample_entry ''m'' ''s2'')
     (addPresence 0 ''b'' (sample_entry ''u'' ''s1'') no_presence)"

lemma sample_presence_ok: "presence_ok sample_presence"
  by (simp add: sample_presence_def add_ok no_presence_ok)

text \<open>After every history of joins, departures, heartbeats and cleanups, a cleanup's search and its pruning
  interleaved with other calls, the viewers of a board are listed once per user, and a user is listed
  exactly when one of the user's sockets is registered on the board and has sent a heartbeat (or joined)
  within the last ninety seconds.\<close>

theorem viewers_are_exact:
  assumes "presence_ok p"
  shows "let q = fst (presence_run h (p, [])) in
    distinct (map puUserId (getBoardViewers now b q)) \<and>
    (\<forall>u. u \<in> puUserId ` set (getBoardViewers now b q) \<longleftrightarrow>
      (\<exists>k e t. entry_of q b k = Some e \<and> peUserId e = u \<and> beat_of q b k = Some t \<and> now - 90000 \<le> t))"
proof -
  have "presence_ok (fst (presence_run h (p, [])))" by (rule presence_run_ok) (simp add: assms)
  then have "keys_ok (fst (presence_run h (p, [])))" by (rule keys_ok_ok)
  then show ?thesis
    using collect_viewers_distinct
    by (simp add: Let_def viewer_iff STALE_THRESHOLD_MS_def) (simp add: getBoardViewers_def)
qed

theorem viewers_are_exact_witness:
  "let q = fst (presence_run [Heartbeat 80000 ''b'' ''s2'', CleanupCheck 95000, CleanupPrune] (sample_presence, [])) in
    distinct (map puUserId (getBoardViewers 96000 ''b'' q)) \<and>
    (\<forall>u. u \<in> puUserId ` set (getBoardViewers 96000 ''b'' q) \<longleftrightarrow>
      (\<exists>k e t. entry_of q ''b'' k = Some e \<and> peUserId e = u \<and> beat_of q ''b'' k = Some t \<and> 96000 - 90000 \<le> t))"
  by (rule viewers_are_exact) (rule sample_presence_ok)

text \<open>The cleanup removes exactly what no longer counts: afterwards no registered socket is stale, and at every
  later moment the boards show the same users as if the cleanup had not run.\<close>

theorem cleanup_removes_only_the_unseen:
  assumes "presence_ok p" "\<forall>b k t. beat_of p b k = Some t \<longrightarrow> 0 \<le> t" "now < later"
  shows "let q = snd (cleanupStaleEntries now p) in
    presence_ok q \<and>
    (\<forall>b k e. entry_of q b k = Some e \<longrightarrow> (\<exists>t. beat_of q b k = Some t \<and> now - 90000 < t)) \<and>
    (\<forall>b. puUserId ` set (getBoardViewers later b q) = puUserId ` set (getBoardViewers later b p))"
proof -
  let ?q = "snd (cleanupStaleEntries now p)"
  note keys = keys_ok_ok [OF assms(1)]
  have ok: "presence_ok ?q" unfolding cleanupStaleEntries_def by (rule cleanup_prune_ok [OF assms(1)])
  have views: "entry_of ?q b k = (if pruned (cleanup_check now p) b k then None else entry_of p b k)"
    "beat_of ?q b k = (if pruned (cleanup_check now p) b k then None else beat_of p b k)" for b k
    by (simp_all add: cleanupStaleEntries_def)
  have stale: "pruned (cleanup_check now p) b k \<longleftrightarrow> b \<in> set (prBoards p) \<and>
      (\<exists>t. beat_of p b k = Some t \<and> t \<le> now - 90000)" for b k
    using assms(2) by (auto simp: pruned_check_iff [OF keys] STALE_THRESHOLD_MS_def)
  have fresh: "\<exists>t. beat_of ?q b k = Some t \<and> now - 90000 < t" if "entry_of ?q b k = Some e" for b k e
    using that presence_okD [OF assms(1), of b k e] stale [of b k]
    by (auto simp: views split: if_splits)
  have seen: "entry_of ?q b k = Some e \<and> peUserId e = u \<and> beat_of ?q b k = Some t \<and> later - 90000 \<le> t \<longleftrightarrow>
      entry_of p b k = Some e \<and> peUserId e = u \<and> beat_of p b k = Some t \<and> later - 90000 \<le> t" for b k e t u
    using stale [of b k] assms(3) by (auto simp: views)
  have "u \<in> puUserId ` set (getBoardViewers later b ?q) \<longleftrightarrow> u \<in> puUserId ` set (getBoardViewers later b p)" for u b
    unfolding viewer_iff [OF keys] viewer_iff [OF keys_ok_ok [OF ok]] STALE_THRESHOLD_MS_def seen ..
  then have "puUserId ` set (getBoardViewers later b ?q) = puUserId ` set (getBoardViewers later b p)" for b by blast
  with ok fresh show ?thesis unfolding Let_def by blast
qed

theorem cleanup_removes_only_the_unseen_witness:
  "let q = snd (cleanupStaleEntries 90500 sample_presence) in
    presence_ok q \<and>
    (\<forall>b k e. entry_of q b k = Some e \<longrightarrow> (\<exists>t. beat_of q b k = Some t \<and> 90500 - 90000 < t)) \<and>
    (\<forall>b. puUserId ` set (getBoardViewers 90501 b q) = puUserId ` set (getBoardViewers 90501 b sample_presence))"
proof (rule cleanup_removes_only_the_unseen [OF sample_presence_ok])
  show "\<forall>b k t. beat_of sample_presence b k = Some t \<longrightarrow> 0 \<le> t"
    by (simp add: sample_presence_def) (simp add: beat_of_def no_presence_def zscore_def)
qed simp

text \<open>A socket that was pruned stays invisible however long it keeps sending heartbeats: a heartbeat renews the
  score but not the entry, so a user with no other socket on the board is listed again only after a new
  join.\<close>

theorem heartbeat_does_not_restore_viewer:
  assumes "presence_ok p" "b \<in> set (prBoards p)" "beat_of p b k = Some t" "0 \<le> t" "t \<le> now - 90000"
    and alone: "\<forall>k' e. k' \<noteq> k \<longrightarrow> entry_of p b k' = Some e \<longrightarrow> peUserId e \<noteq> user"
  shows "user \<notin> puUserId ` set (getBoardViewers later b
    (fold (\<lambda>i. updateHeartbeat i b k) beats (snd (cleanupStaleEntries now p))))"
proof -
  let ?q = "snd (cleanupStaleEntries now p)" and ?run = "fold (\<lambda>i. updateHeartbeat i b k) beats"
  have gone: "pruned (cleanup_check now p) b k"
    unfolding pruned_check_iff [OF keys_ok_ok [OF assms(1)]] STALE_THRESHOLD_MS_def using assms(2-5) by blast
  have same: "entry_of (?run q) = entry_of q" for q
    by (induction beats arbitrary: q) simp_all
  have ok: "presence_ok (?run q)" if "presence_ok q" for q
    using that by (induction beats arbitrary: q) (simp_all add: heartbeat_ok)
  have none: "entry_of (?run ?q) b k = None" using gone by (simp add: same cleanupStaleEntries_def)
  have kept: "entry_of (?run ?q) b k' = Some e \<Longrightarrow> entry_of p b k' = Some e" for k' e
    by (simp add: same cleanupStaleEntries_def split: if_splits)
  have keys: "keys_ok (?run ?q)"
    unfolding cleanupStaleEntries_def by (intro keys_ok_ok ok cleanup_prune_ok assms(1))
  show ?thesis
  proof (unfold viewer_iff [OF keys], intro notI, elim exE conjE)
    fix k' e t assume e: "entry_of (?run ?q) b k' = Some e" "peUserId e = user"
    with none have "k' \<noteq> k" by auto
    with alone kept [OF e(1)] e(2) show False by blast
  qed
qed

theorem heartbeat_does_not_restore_viewer_witness:
  "''u'' \<notin> puUserId ` set (getBoardViewers 100001 ''b''
    (fold (\<lambda>i. updateHeartbeat i ''b'' ''s1'') [100000] (snd (cleanupStaleEntries 90500 sample_presence))))"
proof (rule heartbeat_does_not_restore_viewer [OF sample_presence_ok])
  show "''b'' \<in> set (prBoards sample_presence)" by (simp add: sample_presence_def)
  show "beat_of sample_presence ''b'' ''s1'' = Some 0" by (simp add: sample_presence_def sample_entry_def)
  show "\<forall>k' e. k' \<noteq> ''s1'' \<longrightarrow> entry_of sample_presence ''b'' k' = Some e \<longrightarrow> peUserId e \<noteq> ''u''"
    by (simp add: sample_presence_def sample_entry_def) (simp add: entry_of_def no_presence_def hget_def)
qed simp_all

text \<open>Removing the last socket reads the count and untracks the board in two steps; a join in between leaves a
  board that has a viewer untracked, and no cleanup, however late, ever prunes that viewer's entry.\<close>

theorem join_during_removal_is_never_pruned:
  "let ((entry, remaining), p1) = remove_pipeline ''b'' ''s1'' (addPresence 0 ''b'' (sample_entry ''u'' ''s1'') no_presence);
       p2 = untrack_if_empty ''b'' remaining (addPresence 5 ''b'' (sample_entry ''m'' ''s2'') p1)
   in entry_of p2 ''b'' ''s2'' = Some (sample_entry ''m'' ''s2'') \<and> prBoards p2 = [] \<and>
      (\<forall>now. cleanupStaleEntries now p2 = ([], p2))"
  by (simp add: remove_pipeline_def addPresence_def no_presence_def untrack_if_empty_def sample_entry_def
      zrem_def zadd_def zcard_def hdel_def hset_def entry_of_def hget_def sadd_def srem_def
      cleanupStaleEntries_def cleanup_check_def cleanup_prune_def)

text \<open>Colours: a user who is already visible keeps the colour; a new viewer gets a palette colour no visible
  viewer has while fewer than sixteen are visible, and the probing loop always ends.\<close>

theorem collaborator_color_is_free:
  assumes "keys_ok p"
  shows "let viewers = getBoardViewers now b p; c = getCollaboratorColor now user b p in
    (\<forall>v\<in>set viewers. puUserId v = user \<longrightarrow> c = puColor v) \<and>
    (user \<notin> puUserId ` set viewers \<longrightarrow> length viewers < 16 \<longrightarrow>
      c \<in> set COLLABORATOR_COLORS \<and> c \<notin> puColor ` set viewers)"
proof -
  let ?vs = "getBoardViewers now b p"
  have dist: "distinct (map puUserId ?vs)"
    using collect_viewers_distinct by (simp add: getBoardViewers_def)
  have known: "getCollaboratorColor now user b p = puColor v" if "v \<in> set ?vs" "puUserId v = user" for v
  proof -
    have "find (\<lambda>v. puUserId v = user) ?vs = Some v"
      by (rule find_by_key [OF dist that])
    then show ?thesis by (simp add: getCollaboratorColor_def Let_def)
  qed
  have fresh: "getCollaboratorColor now user b p = assignCollaboratorColor user (map puColor ?vs)"
    if "user \<notin> puUserId ` set ?vs"
  proof -
    have "find (\<lambda>v. puUserId v = user) ?vs = None" using that by (auto simp: find_None_iff)
    then show ?thesis by (simp add: getCollaboratorColor_def Let_def)
  qed
  have "assignCollaboratorColor user (map puColor ?vs) \<in> set COLLABORATOR_COLORS - set (map puColor ?vs)"
    if "length ?vs < 16"
    by (rule assigned_color_free, rule few_taken) (simp add: that)
  with known fresh show ?thesis by (simp add: Let_def)
qed

theorem collaborator_color_is_free_witness:
  "getCollaboratorColor 2000 ''x'' ''b'' sample_presence \<notin> {''#2563EB''}"
proof -
  have keys: "keys_ok sample_presence" by (rule keys_ok_ok [OF sample_presence_ok])
  have vs: "getBoardViewers 2000 ''b'' sample_presence =
      [public_entry (sample_entry ''u'' ''s1''), public_entry (sample_entry ''m'' ''s2'')]"
    by code_simp
  from collaborator_color_is_free [OF keys, of 2000 "''b''" "''x''"] show ?thesis
    unfolding vs by (simp add: public_entry_def sample_entry_def Let_def)
qed

end
