(* ===== verification/Rate_Limiter.thy ===== *)
theory Rate_Limiter
  imports Presence
begin

text \<open>
  \<open>WsRateLimiterService\<close> (\<open>board/realtime/services/ws-rate-limiter.service.ts\<close>) and \<open>WsRateLimitGuard\<close>
  (\<open>common/guards/ws-rate-limit.guard.ts\<close>): a sliding window per user and category. The window is a
  sorted set under a key that expires; the random suffix of an attempt is an argument.
\<close>

section \<open>Service\<close>

text \<open>A key holds a sorted set until the instant it expires.\<close>

type_synonym limiter = "string \<Rightarrow> (zset \<times> instant) option"

definition live_window :: "instant \<Rightarrow> string \<Rightarrow> limiter \<Rightarrow> zset" where
  "live_window now key L = (case L key of None \<Rightarrow> [] | Some (z, till) \<Rightarrow> if now < till then z else [])"

definition window_key :: "uuid \<Rightarrow> string \<Rightarrow> string" where
  "window_key user category = ''ratelimit:ws:'' @ user @ '':'' @ category"

definition attempt_member :: "instant \<Rightarrow> string \<Rightarrow> string" where
  "attempt_member now suffix = show_nat (nat now) @ ''-'' @ suffix"

text \<open>\<open>Math.max(Math.ceil(windowMs / 1000), 1)\<close>\<close>

definition window_ttl :: "int \<Rightarrow> int" where
  "window_ttl windowMs = max (- ((- windowMs) div 1000)) 1"

definition checkRateLimit ::
  "instant \<Rightarrow> string \<Rightarrow> uuid \<Rightarrow> string \<Rightarrow> nat \<Rightarrow> int \<Rightarrow> limiter \<Rightarrow> bool \<times> limiter" where
  "checkRateLimit now suffix user category limit windowMs L =
     (let key = window_key user category;
          kept = zremrangebyscore 0 (now - windowMs) (live_window now key L);
          z = zadd (attempt_member now suffix) now kept
      in (\<not> limit < zcard z, L(key := Some (z, now + window_ttl windowMs * 1000))))"

section \<open>Guard\<close>

record rate_limit =
  rlCategory :: string
  rlLimit :: nat
  rlWindowMs :: int
  rlSilent :: bool

text \<open>The guard passes, drops the event silently, or answers with an error code.\<close>

definition wsRateLimitGuard_canActivate ::
  "instant \<Rightarrow> string \<Rightarrow> rate_limit option \<Rightarrow> uuid option \<Rightarrow> limiter \<Rightarrow> (string + bool) \<times> limiter" where
  "wsRateLimitGuard_canActivate now suffix config user L =
     (case config of
        None \<Rightarrow> (Inr True, L)
      | Some c \<Rightarrow>
          if \<not> truthy user then ((if rlSilent c then Inr False else Inl ''TOKEN_INVALID''), L)
          else (let (allowed, L') = checkRateLimit now suffix (the user) (rlCategory c) (rlLimit c) (rlWindowMs c) L
                in ((if allowed then Inr True
                     else if rlSilent c then Inr False else Inl ''RATE_LIMIT_EXCEEDED''), L')))"

definition ROOM_JOINS :: rate_limit where
  "ROOM_JOINS = \<lparr>rlCategory = ''join'', rlLimit = 10, rlWindowMs = 60000, rlSilent = False\<rparr>"

definition PRESENCE_CURSOR :: rate_limit where
  "PRESENCE_CURSOR = \<lparr>rlCategory = ''cursor'', rlLimit = 600, rlWindowMs = 60000, rlSilent = True\<rparr>"

definition DOC_UPDATE :: rate_limit where
  "DOC_UPDATE = \<lparr>rlCategory = ''doc_update'', rlLimit = 120, rlWindowMs = 60000, rlSilent = False\<rparr>"

definition DOC_AWARENESS :: rate_limit where
  "DOC_AWARENESS = \<lparr>rlCategory = ''doc_awareness'', rlLimit = 600, rlWindowMs = 60000, rlSilent = True\<rparr>"

section \<open>Runs of attempts\<close>

text \<open>The answers to the attempts of one user in one category, in the order they were made.\<close>

fun run_attempts ::
  "uuid \<Rightarrow> string \<Rightarrow> nat \<Rightarrow> int \<Rightarrow> (instant \<times> string) list \<Rightarrow> limiter \<Rightarrow> bool list \<times> limiter" where
  "run_attempts user category limit windowMs [] L = ([], L)"
| "run_attempts user category limit windowMs ((now, suffix) # as) L =
     (let (r, L1) = checkRateLimit now suffix user category limit windowMs L;
          (rs, L2) = run_attempts user category limit windowMs as L1
      in (r # rs, L2))"

text \<open>The reference: an attempt is allowed when the window that ends with it holds at most \<open>limit\<close> attempts.\<close>

definition in_window :: "int \<Rightarrow> instant \<Rightarrow> (instant \<times> string) list \<Rightarrow> nat" where
  "in_window windowMs now as = length (filter (\<lambda>a. now - windowMs < fst a) as)"

fun allowed_by_reference :: "nat \<Rightarrow> int \<Rightarrow> (instant \<times> string) list \<Rightarrow> (instant \<times> string) list \<Rightarrow> bool list" where
  "allowed_by_reference limit windowMs past [] = []"
| "allowed_by_reference limit windowMs past (a # as) =
     (in_window windowMs (fst a) (past @ [a]) \<le> limit) # allowed_by_reference limit windowMs (past @ [a]) as"

text \<open>What a run of attempts leaves: the attempts of the last window, until at least a window later.\<close>

definition members_of :: "(instant \<times> string) list \<Rightarrow> zset" where
  "members_of as = rev (map (\<lambda>(t, x). (attempt_member t x, t)) as)"

definition tracks :: "int \<Rightarrow> (instant \<times> string) list \<Rightarrow> (zset \<times> instant) option \<Rightarrow> bool" where
  "tracks windowMs past entry \<longleftrightarrow>
     (case entry of
        None \<Rightarrow> past = []
      | Some (z, till) \<Rightarrow> past \<noteq> [] \<and> z = members_of (filter (\<lambda>a. fst (last past) - windowMs < fst a) past) \<and>
          fst (last past) + windowMs \<le> till)"

lemma window_ttl_long: "windowMs \<le> window_ttl windowMs * 1000"
  unfolding window_ttl_def by linarith

lemma zrem_fresh: "m \<notin> fst ` set z \<Longrightarrow> zrem m z = z"
  by (auto simp: zrem_def filter_id_conv)

definition well_timed :: "int \<Rightarrow> (instant \<times> string) list \<Rightarrow> bool" where
  "well_timed windowMs as \<longleftrightarrow> 0 < windowMs \<and> sorted (map fst as) \<and> (\<forall>a\<in>set as. 0 \<le> fst a) \<and>
     distinct (map (\<lambda>a. attempt_member (fst a) (snd a)) as)"

lemma members_of_filter:
  "\<forall>a\<in>set as. 0 \<le> fst a \<Longrightarrow>
   zremrangebyscore 0 h (members_of as) = members_of (filter (\<lambda>a. h < fst a) as)"
  by (induction as) (auto simp: members_of_def zremrangebyscore_def)

lemma sorted_last: "sorted (map fst as) \<Longrightarrow> a \<in> set as \<Longrightarrow> fst a \<le> fst (last as)"
  by (induction as rule: rev_induct) (auto simp: sorted_append)

lemma check_tracks:
  assumes "tracks windowMs past (L (window_key user category))" "well_timed windowMs (past @ [(now, suffix)])"
  shows "checkRateLimit now suffix user category limit windowMs L =
      (in_window windowMs now (past @ [(now, suffix)]) \<le> limit,
       snd (checkRateLimit now suffix user category limit windowMs L)) \<and>
    tracks windowMs (past @ [(now, suffix)])
      (snd (checkRateLimit now suffix user category limit windowMs L) (window_key user category))"
proof -
  let ?key = "window_key user category" and ?W = "filter (\<lambda>a. now - windowMs < fst a)"
  have times: "\<forall>a\<in>set past. 0 \<le> fst a \<and> fst a \<le> now"
    using assms(2) by (auto simp: well_timed_def sorted_append)
  have w: "0 < windowMs" using assms(2) by (simp add: well_timed_def)
  have kept: "zremrangebyscore 0 (now - windowMs) (live_window now ?key L) = members_of (?W past)"
  proof (cases "L ?key")
    case None
    with assms(1) show ?thesis by (simp add: tracks_def live_window_def zremrangebyscore_def members_of_def)
  next
    case (Some e)
    obtain z till where e: "e = (z, till)" by (cases e)
    let ?last = "fst (last past)"
    from assms(1) Some e have past: "past \<noteq> []" and z: "z = members_of (filter (\<lambda>a. ?last - windowMs < fst a) past)"
      and till: "?last + windowMs \<le> till" by (auto simp: tracks_def)
    have last: "?last \<le> now" "\<forall>a\<in>set past. fst a \<le> ?last"
      using times past sorted_last [of past] assms(2) by (auto simp: well_timed_def sorted_append)
    show ?thesis
    proof (cases "now < till")
      case True
      have "zremrangebyscore 0 (now - windowMs) z = members_of (?W (filter (\<lambda>a. ?last - windowMs < fst a) past))"
        unfolding z by (rule members_of_filter) (use times in auto)
      also have "?W (filter (\<lambda>a. ?last - windowMs < fst a) past) = ?W past"
        using last(1) by (auto simp: filter_filter intro: filter_cong)
      finally show ?thesis using Some e True by (simp add: live_window_def)
    next
      case False
      with till have "?last \<le> now - windowMs" by simp
      with last(2) have "?W past = []" by (force simp: filter_empty_conv)
      with Some e False show ?thesis by (simp add: live_window_def zremrangebyscore_def members_of_def)
    qed
  qed
  have fresh: "attempt_member now suffix \<notin> fst ` set (members_of (?W past))"
  proof -
    have "attempt_member now suffix \<notin> (\<lambda>a. attempt_member (fst a) (snd a)) ` set past"
      using assms(2) by (simp add: well_timed_def)
    then show ?thesis by (force simp: members_of_def)
  qed
  have z: "zadd (attempt_member now suffix) now (members_of (?W past)) = members_of (?W (past @ [(now, suffix)]))"
    using zrem_fresh [OF fresh] w by (simp add: zadd_def members_of_def)
  have "zcard (members_of as) = length as" for as by (simp add: zcard_def members_of_def)
  with kept z show ?thesis
    using window_ttl_long [of windowMs]
    by (auto simp: checkRateLimit_def Let_def tracks_def in_window_def not_less)
qed

section \<open>Runs agree with the reference\<close>

lemma run_tracks:
  assumes "tracks windowMs past (L (window_key user category))" "well_timed windowMs (past @ as)"
  shows "fst (run_attempts user category limit windowMs as L) = allowed_by_reference limit windowMs past as"
  using assms
proof (induction as arbitrary: past L)
  case (Cons a as)
  obtain now suffix where a: "a = (now, suffix)" by (cases a)
  have "well_timed windowMs (past @ [(now, suffix)])"
    using Cons.prems(2) by (auto simp: a well_timed_def sorted_append)
  note step = check_tracks [where past = past and L = L and user = user and category = category and limit = limit,
      OF Cons.prems(1) this]
  from step obtain L1 where L1: "checkRateLimit now suffix user category limit windowMs L =
      (in_window windowMs now (past @ [(now, suffix)]) \<le> limit, L1)"
    "tracks windowMs (past @ [(now, suffix)]) (L1 (window_key user category))"
    by (metis snd_conv)
  have "fst (run_attempts user category limit windowMs as L1) =
      allowed_by_reference limit windowMs (past @ [(now, suffix)]) as"
    using Cons.IH [where L = L1 and past = "past @ [(now, suffix)]"] L1(2) Cons.prems(2) by (simp add: a)
  with L1(1) show ?case by (simp add: a Let_def case_prod_beta)
qed simp

lemma length_reference [simp]: "length (allowed_by_reference limit windowMs past as) = length as"
  by (induction as arbitrary: past) auto

lemma reference_nth:
  "i < length as \<Longrightarrow> allowed_by_reference limit windowMs past as ! i \<longleftrightarrow>
     in_window windowMs (fst (as ! i)) (past @ take (Suc i) as) \<le> limit"
proof (induction as arbitrary: past i)
  case (Cons a as)
  then show ?case by (cases i) simp_all
qed simp

text \<open>The attempts that were allowed, and how many of them fall in a window.\<close>

definition allowed_in_window :: "int \<Rightarrow> instant \<Rightarrow> (instant \<times> string) list \<Rightarrow> bool list \<Rightarrow> nat" where
  "allowed_in_window windowMs t as rs =
     card {i. i < length as \<and> rs ! i \<and> t - windowMs < fst (as ! i) \<and> fst (as ! i) \<le> t}"

lemma allowed_bound:
  assumes "sorted (map fst as)"
  shows "allowed_in_window windowMs t as (allowed_by_reference limit windowMs [] as) \<le> limit"
proof -
  let ?rs = "allowed_by_reference limit windowMs [] as"
  let ?A = "{i. i < length as \<and> ?rs ! i \<and> t - windowMs < fst (as ! i) \<and> fst (as ! i) \<le> t}"
  show ?thesis
  proof (cases "?A = {}")
    case True
    then show ?thesis unfolding allowed_in_window_def by (simp only: card.empty)
  next
    case False
    have fin: "finite ?A" by simp
    obtain m where m_def: "m = Max ?A" by blast
    have m: "m \<in> ?A" unfolding m_def using False by (rule Max_in [OF fin])
    let ?P = "\<lambda>a. fst (as ! m) - windowMs < fst a"
    have "?A \<subseteq> {i. i < length (take (Suc m) as) \<and> ?P (take (Suc m) as ! i)}"
    proof
      fix i assume i: "i \<in> ?A"
      then have "i \<le> m" unfolding m_def using fin by (simp add: Max_ge)
      moreover have "fst (as ! m) - windowMs < fst (as ! i)" using i m by simp
      ultimately show "i \<in> {i. i < length (take (Suc m) as) \<and> ?P (take (Suc m) as ! i)}"
        using m i by simp
    qed
    then have "card ?A \<le> card {i. i < length (take (Suc m) as) \<and> ?P (take (Suc m) as ! i)}"
      by (rule card_mono [rotated]) simp
    also have "\<dots> = in_window windowMs (fst (as ! m)) (take (Suc m) as)"
      by (simp add: in_window_def length_filter_conv_card)
    also have "\<dots> \<le> limit" using m reference_nth [of m as limit windowMs "[]"] by simp
    finally show ?thesis by (simp add: allowed_in_window_def)
  qed
qed

text \<open>C23: The rate limiter answers like the sliding window it stands for: an attempt is allowed exactly when the
  window that ends with it holds at most \<open>limit\<close> attempts, refused ones included. Hence in no window of the
  given length are more than \<open>limit\<close> attempts allowed. The expiry of the Redis key never forgets an attempt
  that still counts. The hypothesis is that the clock does not go back and that the random suffixes of
  attempts in the same millisecond differ.\<close>

theorem rate_limit_is_a_sliding_window:
  assumes "well_timed windowMs as"
  shows "let rs = fst (run_attempts user category limit windowMs as (\<lambda>_. None)) in
    rs = allowed_by_reference limit windowMs [] as \<and> (\<forall>t. allowed_in_window windowMs t as rs \<le> limit)"
proof -
  have "fst (run_attempts user category limit windowMs as (\<lambda>_. None)) = allowed_by_reference limit windowMs [] as"
    by (rule run_tracks) (simp_all add: tracks_def assms)
  moreover have "sorted (map fst as)" using assms by (simp add: well_timed_def)
  ultimately show ?thesis using allowed_bound by (simp add: Let_def)
qed

theorem rate_limit_is_a_sliding_window_witness:
  "let rs = fst (run_attempts ''u'' ''join'' 2 60000 [(1, ''a''), (2, ''a''), (2, ''b''), (60002, ''c'')] (\<lambda>_. None)) in
    rs = allowed_by_reference 2 60000 [] [(1, ''a''), (2, ''a''), (2, ''b''), (60002, ''c'')] \<and>
    (\<forall>t. allowed_in_window 60000 t [(1, ''a''), (2, ''a''), (2, ''b''), (60002, ''c'')] rs \<le> 2)"
proof (rule rate_limit_is_a_sliding_window)
  show "well_timed 60000 [(1, ''a''), (2, ''a''), (2, ''b''), (60002, ''c'')]"
    by (simp add: well_timed_def attempt_member_def show_nat.simps)
qed

end
