(* ===== verification/Broadcast_Relay.thy ===== *)
theory Broadcast_Relay
  imports Card_Properties
begin

text \<open>
  \<open>BroadcastRelayService\<close> (\<open>board/realtime/services/broadcast-relay.service.ts\<close>): every domain event it
  listens to becomes one or two socket messages, each addressed to a room by name. \<open>relay\<close> lists the
  messages of an event; an event no handler subscribes to gives none, and nothing is sent before the
  gateway has attached its server. The property follows the events a card call emits to the rooms they
  end up in.
\<close>

section \<open>Rooms and messages\<close>

definition board_room :: "uuid \<Rightarrow> string" where
  "board_room b = ''board:'' @ b"

definition workspace_room :: "uuid \<Rightarrow> string" where
  "workspace_room w = ''workspace:'' @ w"

definition user_room :: "uuid \<Rightarrow> string" where
  "user_room u = ''user:'' @ u"

definition document_room :: "uuid \<Rightarrow> string" where
  "document_room d = ''document:'' @ d"

lemma rooms_distinct [simp]:
  "board_room b = board_room b' \<longleftrightarrow> b = b'" "workspace_room w = workspace_room w' \<longleftrightarrow> w = w'"
  "user_room u = user_room u' \<longleftrightarrow> u = u'" "document_room d = document_room d' \<longleftrightarrow> d = d'"
  "board_room b \<noteq> workspace_room w" "workspace_room w \<noteq> board_room b"
  "board_room b \<noteq> user_room u" "user_room u \<noteq> board_room b"
  "board_room b \<noteq> document_room d" "document_room d \<noteq> board_room b"
  "workspace_room w \<noteq> user_room u" "user_room u \<noteq> workspace_room w"
  "workspace_room w \<noteq> document_room d" "document_room d \<noteq> workspace_room w"
  "user_room u \<noteq> document_room d" "document_room d \<noteq> user_room u"
  by (simp_all add: board_room_def workspace_room_def user_room_def document_room_def)

text \<open>The values a message carries: scalars, rows as they were emitted, and plain objects.\<close>

datatype wire =
    WNull | WString string | WInt int | WBool bool | WInstant instant | WJson json
  | WNumber rat | WPriority card_priority | WStatus card_status
  | WBoard board_row | WList list_row | WCard card_row | WComment comment_row | WChecklist checklist_row
  | WNotification notification_row
  | WObject "(string \<times> wire) list" | WArray "wire list"

definition wire_opt :: "string option \<Rightarrow> wire" where
  "wire_opt x = (case x of None \<Rightarrow> WNull | Some t \<Rightarrow> WString t)"

definition wire_instant :: "instant option \<Rightarrow> wire" where
  "wire_instant x = (case x of None \<Rightarrow> WNull | Some t \<Rightarrow> WInstant t)"

definition wire_json :: "json option \<Rightarrow> wire" where
  "wire_json x = (case x of None \<Rightarrow> WNull | Some t \<Rightarrow> WJson t)"

text \<open>A message: the room, the name of the event, the fields of its payload.\<close>

type_synonym message = "string \<times> string \<times> (string \<times> wire) list"

definition to_board :: "bool \<Rightarrow> uuid \<Rightarrow> string \<Rightarrow> (string \<times> wire) list \<Rightarrow> message list" where
  "to_board attached b event payload = (if \<not> attached then [] else [(board_room b, event, payload)])"

definition to_workspace :: "bool \<Rightarrow> uuid \<Rightarrow> string \<Rightarrow> (string \<times> wire) list \<Rightarrow> message list" where
  "to_workspace attached w event payload = (if \<not> attached then [] else [(workspace_room w, event, payload)])"

section \<open>The handlers\<close>

fun relay :: "bool \<Rightarrow> domain_event \<Rightarrow> message list" where
  "relay attached (BoardCreated b u) =
     to_workspace attached (boardWorkspaceId b) ''board:created''
       [(''board'', WBoard b), (''createdBy'', WObject [(''id'', WString u)])]"
| "relay attached (BoardUpdated b u) =
     to_board attached (boardId b) ''board:updated''
       [(''boardId'', WString (boardId b)), 
        (''changes'', WObject [(''title'', WString (boardTitle b)), (''description'', wire_opt (boardDescription b)),
          (''backgroundColor'', wire_opt (boardBackgroundColor b)), (''updatedAt'', WInstant (boardUpdatedAt b))]), (''updatedBy'', WObject [(''id'', WString u)])]"
| "relay attached (BoardArchived b w u) =
     to_board attached b ''board:archived''
       [(''boardId'', WString b), (''archivedBy'', WObject [(''id'', WString u)])]"
| "relay attached (BoardUnarchived b u) =
     to_board attached (boardId b) ''board:unarchived''
       [(''boardId'', WString (boardId b)), (''board'', WBoard b), (''unarchivedBy'', WObject [(''id'', WString u)])]"
| "relay attached (BoardDeleted b w u) =
     to_workspace attached w ''board:deleted''
       [(''boardId'', WString b), (''deletedBy'', WObject [(''id'', WString u)])] @
     to_board attached b ''board:deleted''
       [(''boardId'', WString b), (''deletedBy'', WObject [(''id'', WString u)])]"
| "relay attached (ListCreated l u) =
     to_board attached (listBoardId l) ''list:created''
       [(''list'', WList l), (''createdBy'', WObject [(''id'', WString u)])]"
| "relay attached (ListUpdated l u) =
     to_board attached (listBoardId l) ''list:updated''
       [(''listId'', WString (listId l)), 
        (''changes'', WObject [(''title'', WString (listTitle l)), (''updatedAt'', WInstant (listUpdatedAt l))]), (''updatedBy'', WObject [(''id'', WString u)])]"
| "relay attached (ListMoved l b r u) =
     to_board attached b ''list:moved''
       [(''listId'', WString l), (''newRank'', WString r), (''movedBy'', WObject [(''id'', WString u)])]"
| "relay attached (ListArchived l b u) =
     to_board attached b ''list:archived''
       [(''listId'', WString l), (''archivedBy'', WObject [(''id'', WString u)])]"
| "relay attached (ListUnarchived l u) =
     to_board attached (listBoardId l) ''list:unarchived''
       [(''listId'', WString (listId l)), (''list'', WList l), (''unarchivedBy'', WObject [(''id'', WString u)])]"
| "relay attached (ListDeleted l b u) =
     to_board attached b ''list:deleted''
       [(''listId'', WString l), (''deletedBy'', WObject [(''id'', WString u)])]"
| "relay attached (CardCreated c b l u) =
     to_board attached b ''card:created''
       [(''card'', WCard c), (''listId'', WString l), (''createdBy'', WObject [(''id'', WString u)])]"
| "relay attached (CardUpdated c b u) =
     to_board attached b ''card:updated''
       [(''cardId'', WString (cardId c)), 
        (''changes'', WObject [(''title'', WString (cardTitle c)), (''description'', wire_json (cardDescription c)),
          (''dueDate'', wire_instant (cardDueDate c)), (''isComplete'', WBool (cardIsComplete c)),
          (''coverImageUrl'', wire_opt (cardCoverImageUrl c)), (''updatedAt'', WInstant (cardUpdatedAt c))]), (''updatedBy'', WObject [(''id'', WString u)])]"
| "relay attached (CardMoved c b l1 l2 r u) =
     to_board attached b ''card:moved''
       [(''cardId'', WString c), (''fromListId'', WString l1), (''toListId'', WString l2), (''newRank'', WString r), (''movedBy'', WObject [(''id'', WString u)])]"
| "relay attached (CardArchived c b l u) =
     to_board attached b ''card:archived''
       [(''cardId'', WString c), (''listId'', WString l), (''archivedBy'', WObject [(''id'', WString u)])]"
| "relay attached (CardUnarchived c b l u) =
     to_board attached b ''card:unarchived''
       [(''cardId'', WString (cardId c)), (''card'', WCard c), (''listId'', WString l), (''unarchivedBy'', WObject [(''id'', WString u)])]"
| "relay attached (CardDeleted c b l u) =
     to_board attached b ''card:deleted''
       [(''cardId'', WString c), (''listId'', WString l), (''deletedBy'', WObject [(''id'', WString u)])]"
| "relay attached (CommentCreated c b u ms) =
     to_board attached b ''card:comment-added''
       [(''cardId'', WString (cmtCardId c)), (''comment'', WComment c), (''authorId'', WString u)]"
| "relay attached (CommentUpdated c b u) =
     to_board attached b ''card:comment-updated''
       [(''cardId'', WString (cmtCardId c)), (''comment'', WComment c), (''updatedBy'', WObject [(''id'', WString u)])]"
| "relay attached (CommentDeleted m c b u) =
     to_board attached b ''card:comment-deleted''
       [(''cardId'', WString c), (''commentId'', WString m), (''deletedBy'', WObject [(''id'', WString u)])]"
| "relay attached (CardAssigneeAdded c b x u) =
     to_board attached b ''card:assignee-added''
       [(''cardId'', WString c), (''user'', WObject [(''id'', WString x)]), (''addedBy'', WObject [(''id'', WString u)])]"
| "relay attached (CardAssigneeRemoved c b x u) =
     to_board attached b ''card:assignee-removed''
       [(''cardId'', WString c), (''user'', WObject [(''id'', WString x)]), (''removedBy'', WObject [(''id'', WString u)])]"
| "relay attached (AttachmentCreated a c b u) =
     to_board attached b ''card:attachment-added''
       [(''cardId'', WString c), 
        (''attachment'', WObject [(''id'', WString a), (''cardId'', WString c)]), (''uploadedBy'', WObject [(''id'', WString u)])]"
| "relay attached (AttachmentDeleted a c b u) =
     to_board attached b ''card:attachment-deleted''
       [(''cardId'', WString c), (''attachmentId'', WString a), (''deletedBy'', WObject [(''id'', WString u)])]"
| "relay attached (ChecklistCreated k b u) =
     to_board attached b ''checklist:created''
       [(''checklist'', WChecklist k), (''createdBy'', WObject [(''id'', WString u)])]"
| "relay attached (ChecklistUpdated k c b u) =
     to_board attached b ''checklist:updated''
       [(''checklistId'', WString k), (''cardId'', WString c), (''updatedBy'', WObject [(''id'', WString u)])]"
| "relay attached (ChecklistDeleted k c b u) =
     to_board attached b ''checklist:deleted''
       [(''checklistId'', WString k), (''cardId'', WString c), (''deletedBy'', WObject [(''id'', WString u)])]"
| "relay attached (CardPriorityChanged c b p q u) =
     to_board attached b ''card:priority_changed''
       [(''cardId'', WString c), (''boardId'', WString b), (''from'', WPriority p), (''to'', WPriority q), (''changedBy'', WObject [(''id'', WString u)])]"
| "relay attached (CardStatusChanged c b p q d u) =
     to_board attached b ''card:status_changed''
       [(''cardId'', WString c), (''boardId'', WString b), (''from'', WStatus p), (''to'', WStatus q), 
        (''isComplete'', WBool d), (''changedBy'', WObject [(''id'', WString u)])]"
| "relay attached (CardSubcardCreated p c b u) =
     to_board attached b ''card:created''
       [(''parentCardId'', WString p), (''childCardId'', WString c), (''createdBy'', WObject [(''id'', WString u)])] @
     to_board attached b ''card:subcard_created''
       [(''parentCardId'', WString p), (''childCardId'', WString c), (''createdBy'', WObject [(''id'', WString u)])]"
| "relay attached (CardTimeLogged c b m t e u) =
     to_board attached b ''card:time_logged''
       [(''cardId'', WString c), (''boardId'', WString b), (''minutes'', WInt m), (''loggedTotal'', WInt t), 
        (''entryId'', WString e), (''loggedBy'', WObject [(''id'', WString u)])]"
| "relay attached _ = []"

definition relay_all :: "bool \<Rightarrow> domain_event list \<Rightarrow> message list" where
  "relay_all attached es = concat (map (relay attached) es)"

section \<open>The events a card call emits\<close>

text \<open>The log is what it was, followed by events that satisfy \<open>E\<close>.\<close>

definition logs_only :: "domain_event list \<Rightarrow> (domain_event \<Rightarrow> bool) \<Rightarrow> db \<Rightarrow> bool" where
  "logs_only old E s \<longleftrightarrow> (\<exists>es. events s = old @ es \<and> (\<forall>e\<in>set es. E e))"

lemma logs_only_start: "logs_only (events s) E s"
  by (simp add: logs_only_def)

lemma logs_only_emit [simp]: "logs_only old E s \<Longrightarrow> E e \<Longrightarrow> logs_only old E (emit e s)"
  by (force simp: logs_only_def)

lemma logs_only_eq: "events s' = events s \<Longrightarrow> logs_only old E s \<Longrightarrow> logs_only old E s'"
  by (simp add: logs_only_def)

lemma logs_only_updates [simp]:
  "logs_only old E (s\<lparr>assignees := x\<rparr>) = logs_only old E s" "logs_only old E (s\<lparr>cardLabels := y\<rparr>) = logs_only old E s"
  "logs_only old E (s\<lparr>checklistItems := z\<rparr>) = logs_only old E s" "logs_only old E (s\<lparr>timeEntries := t\<rparr>) = logs_only old E s"
  by (simp_all add: logs_only_def)

lemma honours_keeps: "keeps events k \<Longrightarrow> honours (logs_only old E) k"
  by (auto simp: honours_def keeps_def intro: logs_only_eq)

lemma events_kept_by_repo:
  "keeps events (\<lambda>s. cardRepo_update now i (data s) s)"
  "keeps events (\<lambda>s. cardRepo_create now (row s) us ls s)"
  by (auto simp: keeps_def cardRepo_update_def cardRepo_create_def or_missing_def or_conflict_def Let_def
      add_assignee_def add_card_label_def split: option.splits)

lemma honours_assert_board: "honours P k \<Longrightarrow> honours P (assertBoardInWorkspace board ws k)"
  unfolding honours_def assertBoardInWorkspace_def by (auto split: option.splits)

lemma honours_not_found: "honours P m \<Longrightarrow> honours P (\<lambda>s. card_or_not_found i (m s))"
  unfolding honours_def by simp

lemmas log_intros = honours_with_card honours_assert_board honours_if honours_option honours_sum honours_not_found
  honours_await events_kept_by_repo [THEN honours_keeps] honours_plain

text \<open>An event whose messages all go to the room of \<open>board\<close>.\<close>

definition for_board :: "uuid \<Rightarrow> domain_event \<Rightarrow> bool" where
  "for_board board e \<longleftrightarrow> (\<forall>m\<in>set (relay True e). fst m = board_room board)"

lemma for_board_simps [simp]:
  "for_board board (CardCreated c b l u) \<longleftrightarrow> b = board" "for_board board (CardUpdated c b u) \<longleftrightarrow> b = board"
  "for_board board (CardMoved i b l1 l2 r u) \<longleftrightarrow> b = board" "for_board board (CardArchived i b l u) \<longleftrightarrow> b = board"
  "for_board board (CardUnarchived c b l u) \<longleftrightarrow> b = board" "for_board board (CardDeleted i b l u) \<longleftrightarrow> b = board"
  "for_board board (CardAssigneeAdded i b x u) \<longleftrightarrow> b = board" "for_board board (CardAssigneeRemoved i b x u) \<longleftrightarrow> b = board"
  "for_board board (CardPriorityChanged i b p q u) \<longleftrightarrow> b = board" "for_board board (CardStatusChanged i b st st' d u) \<longleftrightarrow> b = board"
  "for_board board (CardSubcardCreated p' i b u) \<longleftrightarrow> b = board" "for_board board (CardTimeLogged i b m t e u) \<longleftrightarrow> b = board"
  "for_board board (ChecklistUpdated k i b u) \<longleftrightarrow> b = board"
  by (auto simp: for_board_def to_board_def)

lemma card_logs:
  "honours (logs_only old (for_board board)) (cardService_create le lx newId now board ws list dto user)"
  "honours (logs_only old (for_board board)) (cardService_update now board ws i udto user)"
  "honours (logs_only old (for_board board)) (cardService_updatePriority now board ws i p user)"
  "honours (logs_only old (for_board board)) (cardService_updateStatus now board ws i st user)"
  "honours (logs_only old (for_board board)) (cardService_createSubcard le lx newId now board ws i dto user)"
  "honours (logs_only old (for_board board)) (cardService_attachSubcard now board ws i j user)"
  "honours (logs_only old (for_board board)) (cardService_detachSubcard now board ws i user)"
  "honours (logs_only old (for_board board)) (cardService_move lx now board ws i mdto user)"
  "honours (logs_only old (for_board board)) (cardService_archive now board ws i user)"
  "honours (logs_only old (for_board board)) (cardService_unarchive now board ws i user)"
  "honours (logs_only old (for_board board)) (cardService_deletePermanently now board ws i user)"
  "honours (logs_only old (for_board board)) (cardService_addAssignee now board ws i u user)"
  "honours (logs_only old (for_board board)) (cardService_removeAssignee board ws i u user)"
  "honours (logs_only old (for_board board)) (cardService_addLabel board ws i l)"
  "honours (logs_only old (for_board board)) (cardService_removeLabel board ws i l)"
  "honours (logs_only old (for_board board)) (timeService_setEstimate now board ws i m user)"
  unfolding cardService_create_def [abs_def] cardService_update_def cardService_updatePriority_def
    cardService_updateStatus_def cardService_createSubcard_def cardService_attachSubcard_def
    cardService_detachSubcard_def cardService_move_def cardService_archive_def
    cardService_unarchive_def cardService_deletePermanently_def cardService_addAssignee_def [abs_def]
    cardService_removeAssignee_def cardService_addLabel_def [abs_def] cardService_removeLabel_def
    timeService_setEstimate_def Let_def cardRepo_archive_def cardRepo_unarchive_def
    cardRepo_deletePermanently_def cardRepo_moveCard_def cardRepo_attachSubcard_def cardRepo_detachSubcard_def
    cardRepo_updatePriority_def cardRepo_updateStatus_def
  by (intro log_intros; simp add: cardRepo_addAssignee_def cardRepo_removeAssignee_def add_assignee_def
      add_card_label_def cardRepo_addLabel_def cardRepo_removeLabel_def )+

text \<open>The board an action names in its path.\<close>

fun board_of_action :: "card_action \<Rightarrow> uuid" where
  "board_of_action (CreateCard _ board _ _ _ _) = board" | "board_of_action (UpdateCard board _ _ _ _) = board"
| "board_of_action (SetPriority board _ _ _ _) = board" | "board_of_action (SetStatus board _ _ _ _) = board"
| "board_of_action (CreateSubcard _ board _ _ _ _) = board" | "board_of_action (AttachSubcard board _ _ _ _) = board"
| "board_of_action (DetachSubcard board _ _ _) = board" | "board_of_action (MoveCard board _ _ _ _) = board"
| "board_of_action (ArchiveCard board _ _ _) = board" | "board_of_action (UnarchiveCard board _ _ _) = board"
| "board_of_action (DeleteCard board _ _ _) = board" | "board_of_action (AddAssignee board _ _ _ _) = board"
| "board_of_action (RemoveAssignee board _ _ _ _) = board" | "board_of_action (AddLabel board _ _ _) = board"
| "board_of_action (RemoveLabel board _ _ _) = board" | "board_of_action (SetEstimate board _ _ _ _) = board"
| "board_of_action (LogTime _ board _ _ _ _) = board" | "board_of_action (PromoteItem _ _ board _ _ _ _) = board"

lemma entry_keeps_events: "keeps events (timeRepo_addEntry newId now i user m memo)"
  by (auto simp: keeps_def timeRepo_addEntry_def or_conflict_def or_missing_def Let_def split: option.splits)

lemma logTime_logs: "honours (logs_only old (for_board board)) (timeService_logTime newId now board ws i dto user)"
  unfolding timeService_logTime_def
proof (rule honours_with_card, unfold honours_def, intro allI impI)
  fix s assume old: "logs_only old (for_board board) s"
  from keepsD [OF entry_keeps_events, of newId now i user "ltMinutes dto" "ltNote dto" s]
  have "logs_only old (for_board board) (snd (timeRepo_addEntry newId now i user (ltMinutes dto) (ltNote dto) s))"
    using logs_only_eq old by blast
  then show "logs_only old (for_board board) (snd (await (timeRepo_addEntry newId now i user (ltMinutes dto) (ltNote dto) s)
      (\<lambda>entry s. case cardRepo_findActiveById i (Some board) s of
          None \<Rightarrow> (Inl (EntityNotFound ''Card'' i), s)
        | Some updated \<Rightarrow> (Inr updated, emit (CardTimeLogged i board (ltMinutes dto)
            (cardLoggedMinutes (cdCard updated)) (teId entry) user) s))))"
    by (cases "timeRepo_addEntry newId now i user (ltMinutes dto) (ltNote dto) s")
       (auto simp: await_def split: sum.splits option.splits)
qed

lemma promote_logs:
  assumes "logs_only old (for_board board) s"
  shows "logs_only old (for_board board) (snd (checklistService_promoteItemToSubcard le lx newId now ws board i checklist item user s))"
    (is "logs_only _ _ (snd ?p)")
proof (cases "fst ?p")
  case (Inl e)
  then show ?thesis using atomic_fst [OF atomic_promote Inl] assms by simp
next
  case (Inr d)
  then obtain s' where run: "?p = (Inr d, s')" by (metis prod.collapse)
  then obtain dto s1 its where "cardService_createSubcard le lx newId now board ws i dto user s = (Inr d, s1)"
    and "s' = emit (ChecklistUpdated checklist i board user) (s1\<lparr>checklistItems := its\<rparr>)"
    by (auto simp: promote_Inr_iff)
  with honoursD [OF card_logs(5) assms, of le lx newId now ws i dto user] run show ?thesis by simp
qed

lemma exec_logs: "logs_only (events s) (for_board (board_of_action a)) (snd (exec_card le lx now a s))"
  by (cases a)
     (simp_all add: logs_only_start card_logs [THEN honoursD] logTime_logs [THEN honoursD] promote_logs)

lemma relay_attached: "m \<in> set (relay attached e) \<Longrightarrow> m \<in> set (relay True e)"
  by (cases attached; cases e) (auto simp: to_board_def to_workspace_def)

section \<open>Properties\<close>



end
