(* ===== verification/Board_Gateway.thy ===== *)
theory Board_Gateway
  imports Access_Guards Rate_Limiter Broadcast_Relay
begin

text \<open>
  \<open>BoardGateway\<close> (\<open>board/realtime/gateways/board.gateway.ts\<close>): the sockets, the rooms they are in and
  what each of them has been sent. A message runs through the guards in the order the framework applies
  them (\<open>WsAuthGuard\<close>, \<open>WsRateLimitGuard\<close>, the guard of the handler), the validation pipe and the
  handler; an exception becomes an \<open>error\<close> event of the sender. The database is read only, so it is an
  argument of every step; the format check of ids, \<open>is_uuid\<close>, is a parameter. Error texts are left out.
\<close>

section \<open>State\<close>

record socket =
  skId :: string
  skUser :: "claims option"
  skBoard :: "uuid option"
  skWorkspace :: "uuid option"
  skDocument :: "uuid option"
  skRooms :: "string list"

text \<open>A delivery: the socket, the name of the event, its payload.\<close>

type_synonym delivery = "string \<times> string \<times> (string \<times> wire) list"

record hub =
  hubSockets :: "socket list"
  hubPresence :: presence
  hubLimiter :: limiter
  hubSent :: "delivery list"

definition empty_hub :: hub where
  "empty_hub = \<lparr>hubSockets = [], hubPresence = no_presence, hubLimiter = (\<lambda>_. None), hubSent = []\<rparr>"

definition find_socket :: "string \<Rightarrow> hub \<Rightarrow> socket option" where
  "find_socket k h = find (\<lambda>x. skId x = k) (hubSockets h)"

definition set_socket :: "string \<Rightarrow> (socket \<Rightarrow> socket) \<Rightarrow> hub \<Rightarrow> hub" where
  "set_socket k f h = h\<lparr>hubSockets := map (\<lambda>x. if skId x = k then f x else x) (hubSockets h)\<rparr>"

text \<open>What the socket library does: rooms of a socket, and the ways to emit.\<close>

definition join_room :: "string \<Rightarrow> string \<Rightarrow> hub \<Rightarrow> hub" where
  "join_room k room = set_socket k (\<lambda>x. x\<lparr>skRooms := sadd room (skRooms x)\<rparr>)"

definition leave_room :: "string \<Rightarrow> string \<Rightarrow> hub \<Rightarrow> hub" where
  "leave_room k room = set_socket k (\<lambda>x. x\<lparr>skRooms := srem room (skRooms x)\<rparr>)"

definition in_room :: "string \<Rightarrow> hub \<Rightarrow> socket list" where
  "in_room room h = filter (\<lambda>x. room \<in> set (skRooms x)) (hubSockets h)"

definition emit_client :: "string \<Rightarrow> string \<Rightarrow> (string \<times> wire) list \<Rightarrow> hub \<Rightarrow> hub" where
  "emit_client k event payload h = h\<lparr>hubSent := hubSent h @ [(k, event, payload)]\<rparr>"

text \<open>\<open>server.to(room).emit\<close> reaches the sockets of the room, \<open>client.to(room).emit\<close> all but the client.\<close>

definition emit_room :: "string \<Rightarrow> string \<Rightarrow> (string \<times> wire) list \<Rightarrow> hub \<Rightarrow> hub" where
  "emit_room room event payload h =
     h\<lparr>hubSent := hubSent h @ map (\<lambda>x. (skId x, event, payload)) (in_room room h)\<rparr>"

definition emit_others :: "string \<Rightarrow> string \<Rightarrow> string \<Rightarrow> (string \<times> wire) list \<Rightarrow> hub \<Rightarrow> hub" where
  "emit_others k room event payload h =
     h\<lparr>hubSent := hubSent h @
        map (\<lambda>x. (skId x, event, payload)) (filter (\<lambda>x. skId x \<noteq> k) (in_room room h))\<rparr>"

text \<open>The relay's messages go out through the same server.\<close>

definition broadcast :: "message list \<Rightarrow> hub \<Rightarrow> hub" where
  "broadcast ms h = fold (\<lambda>(room, event, payload). emit_room room event payload) ms h"

section \<open>Connection\<close>

record handshake =
  hsAuthToken :: "string option"
  hsAuthorization :: "string option"

definition handshake_token :: "handshake \<Rightarrow> string option" where
  "handshake_token hs =
     (if \<not> truthy (hsAuthToken hs) \<and> truthy (hsAuthorization hs)
      then (let header = the (hsAuthorization hs)
            in Some (if take 7 header = bearer_prefix then drop 7 header else header))
      else hsAuthToken hs)"

text \<open>A refused client is told why and disconnected.\<close>

definition reject :: "string \<Rightarrow> string \<Rightarrow> hub \<Rightarrow> hub" where
  "reject k ec h = emit_client k ''error'' [(''code'', WString ec)] h"

definition handleConnection :: "crypto \<Rightarrow> instant \<Rightarrow> db \<Rightarrow> handshake \<Rightarrow> string \<Rightarrow> hub \<Rightarrow> hub" where
  "handleConnection cr now s hs k h =
     (let token = handshake_token hs
      in if \<not> truthy token then reject k ''TOKEN_INVALID'' h
         else (case verifyAccessToken cr now (the token) of
                 Inl e \<Rightarrow> reject k (if e = Unauthorized ''TOKEN_EXPIRED'' then ''TOKEN_EXPIRED'' else ''TOKEN_INVALID'') h
               | Inr c \<Rightarrow>
                   if isBlacklisted now (clJti c) s then reject k ''TOKEN_REVOKED'' h
                   else h\<lparr>hubSockets := hubSockets h @
                          [\<lparr>skId = k, skUser = Some c, skBoard = None, skWorkspace = None, skDocument = None,
                            skRooms = [user_room (clSub c)]\<rparr>]\<rparr>))"

section \<open>Leaving a board\<close>

definition left_payload :: "uuid \<Rightarrow> string \<Rightarrow> (string \<times> wire) list" where
  "left_payload user name =
     [(''userId'', WString user), (''action'', WString ''left''), (''displayName'', WString name)]"

definition leaveBoardRoom :: "string \<Rightarrow> claims option \<Rightarrow> uuid \<Rightarrow> hub \<Rightarrow> hub" where
  "leaveBoardRoom k user board h =
     (let h1 = leave_room k (board_room board) h;
          (removed, p) = removePresence board k (hubPresence h1);
          h2 = h1\<lparr>hubPresence := p\<rparr>;
          h3 = (case (removed, user) of
                  (Some e, Some c) \<Rightarrow>
                    emit_others k (board_room board) ''board:presence'' (left_payload (clSub c) (clDisplayName c)) h2
                | _ \<Rightarrow> h2)
      in set_socket k (\<lambda>x. if skBoard x = Some board then x\<lparr>skBoard := None\<rparr> else x) h3)"

text \<open>The library has already taken a closed socket out of its rooms when the handler runs.\<close>

definition handleDisconnect :: "string \<Rightarrow> hub \<Rightarrow> hub" where
  "handleDisconnect k h =
     (case find_socket k h of
        None \<Rightarrow> h
      | Some x \<Rightarrow>
          let h1 = h\<lparr>hubSockets := filter (\<lambda>y. skId y \<noteq> k) (hubSockets h)\<rparr>
          in case skUser x of
               None \<Rightarrow> h1
             | Some c \<Rightarrow>
                 let h2 = (if truthy (skBoard x)
                           then (let board = the (skBoard x);
                                     (removed, p) = removePresence board k (hubPresence h1);
                                     h' = h1\<lparr>hubPresence := p\<rparr>
                                 in case removed of
                                      None \<Rightarrow> h'
                                    | Some e \<Rightarrow> emit_room (board_room board) ''board:presence''
                                        (left_payload (clSub c) (clDisplayName c)) h')
                           else h1)
                 in if truthy (skWorkspace x)
                    then (let room = workspace_room (the (skWorkspace x))
                          in if list_ex (\<lambda>y. skId y \<noteq> k \<and> map_option clSub (skUser y) = Some (clSub c)) (in_room room h2)
                             then h2
                             else emit_room room ''workspace:member-offline'' [(''userId'', WString (clSub c))] h2)
                    else h2)"

definition runPresenceCleanup :: "instant \<Rightarrow> hub \<Rightarrow> hub" where
  "runPresenceCleanup now h =
     (let (removed, p) = cleanupStaleEntries now (hubPresence h)
      in fold (\<lambda>(board, e). emit_room (board_room board) ''board:presence''
                (left_payload (peUserId e) (peDisplayName e))) removed (h\<lparr>hubPresence := p\<rparr>))"

section \<open>Messages\<close>

record cursor_dto =
  cuBoardId :: uuid
  cuCardId :: "uuid option"
  cuX :: rat
  cuY :: rat

datatype ws_message =
    WorkspaceJoin uuid | WorkspaceLeave uuid | BoardJoin uuid | BoardLeave uuid | PresenceHeartbeat
  | PresenceCursor cursor_dto

definition online_members :: "socket list \<Rightarrow> (uuid \<times> string) list" where
  "online_members xs =
     fold (\<lambda>x seen. case skUser x of
             None \<Rightarrow> seen
           | Some c \<Rightarrow> if clSub c \<in> fst ` set seen then seen else seen @ [(clSub c, clDisplayName c)]) xs []"

definition handleWorkspaceJoin :: "string \<Rightarrow> claims \<Rightarrow> uuid option \<Rightarrow> uuid \<Rightarrow> hub \<Rightarrow> hub" where
  "handleWorkspaceJoin k user previous workspace h =
     (let h1 = (if truthy previous \<and> previous \<noteq> Some workspace
                then leave_room k (workspace_room (the previous)) h else h);
          h2 = set_socket k (\<lambda>x. x\<lparr>skWorkspace := Some workspace\<rparr>) (join_room k (workspace_room workspace) h1);
          h3 = emit_client k ''workspace:joined'' [(''workspaceId'', WString workspace),
                 (''onlineMembers'', WArray (map (\<lambda>(i, name). WObject [(''userId'', WString i), (''displayName'', WString name)])
                    (online_members (in_room (workspace_room workspace) h2))))] h2
      in emit_others k (workspace_room workspace) ''workspace:member-online''
           [(''userId'', WString (clSub user)), (''displayName'', WString (clDisplayName user))] h3)"

definition handleWorkspaceLeave :: "string \<Rightarrow> uuid \<Rightarrow> hub \<Rightarrow> hub" where
  "handleWorkspaceLeave k workspace h =
     set_socket k (\<lambda>x. if skWorkspace x = Some workspace then x\<lparr>skWorkspace := None\<rparr> else x)
       (leave_room k (workspace_room workspace) h)"

definition wire_viewer :: "presence_user \<Rightarrow> wire" where
  "wire_viewer v = WObject [(''userId'', WString (puUserId v)), (''displayName'', WString (puDisplayName v)),
     (''avatarUrl'', wire_opt (puAvatarUrl v)), (''color'', WString (puColor v)), (''connectedAt'', WInstant (puConnectedAt v))]"

definition handleBoardJoin :: "instant \<Rightarrow> string \<Rightarrow> claims \<Rightarrow> uuid option \<Rightarrow> uuid \<Rightarrow> hub \<Rightarrow> hub" where
  "handleBoardJoin now k user current board h =
     (let h1 = (if truthy current \<and> current \<noteq> Some board then leaveBoardRoom k (Some user) (the current) h else h);
          h2 = set_socket k (\<lambda>x. x\<lparr>skBoard := Some board\<rparr>) (join_room k (board_room board) h1);
          color = getCollaboratorColor now (clSub user) board (hubPresence h2);
          entry = \<lparr>peUserId = clSub user, peSocketId = k, peDisplayName = clDisplayName user,
                   peAvatarUrl = clAvatarUrl user, peColor = color, peConnectedAt = now\<rparr>;
          h3 = h2\<lparr>hubPresence := addPresence now board entry (hubPresence h2)\<rparr>;
          h4 = emit_client k ''board:joined'' [(''boardId'', WString board),
                 (''viewers'', WArray (map wire_viewer (getBoardViewers now board (hubPresence h3))))] h3
      in emit_others k (board_room board) ''board:presence''
           [(''userId'', WString (clSub user)), (''action'', WString ''joined''),
            (''displayName'', WString (clDisplayName user)), (''avatarUrl'', wire_opt (clAvatarUrl user)),
            (''color'', WString color)] h4)"

definition handleHeartbeat :: "instant \<Rightarrow> string \<Rightarrow> uuid option \<Rightarrow> hub \<Rightarrow> hub" where
  "handleHeartbeat now k current h =
     (if truthy current then h\<lparr>hubPresence := updateHeartbeat now (the current) k (hubPresence h)\<rparr> else h)"

definition handleCursor :: "instant \<Rightarrow> string \<Rightarrow> claims \<Rightarrow> cursor_dto \<Rightarrow> hub \<Rightarrow> hub" where
  "handleCursor now k user dto h =
     (let viewer = find (\<lambda>v. puUserId v = clSub user) (getBoardViewers now (cuBoardId dto) (hubPresence h));
          color = (case viewer of None \<Rightarrow> ''#888888'' | Some v \<Rightarrow> if puColor v = [] then ''#888888'' else puColor v)
      in emit_others k (board_room (cuBoardId dto)) ''board:cursor''
           ([(''userId'', WString (clSub user)), (''displayName'', WString (clDisplayName user)),
             (''color'', WString color), (''x'', WNumber (cuX dto)), (''y'', WNumber (cuY dto))] @
            (case cuCardId dto of None \<Rightarrow> [] | Some c \<Rightarrow> [(''cardId'', WString c)])) h)"

section \<open>The pipeline of a message\<close>

text \<open>The limit, the extra guard and the payload check each handler is declared with.\<close>

fun message_limit :: "ws_message \<Rightarrow> rate_limit option" where
  "message_limit (WorkspaceJoin _) = Some ROOM_JOINS" | "message_limit (BoardJoin _) = Some ROOM_JOINS"
| "message_limit (PresenceCursor _) = Some PRESENCE_CURSOR" | "message_limit _ = None"

definition socket_user_of :: "claims \<Rightarrow> socket_user" where
  "socket_user_of c = \<lparr>suSub = clSub c, suJti = Some (clJti c), suIsEmailVerified = Some (clIsEmailVerified c)\<rparr>"

fun message_guard :: "claims option \<Rightarrow> ws_message \<Rightarrow> db \<Rightarrow> string option" where
  "message_guard user (WorkspaceJoin w) s = wsWorkspaceMemberGuard_canActivate (map_option socket_user_of user) (Some w) s"
| "message_guard user (BoardJoin b) s = wsBoardAccessGuard_canActivate (map_option socket_user_of user) (Some b) s"
| "message_guard user _ s = None"

fun valid_message :: "(string \<Rightarrow> bool) \<Rightarrow> ws_message \<Rightarrow> bool" where
  "valid_message is_uuid (WorkspaceJoin w) = is_uuid w" | "valid_message is_uuid (WorkspaceLeave w) = is_uuid w"
| "valid_message is_uuid (BoardJoin b) = is_uuid b" | "valid_message is_uuid (BoardLeave b) = is_uuid b"
| "valid_message is_uuid PresenceHeartbeat = True"
| "valid_message is_uuid (PresenceCursor dto) =
     (is_uuid (cuBoardId dto) \<and> (case cuCardId dto of None \<Rightarrow> True | Some c \<Rightarrow> is_uuid c) \<and>
      0 \<le> cuX dto \<and> cuX dto \<le> 100000 \<and> 0 \<le> cuY dto \<and> cuY dto \<le> 100000)"

fun handle :: "instant \<Rightarrow> socket \<Rightarrow> claims \<Rightarrow> ws_message \<Rightarrow> hub \<Rightarrow> hub" where
  "handle now x user (WorkspaceJoin w) h = handleWorkspaceJoin (skId x) user (skWorkspace x) w h"
| "handle now x user (WorkspaceLeave w) h = handleWorkspaceLeave (skId x) w h"
| "handle now x user (BoardJoin b) h = handleBoardJoin now (skId x) user (skBoard x) b h"
| "handle now x user (BoardLeave b) h = leaveBoardRoom (skId x) (Some user) b h"
| "handle now x user PresenceHeartbeat h = handleHeartbeat now (skId x) (skBoard x) h"
| "handle now x user (PresenceCursor dto) h = handleCursor now (skId x) user dto h"

text \<open>
  The exception filter's \<open>error\<close> event. A guard that answers false makes the framework throw its own
  exception, whose text carries no code.
\<close>

definition ws_error :: "instant \<Rightarrow> string \<Rightarrow> string \<Rightarrow> hub \<Rightarrow> hub" where
  "ws_error now k ec h = emit_client k ''error'' [(''code'', WString ec), (''timestamp'', WInstant now)] h"

definition dispatch ::
  "(string \<Rightarrow> bool) \<Rightarrow> instant \<Rightarrow> string \<Rightarrow> db \<Rightarrow> string \<Rightarrow> ws_message \<Rightarrow> hub \<Rightarrow> hub" where
  "dispatch is_uuid now suffix s k m h =
     (case find_socket k h of
        None \<Rightarrow> h
      | Some x \<Rightarrow>
          case wsAuthGuard_canActivate now (map_option socket_user_of (skUser x)) s of
            Some ec \<Rightarrow> ws_error now k ec h
          | None \<Rightarrow>
              let (answer, L) = wsRateLimitGuard_canActivate now suffix (message_limit m) (map_option clSub (skUser x)) (hubLimiter h);
                  h1 = h\<lparr>hubLimiter := L\<rparr>
              in case answer of
                   Inl ec \<Rightarrow> ws_error now k ec h1
                 | Inr False \<Rightarrow> ws_error now k ''INTERNAL_ERROR'' h1
                 | Inr True \<Rightarrow>
                     (case message_guard (skUser x) m s of
                        Some ec \<Rightarrow> ws_error now k ec h1
                      | None \<Rightarrow>
                          if \<not> valid_message is_uuid m then ws_error now k ''INVALID_PAYLOAD'' h1
                          else (case skUser x of None \<Rightarrow> h1 | Some c \<Rightarrow> handle now x c m h1)))"

section \<open>Sockets and presence\<close>

text \<open>What the invariants look at: the sockets and the presence of a hub.\<close>

definition hub_core :: "hub \<Rightarrow> socket list \<times> presence" where
  "hub_core h = (hubSockets h, hubPresence h)"

lemma core_simps [simp]:
  "hub_core (emit_client k ev pl h) = hub_core h" "hub_core (emit_room room ev pl h) = hub_core h"
  "hub_core (emit_others k room ev pl h) = hub_core h" "hub_core (ws_error now k c h) = hub_core h"
  "hub_core (reject k c h) = hub_core h" "hub_core (h\<lparr>hubLimiter := L\<rparr>) = hub_core h"
  "hub_core (h\<lparr>hubPresence := p\<rparr>) = (hubSockets h, p)" "hub_core (h\<lparr>hubSockets := xs\<rparr>) = (xs, hubPresence h)"
  by (simp_all add: hub_core_def emit_client_def emit_room_def emit_others_def ws_error_def reject_def)

lemma core_proj: "hubSockets h = fst (hub_core h)" "hubPresence h = snd (hub_core h)"
  by (simp_all add: hub_core_def)

definition at_socket :: "string \<Rightarrow> (socket \<Rightarrow> socket) \<Rightarrow> socket list \<Rightarrow> socket list" where
  "at_socket k f = map (\<lambda>x. if skId x = k then f x else x)"

lemma core_set_socket [simp]:
  "hub_core (set_socket k f h) = (at_socket k f (fst (hub_core h)), snd (hub_core h))"
  by (simp add: hub_core_def set_socket_def at_socket_def)

lemma ids_at_socket [simp]: "(\<And>x. skId (f x) = skId x) \<Longrightarrow> map skId (at_socket k f xs) = map skId xs"
  by (simp add: at_socket_def)

lemma id_set_at_socket [simp]: "(\<And>x. skId (f x) = skId x) \<Longrightarrow> skId ` set (at_socket k f xs) = skId ` set xs"
  using ids_at_socket [of f k xs] by (metis list.set_map)

lemma at_socket_twice: "(\<And>x. skId (f x) = skId x) \<Longrightarrow> at_socket k g (at_socket k f xs) = at_socket k (\<lambda>x. g (f x)) xs"
  by (simp add: at_socket_def)

definition left_board :: "uuid \<Rightarrow> socket \<Rightarrow> socket" where
  "left_board b x = x\<lparr>skRooms := srem (board_room b) (skRooms x), skBoard := (if skBoard x = Some b then None else skBoard x)\<rparr>"

definition joined_board :: "uuid \<Rightarrow> socket \<Rightarrow> socket" where
  "joined_board b x = x\<lparr>skRooms := sadd (board_room b) (skRooms x), skBoard := Some b\<rparr>"

definition left_workspace :: "uuid \<Rightarrow> socket \<Rightarrow> socket" where
  "left_workspace w x = x\<lparr>skRooms := srem (workspace_room w) (skRooms x),
     skWorkspace := (if skWorkspace x = Some w then None else skWorkspace x)\<rparr>"

lemma core_leave_board:
  "hub_core (leaveBoardRoom k user b h) =
     (at_socket k (left_board b) (hubSockets h), snd (removePresence b k (hubPresence h)))"
proof -
  have f: "(\<lambda>x. if skBoard x = Some b
      then x\<lparr>skRooms := srem (board_room b) (skRooms x), skBoard := None\<rparr>
      else x\<lparr>skRooms := srem (board_room b) (skRooms x)\<rparr>) = left_board b"
    by (simp add: left_board_def fun_eq_iff)
  show ?thesis
    by (simp add: leaveBoardRoom_def Let_def case_prod_beta leave_room_def core_proj at_socket_twice f
        split: option.split)
qed

lemma leave_board_simps [simp]:
  "hubSockets (leaveBoardRoom k user b h) = at_socket k (left_board b) (hubSockets h)"
  "hubPresence (leaveBoardRoom k user b h) = snd (removePresence b k (hubPresence h))"
  by (simp_all only: core_proj core_leave_board fst_conv snd_conv)

lemma core_leave_workspace:
  "hub_core (handleWorkspaceLeave k w h) = (at_socket k (left_workspace w) (hubSockets h), hubPresence h)"
proof -
  have f: "(\<lambda>x. if skWorkspace x = Some w
      then x\<lparr>skRooms := srem (workspace_room w) (skRooms x), skWorkspace := None\<rparr>
      else x\<lparr>skRooms := srem (workspace_room w) (skRooms x)\<rparr>) = left_workspace w"
    by (simp add: left_workspace_def fun_eq_iff)
  show ?thesis
    by (simp add: handleWorkspaceLeave_def leave_room_def core_proj at_socket_twice f)
qed

text \<open>The socket is in the rooms its session data says, and in its user's room only.\<close>

definition socket_ok :: "socket \<Rightarrow> bool" where
  "socket_ok x \<longleftrightarrow> skUser x \<noteq> None \<and> skBoard x \<noteq> Some [] \<and> skWorkspace x \<noteq> Some [] \<and>
     (\<forall>b. board_room b \<in> set (skRooms x) \<longleftrightarrow> skBoard x = Some b) \<and>
     (\<forall>w. workspace_room w \<in> set (skRooms x) \<longleftrightarrow> skWorkspace x = Some w) \<and>
     (\<forall>u. user_room u \<in> set (skRooms x) \<longleftrightarrow> map_option clSub (skUser x) = Some u)"

definition hub_ok :: "hub \<Rightarrow> bool" where
  "hub_ok h \<longleftrightarrow> distinct (map skId (hubSockets h)) \<and> (\<forall>x\<in>set (hubSockets h). socket_ok x) \<and>
     keys_ok (hubPresence h) \<and>
     (\<forall>b k e. entry_of (hubPresence h) b k = Some e \<longrightarrow>
        (\<exists>x\<in>set (hubSockets h). skId x = k \<and> skBoard x = Some b \<and> map_option clSub (skUser x) = Some (peUserId e)))"

lemma hub_ok_core: "hub_core h = hub_core h' \<Longrightarrow> hub_ok h = hub_ok h'"
  by (simp add: hub_ok_def core_proj)

lemma left_board_ok: "socket_ok x \<Longrightarrow> socket_ok (left_board b x)"
  by (auto simp: socket_ok_def left_board_def)

lemma left_workspace_ok: "socket_ok x \<Longrightarrow> socket_ok (left_workspace w x)"
  by (auto simp: socket_ok_def left_workspace_def)

lemma joined_board_ok: "socket_ok x \<Longrightarrow> skBoard x \<in> {None, Some b} \<Longrightarrow> b \<noteq> [] \<Longrightarrow> socket_ok (joined_board b x)"
  by (auto simp: socket_ok_def joined_board_def)

lemma socket_fields [simp]:
  "skId (left_board b x) = skId x" "skUser (left_board b x) = skUser x"
  "skId (left_workspace b x) = skId x" "skUser (left_workspace b x) = skUser x" "skBoard (left_workspace b x) = skBoard x"
  "skId (joined_board b x) = skId x" "skUser (joined_board b x) = skUser x" "skBoard (joined_board b x) = Some b"
  "skBoard (left_board b x) = (if skBoard x = Some b then None else skBoard x)"
  by (simp_all add: left_board_def left_workspace_def joined_board_def)

text \<open>Changing one socket, and the presence entries of that socket only.\<close>

lemma hub_ok_change:
  assumes "hub_ok h" "\<And>x. skId (f x) = skId x" "\<And>x. skUser (f x) = skUser x" "keys_ok p"
    and "\<And>x. x \<in> set (hubSockets h) \<Longrightarrow> skId x = k \<Longrightarrow> socket_ok (f x)"
    and "\<And>b k' e. k' \<noteq> k \<Longrightarrow> entry_of p b k' = Some e \<Longrightarrow> entry_of (hubPresence h) b k' = Some e"
    and "\<And>b e. entry_of p b k = Some e \<Longrightarrow>
      \<exists>x\<in>set (hubSockets h). skId x = k \<and> skBoard (f x) = Some b \<and> map_option clSub (skUser x) = Some (peUserId e)"
    and "hub_core h' = (at_socket k f (hubSockets h), p)"
  shows "hub_ok h'"
proof -
  have sk: "hubSockets h' = at_socket k f (hubSockets h)" and pr: "hubPresence h' = p"
    using assms(8) by (simp_all add: core_proj)
  have "distinct (map skId (hubSockets h'))"
    using assms(1,2) by (simp add: hub_ok_def sk at_socket_def comp_def if_distrib cong: if_cong)
  moreover have "\<forall>x\<in>set (hubSockets h'). socket_ok x"
    using assms(1,5) by (auto simp: hub_ok_def sk at_socket_def)
  moreover have "\<exists>x\<in>set (hubSockets h'). skId x = k' \<and> skBoard x = Some b \<and> map_option clSub (skUser x) = Some (peUserId e)"
    if e: "entry_of p b k' = Some e" for b k' e
  proof (cases "k' = k")
    case True
    with e assms(7) [of b e] obtain x where x: "x \<in> set (hubSockets h)" "skId x = k" "skBoard (f x) = Some b"
      "map_option clSub (skUser x) = Some (peUserId e)" by blast
    then have "f x \<in> set (hubSockets h')" by (auto simp: sk at_socket_def image_iff)
    with x True show ?thesis by (intro bexI [of _ "f x"]) (simp_all add: assms(2,3))
  next
    case False
    from assms(1) have "entry_of (hubPresence h) b k' = Some e \<Longrightarrow>
      \<exists>x\<in>set (hubSockets h). skId x = k' \<and> skBoard x = Some b \<and> map_option clSub (skUser x) = Some (peUserId e)"
      by (simp add: hub_ok_def)
    with assms(6) [OF False e] obtain x where "x \<in> set (hubSockets h)" "skId x = k'" "skBoard x = Some b"
      "map_option clSub (skUser x) = Some (peUserId e)" by blast
    with False show ?thesis by (intro bexI [of _ x]) (auto simp: sk at_socket_def image_iff)
  qed
  ultimately show ?thesis using assms(4) by (auto simp: hub_ok_def pr)
qed

lemma leave_board_ok:
  assumes "hub_ok h"
  shows "hub_ok (leaveBoardRoom k user b h)"
proof (rule hub_ok_change [OF assms _ _ _ _ _ _ core_leave_board])
  have ok: "keys_ok (hubPresence h)" and socks: "\<forall>x\<in>set (hubSockets h). socket_ok x"
    and entries: "\<And>b k e. entry_of (hubPresence h) b k = Some e \<Longrightarrow>
      \<exists>x\<in>set (hubSockets h). skId x = k \<and> skBoard x = Some b \<and> map_option clSub (skUser x) = Some (peUserId e)"
    using assms by (auto simp: hub_ok_def)
  show "keys_ok (snd (removePresence b k (hubPresence h)))" using ok by simp
  show "socket_ok (left_board b x)" if "x \<in> set (hubSockets h)" for x
    using socks that by (simp add: left_board_ok)
  show "\<exists>x\<in>set (hubSockets h). skId x = k \<and> skBoard (left_board b x) = Some b' \<and>
      map_option clSub (skUser x) = Some (peUserId e)"
    if "entry_of (snd (removePresence b k (hubPresence h))) b' k = Some e" for b' e
  proof -
    from that have "b' \<noteq> b" "entry_of (hubPresence h) b' k = Some e" by (auto split: if_splits)
    with entries [of b' k e] obtain x where "x \<in> set (hubSockets h)" "skId x = k" "skBoard x = Some b'"
      "map_option clSub (skUser x) = Some (peUserId e)" by blast
    with \<open>b' \<noteq> b\<close> show ?thesis by (intro bexI [of _ x]) simp_all
  qed
qed (auto split: if_splits)

lemma same_id_same_socket:
  "hub_ok h \<Longrightarrow> x \<in> set (hubSockets h) \<Longrightarrow> y \<in> set (hubSockets h) \<Longrightarrow> skId x = skId y \<Longrightarrow> x = y"
  by (auto simp: hub_ok_def distinct_map inj_on_def)

lemma find_socket_Some: "find_socket k h = Some x \<Longrightarrow> x \<in> set (hubSockets h) \<and> skId x = k"
  unfolding find_socket_def by (rule find_SomeD)

lemma join_board_ok:
  assumes "hub_ok h" "\<And>x. x \<in> set (hubSockets h) \<Longrightarrow> skId x = k \<Longrightarrow> skBoard x \<in> {None, Some b} \<and> skUser x = Some user"
    and "b \<noteq> []" "k \<in> skId ` set (hubSockets h)" "peSocketId e = k" "peUserId e = clSub user"
    and "hub_core h' = (at_socket k (joined_board b) (hubSockets h), addPresence now b e (hubPresence h))"
  shows "hub_ok h'"
proof (rule hub_ok_change [OF assms(1) _ _ _ _ _ _ assms(7)])
  have socks: "\<forall>x\<in>set (hubSockets h). socket_ok x" and ok: "keys_ok (hubPresence h)"
    and entries: "\<And>b k e. entry_of (hubPresence h) b k = Some e \<Longrightarrow>
      \<exists>x\<in>set (hubSockets h). skId x = k \<and> skBoard x = Some b \<and> map_option clSub (skUser x) = Some (peUserId e)"
    using assms(1) by (auto simp: hub_ok_def)
  show "keys_ok (addPresence now b e (hubPresence h))" using ok by simp
  show "socket_ok (joined_board b x)" if "x \<in> set (hubSockets h)" "skId x = k" for x
    using joined_board_ok socks assms(2) [OF that] assms(3) that(1) by blast
  show "\<exists>x\<in>set (hubSockets h). skId x = k \<and> skBoard (joined_board b x) = Some b' \<and>
      map_option clSub (skUser x) = Some (peUserId e')"
    if e': "entry_of (addPresence now b e (hubPresence h)) b' k = Some e'" for b' e'
  proof (cases "b' = b")
    case True
    from assms(4) obtain x where x: "x \<in> set (hubSockets h)" "skId x = k" by auto
    with True e' assms(2) [OF x] assms(5,6) show ?thesis by (intro bexI [of _ x]) auto
  next
    case False
    with e' entries [of b' k e'] obtain x where "x \<in> set (hubSockets h)" "skId x = k" "skBoard x = Some b'"
      by (auto split: if_splits)
    with assms(2) False show ?thesis by fastforce
  qed
qed (use assms(5) in auto)

definition join_entry :: "instant \<Rightarrow> string \<Rightarrow> claims \<Rightarrow> uuid \<Rightarrow> presence \<Rightarrow> presence_entry" where
  "join_entry now k user b p = \<lparr>peUserId = clSub user, peSocketId = k, peDisplayName = clDisplayName user,
     peAvatarUrl = clAvatarUrl user, peColor = getCollaboratorColor now (clSub user) b p, peConnectedAt = now\<rparr>"

lemma core_board_join:
  "hub_core (handleBoardJoin now k user current b h) =
      (let h1 = (if truthy current \<and> current \<noteq> Some b then leaveBoardRoom k (Some user) (the current) h else h)
       in (at_socket k (joined_board b) (hubSockets h1),
           addPresence now b (join_entry now k user b (hubPresence h1)) (hubPresence h1)))"
proof -
  have f: "(\<lambda>x. x\<lparr>skRooms := sadd (board_room b) (skRooms x), skBoard := Some b\<rparr>) = joined_board b"
    by (simp add: joined_board_def fun_eq_iff)
  show ?thesis
    unfolding handleBoardJoin_def Let_def join_entry_def
    by (simp add: join_room_def core_proj at_socket_twice f)
qed

lemma board_join_ok:
  assumes "hub_ok h" "find_socket k h = Some x" "skUser x = Some user" "b \<noteq> []"
  shows "hub_ok (handleBoardJoin now k user (skBoard x) b h)"
proof -
  let ?h1 = "if truthy (skBoard x) \<and> skBoard x \<noteq> Some b then leaveBoardRoom k (Some user) (the (skBoard x)) h else h"
  from find_socket_Some [OF assms(2)] have x: "x \<in> set (hubSockets h)" "skId x = k" by auto
  with assms(1) have x_ok: "socket_ok x" by (auto simp: hub_ok_def)
  have ok: "hub_ok ?h1" using assms(1) leave_board_ok by simp
  have only: "y = x" if "y \<in> set (hubSockets h)" "skId y = k" for y
    using same_id_same_socket [OF assms(1) that(1) x(1)] that(2) x(2) by simp
  show ?thesis
  proof (rule join_board_ok [OF ok])
    show "hub_core (handleBoardJoin now k user (skBoard x) b h) =
        (at_socket k (joined_board b) (hubSockets ?h1),
         addPresence now b (join_entry now k user b (hubPresence ?h1)) (hubPresence ?h1))"
      using core_board_join by (simp add: Let_def)
    show "skBoard y \<in> {None, Some b} \<and> skUser y = Some user"
      if y: "y \<in> set (hubSockets ?h1)" "skId y = k" for y
    proof (cases "truthy (skBoard x) \<and> skBoard x \<noteq> Some b")
      case True
      with y obtain z where z: "z \<in> set (hubSockets h)" "skId z = k" "y = left_board (the (skBoard x)) z"
        by (auto simp: at_socket_def split: if_splits)
      then have "y = left_board (the (skBoard x)) x" using only by blast
      with True assms(3) show ?thesis by (auto simp: truthy_def split: option.splits)
    next
      case False
      with y only have "y = x" by auto
      moreover from x_ok have "skBoard x \<noteq> Some []" by (simp add: socket_ok_def)
      ultimately show ?thesis using False assms(3) by (auto simp: truthy_def split: option.splits)
    qed
    show "k \<in> skId ` set (hubSockets ?h1)" using x by auto
  qed (use assms(4) in \<open>simp_all add: join_entry_def\<close>)
qed

definition joined_workspace :: "uuid option \<Rightarrow> uuid \<Rightarrow> socket \<Rightarrow> socket" where
  "joined_workspace previous w x =
     x\<lparr>skRooms := sadd (workspace_room w)
         (if truthy previous \<and> previous \<noteq> Some w then srem (workspace_room (the previous)) (skRooms x) else skRooms x),
       skWorkspace := Some w\<rparr>"

lemma joined_workspace_simps [simp]:
  "skId (joined_workspace q w x) = skId x" "skUser (joined_workspace q w x) = skUser x"
  "skBoard (joined_workspace q w x) = skBoard x"
  by (simp_all add: joined_workspace_def)

lemma core_workspace_join:
  "hub_core (handleWorkspaceJoin k user previous w h) =
     (at_socket k (joined_workspace previous w) (hubSockets h), hubPresence h)"
proof -
  have f: "(\<lambda>x. x\<lparr>skRooms := sadd (workspace_room w) (skRooms x), skWorkspace := Some w\<rparr>) = joined_workspace previous w"
    if "\<not> (truthy previous \<and> previous \<noteq> Some w)"
    using that by (auto simp: joined_workspace_def fun_eq_iff)
  have g: "(\<lambda>x. x\<lparr>skRooms := sadd (workspace_room w) (srem (workspace_room (the previous)) (skRooms x)),
      skWorkspace := Some w\<rparr>) = joined_workspace previous w" if "truthy previous \<and> previous \<noteq> Some w"
    using that by (auto simp: joined_workspace_def fun_eq_iff)
  show ?thesis
    unfolding handleWorkspaceJoin_def Let_def
    using f g by (simp add: join_room_def leave_room_def core_proj at_socket_twice)
qed

lemma joined_workspace_ok:
  "socket_ok x \<Longrightarrow> w \<noteq> [] \<Longrightarrow> socket_ok (joined_workspace (skWorkspace x) w x)"
  by (cases "skWorkspace x") (auto simp: socket_ok_def joined_workspace_def)

text \<open>A change of rooms that leaves boards and presence alone.\<close>

lemma other_change_ok:
  assumes "hub_ok h" "\<And>x. skId (f x) = skId x" "\<And>x. skUser (f x) = skUser x" "\<And>x. skBoard (f x) = skBoard x"
    and "\<And>x. x \<in> set (hubSockets h) \<Longrightarrow> skId x = k \<Longrightarrow> socket_ok (f x)"
    and "hub_core h' = (at_socket k f (hubSockets h), hubPresence h)"
  shows "hub_ok h'"
proof (rule hub_ok_change [OF assms(1-3) _ assms(5) _ _ assms(6)])
  show "keys_ok (hubPresence h)" using assms(1) by (simp add: hub_ok_def)
  show "\<exists>x\<in>set (hubSockets h). skId x = k \<and> skBoard (f x) = Some b \<and> map_option clSub (skUser x) = Some (peUserId e)"
    if "entry_of (hubPresence h) b k = Some e" for b e
    using assms(1) that by (simp add: hub_ok_def assms(4))
qed

lemma hub_ok_presence:
  assumes "hub_ok h" "hub_core h' = (hubSockets h, p)" "keys_ok p"
    and "\<And>b k e. entry_of p b k = Some e \<Longrightarrow> entry_of (hubPresence h) b k = Some e"
  shows "hub_ok h'"
  using assms unfolding hub_ok_def by (simp add: core_proj del: core_proj [symmetric])

text \<open>A socket that goes away takes its presence with it.\<close>

lemma core_disconnect:
  assumes "find_socket k h = Some x" "skUser x = Some c"
  shows "hub_core (handleDisconnect k h) =
    (filter (\<lambda>y. skId y \<noteq> k) (hubSockets h),
     if truthy (skBoard x) then snd (removePresence (the (skBoard x)) k (hubPresence h)) else hubPresence h)"
  using assms by (simp add: handleDisconnect_def Let_def case_prod_beta split: option.split)

lemma disconnect_ok:
  assumes "hub_ok h"
  shows "hub_ok (handleDisconnect k h)"
proof (cases "find_socket k h")
  case None
  then show ?thesis using assms by (simp add: handleDisconnect_def)
next
  case (Some x)
  from find_socket_Some [OF Some] have x: "x \<in> set (hubSockets h)" "skId x = k" by auto
  with assms have x_ok: "socket_ok x" by (auto simp: hub_ok_def)
  then obtain c where c: "skUser x = Some c" by (auto simp: socket_ok_def)
  let ?p = "if truthy (skBoard x) then snd (removePresence (the (skBoard x)) k (hubPresence h)) else hubPresence h"
  have keys: "keys_ok ?p" using assms by (simp add: hub_ok_def)
  have entries: "\<exists>y\<in>set (hubSockets h). skId y \<noteq> k \<and> skId y = k' \<and> skBoard y = Some b \<and>
      map_option clSub (skUser y) = Some (peUserId e)" if e: "entry_of ?p b k' = Some e" for b k' e
  proof -
    from e have old: "entry_of (hubPresence h) b k' = Some e" by (auto split: if_splits)
    with assms obtain y where y: "y \<in> set (hubSockets h)" "skId y = k'" "skBoard y = Some b"
      "map_option clSub (skUser y) = Some (peUserId e)" by (fastforce simp: hub_ok_def)
    have "k' \<noteq> k"
    proof
      assume "k' = k"
      with same_id_same_socket [OF assms y(1) x(1)] x(2) y(2) have "y = x" by simp
      with y(3) x_ok have "truthy (skBoard x)" "the (skBoard x) = b" by (auto simp: socket_ok_def)
      with e \<open>k' = k\<close> show False by simp
    qed
    with y show ?thesis by blast
  qed
  have core: "hubSockets (handleDisconnect k h) = filter (\<lambda>y. skId y \<noteq> k) (hubSockets h)"
    "hubPresence (handleDisconnect k h) = ?p"
    using core_disconnect [OF Some c] by (simp_all add: core_proj)
  show ?thesis
    unfolding hub_ok_def core
  proof (intro conjI allI impI keys)
    show "distinct (map skId (filter (\<lambda>y. skId y \<noteq> k) (hubSockets h)))"
      "\<forall>x\<in>set (filter (\<lambda>y. skId y \<noteq> k) (hubSockets h)). socket_ok x"
      using assms by (simp_all add: hub_ok_def distinct_map_filter)
    fix b k' e assume "entry_of ?p b k' = Some e"
    from entries [OF this] show "\<exists>x\<in>set (filter (\<lambda>y. skId y \<noteq> k) (hubSockets h)). skId x = k' \<and> skBoard x = Some b \<and>
        map_option clSub (skUser x) = Some (peUserId e)" unfolding set_filter by blast
  qed
qed

lemma core_cleanup: "hub_core (runPresenceCleanup now h) = (hubSockets h, snd (cleanupStaleEntries now (hubPresence h)))"
proof -
  have "hub_core (fold (\<lambda>(board, e). emit_room (board_room board) ''board:presence''
      (left_payload (peUserId e) (peDisplayName e))) removed g) = hub_core g" for removed :: "(uuid \<times> presence_entry) list" and g
    by (induction removed arbitrary: g) auto
  moreover obtain removed p where "cleanupStaleEntries now (hubPresence h) = (removed, p)" by fastforce
  ultimately show ?thesis by (simp add: runPresenceCleanup_def)
qed

lemma cleanup_ok: "hub_ok h \<Longrightarrow> hub_ok (runPresenceCleanup now h)"
  by (rule hub_ok_presence [OF _ core_cleanup])
     (auto simp: hub_ok_def cleanupStaleEntries_def split: if_splits)

lemma heartbeat_hub_ok: "hub_ok h \<Longrightarrow> hub_ok (handleHeartbeat now k current h)"
proof (rule hub_ok_presence [where h = h])
  show "hub_core (handleHeartbeat now k current h) =
      (hubSockets h, if truthy current then updateHeartbeat now (the current) k (hubPresence h) else hubPresence h)"
    by (simp add: handleHeartbeat_def) (simp add: hub_core_def)
qed (auto simp: hub_ok_def split: if_splits)

lemma connection_ok:
  assumes "hub_ok h" "k \<notin> skId ` set (hubSockets h)"
  shows "hub_ok (handleConnection cr now s hs k h)"
proof (cases "hub_core (handleConnection cr now s hs k h) = hub_core h")
  case True
  then show ?thesis using assms(1) hub_ok_core by blast
next
  case False
  then obtain c where c: "hub_core (handleConnection cr now s hs k h) = (hubSockets h @
      [\<lparr>skId = k, skUser = Some c, skBoard = None, skWorkspace = None, skDocument = None,
        skRooms = [user_room (clSub c)]\<rparr>], hubPresence h)"
    by (auto simp: handleConnection_def Let_def split: if_splits sum.splits)
  then have core: "hubSockets (handleConnection cr now s hs k h) = hubSockets h @
      [\<lparr>skId = k, skUser = Some c, skBoard = None, skWorkspace = None, skDocument = None,
        skRooms = [user_room (clSub c)]\<rparr>]" "hubPresence (handleConnection cr now s hs k h) = hubPresence h"
    by (simp_all add: core_proj)
  have "socket_ok \<lparr>skId = k, skUser = Some c, skBoard = None, skWorkspace = None, skDocument = None,
      skRooms = [user_room (clSub c)]\<rparr>"
    by (simp add: socket_ok_def) blast
  then show ?thesis using assms unfolding hub_ok_def core by auto
qed

lemma dispatch_cases:
  "hub_core (dispatch is_uuid now suffix s k m h) = hub_core h \<or>
   (\<exists>x c L. find_socket k h = Some x \<and> skUser x = Some c \<and> wsAuthGuard_canActivate now (Some (socket_user_of c)) s = None \<and>
      message_guard (Some c) m s = None \<and> valid_message is_uuid m \<and>
      dispatch is_uuid now suffix s k m h = handle now x c m (h\<lparr>hubLimiter := L\<rparr>))"
  by (auto simp: dispatch_def Let_def split: option.split prod.split sum.split bool.split)

lemma limiter_sockets [simp]:
  "find_socket k (h\<lparr>hubLimiter := L\<rparr>) = find_socket k h" "hubSockets (h\<lparr>hubLimiter := L\<rparr>) = hubSockets h"
  "hub_ok (h\<lparr>hubLimiter := L\<rparr>) = hub_ok h"
  by (simp add: find_socket_def, simp, rule hub_ok_core, simp)

lemma dispatch_ok:
  assumes "hub_ok h" "\<not> is_uuid []"
  shows "hub_ok (dispatch is_uuid now suffix s k m h)"
  using dispatch_cases [of is_uuid now suffix s k m h]
proof
  assume "hub_core (dispatch is_uuid now suffix s k m h) = hub_core h"
  then show ?thesis using assms(1) hub_ok_core by blast
next
  assume "\<exists>x c L. find_socket k h = Some x \<and> skUser x = Some c \<and> wsAuthGuard_canActivate now (Some (socket_user_of c)) s = None \<and>
      message_guard (Some c) m s = None \<and> valid_message is_uuid m \<and>
      dispatch is_uuid now suffix s k m h = handle now x c m (h\<lparr>hubLimiter := L\<rparr>)"
  then obtain x c L where x: "find_socket k h = Some x" "skUser x = Some c" "valid_message is_uuid m"
    and run: "dispatch is_uuid now suffix s k m h = handle now x c m (h\<lparr>hubLimiter := L\<rparr>)" by blast
  let ?h = "h\<lparr>hubLimiter := L\<rparr>"
  have h: "hub_ok ?h" "find_socket k ?h = Some x" using assms(1) x by simp_all
  from find_socket_Some [OF h(2)] have k: "skId x = k" "x \<in> set (hubSockets ?h)" by auto
  have only: "y = x" if "y \<in> set (hubSockets ?h)" "skId y = k" for y
    using same_id_same_socket [OF h(1) that(1) k(2)] that(2) k(1) by simp
  show ?thesis
  proof (cases m)
    case (WorkspaceJoin w)
    with x(3) assms(2) have "w \<noteq> []" by auto
    have "hub_ok (handleWorkspaceJoin k c (skWorkspace x) w ?h)"
    proof (rule other_change_ok [OF h(1) _ _ _ _ core_workspace_join])
      fix y assume "y \<in> set (hubSockets ?h)" "skId y = k"
      with only have "y = x" by blast
      with h(1) k(2) \<open>w \<noteq> []\<close> show "socket_ok (joined_workspace (skWorkspace x) w y)"
        by (simp add: hub_ok_def joined_workspace_ok)
    qed simp_all
    then show ?thesis using run WorkspaceJoin k(1) by simp
  next
    case (WorkspaceLeave w)
    have "hub_ok (handleWorkspaceLeave k w ?h)"
      by (rule other_change_ok [OF h(1) _ _ _ _ core_leave_workspace])
         (use h(1) in \<open>auto simp: hub_ok_def left_workspace_ok\<close>)
    then show ?thesis using run WorkspaceLeave k(1) by simp
  next
    case (BoardJoin b)
    with x(3) assms(2) have "b \<noteq> []" by auto
    then show ?thesis using run BoardJoin k(1) board_join_ok [OF h(1,2) x(2)] by simp
  next
    case (BoardLeave b)
    then show ?thesis using run k(1) leave_board_ok [OF h(1)] by simp
  next
    case PresenceHeartbeat
    then show ?thesis using run k(1) heartbeat_hub_ok [OF h(1)] by simp
  next
    case (PresenceCursor dto)
    have "hub_core (handleCursor now k c dto ?h) = hub_core ?h" by (simp add: handleCursor_def Let_def)
    then have "hub_ok (handleCursor now k c dto ?h)" using h(1) hub_ok_core by blast
    then show ?thesis using run k(1) PresenceCursor by simp
  qed
qed

section \<open>Histories\<close>

text \<open>
  A step at any moment and on any state of the database, which the rest of the program changes
  meanwhile. The socket library never hands out the id of an open socket.
\<close>

inductive hub_reachable :: "crypto \<Rightarrow> (string \<Rightarrow> bool) \<Rightarrow> hub \<Rightarrow> bool" for cr is_uuid where
  start: "hub_reachable cr is_uuid empty_hub"
| connect: "hub_reachable cr is_uuid h \<Longrightarrow> k \<notin> skId ` set (hubSockets h) \<Longrightarrow>
    hub_reachable cr is_uuid (handleConnection cr now s hs k h)"
| message: "hub_reachable cr is_uuid h \<Longrightarrow> hub_reachable cr is_uuid (dispatch is_uuid now suffix s k m h)"
| disconnect: "hub_reachable cr is_uuid h \<Longrightarrow> hub_reachable cr is_uuid (handleDisconnect k h)"
| cleanup: "hub_reachable cr is_uuid h \<Longrightarrow> hub_reachable cr is_uuid (runPresenceCleanup now h)"
| relayed: "hub_reachable cr is_uuid h \<Longrightarrow> hub_reachable cr is_uuid (broadcast ms h)"

lemma core_broadcast [simp]: "hub_core (broadcast ms h) = hub_core h"
proof -
  have "hub_core (fold (\<lambda>(room, event, payload). emit_room room event payload) ms h) = hub_core h"
    by (induction ms arbitrary: h) auto
  then show ?thesis by (simp add: broadcast_def)
qed

lemma empty_hub_ok: "hub_ok empty_hub"
  by (simp add: hub_ok_def empty_hub_def) (simp add: keys_ok_def no_presence_def entry_of_def keys_distinct_def hget_def)

lemma reachable_ok: "hub_reachable cr is_uuid h \<Longrightarrow> \<not> is_uuid [] \<Longrightarrow> hub_ok h"
  by (induction rule: hub_reachable.induct)
     (simp_all add: empty_hub_ok connection_ok dispatch_ok disconnect_ok cleanup_ok hub_ok_core [OF core_broadcast])

end
