(* ===== verification/Realtime_Properties.thy ===== *)
theory Realtime_Properties
  imports Board_Gateway Ownership
begin

text \<open>
  Properties of the realtime layer: which sockets are in which room and who is listed as a viewer
  (\<open>Board_Gateway\<close> with \<open>Presence\<close>), who may enter a board's room, who receives what
  (\<open>Broadcast_Relay\<close>), and what becomes of an open socket when the user logs out or loses the membership.
\<close>

section \<open>Deliveries\<close>

lemma broadcast_Nil [simp]: "broadcast [] h = h"
  by (simp add: broadcast_def)

lemma broadcast_Cons [simp]: "broadcast (m # ms) h = broadcast ms (emit_room (fst m) (fst (snd m)) (snd (snd m)) h)"
  by (simp add: broadcast_def case_prod_beta)

lemma in_room_emit [simp]: "in_room room (emit_room r ev pl h) = in_room room h"
  by (simp add: in_room_def emit_room_def)

lemma broadcast_sent:
  "hubSent (broadcast ms h) = hubSent h @ concat (map (\<lambda>m. map (\<lambda>x. (skId x, snd m)) (in_room (fst m) h)) ms)"
  by (induction ms arbitrary: h) (simp_all add: emit_room_def [of _ _ _ "_ :: hub"] in_room_def)

lemma broadcast_delivers:
  "m \<in> set ms \<Longrightarrow> x \<in> set (hubSockets h) \<Longrightarrow> fst m \<in> set (skRooms x) \<Longrightarrow>
   (skId x, snd m) \<in> set (hubSent (broadcast ms h))"
  by (force simp: broadcast_sent in_room_def)

section \<open>Rooms\<close>

lemma viewers_entries:
  assumes "keys_ok p" "v \<in> set (getBoardViewers now b p)"
  obtains k e where "entry_of p b k = Some e" "peUserId e = puUserId v"
  using viewer_iff [OF assms(1), of "puUserId v" now b] assms(2) by blast


definition one_hub :: hub where
  "one_hub = handleConnection demo_crypto 0 sample_db \<lparr>hsAuthToken = Some ''t'', hsAuthorization = None\<rparr> ''k1'' empty_hub"

lemma one_hub_eq: "one_hub = empty_hub\<lparr>hubSockets := [\<lparr>skId = ''k1'', skUser = Some demo_claims, skBoard = None,
    skWorkspace = None, skDocument = None, skRooms = [''user:m'']\<rparr>]\<rparr>"
  by (simp add: one_hub_def handleConnection_def handshake_token_def verifyAccessToken_def demo_crypto_def demo_claims_def
      isBlacklisted_def redis_get_def sample_db_def empty_db_def empty_hub_def user_room_def)

definition joined_hub :: hub where
  "joined_hub = dispatch (\<lambda>i. i \<noteq> []) 0 ''x'' sample_db ''k1'' (BoardJoin ''b'') one_hub"

lemma joined_hub_reachable: "hub_reachable demo_crypto (\<lambda>i. i \<noteq> []) joined_hub"
  unfolding joined_hub_def one_hub_def
  by (intro hub_reachable.message hub_reachable.connect hub_reachable.start) (simp add: empty_hub_def)

definition joined_socket :: socket where
  "joined_socket = \<lparr>skId = ''k1'', skUser = Some demo_claims, skBoard = Some ''b'', skWorkspace = None,
     skDocument = None, skRooms = [''board:b'', ''user:m'']\<rparr>"

lemma joined_sockets: "hubSockets joined_hub = [joined_socket]"
proof -
  have rate: "wsRateLimitGuard_canActivate 0 ''x'' (Some ROOM_JOINS) (Some ''m'') (\<lambda>_. None) =
      (Inr True, snd (checkRateLimit 0 ''x'' ''m'' ''join'' 10 60000 (\<lambda>_. None)))"
    by (simp add: wsRateLimitGuard_canActivate_def ROOM_JOINS_def checkRateLimit_def live_window_def Let_def
        zremrangebyscore_def zadd_def zcard_def zrem_def)
  have guard: "wsAuthGuard_canActivate 0 (Some (socket_user_of demo_claims)) sample_db = None"
    "message_guard (Some demo_claims) (BoardJoin ''b'') sample_db = None"
    by code_simp+
  obtain L where "joined_hub = handleBoardJoin 0 ''k1'' demo_claims None ''b'' (one_hub\<lparr>hubLimiter := L\<rparr>)"
    using rate guard by (simp add: joined_hub_def dispatch_def one_hub_eq find_socket_def empty_hub_def demo_claims_def)
  then have "hubSockets joined_hub = at_socket ''k1'' (joined_board ''b'') (hubSockets one_hub)"
    using core_board_join [of 0 "''k1''" demo_claims None "''b''" "one_hub\<lparr>hubLimiter := L\<rparr>"]
    by (simp add: core_proj Let_def)
  then show ?thesis
    by (simp add: one_hub_eq empty_hub_def at_socket_def joined_board_def joined_socket_def board_room_def sadd_def)
qed




section \<open>Sockets that outlive their permission\<close>

text \<open>Losing the membership does not empty the rooms. A socket that is in a board's room when its user stops being a
  member of the workspace (removed or left) would be refused if it asked to join now, yet it keeps
  receiving every message any card call on that board produces.\<close>

theorem removed_member_keeps_receiving:
  fixes lx :: "'r lexorank"
  assumes "x \<in> set (hubSockets h)" "skUser x = Some c" "board_room (board_of_action a) \<in> set (skRooms x)"
    and "boardRepo_findById (board_of_action a) None s = Some bd" "board_of_action a \<noteq> []"
    and "memberRepo_findMember (boardWorkspaceId bd) (clSub c) s = None"
    and "events (snd (exec_card le lx now a s)) = events s @ news"
  shows "wsBoardAccessGuard_canActivate (Some (socket_user_of c)) (Some (board_of_action a)) s \<noteq> None \<and>
    (\<forall>m\<in>set (relay_all True news). (skId x, snd m) \<in> set (hubSent (broadcast (relay_all True news) h)))"
proof -
  from exec_logs [of s a le lx now] assms(7) have news: "\<forall>e\<in>set news. for_board (board_of_action a) e"
    by (auto simp: logs_only_def)
  have "fst m = board_room (board_of_action a)" if "m \<in> set (relay_all True news)" for m
    using that news by (auto simp: relay_all_def for_board_def)
  then show ?thesis
    using assms(1-6) by (auto simp: wsBoardAccessGuard_canActivate_def socket_user_of_def intro!: broadcast_delivers)
qed

theorem removed_member_keeps_receiving_witness:
  "(''k1'', ''card:status_changed'') \<in> (\<lambda>(k, ev, _). (k, ev)) ` set (hubSent (broadcast
    (relay_all True [CardStatusChanged ''a'' ''b'' NotStarted Done True ''u'']) joined_hub))"
proof -
  obtain gone where gone_def: "gone = snd (membershipService_removeMember ''w'' ''mm'' (Some ''u'') sample_db)" by blast
  let ?news = "[CardStatusChanged ''a'' ''b'' NotStarted Done True ''u'']"
  have "boardRepo_findById ''b'' None gone = Some sample_board" "memberRepo_findMember ''w'' ''m'' gone = None"
    "events (snd (exec_card shorter unary_lexorank 1 (SetStatus ''b'' ''w'' ''a'' Done ''u'') gone)) = events gone @ ?news"
    unfolding gone_def by code_simp+
  with removed_member_keeps_receiving [of joined_socket joined_hub demo_claims "SetStatus ''b'' ''w'' ''a'' Done ''u''"
      gone sample_board shorter unary_lexorank 1 ?news]
  have "\<forall>m\<in>set (relay_all True ?news). (''k1'', snd m) \<in> set (hubSent (broadcast (relay_all True ?news) joined_hub))"
    by (simp add: joined_sockets joined_socket_def demo_claims_def sample_board_def board_room_def)
  then show ?thesis by (force simp: relay_all_def to_board_def)
qed

text \<open>Logging out reaches open sockets only until the token's own expiry. From the logout until that moment every
  message of a socket opened with the token is refused, and a second after it the blacklist entry has
  expired too, and since a message is checked against the blacklist but not against the token's
  expiry, the socket is served again.\<close>

theorem logout_stops_sockets_until_expiry:
  assumes "now < clExp c" "clJti c \<noteq> []" "clIsEmailVerified c" "clExp c + 1000 \<le> later"
  shows "let s' = authService_logout cr now cookie (Some (clJti c)) (Some (clExp c)) s in
    (\<forall>t. now \<le> t \<longrightarrow> t < clExp c \<longrightarrow>
      wsAuthGuard_canActivate t (Some (socket_user_of c)) s' = Some ''TOKEN_REVOKED'') \<and>
    wsAuthGuard_canActivate later (Some (socket_user_of c)) s' = None"
proof -
  let ?s = "authService_logout cr now cookie (Some (clJti c)) (Some (clExp c)) s"
  let ?ttl = "ceil_seconds (clExp c - now)"
  have "(now - clExp c) div 1000 * 1000 \<le> now - clExp c" "now - clExp c < (now - clExp c) div 1000 * 1000 + 1000"
    by (simp_all add: div_mult_mod_eq minus_mod_eq_div_mult [symmetric] algebra_simps)
  then have ttl: "0 < ?ttl" "clExp c \<le> now + ?ttl * 1000" "now + ?ttl * 1000 < clExp c + 1000"
    using assms(1) by (auto simp: ceil_seconds_def)
  then have "redis ?s (''blacklist:'' @ clJti c) = Some (''1'', now + ?ttl * 1000)"
    using assms(2) by (simp add: authService_logout_def maybe_blacklist_def blacklist_def redis_set_ex_def Let_def)
  then show ?thesis
    using ttl assms(2-4) by (auto simp: wsAuthGuard_canActivate_def socket_user_of_def isBlacklisted_def redis_get_def Let_def)
qed

theorem logout_stops_sockets_until_expiry_witness:
  "wsAuthGuard_canActivate 899999 (Some (socket_user_of demo_claims))
     (authService_logout demo_crypto 0 None (Some ''j'') (Some 900000) sample_db) = Some ''TOKEN_REVOKED'' \<and>
   wsAuthGuard_canActivate 901000 (Some (socket_user_of demo_claims))
     (authService_logout demo_crypto 0 None (Some ''j'') (Some 900000) sample_db) = None"
  using logout_stops_sockets_until_expiry [of 0 demo_claims 901000 demo_crypto None sample_db]
  by (simp add: demo_claims_def Let_def)

text \<open>Cursor messages need no access to the board: any connected socket with a verified user, within the rate limit,
  makes the server send the cursor event with its user's name to every other socket in the board's
  room, whether or not the user is a member, has joined, or the board even exists.\<close>

theorem cursor_reaches_any_board:
  assumes "find_socket k h = Some x" "skUser x = Some c" "wsAuthGuard_canActivate now (Some (socket_user_of c)) s = None"
    and "fst (wsRateLimitGuard_canActivate now suffix (Some PRESENCE_CURSOR) (Some (clSub c)) (hubLimiter h)) = Inr True"
    and "valid_message is_uuid (PresenceCursor dto)"
    and "y \<in> set (hubSockets h)" "skId y \<noteq> k" "board_room (cuBoardId dto) \<in> set (skRooms y)"
  shows "\<exists>payload. (skId y, ''board:cursor'', payload) \<in> set (hubSent (dispatch is_uuid now suffix s k (PresenceCursor dto) h)) \<and>
    (''userId'', WString (clSub c)) \<in> set payload"
proof -
  obtain L where L: "wsRateLimitGuard_canActivate now suffix (Some PRESENCE_CURSOR) (Some (clSub c)) (hubLimiter h) = (Inr True, L)"
    using assms(4) by (cases "wsRateLimitGuard_canActivate now suffix (Some PRESENCE_CURSOR) (Some (clSub c)) (hubLimiter h)") simp
  have k: "skId x = k" using find_socket_Some [OF assms(1)] by simp
  have run: "dispatch is_uuid now suffix s k (PresenceCursor dto) h = handleCursor now k c dto (h\<lparr>hubLimiter := L\<rparr>)"
    using assms(1-5) L k by (simp add: dispatch_def)
  show ?thesis
    unfolding run handleCursor_def Let_def
    using assms(6-8) by (auto simp: emit_others_def in_room_def intro!: exI)
qed

text \<open>The sender is a stranger to the workspace.\<close>

definition stranger :: claims where
  "stranger = demo_claims\<lparr>clSub := ''x'', clJti := ''j2''\<rparr>"

definition two_sockets :: hub where
  "two_sockets = empty_hub\<lparr>hubSockets := [joined_socket, \<lparr>skId = ''k2'', skUser = Some stranger, skBoard = None,
     skWorkspace = None, skDocument = None, skRooms = [''user:x'']\<rparr>]\<rparr>"

theorem cursor_reaches_any_board_witness:
  "memberRepo_findMember ''w'' ''x'' sample_db = None \<and>
   (\<exists>payload. (''k1'', ''board:cursor'', payload) \<in> set (hubSent (dispatch (\<lambda>i. i \<noteq> []) 0 ''r'' sample_db ''k2''
       (PresenceCursor \<lparr>cuBoardId = ''b'', cuCardId = None, cuX = 1, cuY = 2\<rparr>) two_sockets)) \<and>
     (''userId'', WString ''x'') \<in> set payload)"
proof -
  let ?x = "\<lparr>skId = ''k2'', skUser = Some stranger, skBoard = None, skWorkspace = None, skDocument = None, skRooms = [''user:x'']\<rparr>"
  have "find_socket ''k2'' two_sockets = Some ?x" "joined_socket \<in> set (hubSockets two_sockets)"
    by (simp_all add: find_socket_def two_sockets_def joined_socket_def)
  moreover have "wsAuthGuard_canActivate 0 (Some (socket_user_of stranger)) sample_db = None"
    "memberRepo_findMember ''w'' ''x'' sample_db = None" by code_simp+
  moreover have "fst (wsRateLimitGuard_canActivate 0 ''r'' (Some PRESENCE_CURSOR) (Some (clSub stranger)) (hubLimiter two_sockets)) = Inr True"
    by (simp add: wsRateLimitGuard_canActivate_def PRESENCE_CURSOR_def checkRateLimit_def live_window_def Let_def
        zremrangebyscore_def zadd_def zcard_def zrem_def stranger_def demo_claims_def two_sockets_def empty_hub_def)
  ultimately show ?thesis
    using cursor_reaches_any_board [of "''k2''" two_sockets ?x stranger 0 sample_db "''r''" "\<lambda>i. i \<noteq> []"
        "\<lparr>cuBoardId = ''b'', cuCardId = None, cuX = 1, cuY = 2\<rparr>" joined_socket]
    by (simp add: joined_socket_def board_room_def stranger_def demo_claims_def)
qed

end
