(* ===== verification/Documents.thy ===== *)
theory Documents
  imports Cards Js_Text Samples
begin

text \<open>
  Collaborative documents, the stored side: \<open>DocumentRepository\<close>
  (\<open>document/repositories/document.repository.ts\<close>) and \<open>DocumentService\<close>
  (\<open>document/services/document.service.ts\<close>). A document's CRDT state is an opaque byte string here. The
  database's full-text match of a preview against a search term is the parameter \<open>matches\<close>; its
  cursor seek is the parameter \<open>after\<close>, as in \<open>Paging\<close>.
\<close>

section \<open>DocumentRepository\<close>

text \<open>A document without its state and preview, and with the title of its parent card.\<close>

record document_meta =
  dmId :: uuid
  dmWorkspaceId :: uuid
  dmTitle :: string
  dmParentCardId :: "uuid option"
  dmCreatedBy :: uuid
  dmStatus :: document_status
  dmCreatedAt :: instant
  dmUpdatedAt :: instant

definition meta_of :: "document_row \<Rightarrow> document_meta" where
  "meta_of d = \<lparr>dmId = docId d, dmWorkspaceId = docWorkspaceId d, dmTitle = docTitle d, dmParentCardId = docParentCardId d,
     dmCreatedBy = docCreatedBy d, dmStatus = docStatus d, dmCreatedAt = docCreatedAt d, dmUpdatedAt = docUpdatedAt d\<rparr>"

type_synonym listed_document = "document_meta \<times> (uuid \<times> string) option"

definition with_parent_card :: "db \<Rightarrow> document_row \<Rightarrow> listed_document" where
  "with_parent_card s d = (meta_of d,
     Option.bind (docParentCardId d) (\<lambda>i. map_option (\<lambda>c. (cardId c, cardTitle c)) (find (\<lambda>c. cardId c = i) (cards s))))"

definition newest_first :: "document_row list \<Rightarrow> document_row list" where
  "newest_first = order_desc (\<lambda>d. (docUpdatedAt d, docId d))"

definition documentRepo_create :: "document_row \<Rightarrow> db \<Rightarrow> document_row outcome" where
  [op_defs]: "documentRepo_create d s =
     or_conflict (insert_row docId d (documents s)) (\<lambda>rows s. (Inr d, s\<lparr>documents := rows\<rparr>)) s"

definition documentRepo_findActiveById :: "uuid \<Rightarrow> db \<Rightarrow> document_meta option" where
  "documentRepo_findActiveById i s =
     map_option meta_of (find (\<lambda>d. docId d = i \<and> docStatus d = DocActive) (documents s))"

definition documentRepo_findWithState :: "uuid \<Rightarrow> db \<Rightarrow> (uuid \<times> string option) option" where
  "documentRepo_findWithState i s =
     map_option (\<lambda>d. (docId d, docYjsState d)) (find (\<lambda>d. docId d = i \<and> docStatus d = DocActive) (documents s))"

definition active_documents :: "uuid \<Rightarrow> db \<Rightarrow> document_row list" where
  "active_documents ws s =
     newest_first (filter (\<lambda>d. docWorkspaceId d = ws \<and> docStatus d = DocActive) (documents s))"

definition documentRepo_findPage ::
  "listed_document cursor_seek \<Rightarrow> uuid \<Rightarrow> uuid option \<Rightarrow> nat \<Rightarrow> db \<Rightarrow> error + listed_document list" where
  "documentRepo_findPage after ws cursor limit s =
     take_page_or_first after cursor (Suc limit) (map (with_parent_card s) (active_documents ws s))"

text \<open>The raw query of the search lists no parent card.\<close>

definition documentRepo_searchPage ::
  "(string \<Rightarrow> string \<Rightarrow> bool) \<Rightarrow> uuid \<Rightarrow> string \<Rightarrow> uuid option \<Rightarrow> nat \<Rightarrow> db \<Rightarrow> listed_document list" where
  "documentRepo_searchPage matches ws term cursor limit s =
     (let hits = filter (\<lambda>d. matches (case docPreviewText d of None \<Rightarrow> [] | Some t \<Rightarrow> t) term) (active_documents ws s);
          shown = (\<lambda>rows. map (\<lambda>d. (meta_of d, None)) (take (Suc limit) rows))
      in if \<not> truthy cursor then shown hits
         else (case find (\<lambda>d. docId d = the cursor) (documents s) of
                 None \<Rightarrow> shown hits
               | Some c \<Rightarrow>
                   if docWorkspaceId c \<noteq> ws \<or> docStatus c \<noteq> DocActive then shown hits
                   else shown (filter (\<lambda>d. (docUpdatedAt d, docId d) < (docUpdatedAt c, docId c)) hits)))"

definition documentRepo_findByCard :: "uuid \<Rightarrow> db \<Rightarrow> listed_document list" where
  "documentRepo_findByCard card_id s = map (with_parent_card s)
     (newest_first (filter (\<lambda>d. docParentCardId d = Some card_id \<and> docStatus d = DocActive) (documents s)))"

definition list_of_card :: "card_row \<Rightarrow> db \<Rightarrow> list_row option" where
  "list_of_card c s = find (\<lambda>l. listId l = cardListId c) (lists s)"

definition board_of_card :: "card_row \<Rightarrow> db \<Rightarrow> board_row option" where
  "board_of_card c s = Option.bind (list_of_card c s) (\<lambda>l. find (\<lambda>b. boardId b = listBoardId l) (boards s))"

definition documentRepo_findByBoard :: "uuid \<Rightarrow> uuid \<Rightarrow> db \<Rightarrow> listed_document list" where
  "documentRepo_findByBoard ws board s = map (with_parent_card s)
     (newest_first (filter (\<lambda>d. docWorkspaceId d = ws \<and> docStatus d = DocActive \<and>
        (\<exists>c\<in>set (cards s). docParentCardId d = Some (cardId c) \<and> cardArchivedAt c = None \<and>
           (case list_of_card c s of None \<Rightarrow> False | Some l \<Rightarrow> listBoardId l = board \<and> listArchivedAt l = None)))
        (documents s)))"

definition documentRepo_cardExistsInWorkspace :: "uuid \<Rightarrow> uuid \<Rightarrow> db \<Rightarrow> bool" where
  "documentRepo_cardExistsInWorkspace i ws s \<longleftrightarrow>
     list_ex (\<lambda>c. cardId c = i \<and> cardArchivedAt c = None \<and>
       (case board_of_card c s of None \<Rightarrow> False | Some b \<Rightarrow> boardWorkspaceId b = ws)) (cards s)"

definition documentRepo_findBoardIdByCard :: "uuid \<Rightarrow> db \<Rightarrow> uuid option" where
  "documentRepo_findBoardIdByCard i s =
     Option.bind (find (\<lambda>c. cardId c = i) (cards s)) (\<lambda>c. map_option listBoardId (list_of_card c s))"

text \<open>Every update sets the \<open>@updatedAt\<close> column.\<close>

definition documentRepo_update :: "instant \<Rightarrow> uuid \<Rightarrow> (document_row \<Rightarrow> document_row) \<Rightarrow> db \<Rightarrow> document_row outcome" where
  [op_defs]: "documentRepo_update now i data s =
     or_missing (update_by docId i (\<lambda>d. (data d)\<lparr>docUpdatedAt := now\<rparr>) (documents s))
       (\<lambda>(row, rows) s. (Inr row, s\<lparr>documents := rows\<rparr>)) s"

definition documentRepo_rename :: "instant \<Rightarrow> uuid \<Rightarrow> string \<Rightarrow> db \<Rightarrow> document_meta outcome" where
  [op_defs]: "documentRepo_rename now i title s =
     await (documentRepo_update now i (\<lambda>d. d\<lparr>docTitle := title\<rparr>) s) (\<lambda>d s. (Inr (meta_of d), s))"

definition documentRepo_archive :: "instant \<Rightarrow> uuid \<Rightarrow> db \<Rightarrow> document_meta outcome" where
  [op_defs]: "documentRepo_archive now i s =
     await (documentRepo_update now i (\<lambda>d. d\<lparr>docStatus := DocArchived\<rparr>) s) (\<lambda>d s. (Inr (meta_of d), s))"

definition documentRepo_saveState :: "instant \<Rightarrow> uuid \<Rightarrow> string \<Rightarrow> string \<Rightarrow> db \<Rightarrow> unit outcome" where
  [op_defs]: "documentRepo_saveState now i bytes preview s =
     await (documentRepo_update now i (\<lambda>d. d\<lparr>docYjsState := Some bytes, docPreviewText := Some preview\<rparr>) s)
       (\<lambda>_ s. (Inr (), s))"

definition documentRepo_createSnapshot :: "snapshot_row \<Rightarrow> db \<Rightarrow> snapshot_row outcome" where
  [op_defs]: "documentRepo_createSnapshot r s =
     or_conflict (insert_row snapId r (snapshots s)) (\<lambda>rows s. (Inr r, s\<lparr>snapshots := rows\<rparr>)) s"

definition documentRepo_findSnapshots :: "uuid \<Rightarrow> db \<Rightarrow> snapshot_row list" where
  "documentRepo_findSnapshots doc s = order_desc snapCreatedAt (filter (\<lambda>r. snapDocumentId r = doc) (snapshots s))"

definition documentRepo_findSnapshotById :: "uuid \<Rightarrow> uuid \<Rightarrow> db \<Rightarrow> snapshot_row option" where
  "documentRepo_findSnapshotById i doc s = find (\<lambda>r. snapId r = i \<and> snapDocumentId r = doc) (snapshots s)"

section \<open>DocumentService\<close>

record create_document_dto =
  cdTitle :: "string option"
  cdParentCardId :: "uuid option"
  cdCardId :: "uuid option"

definition verifyCardInWorkspace :: "uuid \<Rightarrow> uuid \<Rightarrow> (db \<Rightarrow> 'a outcome) \<Rightarrow> db \<Rightarrow> 'a outcome" where
  "verifyCardInWorkspace card_id ws k s =
     (if documentRepo_cardExistsInWorkspace card_id ws s then k s else (Inl (EntityNotFound ''Card'' card_id), s))"

definition new_document :: "uuid \<Rightarrow> instant \<Rightarrow> uuid \<Rightarrow> create_document_dto \<Rightarrow> uuid option \<Rightarrow> uuid \<Rightarrow> document_row" where
  "new_document newId now ws dto card_id user =
     \<lparr>docId = newId, docWorkspaceId = ws, docTitle = (case cdTitle dto of None \<Rightarrow> ''Untitled'' | Some t \<Rightarrow> t),
      docYjsState = None, docPreviewText = None, docCreatedBy = user, docParentCardId = card_id,
      docStatus = DocActive, docCreatedAt = now, docUpdatedAt = now\<rparr>"

definition documentService_create ::
  "uuid \<Rightarrow> instant \<Rightarrow> uuid \<Rightarrow> create_document_dto \<Rightarrow> uuid \<Rightarrow> db \<Rightarrow> document_row outcome" where
  [op_defs]: "documentService_create newId now ws dto user =
     (let card_id = (if truthy (cdParentCardId dto) then cdParentCardId dto else cdCardId dto);
          write = (\<lambda>s.
            let board = (if truthy card_id then documentRepo_findBoardIdByCard (the card_id) s else None)
            in await (documentRepo_create (new_document newId now ws dto card_id user) s)
                 (\<lambda>d s. (Inr d, emit (DocumentCreated (docId d) ws board (docParentCardId d) (docTitle d) user) s)))
      in if truthy card_id then verifyCardInWorkspace (the card_id) ws write else write)"

definition documentService_findById :: "uuid \<Rightarrow> uuid option \<Rightarrow> db \<Rightarrow> error + document_meta" where
  "documentService_findById i ws s =
     (case documentRepo_findActiveById i s of
        None \<Rightarrow> Inl (EntityNotFound ''Document'' i)
      | Some d \<Rightarrow> if truthy ws \<and> dmWorkspaceId d \<noteq> the ws then Inl (EntityNotFound ''Document'' i) else Inr d)"

definition documentService_listInWorkspace ::
  "(string \<Rightarrow> string \<Rightarrow> bool) \<Rightarrow> listed_document cursor_seek \<Rightarrow> uuid \<Rightarrow> uuid option \<Rightarrow> nat option \<Rightarrow> string option \<Rightarrow> db \<Rightarrow>
   error + listed_document page" where
  "documentService_listInWorkspace matches after ws cursor limit search s =
     (let lim = (case limit of None \<Rightarrow> 20 | Some n \<Rightarrow> n);
          term = map_option js_trim search;
          rows = (if truthy term then Inr (documentRepo_searchPage matches ws (the term) cursor lim s)
                  else documentRepo_findPage after ws cursor lim s)
      in case rows of Inl e \<Rightarrow> Inl e | Inr rs \<Rightarrow> Inr (buildCursorPagination (\<lambda>d. dmId (fst d)) rs lim))"

definition documentService_listByCard :: "uuid \<Rightarrow> uuid \<Rightarrow> db \<Rightarrow> listed_document list outcome" where
  [op_defs]: "documentService_listByCard ws card_id =
     verifyCardInWorkspace card_id ws (\<lambda>s. (Inr (documentRepo_findByCard card_id s), s))"

definition documentService_listByBoard :: "uuid \<Rightarrow> uuid \<Rightarrow> db \<Rightarrow> listed_document list" where
  "documentService_listByBoard ws board s = documentRepo_findByBoard ws board s"

definition documentService_rename :: "instant \<Rightarrow> uuid \<Rightarrow> string \<Rightarrow> uuid \<Rightarrow> uuid option \<Rightarrow> db \<Rightarrow> document_meta outcome" where
  [op_defs]: "documentService_rename now i title user ws s =
     (case documentService_findById i ws s of
        Inl e \<Rightarrow> (Inl e, s)
      | Inr _ \<Rightarrow> await (documentRepo_rename now i title s)
          (\<lambda>updated s. (Inr updated, emit (DocumentRenamed i (dmTitle updated) user) s)))"

definition documentService_archive :: "instant \<Rightarrow> uuid \<Rightarrow> uuid \<Rightarrow> uuid option \<Rightarrow> db \<Rightarrow> document_meta outcome" where
  [op_defs]: "documentService_archive now i user ws s =
     (case documentService_findById i ws s of
        Inl e \<Rightarrow> (Inl e, s)
      | Inr document \<Rightarrow> await (documentRepo_archive now i s)
          (\<lambda>updated s. (Inr updated, emit (DocumentArchived i (dmWorkspaceId document) user) s)))"

section \<open>Facts\<close>

lemma find_active_document_iff:
  "documentRepo_findActiveById i s = Some m \<longleftrightarrow>
     (\<exists>d. find (\<lambda>d. docId d = i \<and> docStatus d = DocActive) (documents s) = Some d \<and> m = meta_of d)"
  by (auto simp: documentRepo_findActiveById_def)

lemma document_update_Inr:
  "documentRepo_update now i data s = (Inr d, s') \<longleftrightarrow>
     (\<exists>d0. find (\<lambda>d. docId d = i) (documents s) = Some d0 \<and> d = (data d0)\<lparr>docUpdatedAt := now\<rparr> \<and>
       s' = s\<lparr>documents := map (\<lambda>d. if docId d = i then (data d)\<lparr>docUpdatedAt := now\<rparr> else d) (documents s)\<rparr>)"
  by (auto simp: documentRepo_update_def or_missing_Inr_iff update_by_Some_iff)

lemma atomic_document_update [op_fail]: "atomic (documentRepo_update now i data)"
  by (auto simp: atomic_def documentRepo_update_def or_missing_def split: option.splits)

text \<open>A document can be attached to a card that was permanently deleted, and the board goes on listing it: the check
  and the board listing look at the card's archive flag only.\<close>

theorem deleted_card_takes_documents:
  "let s1 = snd (cardService_deletePermanently 1 ''b'' ''w'' ''a'' ''u'' sample_db);
       (r, s2) = documentService_create ''d'' 2 ''w'' \<lparr>cdTitle = None, cdParentCardId = Some ''a'', cdCardId = None\<rparr> ''u'' s1
   in cardRepo_findActiveById ''a'' None s1 = None \<and> \<not> isl r \<and>
      map (\<lambda>d. dmId (fst d)) (documentService_listByBoard ''w'' ''b'' s2) = [''d'']"
  by code_simp

end
