(* ===== verification/Document_Manager.thy ===== *)
theory Document_Manager
  imports Documents Redis_Sets
begin

text \<open>
  Collaborative documents in memory: \<open>DocumentManagerService\<close>
  (\<open>document/services/document-manager.service.ts\<close>) and \<open>SnapshotService\<close>
  (\<open>document/services/snapshot.service.ts\<close>). The CRDT library (Yjs) is the parameter \<open>yj\<close>: a document
  of type \<open>'d\<close>, updates and states as byte strings, an application that may throw. A thrown
  application leaves the document as it was. Loading is one step, because callers that find a load in
  flight share its promise; saving is split where it waits for the database. The encoders of the V2 wire
  format and of state vectors are arguments of the operations that use them.
\<close>

section \<open>The CRDT library\<close>

record 'd yjs =
  yEmpty :: 'd
  yApply :: "string \<Rightarrow> 'd \<Rightarrow> 'd option"
  yApplyV2 :: "string \<Rightarrow> 'd \<Rightarrow> 'd option"
  yEncode :: "'d \<Rightarrow> string option \<Rightarrow> string"
  yText :: "'d \<Rightarrow> string"
  ySetText :: "string \<Rightarrow> 'd \<Rightarrow> 'd"

text \<open>The first format is tried first, then the second.\<close>

definition apply_any :: "'d yjs \<Rightarrow> string \<Rightarrow> 'd \<Rightarrow> 'd option" where
  "apply_any yj u d = (case yApply yj u d of None \<Rightarrow> yApplyV2 yj u d | Some d' \<Rightarrow> Some d')"

definition hydrate :: "'d yjs \<Rightarrow> string option \<Rightarrow> 'd" where
  "hydrate yj bytes =
     (case bytes of
        None \<Rightarrow> yEmpty yj
      | Some b \<Rightarrow> if b = [] then yEmpty yj else (case apply_any yj b (yEmpty yj) of None \<Rightarrow> yEmpty yj | Some d \<Rightarrow> d))"

section \<open>State\<close>

record 'd active_document =
  adYdoc :: 'd
  adConnections :: "string list"
  adLastActivity :: instant
  adSaveTimeout :: "instant option"
  adDirty :: bool

type_synonym 'd manager = "'d active_document rhash"

definition SAVE_DEBOUNCE_MS :: instant where "SAVE_DEBOUNCE_MS = 5000"
definition IDLE_UNLOAD_MS :: instant where "IDLE_UNLOAD_MS = 300000"
definition PREVIEW_MAX_LENGTH :: nat where "PREVIEW_MAX_LENGTH = 20000"

text \<open>The state the database holds of an active document.\<close>

definition stored_state :: "uuid \<Rightarrow> db \<Rightarrow> string option" where
  "stored_state i s = Option.bind (documentRepo_findWithState i s) snd"

definition new_entry :: "'d yjs \<Rightarrow> instant \<Rightarrow> uuid \<Rightarrow> db \<Rightarrow> 'd active_document" where
  "new_entry yj now i s = \<lparr>adYdoc = hydrate yj (stored_state i s), adConnections = [], adLastActivity = now,
     adSaveTimeout = None, adDirty = False\<rparr>"

section \<open>DocumentManagerService\<close>

definition getOrLoad :: "'d yjs \<Rightarrow> instant \<Rightarrow> uuid \<Rightarrow> db \<Rightarrow> 'd manager \<Rightarrow> 'd manager" where
  "getOrLoad yj now i s m =
     (case hget m i of
        Some e \<Rightarrow> hset i (e\<lparr>adLastActivity := now\<rparr>) m
      | None \<Rightarrow> hset i (new_entry yj now i s) m)"

definition scheduleSave :: "instant \<Rightarrow> 'd active_document \<Rightarrow> 'd active_document" where
  "scheduleSave now e = e\<lparr>adSaveTimeout := Some (now + SAVE_DEBOUNCE_MS)\<rparr>"

text \<open>The update hook runs when a transaction changed the document.\<close>

definition on_update :: "instant \<Rightarrow> 'd \<Rightarrow> 'd active_document \<Rightarrow> 'd active_document" where
  "on_update now d e =
     (if d = adYdoc e then e else scheduleSave now (e\<lparr>adYdoc := d, adDirty := True, adLastActivity := now\<rparr>))"

definition applyUpdate :: "'d yjs \<Rightarrow> instant \<Rightarrow> uuid \<Rightarrow> string \<Rightarrow> 'd manager \<Rightarrow> 'd manager" where
  "applyUpdate yj now i u m =
     (case hget m i of
        None \<Rightarrow> m
      | Some e \<Rightarrow> (case apply_any yj u (adYdoc e) of None \<Rightarrow> m | Some d \<Rightarrow> hset i (on_update now d e) m))"

text \<open>A document that is not loaded makes these throw, which is \<open>None\<close>.\<close>

definition encodeDiff :: "'d yjs \<Rightarrow> uuid \<Rightarrow> string option \<Rightarrow> 'd manager \<Rightarrow> string option" where
  "encodeDiff yj i vector m = map_option (\<lambda>e. yEncode yj (adYdoc e) vector) (hget m i)"

definition getStateBytes :: "'d yjs \<Rightarrow> uuid \<Rightarrow> 'd manager \<Rightarrow> string option" where
  "getStateBytes yj i m = map_option (\<lambda>e. yEncode yj (adYdoc e) None) (hget m i)"

text \<open>The variants for the second wire format; an update that does not decode throws here.\<close>

definition getStateBytesV2 :: "('d \<Rightarrow> string option \<Rightarrow> string) \<Rightarrow> uuid \<Rightarrow> 'd manager \<Rightarrow> string option" where
  "getStateBytesV2 encodeV2 i m = map_option (\<lambda>e. encodeV2 (adYdoc e) None) (hget m i)"

definition encodeDiffV2 ::
  "('d \<Rightarrow> string option \<Rightarrow> string) \<Rightarrow> uuid \<Rightarrow> string option \<Rightarrow> 'd manager \<Rightarrow> string option" where
  "encodeDiffV2 encodeV2 i vector m = map_option (\<lambda>e. encodeV2 (adYdoc e) vector) (hget m i)"

definition applyUpdateV2 :: "'d yjs \<Rightarrow> instant \<Rightarrow> uuid \<Rightarrow> string \<Rightarrow> 'd manager \<Rightarrow> error + 'd manager" where
  "applyUpdateV2 yj now i u m =
     (case hget m i of
        None \<Rightarrow> Inr m
      | Some e \<Rightarrow>
          (case yApplyV2 yj u (adYdoc e) of
             None \<Rightarrow> Inl JsTypeError
           | Some d \<Rightarrow> Inr (hset i (on_update now d e) m)))"

definition encodeStateVector :: "('d \<Rightarrow> string) \<Rightarrow> uuid \<Rightarrow> 'd manager \<Rightarrow> string option" where
  "encodeStateVector vector i m = map_option (\<lambda>e. vector (adYdoc e)) (hget m i)"

definition isEmpty :: "'d yjs \<Rightarrow> uuid \<Rightarrow> 'd manager \<Rightarrow> bool option" where
  "isEmpty yj i m = map_option (\<lambda>e. length (yText yj (adYdoc e)) = 0) (hget m i)"

definition addConnection :: "uuid \<Rightarrow> string \<Rightarrow> 'd manager \<Rightarrow> 'd manager" where
  "addConnection i k m =
     (case hget m i of None \<Rightarrow> m | Some e \<Rightarrow> hset i (e\<lparr>adConnections := sadd k (adConnections e)\<rparr>) m)"

definition removeConnection :: "instant \<Rightarrow> uuid \<Rightarrow> string \<Rightarrow> 'd manager \<Rightarrow> 'd manager" where
  "removeConnection now i k m =
     (case hget m i of
        None \<Rightarrow> m
      | Some e \<Rightarrow> hset i (e\<lparr>adConnections := srem k (adConnections e), adLastActivity := now\<rparr>) m)"

definition connectionCount :: "uuid \<Rightarrow> 'd manager \<Rightarrow> nat" where
  "connectionCount i m = (case hget m i of None \<Rightarrow> 0 | Some e \<Rightarrow> length (adConnections e))"

definition extractPlainText :: "'d yjs \<Rightarrow> 'd \<Rightarrow> string" where
  "extractPlainText yj d = take PREVIEW_MAX_LENGTH (yText yj d)"

text \<open>
  A save reads the document, waits for the write, then marks the document clean. \<open>up\<close> says whether the
  database can be written.
\<close>

definition persist_begin :: "'d yjs \<Rightarrow> uuid \<Rightarrow> 'd manager \<Rightarrow> (string \<times> string) option" where
  "persist_begin yj i m =
     (case hget m i of
        None \<Rightarrow> None
      | Some e \<Rightarrow> if \<not> adDirty e then None else Some (yEncode yj (adYdoc e) None, extractPlainText yj (adYdoc e)))"

definition persist_write :: "bool \<Rightarrow> instant \<Rightarrow> uuid \<Rightarrow> string \<times> string \<Rightarrow> db \<Rightarrow> unit outcome" where
  "persist_write up now i data s =
     (if up then documentRepo_saveState now i (fst data) (snd data) s else (Inl (PrismaError ''P1001''), s))"

definition persist_end :: "instant \<Rightarrow> uuid \<Rightarrow> 'd manager \<Rightarrow> 'd manager" where
  "persist_end now i m =
     (case hget m i of None \<Rightarrow> m | Some e \<Rightarrow> hset i (e\<lparr>adDirty := False, adLastActivity := now\<rparr>) m)"

definition persistNow ::
  "'d yjs \<Rightarrow> bool \<Rightarrow> instant \<Rightarrow> uuid \<Rightarrow> 'd manager \<Rightarrow> db \<Rightarrow> (error + unit) \<times> 'd manager \<times> db" where
  "persistNow yj up now i m s =
     (case persist_begin yj i m of
        None \<Rightarrow> (Inr (), m, s)
      | Some data \<Rightarrow>
          (case persist_write up now i data s of
             (Inl e, s') \<Rightarrow> (Inl e, m, s')
           | (Inr _, s') \<Rightarrow> (Inr (), persist_end now i m, emit (DocumentSaved i now) s')))"

text \<open>The timer: a failed save is logged and the document stays dirty.\<close>

definition fire_save :: "'d yjs \<Rightarrow> bool \<Rightarrow> instant \<Rightarrow> uuid \<Rightarrow> 'd manager \<times> db \<Rightarrow> 'd manager \<times> db" where
  "fire_save yj up now i st =
     (case hget (fst st) i of
        None \<Rightarrow> st
      | Some e \<Rightarrow>
          (case adSaveTimeout e of
             None \<Rightarrow> st
           | Some t \<Rightarrow> if now < t then st
                        else snd (persistNow yj up now i (hset i (e\<lparr>adSaveTimeout := None\<rparr>) (fst st)) (snd st))))"

text \<open>The two loops over the open documents; an error leaves the loop, after the document was dropped.\<close>

fun unload_loop ::
  "'d yjs \<Rightarrow> (uuid \<Rightarrow> bool) \<Rightarrow> instant \<Rightarrow> uuid list \<Rightarrow> 'd manager \<Rightarrow> db \<Rightarrow> (error + unit) \<times> 'd manager \<times> db" where
  "unload_loop yj up now [] m s = (Inr (), m, s)"
| "unload_loop yj up now (i # ids) m s =
     (case hget m i of
        None \<Rightarrow> unload_loop yj up now ids m s
      | Some e \<Rightarrow>
          if adConnections e = [] \<and> adLastActivity e < now - IDLE_UNLOAD_MS
          then (case persistNow yj (up i) now i m s of
                  (Inl err, m', s') \<Rightarrow> (Inl err, hdel i m', s')
                | (Inr _, m', s') \<Rightarrow> unload_loop yj up now ids (hdel i m') s')
          else unload_loop yj up now ids m s)"

definition unloadIdle ::
  "'d yjs \<Rightarrow> (uuid \<Rightarrow> bool) \<Rightarrow> instant \<Rightarrow> 'd manager \<Rightarrow> db \<Rightarrow> (error + unit) \<times> 'd manager \<times> db" where
  "unloadIdle yj up now m s = unload_loop yj up now (map fst m) m s"

fun flush_loop ::
  "'d yjs \<Rightarrow> (uuid \<Rightarrow> bool) \<Rightarrow> instant \<Rightarrow> uuid list \<Rightarrow> 'd manager \<Rightarrow> db \<Rightarrow> (error + unit) \<times> 'd manager \<times> db" where
  "flush_loop yj up now [] m s = (Inr (), [], s)"
| "flush_loop yj up now (i # ids) m s =
     (case persistNow yj (up i) now i m s of
        (Inl err, m', s') \<Rightarrow> (Inl err, m', s')
      | (Inr _, m', s') \<Rightarrow> flush_loop yj up now ids m' s')"

definition onModuleDestroy ::
  "'d yjs \<Rightarrow> (uuid \<Rightarrow> bool) \<Rightarrow> instant \<Rightarrow> 'd manager \<Rightarrow> db \<Rightarrow> (error + unit) \<times> 'd manager \<times> db" where
  "onModuleDestroy yj up now m s = flush_loop yj up now (map fst m) m s"

text \<open>A snapshot that does not decode makes the restore throw.\<close>

definition replaceState ::
  "'d yjs \<Rightarrow> bool \<Rightarrow> instant \<Rightarrow> uuid \<Rightarrow> string \<Rightarrow> 'd manager \<Rightarrow> db \<Rightarrow> (error + unit) \<times> 'd manager \<times> db" where
  "replaceState yj up now i bytes m s =
     (case yApply yj bytes (yEmpty yj) of
        None \<Rightarrow> (Inl JsTypeError, m, s)
      | Some snapshotDoc \<Rightarrow>
          let m1 = getOrLoad yj now i s m
          in case hget m1 i of
               None \<Rightarrow> (Inr (), m1, s)
             | Some e \<Rightarrow>
                 persistNow yj up now i
                   (hset i ((on_update now (ySetText yj (yText yj snapshotDoc) (adYdoc e)) e)\<lparr>adDirty := True\<rparr>) m1) s)"

section \<open>SnapshotService\<close>

record create_snapshot_dto =
  csName :: "string option"
  csSnapshotName :: "string option"

definition snapshotService_create ::
  "'d yjs \<Rightarrow> uuid \<Rightarrow> instant \<Rightarrow> uuid \<Rightarrow> create_snapshot_dto \<Rightarrow> uuid \<Rightarrow> 'd manager \<Rightarrow> db \<Rightarrow>
   (error + snapshot_row) \<times> 'd manager \<times> db" where
  "snapshotService_create yj newId now i dto user m s =
     (case documentRepo_findActiveById i s of
        None \<Rightarrow> (Inl (EntityNotFound ''Document'' i), m, s)
      | Some _ \<Rightarrow>
          let m1 = getOrLoad yj now i s m
          in case (isEmpty yj i m1, getStateBytes yj i m1) of
               (Some False, Some bytes) \<Rightarrow>
                 (case documentRepo_createSnapshot \<lparr>snapId = newId, snapDocumentId = i, snapYjsState = bytes,
                    snapName = (case csName dto of None \<Rightarrow> csSnapshotName dto | Some n \<Rightarrow> Some n),
                    snapCreatedBy = user, snapCreatedAt = now\<rparr> s of
                    (Inl e, s') \<Rightarrow> (Inl e, m1, s')
                  | (Inr r, s') \<Rightarrow> (Inr r, m1, emit (DocumentSnapshotCreated i (snapId r) user) s'))
             | (Some True, _) \<Rightarrow> (Inl (BusinessRule ''DOCUMENT_EMPTY''), m1, s)
             | _ \<Rightarrow> (Inl JsTypeError, m1, s))"

definition snapshotService_list :: "uuid \<Rightarrow> db \<Rightarrow> snapshot_row list" where
  "snapshotService_list i s = documentRepo_findSnapshots i s"

definition snapshotService_restore ::
  "'d yjs \<Rightarrow> bool \<Rightarrow> instant \<Rightarrow> uuid \<Rightarrow> uuid \<Rightarrow> 'd manager \<Rightarrow> db \<Rightarrow> (error + document_meta option) \<times> 'd manager \<times> db" where
  "snapshotService_restore yj up now i snap m s =
     (case documentRepo_findSnapshotById snap i s of
        None \<Rightarrow> (Inl (EntityNotFound ''DocumentSnapshot'' snap), m, s)
      | Some r \<Rightarrow>
          (case replaceState yj up now i (snapYjsState r) m s of
             (Inl e, m', s') \<Rightarrow> (Inl e, m', s')
           | (Inr _, m', s') \<Rightarrow> (Inr (documentRepo_findActiveById i s'), m', s')))"

end
