(* ===== verification/Document_Gateway.thy ===== *)
theory Document_Gateway
  imports Board_Gateway Document_Manager
begin

text \<open>
  \<open>DocumentGateway\<close> (\<open>document/realtime/document.gateway.ts\<close>) and \<open>EditorPresenceService\<close>
  (\<open>document/realtime/editor-presence.service.ts\<close>): who is editing which document. The gateway shares
  the socket server, and so the sockets and the rate limiter, with \<open>BoardGateway\<close>. A binary payload is
  a string here and a payload that is not binary is \<open>None\<close>. The checks of a join and what follows
  them are two definitions, because the handler waits for the database in between.
\<close>

section \<open>EditorPresenceService\<close>

record editor_info =
  edUserId :: uuid
  edDisplayName :: string
  edAvatarUrl :: "string option"
  edColor :: string

type_synonym editors = "editor_info rhash rhash"

definition editors_of :: "uuid \<Rightarrow> editors \<Rightarrow> editor_info rhash" where
  "editors_of doc ed = (case hget ed doc of None \<Rightarrow> [] | Some m \<Rightarrow> m)"

definition addEditor :: "uuid \<Rightarrow> string \<Rightarrow> editor_info \<Rightarrow> editors \<Rightarrow> editors" where
  "addEditor doc k info ed = hset doc (hset k info (editors_of doc ed)) ed"

definition removeEditor :: "uuid \<Rightarrow> string \<Rightarrow> editors \<Rightarrow> editor_info option \<times> editors" where
  "removeEditor doc k ed =
     (case hget ed doc of
        None \<Rightarrow> (None, ed)
      | Some m \<Rightarrow> let m' = hdel k m
                  in (hget m k, if m' = [] then hdel doc ed else hset doc m' ed))"

definition getEditors :: "uuid \<Rightarrow> editors \<Rightarrow> editor_info list" where
  "getEditors doc ed = map snd (editors_of doc ed)"

definition assignColor :: "uuid \<Rightarrow> uuid \<Rightarrow> editors \<Rightarrow> string" where
  "assignColor doc user ed =
     (case find (\<lambda>info. edUserId info = user) (getEditors doc ed) of
        Some info \<Rightarrow> edColor info
      | None \<Rightarrow> assignCollaboratorColor user (map edColor (getEditors doc ed)))"

section \<open>DocumentGateway\<close>

text \<open>What the two gateways and the document manager hold in memory.\<close>

record 'd desk =
  dkHub :: hub
  dkManager :: "'d manager"
  dkEditors :: editors

definition on_hub :: "(hub \<Rightarrow> hub) \<Rightarrow> 'd desk \<Rightarrow> 'd desk" where
  "on_hub f dk = dk\<lparr>dkHub := f (dkHub dk)\<rparr>"

definition wire_editor :: "editor_info \<Rightarrow> (string \<times> wire) list" where
  "wire_editor e = [(''userId'', WString (edUserId e)), (''displayName'', WString (edDisplayName e)),
     (''avatarUrl'', wire_opt (edAvatarUrl e)), (''color'', WString (edColor e))]"

definition leaveDocument :: "instant \<Rightarrow> string \<Rightarrow> uuid \<Rightarrow> 'd desk \<Rightarrow> 'd desk" where
  "leaveDocument now k doc dk =
     (let (removed, ed) = removeEditor doc k (dkEditors dk);
          h1 = (case removed of
                  None \<Rightarrow> dkHub dk
                | Some info \<Rightarrow> emit_others k (document_room doc) ''doc:editor-left'' (wire_editor info) (dkHub dk));
          h2 = set_socket k (\<lambda>x. if skDocument x = Some doc then x\<lparr>skDocument := None\<rparr> else x) h1
      in dk\<lparr>dkManager := removeConnection now doc k (dkManager dk), dkEditors := ed,
            dkHub := leave_room k (document_room doc) h2\<rparr>)"

text \<open>The checks before a join: the error's code, if any.\<close>

definition join_check :: "uuid \<Rightarrow> uuid \<Rightarrow> claims \<Rightarrow> db \<Rightarrow> string option" where
  "join_check doc ws user s =
     (case documentService_findById doc (Some ws) s of
        Inl _ \<Rightarrow> Some ''DOCUMENT_NOT_FOUND''
      | Inr _ \<Rightarrow> if \<not> workspaceService_isUserMember ws (clSub user) s then Some ''DOCUMENT_ACCESS_DENIED'' else None)"

definition editor_of :: "uuid \<Rightarrow> claims \<Rightarrow> editors \<Rightarrow> editor_info" where
  "editor_of doc user ed = \<lparr>edUserId = clSub user, edDisplayName = clDisplayName user, edAvatarUrl = clAvatarUrl user,
     edColor = assignColor doc (clSub user) ed\<rparr>"

definition enterDocument ::
  "'d yjs \<Rightarrow> instant \<Rightarrow> string \<Rightarrow> claims \<Rightarrow> uuid option \<Rightarrow> uuid \<Rightarrow> string option \<Rightarrow> db \<Rightarrow> 'd desk \<Rightarrow> 'd desk" where
  "enterDocument yj now k user current doc vector s dk =
     (let dk1 = (if truthy current \<and> current \<noteq> Some doc then leaveDocument now k (the current) dk else dk);
          m = addConnection doc k (getOrLoad yj now doc s (dkManager dk1));
          info = editor_of doc user (dkEditors dk1);
          ed = addEditor doc k info (dkEditors dk1);
          h1 = set_socket k (\<lambda>x. x\<lparr>skDocument := Some doc\<rparr>) (join_room k (document_room doc) (dkHub dk1));
          h2 = emit_others k (document_room doc) ''doc:editor-joined'' (wire_editor info) h1
      in dk1\<lparr>dkManager := m, dkEditors := ed, dkHub :=
           (case encodeDiff yj doc vector m of
              None \<Rightarrow> ws_error now k ''INTERNAL_ERROR'' h2
            | Some bytes \<Rightarrow> emit_client k ''doc:joined'' [(''documentId'', WString doc), (''state'', WString bytes),
                (''editors'', WArray (map (\<lambda>e. WObject (wire_editor e)) (getEditors doc ed)))] h2)\<rparr>)"

definition docGateway_handleJoin ::
  "'d yjs \<Rightarrow> instant \<Rightarrow> string \<Rightarrow> claims \<Rightarrow> uuid option \<Rightarrow> uuid \<Rightarrow> uuid \<Rightarrow> string option \<Rightarrow> db \<Rightarrow> 'd desk \<Rightarrow> 'd desk" where
  "docGateway_handleJoin yj now k user current doc ws vector s dk =
     (case join_check doc ws user s of
        Some ec \<Rightarrow> on_hub (ws_error now k ec) dk
      | None \<Rightarrow> enterDocument yj now k user current doc vector s dk)"

definition docGateway_handleUpdate ::
  "'d yjs \<Rightarrow> instant \<Rightarrow> string \<Rightarrow> uuid \<Rightarrow> string option \<Rightarrow> db \<Rightarrow> 'd desk \<Rightarrow> 'd desk" where
  "docGateway_handleUpdate yj now k doc update s dk =
     (case update of
        None \<Rightarrow> on_hub (ws_error now k ''INVALID_PAYLOAD'') dk
      | Some u \<Rightarrow> on_hub (emit_others k (document_room doc) ''doc:update'' [(''documentId'', WString doc), (''update'', WString u)])
          (dk\<lparr>dkManager := applyUpdate yj now doc u (getOrLoad yj now doc s (dkManager dk))\<rparr>))"

definition docGateway_handleAwareness :: "string \<Rightarrow> uuid \<Rightarrow> wire \<Rightarrow> 'd desk \<Rightarrow> 'd desk" where
  "docGateway_handleAwareness k doc data =
     on_hub (emit_others k (document_room doc) ''doc:awareness'' [(''documentId'', WString doc), (''data'', data)])"

definition docGateway_handleDisconnect :: "instant \<Rightarrow> string \<Rightarrow> 'd desk \<Rightarrow> 'd desk" where
  "docGateway_handleDisconnect now k dk =
     (case Option.bind (find_socket k (dkHub dk)) skDocument of
        None \<Rightarrow> dk
      | Some doc \<Rightarrow> if doc = [] then dk else leaveDocument now k doc dk)"

text \<open>The listener of the manager's \<open>document.saved\<close> event.\<close>

definition handleDocumentSaved :: "'d yjs \<Rightarrow> uuid \<Rightarrow> instant \<Rightarrow> 'd desk \<Rightarrow> 'd desk" where
  "handleDocumentSaved yj doc savedAt dk =
     on_hub (\<lambda>h. emit_room (document_room doc) ''doc:saved'' [(''documentId'', WString doc), (''savedAt'', WInstant savedAt)]
       (case encodeDiff yj doc None (dkManager dk) of
          None \<Rightarrow> h
        | Some bytes \<Rightarrow> emit_room (document_room doc) ''doc:update''
            [(''documentId'', WString doc), (''update'', WString bytes)] h)) dk"

section \<open>The pipeline of a message\<close>

datatype doc_message =
    DocJoin uuid uuid "string option" | DocUpdate uuid "string option" | DocAwareness uuid wire | DocLeave uuid

definition DOC_JOINS :: rate_limit where
  "DOC_JOINS = \<lparr>rlCategory = ''join'', rlLimit = 10, rlWindowMs = 60000, rlSilent = False\<rparr>"

fun doc_limit :: "doc_message \<Rightarrow> rate_limit option" where
  "doc_limit (DocJoin _ _ _) = Some DOC_JOINS" | "doc_limit (DocUpdate _ _) = Some DOC_UPDATE"
| "doc_limit (DocAwareness _ _) = Some DOC_AWARENESS" | "doc_limit (DocLeave _) = None"

fun valid_doc_message :: "(string \<Rightarrow> bool) \<Rightarrow> doc_message \<Rightarrow> bool" where
  "valid_doc_message is_uuid (DocJoin d w _) \<longleftrightarrow> is_uuid d \<and> is_uuid w"
| "valid_doc_message is_uuid (DocUpdate d _) \<longleftrightarrow> is_uuid d"
| "valid_doc_message is_uuid (DocAwareness d _) \<longleftrightarrow> is_uuid d"
| "valid_doc_message is_uuid (DocLeave d) \<longleftrightarrow> is_uuid d"

fun doc_handle :: "'d yjs \<Rightarrow> instant \<Rightarrow> socket \<Rightarrow> claims \<Rightarrow> doc_message \<Rightarrow> db \<Rightarrow> 'd desk \<Rightarrow> 'd desk" where
  "doc_handle yj now x user (DocJoin d w v) s dk = docGateway_handleJoin yj now (skId x) user (skDocument x) d w v s dk"
| "doc_handle yj now x user (DocUpdate d u) s dk = docGateway_handleUpdate yj now (skId x) d u s dk"
| "doc_handle yj now x user (DocAwareness d a) s dk = docGateway_handleAwareness (skId x) d a dk"
| "doc_handle yj now x user (DocLeave d) s dk = leaveDocument now (skId x) d dk"

definition doc_dispatch ::
  "'d yjs \<Rightarrow> (string \<Rightarrow> bool) \<Rightarrow> instant \<Rightarrow> string \<Rightarrow> db \<Rightarrow> string \<Rightarrow> doc_message \<Rightarrow> 'd desk \<Rightarrow> 'd desk" where
  "doc_dispatch yj is_uuid now suffix s k m dk =
     (case find_socket k (dkHub dk) of
        None \<Rightarrow> dk
      | Some x \<Rightarrow>
          case wsAuthGuard_canActivate now (map_option socket_user_of (skUser x)) s of
            Some ec \<Rightarrow> on_hub (ws_error now k ec) dk
          | None \<Rightarrow>
              let (answer, L) = wsRateLimitGuard_canActivate now suffix (doc_limit m) (map_option clSub (skUser x)) (hubLimiter (dkHub dk));
                  dk1 = on_hub (\<lambda>h. h\<lparr>hubLimiter := L\<rparr>) dk
              in case answer of
                   Inl ec \<Rightarrow> on_hub (ws_error now k ec) dk1
                 | Inr False \<Rightarrow> on_hub (ws_error now k ''INTERNAL_ERROR'') dk1
                 | Inr True \<Rightarrow>
                     if \<not> valid_doc_message is_uuid m then on_hub (ws_error now k ''INVALID_PAYLOAD'') dk1
                     else (case skUser x of None \<Rightarrow> dk1 | Some c \<Rightarrow> doc_handle yj now x c m s dk1))"

text \<open>A closed socket is told to both gateways.\<close>

definition disconnect :: "instant \<Rightarrow> string \<Rightarrow> 'd desk \<Rightarrow> 'd desk" where
  "disconnect now k dk = on_hub (handleDisconnect k) (docGateway_handleDisconnect now k dk)"

end
