(* ===== verification/Document_Desk.thy ===== *)
theory Document_Desk
  imports Document_Gateway
begin

text \<open>
  Who is editing what: the sockets' session data, the editor lists of \<open>EditorPresenceService\<close> and the
  connection sets of the document manager are three records of one relation between documents and
  sockets. \<open>seats\<close>, \<open>listed\<close> and \<open>linked\<close> read it from each of them; every step of either gateway,
  of the save timers and of the idle sweep keeps them equal.
\<close>

section \<open>The three views\<close>

definition seats :: "hub \<Rightarrow> (uuid \<times> string) set" where
  "seats h = {(d, k). \<exists>x\<in>set (hubSockets h). skId x = k \<and> skDocument x = Some d}"

definition editor_at :: "editors \<Rightarrow> uuid \<Rightarrow> string \<Rightarrow> editor_info option" where
  "editor_at ed d k = hget (editors_of d ed) k"

definition listed :: "editors \<Rightarrow> (uuid \<times> string) set" where
  "listed ed = {(d, k). editor_at ed d k \<noteq> None}"

definition linked :: "'d manager \<Rightarrow> (uuid \<times> string) set" where
  "linked m = {(d, k). \<exists>e. hget m d = Some e \<and> k \<in> set (adConnections e)}"

lemma linked_iff: "(d, k) \<in> linked m \<longleftrightarrow> (\<exists>e. hget m d = Some e \<and> k \<in> set (adConnections e))"
  by (simp add: linked_def)

lemma linked_same:
  assumes "\<And>d k. (\<exists>e. hget m' d = Some e \<and> k \<in> set (adConnections e)) \<longleftrightarrow> (\<exists>e. hget m d = Some e \<and> k \<in> set (adConnections e))"
  shows "linked m' = linked m"
  using assms by (simp add: linked_def)

lemma linked_ops [simp]:
  "linked (getOrLoad yj now i s m) = linked m"
  "linked (applyUpdate yj now i u m) = linked m"
  "linked (persist_end now i m) = linked m"
  by (rule linked_same; auto simp: getOrLoad_def applyUpdate_def on_update_def scheduleSave_def persist_end_def
      new_entry_def store_simps split: option.split)+

lemma linked_remove [simp]: "linked (removeConnection now d k m) = linked m - {(d, k)}"
  by (auto simp: linked_iff removeConnection_def store_simps split: option.splits if_splits)

lemma getOrLoad_loads: "\<exists>e. hget (getOrLoad yj now d s m) d = Some e"
  by (auto simp: getOrLoad_def store_simps split: option.split)

lemma linked_add:
  "hget m d = Some e \<Longrightarrow> linked (addConnection d k m) = insert (d, k) (linked m)"
  by (auto simp: linked_iff addConnection_def store_simps split: if_splits)

lemma linked_persist: "persistNow yj up now i m s = (r, m', s') \<Longrightarrow> linked m' = linked m"
  by (auto simp: persistNow_def split: option.splits prod.splits sum.splits)

lemma linked_fire [simp]: "linked (fst (fire_save yj up now i st)) = linked (fst st)"
proof (cases "fire_save yj up now i st = st")
  case False
  then obtain e where e: "hget (fst st) i = Some e" and
    run: "fire_save yj up now i st = snd (persistNow yj up now i (hset i (e\<lparr>adSaveTimeout := None\<rparr>) (fst st)) (snd st))"
    by (auto simp: fire_save_def split: option.splits if_splits)
  have "linked (hset i (e\<lparr>adSaveTimeout := None\<rparr>) (fst st)) = linked (fst st)"
    using e by (intro linked_same) (auto simp: store_simps)
  then show ?thesis by (metis run prod.collapse linked_persist)
qed simp

lemma linked_drop: "hget m i = Some e \<Longrightarrow> adConnections e = [] \<Longrightarrow> linked (hdel i m) = linked m"
  by (intro linked_same) (auto simp: store_simps)

lemma persist_connections:
  assumes "persistNow yj up now i m s = (r, m', s')" "hget m i = Some e"
  obtains e' where "hget m' i = Some e'" "adConnections e' = adConnections e"
  using assms
  by (auto simp: persistNow_def persist_end_def store_simps split: option.splits prod.splits sum.splits)

lemma linked_unload: "unload_loop yj up now ids m s = (r, m', s') \<Longrightarrow> linked m' = linked m"
proof (induction ids arbitrary: m s)
  case (Cons i ids)
  show ?case
  proof (cases "\<exists>e. hget m i = Some e \<and> adConnections e = [] \<and> adLastActivity e < now - IDLE_UNLOAD_MS")
    case False
    with Cons.prems have "unload_loop yj up now ids m s = (r, m', s')" by (auto split: option.splits if_splits)
    with Cons.IH show ?thesis by blast
  next
    case True
    then obtain e where e: "hget m i = Some e" "adConnections e = []" "adLastActivity e < now - IDLE_UNLOAD_MS" by blast
    obtain q m1 s1 where run: "persistNow yj (up i) now i m s = (q, m1, s1)" by (metis surj_pair)
    from persist_connections [OF run e(1)] e(2) linked_drop have drop: "linked (hdel i m1) = linked m1" by metis
    show ?thesis
    proof (cases q)
      case (Inl err)
      with Cons.prems e run have "m' = hdel i m1" by simp
      with drop linked_persist [OF run] show ?thesis by simp
    next
      case (Inr u)
      with Cons.prems e run have "unload_loop yj up now ids (hdel i m1) s1 = (r, m', s')" by simp
      from Cons.IH [OF this] drop linked_persist [OF run] show ?thesis by simp
    qed
  qed
qed simp

lemma editor_at_add: "editor_at (addEditor d k info ed) d' k' = (if d' = d \<and> k' = k then Some info else editor_at ed d' k')"
  by (auto simp: editor_at_def addEditor_def editors_of_def store_simps split: option.split)

lemma listed_add [simp]: "listed (addEditor d k info ed) = insert (d, k) (listed ed)"
  by (auto simp: listed_def editor_at_add)

lemma hget_Nil [simp]: "hget [] k = None"
  by (simp add: hget_def)

lemma editor_at_remove:
  "editor_at (snd (removeEditor d k ed)) d' k' = (if d' = d \<and> k' = k then None else editor_at ed d' k')"
proof (cases "hget ed d")
  case None
  then show ?thesis by (simp add: editor_at_def removeEditor_def editors_of_def)
next
  case (Some m)
  have "hget (hdel k m) k' = (if k' = k then None else hget m k')" by (simp add: store_simps)
  then have "hdel k m = [] \<Longrightarrow> k' \<noteq> k \<Longrightarrow> hget m k' = None" by simp
  then show ?thesis using Some by (auto simp: editor_at_def removeEditor_def editors_of_def store_simps Let_def)
qed

lemma listed_remove [simp]: "listed (snd (removeEditor d k ed)) = listed ed - {(d, k)}"
  by (auto simp: listed_def editor_at_remove)

section \<open>Sockets\<close>

definition seat_ok :: "socket \<Rightarrow> bool" where
  "seat_ok x \<longleftrightarrow> skUser x \<noteq> None \<and> skDocument x \<noteq> Some [] \<and>
     (\<forall>d. document_room d \<in> set (skRooms x) \<longleftrightarrow> skDocument x = Some d)"

definition desk_ok :: "'d desk \<Rightarrow> bool" where
  "desk_ok dk \<longleftrightarrow> distinct (map skId (hubSockets (dkHub dk))) \<and> (\<forall>x\<in>set (hubSockets (dkHub dk)). seat_ok x) \<and>
     listed (dkEditors dk) = seats (dkHub dk) \<and> linked (dkManager dk) = seats (dkHub dk) \<and>
     (\<forall>d k info. editor_at (dkEditors dk) d k = Some info \<longrightarrow>
        (\<forall>x\<in>set (hubSockets (dkHub dk)). skId x = k \<longrightarrow> map_option clSub (skUser x) = Some (edUserId info)))"

text \<open>The part of a socket that matters here; the board gateway does not touch it.\<close>

definition doc_view :: "socket \<Rightarrow> string \<times> claims option \<times> uuid option \<times> uuid set" where
  "doc_view x = (skId x, skUser x, skDocument x, {d. document_room d \<in> set (skRooms x)})"

definition doc_views :: "hub \<Rightarrow> (string \<times> claims option \<times> uuid option \<times> uuid set) list" where
  "doc_views h = map doc_view (hubSockets h)"

lemma doc_views_hub:
  assumes "doc_views h' = doc_views h"
  shows "map skId (hubSockets h') = map skId (hubSockets h)" "seats h' = seats h"
    "(\<forall>x\<in>set (hubSockets h'). seat_ok x) = (\<forall>x\<in>set (hubSockets h). seat_ok x)"
    "(\<forall>x\<in>set (hubSockets h'). skId x = k \<longrightarrow> P (skUser x)) = (\<forall>x\<in>set (hubSockets h). skId x = k \<longrightarrow> P (skUser x))"
proof -
  have ids: "map skId (hubSockets g) = map fst (doc_views g)" for g by (simp add: doc_views_def doc_view_def comp_def)
  then show "map skId (hubSockets h') = map skId (hubSockets h)" using assms by simp
  have seats: "seats g = {(d, k). \<exists>v\<in>set (doc_views g). fst v = k \<and> fst (snd (snd v)) = Some d}" for g
    by (auto simp: seats_def doc_views_def doc_view_def)
  then show "seats h' = seats h" using assms by simp
  have ok: "(\<forall>x\<in>set (hubSockets g). seat_ok x) = (\<forall>v\<in>set (doc_views g). fst (snd v) \<noteq> None \<and> fst (snd (snd v)) \<noteq> Some [] \<and>
      (\<forall>d. d \<in> snd (snd (snd v)) \<longleftrightarrow> fst (snd (snd v)) = Some d))" for g
    by (simp add: doc_views_def doc_view_def seat_ok_def)
  then show "(\<forall>x\<in>set (hubSockets h'). seat_ok x) = (\<forall>x\<in>set (hubSockets h). seat_ok x)" using assms by simp
  have us: "(\<forall>x\<in>set (hubSockets g). skId x = k \<longrightarrow> P (skUser x)) = (\<forall>v\<in>set (doc_views g). fst v = k \<longrightarrow> P (fst (snd v)))" for g
    by (simp add: doc_views_def doc_view_def)
  then show "(\<forall>x\<in>set (hubSockets h'). skId x = k \<longrightarrow> P (skUser x)) = (\<forall>x\<in>set (hubSockets h). skId x = k \<longrightarrow> P (skUser x))"
    using assms by simp
qed

lemma desk_ok_hub:
  assumes "desk_ok dk" "doc_views (dkHub dk') = doc_views (dkHub dk)" "linked (dkManager dk') = linked (dkManager dk)"
    and "dkEditors dk' = dkEditors dk"
  shows "desk_ok dk'"
  using assms(1) unfolding desk_ok_def
  by (simp only: doc_views_hub(1-3) [OF assms(2)] assms(3,4)
      doc_views_hub(4) [OF assms(2), of _ "\<lambda>u. map_option clSub u = Some (edUserId _)"]) blast

lemma doc_views_core: "hub_core h' = hub_core h \<Longrightarrow> doc_views h' = doc_views h"
  by (simp add: doc_views_def core_proj)

lemma doc_views_at:
  assumes "fst (hub_core h') = at_socket k f (fst (hub_core h))" "\<And>x. doc_view (f x) = doc_view x"
  shows "doc_views h' = doc_views h"
  using assms by (simp add: doc_views_def core_proj at_socket_def)

lemma board_moves_view [simp]:
  "doc_view (left_board b x) = doc_view x" "doc_view (joined_board b x) = doc_view x"
  "doc_view (left_workspace w x) = doc_view x" "doc_view (joined_workspace q w x) = doc_view x"
  by (auto simp: doc_view_def left_board_def joined_board_def left_workspace_def joined_workspace_def)

lemma dispatch_views: "doc_views (dispatch is_uuid now suffix s k m h) = doc_views h"
proof -
  have same: "doc_views (handle now x c m g) = doc_views g" for x c g
  proof (cases m)
    case (WorkspaceJoin w)
    show ?thesis by (simp add: WorkspaceJoin, rule doc_views_at [where f = "joined_workspace (skWorkspace x) w"])
      (simp_all add: core_workspace_join core_proj)
  next
    case (WorkspaceLeave w)
    show ?thesis by (simp add: WorkspaceLeave, rule doc_views_at [where f = "left_workspace w"])
      (simp_all add: core_leave_workspace core_proj)
  next
    case (BoardLeave b)
    show ?thesis by (simp add: BoardLeave, rule doc_views_at [where f = "left_board b"])
      (simp_all add: core_leave_board core_proj)
  next
    case (BoardJoin b)
    let ?g = "if truthy (skBoard x) \<and> skBoard x \<noteq> Some b then leaveBoardRoom (skId x) (Some c) (the (skBoard x)) g else g"
    have "doc_views (handleBoardJoin now (skId x) c (skBoard x) b g) = doc_views ?g"
      by (rule doc_views_at [where f = "joined_board b"]) (simp_all add: core_board_join Let_def core_proj)
    moreover have "doc_views (leaveBoardRoom (skId x) (Some c) b' g) = doc_views g" for b'
      by (rule doc_views_at [where f = "left_board b'"]) (simp_all add: core_leave_board core_proj)
    ultimately show ?thesis by (simp add: BoardJoin)
  qed (simp_all add: doc_views_def handleHeartbeat_def handleCursor_def Let_def emit_others_def)
  show ?thesis
    using dispatch_cases [of is_uuid now suffix s k m h] same
    by (metis doc_views_core limiter_sockets(2) doc_views_def)
qed

section \<open>Taking and leaving a seat\<close>

definition left_doc :: "uuid \<Rightarrow> socket \<Rightarrow> socket" where
  "left_doc d x = x\<lparr>skDocument := (if skDocument x = Some d then None else skDocument x),
     skRooms := srem (document_room d) (skRooms x)\<rparr>"

definition joined_doc :: "uuid \<Rightarrow> socket \<Rightarrow> socket" where
  "joined_doc d x = x\<lparr>skRooms := sadd (document_room d) (skRooms x), skDocument := Some d\<rparr>"

lemma doc_moves [simp]:
  "skId (left_doc d x) = skId x" "skUser (left_doc d x) = skUser x"
  "skDocument (left_doc d x) = (if skDocument x = Some d then None else skDocument x)"
  "skId (joined_doc d x) = skId x" "skUser (joined_doc d x) = skUser x" "skDocument (joined_doc d x) = Some d"
  by (simp_all add: left_doc_def joined_doc_def)

lemma left_doc_ok: "seat_ok x \<Longrightarrow> seat_ok (left_doc d x)"
proof -
  assume ok: "seat_ok x"
  then have "document_room d' \<in> set (skRooms (left_doc d x)) \<longleftrightarrow> skDocument (left_doc d x) = Some d'" for d'
    by (cases "d' = d") (simp_all add: left_doc_def seat_ok_def)
  moreover have "skUser (left_doc d x) \<noteq> None" "skDocument (left_doc d x) \<noteq> Some []" using ok by (simp_all add: seat_ok_def)
  ultimately show ?thesis unfolding seat_ok_def by blast
qed

lemma joined_doc_ok: "seat_ok x \<Longrightarrow> skDocument x \<in> {None, Some d} \<Longrightarrow> d \<noteq> [] \<Longrightarrow> seat_ok (joined_doc d x)"
proof -
  assume ok: "seat_ok x" "skDocument x \<in> {None, Some d}" "d \<noteq> []"
  have "document_room d' \<in> set (skRooms (joined_doc d x)) \<longleftrightarrow> skDocument (joined_doc d x) = Some d'" for d'
  proof -
    have "document_room d' \<in> set (skRooms x) \<longleftrightarrow> skDocument x = Some d'" using ok(1) unfolding seat_ok_def by blast
    with ok(2) show ?thesis by (auto simp: joined_doc_def)
  qed
  moreover have "skUser (joined_doc d x) \<noteq> None" "skDocument (joined_doc d x) \<noteq> Some []" using ok by (simp_all add: seat_ok_def)
  ultimately show ?thesis unfolding seat_ok_def by blast
qed

lemma leave_parts [simp]:
  "hubSockets (dkHub (leaveDocument now k d dk)) = at_socket k (left_doc d) (hubSockets (dkHub dk))"
  "dkManager (leaveDocument now k d dk) = removeConnection now d k (dkManager dk)"
  "dkEditors (leaveDocument now k d dk) = snd (removeEditor d k (dkEditors dk))"
proof -
  have f: "(\<lambda>x. (if skDocument x = Some d then x\<lparr>skDocument := None\<rparr> else x)
      \<lparr>skRooms := srem (document_room d) (skRooms (if skDocument x = Some d then x\<lparr>skDocument := None\<rparr> else x))\<rparr>) = left_doc d"
  proof
    fix x :: socket
    show "(if skDocument x = Some d then x\<lparr>skDocument := None\<rparr> else x)
        \<lparr>skRooms := srem (document_room d) (skRooms (if skDocument x = Some d then x\<lparr>skDocument := None\<rparr> else x))\<rparr> = left_doc d x"
      by (cases x) (simp add: left_doc_def)
  qed
  show "hubSockets (dkHub (leaveDocument now k d dk)) = at_socket k (left_doc d) (hubSockets (dkHub dk))"
    by (simp add: leaveDocument_def Let_def case_prod_beta core_proj leave_room_def at_socket_twice f split: option.split)
qed (simp_all add: leaveDocument_def Let_def case_prod_beta)

lemma seats_iff: "(d, k) \<in> seats h \<longleftrightarrow> (\<exists>x\<in>set (hubSockets h). skId x = k \<and> skDocument x = Some d)"
  by (simp add: seats_def)

lemma seats_at:
  assumes "hubSockets h' = at_socket k f (hubSockets h)" "\<And>x. skId (f x) = skId x"
  shows "(d', k') \<in> seats h' \<longleftrightarrow>
    (if k' = k then \<exists>x\<in>set (hubSockets h). skId x = k \<and> skDocument (f x) = Some d' else (d', k') \<in> seats h)"
proof -
  have "(d', k') \<in> seats h' \<longleftrightarrow> (\<exists>x\<in>set (hubSockets h). skId (if skId x = k then f x else x) = k' \<and>
      skDocument (if skId x = k then f x else x) = Some d')"
    by (simp only: seats_iff assms(1) at_socket_def set_map bex_simps)
  also have "\<dots> \<longleftrightarrow> (\<exists>x\<in>set (hubSockets h). skId x = k' \<and> skDocument (if k' = k then f x else x) = Some d')"
    by (rule bex_cong) (auto simp: assms(2))
  finally show ?thesis by (simp add: seats_iff)
qed

lemma left_seat: "skDocument (left_doc d x) = Some d' \<longleftrightarrow> skDocument x = Some d' \<and> d' \<noteq> d"
  by auto

lemma at_socket_all:
  "\<forall>x\<in>set xs. P x \<Longrightarrow> (\<And>x. x \<in> set xs \<Longrightarrow> skId x = k \<Longrightarrow> P (f x)) \<Longrightarrow> \<forall>x\<in>set (at_socket k f xs). P x"
  by (auto simp: at_socket_def)

lemma seats_left:
  assumes "hubSockets h' = at_socket k (left_doc d) (hubSockets h)"
  shows "seats h' = seats h - {(d, k)}"
proof -
  have "(d', k') \<in> seats h' \<longleftrightarrow> (d', k') \<in> seats h - {(d, k)}" for d' k'
    unfolding seats_at [OF assms doc_moves(1)] left_seat unfolding seats_iff Diff_iff by auto
  then show ?thesis by auto
qed

lemma seats_joined:
  assumes "hubSockets h' = at_socket k (joined_doc d) (hubSockets h)" "k \<in> skId ` set (hubSockets h)"
    and "\<And>x. x \<in> set (hubSockets h) \<Longrightarrow> skId x = k \<Longrightarrow> skDocument x \<in> {None, Some d}"
  shows "seats h' = insert (d, k) (seats h)"
proof -
  have "(d', k') \<in> seats h' \<longleftrightarrow> (d', k') \<in> insert (d, k) (seats h)" for d' k'
  proof (cases "k' = k")
    case True
    have "(d', k) \<in> seats h \<Longrightarrow> d' = d" using assms(3) unfolding seats_iff by fastforce
    with True assms(2) show ?thesis unfolding seats_at [OF assms(1) doc_moves(4)] by auto
  next
    case False
    then show ?thesis unfolding seats_at [OF assms(1) doc_moves(4)] by simp
  qed
  then show ?thesis by auto
qed

lemma leave_desk_ok:
  assumes "desk_ok dk"
  shows "desk_ok (leaveDocument now k d dk)"
proof -
  have sk: "hubSockets (dkHub (leaveDocument now k d dk)) = at_socket k (left_doc d) (hubSockets (dkHub dk))" by simp
  have seats: "seats (dkHub (leaveDocument now k d dk)) = seats (dkHub dk) - {(d, k)}" by (rule seats_left) simp
  have "distinct (map skId (hubSockets (dkHub dk)))" "\<forall>x\<in>set (hubSockets (dkHub dk)). seat_ok x"
    using assms by (simp_all add: desk_ok_def)
  then have socks: "distinct (map skId (at_socket k (left_doc d) (hubSockets (dkHub dk))))"
    "\<forall>x\<in>set (at_socket k (left_doc d) (hubSockets (dkHub dk))). seat_ok x"
    by (simp_all, auto simp: at_socket_def left_doc_ok)
  moreover have "\<forall>x\<in>set (at_socket k (left_doc d) (hubSockets (dkHub dk))). skId x = k' \<longrightarrow>
      map_option clSub (skUser x) = Some (edUserId info)"
    if "editor_at (snd (removeEditor d k (dkEditors dk))) d' k' = Some info" for d' k' info
    using assms that by (auto simp: desk_ok_def editor_at_remove at_socket_def split: if_splits)
  ultimately show ?thesis using assms unfolding desk_ok_def sk seats by simp
qed

lemma enter_parts:
  "hubSockets (dkHub (enterDocument yj now k user current d v s dk)) =
     at_socket k (joined_doc d) (hubSockets (dkHub (if truthy current \<and> current \<noteq> Some d then leaveDocument now k (the current) dk else dk)))"
  "dkManager (enterDocument yj now k user current d v s dk) = addConnection d k (getOrLoad yj now d s
     (dkManager (if truthy current \<and> current \<noteq> Some d then leaveDocument now k (the current) dk else dk)))"
  "\<exists>info. edUserId info = clSub user \<and> dkEditors (enterDocument yj now k user current d v s dk) =
     addEditor d k info (dkEditors (if truthy current \<and> current \<noteq> Some d then leaveDocument now k (the current) dk else dk))"
proof -
  have f: "(\<lambda>x. x\<lparr>skRooms := sadd (document_room d) (skRooms x), skDocument := Some d\<rparr>) = joined_doc d"
    by (auto simp: joined_doc_def fun_eq_iff)
  show "hubSockets (dkHub (enterDocument yj now k user current d v s dk)) =
     at_socket k (joined_doc d) (hubSockets (dkHub (if truthy current \<and> current \<noteq> Some d then leaveDocument now k (the current) dk else dk)))"
    unfolding enterDocument_def Let_def
    by (simp add: core_proj join_room_def at_socket_twice f split: option.split)
  show "\<exists>info. edUserId info = clSub user \<and> dkEditors (enterDocument yj now k user current d v s dk) =
     addEditor d k info (dkEditors (if truthy current \<and> current \<noteq> Some d then leaveDocument now k (the current) dk else dk))"
    unfolding enterDocument_def Let_def
    by (intro exI [of _ "editor_of d user (dkEditors (if truthy current \<and> current \<noteq> Some d then leaveDocument now k (the current) dk else dk))"])
       (simp add: editor_of_def)
qed (simp add: enterDocument_def Let_def)

text \<open>The socket of a message is the one found, and its user is the session's.\<close>

lemma enter_desk_ok:
  assumes "desk_ok dk" "find_socket k (dkHub dk) = Some x" "skUser x = Some user" "d \<noteq> []"
  shows "desk_ok (enterDocument yj now k user (skDocument x) d v s dk)"
proof -
  let ?dk = "if truthy (skDocument x) \<and> skDocument x \<noteq> Some d then leaveDocument now k (the (skDocument x)) dk else dk"
  let ?xs = "hubSockets (dkHub ?dk)"
  from find_socket_Some [OF assms(2)] have x: "x \<in> set (hubSockets (dkHub dk))" "skId x = k" by auto
  have ok: "desk_ok ?dk" using assms(1) by (simp add: leave_desk_ok)
  have only: "y = x" if "y \<in> set (hubSockets (dkHub dk))" "skId y = k" for y
    using assms(1) that x by (auto simp: desk_ok_def distinct_map inj_on_def)
  have free: "skDocument y \<in> {None, Some d} \<and> skUser y = Some user" if y: "y \<in> set ?xs" "skId y = k" for y
  proof (cases "truthy (skDocument x) \<and> skDocument x \<noteq> Some d")
    case True
    with y obtain z where z: "z \<in> set (hubSockets (dkHub dk))" "skId z = k" "y = left_doc (the (skDocument x)) z"
      by (auto simp: at_socket_def split: if_splits)
    then have "y = left_doc (the (skDocument x)) x" using only by blast
    with True assms(3) show ?thesis by (auto simp: truthy_def split: option.splits)
  next
    case False
    with y only have "y = x" by auto
    moreover have "skDocument x \<noteq> Some []" using assms(1) x(1) by (simp add: desk_ok_def seat_ok_def)
    ultimately show ?thesis using False assms(3) by (auto simp: truthy_def split: option.splits)
  qed
  have here: "k \<in> skId ` set ?xs" using x by auto
  let ?e = "enterDocument yj now k user (skDocument x) d v s dk"
  have sk: "hubSockets (dkHub ?e) = at_socket k (joined_doc d) ?xs" by (rule enter_parts)
  have seats: "seats (dkHub ?e) = insert (d, k) (seats (dkHub ?dk))"
    by (rule seats_joined [OF sk here]) (use free in blast)
  obtain e where e: "hget (getOrLoad yj now d s (dkManager ?dk)) d = Some e" using getOrLoad_loads by blast
  have linked: "linked (dkManager ?e) = insert (d, k) (linked (dkManager ?dk))"
    unfolding enter_parts(2) using linked_add [OF e] by simp
  obtain info where info: "edUserId info = clSub user" "dkEditors ?e = addEditor d k info (dkEditors ?dk)"
    using enter_parts(3) by blast
  have "distinct (map skId ?xs)" "\<forall>x\<in>set ?xs. seat_ok x" using ok by (simp_all add: desk_ok_def)
  then have socks: "distinct (map skId (at_socket k (joined_doc d) ?xs))" "\<forall>x\<in>set (at_socket k (joined_doc d) ?xs). seat_ok x"
    using free assms(4) by (simp, intro at_socket_all) (blast intro: joined_doc_ok)+
  moreover have "\<forall>x\<in>set (at_socket k (joined_doc d) ?xs). skId x = k' \<longrightarrow> map_option clSub (skUser x) = Some (edUserId info')"
    if "editor_at (addEditor d k info (dkEditors ?dk)) d' k' = Some info'" for d' k' info'
  proof (cases "d' = d \<and> k' = k")
    case True
    with that have i: "info' = info" by (simp add: editor_at_add)
    have user: "map_option clSub (skUser x) = Some (edUserId info')" if "x \<in> set ?xs" "skId x = k" for x
      unfolding i info(1) using free [OF that] by simp
    show ?thesis by (intro at_socket_all ballI impI) (use user True in \<open>simp_all only: doc_moves\<close>)
  next
    case False
    have "editor_at (dkEditors ?dk) d' k' = Some info'" using that unfolding editor_at_add if_not_P [OF False] .
    with ok have "\<forall>x\<in>set ?xs. skId x = k' \<longrightarrow> map_option clSub (skUser x) = Some (edUserId info')"
      unfolding desk_ok_def by blast
    note old = this
    show ?thesis by (rule at_socket_all [OF old]) (unfold doc_moves, use old in blast)
  qed
  moreover have "listed (dkEditors ?dk) = seats (dkHub ?dk)" "linked (dkManager ?dk) = seats (dkHub ?dk)"
    using ok by (simp_all add: desk_ok_def)
  ultimately show ?thesis unfolding desk_ok_def sk seats linked info(2) by simp
qed

section \<open>The steps\<close>

lemma on_hub_parts [simp]:
  "dkHub (on_hub f dk) = f (dkHub dk)" "dkManager (on_hub f dk) = dkManager dk" "dkEditors (on_hub f dk) = dkEditors dk"
  by (simp_all add: on_hub_def)

lemma doc_dispatch_cases:
  "(doc_views (dkHub (doc_dispatch yj is_uuid now suffix s k m dk)) = doc_views (dkHub dk) \<and>
    dkManager (doc_dispatch yj is_uuid now suffix s k m dk) = dkManager dk \<and>
    dkEditors (doc_dispatch yj is_uuid now suffix s k m dk) = dkEditors dk) \<or>
   (\<exists>x c L. find_socket k (dkHub dk) = Some x \<and> skUser x = Some c \<and> wsAuthGuard_canActivate now (Some (socket_user_of c)) s = None \<and>
      valid_doc_message is_uuid m \<and>
      doc_dispatch yj is_uuid now suffix s k m dk = doc_handle yj now x c m s (on_hub (\<lambda>h. h\<lparr>hubLimiter := L\<rparr>) dk))"
proof -
  have quiet: "doc_views (ws_error now k c h) = doc_views h" "doc_views (h\<lparr>hubLimiter := L\<rparr>) = doc_views h" for c h L
    by (rule doc_views_core, simp)+
  show ?thesis
  proof (cases "find_socket k (dkHub dk)")
    case None
    then show ?thesis by (simp add: doc_dispatch_def)
  next
    case (Some x)
    show ?thesis
    proof (cases "wsAuthGuard_canActivate now (map_option socket_user_of (skUser x)) s")
      case (Some ec)
      with \<open>find_socket k (dkHub dk) = Some x\<close> show ?thesis by (simp add: doc_dispatch_def quiet)
    next
      case None
      obtain q L where lim: "wsRateLimitGuard_canActivate now suffix (doc_limit m) (map_option clSub (skUser x)) (hubLimiter (dkHub dk)) = (q, L)"
        by (metis surj_pair)
      show ?thesis
      proof (cases "q = Inr True \<and> valid_doc_message is_uuid m")
        case False
        with Some None lim show ?thesis
          by (cases q) (auto simp: doc_dispatch_def Let_def quiet split: bool.split)
      next
        case True
        with Some None lim show ?thesis
          by (cases "skUser x") (auto simp: doc_dispatch_def wsAuthGuard_canActivate_def)
      qed
    qed
  qed
qed

lemma on_hub_ok: "desk_ok dk \<Longrightarrow> doc_views (f (dkHub dk)) = doc_views (dkHub dk) \<Longrightarrow> desk_ok (on_hub f dk)"
  by (erule desk_ok_hub) (simp_all add: on_hub_def)

lemma on_hub_core: "desk_ok dk \<Longrightarrow> (\<And>h. hub_core (f h) = hub_core h) \<Longrightarrow> desk_ok (on_hub f dk)"
  by (rule on_hub_ok, assumption, rule doc_views_core, assumption)

lemma doc_dispatch_ok:
  assumes "desk_ok dk" "\<not> is_uuid []"
  shows "desk_ok (doc_dispatch yj is_uuid now suffix s k m dk)"
  using doc_dispatch_cases [of yj is_uuid now suffix s k m dk]
proof
  assume "doc_views (dkHub (doc_dispatch yj is_uuid now suffix s k m dk)) = doc_views (dkHub dk) \<and>
    dkManager (doc_dispatch yj is_uuid now suffix s k m dk) = dkManager dk \<and>
    dkEditors (doc_dispatch yj is_uuid now suffix s k m dk) = dkEditors dk"
  with assms(1) show ?thesis by (elim conjE) (rule desk_ok_hub, simp_all)
next
  assume "\<exists>x c L. find_socket k (dkHub dk) = Some x \<and> skUser x = Some c \<and> wsAuthGuard_canActivate now (Some (socket_user_of c)) s = None \<and>
      valid_doc_message is_uuid m \<and>
      doc_dispatch yj is_uuid now suffix s k m dk = doc_handle yj now x c m s (on_hub (\<lambda>h. h\<lparr>hubLimiter := L\<rparr>) dk)"
  then obtain x c L where x: "find_socket k (dkHub dk) = Some x" "skUser x = Some c" "valid_doc_message is_uuid m"
    and run: "doc_dispatch yj is_uuid now suffix s k m dk = doc_handle yj now x c m s (on_hub (\<lambda>h. h\<lparr>hubLimiter := L\<rparr>) dk)" by blast
  let ?dk = "on_hub (\<lambda>h. h\<lparr>hubLimiter := L\<rparr>) dk"
  have ok: "desk_ok ?dk" by (rule on_hub_core [OF assms(1)]) simp
  have found: "find_socket k (dkHub ?dk) = Some x" using x(1) by (simp add: on_hub_def)
  from find_socket_Some [OF x(1)] have k: "skId x = k" by simp
  show ?thesis
  proof (cases m)
    case (DocJoin d w v)
    with x(3) assms(2) have "d \<noteq> []" by auto
    with enter_desk_ok [OF ok found x(2)] on_hub_core [OF ok, of "ws_error now k _"] run DocJoin k show ?thesis
      by (simp add: docGateway_handleJoin_def split: option.split)
  next
    case (DocUpdate d u)
    have "desk_ok (?dk\<lparr>dkManager := applyUpdate yj now d u' (getOrLoad yj now d s (dkManager ?dk))\<rparr>)" for u'
      by (rule desk_ok_hub [OF ok]) simp_all
    note sent = on_hub_core [OF this, of "emit_others k _ _ _"]
    show ?thesis
    proof (cases u)
      case None
      with on_hub_core [OF ok, of "ws_error now k _"] run DocUpdate k show ?thesis
        by (simp add: docGateway_handleUpdate_def)
    next
      case (Some u')
      with sent run DocUpdate k show ?thesis by (simp add: docGateway_handleUpdate_def)
    qed
  next
    case (DocAwareness d a)
    with on_hub_core [OF ok, of "emit_others k _ _ _"] run k show ?thesis by (simp add: docGateway_handleAwareness_def)
  next
    case (DocLeave d)
    with leave_desk_ok [OF ok] run k show ?thesis by simp
  qed
qed

lemma remove_sockets_ok:
  assumes "desk_ok dk" "\<forall>x\<in>set (hubSockets (dkHub dk)). skId x = k \<longrightarrow> skDocument x = None"
    and "hubSockets h = filter (\<lambda>y. skId y \<noteq> k) (hubSockets (dkHub dk))"
  shows "desk_ok (dk\<lparr>dkHub := h\<rparr>)"
proof -
  have "(d, j) \<in> seats h \<longleftrightarrow> (d, j) \<in> seats (dkHub dk)" for d j
    using assms(2) unfolding seats_iff assms(3) by auto
  then have "seats h = seats (dkHub dk)" by auto
  with assms(1) show ?thesis by (simp add: desk_ok_def assms(3) distinct_map_filter)
qed

lemma handleDisconnect_sockets:
  "hubSockets (handleDisconnect k h) = filter (\<lambda>y. skId y \<noteq> k) (hubSockets h)"
proof (cases "find_socket k h")
  case None
  then have "\<forall>y\<in>set (hubSockets h). skId y \<noteq> k" by (simp add: find_socket_def find_None_iff)
  then have "filter (\<lambda>y. skId y \<noteq> k) (hubSockets h) = hubSockets h" by (simp add: filter_id_conv)
  with None show ?thesis by (simp add: handleDisconnect_def)
next
  case (Some x)
  show ?thesis
  proof (cases "skUser x")
    case None
    with Some show ?thesis by (simp add: handleDisconnect_def Let_def)
  next
    case user: (Some c)
    show ?thesis using core_disconnect [OF Some user] by (simp add: core_proj)
  qed
qed

lemma disconnect_desk_ok:
  assumes "desk_ok dk"
  shows "desk_ok (disconnect now k dk)"
proof -
  let ?dk = "docGateway_handleDisconnect now k dk"
  have ok: "desk_ok ?dk"
    using assms leave_desk_ok by (auto simp: docGateway_handleDisconnect_def split: option.split)
  have only: "\<forall>x\<in>set (hubSockets (dkHub dk)). skId x = k \<longrightarrow> find_socket k (dkHub dk) = Some x"
  proof (intro ballI impI)
    fix x assume x: "x \<in> set (hubSockets (dkHub dk))" "skId x = k"
    then obtain y where y: "find_socket k (dkHub dk) = Some y"
      by (cases "find_socket k (dkHub dk)") (auto simp: find_socket_def find_None_iff)
    from find_socket_Some [OF y] x assms have "y = x" by (auto simp: desk_ok_def distinct_map inj_on_def)
    with y show "find_socket k (dkHub dk) = Some x" by simp
  qed
  have seats: "seat_ok x" if "x \<in> set (hubSockets (dkHub dk))" for x using assms that by (simp add: desk_ok_def)
  have "skDocument x = None" if x: "x \<in> set (hubSockets (dkHub ?dk))" "skId x = k" for x
  proof (cases "Option.bind (find_socket k (dkHub dk)) skDocument")
    case None
    with x only show ?thesis by (auto simp: docGateway_handleDisconnect_def)
  next
    case (Some d)
    then obtain z where z: "find_socket k (dkHub dk) = Some z" "skDocument z = Some d"
      by (cases "find_socket k (dkHub dk)") auto
    with seats find_socket_Some have "d \<noteq> []" unfolding seat_ok_def by blast
    with Some x have "x \<in> set (at_socket k (left_doc d) (hubSockets (dkHub dk)))" by (simp add: docGateway_handleDisconnect_def)
    with x(2) obtain y where "y \<in> set (hubSockets (dkHub dk))" "skId y = k" "x = left_doc d y"
      by (auto simp: at_socket_def split: if_splits)
    with only z show ?thesis by auto
  qed
  then have "\<forall>x\<in>set (hubSockets (dkHub ?dk)). skId x = k \<longrightarrow> skDocument x = None" by blast
  from remove_sockets_ok [OF ok this handleDisconnect_sockets] show ?thesis
    by (simp add: disconnect_def on_hub_def)
qed

lemma connect_desk_ok:
  assumes "desk_ok dk" "k \<notin> skId ` set (hubSockets (dkHub dk))"
  shows "desk_ok (on_hub (handleConnection cr now s hs k) dk)"
proof (cases "hubSockets (handleConnection cr now s hs k (dkHub dk)) = hubSockets (dkHub dk)")
  case True
  then show ?thesis using on_hub_ok [OF assms(1)] by (simp add: doc_views_def)
next
  case False
  let ?new = "\<lambda>c. \<lparr>skId = k, skUser = Some c, skBoard = None, skWorkspace = None, skDocument = None,
        skRooms = [user_room (clSub c)]\<rparr> :: socket"
  from False obtain c where c: "hubSockets (handleConnection cr now s hs k (dkHub dk)) = hubSockets (dkHub dk) @ [?new c]"
    by (auto simp: handleConnection_def Let_def reject_def emit_client_def split: if_splits sum.splits)
  let ?h = "handleConnection cr now s hs k (dkHub dk)"
  have "(d, j) \<in> seats ?h \<longleftrightarrow> (d, j) \<in> seats (dkHub dk)" for d j
    unfolding seats_iff c by auto
  then have seats: "seats ?h = seats (dkHub dk)" by auto
  have fresh: "editor_at (dkEditors dk) d k = None" for d
  proof -
    have "(d, k) \<notin> seats (dkHub dk)" using assms(2) unfolding seats_iff by auto
    with assms(1) have "(d, k) \<notin> listed (dkEditors dk)" by (simp add: desk_ok_def)
    then show ?thesis by (simp add: listed_def)
  qed
  have "seat_ok (?new c)" by (simp add: seat_ok_def)
  moreover have "editor_at (dkEditors dk) d j = Some info \<Longrightarrow> j \<noteq> k" for d j info using fresh by auto
  ultimately show ?thesis
    using assms unfolding desk_ok_def on_hub_parts by (simp add: c seats) auto
qed

end
