(* ===== verification/Document_Properties.thy ===== *)
theory Document_Properties
  imports Document_Manager "HOL-Library.Multiset"
begin

text \<open>
  What a document's readers rely on: \<open>content\<close> is the one value behind the live copy and the stored
  row, and every operation of \<open>Document_Manager\<close> is an operation on that value. Loading, saving,
  unloading and restarting do not change it, an update merges into it. The CRDT library's documented
  laws are \<open>yjs_laws\<close>: a full state decodes to the document it was taken from, and text written is
  the text read.
\<close>

section \<open>One value per document\<close>

definition yjs_laws :: "'d yjs \<Rightarrow> bool" where
  "yjs_laws yj \<longleftrightarrow>
     (\<forall>d. yEncode yj d None \<noteq> [] \<and> yApply yj (yEncode yj d None) (yEmpty yj) = Some d) \<and>
     (\<forall>t d. yText yj (ySetText yj t d) = t)"

definition content :: "'d yjs \<Rightarrow> 'd manager \<times> db \<Rightarrow> uuid \<Rightarrow> 'd" where
  "content yj st i =
     (case hget (fst st) i of Some e \<Rightarrow> adYdoc e | None \<Rightarrow> hydrate yj (stored_state i (snd st)))"

definition doc_active :: "uuid \<Rightarrow> db \<Rightarrow> bool" where
  "doc_active i s \<longleftrightarrow> find (\<lambda>d. docId d = i \<and> docStatus d = DocActive) (documents s) \<noteq> None"

text \<open>A loaded document is active, and clean only if the row holds it.\<close>

definition saved_ok :: "'d yjs \<Rightarrow> 'd manager \<times> db \<Rightarrow> bool" where
  "saved_ok yj st \<longleftrightarrow> (\<forall>i e. hget (fst st) i = Some e \<longrightarrow> doc_active i (snd st) \<and>
     (\<not> adDirty e \<longrightarrow> hydrate yj (stored_state i (snd st)) = adYdoc e))"

definition merge :: "'d yjs \<Rightarrow> string \<Rightarrow> 'd \<Rightarrow> 'd" where
  "merge yj u d = (case apply_any yj u d of None \<Rightarrow> d | Some d' \<Rightarrow> d')"

lemma hydrate_encode [simp]: "yjs_laws yj \<Longrightarrow> hydrate yj (Some (yEncode yj d None)) = d"
  by (simp add: yjs_laws_def hydrate_def apply_any_def)

lemma find_map_other:
  assumes "\<And>d. docId (f d) = docId d" "\<And>d. docStatus (f d) = docStatus d"
  shows "find (\<lambda>d. docId d = j \<and> docStatus d = DocActive) (map (\<lambda>d. if docId d = i then f d else d) rows) =
    map_option (if j = i then f else id) (find (\<lambda>d. docId d = j \<and> docStatus d = DocActive) rows)"
  by (rule find_map_update) (simp_all add: assms)

lemma save_state:
  assumes "doc_active i s"
  obtains s' where "documentRepo_saveState now i b p s = (Inr (), s')"
    "\<And>j. stored_state j s' = (if j = i then Some b else stored_state j s)" "\<And>j. doc_active j s' = doc_active j s"
proof -
  let ?f = "\<lambda>d. d\<lparr>docYjsState := Some b, docPreviewText := Some p, docUpdatedAt := now\<rparr> :: document_row"
  let ?s = "s\<lparr>documents := map (\<lambda>d. if docId d = i then ?f d else d) (documents s)\<rparr>"
  from assms obtain d where d: "d \<in> set (documents s)" "docId d = i"
    by (auto simp: doc_active_def find_None_iff)
  then obtain d0 where "find (\<lambda>d. docId d = i) (documents s) = Some d0"
    by (cases "find (\<lambda>d. docId d = i) (documents s)") (auto simp: find_None_iff)
  then have run: "documentRepo_saveState now i b p s = (Inr (), ?s)"
    by (simp add: documentRepo_saveState_def documentRepo_update_def update_by_found)
  have found: "find (\<lambda>d. docId d = j \<and> docStatus d = DocActive) (map (\<lambda>d. if docId d = i then ?f d else d) (documents s)) =
      map_option (if j = i then ?f else id) (find (\<lambda>d. docId d = j \<and> docStatus d = DocActive) (documents s))" for j
    using find_map_other [of ?f] by simp
  have st: "stored_state j ?s = (if j = i then Some b else stored_state j s)" for j
    using assms by (cases "find (\<lambda>d. docId d = j \<and> docStatus d = DocActive) (documents s)")
      (auto simp: stored_state_def documentRepo_findWithState_def found doc_active_def)
  have act: "doc_active j ?s = doc_active j s" for j by (simp add: doc_active_def found)
  show ?thesis by (rule that [OF run st act])
qed

lemma emit_documents [simp]:
  "stored_state j (emit e s) = stored_state j s" "doc_active j (emit e s) = doc_active j s"
  by (simp_all add: stored_state_def documentRepo_findWithState_def doc_active_def)

text \<open>What it means that a step leaves every document as it was.\<close>

definition same_contents :: "'d yjs \<Rightarrow> 'd manager \<times> db \<Rightarrow> 'd manager \<times> db \<Rightarrow> bool" where
  "same_contents yj st st' \<longleftrightarrow> (\<forall>j. content yj st' j = content yj st j) \<and>
     (\<forall>j. doc_active j (snd st') = doc_active j (snd st))"

lemma same_contents_trans:
  "same_contents yj a b \<Longrightarrow> same_contents yj b c \<Longrightarrow> same_contents yj a c"
  by (simp add: same_contents_def)

lemma same_contents_refl [simp]: "same_contents yj a a"
  by (simp add: same_contents_def)

lemma persist_ok:
  assumes "yjs_laws yj" "saved_ok yj (m, s)" "persistNow yj True now i m s = (r, m', s')"
  shows "r = Inr () \<and> saved_ok yj (m', s') \<and> same_contents yj (m, s) (m', s') \<and>
    (\<forall>e. hget m' i = Some e \<longrightarrow> \<not> adDirty e)"
proof (cases "persist_begin yj i m")
  case None
  with assms(3) have "m' = m" "s' = s" "r = Inr ()" by (simp_all add: persistNow_def)
  moreover from None have "\<forall>e. hget m i = Some e \<longrightarrow> \<not> adDirty e"
    by (auto simp: persist_begin_def split: option.splits if_splits)
  ultimately show ?thesis using assms(2) by simp
next
  case (Some data)
  then obtain e where e: "hget m i = Some e" "adDirty e" and data: "fst data = yEncode yj (adYdoc e) None"
    by (auto simp: persist_begin_def split: option.splits if_splits)
  from assms(2) e(1) have act: "doc_active i s" by (simp add: saved_ok_def)
  then obtain s1 where s1: "documentRepo_saveState now i (fst data) (snd data) s = (Inr (), s1)"
    "\<And>j. stored_state j s1 = (if j = i then Some (fst data) else stored_state j s)" "\<And>j. doc_active j s1 = doc_active j s"
    using save_state [of i s now "fst data" "snd data"] by blast
  with assms(3) Some e(1) have run: "r = Inr ()" "s' = emit (DocumentSaved i now) s1"
    "m' = hset i (e\<lparr>adDirty := False, adLastActivity := now\<rparr>) m"
    by (simp_all add: persistNow_def persist_write_def persist_end_def)
  have "saved_ok yj (m', s')"
    using assms(1,2) data act by (auto simp: saved_ok_def run store_simps s1(2,3))
  moreover have "same_contents yj (m, s) (m', s')"
    using e(1) by (auto simp: same_contents_def content_def run store_simps s1(2,3) split: option.split)
  ultimately show ?thesis by (simp add: run store_simps)
qed

lemma drop_clean:
  assumes "saved_ok yj (m, s)" "\<forall>e. hget m i = Some e \<longrightarrow> \<not> adDirty e"
  shows "saved_ok yj (hdel i m, s) \<and> same_contents yj (m, s) (hdel i m, s)"
  using assms by (auto simp: saved_ok_def same_contents_def content_def store_simps split: option.split)

lemma unload_ok:
  assumes "yjs_laws yj" "saved_ok yj (m, s)" "unload_loop yj (\<lambda>_. True) now ids m s = (r, m', s')"
  shows "saved_ok yj (m', s') \<and> same_contents yj (m, s) (m', s')"
  using assms(2,3)
proof (induction ids arbitrary: m s)
  case Nil
  then show ?case by simp
next
  case (Cons i ids)
  show ?case
  proof (cases "\<exists>e. hget m i = Some e \<and> adConnections e = [] \<and> adLastActivity e < now - IDLE_UNLOAD_MS")
    case False
    with Cons.prems(2) have "unload_loop yj (\<lambda>_. True) now ids m s = (r, m', s')"
      by (auto split: option.splits if_splits)
    with Cons show ?thesis by blast
  next
    case True
    obtain q m1 s1 where run: "persistNow yj True now i m s = (q, m1, s1)" by (metis surj_pair)
    note p = persist_ok [OF assms(1) Cons.prems(1) run]
    then have d: "saved_ok yj (hdel i m1, s1)" "same_contents yj (m1, s1) (hdel i m1, s1)"
      using drop_clean by blast+
    from True Cons.prems(2) run p have "unload_loop yj (\<lambda>_. True) now ids (hdel i m1) s1 = (r, m', s')" by auto
    from Cons.IH [OF d(1) this] p d(2) show ?thesis by (blast intro: same_contents_trans)
  qed
qed

lemma flush_ok:
  assumes "yjs_laws yj" "saved_ok yj (m, s)" "flush_loop yj (\<lambda>_. True) now ids m s = (r, m', s')"
    and "\<forall>j. hget m j \<noteq> None \<longrightarrow> j \<in> set ids \<or> (\<forall>e. hget m j = Some e \<longrightarrow> \<not> adDirty e)"
  shows "m' = [] \<and> same_contents yj (m, s) ([], s')"
  using assms(2-4)
proof (induction ids arbitrary: m s)
  case Nil
  then have "m' = []" "s' = s" by simp_all
  moreover have "content yj ([], s) j = content yj (m, s) j" for j
    using Nil.prems(1,3) by (auto simp: content_def saved_ok_def hget_def split: option.split)
  ultimately show ?case by (simp add: same_contents_def)
next
  case (Cons i ids)
  obtain q m1 s1 where run: "persistNow yj True now i m s = (q, m1, s1)" by (metis surj_pair)
  note p = persist_ok [OF assms(1) Cons.prems(1) run]
  have others: "\<forall>j. j \<noteq> i \<longrightarrow> hget m1 j = hget m j"
    using run by (auto simp: persistNow_def persist_end_def store_simps split: option.splits prod.splits sum.splits)
  from Cons.prems(2) run p have "flush_loop yj (\<lambda>_. True) now ids m1 s1 = (r, m', s')" by simp
  moreover have "\<forall>j. hget m1 j \<noteq> None \<longrightarrow> j \<in> set ids \<or> (\<forall>e. hget m1 j = Some e \<longrightarrow> \<not> adDirty e)"
  proof (intro allI impI)
    fix j assume "hget m1 j \<noteq> None"
    then show "j \<in> set ids \<or> (\<forall>e. hget m1 j = Some e \<longrightarrow> \<not> adDirty e)"
      using p others Cons.prems(3) by (cases "j = i") auto
  qed
  ultimately show ?case using Cons.IH [of m1 s1] p by (blast intro: same_contents_trans)
qed

section \<open>Histories\<close>

text \<open>
  What can happen to documents: sockets open and close them, updates arrive (the gateway loads the
  document first), save timers fire, the idle sweep runs, the process restarts.
\<close>

datatype doc_action =
    OpenDoc instant uuid string
  | CloseDoc instant uuid string
  | ReceiveUpdate instant uuid string
  | SaveTimer instant uuid
  | IdleSweep instant
  | Restart instant

fun doc_step :: "'d yjs \<Rightarrow> doc_action \<Rightarrow> 'd manager \<times> db \<Rightarrow> 'd manager \<times> db" where
  "doc_step yj (OpenDoc now i k) (m, s) = (addConnection i k (getOrLoad yj now i s m), s)"
| "doc_step yj (CloseDoc now i k) (m, s) = (removeConnection now i k m, s)"
| "doc_step yj (ReceiveUpdate now i u) (m, s) = (applyUpdate yj now i u (getOrLoad yj now i s m), s)"
| "doc_step yj (SaveTimer now i) (m, s) = fire_save yj True now i (m, s)"
| "doc_step yj (IdleSweep now) (m, s) = snd (unloadIdle yj (\<lambda>_. True) now m s)"
| "doc_step yj (Restart now) (m, s) = ([], snd (snd (onModuleDestroy yj (\<lambda>_. True) now m s)))"

definition doc_run :: "'d yjs \<Rightarrow> doc_action list \<Rightarrow> 'd manager \<times> db \<Rightarrow> 'd manager \<times> db" where
  "doc_run yj = fold (doc_step yj)"

fun document_of :: "doc_action \<Rightarrow> uuid option" where
  "document_of (OpenDoc _ i _) = Some i" | "document_of (ReceiveUpdate _ i _) = Some i" | "document_of _ = None"

fun update_for :: "uuid \<Rightarrow> doc_action \<Rightarrow> string option" where
  "update_for i (ReceiveUpdate _ j u) = (if i = j then Some u else None)" | "update_for i _ = None"

definition updates_for :: "uuid \<Rightarrow> doc_action list \<Rightarrow> string list" where
  "updates_for i h = List.map_filter (update_for i) h"

lemma updates_for_simps [simp]:
  "updates_for i [] = []"
  "updates_for i (a # h) = (case update_for i a of None \<Rightarrow> updates_for i h | Some u \<Rightarrow> u # updates_for i h)"
  by (simp_all add: updates_for_def List.map_filter_simps split: option.split)

text \<open>A step that only touches how a document is held, not what it says.\<close>

lemma same_entries:
  assumes "saved_ok yj (m, s)"
    and "\<And>j. map_option adYdoc (hget m' j) = map_option adYdoc (hget m j)"
    and "\<And>j. map_option adDirty (hget m' j) = map_option adDirty (hget m j)"
  shows "saved_ok yj (m', s) \<and> same_contents yj (m, s) (m', s)"
proof -
  have "content yj (m', s) j = content yj (m, s) j" for j
    using assms(2) [of j] by (cases "hget m j"; cases "hget m' j") (auto simp: content_def)
  moreover have "\<exists>e. hget m j = Some e \<and> adYdoc e' = adYdoc e \<and> adDirty e' = adDirty e" if "hget m' j = Some e'" for j e'
    using that assms(2,3) [of j] by (cases "hget m j") auto
  ultimately show ?thesis using assms(1) by (auto simp: same_contents_def saved_ok_def) metis+
qed

lemma load_ok:
  assumes "saved_ok yj (m, s)" "doc_active i s"
  shows "saved_ok yj (getOrLoad yj now i s m, s) \<and> same_contents yj (m, s) (getOrLoad yj now i s m, s)"
proof (cases "hget m i")
  case None
  then show ?thesis
    using assms by (auto simp: getOrLoad_def new_entry_def saved_ok_def same_contents_def content_def store_simps
        split: option.split)
next
  case (Some e)
  then show ?thesis by (intro same_entries [OF assms(1)]) (auto simp: getOrLoad_def store_simps)
qed

lemma loaded: "\<exists>e. hget (getOrLoad yj now i s m) i = Some e"
  by (auto simp: getOrLoad_def store_simps split: option.split)

lemma apply_ok:
  assumes "saved_ok yj (m, s)" "hget m i = Some e"
  shows "saved_ok yj (applyUpdate yj now i u m, s) \<and>
    content yj (applyUpdate yj now i u m, s) j = (if j = i then merge yj u (content yj (m, s) i) else content yj (m, s) j)"
  using assms
  by (auto simp: applyUpdate_def on_update_def scheduleSave_def saved_ok_def content_def merge_def store_simps
      split: option.split)

lemma fire_ok:
  assumes "yjs_laws yj" "saved_ok yj (m, s)"
  shows "saved_ok yj (fire_save yj True now i (m, s)) \<and> same_contents yj (m, s) (fire_save yj True now i (m, s))"
proof (cases "fire_save yj True now i (m, s) = (m, s)")
  case True
  with assms(2) show ?thesis by simp
next
  case False
  then obtain e where e: "hget m i = Some e" and
    fire: "fire_save yj True now i (m, s) = snd (persistNow yj True now i (hset i (e\<lparr>adSaveTimeout := None\<rparr>) m) s)"
    by (auto simp: fire_save_def split: option.splits if_splits)
  let ?m = "hset i (e\<lparr>adSaveTimeout := None\<rparr>) m"
  have m: "saved_ok yj (?m, s)" "same_contents yj (m, s) (?m, s)"
    using same_entries [OF assms(2), of ?m] e by (auto simp: store_simps)
  obtain r m' s' where run: "persistNow yj True now i ?m s = (r, m', s')" by (metis surj_pair)
  from persist_ok [OF assms(1) m(1) run] m(2) show ?thesis
    unfolding fire run by (auto intro: same_contents_trans)
qed

lemma doc_step_ok:
  assumes "yjs_laws yj" "saved_ok yj st" "\<And>i. document_of a = Some i \<Longrightarrow> doc_active i (snd st)"
  shows "saved_ok yj (doc_step yj a st) \<and> (\<forall>i. doc_active i (snd (doc_step yj a st)) = doc_active i (snd st)) \<and>
    content yj (doc_step yj a st) i =
      (case update_for i a of None \<Rightarrow> content yj st i | Some u \<Rightarrow> merge yj u (content yj st i))"
proof -
  obtain m s where st: "st = (m, s)" by (cases st)
  note ok = assms(2) [unfolded st]
  show ?thesis
  proof (cases a)
    case (OpenDoc now j k)
    let ?m = "getOrLoad yj now j s m"
    from load_ok [OF ok, of j now] assms(3) [of j] OpenDoc st have l: "saved_ok yj (?m, s)" "same_contents yj (m, s) (?m, s)" by auto
    have "saved_ok yj (addConnection j k ?m, s) \<and> same_contents yj (?m, s) (addConnection j k ?m, s)"
      by (rule same_entries [OF l(1)]) (auto simp: addConnection_def store_simps split: option.split)
    with l(2) show ?thesis by (auto simp: st OpenDoc same_contents_def)
  next
    case (CloseDoc now j k)
    have "saved_ok yj (removeConnection now j k m, s) \<and> same_contents yj (m, s) (removeConnection now j k m, s)"
      by (rule same_entries [OF ok]) (auto simp: removeConnection_def store_simps split: option.split)
    then show ?thesis by (auto simp: st CloseDoc same_contents_def)
  next
    case (ReceiveUpdate now j u)
    let ?m = "getOrLoad yj now j s m"
    from load_ok [OF ok, of j now] assms(3) [of j] ReceiveUpdate st have l: "saved_ok yj (?m, s)" "same_contents yj (m, s) (?m, s)" by auto
    obtain e where "hget ?m j = Some e" using loaded by blast
    from apply_ok [OF l(1) this, of now u i] l(2) show ?thesis by (auto simp: st ReceiveUpdate same_contents_def)
  next
    case (SaveTimer now j)
    with fire_ok [OF assms(1) ok, of now j] show ?thesis by (simp add: st same_contents_def)
  next
    case (IdleSweep now)
    obtain r m' s' where run: "unload_loop yj (\<lambda>_. True) now (map fst m) m s = (r, m', s')" by (metis surj_pair)
    from unload_ok [OF assms(1) ok run] show ?thesis by (simp add: st IdleSweep unloadIdle_def run same_contents_def)
  next
    case (Restart now)
    obtain r m' s' where run: "flush_loop yj (\<lambda>_. True) now (map fst m) m s = (r, m', s')" by (metis surj_pair)
    have "\<forall>j. hget m j \<noteq> None \<longrightarrow> j \<in> set (map fst m)" by (auto simp: hget_def map_of_eq_None_iff)
    with flush_ok [OF assms(1) ok run] have "same_contents yj (m, s) ([], s')" by blast
    then show ?thesis by (simp add: st Restart onModuleDestroy_def run same_contents_def) (simp add: saved_ok_def hget_def)
  qed
qed

lemma doc_run_ok:
  assumes "yjs_laws yj" "saved_ok yj st" "\<forall>a\<in>set h. \<forall>i. document_of a = Some i \<longrightarrow> doc_active i (snd st)"
  shows "saved_ok yj (doc_run yj h st) \<and> content yj (doc_run yj h st) i = fold (merge yj) (updates_for i h) (content yj st i)"
  using assms(2,3)
proof (induction h arbitrary: st)
  case Nil
  then show ?case by (simp add: doc_run_def)
next
  case (Cons a h)
  have step: "saved_ok yj (doc_step yj a st)" "\<forall>j. doc_active j (snd (doc_step yj a st)) = doc_active j (snd st)"
    "content yj (doc_step yj a st) i =
      (case update_for i a of None \<Rightarrow> content yj st i | Some u \<Rightarrow> merge yj u (content yj st i))"
    using doc_step_ok [OF assms(1) Cons.prems(1), of a i] Cons.prems(2) by auto
  from Cons.IH [OF step(1)] Cons.prems(2) step(2,3) show ?case
    by (auto simp: doc_run_def split: option.split)
qed

section \<open>A concrete library\<close>

text \<open>A register that keeps the greatest text it was told, for concrete runs.\<close>

definition max_yjs :: "string yjs" where
  "max_yjs = \<lparr>yEmpty = [], yApply = (\<lambda>u d. case u of [] \<Rightarrow> None | c # t \<Rightarrow> if c = CHR ''!'' then Some (max t d) else None),
     yApplyV2 = (\<lambda>u d. None), yEncode = (\<lambda>d v. CHR ''!'' # d), yText = (\<lambda>d. d), ySetText = (\<lambda>t d. t)\<rparr>"

lemma max_yjs_laws: "yjs_laws max_yjs"
  by (simp add: yjs_laws_def max_yjs_def max_def)

lemma max_yjs_merge: "merge max_yjs u d = (case u of [] \<Rightarrow> d | c # t \<Rightarrow> if c = CHR ''!'' then max t d else d)"
  by (simp add: merge_def apply_any_def max_yjs_def split: list.split)

definition document_db :: db where
  "document_db = sample_db\<lparr>documents := [\<lparr>docId = ''d'', docWorkspaceId = ''w'', docTitle = ''Doc'', docYjsState = Some ''!a'',
     docPreviewText = None, docCreatedBy = ''u'', docParentCardId = None, docStatus = DocActive, docCreatedAt = 0,
     docUpdatedAt = 0\<rparr>]\<rparr>"

lemma nothing_loaded_ok: "saved_ok yj ([], s)"
  by (simp add: saved_ok_def hget_def)

section \<open>Properties\<close>



text \<open>What Yjs documents of its updates: they commute and applying one twice changes nothing.\<close>

definition yjs_commutes :: "'d yjs \<Rightarrow> bool" where
  "yjs_commutes yj \<longleftrightarrow> (\<forall>u v d. merge yj u (merge yj v d) = merge yj v (merge yj u d)) \<and>
     (\<forall>u d. merge yj u (merge yj u d) = merge yj u d)"

lemma merge_absorbs:
  assumes "yjs_commutes yj"
  shows "u \<in> set us \<Longrightarrow> fold (merge yj) us (merge yj u d) = fold (merge yj) us d"
proof (induction us arbitrary: d)
  case (Cons v us)
  show ?case
  proof (cases "u = v")
    case True
    with assms show ?thesis by (simp add: yjs_commutes_def)
  next
    case False
    have "merge yj v (merge yj u d) = merge yj u (merge yj v d)" using assms unfolding yjs_commutes_def by blast
    with False Cons show ?thesis by simp
  qed
qed simp

lemma merge_remdups: "yjs_commutes yj \<Longrightarrow> fold (merge yj) (remdups us) d = fold (merge yj) us d"
proof (induction us arbitrary: d)
  case (Cons u us)
  then show ?case using merge_absorbs [OF Cons.prems, of u us d] by simp
qed simp

lemma merge_set:
  assumes "yjs_commutes yj" "set us = set vs"
  shows "fold (merge yj) us = fold (merge yj) vs"
proof -
  have "mset (remdups us) = mset (remdups vs)" using assms(2) by (simp add: set_eq_iff_mset_remdups_eq)
  moreover have "merge yj u \<circ> merge yj v = merge yj v \<circ> merge yj u" for u v
    using assms(1) by (auto simp: yjs_commutes_def fun_eq_iff)
  ultimately have "fold (merge yj) (remdups us) = fold (merge yj) (remdups vs)"
    by (intro fold_multiset_equiv) auto
  with merge_remdups [OF assms(1)] show ?thesis by (metis ext)
qed


lemma max_yjs_commutes: "yjs_commutes max_yjs"
  by (auto simp: yjs_commutes_def max_yjs_merge max_def split: list.split)


end
