(* ===== verification/Document_Losses.thy ===== *)
theory Document_Losses
  imports Document_Properties Access_Guards
begin

text \<open>
  Snapshots, and how a document's text can be lost: the interleavings and failures that
  \<open>Document_Properties\<close> excludes (a save overtaken by an update, an update to an archived document, a
  sweep whose write fails), and the snapshot routes of
  \<open>document/controllers/document-snapshot.controller.ts\<close>, which do not look at the workspace in their path.
\<close>

section \<open>Writes to other documents\<close>

lemma save_other:
  assumes "j \<noteq> i" "documentRepo_saveState now j b p s = (r, s')"
  shows "stored_state i s' = stored_state i s" "doc_active i s' = doc_active i s"
proof -
  let ?f = "\<lambda>d. d\<lparr>docYjsState := Some b, docPreviewText := Some p, docUpdatedAt := now\<rparr> :: document_row"
  from assms(2) have "s' = s \<or> s' = s\<lparr>documents := map (\<lambda>d. if docId d = j then ?f d else d) (documents s)\<rparr>"
    by (auto simp: documentRepo_saveState_def documentRepo_update_def update_by_def await_def or_missing_def split: option.splits)
  moreover have "find (\<lambda>d. docId d = i \<and> docStatus d = DocActive) (map (\<lambda>d. if docId d = j then ?f d else d) (documents s)) =
      find (\<lambda>d. docId d = i \<and> docStatus d = DocActive) (documents s)"
    using find_map_other [of ?f i j "documents s"] assms(1) by (simp add: option.map_id)
  ultimately show "stored_state i s' = stored_state i s" "doc_active i s' = doc_active i s"
    by (auto simp: stored_state_def documentRepo_findWithState_def doc_active_def)
qed

definition clean :: "uuid \<Rightarrow> 'd manager \<Rightarrow> bool" where
  "clean i m \<longleftrightarrow> (\<forall>e. hget m i = Some e \<longrightarrow> \<not> adDirty e)"

lemma clean_persist:
  assumes "persistNow yj up now j m s = (r, m', s')" "clean i m"
  shows "clean i m'" "stored_state i s' = stored_state i s" "doc_active i s' = doc_active i s"
proof -
  have "clean i m' \<and> stored_state i s' = stored_state i s \<and> doc_active i s' = doc_active i s"
  proof (cases "j = i")
    case True
    then have "persist_begin yj j m = None"
      using assms(2) by (auto simp: clean_def persist_begin_def split: option.splits)
    with assms show ?thesis by (simp add: persistNow_def)
  next
    case False
    from assms show ?thesis
      by (auto simp: persistNow_def persist_write_def persist_end_def clean_def store_simps
          dest: save_other [OF False] split: option.splits prod.splits sum.splits if_splits)
  qed
  then show "clean i m'" "stored_state i s' = stored_state i s" "doc_active i s' = doc_active i s" by simp_all
qed

lemma clean_flush:
  assumes "flush_loop yj up now ids m s = (r, m', s')" "clean i m"
  shows "stored_state i s' = stored_state i s"
  using assms
proof (induction ids arbitrary: m s)
  case Nil
  then show ?case by simp
next
  case (Cons j ids)
  obtain q m1 s1 where run: "persistNow yj (up j) now j m s = (q, m1, s1)" by (metis surj_pair)
  from clean_persist [OF run Cons.prems(2)] Cons.IH [of m1 s1] Cons.prems(1) show ?case
    by (cases q) (auto simp: run)
qed

lemma restart_stored:
  assumes "clean i (fst st)"
  shows "content yj (doc_step yj (Restart now) st) i = hydrate yj (stored_state i (snd st))"
proof -
  obtain m s where st: "st = (m, s)" by (cases st)
  obtain r m' s' where run: "flush_loop yj (\<lambda>_. True) now (map fst m) m s = (r, m', s')" by (metis surj_pair)
  from clean_flush [OF run] assms show ?thesis
    by (simp add: st onModuleDestroy_def run content_def hget_def)
qed

lemma clean_timer:
  assumes "clean i (fst st)"
  shows "clean i (fst (fire_save yj up now i st))" "snd (fire_save yj up now i st) = snd st"
  using assms
  by (auto simp: fire_save_def clean_def persistNow_def persist_begin_def store_simps split: option.splits)

section \<open>Properties\<close>

text \<open>An update that arrives while a save waits for the database is lost. The save marks the document clean although
  it wrote the state from before the update: readers see the update at first, but neither the save timer nor
  the flush at shutdown writes it, and after a restart the document is back to what it was.\<close>

theorem update_during_save_is_lost:
  assumes "yjs_laws yj" "saved_ok yj (m, s)" "persist_begin yj i m = Some data"
  shows "let s1 = snd (persist_write True now i data s); m1 = persist_end now i (applyUpdate yj now i u m) in
    content yj (m1, s1) i = merge yj u (content yj (m, s) i) \<and>
    content yj (doc_run yj [SaveTimer t1 i, Restart t2] (m1, s1)) i = content yj (m, s) i"
proof -
  from assms(3) obtain e where e: "hget m i = Some e" and data: "fst data = yEncode yj (adYdoc e) None"
    by (auto simp: persist_begin_def split: option.splits if_splits)
  from assms(2) e have "doc_active i s" by (simp add: saved_ok_def)
  then obtain s1 where s1: "documentRepo_saveState now i (fst data) (snd data) s = (Inr (), s1)"
    "stored_state i s1 = Some (fst data)"
    using save_state [of i s now "fst data" "snd data"] by metis
  let ?m1 = "persist_end now i (applyUpdate yj now i u m)"
  have "clean i ?m1" by (auto simp: clean_def persist_end_def store_simps split: option.splits)
  then have "content yj (doc_run yj [SaveTimer t1 i, Restart t2] (?m1, s1)) i = hydrate yj (stored_state i s1)"
    using clean_timer [of i "(?m1, s1)"] by (simp add: doc_run_def restart_stored)
  also have "\<dots> = content yj (m, s) i" using assms(1) s1(2) data e by (simp add: content_def)
  finally have lost: "content yj (doc_run yj [SaveTimer t1 i, Restart t2] (?m1, s1)) i = content yj (m, s) i" .
  have "content yj (?m1, s1) i = merge yj u (content yj (m, s) i)"
    using e by (auto simp: persist_end_def applyUpdate_def on_update_def scheduleSave_def content_def merge_def
        store_simps split: option.split)
  with lost s1(1) show ?thesis by (simp add: persist_write_def)
qed

text \<open>A document being saved: its text was just changed to \<open>c\<close>.\<close>

definition edited :: "string manager" where
  "edited = applyUpdate max_yjs 0 ''d'' ''!c'' (getOrLoad max_yjs 0 ''d'' document_db [])"

lemma edited_ok: "saved_ok max_yjs (edited, document_db)"
proof -
  have a: "doc_active ''d'' document_db" by (simp add: doc_active_def document_db_def)
  from load_ok [OF nothing_loaded_ok a] have l: "saved_ok max_yjs (getOrLoad max_yjs 0 ''d'' document_db [], document_db)" by blast
  obtain e where "hget (getOrLoad max_yjs 0 ''d'' document_db []) ''d'' = Some e" using loaded by blast
  from apply_ok [OF l this] show ?thesis by (simp add: edited_def)
qed

theorem update_during_save_is_lost_witness:
  "\<exists>m s. content max_yjs (m, s) ''d'' = ''e'' \<and> content max_yjs (doc_run max_yjs [SaveTimer 6000 ''d'', Restart 7000] (m, s)) ''d'' = ''c''"
proof -
  obtain data where data: "persist_begin max_yjs ''d'' edited = Some data"
    by (cases "persist_begin max_yjs ''d'' edited") (simp add: edited_def persist_begin_def getOrLoad_def applyUpdate_def
        new_entry_def on_update_def scheduleSave_def apply_any_def max_yjs_def hydrate_def stored_state_def
        documentRepo_findWithState_def document_db_def hget_def hset_def hdel_def max_def)
  have "content max_yjs (edited, document_db) ''d'' = ''c''" by code_simp
  with update_during_save_is_lost [OF max_yjs_laws edited_ok data, of 10 "''!e''" 6000 7000] show ?thesis
    by (auto simp: Let_def max_yjs_merge max_def)
qed

text \<open>Updates reach archived documents, and replace their text. Loading an archived document yields an empty one, an
  update sent to it is merged into nothing, and five seconds later the result is written over the stored
  state, because the save looks the row up by id alone.\<close>

theorem update_to_archived_document_overwrites:
  assumes "hget m i = None" "d0 \<in> set (documents s)" "docId d0 = i"
    and "\<forall>d\<in>set (documents s). docId d = i \<longrightarrow> docStatus d = DocArchived"
    and "merge yj u (yEmpty yj) \<noteq> yEmpty yj"
  shows "\<exists>d. find (\<lambda>d. docId d = i) (documents (snd (doc_run yj [ReceiveUpdate now i u, SaveTimer (now + SAVE_DEBOUNCE_MS) i] (m, s)))) = Some d \<and>
    docYjsState d = Some (yEncode yj (merge yj u (yEmpty yj)) None)"
proof -
  let ?d = "merge yj u (yEmpty yj)"
  let ?f = "\<lambda>p d. d\<lparr>docYjsState := Some (yEncode yj ?d None), docPreviewText := Some p, docUpdatedAt := now + SAVE_DEBOUNCE_MS\<rparr> :: document_row"
  have "find (\<lambda>d. docId d = i \<and> docStatus d = DocActive) (documents s) = None" using assms(4) by (auto simp: find_None_iff)
  then have "new_entry yj now i s = \<lparr>adYdoc = yEmpty yj, adConnections = [], adLastActivity = now, adSaveTimeout = None, adDirty = False\<rparr>"
    by (simp add: new_entry_def stored_state_def documentRepo_findWithState_def hydrate_def)
  then obtain m1 e where step: "doc_step yj (ReceiveUpdate now i u) (m, s) = (m1, s)" and e: "hget m1 i = Some e"
    "adYdoc e = ?d" "adDirty e" "adSaveTimeout e = Some (now + SAVE_DEBOUNCE_MS)"
    using assms(1,5) by (cases "apply_any yj u (yEmpty yj)")
      (auto simp: getOrLoad_def applyUpdate_def on_update_def scheduleSave_def merge_def store_simps)
  from assms(2,3) obtain d where d: "find (\<lambda>d. docId d = i) (documents s) = Some d"
    by (cases "find (\<lambda>d. docId d = i) (documents s)") (auto simp: find_None_iff)
  then have row: "docId d = i" by (auto dest: find_SomeD)
  have "find (\<lambda>d. docId d = i \<and> True) (map (\<lambda>d. if docId d = i then ?f p d else d) (documents s)) = Some (?f p d)" for p
    using d by (subst find_map_update) simp_all
  with e d have "\<exists>d. find (\<lambda>d. docId d = i) (documents (snd (fire_save yj True (now + SAVE_DEBOUNCE_MS) i (m1, s)))) = Some d \<and>
      docYjsState d = Some (yEncode yj ?d None)"
    by (auto simp: fire_save_def persistNow_def persist_begin_def persist_write_def store_simps
        documentRepo_saveState_def documentRepo_update_def update_by_found emit_def)
  moreover have "doc_run yj [ReceiveUpdate now i u, SaveTimer (now + SAVE_DEBOUNCE_MS) i] (m, s) =
      doc_step yj (SaveTimer (now + SAVE_DEBOUNCE_MS) i) (doc_step yj (ReceiveUpdate now i u) (m, s))"
    by (simp only: doc_run_def fold_simps)
  ultimately show ?thesis by (metis step doc_step.simps(4))
qed

definition archived_db :: db where
  "archived_db = document_db\<lparr>documents := map (\<lambda>d. d\<lparr>docStatus := DocArchived\<rparr>) (documents document_db)\<rparr>"

theorem update_to_archived_document_overwrites_witness:
  "\<exists>d. find (\<lambda>d. docId d = ''d'') (documents (snd (doc_run max_yjs [ReceiveUpdate 0 ''d'' ''!A'', SaveTimer (0 + SAVE_DEBOUNCE_MS) ''d'']
     ([], archived_db)))) = Some d \<and> docYjsState d = Some ''!A''"
proof -
  have "max_yjs = max_yjs\<lparr>yEmpty := []\<rparr>" by (simp add: max_yjs_def)
  then have empty: "yEmpty max_yjs = []" "merge max_yjs ''!A'' [] = ''A''" "yEncode max_yjs ''A'' None = ''!A''"
    by (simp_all add: max_yjs_merge max_def) (simp_all add: max_yjs_def)
  have "\<exists>d0. d0 \<in> set (documents archived_db) \<and> docId d0 = ''d''" by (simp add: archived_db_def document_db_def)
  then obtain d0 where "d0 \<in> set (documents archived_db)" "docId d0 = ''d''" by blast
  from update_to_archived_document_overwrites [OF _ this, of "[]" max_yjs "''!A''" 0] show ?thesis
    by (simp add: empty hget_def archived_db_def document_db_def)
qed

text \<open>A sweep whose write fails loses the document's unsaved text and stops: the document is dropped from memory all
  the same, the stored row is what readers get from then on, and the idle documents after it stay loaded.\<close>

theorem failed_sweep_drops_document:
  assumes "hget m i = Some e" "map fst m = pre @ i # rest" "adDirty e" "adConnections e = []"
    and "adLastActivity e < now - IDLE_UNLOAD_MS" "\<not> up i"
    and "\<forall>j\<in>set pre. \<forall>e'. hget m j = Some e' \<longrightarrow> adConnections e' \<noteq> []"
  shows "unloadIdle yj up now m s = (Inl (PrismaError ''P1001''), hdel i m, s) \<and>
    content yj (hdel i m, s) i = hydrate yj (stored_state i s)"
proof -
  have "unload_loop yj up now (pre @ i # rest) m s = unload_loop yj up now (i # rest) m s"
    using assms(7) by (induction pre) (auto split: option.split)
  with assms show ?thesis
    by (simp add: unloadIdle_def persistNow_def persist_begin_def persist_write_def content_def store_simps)
qed

theorem failed_sweep_drops_document_witness:
  "content max_yjs (edited, document_db) ''d'' = ''c'' \<and>
   content max_yjs (snd (unloadIdle max_yjs (\<lambda>_. False) 900000 edited document_db)) ''d'' = ''a''"
proof -
  obtain e where e: "hget edited ''d'' = Some e" "adDirty e" "adConnections e = []" "adLastActivity e = 0" "map fst edited = [] @ ''d'' # []"
    by (simp add: edited_def getOrLoad_def applyUpdate_def
        new_entry_def on_update_def scheduleSave_def apply_any_def max_yjs_def hydrate_def stored_state_def
        documentRepo_findWithState_def document_db_def hget_def hset_def hdel_def max_def)
  have "content max_yjs (edited, document_db) ''d'' = ''c''" "hydrate max_yjs (stored_state ''d'' document_db) = ''a''" by code_simp+
  with failed_sweep_drops_document [OF e(1,5,2,3), of 900000 "\<lambda>_. False" max_yjs document_db] e(4) show ?thesis
    by (simp add: IDLE_UNLOAD_MS_def)
qed

section \<open>Snapshots\<close>

lemma snapshots_saved: "documentRepo_saveState now i b p s = (r, s') \<Longrightarrow> snapshots s' = snapshots s"
  by (auto simp: documentRepo_saveState_def documentRepo_update_def await_def or_missing_def split: option.splits)

lemma snapshots_persist: "persistNow yj up now i m s = (r, m', s') \<Longrightarrow> snapshots s' = snapshots s"
  by (auto simp: persistNow_def persist_write_def emit_def dest: snapshots_saved
      split: option.splits sum.splits prod.splits if_splits)

lemma snapshots_unload: "unload_loop yj up now ids m s = (r, m', s') \<Longrightarrow> snapshots s' = snapshots s"
  by (induction ids arbitrary: m s)
     (force dest: snapshots_persist split: option.splits sum.splits prod.splits if_splits)+

lemma snapshots_flush: "flush_loop yj up now ids m s = (r, m', s') \<Longrightarrow> snapshots s' = snapshots s"
  by (induction ids arbitrary: m s) (force dest: snapshots_persist split: sum.splits prod.splits)+

lemma snapshots_step: "snapshots (snd (doc_step yj a st)) = snapshots (snd st)"
proof -
  obtain m s where st: "st = (m, s)" by (cases st)
  have rest: "snapshots (snd (snd (persistNow yj up now i m s))) = snapshots s"
    "snapshots (snd (snd (unload_loop yj ups now ids m s))) = snapshots s"
    "snapshots (snd (snd (flush_loop yj ups now ids m s))) = snapshots s" for up ups now i m ids
    by (metis prod.collapse snapshots_persist, metis prod.collapse snapshots_unload, metis prod.collapse snapshots_flush)
  show ?thesis
    by (cases a) (auto simp: st fire_save_def unloadIdle_def onModuleDestroy_def rest split: option.split)
qed

lemma snapshots_run: "snapshots (snd (doc_run yj h st)) = snapshots (snd st)"
  unfolding doc_run_def by (induction h arbitrary: st) (simp_all add: snapshots_step)

lemma doc_run_active:
  assumes "yjs_laws yj" "saved_ok yj st" "\<forall>a\<in>set h. \<forall>i. document_of a = Some i \<longrightarrow> doc_active i (snd st)"
  shows "doc_active j (snd (doc_run yj h st)) = doc_active j (snd st)"
  using assms(2,3)
proof (induction h arbitrary: st)
  case Nil
  then show ?case by (simp add: doc_run_def)
next
  case (Cons a h)
  have "saved_ok yj (doc_step yj a st)" "\<forall>j. doc_active j (snd (doc_step yj a st)) = doc_active j (snd st)"
    using doc_step_ok [OF assms(1) Cons.prems(1), of a] Cons.prems(2) by auto
  with Cons.IH [of "doc_step yj a st"] Cons.prems(2) show ?case by (simp add: doc_run_def)
qed

lemma find_snoc: "find P (xs @ [x]) = (case find P xs of None \<Rightarrow> if P x then Some x else None | Some y \<Rightarrow> Some y)"
  by (induction xs) auto

text \<open>What taking a snapshot does.\<close>

lemma snapshot_created:
  assumes "snapshotService_create yj newId now i dto user m s = (Inr r, m1, s1)" "saved_ok yj (m, s)"
  shows "saved_ok yj (m1, s1) \<and> same_contents yj (m, s) (m1, s1) \<and> doc_active i s \<and>
    documentRepo_findSnapshotById newId i s1 = Some r \<and> snapYjsState r = yEncode yj (content yj (m, s) i) None"
proof -
  from assms(1) have act: "doc_active i s"
    by (auto simp: snapshotService_create_def documentRepo_findActiveById_def doc_active_def split: option.splits)
  let ?m = "getOrLoad yj now i s m"
  from load_ok [OF assms(2) act] have l: "saved_ok yj (?m, s)" "same_contents yj (m, s) (?m, s)" by blast+
  obtain e where e: "hget ?m i = Some e" using loaded by blast
  then have "content yj (?m, s) i = adYdoc e" by (simp add: content_def)
  with l(2) have d: "adYdoc e = content yj (m, s) i" by (simp add: same_contents_def)
  let ?r = "\<lparr>snapId = newId, snapDocumentId = i, snapYjsState = yEncode yj (adYdoc e) None,
     snapName = (case csName dto of None \<Rightarrow> csSnapshotName dto | Some n \<Rightarrow> Some n), snapCreatedBy = user, snapCreatedAt = now\<rparr>"
  from assms(1) e have run: "documentRepo_createSnapshot ?r s = (Inr r, s1\<lparr>events := events s\<rparr>) \<and> r = ?r \<and>
      newId \<notin> snapId ` set (snapshots s) \<and> m1 = ?m \<and> snapshots s1 = snapshots s @ [?r] \<and> documents s1 = documents s"
    by (auto simp: snapshotService_create_def isEmpty_def getStateBytes_def documentRepo_createSnapshot_def or_conflict_def
        insert_row_def emit_def Let_def split: option.splits if_splits bool.splits)
  then have "stored_state j s1 = stored_state j s" "doc_active j s1 = doc_active j s" for j
    by (simp_all add: stored_state_def documentRepo_findWithState_def doc_active_def)
  then have "saved_ok yj (?m, s1) = saved_ok yj (?m, s)" "content yj (?m, s1) j = content yj (?m, s) j"
    "doc_active j s1 = doc_active j s" for j
    by (auto simp: saved_ok_def content_def split: option.split)
  then have same: "saved_ok yj (m1, s1)" "same_contents yj (m, s) (m1, s1)"
    using l run by (simp_all add: same_contents_def)
  have "find (\<lambda>r. snapId r = newId \<and> snapDocumentId r = i) (snapshots s) = None" using run by (auto simp: find_None_iff)
  then have "documentRepo_findSnapshotById newId i s1 = Some r"
    using run by (simp add: documentRepo_findSnapshotById_def find_snoc)
  with same act run d show ?thesis by simp
qed

text \<open>C25: A snapshot restores the text it captured. Whatever is then written to the document, saved, unloaded or
  restarted, restoring the snapshot brings the text of the moment of the capture back, in memory and in the stored row.\<close>

theorem snapshot_restores_text:
  assumes "yjs_laws yj" "saved_ok yj (m, s)" "snapshotService_create yj newId t0 i dto user m s = (Inr r, m1, s1)"
    and "\<forall>a\<in>set h. \<forall>i. document_of a = Some i \<longrightarrow> doc_active i s1" "doc_run yj h (m1, s1) = (m2, s2)"
  shows "\<exists>d m3 s3. snapshotService_restore yj True t1 i newId m2 s2 = (Inr (Some d), m3, s3) \<and> dmId d = i \<and>
    yText yj (content yj (m3, s3) i) = yText yj (content yj (m, s) i) \<and>
    yText yj (hydrate yj (stored_state i s3)) = yText yj (content yj (m, s) i)"
proof -
  note created = snapshot_created [OF assms(3,2)]
  have ok: "saved_ok yj (m2, s2)" "doc_active i s2"
    using doc_run_ok [OF assms(1) _ , of "(m1, s1)" h] doc_run_active [OF assms(1) _, of "(m1, s1)" h i] assms(4,5) created
    by (auto simp: same_contents_def)
  have snap: "documentRepo_findSnapshotById newId i s2 = Some r"
    using created snapshots_run [of yj h "(m1, s1)"] assms(5) by (simp add: documentRepo_findSnapshotById_def)
  from assms(1) created have decoded: "yApply yj (snapYjsState r) (yEmpty yj) = Some (content yj (m, s) i)"
    by (simp add: yjs_laws_def)
  let ?m = "getOrLoad yj t1 i s2 m2"
  let ?t = "yText yj (content yj (m, s) i)"
  from load_ok [OF ok] have l: "saved_ok yj (?m, s2)" by blast
  obtain e where e: "hget ?m i = Some e" using loaded by blast
  let ?e = "(on_update t1 (ySetText yj ?t (adYdoc e)) e)\<lparr>adDirty := True\<rparr>"
  have says: "yText yj (adYdoc ?e) = ?t" using assms(1) by (simp add: on_update_def scheduleSave_def yjs_laws_def) metis
  have l2: "saved_ok yj (hset i ?e ?m, s2)" using l e by (auto simp: saved_ok_def store_simps)
  obtain q m3 s3 where run: "persistNow yj True t1 i (hset i ?e ?m) s2 = (q, m3, s3)" by (metis surj_pair)
  note p = persist_ok [OF assms(1) l2 run]
  have live: "content yj (m3, s3) i = adYdoc ?e" using p by (simp add: same_contents_def content_def store_simps)
  from p have "hydrate yj (stored_state i s3) = content yj (m3, s3) i"
    by (auto simp: saved_ok_def content_def split: option.split)
  moreover from p ok(2) have "doc_active i s3" by (simp add: same_contents_def)
  then obtain d where "documentRepo_findActiveById i s3 = Some d" "dmId d = i"
    by (auto simp: doc_active_def documentRepo_findActiveById_def meta_of_def) (metis (mono_tags, lifting) find_SomeD)
  moreover have "snapshotService_restore yj True t1 i newId m2 s2 = (Inr (documentRepo_findActiveById i s3), m3, s3)"
    using snap decoded e run p by (simp add: snapshotService_restore_def replaceState_def)
  ultimately show ?thesis using live says by simp
qed

theorem snapshot_restores_text_witness:
  "let (r, m1, s1) = snapshotService_create max_yjs ''s'' 5 ''d'' \<lparr>csName = None, csSnapshotName = None\<rparr> ''u'' [] document_db;
       (m2, s2) = doc_run max_yjs [ReceiveUpdate 6 ''d'' ''!z'', Restart 7] (m1, s1);
       (q, m3, s3) = snapshotService_restore max_yjs True 8 ''d'' ''s'' m2 s2
   in content max_yjs (m2, s2) ''d'' = ''z'' \<and> yText max_yjs (content max_yjs (m3, s3) ''d'') = ''a''"
proof -
  let ?dto = "\<lparr>csName = None, csSnapshotName = None\<rparr>"
  obtain q m1 s1 where c: "snapshotService_create max_yjs ''s'' 5 ''d'' ?dto ''u'' [] document_db = (q, m1, s1)"
    by (metis surj_pair)
  have "\<not> isl (fst (snapshotService_create max_yjs ''s'' 5 ''d'' ?dto ''u'' [] document_db))" by code_simp
  with c obtain r where r: "snapshotService_create max_yjs ''s'' 5 ''d'' ?dto ''u'' [] document_db = (Inr r, m1, s1)"
    by (cases q) auto
  note created = snapshot_created [OF r nothing_loaded_ok]
  let ?h = "[ReceiveUpdate 6 ''d'' ''!z'', Restart 7]"
  obtain m2 s2 where run: "doc_run max_yjs ?h (m1, s1) = (m2, s2)" by (metis surj_pair)
  have act: "\<forall>a\<in>set ?h. \<forall>i. document_of a = Some i \<longrightarrow> doc_active i s1" using created by (simp add: same_contents_def)
  have before: "content max_yjs ([], document_db) ''d'' = ''a''" by code_simp
  have "content max_yjs (m2, s2) ''d'' = ''z''"
    using doc_run_ok [OF max_yjs_laws, of "(m1, s1)" ?h "''d''"] act created run before
    by (simp add: same_contents_def max_yjs_merge max_def)
  moreover from snapshot_restores_text [OF max_yjs_laws nothing_loaded_ok r act run, of 8]
  obtain d m3 s3 where "snapshotService_restore max_yjs True 8 ''d'' ''s'' m2 s2 = (Inr (Some d), m3, s3)"
    "yText max_yjs (content max_yjs (m3, s3) ''d'') = yText max_yjs ''a''" using before by auto
  ultimately show ?thesis by (simp add: c run) (simp add: max_yjs_def)
qed

section \<open>The snapshot routes\<close>

text \<open>Capture, listing and restore as the controller wires them: the guards see the workspace of the path, the service does not.\<close>

definition snapshotController_create ::
  "'d yjs \<Rightarrow> crypto \<Rightarrow> (string \<Rightarrow> bool) \<Rightarrow> uuid \<Rightarrow> instant \<Rightarrow> http_request \<Rightarrow> uuid \<Rightarrow> create_snapshot_dto \<Rightarrow> 'd manager \<Rightarrow> db \<Rightarrow>
   (error + snapshot_row) \<times> 'd manager \<times> db" where
  "snapshotController_create yj cr is_uuid newId now rq i dto m s =
     (case workspaceAuth cr is_uuid [Owner, Admin, Member] False now rq s of
        (Inl e, s') \<Rightarrow> (Inl e, m, s')
      | (Inr (user, _), s') \<Rightarrow> snapshotService_create yj newId now i dto (clSub user) m s')"

definition snapshotController_list ::
  "crypto \<Rightarrow> (string \<Rightarrow> bool) \<Rightarrow> instant \<Rightarrow> http_request \<Rightarrow> uuid \<Rightarrow> db \<Rightarrow> (error + snapshot_row list) \<times> db" where
  "snapshotController_list cr is_uuid now rq i s =
     (case workspaceAuth cr is_uuid [Owner, Admin, Member, Viewer] False now rq s of
        (Inl e, s') \<Rightarrow> (Inl e, s')
      | (Inr _, s') \<Rightarrow> (Inr (snapshotService_list i s'), s'))"

definition snapshotController_restore ::
  "'d yjs \<Rightarrow> crypto \<Rightarrow> (string \<Rightarrow> bool) \<Rightarrow> instant \<Rightarrow> http_request \<Rightarrow> uuid \<Rightarrow> uuid \<Rightarrow> 'd manager \<Rightarrow> db \<Rightarrow>
   (error + document_meta option) \<times> 'd manager \<times> db" where
  "snapshotController_restore yj cr is_uuid now rq i snap m s =
     (case workspaceAuth cr is_uuid [Owner, Admin] False now rq s of
        (Inl e, s') \<Rightarrow> (Inl e, m, s')
      | (Inr _, s') \<Rightarrow> snapshotService_restore yj True now i snap m s')"

text \<open>An administrator of one workspace rolls back a document of another one, where the user is not a member.\<close>

definition foreign_db :: db where
  "foreign_db = document_db\<lparr>members := [(sample_member ''mm'' ''m'' Admin)],
     documents := map (\<lambda>d. d\<lparr>docWorkspaceId := ''w2''\<rparr>) (documents document_db),
     snapshots := [\<lparr>snapId = ''s'', snapDocumentId = ''d'', snapYjsState = ''!o'', snapName = None, snapCreatedBy = ''u'', snapCreatedAt = 0\<rparr>]\<rparr>"

lemma restore_ignores_the_workspace:
  "memberRepo_findMember ''w2'' ''m'' foreign_db = None \<and>
   (case snapshotController_restore max_yjs demo_crypto (\<lambda>_. True) 5 demo_request ''d'' ''s'' [] foreign_db of
      (Inr (Some d), m, s) \<Rightarrow> dmWorkspaceId d = ''w2'' \<and> content max_yjs (m, s) ''d'' = ''o''
    | _ \<Rightarrow> False)"
  by code_simp

end
