(* ===== verification/Desk_Properties.thy ===== *)
theory Desk_Properties
  imports Document_Desk Document_Losses Realtime_Properties
begin

text \<open>
  Properties of collaborative editing as the sockets see it (\<open>Document_Gateway\<close>): the lists of editors
  are the sockets in the document rooms and an open document stays loaded, entering a room needs the
  membership, sending an update does not.
\<close>

section \<open>Histories\<close>

definition empty_desk :: "'d desk" where
  "empty_desk = \<lparr>dkHub = empty_hub, dkManager = [], dkEditors = []\<rparr>"

text \<open>
  Every step may see any state of the database, and any write of a save or a sweep may fail. The socket
  library never hands out the id of an open socket.
\<close>

inductive desk_reachable :: "'d yjs \<Rightarrow> crypto \<Rightarrow> (string \<Rightarrow> bool) \<Rightarrow> 'd desk \<Rightarrow> bool" for yj cr is_uuid where
  start: "desk_reachable yj cr is_uuid empty_desk"
| connect: "desk_reachable yj cr is_uuid dk \<Longrightarrow> k \<notin> skId ` set (hubSockets (dkHub dk)) \<Longrightarrow>
    desk_reachable yj cr is_uuid (on_hub (handleConnection cr now s hs k) dk)"
| board: "desk_reachable yj cr is_uuid dk \<Longrightarrow> desk_reachable yj cr is_uuid (on_hub (dispatch is_uuid now suffix s k m) dk)"
| document: "desk_reachable yj cr is_uuid dk \<Longrightarrow> desk_reachable yj cr is_uuid (doc_dispatch yj is_uuid now suffix s k dm dk)"
| gone: "desk_reachable yj cr is_uuid dk \<Longrightarrow> desk_reachable yj cr is_uuid (disconnect now k dk)"
| cleanup: "desk_reachable yj cr is_uuid dk \<Longrightarrow> desk_reachable yj cr is_uuid (on_hub (runPresenceCleanup now) dk)"
| relayed: "desk_reachable yj cr is_uuid dk \<Longrightarrow> desk_reachable yj cr is_uuid (on_hub (broadcast ms) dk)"
| timer: "desk_reachable yj cr is_uuid dk \<Longrightarrow>
    desk_reachable yj cr is_uuid (dk\<lparr>dkManager := fst (fire_save yj up now i (dkManager dk, s))\<rparr>)"
| sweep: "desk_reachable yj cr is_uuid dk \<Longrightarrow>
    desk_reachable yj cr is_uuid (dk\<lparr>dkManager := fst (snd (unloadIdle yj ups now (dkManager dk) s))\<rparr>)"
| saved: "desk_reachable yj cr is_uuid dk \<Longrightarrow> desk_reachable yj cr is_uuid (handleDocumentSaved yj i t dk)"
| captured: "desk_reachable yj cr is_uuid dk \<Longrightarrow>
    desk_reachable yj cr is_uuid (dk\<lparr>dkManager := fst (snd (snapshotService_create yj newId now i dto user (dkManager dk) s))\<rparr>)"
| restored: "desk_reachable yj cr is_uuid dk \<Longrightarrow>
    desk_reachable yj cr is_uuid (dk\<lparr>dkManager := fst (snd (snapshotService_restore yj up now i snap (dkManager dk) s))\<rparr>)"

lemma manager_step: "desk_ok dk \<Longrightarrow> linked m = linked (dkManager dk) \<Longrightarrow> desk_ok (dk\<lparr>dkManager := m\<rparr>)"
  by (erule desk_ok_hub) simp_all

lemma linked_steps:
  "linked (fst (snd (unloadIdle yj ups now m s))) = linked m"
  "linked (fst (snd (snapshotService_create yj newId now i dto user m s))) = linked m"
  "linked (fst (snd (snapshotService_restore yj up now i snap m s))) = linked m"
proof -
  obtain r m' s' where "unload_loop yj ups now (map fst m) m s = (r, m', s')" by (metis surj_pair)
  with linked_unload [OF this] show "linked (fst (snd (unloadIdle yj ups now m s))) = linked m" by (simp add: unloadIdle_def)
  show "linked (fst (snd (snapshotService_create yj newId now i dto user m s))) = linked m"
    by (simp add: snapshotService_create_def Let_def split: option.split bool.split sum.split prod.split)
  have replace: "linked (fst (snd (replaceState yj up now i bytes m s))) = linked m" for bytes
  proof (cases "yApply yj bytes (yEmpty yj)")
    case None
    then show ?thesis by (simp add: replaceState_def)
  next
    case (Some d)
    let ?m = "getOrLoad yj now i s m"
    obtain e where e: "hget ?m i = Some e" using getOrLoad_loads by blast
    let ?e = "(on_update now (ySetText yj (yText yj d) (adYdoc e)) e)\<lparr>adDirty := True\<rparr>"
    have "linked (hset i ?e ?m) = linked ?m"
      using e by (intro linked_same) (auto simp: store_simps on_update_def scheduleSave_def)
    moreover obtain q m1 s1 where run: "persistNow yj up now i (hset i ?e ?m) s = (q, m1, s1)" by (metis surj_pair)
    ultimately show ?thesis using linked_persist [OF run] Some e run by (simp add: replaceState_def Let_def)
  qed
  show "linked (fst (snd (snapshotService_restore yj up now i snap m s))) = linked m"
    using replace by (auto simp: snapshotService_restore_def split: option.split prod.split sum.split) (metis fst_conv snd_conv)+
qed

lemma desk_reachable_ok: "desk_reachable yj cr is_uuid dk \<Longrightarrow> \<not> is_uuid [] \<Longrightarrow> desk_ok dk"
proof (induction rule: desk_reachable.induct)
  case start
  show ?case by (simp add: empty_desk_def empty_hub_def desk_ok_def listed_def linked_def seats_def editor_at_def editors_of_def)
next
  case (connect dk k now s hs)
  then show ?case by (simp add: connect_desk_ok)
next
  case (board dk now suffix s k m)
  then show ?case by (intro on_hub_ok dispatch_views) simp
next
  case (cleanup dk now)
  then show ?case by (intro on_hub_ok) (simp_all add: doc_views_def core_proj core_cleanup)
next
  case (relayed dk ms)
  then show ?case by (intro on_hub_core core_broadcast) simp
next
  case (saved dk i t)
  then show ?case unfolding handleDocumentSaved_def by (intro on_hub_core) (simp_all split: option.split)
qed (simp_all add: doc_dispatch_ok disconnect_desk_ok manager_step linked_steps)

text \<open>A document's editor list has one entry per socket.\<close>

definition lists_ok :: "editors \<Rightarrow> bool" where
  "lists_ok ed \<longleftrightarrow> (\<forall>d. keys_distinct (editors_of d ed))"

lemma lists_add: "lists_ok ed \<Longrightarrow> lists_ok (addEditor d k info ed)"
  by (auto simp: lists_ok_def addEditor_def editors_of_def store_simps hs.ok_put split: option.splits)

lemma lists_remove: "lists_ok ed \<Longrightarrow> lists_ok (snd (removeEditor d k ed))"
  unfolding lists_ok_def removeEditor_def Let_def
proof (cases "hget ed d")
  case (Some m)
  assume "\<forall>d. keys_distinct (editors_of d ed)"
  then have ok: "keys_distinct m" "\<And>d'. keys_distinct (editors_of d' ed)" using Some by (auto simp: editors_of_def dest: spec [of _ d])
  have nil: "keys_distinct []" by (simp add: keys_distinct_def)
  have "keys_distinct (hdel k m)" using ok(1) by (rule hs.ok_del)
  with ok(2) nil Some show "\<forall>d'. keys_distinct (editors_of d' (snd (case hget ed d of None \<Rightarrow> (None, ed)
      | Some m \<Rightarrow> (hget m k, if hdel k m = [] then hdel d ed else hset d (hdel k m) ed))))"
    by (auto simp: editors_of_def store_simps)
qed simp

lemma lists_leave: "lists_ok (dkEditors dk) \<Longrightarrow> lists_ok (dkEditors (leaveDocument now k d dk))"
  by (simp add: lists_remove)

lemma lists_enter: "lists_ok (dkEditors dk) \<Longrightarrow> lists_ok (dkEditors (enterDocument yj now k user current d v s dk))"
  using enter_parts(3) [of user yj now k current d v s dk] by (auto simp: lists_add lists_remove split: if_splits)

lemma lists_dispatch:
  assumes "lists_ok (dkEditors dk)"
  shows "lists_ok (dkEditors (doc_dispatch yj is_uuid now suffix s k m dk))"
proof -
  have "lists_ok (dkEditors (doc_handle yj now x c m s (on_hub (\<lambda>h. h\<lparr>hubLimiter := L\<rparr>) dk)))" for x c L
    using assms by (cases m) (auto simp: docGateway_handleJoin_def docGateway_handleUpdate_def docGateway_handleAwareness_def
        lists_enter lists_remove split: option.split)
  with doc_dispatch_cases [of yj is_uuid now suffix s k m dk] assms show ?thesis by fastforce
qed

lemma desk_reachable_lists: "desk_reachable yj cr is_uuid dk \<Longrightarrow> lists_ok (dkEditors dk)"
proof (induction rule: desk_reachable.induct)
  case start
  show ?case by (simp add: empty_desk_def lists_ok_def editors_of_def keys_distinct_def)
next
  case (gone dk now k)
  then show ?case by (auto simp: disconnect_def docGateway_handleDisconnect_def lists_remove split: option.split)
qed (simp_all add: lists_dispatch handleDocumentSaved_def)

lemma listed_editors:
  "lists_ok ed \<Longrightarrow> info \<in> set (getEditors d ed) \<longleftrightarrow> (\<exists>k. editor_at ed d k = Some info)"
  by (force simp: lists_ok_def getEditors_def editor_at_def hget_def keys_distinct_def)

section \<open>Properties\<close>


text \<open>A concrete desk: a member of the workspace opens the document.\<close>

definition doc_desk :: "string desk" where
  "doc_desk = doc_dispatch max_yjs (\<lambda>i. i \<noteq> []) 0 ''x'' document_db ''k1'' (DocJoin ''d'' ''w'' None)
     (on_hub (\<lambda>_. one_hub) empty_desk)"

lemma first_desk: "on_hub (\<lambda>_. one_hub) empty_desk = on_hub (handleConnection demo_crypto 0 sample_db \<lparr>hsAuthToken = Some ''t'', hsAuthorization = None\<rparr> ''k1'') empty_desk"
  by (simp add: on_hub_def empty_desk_def one_hub_def)

lemma first_desk_reachable: "desk_reachable yj demo_crypto is_uuid (on_hub (\<lambda>_. one_hub) empty_desk)"
  unfolding first_desk by (intro desk_reachable.connect desk_reachable.start) (simp add: empty_desk_def empty_hub_def)

lemma doc_desk_reachable: "desk_reachable max_yjs demo_crypto (\<lambda>i. i \<noteq> []) doc_desk"
  unfolding doc_desk_def by (intro desk_reachable.document first_desk_reachable)

definition doc_socket :: socket where
  "doc_socket = \<lparr>skId = ''k1'', skUser = Some demo_claims, skBoard = None, skWorkspace = None, skDocument = Some ''d'',
     skRooms = [''document:d'', ''user:m'']\<rparr>"

lemma doc_desk_sockets: "hubSockets (dkHub doc_desk) = [doc_socket]"
proof -
  let ?dk = "on_hub (\<lambda>_. one_hub) empty_desk :: string desk"
  have rate: "wsRateLimitGuard_canActivate 0 ''x'' (Some DOC_JOINS) (Some ''m'') (\<lambda>_. None) =
      (Inr True, snd (checkRateLimit 0 ''x'' ''m'' ''join'' 10 60000 (\<lambda>_. None)))"
    by (simp add: wsRateLimitGuard_canActivate_def DOC_JOINS_def checkRateLimit_def live_window_def Let_def
        zremrangebyscore_def zadd_def zcard_def zrem_def)
  have guards: "wsAuthGuard_canActivate 0 (Some (socket_user_of demo_claims)) document_db = None"
    "join_check ''d'' ''w'' demo_claims document_db = None" by code_simp+
  obtain L where L: "doc_desk = enterDocument max_yjs 0 ''k1'' demo_claims None ''d'' None document_db (on_hub (\<lambda>h. h\<lparr>hubLimiter := L\<rparr>) ?dk)"
    using rate guards by (simp add: doc_desk_def doc_dispatch_def one_hub_eq find_socket_def empty_hub_def demo_claims_def
        docGateway_handleJoin_def)
  have "hubSockets (dkHub doc_desk) = at_socket ''k1'' (joined_doc ''d'') (hubSockets one_hub)"
    unfolding L enter_parts by (simp add: truthy_def)
  then show ?thesis
    by (simp add: one_hub_eq empty_hub_def at_socket_def joined_doc_def doc_socket_def document_room_def sadd_def)
qed


lemma doc_room_change:
  assumes "y \<in> set (at_socket k f xs)" "\<And>z. skId (f z) = skId z"
    and "\<forall>x\<in>set xs. skId x = skId y \<longrightarrow> document_room d \<notin> set (skRooms x)" "document_room d \<in> set (skRooms y)"
  obtains z where "z \<in> set xs" "y = f z" "skId z = k"
proof -
  from assms(1) obtain z where z: "z \<in> set xs" "y = (if skId z = k then f z else z)" by (auto simp: at_socket_def)
  with assms(2-4) that show thesis by (cases "skId z = k") auto
qed

text \<open>The only way into the room of a document is its join message, sent by that very socket: at that moment
  the socket's token is not blacklisted, the document is active and belongs to the workspace the message names, and the
  socket's user is a member of that workspace.\<close>

theorem document_room_needs_membership:
  assumes "desk_reachable yj cr is_uuid dk" "\<not> is_uuid []"
    and "y \<in> set (hubSockets (dkHub (doc_dispatch yj is_uuid now suffix s k m dk)))" "document_room d \<in> set (skRooms y)"
    and "\<forall>x\<in>set (hubSockets (dkHub dk)). skId x = skId y \<longrightarrow> document_room d \<notin> set (skRooms x)"
  shows "skId y = k \<and> (\<exists>w v c doc mem. m = DocJoin d w v \<and> skUser y = Some c \<and>
    (clJti c \<noteq> [] \<longrightarrow> \<not> isBlacklisted now (clJti c) s) \<and> documentRepo_findActiveById d s = Some doc \<and>
    dmWorkspaceId doc = w \<and> memberRepo_findMember w (clSub c) s = Some mem)"
proof -
  from desk_reachable_ok [OF assms(1,2)] have ok: "desk_ok dk" .
  let ?xs = "hubSockets (dkHub dk)"
  let ?out = "doc_dispatch yj is_uuid now suffix s k m dk"
  have changed: "doc_views (dkHub ?out) \<noteq> doc_views (dkHub dk)"
  proof
    assume "doc_views (dkHub ?out) = doc_views (dkHub dk)"
    then have same: "set (map doc_view (hubSockets (dkHub ?out))) = set (map doc_view ?xs)" unfolding doc_views_def by simp
    from assms(3) have "doc_view y \<in> set (map doc_view (hubSockets (dkHub ?out)))" by simp
    then obtain x where "x \<in> set ?xs" "doc_view y = doc_view x" unfolding same by auto
    with assms(4,5) show False by (auto simp: doc_view_def)
  qed
  with doc_dispatch_cases [of yj is_uuid now suffix s k m dk] obtain x c L where x: "find_socket k (dkHub dk) = Some x"
    "skUser x = Some c" "wsAuthGuard_canActivate now (Some (socket_user_of c)) s = None" "valid_doc_message is_uuid m"
    and run: "?out = doc_handle yj now x c m s (on_hub (\<lambda>h. h\<lparr>hubLimiter := L\<rparr>) dk)" by blast
  let ?dk = "on_hub (\<lambda>h. h\<lparr>hubLimiter := L\<rparr>) dk"
  from find_socket_Some [OF x(1)] have k: "skId x = k" "x \<in> set ?xs" by auto
  have quiet: "False" if "hubSockets (dkHub ?out) = ?xs" using that changed by (simp add: doc_views_def)
  show ?thesis
  proof (cases m)
    case (DocUpdate d' u)
    with run k have "hubSockets (dkHub ?out) = ?xs"
      by (simp add: docGateway_handleUpdate_def ws_error_def emit_client_def emit_others_def split: option.split)
    then show ?thesis using quiet by blast
  next
    case (DocAwareness d' a)
    with run k have "hubSockets (dkHub ?out) = ?xs" by (simp add: docGateway_handleAwareness_def emit_others_def)
    then show ?thesis using quiet by blast
  next
    case (DocLeave d')
    with run k assms(3) have "y \<in> set (at_socket k (left_doc d') ?xs)" by simp
    from doc_room_change [OF this doc_moves(1) assms(5,4)] obtain z where "z \<in> set ?xs" "y = left_doc d' z" "skId z = k" .
    with assms(4,5) show ?thesis by (auto simp: left_doc_def)
  next
    case (DocJoin d' w v)
    have check: "join_check d' w c s = None"
    proof (rule ccontr)
      assume "join_check d' w c s \<noteq> None"
      with run k DocJoin have "hubSockets (dkHub ?out) = ?xs"
        by (auto simp: docGateway_handleJoin_def ws_error_def emit_client_def)
      then show False using quiet by blast
    qed
    let ?e = "if truthy (skDocument x) \<and> skDocument x \<noteq> Some d' then leaveDocument now k (the (skDocument x)) ?dk else ?dk"
    have "hubSockets (dkHub ?out) = at_socket k (joined_doc d') (hubSockets (dkHub ?e))"
      using run k DocJoin check by (simp add: docGateway_handleJoin_def enter_parts)
    also have "\<dots> = at_socket k (\<lambda>z. joined_doc d' (if truthy (skDocument x) \<and> skDocument x \<noteq> Some d'
        then left_doc (the (skDocument x)) z else z)) ?xs"
      using at_socket_twice [of "left_doc (the (skDocument x))" k "joined_doc d'" ?xs]
      by (cases "truthy (skDocument x) \<and> skDocument x \<noteq> Some d'") (simp_all only: if_True if_False leave_parts on_hub_parts
          limiter_sockets doc_moves simp_thms)
    finally have "y \<in> set (at_socket k (\<lambda>z. joined_doc d' (if truthy (skDocument x) \<and> skDocument x \<noteq> Some d'
        then left_doc (the (skDocument x)) z else z)) ?xs)" using assms(3) by simp
    note mem = this
    obtain z where z: "z \<in> set ?xs" "skId z = k"
      "y = joined_doc d' (if truthy (skDocument x) \<and> skDocument x \<noteq> Some d' then left_doc (the (skDocument x)) z else z)"
      by (rule doc_room_change [OF mem _ assms(5,4)]) (simp, blast)
    from ok z k have "z = x" by (auto simp: desk_ok_def distinct_map inj_on_def)
    with z k x(2) have id: "skId y = k" "skUser y = Some c" by simp_all
    have "d' = d"
    proof (rule ccontr)
      assume "d' \<noteq> d"
      with z(3) assms(4) have "document_room d \<in> set (skRooms z)"
        by (auto simp: joined_doc_def left_doc_def split: if_splits)
      with z(1,2) id assms(5) show False by auto
    qed
    moreover have "w \<noteq> []" using x(4) DocJoin assms(2) by auto
    ultimately show ?thesis using DocJoin x(3) check id
      by (auto simp: join_check_def documentService_findById_def workspaceService_isUserMember_def wsAuthGuard_canActivate_def
          socket_user_of_def truthy_def split: if_splits option.splits)
  qed
qed

theorem document_room_needs_membership_witness:
  "\<exists>doc mem. documentRepo_findActiveById ''d'' document_db = Some doc \<and> dmWorkspaceId doc = ''w'' \<and>
    memberRepo_findMember ''w'' ''m'' document_db = Some mem"
proof -
  let ?dk = "on_hub (\<lambda>_. one_hub) empty_desk :: string desk"
  have "doc_socket \<in> set (hubSockets (dkHub (doc_dispatch max_yjs (\<lambda>i. i \<noteq> []) 0 ''x'' document_db ''k1'' (DocJoin ''d'' ''w'' None) ?dk)))"
    using doc_desk_sockets unfolding doc_desk_def by simp
  moreover have "document_room ''d'' \<in> set (skRooms doc_socket)" "skUser doc_socket = Some demo_claims" "clSub demo_claims = ''m''"
    by (simp_all add: doc_socket_def document_room_def demo_claims_def)
  moreover have "\<forall>x\<in>set (hubSockets (dkHub ?dk)). skId x = skId doc_socket \<longrightarrow> document_room ''d'' \<notin> set (skRooms x)"
    by (simp add: one_hub_eq empty_hub_def document_room_def)
  moreover note document_room_needs_membership [OF first_desk_reachable, of "\<lambda>i. i \<noteq> []" doc_socket max_yjs 0 "''x''" document_db
      "''k1''" "DocJoin ''d'' ''w'' None" "''d''"]
  ultimately have "\<exists>c doc mem. skUser doc_socket = Some c \<and> documentRepo_findActiveById ''d'' document_db = Some doc \<and>
      dmWorkspaceId doc = ''w'' \<and> memberRepo_findMember ''w'' (clSub c) document_db = Some mem"
    by blast
  then show ?thesis by (simp add: doc_socket_def demo_claims_def)
qed

text \<open>Changing a document needs no access to it. A connected socket with a verified user, within the rate limit, may send
  an update for any document: it is merged into the document and sent to every other socket in its room,
  whether or not the sender is in the room or a member of the workspace.\<close>

theorem update_needs_no_access:
  assumes "find_socket k (dkHub dk) = Some x" "skUser x = Some c" "wsAuthGuard_canActivate now (Some (socket_user_of c)) s = None"
    and "fst (wsRateLimitGuard_canActivate now suffix (Some DOC_UPDATE) (Some (clSub c)) (hubLimiter (dkHub dk))) = Inr True"
    and "is_uuid d" "y \<in> set (hubSockets (dkHub dk))" "skId y \<noteq> k" "document_room d \<in> set (skRooms y)"
  shows "let dk' = doc_dispatch yj is_uuid now suffix s k (DocUpdate d (Some u)) dk in
    content yj (dkManager dk', s) d = merge yj u (content yj (dkManager dk, s) d) \<and>
    (skId y, ''doc:update'', [(''documentId'', WString d), (''update'', WString u)]) \<in> set (hubSent (dkHub dk'))"
proof -
  obtain L where L: "wsRateLimitGuard_canActivate now suffix (Some DOC_UPDATE) (Some (clSub c)) (hubLimiter (dkHub dk)) = (Inr True, L)"
    using assms(4) by (cases "wsRateLimitGuard_canActivate now suffix (Some DOC_UPDATE) (Some (clSub c)) (hubLimiter (dkHub dk))") simp
  have k: "skId x = k" using find_socket_Some [OF assms(1)] by simp
  have run: "doc_dispatch yj is_uuid now suffix s k (DocUpdate d (Some u)) dk =
      docGateway_handleUpdate yj now k d (Some u) s (on_hub (\<lambda>h. h\<lparr>hubLimiter := L\<rparr>) dk)"
    using assms(1-5) L k by (simp add: doc_dispatch_def)
  have "content yj (applyUpdate yj now d u (getOrLoad yj now d s (dkManager dk)), s) d = merge yj u (content yj (dkManager dk, s) d)"
    by (auto simp: content_def applyUpdate_def getOrLoad_def on_update_def scheduleSave_def merge_def new_entry_def store_simps
        split: option.split)
  then show ?thesis
    unfolding run docGateway_handleUpdate_def Let_def
    using assms(6-8) by (simp add: emit_others_def in_room_def)
qed

definition shared_desk :: "string desk" where
  "shared_desk = doc_desk\<lparr>dkHub := empty_hub\<lparr>hubSockets := [doc_socket, \<lparr>skId = ''k2'', skUser = Some stranger, skBoard = None,
     skWorkspace = None, skDocument = None, skRooms = [''user:x'']\<rparr>]\<rparr>\<rparr>"

theorem update_needs_no_access_witness:
  "memberRepo_findMember ''w'' ''x'' document_db = None \<and>
   (''k1'', ''doc:update'', [(''documentId'', WString ''d''), (''update'', WString ''!z'')]) \<in>
     set (hubSent (dkHub (doc_dispatch max_yjs (\<lambda>i. i \<noteq> []) 0 ''r'' document_db ''k2'' (DocUpdate ''d'' (Some ''!z'')) shared_desk)))"
proof -
  let ?x = "\<lparr>skId = ''k2'', skUser = Some stranger, skBoard = None, skWorkspace = None, skDocument = None, skRooms = [''user:x'']\<rparr>"
  have "find_socket ''k2'' (dkHub shared_desk) = Some ?x" "doc_socket \<in> set (hubSockets (dkHub shared_desk))"
    by (simp_all add: find_socket_def shared_desk_def doc_socket_def)
  moreover have "wsAuthGuard_canActivate 0 (Some (socket_user_of stranger)) document_db = None"
    "memberRepo_findMember ''w'' ''x'' document_db = None" by code_simp+
  moreover have "fst (wsRateLimitGuard_canActivate 0 ''r'' (Some DOC_UPDATE) (Some (clSub stranger)) (hubLimiter (dkHub shared_desk))) = Inr True"
    by (simp add: wsRateLimitGuard_canActivate_def DOC_UPDATE_def checkRateLimit_def live_window_def Let_def
        zremrangebyscore_def zadd_def zcard_def zrem_def stranger_def demo_claims_def shared_desk_def empty_hub_def)
  ultimately show ?thesis
    using update_needs_no_access [of "''k2''" shared_desk ?x stranger 0 document_db "''r''" "\<lambda>i. i \<noteq> []" "''d''" doc_socket max_yjs "''!z''"]
    by (simp add: Let_def) (simp add: doc_socket_def document_room_def)
qed

text \<open>
  The socket closes while its join waits for the database: the disconnection finds no document to leave, the
  join then goes on, and the user stays among the editors without a socket.
\<close>

lemma late_join_leaves_a_ghost:
  "let dk1 = disconnect 0 ''k1'' (on_hub (\<lambda>_. one_hub) empty_desk);
       dk2 = enterDocument max_yjs 1 ''k1'' demo_claims None ''d'' None document_db dk1
   in hubSockets (dkHub dk2) = [] \<and> edUserId ` set (getEditors ''d'' (dkEditors dk2)) = {''m''} \<and>
      linked (dkManager dk2) = {(''d'', ''k1'')}"
proof -
  let ?dk = "disconnect 0 ''k1'' (on_hub (\<lambda>_. one_hub) empty_desk :: string desk)"
  have parts: "hubSockets (dkHub ?dk) = []" "dkEditors ?dk = []" "dkManager ?dk = []"
    by (simp_all add: disconnect_def docGateway_handleDisconnect_def one_hub_eq find_socket_def empty_hub_def
        handleDisconnect_sockets empty_desk_def)
  obtain info where info: "edUserId info = ''m''"
    "dkEditors (enterDocument max_yjs 1 ''k1'' demo_claims None ''d'' None document_db ?dk) = addEditor ''d'' ''k1'' info []"
    using enter_parts(3) [of demo_claims max_yjs 1 "''k1''" None "''d''" None document_db ?dk] parts
    by (auto simp: truthy_def demo_claims_def)
  obtain e where "hget (getOrLoad max_yjs 1 ''d'' document_db []) ''d'' = Some e" using getOrLoad_loads by blast
  then have "linked (addConnection ''d'' ''k1'' (getOrLoad max_yjs 1 ''d'' document_db [])) = {(''d'', ''k1'')}"
    by (simp add: linked_add) (simp add: linked_def)
  with info parts show ?thesis
    by (simp add: Let_def enter_parts truthy_def at_socket_def)
       (simp add: getEditors_def addEditor_def editors_of_def hset_def hget_def)
qed

end
