(* ===== verification/Decimals.thy ===== *)
theory Decimals
  imports Collaborator_Color Js_Text
begin

text \<open>
  Decimal numerals as the code reads and writes them: \<open>show_nat\<close> prints without leading zeros, \<open>padded\<close>
  to a fixed width, \<open>read_nat\<close> reads either; anything but digits is no number.
\<close>

fun read_digits :: "nat \<Rightarrow> string \<Rightarrow> nat option" where
  "read_digits n [] = Some n"
| "read_digits n (c # cs) = (if is_digit c then read_digits (10 * n + (of_char c - 48)) cs else None)"

definition read_nat :: "string \<Rightarrow> nat option" where
  "read_nat t = (if t = [] then None else read_digits 0 t)"

lemma read_digits_append: "read_digits n (xs @ [c]) = (case read_digits n xs of None \<Rightarrow> None
    | Some m \<Rightarrow> if is_digit c then Some (10 * m + (of_char c - 48)) else None)"
  by (induction xs arbitrary: n) auto

lemma digit_char: "n < 10 \<Longrightarrow> is_digit (char_of (48 + n :: nat)) \<and> of_char (char_of (48 + n) :: char) - (48 :: nat) = n"
  by (simp add: is_digit_def code_def take_bit_eq_mod)

lemma read_show: "read_digits 0 (show_nat n) = Some n"
proof (induction n rule: show_nat.induct)
  case (1 n)
  show ?case
  proof (cases "n < 10")
    case True
    with digit_char [of n] show ?thesis by (simp add: show_nat.simps [of n])
  next
    case False
    with 1 digit_char [of "n mod 10"] show ?thesis by (simp add: show_nat.simps [of n] read_digits_append)
  qed
qed

lemma show_nat_nonempty [simp]: "show_nat n \<noteq> []"
  by (simp add: show_nat.simps [of n])

lemma read_nat_show [simp]: "read_nat (show_nat n) = Some n"
  by (simp add: read_nat_def read_show)

section \<open>Numerals without leading zeros\<close>

lemma digit_of_value: "is_digit c \<Longrightarrow> char_of (48 + (of_char c - 48) :: nat) = c \<and> of_char c - 48 < (10 :: nat)"
  by (auto simp: is_digit_def code_def)

lemma of_char_zero: "of_char c = (48 :: nat) \<longleftrightarrow> c = CHR ''0''"
proof -
  have "of_char CHR ''0'' = (48 :: nat)" by simp
  then show ?thesis by (metis of_char_eq_iff)
qed

lemma read_digits_None_iff: "read_digits n t \<noteq> None \<longleftrightarrow> list_all is_digit t"
  by (induction t arbitrary: n) auto

lemma show_read:
  assumes "list_all is_digit t" "t \<noteq> []" "hd t \<noteq> CHR ''0''" "read_digits 0 t = Some n"
  shows "show_nat n = t \<and> 0 < n"
  using assms
proof (induction t arbitrary: n rule: rev_induct)
  case (snoc c t)
  then have c: "is_digit c" by simp
  from digit_of_value [OF c] have d: "char_of (48 + (of_char c - 48) :: nat) = c" "of_char c - 48 < (10 :: nat)" by auto
  show ?case
  proof (cases "t = []")
    case True
    with snoc.prems have "n = of_char c - 48" "c \<noteq> CHR ''0''" by (auto simp: split: if_splits)
    moreover from this have "0 < n" using c of_char_zero [of c] by (auto simp: is_digit_def code_def)
    ultimately show ?thesis using d True by (simp add: show_nat.simps [of "of_char c - 48"])
  next
    case False
    from snoc.prems(4) c obtain m where m: "read_digits 0 t = Some m" "n = 10 * m + (of_char c - 48)"
      by (auto simp: read_digits_append split: option.splits)
    from snoc.IH [OF _ False _ m(1)] snoc.prems False have "show_nat m = t \<and> 0 < m" by simp
    moreover have "n div 10 = m" "n mod 10 = of_char c - 48" "\<not> n < 10" using m(2) d(2) calculation by simp_all
    ultimately show ?thesis using d(1) by (simp only: show_nat.simps [of n] if_False) simp
  qed
qed simp

lemma show_nat_digits: "list_all is_digit (show_nat n)"
  using read_digits_None_iff [of 0 "show_nat n"] by (simp add: read_show)

lemma hd_show_nat: "0 < n \<Longrightarrow> hd (show_nat n) \<noteq> CHR ''0''"
proof (induction n rule: show_nat.induct)
  case (1 n)
  show ?case
  proof (cases "n < 10")
    case True
    with 1 digit_char [OF True] show ?thesis by (auto simp: show_nat.simps [of n] dest: arg_cong [of _ _ "of_char :: char \<Rightarrow> nat"])
  next
    case False
    with 1 show ?thesis by (simp add: show_nat.simps [of n])
  qed
qed

lemma length_show_nat: "n < 10 ^ k \<Longrightarrow> 0 < k \<Longrightarrow> length (show_nat n) \<le> k"
proof (induction k arbitrary: n)
  case (Suc k)
  show ?case
  proof (cases "n < 10")
    case True
    then show ?thesis by (simp add: show_nat.simps [of n])
  next
    case False
    with Suc.prems have "0 < k" "n div 10 < 10 ^ k" by (cases k; simp)+
    from Suc.IH [OF this(2,1)] False show ?thesis by (simp add: show_nat.simps [of n])
  qed
qed simp

section \<open>Padded numerals\<close>

fun padded :: "nat \<Rightarrow> nat \<Rightarrow> string" where
  "padded 0 n = []"
| "padded (Suc w) n = padded w (n div 10) @ [char_of (48 + n mod 10)]"

lemma length_padded [simp]: "length (padded w n) = w"
  by (induction w arbitrary: n) auto

lemma padded_digits: "list_all is_digit (padded w n)"
proof (induction w arbitrary: n)
  case (Suc w)
  with digit_char [of "n mod 10"] show ?case by simp
qed simp

lemma read_padded: "n < 10 ^ w \<Longrightarrow> read_digits 0 (padded w n) = Some n"
proof (induction w arbitrary: n)
  case (Suc w)
  then have "n div 10 < 10 ^ w" by (simp add: less_mult_imp_div_less mult.commute)
  with Suc.IH [OF this] digit_char [of "n mod 10"] show ?case by (simp add: read_digits_append)
qed simp

end
