(* ===== verification/Notifications.thy ===== *)
theory Notifications
  imports Board_Gateway Comments Decimals
begin

text \<open>
  Notifications (\<open>src/modules/notification/\<close>): the repository, the service with its cached unread counter,
  the producer that turns domain events into messages and the consumer that stores them. The broker's
  envelope is a message id with a payload; the key-value store and the socket server are assumed to answer,
  so the handlers that only log their failure have none; the database write may fail.
\<close>

section \<open>NotificationRepository\<close>

definition unreadCountKey :: "uuid \<Rightarrow> string" where
  "unreadCountKey user = ''notifications:unread:'' @ user"

text \<open>
  \<open>createManyAndReturn\<close> with \<open>skipDuplicates\<close>: a row that clashes on the id or on the message and the user is
  skipped, a missing user or workspace or a title over the column's length is an error, as is a database that is down.
\<close>

definition notificationRepo_createOnce :: "bool \<Rightarrow> notification_row \<Rightarrow> db \<Rightarrow> notification_row option outcome" where
  "notificationRepo_createOnce up n s =
     (if \<not> up then (Inl (PrismaError ''P1001''), s)
      else if 300 < length (ntfTitle n) then (Inl (PrismaError ''P2000''), s)
      else if list_ex (\<lambda>r. ntfId r = ntfId n \<or> (ntfMessageId r = ntfMessageId n \<and> ntfUserId r = ntfUserId n)) (notifications s)
        then (Inr None, s)
      else if \<not> list_ex (\<lambda>u. userId u = ntfUserId n) (users s) \<or> \<not> list_ex (\<lambda>w. wsId w = ntfWorkspaceId n) (workspaces s)
        then (Inl (PrismaError ''P2003''), s)
      else (Inr (Some n), s\<lparr>notifications := notifications s @ [n]\<rparr>))"

record notification_query =
  nqCursor :: "uuid option"
  nqLimit :: "nat option"
  nqUnreadOnly :: "bool option"

definition notificationRepo_findPageForUser :: "uuid \<Rightarrow> notification_query \<Rightarrow> db \<Rightarrow> error + notification_row page" where
  "notificationRepo_findPageForUser user q s =
     (let limit = (case nqLimit q of None \<Rightarrow> 20 | Some n \<Rightarrow> n);
          boundary = (if truthy (nqCursor q)
                      then find (\<lambda>n. ntfId n = the (nqCursor q) \<and> ntfUserId n = user) (notifications s) else None)
      in if truthy (nqCursor q) \<and> boundary = None then Inl (BadRequest ''Invalid notification cursor'')
         else Inr (buildCursorPagination ntfId
           (take (Suc limit) (order_desc (\<lambda>n. (ntfCreatedAt n, ntfId n))
             (filter (\<lambda>n. ntfUserId n = user \<and> (nqUnreadOnly q = Some True \<longrightarrow> \<not> ntfIsRead n) \<and>
                (case boundary of
                   None \<Rightarrow> True
                 | Some b \<Rightarrow> ntfCreatedAt n < ntfCreatedAt b \<or> (ntfCreatedAt n = ntfCreatedAt b \<and> ntfId n < ntfId b)))
               (notifications s)))) limit))"

definition notificationRepo_countUnread :: "uuid \<Rightarrow> db \<Rightarrow> nat" where
  "notificationRepo_countUnread user s = length (filter (\<lambda>n. ntfUserId n = user \<and> \<not> ntfIsRead n) (notifications s))"

definition mark_read :: "instant \<Rightarrow> notification_row \<Rightarrow> notification_row" where
  "mark_read now n = n\<lparr>ntfIsRead := True, ntfReadAt := Some now\<rparr>"

definition notificationRepo_markRead :: "instant \<Rightarrow> uuid \<Rightarrow> uuid \<Rightarrow> db \<Rightarrow> (notification_row \<times> bool) option outcome" where
  [op_defs]: "notificationRepo_markRead now user i s =
     (case find (\<lambda>n. ntfId n = i \<and> ntfUserId n = user) (notifications s) of
        None \<Rightarrow> (Inr None, s)
      | Some current \<Rightarrow>
          if ntfIsRead current then (Inr (Some (current, False)), s)
          else or_missing (update_by ntfId i (mark_read now) (notifications s))
                 (\<lambda>(row, rows) s. (Inr (Some (row, True)), s\<lparr>notifications := rows\<rparr>)) s)"

definition notificationRepo_markAllRead :: "instant \<Rightarrow> uuid \<Rightarrow> db \<Rightarrow> db" where
  "notificationRepo_markAllRead now user s =
     s\<lparr>notifications := update_many (\<lambda>n. ntfUserId n = user \<and> \<not> ntfIsRead n) (mark_read now) (notifications s)\<rparr>"

definition notificationRepo_deleteReadOlderThan :: "instant \<Rightarrow> db \<Rightarrow> nat \<times> db" where
  "notificationRepo_deleteReadOlderThan cutoff s =
     (let old = (\<lambda>n. ntfIsRead n \<and> ntfCreatedAt n < cutoff)
      in (length (filter old (notifications s)), s\<lparr>notifications := filter (\<lambda>n. \<not> old n) (notifications s)\<rparr>))"

text \<open>The monthly task keeps ninety days.\<close>

definition purgeOldRead :: "instant \<Rightarrow> db \<Rightarrow> db" where
  "purgeOldRead now s = snd (notificationRepo_deleteReadOlderThan (now - 90 * 24 * 60 * 60 * 1000) s)"

section \<open>The counter\<close>

text \<open>\<open>INCR\<close> and \<open>DECR\<close> keep the expiry of the key; a missing key counts as zero and does not expire.\<close>

definition no_expiry :: instant where "no_expiry = 9007199254740991"

definition redis_add :: "instant \<Rightarrow> int \<Rightarrow> string \<Rightarrow> db \<Rightarrow> db" where
  "redis_add now d k s =
     (case redis_get now k s of
        None \<Rightarrow> s\<lparr>redis := (redis s)(k := Some (show_nat (nat d), no_expiry))\<rparr>
      | Some v \<Rightarrow> (case read_nat v of
          None \<Rightarrow> s
        | Some n \<Rightarrow> s\<lparr>redis := (redis s)(k := Some (show_nat (nat (int n + d)), snd (the (redis s k))))\<rparr>))"

definition redis_expire :: "instant \<Rightarrow> string \<Rightarrow> int \<Rightarrow> db \<Rightarrow> db" where
  "redis_expire now k seconds s =
     (case redis_get now k s of
        None \<Rightarrow> s | Some v \<Rightarrow> s\<lparr>redis := (redis s)(k := Some (v, now + seconds * 1000))\<rparr>)"

section \<open>NotificationService\<close>

definition UNREAD_COUNT_TTL_SECONDS :: int where "UNREAD_COUNT_TTL_SECONDS = 2592000"

definition cached_count :: "instant \<Rightarrow> uuid \<Rightarrow> db \<Rightarrow> nat option" where
  "cached_count now user s = Option.bind (redis_get now (unreadCountKey user) s) read_nat"

definition notificationService_listForUser :: "uuid \<Rightarrow> notification_query \<Rightarrow> db \<Rightarrow> error + notification_row page" where
  "notificationService_listForUser user q s = notificationRepo_findPageForUser user q s"

definition notificationService_getUnreadCount :: "instant \<Rightarrow> uuid \<Rightarrow> db \<Rightarrow> nat" where
  "notificationService_getUnreadCount now user s =
     (case cached_count now user s of None \<Rightarrow> notificationRepo_countUnread user s | Some n \<Rightarrow> n)"

definition notificationService_markRead :: "instant \<Rightarrow> uuid \<Rightarrow> uuid \<Rightarrow> db \<Rightarrow> notification_row outcome" where
  [op_defs]: "notificationService_markRead now user i s =
     await (notificationRepo_markRead now user i s)
       (\<lambda>result s. case result of
          None \<Rightarrow> (Inl (EntityNotFound ''Notification'' i), s)
        | Some (n, wasUnread) \<Rightarrow>
            (Inr n,
             if wasUnread
             then (let current = (case cached_count now user s of None \<Rightarrow> 0 | Some c \<Rightarrow> c)
                   in if 0 < current then redis_add now (-1) (unreadCountKey user) s
                      else redis_set_ex now (unreadCountKey user) ''0'' UNREAD_COUNT_TTL_SECONDS s)
             else s))"

definition notificationService_markAllRead :: "instant \<Rightarrow> uuid \<Rightarrow> db \<Rightarrow> db" where
  "notificationService_markAllRead now user s = redis_del (unreadCountKey user) (notificationRepo_markAllRead now user s)"

section \<open>Messages\<close>

record ntf_payload =
  npUserId :: uuid
  npWorkspaceId :: uuid
  npType :: notification_type
  npTitle :: string
  npBody :: "string option"
  npEntityType :: "entity_type option"
  npEntityId :: "uuid option"
  npBoardId :: "uuid option"
  npCardId :: "uuid option"
  npActorId :: "uuid option"
  npActorName :: "string option"

record ntf_message =
  nmId :: uuid
  nmPayload :: ntf_payload

definition isValidNotificationPayload :: "ntf_payload \<Rightarrow> bool" where
  "isValidNotificationPayload p \<longleftrightarrow> isUuidV4 (npUserId p) \<and> isUuidV4 (npWorkspaceId p) \<and> 0 < length (npTitle p)"

section \<open>NotificationProducerListener\<close>

fun show_status :: "card_status \<Rightarrow> string" where
  "show_status NotStarted = ''not_started''" | "show_status Active = ''active''"
| "show_status Done = ''done''" | "show_status Closed = ''closed''"

fun show_priority :: "card_priority \<Rightarrow> string" where
  "show_priority Lowest = ''lowest''" | "show_priority Low = ''low''" | "show_priority Medium = ''medium''"
| "show_priority High = ''high''" | "show_priority Urgent = ''urgent''"

fun show_role :: "workspace_role \<Rightarrow> string" where
  "show_role Owner = ''owner''" | "show_role Admin = ''admin''" | "show_role Member = ''member''"
| "show_role Viewer = ''viewer''"

definition quoted :: "string \<Rightarrow> string" where
  "quoted t = CHR 0x22 # t @ [CHR 0x22]"

definition title_or_card :: "string option \<Rightarrow> string" where
  "title_or_card t = (case t of None \<Rightarrow> ''a card'' | Some x \<Rightarrow> x)"

type_synonym published = "string \<times> ntf_payload"

definition card_notice ::
  "uuid \<Rightarrow> uuid \<Rightarrow> notification_type \<Rightarrow> string \<Rightarrow> uuid \<Rightarrow> uuid \<Rightarrow> uuid \<Rightarrow> ntf_payload" where
  "card_notice user ws ty title board card_id actor =
     \<lparr>npUserId = user, npWorkspaceId = ws, npType = ty, npTitle = title, npBody = None, npEntityType = Some CardEntity,
      npEntityId = Some card_id, npBoardId = Some board, npCardId = Some card_id, npActorId = Some actor, npActorName = None\<rparr>"

definition fanOutToAssignees ::
  "uuid \<Rightarrow> uuid \<Rightarrow> uuid \<Rightarrow> string \<Rightarrow> notification_type \<Rightarrow> (string \<Rightarrow> string) \<Rightarrow> db \<Rightarrow> published list" where
  "fanOutToAssignees board card_id actor key ty title s =
     (case boardService_findWorkspaceIdByBoardId board s of
        None \<Rightarrow> []
      | Some ws \<Rightarrow>
          if ws = [] then []
          else map (\<lambda>u. (key, card_notice u ws ty (title (title_or_card (cardService_findTitleById card_id s))) board card_id actor))
                 (filter (\<lambda>u. u \<noteq> actor) (cardService_findAssigneeIdsByCardId card_id s)))"

definition handleAssigneeAdded :: "uuid \<Rightarrow> uuid \<Rightarrow> uuid \<Rightarrow> uuid \<Rightarrow> db \<Rightarrow> published list" where
  "handleAssigneeAdded card_id board user addedBy s =
     (if user = addedBy then []
      else case boardService_findWorkspaceIdByBoardId board s of
             None \<Rightarrow> []
           | Some ws \<Rightarrow>
               if ws = [] then []
               else [(''notification.card.assigned'', card_notice user ws CardAssigned
                       (''You were assigned to '' @ quoted (title_or_card (cardService_findTitleById card_id s))) board card_id addedBy)])"

definition comment_notice ::
  "uuid \<Rightarrow> uuid \<Rightarrow> notification_type \<Rightarrow> string \<Rightarrow> comment_row \<Rightarrow> uuid \<Rightarrow> uuid \<Rightarrow> ntf_payload" where
  "comment_notice user ws ty title c board author =
     \<lparr>npUserId = user, npWorkspaceId = ws, npType = ty, npTitle = title, npBody = Some (take 200 (cmtContent c)),
      npEntityType = Some CommentEntity, npEntityId = Some (cmtId c), npBoardId = Some board, npCardId = Some (cmtCardId c),
      npActorId = Some author, npActorName = None\<rparr>"

definition notifyCommentAssignees :: "comment_row \<Rightarrow> uuid \<Rightarrow> uuid \<Rightarrow> uuid \<Rightarrow> db \<Rightarrow> published list" where
  "notifyCommentAssignees c board author ws s =
     map (\<lambda>u. (''notification.comment.added'', comment_notice u ws CommentAdded
              (''New comment on '' @ quoted (title_or_card (cardService_findTitleById (cmtCardId c) s))) c board author))
       (filter (\<lambda>u. u \<noteq> author) (cardService_findAssigneeIdsByCardId (cmtCardId c) s))"

definition notifyMentionedUsers :: "comment_row \<Rightarrow> uuid \<Rightarrow> uuid \<Rightarrow> string list \<Rightarrow> uuid \<Rightarrow> db \<Rightarrow> published list" where
  "notifyMentionedUsers c board author mentioned ws s =
     (let emails = (if 0 < length mentioned then mentioned else parseMentionedEmails (cmtContent c))
      in if emails = [] then []
         else map (\<lambda>(_, u). (''notification.comment.mentioned'',
                     comment_notice u ws CommentMentioned ''You were mentioned in a comment'' c board author))
                (membershipService_findUserIdsByEmails ws emails s))"

definition handleCommentCreated :: "comment_row \<Rightarrow> uuid \<Rightarrow> uuid \<Rightarrow> string list \<Rightarrow> db \<Rightarrow> published list" where
  "handleCommentCreated c board author mentioned s =
     (case boardService_findWorkspaceIdByBoardId board s of
        None \<Rightarrow> []
      | Some ws \<Rightarrow> if ws = [] then []
                   else notifyCommentAssignees c board author ws s @ notifyMentionedUsers c board author mentioned ws s)"

definition workspace_notice :: "uuid \<Rightarrow> uuid \<Rightarrow> notification_type \<Rightarrow> string \<Rightarrow> ntf_payload" where
  "workspace_notice user ws ty title =
     \<lparr>npUserId = user, npWorkspaceId = ws, npType = ty, npTitle = title, npBody = None, npEntityType = Some WorkspaceEntity,
      npEntityId = Some ws, npBoardId = None, npCardId = None, npActorId = None, npActorName = None\<rparr>"

text \<open>The listeners of the domain events; the events they do not listen to publish nothing.\<close>

fun produce :: "domain_event \<Rightarrow> db \<Rightarrow> published list" where
  "produce (CardAssigneeAdded i board user addedBy) s = handleAssigneeAdded i board user addedBy s"
| "produce (CommentCreated c board author mentioned) s = handleCommentCreated c board author mentioned s"
| "produce (MemberAdded ws user role) s =
     [(''notification.workspace.invited'', workspace_notice user ws WorkspaceInvited (''You'' @ [CHR 0x27] @ ''ve been added to a workspace''))]"
| "produce (MemberRoleChanged ws user old new) s =
     [(''notification.workspace.role_changed'', workspace_notice user ws WorkspaceRoleNotice (''Your role changed to '' @ show_role new))]"
| "produce (CardStatusChanged i board old new finished by) s =
     fanOutToAssignees board i by ''notification.card.status'' CardStatusNotice
       (\<lambda>t. ''Card '' @ quoted t @ '' moved to '' @ show_status new) s"
| "produce (CardPriorityChanged i board old new by) s =
     fanOutToAssignees board i by ''notification.card.priority'' CardPriorityNotice
       (\<lambda>t. ''Card '' @ quoted t @ '' priority changed to '' @ show_priority new) s"
| "produce _ s = []"

section \<open>NotificationConsumerListener\<close>

definition processedKey :: "uuid \<Rightarrow> string" where
  "processedKey i = ''msg:processed:'' @ i"

definition consumeOnce :: "instant \<Rightarrow> uuid \<Rightarrow> db \<Rightarrow> bool \<times> db" where
  "consumeOnce now i s =
     (if redis_get now (processedKey i) s \<noteq> None then (False, s)
      else (True, redis_set_ex now (processedKey i) ''1'' 3600 s))"

definition NOTIFICATION_MAX_RETRIES :: nat where "NOTIFICATION_MAX_RETRIES = 3"
definition NOTIFICATION_RETRY_BASE_MS :: int where "NOTIFICATION_RETRY_BASE_MS = 1000"

definition computeBackoff :: "nat \<Rightarrow> int \<Rightarrow> int" where
  "computeBackoff retryCount baseMs = baseMs * 2 ^ retryCount"

text \<open>A delivery as the broker holds it: the message and its retry header.\<close>

record ntf_delivery =
  ndMessage :: ntf_message
  ndRetry :: nat

datatype verdict =
    Done_with                        \<comment> \<open>acknowledged\<close>
  | Retry_later ntf_delivery int     \<comment> \<open>acknowledged, and queued again after the delay\<close>
  | Rejected                         \<comment> \<open>dead-lettered\<close>

definition stored_row :: "uuid \<Rightarrow> instant \<Rightarrow> ntf_message \<Rightarrow> notification_row" where
  "stored_row newId now m =
     (let p = nmPayload m
      in \<lparr>ntfId = newId, ntfMessageId = nmId m, ntfUserId = npUserId p, ntfWorkspaceId = npWorkspaceId p, ntfType = npType p,
          ntfTitle = npTitle p,
          ntfBody = (if truthy (npActorName p)
                     then Some (take 2000 (the (npActorName p) @ '': '' @ (case npBody p of None \<Rightarrow> [] | Some b \<Rightarrow> b)))
                     else npBody p),
          ntfEntityType = npEntityType p, ntfEntityId = npEntityId p, ntfBoardId = npBoardId p, ntfCardId = npCardId p,
          ntfIsRead = False, ntfReadAt = None, ntfCreatedAt = now\<rparr>)"

definition persistOrScheduleRetry ::
  "bool \<Rightarrow> uuid \<Rightarrow> instant \<Rightarrow> ntf_delivery \<Rightarrow> db \<Rightarrow> (verdict + notification_row option) \<times> db" where
  "persistOrScheduleRetry up newId now d s =
     (case notificationRepo_createOnce up (stored_row newId now (ndMessage d)) s of
        (Inr row, s') \<Rightarrow> (Inr row, s')
      | (Inl _, s') \<Rightarrow>
          let s2 = redis_del (processedKey (nmId (ndMessage d))) s'
          in if ndRetry d < NOTIFICATION_MAX_RETRIES
             then (Inl (Retry_later (d\<lparr>ndRetry := Suc (ndRetry d)\<rparr>) (computeBackoff (ndRetry d) NOTIFICATION_RETRY_BASE_MS)), s2)
             else (Inl Rejected, s2))"

definition bumpUnreadCounter :: "instant \<Rightarrow> uuid \<Rightarrow> db \<Rightarrow> db" where
  "bumpUnreadCounter now user s =
     redis_expire now (unreadCountKey user) UNREAD_COUNT_TTL_SECONDS (redis_add now 1 (unreadCountKey user) s)"

text \<open>The pushed row is the whole payload of the first event.\<close>

definition emitToUser :: "uuid \<Rightarrow> notification_row \<Rightarrow> message list" where
  "emitToUser user n = [(user_room user, ''notification:new'', [(''notification'', WNotification n)]),
     (user_room user, ''notification:count'', [(''unreadCount'', WInt (-1))])]"

definition notificationConsumer_handle ::
  "bool \<Rightarrow> uuid \<Rightarrow> instant \<Rightarrow> ntf_delivery \<Rightarrow> db \<Rightarrow> (verdict \<times> message list) \<times> db" where
  "notificationConsumer_handle up newId now d s =
     (let m = ndMessage d
      in if \<not> isValidNotificationPayload (nmPayload m) then ((Done_with, []), s)
         else (case consumeOnce now (nmId m) s of
                 (False, s1) \<Rightarrow> ((Done_with, []), s1)
               | (True, s1) \<Rightarrow>
                   (case persistOrScheduleRetry up newId now d s1 of
                      (Inl v, s2) \<Rightarrow> ((v, []), s2)
                    | (Inr None, s2) \<Rightarrow> ((Done_with, []), s2)
                    | (Inr (Some row), s2) \<Rightarrow>
                        ((Done_with, emitToUser (npUserId (nmPayload m)) row), bumpUnreadCounter now (npUserId (nmPayload m)) s2))))"

end
