(* ===== verification/Notification_Properties.thy ===== *)
theory Notification_Properties
  imports Notifications Access_Guards
begin

text \<open>
  What recipients can count on: a message is stored within its retries, a stored one is never stored or
  pushed again, and the cached counter shows the number of unread rows while its key lives. The cases
  in which they cannot are here too: a crash between the two halves of the consumer, an expired counter.
\<close>

section \<open>Facts\<close>

lemma keys_differ [simp]:
  "processedKey i \<noteq> unreadCountKey u" "unreadCountKey u \<noteq> processedKey i"
  "unreadCountKey u = unreadCountKey u' \<longleftrightarrow> u = u'" "processedKey i = processedKey j \<longleftrightarrow> i = j"
  by (simp_all add: processedKey_def unreadCountKey_def)

lemma redis_get_ops:
  "redis_get t k (redis_set_ex now k' v e s) = (if k' = k then if t < now + e * 1000 then Some v else None else redis_get t k s)"
  "redis_get t k (redis_del k' s) = (if k' = k then None else redis_get t k s)"
  by (auto simp: redis_get_def redis_set_ex_def redis_del_def)

lemma redis_ops_notifications [simp]:
  "notifications (redis_set_ex now k v e s) = notifications s" "notifications (redis_del k s) = notifications s"
  "notifications (redis_add now d k s) = notifications s" "notifications (redis_expire now k e s) = notifications s"
  "notifications (snd (consumeOnce now i s)) = notifications s"
  by (auto simp: redis_set_ex_def redis_del_def redis_add_def redis_expire_def consumeOnce_def split: option.split)

lemma redis_other [simp]:
  "k \<noteq> k' \<Longrightarrow> redis (redis_add now d k s) k' = redis s k'" "k \<noteq> k' \<Longrightarrow> redis (redis_expire now k e s) k' = redis s k'"
  "k \<noteq> k' \<Longrightarrow> redis (redis_set_ex now k v e s) k' = redis s k'" "k \<noteq> k' \<Longrightarrow> redis (redis_del k s) k' = redis s k'"
  by (auto simp: redis_add_def redis_expire_def redis_set_ex_def redis_del_def split: option.split)

lemma bump_keeps [simp]:
  "notifications (bumpUnreadCounter now u s) = notifications s"
  "k \<noteq> unreadCountKey u \<Longrightarrow> redis (bumpUnreadCounter now u s) k = redis s k"
  by (simp_all add: bumpUnreadCounter_def)

lemma stored_row_simps [simp]:
  "ntfId (stored_row i now m) = i" "ntfMessageId (stored_row i now m) = nmId m"
  "ntfUserId (stored_row i now m) = npUserId (nmPayload m)" "ntfWorkspaceId (stored_row i now m) = npWorkspaceId (nmPayload m)"
  "ntfTitle (stored_row i now m) = npTitle (nmPayload m)" "ntfIsRead (stored_row i now m) = False"
  by (simp_all add: stored_row_def Let_def)

text \<open>What one delivery of a valid message can do.\<close>

definition storable :: "ntf_message \<Rightarrow> db \<Rightarrow> bool" where
  "storable m s \<longleftrightarrow> length (npTitle (nmPayload m)) \<le> 300 \<and> list_ex (\<lambda>u. userId u = npUserId (nmPayload m)) (users s) \<and>
     list_ex (\<lambda>w. wsId w = npWorkspaceId (nmPayload m)) (workspaces s)"

definition is_stored :: "ntf_message \<Rightarrow> db \<Rightarrow> bool" where
  "is_stored m s \<longleftrightarrow> (\<exists>r\<in>set (notifications s). ntfMessageId r = nmId m \<and> ntfUserId r = npUserId (nmPayload m))"

lemma createOnce_cases:
  assumes "notificationRepo_createOnce up (stored_row i now m) s = (r, s')"
  shows "(\<exists>e. r = Inl e \<and> s' = s) \<or> (r = Inr None \<and> s' = s) \<or>
    (r = Inr (Some (stored_row i now m)) \<and> s' = s\<lparr>notifications := notifications s @ [stored_row i now m]\<rparr> \<and>
      \<not> is_stored m s \<and> i \<notin> ntfId ` set (notifications s))"
  using assms by (auto simp: notificationRepo_createOnce_def is_stored_def list_ex_iff split: if_splits)

lemma handle_cases:
  assumes "notificationConsumer_handle up i now d s = ((v, out), s')"
  shows "(notifications s' = notifications s \<and> out = [] \<and> (\<forall>u. redis s' (unreadCountKey u) = redis s (unreadCountKey u))) \<or>
    (v = Done_with \<and> notifications s' = notifications s @ [stored_row i now (ndMessage d)] \<and> \<not> is_stored (ndMessage d) s \<and>
      i \<notin> ntfId ` set (notifications s) \<and>
      out = emitToUser (npUserId (nmPayload (ndMessage d))) (stored_row i now (ndMessage d)) \<and>
      (\<exists>s1. redis s1 (unreadCountKey (npUserId (nmPayload (ndMessage d)))) = redis s (unreadCountKey (npUserId (nmPayload (ndMessage d)))) \<and>
        redis s' (unreadCountKey (npUserId (nmPayload (ndMessage d)))) =
          redis (bumpUnreadCounter now (npUserId (nmPayload (ndMessage d))) s1) (unreadCountKey (npUserId (nmPayload (ndMessage d))))) \<and>
      (\<forall>u. u \<noteq> npUserId (nmPayload (ndMessage d)) \<longrightarrow> redis s' (unreadCountKey u) = redis s (unreadCountKey u)))"
proof (cases "isValidNotificationPayload (nmPayload (ndMessage d)) \<and> fst (consumeOnce now (nmId (ndMessage d)) s)")
  case False
  with assms show ?thesis by (auto simp: notificationConsumer_handle_def Let_def consumeOnce_def split: if_splits)
next
  case True
  let ?s1 = "snd (consumeOnce now (nmId (ndMessage d)) s)"
  have keep: "redis ?s1 (unreadCountKey u) = redis s (unreadCountKey u)" for u by (simp add: consumeOnce_def)
  have stored: "is_stored m ?s1 = is_stored m s" for m by (simp add: is_stored_def)
  obtain r s2 where c: "notificationRepo_createOnce up (stored_row i now (ndMessage d)) ?s1 = (r, s2)" by (metis surj_pair)
  from createOnce_cases [OF c] show ?thesis
  proof (elim disjE exE conjE)
    fix e assume "r = Inl e" "s2 = ?s1"
    with True assms c keep show ?thesis
      by (auto simp: notificationConsumer_handle_def persistOrScheduleRetry_def Let_def case_prod_beta split: if_splits bool.splits)
  next
    assume "r = Inr None" "s2 = ?s1"
    with True assms c keep show ?thesis
      by (auto simp: notificationConsumer_handle_def persistOrScheduleRetry_def Let_def case_prod_beta split: if_splits bool.splits)
  next
    assume new: "r = Inr (Some (stored_row i now (ndMessage d)))"
      "s2 = ?s1\<lparr>notifications := notifications ?s1 @ [stored_row i now (ndMessage d)]\<rparr>"
      "\<not> is_stored (ndMessage d) ?s1" "i \<notin> ntfId ` set (notifications ?s1)"
    have "v = Done_with \<and> out = emitToUser (npUserId (nmPayload (ndMessage d))) (stored_row i now (ndMessage d)) \<and>
        s' = bumpUnreadCounter now (npUserId (nmPayload (ndMessage d))) s2"
      using True assms c new(1)
      by (auto simp: notificationConsumer_handle_def persistOrScheduleRetry_def Let_def case_prod_beta split: if_splits bool.splits)
    with new keep stored show ?thesis by (auto intro: exI [of _ s2])
  qed
qed

section \<open>The retries\<close>

text \<open>
  What the broker makes of one message: it is delivered, and while the verdict asks for a retry it is delivered
  again after the delay; the list says whether the database is up at each attempt.
\<close>

fun attempts :: "bool list \<Rightarrow> uuid \<Rightarrow> instant \<Rightarrow> ntf_delivery \<Rightarrow> db \<Rightarrow> (verdict \<times> message list) \<times> db" where
  "attempts [] newId now d s = ((Retry_later d 0, []), s)"
| "attempts (up # ups) newId now d s =
     (case notificationConsumer_handle up newId now d s of
        ((Retry_later d' delay, _), s') \<Rightarrow> attempts ups newId (now + delay) d' s'
      | r \<Rightarrow> r)"

lemma key_restored: "redis s k = None \<Longrightarrow> redis_del k (redis_set_ex now k v e s) = s"
  by (simp add: redis_del_def redis_set_ex_def fun_upd_idem)

lemma failed_attempt:
  assumes "isValidNotificationPayload (nmPayload (ndMessage d))" "redis s (processedKey (nmId (ndMessage d))) = None"
    and "notificationRepo_createOnce up (stored_row i now (ndMessage d)) (redis_set_ex now (processedKey (nmId (ndMessage d))) ''1'' 3600 s)
      = (Inl e, redis_set_ex now (processedKey (nmId (ndMessage d))) ''1'' 3600 s)"
  shows "notificationConsumer_handle up i now d s =
    ((if ndRetry d < 3 then Retry_later (d\<lparr>ndRetry := Suc (ndRetry d)\<rparr>) (1000 * 2 ^ ndRetry d) else Rejected, []), s)"
  using assms
  by (simp add: notificationConsumer_handle_def consumeOnce_def redis_get_def persistOrScheduleRetry_def Let_def
      NOTIFICATION_MAX_RETRIES_def NOTIFICATION_RETRY_BASE_MS_def computeBackoff_def key_restored)

lemma create_while_down: "notificationRepo_createOnce False n s = (Inl (PrismaError ''P1001''), s)"
  by (simp add: notificationRepo_createOnce_def)

lemma create_too_long: "300 < length (ntfTitle n) \<Longrightarrow> \<exists>e. notificationRepo_createOnce up n s = (Inl e, s)"
  by (simp add: notificationRepo_createOnce_def)

lemmas down_attempt = failed_attempt [OF _ _ create_while_down]

lemma long_attempt:
  assumes "isValidNotificationPayload (nmPayload (ndMessage d))" "redis s (processedKey (nmId (ndMessage d))) = None"
    and "300 < length (npTitle (nmPayload (ndMessage d)))"
  shows "notificationConsumer_handle up i now d s =
    ((if ndRetry d < 3 then Retry_later (d\<lparr>ndRetry := Suc (ndRetry d)\<rparr>) (1000 * 2 ^ ndRetry d) else Rejected, []), s)"
  using create_too_long [of "stored_row i now (ndMessage d)" up] assms by (metis failed_attempt stored_row_simps(5))

text \<open>A first attempt with the database up, for a message that fits its table.\<close>

lemma good_attempt:
  assumes "isValidNotificationPayload (nmPayload (ndMessage d))" "redis s (processedKey (nmId (ndMessage d))) = None"
    and "storable (ndMessage d) s" "\<not> is_stored (ndMessage d) s" "i \<notin> ntfId ` set (notifications s)"
  shows "\<exists>s'. notificationConsumer_handle True i now d s =
      ((Done_with, emitToUser (npUserId (nmPayload (ndMessage d))) (stored_row i now (ndMessage d))), s') \<and>
    notifications s' = notifications s @ [stored_row i now (ndMessage d)]"
proof -
  let ?s1 = "redis_set_ex now (processedKey (nmId (ndMessage d))) ''1'' 3600 s"
  have "notificationRepo_createOnce True (stored_row i now (ndMessage d)) ?s1 =
      (Inr (Some (stored_row i now (ndMessage d))), ?s1\<lparr>notifications := notifications s @ [stored_row i now (ndMessage d)]\<rparr>)"
    using assms by (auto simp: notificationRepo_createOnce_def storable_def is_stored_def list_ex_iff redis_set_ex_def)
  with assms(1,2) show ?thesis
    by (simp add: notificationConsumer_handle_def consumeOnce_def redis_get_def persistOrScheduleRetry_def Let_def)
qed

lemma attempts_after_failures:
  assumes "n + ndRetry d \<le> 3" "isValidNotificationPayload (nmPayload (ndMessage d))"
    and "redis s (processedKey (nmId (ndMessage d))) = None"
  shows "attempts (replicate n False @ ups) i now d s =
    attempts ups i (now + 1000 * 2 ^ ndRetry d * (2 ^ n - 1)) (d\<lparr>ndRetry := ndRetry d + n\<rparr>) s"
  using assms
proof (induction n arbitrary: d now)
  case (Suc n)
  show ?case using Suc by (simp add: down_attempt algebra_simps)
qed simp


section \<open>Titles over the column's length\<close>

lemma long_attempts:
  assumes "isValidNotificationPayload (nmPayload (ndMessage d))" "redis s (processedKey (nmId (ndMessage d))) = None"
    and "300 < length (npTitle (nmPayload (ndMessage d)))" "4 \<le> length ups + ndRetry d" "ndRetry d \<le> 3"
  shows "attempts ups i now d s = ((Rejected, []), s)"
  using assms
proof (induction ups arbitrary: d now)
  case (Cons up ups)
  show ?case
  proof (cases "ndRetry d < 3")
    case True
    with Cons show ?thesis by (simp add: long_attempt)
  next
    case False
    with Cons show ?thesis by (simp add: long_attempt)
  qed
qed simp

text \<open>A card title may have 500 characters and a notification's title 300: the notice that someone was assigned to a card
  with a title of more than 277 characters is never stored, whatever the database does. Each attempt fails, the fourth is dead-lettered and
  nobody is told.
\<close>

theorem long_titles_are_never_notified:
  assumes "cardService_findTitleById c0 s = Some t" "277 < length t"
    and "(key, p) \<in> set (produce (CardAssigneeAdded c0 board user actor) s)"
    and "isValidNotificationPayload p" "redis s (processedKey m) = None" "4 \<le> length ups"
  shows "attempts ups i now \<lparr>ndMessage = \<lparr>nmId = m, nmPayload = p\<rparr>, ndRetry = 0\<rparr> s = ((Rejected, []), s)"
proof -
  from assms have "300 < length (npTitle p)"
    by (auto simp: handleAssigneeAdded_def card_notice_def quoted_def title_or_card_def split: option.splits if_splits)
  with assms long_attempts [of "\<lparr>ndMessage = \<lparr>nmId = m, nmPayload = p\<rparr>, ndRetry = 0\<rparr>" s ups i now] show ?thesis by auto
qed

section \<open>Deliveries in any order\<close>

type_synonym delivery_try = "bool \<times> uuid \<times> instant \<times> ntf_delivery"

fun deliveries :: "delivery_try list \<Rightarrow> db \<Rightarrow> message list \<times> db" where
  "deliveries [] s = ([], s)"
| "deliveries ((up, i, now, d) # ds) s =
     (case notificationConsumer_handle up i now d s of
        ((_, out), s') \<Rightarrow> (case deliveries ds s' of (rest, s'') \<Rightarrow> (out @ rest, s'')))"

definition pushes_of :: "uuid \<Rightarrow> uuid \<Rightarrow> message list \<Rightarrow> message list" where
  "pushes_of mid user =
     filter (\<lambda>(room, e, body). \<exists>n. body = [(''notification'', WNotification n)] \<and> ntfMessageId n = mid \<and> ntfUserId n = user)"

definition rows_of :: "uuid \<Rightarrow> uuid \<Rightarrow> db \<Rightarrow> notification_row list" where
  "rows_of mid user s = filter (\<lambda>r. ntfMessageId r = mid \<and> ntfUserId r = user) (notifications s)"

lemma pushes_of_append [simp]: "pushes_of i u (xs @ ys) = pushes_of i u xs @ pushes_of i u ys"
  by (simp add: pushes_of_def)

lemma pushes_of_emit: "length (pushes_of i u (emitToUser u' n)) = (if ntfMessageId n = i \<and> ntfUserId n = u then 1 else 0)"
  by (simp add: pushes_of_def emitToUser_def)

lemma delivery_balance:
  assumes "notificationConsumer_handle up i now d s = ((v, out), s')"
  shows "length (rows_of mid user s') = length (rows_of mid user s) + length (pushes_of mid user out)"
    and "length (rows_of mid user s) \<le> 1 \<Longrightarrow> length (rows_of mid user s') \<le> 1"
  using handle_cases [OF assms]
  by (auto simp: rows_of_def pushes_of_emit is_stored_def filter_empty_conv) (simp_all add: pushes_of_def)

lemma deliveries_balance:
  assumes "deliveries ds s = (out, s')" "length (rows_of mid user s) \<le> 1"
  shows "length (rows_of mid user s') = length (rows_of mid user s) + length (pushes_of mid user out) \<and>
    length (rows_of mid user s') \<le> 1"
  using assms
proof (induction ds arbitrary: s out)
  case Nil
  then show ?case by (simp add: pushes_of_def)
next
  case (Cons x ds)
  obtain up i now d where x: "x = (up, i, now, d)" by (metis prod_cases4)
  obtain v o1 s1 where h: "notificationConsumer_handle up i now d s = ((v, o1), s1)" by (metis surj_pair)
  obtain o2 where r: "deliveries ds s1 = (o2, s')" and out: "out = o1 @ o2"
    using Cons.prems(1) by (auto simp: x h split: prod.splits)
  from delivery_balance [OF h] Cons.IH [OF r] Cons.prems(2) show ?case by (simp add: out)
qed

text \<open>C28: However often and in whatever order the broker delivers messages, at whatever times and with whatever availability of the
  database, and even after the deduplication keys have expired: a message is stored at most once for its recipient, is pushed exactly
  when it is stored, and is neither stored nor pushed again once it is there.
\<close>

theorem a_message_is_pushed_once:
  assumes "length (rows_of mid user s) \<le> 1" "deliveries ds s = (out, s')"
  shows "length (rows_of mid user s') = length (rows_of mid user s) + length (pushes_of mid user out) \<and>
    length (rows_of mid user s') \<le> 1"
  using deliveries_balance [OF assms(2,1)] by auto

section \<open>The unread counter\<close>

datatype ntf_act =
    Deliver bool uuid ntf_delivery
  | Read_one uuid uuid
  | Read_all uuid
  | Purge

fun ntf_do :: "instant \<Rightarrow> ntf_act \<Rightarrow> db \<Rightarrow> db" where
  "ntf_do now (Deliver up i d) s = snd (notificationConsumer_handle up i now d s)"
| "ntf_do now (Read_one user i) s = snd (notificationService_markRead now user i s)"
| "ntf_do now (Read_all user) s = notificationService_markAllRead now user s"
| "ntf_do now Purge s = purgeOldRead now s"

text \<open>The counter is exact when its key holds the number of unread rows, or is absent while there are none.\<close>

definition counter_exact :: "uuid \<Rightarrow> db \<Rightarrow> bool" where
  "counter_exact user s \<longleftrightarrow> distinct (map ntfId (notifications s)) \<and>
     (case redis s (unreadCountKey user) of
        None \<Rightarrow> notificationRepo_countUnread user s = 0
      | Some (v, _) \<Rightarrow> v = show_nat (notificationRepo_countUnread user s))"

definition key_alive :: "instant \<Rightarrow> uuid \<Rightarrow> db \<Rightarrow> bool" where
  "key_alive now user s \<longleftrightarrow> (case redis s (unreadCountKey user) of None \<Rightarrow> True | Some (_, e) \<Rightarrow> now < e)"

lemma counter_exactI:
  "distinct (map ntfId (notifications s)) \<Longrightarrow> redis s (unreadCountKey user) = Some (show_nat (notificationRepo_countUnread user s), e) \<Longrightarrow>
   counter_exact user s"
  by (simp add: counter_exact_def)

lemma counter_exact_cong:
  "counter_exact user s \<Longrightarrow> distinct (map ntfId (notifications s')) \<Longrightarrow> redis s' (unreadCountKey user) = redis s (unreadCountKey user) \<Longrightarrow>
   notificationRepo_countUnread user s' = notificationRepo_countUnread user s \<Longrightarrow> counter_exact user s'"
  by (auto simp: counter_exact_def split: option.splits prod.splits)

lemma bump_value:
  assumes "counter_exact user s" "key_alive now user s" "now < no_expiry" "redis s1 (unreadCountKey user) = redis s (unreadCountKey user)"
  shows "\<exists>e. redis (bumpUnreadCounter now user s1) (unreadCountKey user) = Some (show_nat (Suc (notificationRepo_countUnread user s)), e)"
  using assms
  by (auto simp: bumpUnreadCounter_def redis_add_def redis_expire_def redis_get_def counter_exact_def key_alive_def
      nat_add_distrib split: option.splits if_splits)

lemma mark_read_simps [simp]:
  "ntfId (mark_read now n) = ntfId n" "ntfUserId (mark_read now n) = ntfUserId n" "ntfIsRead (mark_read now n)"
  by (simp_all add: mark_read_def)

lemma unread_after_marking:
  assumes "distinct (map ntfId rows)" "r \<in> set rows" "ntfUserId r = user" "\<not> ntfIsRead r"
  shows "length (filter (\<lambda>n. ntfUserId n = user' \<and> \<not> ntfIsRead n) (map (\<lambda>n. if ntfId n = ntfId r then mark_read now n else n) rows)) +
      (if user' = user then 1 else 0) = length (filter (\<lambda>n. ntfUserId n = user' \<and> \<not> ntfIsRead n) rows)"
  using assms
proof (induction rows)
  case (Cons x rows)
  show ?case
  proof (cases "x = r")
    case True
    with Cons.prems(1) have "map (\<lambda>n. if ntfId n = ntfId r then mark_read now n else n) rows = rows"
      by (intro map_idI) (auto simp: image_iff)
    with True Cons.prems show ?thesis by simp
  next
    case False
    with Cons.prems have "r \<in> set rows" "ntfId x \<noteq> ntfId r" by (auto simp: image_iff)
    with Cons show ?thesis by (auto simp: filter_map)
  qed
qed simp

lemma map_mark_ids [simp]: "map ntfId (map (\<lambda>n. if ntfId n = i then mark_read now n else n) rows) = map ntfId rows"
  by (induction rows) auto

lemma markRead_counts:
  assumes "notificationRepo_markRead now user i s = (r, s')" "distinct (map ntfId (notifications s))"
  shows "(s' = s \<and> (\<forall>row. r \<noteq> Inr (Some (row, True)))) \<or>
    ((\<exists>row. r = Inr (Some (row, True))) \<and> redis s' = redis s \<and> map ntfId (notifications s') = map ntfId (notifications s) \<and>
     (\<forall>u. notificationRepo_countUnread u s' + (if u = user then 1 else 0) = notificationRepo_countUnread u s))"
proof (cases "find (\<lambda>n. ntfId n = i \<and> ntfUserId n = user) (notifications s)")
  case None
  with assms show ?thesis by (auto simp: notificationRepo_markRead_def)
next
  case (Some n)
  then have n: "n \<in> set (notifications s)" "ntfId n = i" "ntfUserId n = user" by (auto dest: find_SomeD)
  show ?thesis
  proof (cases "ntfIsRead n")
    case True
    with Some assms show ?thesis by (auto simp: notificationRepo_markRead_def)
  next
    case False
    from n obtain n' where "find (\<lambda>x. ntfId x = i) (notifications s) = Some n'"
      by (cases "find (\<lambda>x. ntfId x = i) (notifications s)") (auto simp: find_None_iff)
    with Some False assms(1) have "s' = s\<lparr>notifications := map (\<lambda>x. if ntfId x = i then mark_read now x else x) (notifications s)\<rparr>"
      "\<exists>row. r = Inr (Some (row, True))"
      by (auto simp: notificationRepo_markRead_def update_by_found or_missing_def)
    with unread_after_marking [OF assms(2) n(1,3) False] n(2) show ?thesis
      by (simp add: notificationRepo_countUnread_def del: map_map)
  qed
qed

lemma count_redis [simp]: "notificationRepo_countUnread u (s\<lparr>redis := r\<rparr>) = notificationRepo_countUnread u s"
  by (simp add: notificationRepo_countUnread_def)

lemma exact_after_read:
  assumes "counter_exact user s" "key_alive now user s"
  shows "counter_exact user (snd (notificationService_markRead now reader i s))"
proof -
  obtain r s1 where m: "notificationRepo_markRead now reader i s = (r, s1)" by (metis surj_pair)
  from assms have ids: "distinct (map ntfId (notifications s))" by (simp add: counter_exact_def)
  from markRead_counts [OF m ids] show ?thesis
  proof (elim disjE conjE exE)
    assume "s1 = s" "\<forall>row. r \<noteq> Inr (Some (row, True))"
    with assms m show ?thesis
      by (auto simp: notificationService_markRead_def await_def split: sum.split option.split)
  next
    fix row
    assume r: "r = Inr (Some (row, True))" "redis s1 = redis s" "map ntfId (notifications s1) = map ntfId (notifications s)"
      and c: "\<forall>u. notificationRepo_countUnread u s1 + (if u = reader then 1 else 0) = notificationRepo_countUnread u s"
    show ?thesis
    proof (cases "reader = user")
      case True
      from c [rule_format, of user] True have cu: "notificationRepo_countUnread user s = Suc (notificationRepo_countUnread user s1)" by simp
      with assms obtain e where k: "redis s (unreadCountKey user) = Some (show_nat (Suc (notificationRepo_countUnread user s1)), e)" "now < e"
        by (auto simp: counter_exact_def key_alive_def split: option.splits prod.splits)
      with r have "cached_count now user s1 = Some (Suc (notificationRepo_countUnread user s1))"
        by (simp add: cached_count_def redis_get_def)
      with m r k True ids cu show ?thesis
        by (simp add: notificationService_markRead_def await_def counter_exact_def redis_add_def redis_get_def)
    next
      case False
      with c have "notificationRepo_countUnread user s1 = notificationRepo_countUnread user s" by (metis add.right_neutral)
      with m r False ids show ?thesis
        by (intro counter_exact_cong [OF assms(1)])
          (auto simp: notificationService_markRead_def await_def notificationRepo_countUnread_def Let_def)
    qed
  qed
qed

lemma exact_after_delivery:
  assumes "counter_exact user s" "key_alive now user s" "now < no_expiry"
  shows "counter_exact user (snd (notificationConsumer_handle up i now d s))"
proof -
  obtain v out s' where h: "notificationConsumer_handle up i now d s = ((v, out), s')" by (metis surj_pair)
  from handle_cases [OF h] show ?thesis
  proof (elim disjE conjE exE)
    assume "notifications s' = notifications s" "\<forall>u. redis s' (unreadCountKey u) = redis s (unreadCountKey u)"
    moreover from this have "notificationRepo_countUnread user s' = notificationRepo_countUnread user s"
      by (simp add: notificationRepo_countUnread_def)
    ultimately show ?thesis using assms(1) h counter_exact_cong [OF assms(1), of s'] by (simp add: counter_exact_def)
  next
    fix s1
    let ?u = "npUserId (nmPayload (ndMessage d))"
    assume new: "notifications s' = notifications s @ [stored_row i now (ndMessage d)]" "i \<notin> ntfId ` set (notifications s)"
      and bump: "redis s1 (unreadCountKey ?u) = redis s (unreadCountKey ?u)"
        "redis s' (unreadCountKey ?u) = redis (bumpUnreadCounter now ?u s1) (unreadCountKey ?u)"
      and rest: "\<forall>u. u \<noteq> ?u \<longrightarrow> redis s' (unreadCountKey u) = redis s (unreadCountKey u)"
    have count: "notificationRepo_countUnread user s' = notificationRepo_countUnread user s + (if user = ?u then 1 else 0)"
      by (simp add: notificationRepo_countUnread_def new)
    have ids: "distinct (map ntfId (notifications s'))" using assms(1) new by (auto simp: counter_exact_def)
    show ?thesis
    proof (cases "user = ?u")
      case True
      with bump_value [OF assms] bump(1) obtain e
        where "redis (bumpUnreadCounter now user s1) (unreadCountKey user) = Some (show_nat (Suc (notificationRepo_countUnread user s)), e)"
        by blast
      with True bump(2) count ids h counter_exactI [of s' user e] show ?thesis by simp
    next
      case False
      with rest count ids h counter_exact_cong [OF assms(1) ids] show ?thesis by simp
    qed
  qed
qed

lemma read_all_simps [simp]:
  "redis (notificationService_markAllRead now reader s) = (redis s)(unreadCountKey reader := None)"
  "map ntfId (notifications (notificationService_markAllRead now reader s)) = map ntfId (notifications s)"
  "notificationRepo_countUnread user (notificationService_markAllRead now reader s) =
     (if user = reader then 0 else notificationRepo_countUnread user s)"
    apply (simp add: notificationService_markAllRead_def redis_del_def notificationRepo_markAllRead_def)
   apply (simp add: notificationService_markAllRead_def notificationRepo_markAllRead_def update_many_def)
  apply (auto simp: notificationService_markAllRead_def notificationRepo_countUnread_def notificationRepo_markAllRead_def
      update_many_def filter_empty_conv filter_map o_def intro!: arg_cong [where f = length] filter_cong)
  done

lemma exact_after_read_all:
  assumes "counter_exact user s"
  shows "counter_exact user (notificationService_markAllRead now reader s)"
proof (cases "user = reader")
  case True
  with assms show ?thesis by (simp add: counter_exact_def)
next
  case False
  from assms have "distinct (map ntfId (notifications s))" by (simp add: counter_exact_def)
  with False show ?thesis by (intro counter_exact_cong [OF assms]) simp_all
qed

lemma exact_after_purge:
  assumes "counter_exact user s"
  shows "counter_exact user (purgeOldRead now s)"
proof -
  have "notificationRepo_countUnread user (purgeOldRead now s) = notificationRepo_countUnread user s"
    unfolding notificationRepo_countUnread_def purgeOldRead_def notificationRepo_deleteReadOlderThan_def
    by (auto intro!: arg_cong [where f = length] filter_cong simp: Let_def)
  moreover have "distinct (map ntfId (notifications (purgeOldRead now s)))" "redis (purgeOldRead now s) = redis s"
    using assms by (simp_all add: counter_exact_def purgeOldRead_def notificationRepo_deleteReadOlderThan_def distinct_map_filter Let_def)
  ultimately show ?thesis by (intro counter_exact_cong [OF assms]) simp_all
qed

text \<open>C35: The cached counter is exact: as long as a user's key has not expired, every delivery, every read of one notification or
  of all, by whomever, and every purge leaves it equal to the number of the user's unread rows (or absent when there are none), so that
  the unread count the service answers from the cache is the one it would have counted in the table.
\<close>

theorem counter_stays_exact:
  assumes "counter_exact user s" "key_alive now user s" "now < no_expiry"
  shows "counter_exact user (ntf_do now act s) \<and>
    notificationService_getUnreadCount now user s = notificationRepo_countUnread user s"
proof (intro conjI)
  show "counter_exact user (ntf_do now act s)"
    using assms exact_after_read exact_after_delivery exact_after_read_all exact_after_purge by (cases act) auto
  show "notificationService_getUnreadCount now user s = notificationRepo_countUnread user s"
    using assms(1,2)
    by (auto simp: notificationService_getUnreadCount_def cached_count_def redis_get_def counter_exact_def key_alive_def
        split: option.splits prod.splits)
qed

section \<open>What the producer publishes\<close>

definition ids_are_uuids :: "db \<Rightarrow> bool" where
  "ids_are_uuids s \<longleftrightarrow> list_all (\<lambda>u. isUuidV4 (userId u)) (users s) \<and> list_all (\<lambda>b. isUuidV4 (boardWorkspaceId b)) (boards s) \<and>
     list_all (\<lambda>m. isUuidV4 (memUserId m)) (members s)"

fun event_ids_are_uuids :: "domain_event \<Rightarrow> bool" where
  "event_ids_are_uuids (CardAssigneeAdded i board user addedBy) \<longleftrightarrow> isUuidV4 user"
| "event_ids_are_uuids (MemberAdded ws user role) \<longleftrightarrow> isUuidV4 ws \<and> isUuidV4 user"
| "event_ids_are_uuids (MemberRoleChanged ws user old new) \<longleftrightarrow> isUuidV4 ws \<and> isUuidV4 user"
| "event_ids_are_uuids _ \<longleftrightarrow> True"

lemma workspace_of_board_uuid:
  "ids_are_uuids s \<Longrightarrow> boardService_findWorkspaceIdByBoardId b s = Some ws \<Longrightarrow> isUuidV4 ws"
  by (auto simp: boardService_findWorkspaceIdByBoardId_def boardRepo_findById_def boardRepo_findByIdIncludingArchived_def
      ids_are_uuids_def list_all_iff split: option.splits dest!: find_SomeD)

lemma in_map_filter: "y \<in> set (List.map_filter f xs) \<longleftrightarrow> (\<exists>x\<in>set xs. f x = Some y)"
  by (induction xs) (auto simp: List.map_filter_simps split: option.split)

lemma assignee_uuid:
  assumes "ids_are_uuids s" "u \<in> set (cardService_findAssigneeIdsByCardId c s)"
  shows "isUuidV4 u"
proof -
  from assms(2) obtain a where "map_option upId (user_profile_of a s) = Some u"
    by (auto simp: cardService_findAssigneeIdsByCardId_def cardRepo_findActiveById_def with_details_def in_map_filter
        simp del: map_option_eq_Some split: option.splits)
  then obtain x where "x \<in> set (users s)" "u = userId x"
    by (auto simp: user_profile_of_def dest!: find_SomeD)
  with assms(1) show ?thesis by (simp add: ids_are_uuids_def list_all_iff)
qed

lemma set_update_subset: "snd ` set (AList.update e v found) \<subseteq> insert v (snd ` set found)"
  by (induction found) auto

lemma snd_fold_update:
  "(\<And>m y. (m, y) \<in> set ms \<Longrightarrow> f m \<in> V) \<Longrightarrow> snd ` set found \<subseteq> V \<Longrightarrow>
   snd ` set (fold (\<lambda>(m, y) found. if C y then AList.update (k y) (f m) found else found) ms found) \<subseteq> V"
proof (induction ms arbitrary: found)
  case (Cons x ms)
  obtain m y where x: "x = (m, y)" by (cases x)
  with Cons.prems(1) [of m y] have "f m \<in> V" by simp
  with Cons.prems(2) have "snd ` set (AList.update (k y) (f m) found) \<subseteq> V"
    by (intro order_trans [OF set_update_subset]) simp
  moreover have "f m' \<in> V" if "(m', y') \<in> set ms" for m' y' using Cons.prems(1) [of m' y'] that by simp
  ultimately show ?case
    using Cons.IH [of found] Cons.IH [of "AList.update (k y) (f m) found"] Cons.prems(2) unfolding x fold_simps(2) prod.case
    by (cases "C y") (simp_all only: if_True if_False)
qed simp

lemma mentioned_members:
  assumes "(k, u) \<in> set (membershipService_findUserIdsByEmails ws emails s)"
  shows "u \<in> memUserId ` set (members s)"
proof -
  have "snd ` set (membershipService_findUserIdsByEmails ws emails s) \<subseteq> memUserId ` set (members s)"
  proof (cases "filter (\<lambda>e. e \<noteq> []) (map (\<lambda>e. js_trim (toLowerCase e)) emails) = []")
    case True
    then show ?thesis by (simp only: membershipService_findUserIdsByEmails_def Let_def if_True) simp
  next
    case False
    show ?thesis
      unfolding membershipService_findUserIdsByEmails_def Let_def if_not_P [OF False]
      by (rule snd_fold_update) (auto simp: memberRepo_findMembersWithUser_def)
  qed
  with assms show ?thesis by force
qed

lemma mentioned_uuid:
  assumes "ids_are_uuids s" "(k, u) \<in> set (membershipService_findUserIdsByEmails ws emails s)"
  shows "isUuidV4 u"
  using mentioned_members [OF assms(2)] assms(1) by (auto simp: ids_are_uuids_def list_all_iff)

lemma isValid_notice [simp]:
  "isValidNotificationPayload (card_notice u ws ty title board c actor) \<longleftrightarrow> isUuidV4 u \<and> isUuidV4 ws \<and> title \<noteq> []"
  "isValidNotificationPayload (comment_notice u ws ty title cm board author) \<longleftrightarrow> isUuidV4 u \<and> isUuidV4 ws \<and> title \<noteq> []"
  "isValidNotificationPayload (workspace_notice u ws ty title) \<longleftrightarrow> isUuidV4 u \<and> isUuidV4 ws \<and> title \<noteq> []"
  by (simp_all add: isValidNotificationPayload_def card_notice_def comment_notice_def workspace_notice_def)

lemma fan_out_valid:
  "ids_are_uuids s \<Longrightarrow> (\<And>t. title t \<noteq> []) \<Longrightarrow> (k, p) \<in> set (fanOutToAssignees board c actor key ty title s) \<Longrightarrow>
   isValidNotificationPayload p"
  by (auto simp: fanOutToAssignees_def assignee_uuid workspace_of_board_uuid split: option.splits if_splits)

lemma comment_valid:
  "ids_are_uuids s \<Longrightarrow> (k, p) \<in> set (handleCommentCreated c board author mentioned s) \<Longrightarrow> isValidNotificationPayload p"
  by (auto simp: handleCommentCreated_def notifyCommentAssignees_def notifyMentionedUsers_def Let_def
      assignee_uuid workspace_of_board_uuid mentioned_uuid split: option.splits if_splits)

text \<open>C40: The producer and the consumer agree on the message's shape: whatever domain event is published, every message the producer makes of it passes
  the consumer's check, provided the database's and the event's ids are version 4 uuids, so none is dropped as poison.
\<close>

theorem produced_payloads_are_valid:
  assumes "ids_are_uuids s" "event_ids_are_uuids e" "(key, p) \<in> set (produce e s)"
  shows "isValidNotificationPayload p"
  using assms
  by (cases e)
    (auto simp: handleAssigneeAdded_def workspace_of_board_uuid intro: fan_out_valid comment_valid split: option.splits if_splits)

section \<open>What a recipient cannot count on\<close>

text \<open>The consumer takes the deduplication key before it stores: when it dies between the two, every redelivery
  within the hour the key lives is acknowledged as a duplicate, and the notification is neither stored nor pushed.
\<close>

theorem a_crash_after_the_key_loses_the_message:
  assumes "redis_get now (processedKey (nmId (ndMessage d))) s = None" "t < now + 3600 * 1000"
    and "consumeOnce now (nmId (ndMessage d)) s = (first, crashed)"
  shows "first \<and> notificationConsumer_handle up i t d crashed = ((Done_with, []), crashed) \<and> notifications crashed = notifications s"
  using assms
  by (auto simp: consumeOnce_def notificationConsumer_handle_def redis_get_ops Let_def)

text \<open>An expired counter restarts at one, so it hides the unread rows from before.\<close>

lemma expired_counter_hides_unread:
  assumes "redis_get now (unreadCountKey (npUserId (nmPayload (ndMessage d)))) s = None" "now < no_expiry"
    and "notificationConsumer_handle up i now d s = ((v, out), s')" "out \<noteq> []"
  shows "notificationService_getUnreadCount now (npUserId (nmPayload (ndMessage d))) s' = 1"
proof -
  let ?u = "npUserId (nmPayload (ndMessage d))"
  from handle_cases [OF assms(3)] assms(4) obtain s1 where
    "redis s1 (unreadCountKey ?u) = redis s (unreadCountKey ?u)" and k: "redis s' (unreadCountKey ?u) = redis (bumpUnreadCounter now ?u s1) (unreadCountKey ?u)"
    by auto
  with assms(1) have "redis_get now (unreadCountKey ?u) s1 = None" by (simp add: redis_get_def)
  with assms(2) have "redis (bumpUnreadCounter now ?u s1) (unreadCountKey ?u) = Some (show_nat 1, now + UNREAD_COUNT_TTL_SECONDS * 1000)"
    by (simp add: bumpUnreadCounter_def redis_add_def redis_expire_def redis_get_def)
  with k show ?thesis
    by (simp add: notificationService_getUnreadCount_def cached_count_def redis_get_def UNREAD_COUNT_TTL_SECONDS_def)
qed

text \<open>Someone who mentions themselves is notified of their own comment.\<close>

lemma own_mention_is_notified:
  assumes "boardService_findWorkspaceIdByBoardId board s = Some ws" "ws \<noteq> []" "0 < length mentioned"
    and "(email, author) \<in> set (membershipService_findUserIdsByEmails ws mentioned s)"
  shows "\<exists>p. (''notification.comment.mentioned'', p) \<in> set (handleCommentCreated c board author mentioned s) \<and> npUserId p = author"
  using assms by (force simp: handleCommentCreated_def notifyMentionedUsers_def comment_notice_def)

section \<open>Witnesses\<close>

definition uid :: uuid where "uid = ''00000000-0000-4000-8000-00000000000a''"
definition wid :: uuid where "wid = ''00000000-0000-4000-8000-00000000000b''"

lemma uid_ok [simp]: "isUuidV4 uid" "isUuidV4 wid" "uid \<noteq> []" "wid \<noteq> []"
  by code_simp+

definition mail_db :: db where
  "mail_db = empty_db\<lparr>
     users := [sample_user uid ''u@x.org''],
     workspaces := [\<lparr>wsId = wid, wsName = ''Team'', wsSlug = ''team'', wsDescription = None,
       wsAvatarUrl = None, wsOwnerId = uid, wsCreatedAt = 0, wsArchivedAt = None\<rparr>],
     members := [sample_member ''mu'' uid Owner],
     boards := [sample_board\<lparr>boardWorkspaceId := wid\<rparr>]\<rparr>"

definition mail :: ntf_message where
  "mail = \<lparr>nmId = ''k'', nmPayload = workspace_notice uid wid WorkspaceInvited ''Hi''\<rparr>"

lemma mail_simps [simp]:
  "nmId mail = ''k''" "npUserId (nmPayload mail) = uid" "npWorkspaceId (nmPayload mail) = wid" "isValidNotificationPayload (nmPayload mail)"
  "redis mail_db k = None" "storable mail mail_db" "notifications mail_db = []" "rows_of i u mail_db = []" "\<not> is_stored mail mail_db"
  by (simp_all add: mail_def mail_db_def workspace_notice_def storable_def is_stored_def rows_of_def sample_db_defs
      isValidNotificationPayload_def)


theorem a_message_is_pushed_once_witness:
  "\<exists>out s'. deliveries [(True, ''n'', 5, \<lparr>ndMessage = mail, ndRetry = 0\<rparr>), (True, ''n2'', 9000000, \<lparr>ndMessage = mail, ndRetry = 1\<rparr>)] mail_db
      = (out, s') \<and> length (rows_of ''k'' uid s') = length (pushes_of ''k'' uid out) \<and> length (rows_of ''k'' uid s') \<le> 1"
proof -
  obtain out s' where d: "deliveries [(True, ''n'', 5, \<lparr>ndMessage = mail, ndRetry = 0\<rparr>), (True, ''n2'', 9000000, \<lparr>ndMessage = mail, ndRetry = 1\<rparr>)] mail_db
      = (out, s')" by (metis surj_pair)
  have "length (rows_of ''k'' uid mail_db) \<le> 1" by simp
  from a_message_is_pushed_once [OF this d] d show ?thesis by simp
qed

theorem counter_stays_exact_witness:
  "counter_exact uid (ntf_do 5 (Deliver True ''n'' \<lparr>ndMessage = mail, ndRetry = 0\<rparr>) mail_db) \<and>
    notificationService_getUnreadCount 5 uid mail_db = notificationRepo_countUnread uid mail_db"
proof -
  have "counter_exact uid mail_db" "key_alive 5 uid mail_db" "5 < no_expiry"
    by (simp_all add: counter_exact_def key_alive_def notificationRepo_countUnread_def no_expiry_def)
  from counter_stays_exact [OF this] show ?thesis .
qed

theorem a_crash_after_the_key_loses_the_message_witness:
  "consumeOnce 5 ''k'' mail_db = (True, snd (consumeOnce 5 ''k'' mail_db)) \<and>
    notificationConsumer_handle True ''n'' 3000000 \<lparr>ndMessage = mail, ndRetry = 0\<rparr> (snd (consumeOnce 5 ''k'' mail_db)) =
      ((Done_with, []), snd (consumeOnce 5 ''k'' mail_db))"
proof -
  let ?d = "\<lparr>ndMessage = mail, ndRetry = 0\<rparr>"
  have "redis_get 5 (processedKey (nmId (ndMessage ?d))) mail_db = None" by (simp add: redis_get_def)
  from a_crash_after_the_key_loses_the_message [OF this, of 3000000 "fst (consumeOnce 5 ''k'' mail_db)"
      "snd (consumeOnce 5 ''k'' mail_db)" True "''n''"]
  show ?thesis by (simp add: prod_eq_iff)
qed

theorem produced_payloads_are_valid_witness:
  "isValidNotificationPayload (snd (hd (produce (MemberAdded wid uid Member) mail_db)))"
  by (rule produced_payloads_are_valid [of mail_db "MemberAdded wid uid Member" "fst (hd (produce (MemberAdded wid uid Member) mail_db))"])
    (simp_all add: ids_are_uuids_def mail_db_def sample_db_defs)

definition long_db :: db where
  "long_db = mail_db\<lparr>cards := [(sample_card ''a'' ''l'' ''m'')\<lparr>cardTitle := replicate 278 CHR ''x''\<rparr>]\<rparr>"

theorem long_titles_are_never_notified_witness:
  "\<exists>p. produce (CardAssigneeAdded ''a'' ''b'' uid ''z'') long_db = [(''notification.card.assigned'', p)] \<and>
    attempts [True, True, True, True] ''n'' 5 \<lparr>ndMessage = \<lparr>nmId = ''k'', nmPayload = p\<rparr>, ndRetry = 0\<rparr> long_db = ((Rejected, []), long_db)"
proof -
  have title: "cardService_findTitleById ''a'' long_db = Some (replicate 278 CHR ''x'')"
    by (simp add: cardService_findTitleById_def cardRepo_findActiveById_def find_active_card_def long_db_def sample_card_def
        card_in_scope_def with_details_def)
  have ws: "boardService_findWorkspaceIdByBoardId ''b'' long_db = Some wid"
    by (simp add: boardService_findWorkspaceIdByBoardId_def boardRepo_findById_def long_db_def mail_db_def sample_board_def)
  have "uid \<noteq> ''z''" by (simp add: uid_def)
  with title ws have p: "produce (CardAssigneeAdded ''a'' ''b'' uid ''z'') long_db = [(''notification.card.assigned'',
      card_notice uid wid CardAssigned (''You were assigned to '' @ quoted (replicate 278 CHR ''x'')) ''b'' ''a'' ''z'')]"
    by (simp add: handleAssigneeAdded_def title_or_card_def del: replicate.simps)
  have free: "redis long_db k = None" for k by (simp add: long_db_def)
  have "attempts [True, True, True, True] ''n'' 5 \<lparr>ndMessage = \<lparr>nmId = ''k'', nmPayload = card_notice uid wid CardAssigned
      (''You were assigned to '' @ quoted (replicate 278 CHR ''x'')) ''b'' ''a'' ''z''\<rparr>, ndRetry = 0\<rparr> long_db = ((Rejected, []), long_db)"
    by (rule long_titles_are_never_notified [OF title, where key = "''notification.card.assigned''" and board = "''b''" and user = uid
          and actor = "''z''"]) (simp_all add: p free del: replicate.simps produce.simps)
  with p show ?thesis by blast
qed

end
