(* ===== verification/Files.thy ===== *)
theory Files
  imports Documents Memberships
begin

text \<open>
  File attachments (\<open>src/modules/file/\<close>): the two-phase upload. The object store is a third-party service: how it signs
  an address is a parameter, together with the configured bucket, expiry and size limit; the deletion of an object, whose failure is
  only logged, has no effect on the model's state.
\<close>

section \<open>File names and object keys\<close>

definition FILE_NAME_MAX_LENGTH :: nat where "FILE_NAME_MAX_LENGTH = 100"

definition safe_char :: "char \<Rightarrow> bool" where
  "safe_char c \<longleftrightarrow> is_lower c \<or> is_upper c \<or> is_digit c \<or> c \<in> set ''._-''"

text \<open>\<open>split(/[\\/]/).pop()\<close> is what follows the last separator.\<close>

definition last_segment :: "string \<Rightarrow> string" where
  "last_segment t = rev (takeWhile (\<lambda>c. c \<noteq> CHR ''/'' \<and> c \<noteq> CHR 0x5C) (rev t))"

definition sanitizeFileName :: "string \<Rightarrow> string" where
  "sanitizeFileName fileName =
     (let cleaned = take FILE_NAME_MAX_LENGTH (map (\<lambda>c. if safe_char c then c else CHR ''_'') (last_segment fileName))
      in if 0 < length cleaned then cleaned else ''file'')"

fun host_name :: "entity_type \<Rightarrow> string" where
  "host_name BoardEntity = ''board''" | "host_name ListEntity = ''list''" | "host_name CardEntity = ''card''"
| "host_name CommentEntity = ''comment''" | "host_name LabelEntity = ''label''" | "host_name AssigneeEntity = ''assignee''"
| "host_name AttachmentEntity = ''attachment''" | "host_name DocumentEntity = ''document''" | "host_name WorkspaceEntity = ''workspace''"

text \<open>The random uuid of the suffix is an argument.\<close>

definition buildS3Key :: "uuid \<Rightarrow> uuid \<Rightarrow> entity_type \<Rightarrow> uuid \<Rightarrow> string \<Rightarrow> string" where
  "buildS3Key random ws ty i fileName =
     ''workspaces/'' @ ws @ ''/'' @ host_name ty @ ''s/'' @ i @ ''/'' @ take 8 random @ ''-'' @ sanitizeFileName fileName"

section \<open>FileRepository\<close>

text \<open>The columns' lengths, the check on the host type, the unique key and the references.\<close>

definition fileRepo_createPending :: "file_row \<Rightarrow> db \<Rightarrow> file_row outcome" where
  "fileRepo_createPending f s =
     (if 500 < length (fileS3Key f) \<or> 255 < length (fileOriginalName f) \<or> 100 < length (fileMimeType f) \<or> 100 < length (fileS3Bucket f)
        then (Inl (PrismaError ''P2000''), s)
      else if fileEntityType f \<notin> {CardEntity, DocumentEntity} then (Inl (PrismaError ''P2004''), s)
      else if list_ex (\<lambda>r. fileId r = fileId f \<or> fileS3Key r = fileS3Key f) (files s) then (Inl (PrismaError ''P2002''), s)
      else if \<not> list_ex (\<lambda>u. userId u = fileUploadedBy f) (users s) \<or> \<not> list_ex (\<lambda>w. wsId w = fileWorkspaceId f) (workspaces s)
        then (Inl (PrismaError ''P2003''), s)
      else (Inr f, s\<lparr>files := files s @ [f]\<rparr>))"

definition fileRepo_findActiveById :: "uuid \<Rightarrow> db \<Rightarrow> file_row option" where
  "fileRepo_findActiveById i s = find (\<lambda>f. fileId f = i \<and> fileArchivedAt f = None) (files s)"

definition file_update :: "uuid \<Rightarrow> (file_row \<Rightarrow> file_row) \<Rightarrow> db \<Rightarrow> file_row outcome" where
  "file_update i g s = or_missing (update_by fileId i g (files s)) (\<lambda>(row, rows) s. (Inr row, s\<lparr>files := rows\<rparr>)) s"

definition fileRepo_confirm :: "instant \<Rightarrow> uuid \<Rightarrow> db \<Rightarrow> file_row outcome" where
  "fileRepo_confirm now i = file_update i (\<lambda>f. f\<lparr>fileStatus := FileCompleted, fileUpdatedAt := now\<rparr>)"

definition fileRepo_archive :: "instant \<Rightarrow> uuid \<Rightarrow> db \<Rightarrow> file_row outcome" where
  "fileRepo_archive now i = file_update i (\<lambda>f. f\<lparr>fileArchivedAt := Some now, fileUpdatedAt := now\<rparr>)"

definition fileRepo_markStalePendingAsFailed :: "instant \<Rightarrow> instant \<Rightarrow> db \<Rightarrow> nat \<times> db" where
  "fileRepo_markStalePendingAsFailed now cutoff s =
     (let stale = (\<lambda>f. fileStatus f = FilePending \<and> fileCreatedAt f < cutoff)
      in (length (filter stale (files s)),
          s\<lparr>files := update_many stale (\<lambda>f. f\<lparr>fileStatus := FileFailed, fileUpdatedAt := now\<rparr>) (files s)\<rparr>))"

definition fileRepo_listForEntity :: "entity_type \<Rightarrow> uuid \<Rightarrow> db \<Rightarrow> file_row list" where
  "fileRepo_listForEntity ty i s =
     order_desc fileCreatedAt (filter (\<lambda>f. fileEntityType f = ty \<and> fileEntityId f = i \<and> fileArchivedAt f = None) (files s))"

definition STALE_UPLOAD_TTL_HOURS :: int where "STALE_UPLOAD_TTL_HOURS = 24"

definition markStaleUploadsFailed :: "instant \<Rightarrow> db \<Rightarrow> db" where
  "markStaleUploadsFailed now s = snd (fileRepo_markStalePendingAsFailed now (now - STALE_UPLOAD_TTL_HOURS * 60 * 60 * 1000) s)"

section \<open>FileService\<close>

text \<open>What the code takes from the object store and the configuration.\<close>

record storage =
  stPut :: "string \<Rightarrow> string \<Rightarrow> int \<Rightarrow> string"     \<comment> \<open>the signed address to write a key with a type\<close>
  stGet :: "string \<Rightarrow> int \<Rightarrow> string"
  stBucket :: string
  stMaxSize :: int
  stExpiresIn :: int

definition ALLOWED_MIME_TYPES :: "string list" where
  "ALLOWED_MIME_TYPES =
     [''image/jpeg'', ''image/png'', ''image/gif'', ''image/webp'', ''application/pdf'', ''text/plain'', ''text/csv'',
      ''application/msword'', ''application/vnd.openxmlformats-officedocument.wordprocessingml.document'',
      ''application/vnd.ms-excel'', ''application/vnd.openxmlformats-officedocument.spreadsheetml.sheet'']"

record upload_input =
  uiFileName :: string
  uiMimeType :: string
  uiFileSize :: int
  uiEntityType :: entity_type
  uiEntityId :: uuid

record upload_result =
  urFileId :: uuid
  urUploadUrl :: string
  urS3Key :: string
  urExpiresIn :: int

definition requireMembership :: "uuid \<Rightarrow> uuid \<Rightarrow> db \<Rightarrow> error + workspace_role" where
  "requireMembership ws user s =
     (case membershipService_requireWorkspace ws s of
        Some e \<Rightarrow> Inl e
      | None \<Rightarrow> (case memberRepo_findMember ws user s of None \<Rightarrow> Inl (Forbidden ''FORBIDDEN'') | Some m \<Rightarrow> Inr (memRole m)))"

definition verifyHostExists :: "uuid \<Rightarrow> entity_type \<Rightarrow> uuid \<Rightarrow> db \<Rightarrow> error option" where
  "verifyHostExists ws ty i s =
     (if ty \<notin> {CardEntity, DocumentEntity} then Some (AppError ''VALIDATION_ERROR'' 400)
      else if ty = CardEntity then
        (case cardRepo_findActiveById i None s of None \<Rightarrow> Some (EntityNotFound ''Card'' i) | Some c \<Rightarrow> None)
      else (case documentService_findById i (Some ws) s of Inl e \<Rightarrow> Some e | Inr d \<Rightarrow> None))"

definition upload_check :: "storage \<Rightarrow> uuid \<Rightarrow> upload_input \<Rightarrow> uuid \<Rightarrow> db \<Rightarrow> error option" where
  "upload_check st ws dto user s =
     (case requireMembership ws user s of
        Inl e \<Rightarrow> Some e
      | Inr _ \<Rightarrow>
          (case verifyHostExists ws (uiEntityType dto) (uiEntityId dto) s of
             Some e \<Rightarrow> Some e
           | None \<Rightarrow>
               if uiMimeType dto \<notin> set ALLOWED_MIME_TYPES then Some (BusinessRule ''MIME_NOT_ALLOWED'')
               else if uiFileSize dto < 1 \<or> stMaxSize st < uiFileSize dto then Some (BusinessRule ''FILE_TOO_LARGE'')
               else None))"

definition pending_file :: "storage \<Rightarrow> uuid \<Rightarrow> instant \<Rightarrow> string \<Rightarrow> uuid \<Rightarrow> upload_input \<Rightarrow> uuid \<Rightarrow> file_row" where
  "pending_file st newId now key ws dto user =
     \<lparr>fileId = newId, fileWorkspaceId = ws, fileUploadedBy = user, fileS3Bucket = stBucket st, fileS3Key = key,
      fileOriginalName = uiFileName dto, fileMimeType = uiMimeType dto, fileSize = uiFileSize dto,
      fileEntityType = uiEntityType dto, fileEntityId = uiEntityId dto, fileStatus = FilePending, fileArchivedAt = None,
      fileCreatedAt = now, fileUpdatedAt = now\<rparr>"

definition fileService_requestUpload ::
  "storage \<Rightarrow> uuid \<Rightarrow> uuid \<Rightarrow> instant \<Rightarrow> uuid \<Rightarrow> upload_input \<Rightarrow> uuid \<Rightarrow> db \<Rightarrow> upload_result outcome" where
  "fileService_requestUpload st newId random now ws dto user s =
     (case upload_check st ws dto user s of
        Some e \<Rightarrow> (Inl e, s)
      | None \<Rightarrow>
          let key = buildS3Key random ws (uiEntityType dto) (uiEntityId dto) (uiFileName dto)
          in await (fileRepo_createPending (pending_file st newId now key ws dto user) s)
               (\<lambda>row s. (Inr \<lparr>urFileId = fileId row, urUploadUrl = stPut st key (uiMimeType dto) (stExpiresIn st), urS3Key = key,
                              urExpiresIn = stExpiresIn st\<rparr>, s)))"

text \<open>
  Confirmation and deletion read the row and decide, then write by id; nothing holds the row in between, so
  the two halves are definitions of their own.
\<close>

definition may_change_file :: "file_row \<Rightarrow> uuid \<Rightarrow> db \<Rightarrow> error option" where
  "may_change_file row user s =
     (case requireMembership (fileWorkspaceId row) user s of
        Inl e \<Rightarrow> Some e
      | Inr role \<Rightarrow> if fileUploadedBy row \<noteq> user \<and> role \<noteq> Owner \<and> role \<noteq> Admin then Some (Forbidden ''FORBIDDEN'') else None)"

definition confirm_check :: "uuid \<Rightarrow> uuid \<Rightarrow> db \<Rightarrow> error + file_row \<times> bool" where
  "confirm_check i user s =
     (case fileRepo_findActiveById i s of
        None \<Rightarrow> Inl (EntityNotFound ''FileAttachment'' i)
      | Some row \<Rightarrow>
          (case may_change_file row user s of
             Some e \<Rightarrow> Inl e
           | None \<Rightarrow> if fileStatus row = FileCompleted then Inr (row, False)
                     else if fileStatus row \<noteq> FilePending then Inl (BusinessRule ''INVALID_FILE_STATUS'')
                     else Inr (row, True)))"

definition fileService_confirm :: "instant \<Rightarrow> uuid \<Rightarrow> uuid \<Rightarrow> db \<Rightarrow> file_row outcome" where
  "fileService_confirm now i user s =
     (case confirm_check i user s of
        Inl e \<Rightarrow> (Inl e, s)
      | Inr (row, pending) \<Rightarrow> if pending then fileRepo_confirm now i s else (Inr row, s))"

definition fileService_download :: "storage \<Rightarrow> uuid \<Rightarrow> uuid \<Rightarrow> db \<Rightarrow> error + string \<times> int" where
  "fileService_download st i user s =
     (case fileRepo_findActiveById i s of
        None \<Rightarrow> Inl (EntityNotFound ''FileAttachment'' i)
      | Some row \<Rightarrow>
          if fileStatus row \<noteq> FileCompleted then Inl (EntityNotFound ''FileAttachment'' i)
          else (case requireMembership (fileWorkspaceId row) user s of
                  Inl e \<Rightarrow> Inl e
                | Inr _ \<Rightarrow> Inr (stGet st (fileS3Key row) (stExpiresIn st), stExpiresIn st)))"

definition fileService_listForEntity :: "entity_type \<Rightarrow> uuid \<Rightarrow> uuid \<Rightarrow> uuid \<Rightarrow> db \<Rightarrow> error + file_row list" where
  "fileService_listForEntity ty i user ws s =
     (case requireMembership ws user s of
        Inl e \<Rightarrow> Inl e
      | Inr _ \<Rightarrow> Inr (filter (\<lambda>f. fileWorkspaceId f = ws) (fileRepo_listForEntity ty i s)))"

definition fileService_delete :: "instant \<Rightarrow> uuid \<Rightarrow> uuid \<Rightarrow> db \<Rightarrow> unit outcome" where
  "fileService_delete now i user s =
     (case fileRepo_findActiveById i s of
        None \<Rightarrow> (Inl (EntityNotFound ''FileAttachment'' i), s)
      | Some row \<Rightarrow>
          (case may_change_file row user s of
             Some e \<Rightarrow> (Inl e, s)
           | None \<Rightarrow> await (fileRepo_archive now i s) (\<lambda>_ s. (Inr (), s))))"

end
