(* ===== verification/File_Properties.thy ===== *)
theory File_Properties
  imports Files Samples
begin

text \<open>
  What uploads promise: a key never leaves the folder of its host, a file only moves forward through its states, and
  only members get an address to read or write.
\<close>

section \<open>Keys\<close>

text \<open>A key cut at its slashes.\<close>

fun segments :: "string \<Rightarrow> string list" where
  "segments [] = [[]]"
| "segments (c # cs) = (if c = CHR ''/'' then [] # segments cs else case segments cs of [] \<Rightarrow> [[c]] | x # xs \<Rightarrow> (c # x) # xs)"

lemma segments_nonempty [simp]: "segments t \<noteq> []"
  by (induction t) (auto split: list.split)

lemma segments_plain: "CHR ''/'' \<notin> set t \<Longrightarrow> segments t = [t]"
  by (induction t) auto

lemma segments_split: "CHR ''/'' \<notin> set t \<Longrightarrow> segments (t @ CHR ''/'' # rest) = t # segments rest"
  by (induction t) auto

lemma host_name_plain [simp]: "CHR ''/'' \<notin> set (host_name ty)"
  by (cases ty) simp_all

lemma host_name_inj [simp]: "host_name a = host_name b \<longleftrightarrow> a = b"
  by (cases a; cases b) simp_all

lemma safe_chars [simp]:
  "safe_char CHR ''_''" "safe_char CHR ''f''" "safe_char CHR ''i''" "safe_char CHR ''l''" "safe_char CHR ''e''" "\<not> safe_char CHR ''/''" "\<not> safe_char (CHR 0x5C)"
  by code_simp+

lemma sanitized: "list_all safe_char (sanitizeFileName t) \<and> 0 < length (sanitizeFileName t) \<and> length (sanitizeFileName t) \<le> 100"
proof -
  let ?cleaned = "take FILE_NAME_MAX_LENGTH (map (\<lambda>c. if safe_char c then c else CHR ''_'') (last_segment t))"
  have "list_all safe_char ?cleaned" by (auto simp: list_all_iff dest!: in_set_takeD)
  then show ?thesis by (cases "?cleaned = []") (simp_all add: sanitizeFileName_def Let_def FILE_NAME_MAX_LENGTH_def)
qed

lemma sanitized_plain [simp]: "CHR ''/'' \<notin> set (sanitizeFileName t)"
  using sanitized [of t] by (auto simp: list_all_iff)

lemma last_segment_plain: "(\<And>c. c \<in> set t \<Longrightarrow> c \<noteq> CHR ''/'' \<and> c \<noteq> CHR 0x5C) \<Longrightarrow> last_segment t = t"
  unfolding last_segment_def by (subst takeWhile_eq_all_conv [THEN iffD2]) auto

lemma sanitize_idem: "sanitizeFileName (sanitizeFileName t) = sanitizeFileName t"
proof -
  let ?x = "sanitizeFileName t"
  have x: "list_all safe_char ?x" "?x \<noteq> []" "length ?x \<le> 100" using sanitized [of t] by auto
  from x(1) have "last_segment ?x = ?x" by (intro last_segment_plain) (auto simp: list_all_iff)
  moreover from x(1) have "map (\<lambda>c. if safe_char c then c else CHR ''_'') ?x = ?x" by (intro map_idI) (simp add: list_all_iff)
  ultimately show ?thesis using x(2,3) by (simp add: sanitizeFileName_def [of ?x] Let_def FILE_NAME_MAX_LENGTH_def)
qed

text \<open>Whatever a client calls the file, its object key stays in the folder of its host: cut at the slashes it is exactly
  the workspace, the kind of host, the host and the suffixed name, so the workspace and the host can be read back from it; the
  name part is one to a hundred harmless characters, cleaning it again changes nothing, and with uuids for ids the key fits its column.
\<close>

theorem key_names_its_host:
  assumes "CHR ''/'' \<notin> set ws" "CHR ''/'' \<notin> set i" "CHR ''/'' \<notin> set random"
  shows "segments (buildS3Key random ws ty i fileName) =
      [''workspaces'', ws, host_name ty @ ''s'', i, take 8 random @ ''-'' @ sanitizeFileName fileName] \<and>
    list_all safe_char (sanitizeFileName fileName) \<and> sanitizeFileName fileName \<noteq> [] \<and> length (sanitizeFileName fileName) \<le> 100 \<and>
    sanitizeFileName (sanitizeFileName fileName) = sanitizeFileName fileName \<and>
    (length ws = 36 \<and> length i = 36 \<longrightarrow> length (buildS3Key random ws ty i fileName) \<le> 500)"
proof -
  have "CHR ''/'' \<notin> set (take 8 random @ ''-'' @ sanitizeFileName fileName)" using assms(3) by (auto dest: in_set_takeD)
  moreover have "CHR ''/'' \<notin> set (host_name ty @ ''s'')" by simp
  ultimately have "segments (''workspaces'' @ CHR ''/'' # ws @ CHR ''/'' # (host_name ty @ ''s'') @ CHR ''/'' # i @ CHR ''/'' #
      (take 8 random @ ''-'' @ sanitizeFileName fileName)) =
      [''workspaces'', ws, host_name ty @ ''s'', i, take 8 random @ ''-'' @ sanitizeFileName fileName]"
    using assms(1,2) by (subst segments_split, simp)+ (simp add: segments_plain del: segments.simps)
  moreover have "length (host_name ty) \<le> 10" by (cases ty) simp_all
  moreover have "min (length random) 8 \<le> 8" by simp
  ultimately show ?thesis using sanitized [of fileName] sanitize_idem [of fileName] by (auto simp: buildS3Key_def)
qed

theorem key_names_its_host_witness:
  "segments (buildS3Key ''0123456789'' ''w'' CardEntity ''c'' ''../../etc/pass wd'') = [''workspaces'', ''w'', ''cards'', ''c'', ''01234567-pass_wd'']"
proof -
  have "sanitizeFileName ''../../etc/pass wd'' = ''pass_wd''" by code_simp
  with key_names_its_host [of "''w''" "''c''" "''0123456789''" CardEntity "''../../etc/pass wd''"]
  show ?thesis by (simp add: eval_nat_numeral)
qed

section \<open>The states of a file\<close>

datatype file_call =
    Request storage uuid uuid uuid upload_input uuid
  | Confirm uuid uuid
  | Delete_file uuid uuid
  | Sweep

fun file_do :: "instant \<Rightarrow> file_call \<Rightarrow> db \<Rightarrow> db" where
  "file_do now (Request st newId random ws dto user) s = snd (fileService_requestUpload st newId random now ws dto user s)"
| "file_do now (Confirm i user) s = snd (fileService_confirm now i user s)"
| "file_do now (Delete_file i user) s = snd (fileService_delete now i user s)"
| "file_do now Sweep s = markStaleUploadsFailed now s"

fun file_run :: "(instant \<times> file_call) list \<Rightarrow> db \<Rightarrow> db" where
  "file_run [] s = s"
| "file_run ((now, c) # cs) s = file_run cs (file_do now c s)"

text \<open>What may become of a row: its state moves from pending only, an archive mark stays, the rest is fixed.\<close>

definition later_file :: "file_row \<Rightarrow> file_row \<Rightarrow> bool" where
  "later_file a b \<longleftrightarrow> fileId b = fileId a \<and> fileWorkspaceId b = fileWorkspaceId a \<and> fileUploadedBy b = fileUploadedBy a \<and>
     fileS3Key b = fileS3Key a \<and> fileMimeType b = fileMimeType a \<and> fileEntityType b = fileEntityType a \<and>
     fileEntityId b = fileEntityId a \<and> fileSize b = fileSize a \<and>
     (fileStatus a \<noteq> FilePending \<longrightarrow> fileStatus b = fileStatus a) \<and> (fileArchivedAt a \<noteq> None \<longrightarrow> fileArchivedAt b = fileArchivedAt a)"

definition files_later :: "db \<Rightarrow> db \<Rightarrow> bool" where
  "files_later s s' \<longleftrightarrow> unique_key fileId (files s') \<and> (\<forall>a\<in>set (files s). \<exists>b\<in>set (files s'). later_file a b)"

lemma later_refl [simp]: "later_file a a"
  by (simp add: later_file_def)

lemma later_trans: "later_file a b \<Longrightarrow> later_file b c \<Longrightarrow> later_file a c"
  by (auto simp: later_file_def)

lemma files_later_refl: "unique_key fileId (files s) \<Longrightarrow> files_later s s"
  by (auto simp: files_later_def intro: later_refl)

lemma files_later_map:
  assumes "unique_key fileId (files s)" "files s' = map g (files s)" "\<And>a. a \<in> set (files s) \<Longrightarrow> later_file a (g a)"
  shows "files_later s s'"
proof -
  have "map fileId (map g (files s)) = map fileId (files s)" using assms(3) by (auto simp: later_file_def)
  with assms(1,2) have "unique_key fileId (files s')" by (simp only: unique_key_def)
  with assms(2,3) show ?thesis by (auto simp: files_later_def)
qed

lemma file_update_later:
  assumes "unique_key fileId (files s)" "row \<in> set (files s)" "fileId row = i" "later_file row (g row)"
  shows "files_later s (snd (file_update i g s))"
proof -
  have "find (\<lambda>x. fileId x = i) (files s) \<noteq> None" using assms(2,3) by (auto simp: find_None_iff)
  then have "files (snd (file_update i g s)) = map (\<lambda>x. if fileId x = i then g x else x) (files s)"
    by (auto simp: file_update_def or_missing_def update_by_def)
  moreover have "later_file a (if fileId a = i then g a else a)" if "a \<in> set (files s)" for a
    using unique_keyD [OF assms(1) that assms(2)] assms(3,4) by auto
  ultimately show ?thesis by (rule files_later_map [OF assms(1)])
qed

lemma active_file_SomeD: "fileRepo_findActiveById i s = Some row \<Longrightarrow> row \<in> set (files s) \<and> fileId row = i \<and> fileArchivedAt row = None"
  by (auto simp: fileRepo_findActiveById_def dest!: find_SomeD)

lemma request_later:
  assumes "unique_key fileId (files s)"
  shows "files_later s (snd (fileService_requestUpload st newId random now ws dto user s))"
proof -
  have "files_later s (snd (fileRepo_createPending f s))" for f
    using assms by (auto simp: fileRepo_createPending_def files_later_def unique_key_def list_ex_iff intro: later_refl)
  then show ?thesis
    using files_later_refl [OF assms]
    by (auto simp: fileService_requestUpload_def Let_def await_def split: option.split prod.split sum.split) (metis snd_conv)+
qed

lemma file_step_later:
  assumes "unique_key fileId (files s)"
  shows "files_later s (file_do now c s)"
proof (cases c)
  case (Request st newId random ws dto user)
  with request_later [OF assms] show ?thesis by simp
next
  case (Confirm i user)
  have "files_later s (snd (fileRepo_confirm now i s))" if "confirm_check i user s = Inr (row, True)" for row
  proof -
    from that obtain f where "fileRepo_findActiveById i s = Some f" "fileStatus f = FilePending"
      by (auto simp: confirm_check_def split: option.splits if_splits)
    with active_file_SomeD show ?thesis
      unfolding fileRepo_confirm_def by (intro file_update_later [OF assms]) (auto simp: later_file_def)
  qed
  with Confirm files_later_refl [OF assms] show ?thesis
    by (auto simp: fileService_confirm_def split: sum.split prod.split)
next
  case (Delete_file i user)
  have "files_later s (snd (fileRepo_archive now i s))" if "fileRepo_findActiveById i s = Some f" for f
    unfolding fileRepo_archive_def using active_file_SomeD [OF that]
    by (intro file_update_later [OF assms]) (auto simp: later_file_def)
  with Delete_file files_later_refl [OF assms] show ?thesis
    by (auto simp: fileService_delete_def await_def split: option.split prod.split sum.split)
next
  case Sweep
  have "files (markStaleUploadsFailed now s) =
      map (\<lambda>f. if fileStatus f = FilePending \<and> fileCreatedAt f < now - STALE_UPLOAD_TTL_HOURS * 60 * 60 * 1000
        then f\<lparr>fileStatus := FileFailed, fileUpdatedAt := now\<rparr> else f) (files s)"
    by (simp add: markStaleUploadsFailed_def fileRepo_markStalePendingAsFailed_def Let_def update_many_def)
  from files_later_map [OF assms this] Sweep show ?thesis by (simp add: later_file_def)
qed

lemma file_run_later: "unique_key fileId (files s) \<Longrightarrow> files_later s (file_run cs s)"
proof (induction cs arbitrary: s)
  case (Cons x cs)
  obtain now c where x: "x = (now, c)" by (cases x)
  from file_step_later [OF Cons.prems, of now c] have step: "files_later s (file_do now c s)" .
  then have "files_later (file_do now c s) (file_run cs (file_do now c s))" by (intro Cons.IH) (simp add: files_later_def)
  with step show ?case unfolding x files_later_def file_run.simps by (blast intro: later_trans)
qed (simp add: files_later_refl)


definition upload_db :: db where
  "upload_db = sample_db\<lparr>files := [\<lparr>fileId = ''f'', fileWorkspaceId = ''w'', fileUploadedBy = ''m'', fileS3Bucket = ''b'',
     fileS3Key = ''k'', fileOriginalName = ''a.txt'', fileMimeType = ''text/plain'', fileSize = 3, fileEntityType = CardEntity,
     fileEntityId = ''a'', fileStatus = FilePending, fileArchivedAt = None, fileCreatedAt = 0, fileUpdatedAt = 0\<rparr>]\<rparr>"

definition plain_storage :: storage where
  "plain_storage = \<lparr>stPut = (\<lambda>k t e. k), stGet = (\<lambda>k e. k), stBucket = ''b'', stMaxSize = 26214400, stExpiresIn = 3600\<rparr>"


section \<open>Who may upload\<close>

text \<open>An upload address is given out only to a member of the workspace, for an allowed type and a size within the limit,
  and for a card that exists or a document of that workspace; the row it leaves is pending, in that workspace and by that user, and
  a refusal leaves nothing.
\<close>

theorem upload_is_checked:
  assumes "fileService_requestUpload st newId random now ws dto user s = (r, s')"
  shows "(\<forall>e. r = Inl e \<longrightarrow> s' = s) \<and>
    (\<forall>u. r = Inr u \<longrightarrow>
      workspaceRepo_findById ws s \<noteq> None \<and> memberRepo_findMember ws user s \<noteq> None \<and>
      uiMimeType dto \<in> set ALLOWED_MIME_TYPES \<and> 1 \<le> uiFileSize dto \<and> uiFileSize dto \<le> stMaxSize st \<and>
      (uiEntityType dto = CardEntity \<and> cardRepo_findActiveById (uiEntityId dto) None s \<noteq> None \<or>
       uiEntityType dto = DocumentEntity \<and> (\<exists>d. documentService_findById (uiEntityId dto) (Some ws) s = Inr d)) \<and>
      (\<exists>f. files s' = files s @ [f] \<and> fileId f = urFileId u \<and> fileStatus f = FilePending \<and> fileWorkspaceId f = ws \<and>
        fileUploadedBy f = user \<and> fileS3Key f = urS3Key u \<and> urUploadUrl u = stPut st (fileS3Key f) (fileMimeType f) (stExpiresIn st)))"
  using assms
  by (auto simp: fileService_requestUpload_def upload_check_def requireMembership_def membershipService_requireWorkspace_def
      verifyHostExists_def fileRepo_createPending_def pending_file_def Let_def split: option.splits sum.splits if_splits)

theorem upload_is_checked_witness:
  "\<exists>u s'. fileService_requestUpload plain_storage ''n'' ''01234567'' 5 ''w'' \<lparr>uiFileName = ''a.txt'', uiMimeType = ''text/plain'', uiFileSize = 3,
      uiEntityType = CardEntity, uiEntityId = ''a''\<rparr> ''m'' upload_db = (Inr u, s') \<and> length (files s') = 2"
proof -
  let ?dto = "\<lparr>uiFileName = ''a.txt'', uiMimeType = ''text/plain'', uiFileSize = 3, uiEntityType = CardEntity, uiEntityId = ''a''\<rparr>"
  obtain r s' where r: "fileService_requestUpload plain_storage ''n'' ''01234567'' 5 ''w'' ?dto ''m'' upload_db = (r, s')" by (metis surj_pair)
  have "case fst (fileService_requestUpload plain_storage ''n'' ''01234567'' 5 ''w'' ?dto ''m'' upload_db) of Inl e \<Rightarrow> False | Inr u \<Rightarrow> True"
    by code_simp
  with r obtain u where "r = Inr u" by (cases r) simp_all
  moreover from upload_is_checked [OF r] this obtain f where "files s' = files upload_db @ [f]" by blast
  moreover have "length (files upload_db) = 1" by (simp add: upload_db_def)
  ultimately show ?thesis using r by auto
qed

text \<open>The card is looked up in the whole table: a member of any workspace can bind a file of theirs to a foreign card.\<close>

lemma file_on_foreign_card:
  assumes "cardRepo_findActiveById i None s \<noteq> None"
  shows "verifyHostExists ws CardEntity i s = None"
  using assms by (auto simp: verifyHostExists_def)

text \<open>Confirmation writes by id alone: a sweep between its two halves turns a failed upload into a completed one.\<close>

lemma confirm_revives_failed_upload:
  "let s = file_do 100000000 Sweep upload_db
   in confirm_check ''f'' ''m'' upload_db = Inr (hd (files upload_db), True) \<and> fileStatus (hd (files s)) = FileFailed \<and>
      fileStatus (hd (files (snd (fileRepo_confirm 100000000 ''f'' s)))) = FileCompleted"
  by code_simp

end
