(* ===== verification/Iso_Date.thy ===== *)
theory Iso_Date
  imports Decimals
begin

text \<open>
  The dates of the language: \<open>toISOString\<close> and the reading of that format, over the proleptic Gregorian
  calendar. An instant is the number of milliseconds since 1970.
\<close>

section \<open>The calendar\<close>

definition leap_year :: "int \<Rightarrow> bool" where
  "leap_year y \<longleftrightarrow> y mod 4 = 0 \<and> (y mod 100 \<noteq> 0 \<or> y mod 400 = 0)"

text \<open>The day a year begins, counted from 1970.\<close>

definition day_from_year :: "int \<Rightarrow> int" where
  "day_from_year y = 365 * (y - 1970) + (y - 1969) div 4 - (y - 1901) div 100 + (y - 1601) div 400"

lemma day_from_year_Suc: "day_from_year (y + 1) = day_from_year y + (if leap_year y then 366 else 365)"
proof -
  have step: "(x + 1) div k = x div k + (if (x + 1) mod k = 0 then 1 else 0)" if "1 < k" for x k :: int
  proof -
    have d: "(x + 1) div k = x div k + (x mod k + 1) div k"
      using div_mult_self1 [of k "x mod k + 1" "x div k"] that by (simp add: add.commute add.left_commute)
    have m: "(x + 1) mod k = (x mod k + 1) mod k" by (simp add: mod_simps)
    have r: "0 \<le> x mod k" "x mod k < k" using that by simp_all
    show ?thesis
    proof (cases "x mod k + 1 = k")
      case True
      with d m that show ?thesis by simp
    next
      case False
      with r have s: "x mod k + 1 < k" "0 \<le> x mod k + 1" by linarith+
      then have "(x + 1) mod k \<noteq> 0" unfolding m using r(1) by (simp only: mod_pos_pos_trivial)
      with d div_pos_pos_trivial [OF s(2,1)] show ?thesis by (simp only: if_False)
    qed
  qed
  have m: "(y - 1968) mod 4 = y mod 4" "(y - 1900) mod 100 = y mod 100" "(y - 1600) mod 400 = y mod 400"
    using mod_mult_self2 [of y 4 "- 492"] mod_mult_self2 [of y 100 "- 19"] mod_mult_self2 [of y 400 "- 4"] by simp_all
  have s: "y - 1969 + 1 = y - 1968" "y - 1901 + 1 = y - 1900" "y - 1601 + 1 = y - 1600"
    "y + 1 - 1969 = y - 1968" "y + 1 - 1901 = y - 1900" "y + 1 - 1601 = y - 1600" by simp_all
  have d4: "(y - 1968) div 4 = (y - 1969) div 4 + (if y mod 4 = 0 then 1 else 0)"
    by (rule step [of 4 "y - 1969", unfolded s m]) simp
  have d100: "(y - 1900) div 100 = (y - 1901) div 100 + (if y mod 100 = 0 then 1 else 0)"
    by (rule step [of 100 "y - 1901", unfolded s m]) simp
  have d400: "(y - 1600) div 400 = (y - 1601) div 400 + (if y mod 400 = 0 then 1 else 0)"
    by (rule step [of 400 "y - 1601", unfolded s m]) simp
  have imp: "y mod 400 = 0 \<longrightarrow> y mod 100 = 0" "y mod 100 = 0 \<longrightarrow> y mod 4 = 0"
    using dvd_trans [of 100 400 y] dvd_trans [of 4 100 y] by (simp_all add: mod_eq_0_iff_dvd)
  obtain a b c where abc: "(y - 1969) div 4 = a" "(y - 1901) div 100 = b" "(y - 1601) div 400 = c" by blast
  obtain p q r where pqr: "(y mod 4 = 0) = p" "(y mod 100 = 0) = q" "(y mod 400 = 0) = r" by blast
  from imp show ?thesis
    unfolding day_from_year_def leap_year_def s d4 d100 d400 abc pqr by (cases p; cases q; cases r) simp_all
qed

lemma day_from_year_less: "day_from_year y < day_from_year (y + 1)"
  by (simp add: day_from_year_Suc)

text \<open>The year of a day is the last one that does not begin after it; the search starts at the 400-year cycle.\<close>

function year_from :: "int \<Rightarrow> int \<Rightarrow> int" where
  "year_from y d = (if day_from_year (y + 1) \<le> d then year_from (y + 1) d else y)"
  by auto
termination
proof (relation "measure (\<lambda>(y, d). nat (d - day_from_year y))")
  fix y d assume "day_from_year (y + 1) \<le> d"
  with day_from_year_less [of y] show "((y + 1, d), y, d) \<in> measure (\<lambda>(y, d). nat (d - day_from_year y))" by simp
qed simp

declare year_from.simps [simp del]

definition year_of_day :: "int \<Rightarrow> int" where
  "year_of_day d = year_from (400 * ((d + 719528) div 146097)) d"

lemma year_from_bounds:
  "day_from_year y \<le> d \<Longrightarrow> day_from_year (year_from y d) \<le> d \<and> d < day_from_year (year_from y d + 1)"
proof (induction y d rule: year_from.induct)
  case (1 y d)
  then show ?case by (simp add: year_from.simps [of y d])
qed

lemma cycle_start: "day_from_year (400 * k) = 146097 * k - 719528"
proof -
  have "(- 1969 + 4 * (100 * k)) div 4 = 100 * k + (- 1969) div 4" "(- 1901 + 100 * (4 * k)) div 100 = 4 * k + (- 1901) div 100"
    "(- 1601 + 400 * k) div 400 = k + (- 1601) div 400"
    by (rule div_mult_self2, simp)+
  then show ?thesis by (simp add: day_from_year_def)
qed

lemma year_of_day_bounds: "day_from_year (year_of_day d) \<le> d \<and> d < day_from_year (year_of_day d + 1)"
  unfolding year_of_day_def
proof (rule year_from_bounds)
  have "146097 * ((d + 719528) div 146097) + (d + 719528) mod 146097 = d + 719528" "0 \<le> (d + 719528) mod 146097"
    by (rule mult_div_mod_eq) simp
  then have "146097 * ((d + 719528) div 146097) \<le> d + 719528" by linarith
  then show "day_from_year (400 * ((d + 719528) div 146097)) \<le> d" by (simp add: cycle_start)
qed

definition month_starts :: "bool \<Rightarrow> int list" where
  "month_starts leap = (let l = (if leap then 1 else 0)
     in [0, 31, 59 + l, 90 + l, 120 + l, 151 + l, 181 + l, 212 + l, 243 + l, 273 + l, 304 + l, 334 + l])"

text \<open>The month, from zero, that a day of the year falls in.\<close>

definition month_of :: "bool \<Rightarrow> int \<Rightarrow> nat" where
  "month_of leap doy = length (takeWhile (\<lambda>m. m \<le> doy) (month_starts leap)) - 1"

lemma month_of_bounds:
  assumes "0 \<le> doy" "doy < (if leap then 366 else 365)"
  shows "month_of leap doy < 12 \<and> month_starts leap ! month_of leap doy \<le> doy \<and> doy < month_starts leap ! month_of leap doy + 31"
  using assms by (auto simp: month_of_def month_starts_def Let_def split: if_splits)

section \<open>The format\<close>

definition ms_per_day :: int where "ms_per_day = 86400000"

text \<open>Years outside the four digits are printed with a sign and six.\<close>

definition show_year :: "int \<Rightarrow> string" where
  "show_year y = (if 0 \<le> y \<and> y \<le> 9999 then padded 4 (nat y)
     else (if y < 0 then CHR ''-'' else CHR ''+'') # padded 6 (nat \<bar>y\<bar>))"

definition toISOString :: "int \<Rightarrow> string" where
  "toISOString t =
     (let d = t div ms_per_day; ms = nat (t mod ms_per_day); y = year_of_day d; doy = d - day_from_year y;
          leap = leap_year y; m = month_of leap doy
      in show_year y @ ''-'' @ padded 2 (Suc m) @ ''-'' @ padded 2 (nat (doy - month_starts leap ! m + 1)) @ ''T'' @
         padded 2 (ms div 3600000) @ '':'' @ padded 2 (ms div 60000 mod 60) @ '':'' @ padded 2 (ms div 1000 mod 60) @ ''.'' @
         padded 3 (ms mod 1000) @ ''Z'')"

definition fits :: "char \<Rightarrow> char \<Rightarrow> bool" where
  "fits p c \<longleftrightarrow> (if p = CHR ''0'' then is_digit c else c = p)"

definition iso_shaped :: "string \<Rightarrow> bool" where
  "iso_shaped t \<longleftrightarrow> list_all2 fits ''0000-00-00T00:00:00.000Z'' t"

definition field :: "nat \<Rightarrow> nat \<Rightarrow> string \<Rightarrow> nat" where
  "field i n t = (case read_digits 0 (take n (drop i t)) of None \<Rightarrow> 0 | Some x \<Rightarrow> x)"

text \<open>
  \<open>new Date\<close> of a text in the format: \<open>None\<close> is an invalid date. A day past the end of its month runs into the
  next one; whoever compares with \<open>toISOString\<close> rejects those either way.
\<close>

definition parse_date :: "string \<Rightarrow> int option" where
  "parse_date t =
     (let y = int (field 0 4 t); m = field 5 2 t; d = field 8 2 t; h = field 11 2 t; mi = field 14 2 t; sec = field 17 2 t; ms = field 20 3 t
      in if \<not> iso_shaped t \<or> m < 1 \<or> 12 < m \<or> d < 1 \<or> 31 < d \<or> 24 < h \<or> 59 < mi \<or> 59 < sec \<or> (h = 24 \<and> 0 < mi + sec + ms) then None
         else Some ((day_from_year y + month_starts (leap_year y) ! (m - 1) + int d - 1) * ms_per_day +
                int (h * 3600000 + mi * 60000 + sec * 1000 + ms)))"

section \<open>Printing and reading are inverse\<close>

definition iso_text :: "nat \<Rightarrow> nat \<Rightarrow> nat \<Rightarrow> nat \<Rightarrow> nat \<Rightarrow> nat \<Rightarrow> nat \<Rightarrow> string" where
  "iso_text y m d h mi sec ms =
     padded 4 y @ ''-'' @ padded 2 m @ ''-'' @ padded 2 d @ ''T'' @ padded 2 h @ '':'' @ padded 2 mi @ '':'' @ padded 2 sec @ ''.'' @
       padded 3 ms @ ''Z''"

lemma padded_fits: "list_all2 fits (replicate w CHR ''0'' @ ps) (padded w n @ cs) \<longleftrightarrow> list_all2 fits ps cs"
proof -
  have "list_all2 fits (replicate w CHR ''0'') (padded w n)"
    using padded_digits [of w n] by (auto simp: list_all2_conv_all_nth list_all_length fits_def)
  then show ?thesis by (auto simp: list_all2_append list_all2_lengthD)
qed

lemma iso_mask: "''0000-00-00T00:00:00.000Z'' = replicate 4 CHR ''0'' @ ''-'' @ replicate 2 CHR ''0'' @ ''-'' @ replicate 2 CHR ''0'' @ ''T'' @
  replicate 2 CHR ''0'' @ '':'' @ replicate 2 CHR ''0'' @ '':'' @ replicate 2 CHR ''0'' @ ''.'' @ replicate 3 CHR ''0'' @ ''Z''"
  by (simp add: numeral_eq_Suc)

lemma iso_text_shaped: "iso_shaped (iso_text y m d h mi sec ms)"
proof -
  have "fits CHR ''-'' CHR ''-''" "fits CHR ''T'' CHR ''T''" "fits CHR '':'' CHR '':''" "fits CHR ''.'' CHR ''.''" "fits CHR ''Z'' CHR ''Z''"
    by (simp_all add: fits_def)
  then have "list_all2 fits ''0000-00-00T00:00:00.000Z'' (iso_text y m d h mi sec ms)"
    unfolding iso_mask iso_text_def by (simp only: padded_fits append.simps list_all2_Cons list.rel_inject simp_thms list_all2_Nil)
  then show ?thesis by (simp only: iso_shaped_def)
qed

lemma field_at: "length xs = i \<Longrightarrow> v < 10 ^ n \<Longrightarrow> field i n (xs @ padded n v @ rest) = v"
  by (simp add: field_def read_padded)

lemma parse_iso_text:
  assumes "y < 10000" "1 \<le> m" "m \<le> 12" "1 \<le> d" "d \<le> 31" "h < 24" "mi < 60" "sec < 60" "ms < 1000"
  shows "parse_date (iso_text y m d h mi sec ms) =
    Some ((day_from_year (int y) + month_starts (leap_year (int y)) ! (m - 1) + int d - 1) * ms_per_day +
      int (h * 3600000 + mi * 60000 + sec * 1000 + ms))"
proof -
  let ?t = "iso_text y m d h mi sec ms"
  have "field 0 4 ?t = y" unfolding iso_text_def using field_at [of "[]" 0 y 4] assms(1) by simp
  moreover have "field 5 2 ?t = m" unfolding iso_text_def using field_at [of "padded 4 y @ ''-''" 5 m 2] assms(3) by simp
  moreover have "field 8 2 ?t = d"
    unfolding iso_text_def using field_at [of "padded 4 y @ ''-'' @ padded 2 m @ ''-''" 8 d 2] assms(5) by simp
  moreover have "field 11 2 ?t = h"
    unfolding iso_text_def using field_at [of "padded 4 y @ ''-'' @ padded 2 m @ ''-'' @ padded 2 d @ ''T''" 11 h 2] assms(6) by simp
  moreover have "field 14 2 ?t = mi"
    unfolding iso_text_def
    using field_at [of "padded 4 y @ ''-'' @ padded 2 m @ ''-'' @ padded 2 d @ ''T'' @ padded 2 h @ '':''" 14 mi 2] assms(7) by simp
  moreover have "field 17 2 ?t = sec"
    unfolding iso_text_def
    using field_at [of "padded 4 y @ ''-'' @ padded 2 m @ ''-'' @ padded 2 d @ ''T'' @ padded 2 h @ '':'' @ padded 2 mi @ '':''" 17 sec 2] assms(8)
    by simp
  moreover have "field 20 3 ?t = ms"
    unfolding iso_text_def
    using field_at [of "padded 4 y @ ''-'' @ padded 2 m @ ''-'' @ padded 2 d @ ''T'' @ padded 2 h @ '':'' @ padded 2 mi @ '':'' @ padded 2 sec @ ''.''" 20 ms 3]
      assms(9) by simp
  ultimately show ?thesis using assms iso_text_shaped [of y m d h mi sec ms] by (simp add: parse_date_def Let_def del: of_nat_add of_nat_mult)
qed

definition first_instant :: int where "first_instant = day_from_year 0 * ms_per_day"
definition last_instant :: int where "last_instant = day_from_year 10000 * ms_per_day"

lemma day_from_year_mono: "a \<le> b \<Longrightarrow> day_from_year a \<le> day_from_year b"
proof (induction "nat (b - a)" arbitrary: b)
  case (Suc n)
  then have "day_from_year a \<le> day_from_year (b - 1)" by simp
  with day_from_year_less [of "b - 1"] show ?case by simp
qed simp

lemma four_digit_year:
  assumes "first_instant \<le> t" "t < last_instant"
  shows "0 \<le> year_of_day (t div ms_per_day) \<and> year_of_day (t div ms_per_day) \<le> 9999"
proof -
  let ?d = "t div ms_per_day"
  have "day_from_year 0 \<le> ?d" "?d < day_from_year 10000"
    using assms by (simp_all add: first_instant_def last_instant_def ms_per_day_def zdiv_mono1 [of "day_from_year 0 * 86400000" t 86400000, simplified]
        div_less_iff_less_mult)
  with year_of_day_bounds [of ?d] day_from_year_mono [of "year_of_day ?d + 1" 0] day_from_year_mono [of 10000 "year_of_day ?d"]
  show ?thesis by linarith
qed

lemma toISOString_text:
  assumes "first_instant \<le> t" "t < last_instant"
  shows "\<exists>y m d ms. toISOString t = iso_text y m d (ms div 3600000) (ms div 60000 mod 60) (ms div 1000 mod 60) (ms mod 1000) \<and>
    y < 10000 \<and> 1 \<le> m \<and> m \<le> 12 \<and> 1 \<le> d \<and> d \<le> 31 \<and> ms < 86400000 \<and>
    t = (day_from_year (int y) + month_starts (leap_year (int y)) ! (m - 1) + int d - 1) * ms_per_day + int ms"
proof -
  let ?d = "t div ms_per_day" let ?y = "year_of_day ?d" let ?doy = "?d - day_from_year ?y" let ?m = "month_of (leap_year ?y) ?doy"
  let ?dd = "nat (?doy - month_starts (leap_year ?y) ! ?m + 1)" let ?ms = "nat (t mod ms_per_day)"
  have y: "0 \<le> ?y" "?y \<le> 9999" using four_digit_year [OF assms] by auto
  have doy: "0 \<le> ?doy" "?doy < (if leap_year ?y then 366 else 365)"
    using year_of_day_bounds [of ?d] day_from_year_Suc [of ?y] by auto
  from month_of_bounds [OF doy] have m: "?m < 12" "month_starts (leap_year ?y) ! ?m \<le> ?doy"
    "?doy < month_starts (leap_year ?y) ! ?m + 31" by auto
  have "t = ?d * ms_per_day + t mod ms_per_day" by simp
  moreover have "0 \<le> t mod ms_per_day" "t mod ms_per_day < 86400000" by (simp_all add: ms_per_day_def)
  ultimately have "t = (day_from_year (int (nat ?y)) + month_starts (leap_year (int (nat ?y))) ! (Suc ?m - 1) + int ?dd - 1) * ms_per_day + int ?ms"
    "?ms < 86400000" using y m by (simp_all add: algebra_simps)
  moreover have "toISOString t = iso_text (nat ?y) (Suc ?m) ?dd (?ms div 3600000) (?ms div 60000 mod 60) (?ms div 1000 mod 60) (?ms mod 1000)"
    using y by (simp add: toISOString_def iso_text_def show_year_def Let_def)
  moreover have "nat ?y < 10000" "1 \<le> Suc ?m" "Suc ?m \<le> 12" "1 \<le> ?dd" "?dd \<le> 31" using y m by auto
  ultimately show ?thesis by blast
qed

lemma clock: "ms div 3600000 * 3600000 + ms div 60000 mod 60 * 60000 + ms div 1000 mod 60 * 1000 + ms mod 1000 = (ms :: nat)"
proof -
  have "ms div 1000 * 1000 + ms mod 1000 = ms" "ms div 1000 div 60 * 60 + ms div 1000 mod 60 = ms div 1000"
    "ms div 60000 div 60 * 60 + ms div 60000 mod 60 = ms div 60000"
    by (rule div_mult_mod_eq)+
  moreover have "ms div 1000 div 60 = ms div 60000" "ms div 60000 div 60 = ms div 3600000" by (simp_all add: div_mult2_eq [symmetric])
  ultimately show ?thesis by linarith
qed

lemma parse_toISOString:
  assumes "first_instant \<le> t" "t < last_instant"
  shows "parse_date (toISOString t) = Some t \<and> iso_shaped (toISOString t)"
proof -
  obtain y m d ms where p: "toISOString t = iso_text y m d (ms div 3600000) (ms div 60000 mod 60) (ms div 1000 mod 60) (ms mod 1000)"
    "y < 10000" "1 \<le> m" "m \<le> 12" "1 \<le> d" "d \<le> 31" "ms < 86400000"
    "t = (day_from_year (int y) + month_starts (leap_year (int y)) ! (m - 1) + int d - 1) * ms_per_day + int ms"
    using toISOString_text [OF assms] by blast
  let ?h = "ms div 3600000" let ?mi = "ms div 60000 mod 60" let ?sec = "ms div 1000 mod 60" let ?r = "ms mod 1000"
  have "?h < 24" "?mi < 60" "?sec < 60" "?r < 1000" using p(7) by (simp_all add: less_mult_imp_div_less)
  from parse_iso_text [OF p(2-6) this]
  have "parse_date (toISOString t) = Some ((day_from_year (int y) + month_starts (leap_year (int y)) ! (m - 1) + int d - 1) * ms_per_day +
      int (?h * 3600000 + ?mi * 60000 + ?sec * 1000 + ?r))"
    by (simp only: p(1))
  moreover have "?h * 3600000 + ?mi * 60000 + ?sec * 1000 + ?r = ms" by (rule clock)
  ultimately show ?thesis using p(8) iso_text_shaped [of y m d ?h ?mi ?sec ?r] unfolding p(1) by (simp only: simp_thms)
qed

lemma length_iso: "iso_shaped t \<Longrightarrow> length t = 24"
  by (auto simp: iso_shaped_def dest: list_all2_lengthD)

end
