(* ===== verification/Activities.thy ===== *)
theory Activities
  imports Notifications Documents Iso_Date "HOL-Library.Product_Lexorder"
begin

text \<open>
  The activity log (\<open>src/modules/activity/\<close>): the composite cursor, the repository, the feeds and the listeners that turn
  domain events into rows. The identity of a row is the next number of the database's sequence, an argument here;
  the read replica is assumed to show what the primary shows.
\<close>

section \<open>The cursor\<close>

definition MAX_ACTIVITY_ID :: nat where "MAX_ACTIVITY_ID = 9223372036854775807"

definition encodeActivityCursor :: "instant \<Rightarrow> nat \<Rightarrow> string" where
  "encodeActivityCursor createdAt i = toISOString createdAt @ ''|'' @ show_nat i"

text \<open>\<open>[1-9]\\d{0,18}\<close>, and the whole pattern.\<close>

definition id_shaped :: "string \<Rightarrow> bool" where
  "id_shaped t \<longleftrightarrow> t \<noteq> [] \<and> list_all is_digit t \<and> hd t \<noteq> CHR ''0'' \<and> length t \<le> 19"

definition cursor_shaped :: "string \<Rightarrow> bool" where
  "cursor_shaped c \<longleftrightarrow> iso_shaped (take 24 c) \<and> take 1 (drop 24 c) = ''|'' \<and> id_shaped (drop 25 c)"

definition decodeActivityCursor :: "string \<Rightarrow> error + instant \<times> nat" where
  "decodeActivityCursor c =
     (if \<not> cursor_shaped c then Inl (BadRequest ''Invalid activity cursor'')
      else case (parse_date (take 24 c), read_nat (drop 25 c)) of
             (Some t, Some i) \<Rightarrow>
               if toISOString t \<noteq> take 24 c \<or> MAX_ACTIVITY_ID < i then Inl (BadRequest ''Invalid activity cursor'') else Inr (t, i)
           | _ \<Rightarrow> Inl (BadRequest ''Invalid activity cursor''))"

section \<open>ActivityRepository\<close>

record activity_input =
  aiWorkspaceId :: uuid
  aiBoardId :: "uuid option"
  aiEntityType :: entity_type
  aiEntityId :: uuid
  aiAction :: string
  aiActorId :: uuid
  aiPayload :: "(string \<times> json) list"

record activity_filters =
  afEntityType :: "entity_type option"
  afEntityId :: "uuid option"
  afActorId :: "uuid option"
  afBoardId :: "uuid option"

definition activityRepo_record :: "nat \<Rightarrow> instant \<Rightarrow> activity_input \<Rightarrow> db \<Rightarrow> db" where
  "activityRepo_record newId now a s =
     s\<lparr>activities := activities s @ [\<lparr>actId = newId, actWorkspaceId = aiWorkspaceId a, actBoardId = aiBoardId a,
        actEntityType = aiEntityType a, actEntityId = aiEntityId a, actAction = aiAction a, actActorId = aiActorId a,
        actPayload = aiPayload a, actCreatedAt = now\<rparr>]\<rparr>"

definition activity_matches :: "uuid \<Rightarrow> activity_filters \<Rightarrow> activity_row \<Rightarrow> bool" where
  "activity_matches ws f a \<longleftrightarrow> actWorkspaceId a = ws \<and>
     (case afEntityType f of None \<Rightarrow> True | Some t \<Rightarrow> actEntityType a = t) \<and>
     (case afEntityId f of None \<Rightarrow> True | Some i \<Rightarrow> actEntityId a = i) \<and>
     (case afActorId f of None \<Rightarrow> True | Some i \<Rightarrow> actActorId a = i) \<and>
     (case afBoardId f of None \<Rightarrow> True | Some i \<Rightarrow> actBoardId a = Some i)"

definition activity_key :: "activity_row \<Rightarrow> instant \<times> nat" where
  "activity_key a = (actCreatedAt a, actId a)"

definition activityRepo_getWorkspacePage ::
  "uuid \<Rightarrow> activity_filters \<Rightarrow> string option \<Rightarrow> nat \<Rightarrow> db \<Rightarrow> error + activity_row page" where
  "activityRepo_getWorkspacePage ws f cursor limit s =
     (let fetch = (\<lambda>before. buildCursorPagination (\<lambda>a. encodeActivityCursor (actCreatedAt a) (actId a))
                    (take (limit + 1) (order_desc activity_key (filter (\<lambda>a. activity_matches ws f a \<and> before a) (activities s)))) limit)
      in case cursor of
           None \<Rightarrow> Inr (fetch (\<lambda>a. True))
         | Some c \<Rightarrow>
             (case decodeActivityCursor c of
                Inl e \<Rightarrow> Inl e
              | Inr (t, i) \<Rightarrow> Inr (fetch (\<lambda>a. actCreatedAt a < t \<or> (actCreatedAt a = t \<and> actId a < i)))))"

section \<open>ActivityService\<close>

record activity_query =
  aqCursor :: "string option"
  aqLimit :: "nat option"
  aqFilters :: activity_filters

record actor =
  acId :: uuid
  acDisplayName :: string
  acAvatarUrl :: "string option"

text \<open>
  Each actor's profile is looked up once; an \<open>EntityNotFoundException\<close> becomes the unknown user, any other error fails
  the request, and the first one that does so is reported.
\<close>

definition actor_of :: "uuid \<Rightarrow> db \<Rightarrow> error + actor" where
  "actor_of i s =
     (case authService_getProfile i s of
        Inr u \<Rightarrow> Inr \<lparr>acId = i, acDisplayName = userDisplayName u, acAvatarUrl = userAvatarUrl u\<rparr>
      | Inl (EntityNotFound n x) \<Rightarrow> Inr \<lparr>acId = i, acDisplayName = ''Unknown user'', acAvatarUrl = None\<rparr>
      | Inl e \<Rightarrow> Inl e)"

fun actors_of :: "uuid list \<Rightarrow> db \<Rightarrow> error + (uuid \<times> actor) list" where
  "actors_of [] s = Inr []"
| "actors_of (i # is) s =
     (case actor_of i s of
        Inl e \<Rightarrow> Inl e
      | Inr a \<Rightarrow> (case actors_of is s of Inl e \<Rightarrow> Inl e | Inr as \<Rightarrow> Inr ((i, a) # as)))"

definition enrichWithActors :: "activity_row list \<Rightarrow> db \<Rightarrow> error + (activity_row \<times> actor) list" where
  "enrichWithActors rows s =
     (case actors_of (remdups (map actActorId rows)) s of
        Inl e \<Rightarrow> Inl e
      | Inr actors \<Rightarrow>
          Inr (map (\<lambda>r. (r, case map_of actors (actActorId r) of
                              Some a \<Rightarrow> a
                            | None \<Rightarrow> \<lparr>acId = actActorId r, acDisplayName = ''Unknown user'', acAvatarUrl = None\<rparr>)) rows))"

definition activityService_getWorkspaceFeed :: "uuid \<Rightarrow> activity_query \<Rightarrow> db \<Rightarrow> error + (activity_row \<times> actor) page" where
  "activityService_getWorkspaceFeed ws q s =
     (case activityRepo_getWorkspacePage ws (aqFilters q) (aqCursor q) (case aqLimit q of None \<Rightarrow> 20 | Some n \<Rightarrow> n) s of
        Inl e \<Rightarrow> Inl e
      | Inr page \<Rightarrow>
          (case enrichWithActors (pageItems page) s of
             Inl e \<Rightarrow> Inl e
           | Inr items \<Rightarrow> Inr \<lparr>pageItems = items, pageCursor = pageCursor page, pageHasMore = pageHasMore page\<rparr>))"

definition boardService_assertActiveBoard :: "uuid \<Rightarrow> uuid \<Rightarrow> db \<Rightarrow> error option" where
  "boardService_assertActiveBoard board ws s =
     (case boardRepo_findById board (Some ws) s of None \<Rightarrow> Some (EntityNotFound ''Board'' board) | Some b \<Rightarrow> None)"

definition activityService_getBoardFeed :: "uuid \<Rightarrow> uuid \<Rightarrow> activity_query \<Rightarrow> db \<Rightarrow> error + (activity_row \<times> actor) page" where
  "activityService_getBoardFeed ws board q s =
     (case boardService_assertActiveBoard board ws s of
        Some e \<Rightarrow> Inl e
      | None \<Rightarrow> activityService_getWorkspaceFeed ws (q\<lparr>aqFilters := (aqFilters q)\<lparr>afBoardId := Some board\<rparr>\<rparr>) s)"

section \<open>The listeners\<close>

definition str :: "string \<Rightarrow> string \<Rightarrow> string \<times> json" where
  "str k v = (k, JString v)"

text \<open>A board's events are recorded in its workspace, when the board is known; the card listener also skips an event without a board.\<close>

definition record_on :: "uuid \<Rightarrow> uuid \<Rightarrow> entity_type \<Rightarrow> uuid \<Rightarrow> string \<Rightarrow> (string \<times> json) list \<Rightarrow> db \<Rightarrow> activity_input option" where
  "record_on board actor ty i action payload s =
     (case boardService_findWorkspaceIdByBoardId board s of
        None \<Rightarrow> None
      | Some ws \<Rightarrow> if ws = [] then None
                   else Some \<lparr>aiWorkspaceId = ws, aiBoardId = Some board, aiEntityType = ty, aiEntityId = i, aiAction = action,
                              aiActorId = actor, aiPayload = payload\<rparr>)"

definition on_board :: "uuid \<Rightarrow> uuid \<Rightarrow> entity_type \<Rightarrow> uuid \<Rightarrow> string \<Rightarrow> (string \<times> json) list \<Rightarrow> db \<Rightarrow> activity_input option" where
  "on_board board actor ty i action payload s =
     (if board = [] then None else record_on board actor ty i action payload s)"

definition in_workspace :: "uuid \<Rightarrow> uuid option \<Rightarrow> uuid \<Rightarrow> entity_type \<Rightarrow> uuid \<Rightarrow> string \<Rightarrow> (string \<times> json) list \<Rightarrow> activity_input option" where
  "in_workspace ws board actor ty i action payload =
     (if ws = [] then None
      else Some \<lparr>aiWorkspaceId = ws, aiBoardId = board, aiEntityType = ty, aiEntityId = i, aiAction = action, aiActorId = actor, aiPayload = payload\<rparr>)"

fun board_activity :: "domain_event \<Rightarrow> activity_input option" where
  "board_activity (BoardCreated b by) = in_workspace (boardWorkspaceId b) (Some (boardId b)) by BoardEntity (boardId b) ''created'' [str ''entityTitle'' (boardTitle b)]"
| "board_activity (BoardUpdated b by) = in_workspace (boardWorkspaceId b) (Some (boardId b)) by BoardEntity (boardId b) ''updated'' [str ''entityTitle'' (boardTitle b)]"
| "board_activity (BoardArchived i ws by) = in_workspace ws (Some i) by BoardEntity i ''archived'' [str ''workspaceId'' ws]"
| "board_activity (BoardUnarchived b by) = in_workspace (boardWorkspaceId b) (Some (boardId b)) by BoardEntity (boardId b) ''unarchived'' [str ''entityTitle'' (boardTitle b)]"
| "board_activity (BoardDeleted i ws by) = in_workspace ws (Some i) by BoardEntity i ''deleted'' [str ''workspaceId'' ws]"
| "board_activity _ = None"

fun list_activity :: "domain_event \<Rightarrow> db \<Rightarrow> activity_input option" where
  "list_activity (ListCreated l by) s = record_on (listBoardId l) by ListEntity (listId l) ''created'' [str ''entityTitle'' (listTitle l)] s"
| "list_activity (ListUpdated l by) s = record_on (listBoardId l) by ListEntity (listId l) ''updated'' [str ''entityTitle'' (listTitle l)] s"
| "list_activity (ListMoved i board rank by) s = record_on board by ListEntity i ''moved'' [str ''newRank'' rank] s"
| "list_activity (ListArchived i board by) s = record_on board by ListEntity i ''archived'' [] s"
| "list_activity (ListUnarchived l by) s = record_on (listBoardId l) by ListEntity (listId l) ''unarchived'' [str ''entityTitle'' (listTitle l)] s"
| "list_activity (ListDeleted i board by) s = record_on board by ListEntity i ''deleted'' [] s"
| "list_activity _ s = None"

definition number :: "int \<Rightarrow> json" where
  "number n = JNumber (Finite (of_int n))"

fun card_activity :: "domain_event \<Rightarrow> db \<Rightarrow> activity_input option" where
  "card_activity (CardCreated c board list by) s = on_board board by CardEntity (cardId c) ''created'' [str ''entityTitle'' (cardTitle c), str ''toListId'' list] s"
| "card_activity (CardMoved i board from to rank by) s = on_board board by CardEntity i ''moved'' [str ''fromListId'' from, str ''toListId'' to] s"
| "card_activity (CardUpdated c board by) s = on_board board by CardEntity (cardId c) ''updated'' [str ''entityTitle'' (cardTitle c)] s"
| "card_activity (CardArchived i board list by) s = on_board board by CardEntity i ''archived'' [str ''fromListId'' list] s"
| "card_activity (CardUnarchived c board list by) s = on_board board by CardEntity (cardId c) ''unarchived'' [str ''entityTitle'' (cardTitle c), str ''fromListId'' list] s"
| "card_activity (CardDeleted i board list by) s = on_board board by CardEntity i ''deleted'' [str ''fromListId'' list] s"
| "card_activity (CardAssigneeAdded i board user by) s = on_board board by AssigneeEntity i ''created'' [str ''userId'' user] s"
| "card_activity (CardAssigneeRemoved i board user by) s = on_board board by AssigneeEntity i ''deleted'' [str ''userId'' user] s"
| "card_activity (CardPriorityChanged i board from to by) s =
     on_board board by CardEntity i ''priority_changed'' [str ''from'' (show_priority from), str ''to'' (show_priority to)] s"
| "card_activity (CardStatusChanged i board from to finished by) s =
     on_board board by CardEntity i ''status_changed'' [str ''from'' (show_status from), str ''to'' (show_status to), (''isComplete'', JBool finished)] s"
| "card_activity (CardSubcardCreated parent child board by) s = on_board board by CardEntity child ''created'' [str ''parentCardId'' parent] s"
| "card_activity (CardTimeLogged i board minutes logged entry by) s =
     on_board board by CardEntity i ''time_logged'' [(''minutes'', number minutes), (''loggedTotal'', number logged)] s"
| "card_activity _ s = None"

fun comment_activity :: "domain_event \<Rightarrow> db \<Rightarrow> activity_input option" where
  "comment_activity (CommentCreated c board by mentioned) s = record_on board by CommentEntity (cmtId c) ''created'' [str ''entityTitle'' ''New Comment''] s"
| "comment_activity (CommentUpdated c board by) s = record_on board by CommentEntity (cmtId c) ''updated'' [str ''entityTitle'' ''Comment Updated''] s"
| "comment_activity (CommentDeleted i card_id board by) s = record_on board by CommentEntity i ''deleted'' [] s"
| "comment_activity _ s = None"

fun document_activity :: "domain_event \<Rightarrow> db \<Rightarrow> activity_input option" where
  "document_activity (DocumentCreated i ws board card_id title by) s = in_workspace ws board by DocumentEntity i ''created'' [str ''entityTitle'' title]"
| "document_activity (DocumentRenamed i title by) s =
     (case documentService_findById i None s of
        Inl e \<Rightarrow> None | Inr d \<Rightarrow> in_workspace (dmWorkspaceId d) None by DocumentEntity i ''updated'' [str ''entityTitle'' title])"
| "document_activity (DocumentArchived i ws by) s = in_workspace ws None by DocumentEntity i ''archived'' []"
| "document_activity _ s = None"

definition of_workspace :: "uuid \<Rightarrow> uuid \<Rightarrow> string \<Rightarrow> (string \<times> json) list \<Rightarrow> activity_input" where
  "of_workspace ws actor action payload =
     \<lparr>aiWorkspaceId = ws, aiBoardId = None, aiEntityType = WorkspaceEntity, aiEntityId = ws, aiAction = action, aiActorId = actor, aiPayload = payload\<rparr>"

fun workspace_activity :: "domain_event \<Rightarrow> activity_input option" where
  "workspace_activity (WorkspaceCreated w owner) = Some (of_workspace (wsId w) owner ''created'' [str ''entityTitle'' (wsName w)])"
| "workspace_activity (MemberAdded ws user role) = Some (of_workspace ws user ''member_added'' [str ''role'' (show_role role)])"
| "workspace_activity (MemberRemoved ws user) = Some (of_workspace ws user ''member_removed'' [str ''userId'' user])"
| "workspace_activity (MemberRoleChanged ws user old new) =
     Some (of_workspace ws user ''member_role_changed'' [str ''oldRole'' (show_role old), str ''newRole'' (show_role new)])"
| "workspace_activity (MemberLeft ws user) = Some (of_workspace ws user ''member_left'' [str ''userId'' user])"
| "workspace_activity (OwnershipTransferred ws previous owner) =
     Some (of_workspace ws previous ''ownership_transferred'' [str ''previousOwnerId'' previous, str ''newOwnerId'' owner])"
| "workspace_activity _ = None"

text \<open>The listeners share the events out between them.\<close>

definition activity_of :: "domain_event \<Rightarrow> db \<Rightarrow> activity_input option" where
  "activity_of e s =
     List.find (\<lambda>a. True) (List.map_filter id
       [board_activity e, list_activity e s, card_activity e s, comment_activity e s, document_activity e s, workspace_activity e])"

end
