(* ===== verification/Activity_Properties.thy ===== *)
theory Activity_Properties
  imports Activities Samples
begin

text \<open>
  What the feeds promise: a cursor names one instant and one row, and following the cursors shows every row once. Also what
  the log gets wrong: who did it, and what happens when the actor is gone.
\<close>

section \<open>The cursor\<close>

lemma take_iso: "iso_shaped t \<Longrightarrow> take 24 (t @ rest) = t \<and> drop 24 (t @ rest) = rest"
  using length_iso [of t] by simp

lemma show_nat_shaped:
  assumes "1 \<le> i" "i \<le> MAX_ACTIVITY_ID"
  shows "id_shaped (show_nat i)"
proof -
  from assms(2) have "i < 10 ^ 19" by (simp add: MAX_ACTIVITY_ID_def)
  then have "length (show_nat i) \<le> 19" by (rule length_show_nat) simp
  with assms show ?thesis by (simp add: id_shaped_def show_nat_digits hd_show_nat)
qed

lemma decode_encode:
  assumes "first_instant \<le> t" "t < last_instant" "1 \<le> i" "i \<le> MAX_ACTIVITY_ID"
  shows "decodeActivityCursor (encodeActivityCursor t i) = Inr (t, i)"
proof -
  from parse_toISOString [OF assms(1,2)] have p: "parse_date (toISOString t) = Some t" "iso_shaped (toISOString t)" by auto
  from take_iso [OF p(2), of "''|'' @ show_nat i"] have c: "take 24 (encodeActivityCursor t i) = toISOString t"
    "drop 24 (encodeActivityCursor t i) = ''|'' @ show_nat i" by (simp_all add: encodeActivityCursor_def)
  then have "drop 25 (encodeActivityCursor t i) = show_nat i"
    using drop_drop [of 1 24 "encodeActivityCursor t i"] by simp
  with c p assms show_nat_shaped [OF assms(3,4)] show ?thesis
    by (simp add: decodeActivityCursor_def cursor_shaped_def)
qed

lemma encode_decode:
  assumes "decodeActivityCursor c = Inr (t, i)"
  shows "encodeActivityCursor t i = c \<and> 1 \<le> i \<and> i \<le> MAX_ACTIVITY_ID"
proof -
  from assms have c: "cursor_shaped c" "toISOString t = take 24 c" "read_nat (drop 25 c) = Some i" "i \<le> MAX_ACTIVITY_ID"
    by (auto simp: decodeActivityCursor_def split: if_splits option.splits)
  from c(1,3) have s: "show_nat i = drop 25 c" "0 < i"
    using show_read [of "drop 25 c" i] by (auto simp: cursor_shaped_def id_shaped_def read_nat_def)
  from c(1) have "take 1 (drop 24 c) = ''|''" by (simp add: cursor_shaped_def)
  then have "drop 24 c = ''|'' @ drop 25 c" using append_take_drop_id [of 1 "drop 24 c"] by simp
  then have "take 24 c @ ''|'' @ drop 25 c = c" using append_take_drop_id [of 24 c] by simp
  with c s show ?thesis by (simp add: encodeActivityCursor_def)
qed

text \<open>C32: The cursor of a feed is a faithful name: for every instant of the years 0 to 9999 and every row number a 64-bit key can hold, decoding
  what was encoded gives the instant and the number back, and whatever text a client sends, if it is accepted at all it is the
  encoding of what it decodes to; so two cursors that name the same place are the same text.
\<close>

theorem cursor_round_trip:
  "(first_instant \<le> t \<and> t < last_instant \<and> 1 \<le> i \<and> i \<le> MAX_ACTIVITY_ID \<longrightarrow>
      decodeActivityCursor (encodeActivityCursor t i) = Inr (t, i)) \<and>
   (\<forall>c. decodeActivityCursor c = Inr (t, i) \<longrightarrow> encodeActivityCursor t i = c \<and> 1 \<le> i \<and> i \<le> MAX_ACTIVITY_ID)"
  using decode_encode encode_decode by blast

text \<open>A leap day.\<close>

theorem cursor_round_trip_witness:
  "encodeActivityCursor 951826333007 42 = ''2000-02-29T12:12:13.007Z|42'' \<and>
   decodeActivityCursor ''2000-02-29T12:12:13.007Z|42'' = Inr (951826333007, 42)"
proof -
  have "year_of_day 11016 = 2000" "leap_year 2000" "month_of True 59 = 1" "show_nat 42 = ''42''" by code_simp+
  moreover have "padded 4 2000 = ''2000''" "padded 2 (Suc (Suc 0)) = ''02''" "padded 2 29 = ''29''" "padded 2 12 = ''12''"
    "padded 2 13 = ''13''" "padded 3 7 = ''007''" by code_simp+
  ultimately have e: "encodeActivityCursor 951826333007 42 = ''2000-02-29T12:12:13.007Z|42''"
    by (simp add: encodeActivityCursor_def toISOString_def Let_def ms_per_day_def day_from_year_def month_starts_def show_year_def)
  have "first_instant \<le> 951826333007 \<and> 951826333007 < last_instant \<and> (1 :: nat) \<le> 42 \<and> 42 \<le> MAX_ACTIVITY_ID"
    by (simp add: first_instant_def last_instant_def day_from_year_def ms_per_day_def MAX_ACTIVITY_ID_def)
  with cursor_round_trip [of 951826333007 42] e show ?thesis by simp
qed

section \<open>Following a feed\<close>

lemma place_by_first: "(\<And>z. z \<in> set zs \<Longrightarrow> le (key x) (key z)) \<Longrightarrow> place_by le key x zs = x # zs"
  by (cases zs) auto

lemma filter_place_by:
  assumes "collation le" "sorted_by le key ys"
  shows "filter Q (place_by le key x ys) = (if Q x then place_by le key x (filter Q ys) else filter Q ys)"
  using assms(2)
proof (induction ys)
  case (Cons y ys)
  show ?case
  proof (cases "le (key x) (key y)")
    case True
    with Cons.prems assms(1) have "le (key x) (key z)" if "z \<in> set (y # ys)" for z
      using that unfolding collation_def by auto
    then have "place_by le key x (filter Q (y # ys)) = x # filter Q (y # ys)" by (intro place_by_first) (auto split: if_splits)
    with True show ?thesis by simp
  next
    case False
    with Cons show ?thesis by (auto simp: place_by_first)
  qed
qed simp

lemma filter_order_by: "collation le \<Longrightarrow> filter Q (order_by le key xs) = order_by le key (filter Q xs)"
  by (induction xs) (simp_all add: filter_place_by sorted_order_by)

text \<open>The rows a feed shows, newest first, and what makes their cursors exact.\<close>

definition feed_rows :: "uuid \<Rightarrow> activity_filters \<Rightarrow> db \<Rightarrow> activity_row list" where
  "feed_rows ws f s = order_desc activity_key (filter (activity_matches ws f) (activities s))"

definition log_ok :: "db \<Rightarrow> bool" where
  "log_ok s \<longleftrightarrow> distinct (map activity_key (activities s)) \<and>
     (\<forall>a\<in>set (activities s). first_instant \<le> actCreatedAt a \<and> actCreatedAt a < last_instant \<and> 1 \<le> actId a \<and> actId a \<le> MAX_ACTIVITY_ID)"

lemma feed_rows_log: "set (feed_rows ws f s) = {a \<in> set (activities s). activity_matches ws f a}"
  by (auto simp: feed_rows_def)

lemma feed_distinct: "log_ok s \<Longrightarrow> distinct (map activity_key (feed_rows ws f s))"
  unfolding feed_rows_def log_ok_def by (intro distinct_order_by distinct_map_filter) simp

lemma feed_descending:
  assumes "log_ok s" "feed_rows ws f s = pre @ c # post"
  shows "(\<forall>a\<in>set pre. \<not> activity_key a < activity_key c) \<and> (\<forall>a\<in>set post. activity_key a < activity_key c)"
proof -
  have "sorted_by (\<ge>) activity_key (feed_rows ws f s)" unfolding feed_rows_def by (rule sorted_order_by [OF collation_ge])
  with assms(2) have s: "\<forall>a\<in>set pre. activity_key c \<le> activity_key a" "\<forall>a\<in>set post. activity_key a \<le> activity_key c"
    by (auto simp: sorted_wrt_append)
  with feed_distinct [OF assms(1), of ws f] assms(2) have "\<forall>a\<in>set post. activity_key a \<noteq> activity_key c" by (simp add: image_iff) metis
  with s show ?thesis by (simp add: order.strict_iff_order not_less) (metis order.antisym)
qed

lemma before_key: "(actCreatedAt a < actCreatedAt c \<or> (actCreatedAt a = actCreatedAt c \<and> actId a < actId c)) = (activity_key a < activity_key c)"
  by (auto simp: activity_key_def)

lemma feed_pages:
  assumes "log_ok s"
  shows "pages_of (\<lambda>c. activityRepo_getWorkspacePage ws f c limit s) (\<lambda>a. encodeActivityCursor (actCreatedAt a) (actId a)) limit (feed_rows ws f s)"
  unfolding pages_of_def
proof (intro conjI allI impI)
  show "activityRepo_getWorkspacePage ws f None limit s =
      Inr (buildCursorPagination (\<lambda>a. encodeActivityCursor (actCreatedAt a) (actId a)) (feed_rows ws f s) limit)"
    by (simp add: activityRepo_getWorkspacePage_def feed_rows_def build_page_take)
next
  fix pre c post assume r: "feed_rows ws f s = pre @ c # post"
  then have "c \<in> set (activities s)" using feed_rows_log [of ws f s] by auto
  with assms have "decodeActivityCursor (encodeActivityCursor (actCreatedAt c) (actId c)) = Inr (actCreatedAt c, actId c)"
    by (auto simp: log_ok_def intro: decode_encode)
  moreover have "order_desc activity_key (filter (\<lambda>a. activity_matches ws f a \<and> activity_key a < activity_key c) (activities s)) = post"
  proof -
    have "order_desc activity_key (filter (\<lambda>a. activity_matches ws f a \<and> activity_key a < activity_key c) (activities s)) =
        filter (\<lambda>a. activity_key a < activity_key c) (feed_rows ws f s)"
      by (simp add: feed_rows_def filter_order_by collation_ge conj_commute)
    also have "\<dots> = post" using feed_descending [OF assms r] by (simp add: r filter_empty_conv)
    finally show ?thesis .
  qed
  ultimately show "activityRepo_getWorkspacePage ws f (Some (encodeActivityCursor (actCreatedAt c) (actId c))) limit s =
      Inr (buildCursorPagination (\<lambda>a. encodeActivityCursor (actCreatedAt a) (actId a)) post limit)"
    by (simp add: activityRepo_getWorkspacePage_def before_key build_page_take)
qed


definition log_row :: "nat \<Rightarrow> instant \<Rightarrow> uuid \<Rightarrow> activity_row" where
  "log_row i t actor = \<lparr>actId = i, actWorkspaceId = ''w'', actBoardId = Some ''b'', actEntityType = CardEntity, actEntityId = ''a'', actAction = ''updated'',
     actActorId = actor, actPayload = [], actCreatedAt = t\<rparr>"

definition any_activity :: activity_filters where
  "any_activity = \<lparr>afEntityType = None, afEntityId = None, afActorId = None, afBoardId = None\<rparr>"

definition log_db :: db where
  "log_db = sample_db\<lparr>activities := [log_row 1 5 ''u'', log_row 3 9 ''m'', log_row 2 9 ''u'']\<rparr>"


section \<open>What the log gets wrong\<close>

text \<open>
  The fallback for a missing actor catches \<open>EntityNotFoundException\<close>, but the profile lookup throws the framework's own
  exception: one row by a user who is gone fails the whole page.
\<close>

lemma missing_actor_fails_the_feed:
  assumes "r \<in> set rows" "userRepo_findByIdPublic (actActorId r) s = None"
  shows "\<exists>e. enrichWithActors rows s = Inl e"
proof -
  have "\<exists>e. actors_of is s = Inl e" if "i \<in> set is" "userRepo_findByIdPublic i s = None" for i "is"
    using that by (induction "is") (auto simp: actor_of_def authService_getProfile_def split: sum.splits error.splits option.splits)
  from this [of "actActorId r" "remdups (map actActorId rows)"] assms have "\<exists>e. actors_of (remdups (map actActorId rows)) s = Inl e" by simp
  then show ?thesis by (auto simp: enrichWithActors_def)
qed

text \<open>Who removes a member or changes a role is not in the event, so the log names the member as the actor.\<close>

lemma removed_member_is_logged_as_actor:
  "activity_of (MemberRemoved ws user) s = Some a \<Longrightarrow> aiActorId a = user"
  "activity_of (MemberRoleChanged ws user old new) s = Some b \<Longrightarrow> aiActorId b = user"
  by (auto simp: activity_of_def of_workspace_def List.map_filter_simps)

end
