(* ===== verification/Routes.thy ===== *)
theory Routes
  imports Access_Guards Card_System Comments Labels Card_Fields Files Activities Invitations
begin

text \<open>
  How a controller serves a request: the guards of its decorator, then the pipe that wants uuids in the path, then the
  service with the signed-in user and the workspace of the path. The services' rows stand for the responses (the mappers only
  copy fields), and a body is taken to have passed the validation pipe.
\<close>

section \<open>What a request brings with it\<close>

text \<open>
  The parts of the environment the endpoints use: tokens and hashes, the uuid test, the clock, the collation, the ranks, the
  number syntax of field values, and the id the database or the service draws for a new row.
\<close>

record 'r api =
  apCrypto :: crypto
  apIsUuid :: "string \<Rightarrow> bool"
  apNow :: instant
  apRequest :: http_request
  apOrder :: "string \<Rightarrow> string \<Rightarrow> bool"
  apRanks :: "'r lexorank"
  apParses :: "string \<Rightarrow> bool"
  apNewId :: uuid

definition WORKSPACE_OWNER_ROLES :: "workspace_role list" where "WORKSPACE_OWNER_ROLES = [Owner]"
definition WORKSPACE_ADMIN_ROLES :: "workspace_role list" where "WORKSPACE_ADMIN_ROLES = [Owner, Admin]"
definition WORKSPACE_WRITE_ROLES :: "workspace_role list" where "WORKSPACE_WRITE_ROLES = [Owner, Admin, Member]"
definition WORKSPACE_READ_ROLES :: "workspace_role list" where "WORKSPACE_READ_ROLES = [Owner, Admin, Member, Viewer]"

lemmas role_lists = WORKSPACE_OWNER_ROLES_def WORKSPACE_ADMIN_ROLES_def WORKSPACE_WRITE_ROLES_def WORKSPACE_READ_ROLES_def

definition reading :: "(db \<Rightarrow> error + 'a) \<Rightarrow> db \<Rightarrow> 'a outcome" where
  "reading f s = (f s, s)"

text \<open>\<open>ParseUUIDPipe\<close> on every part of the path.\<close>

definition uuid_pipe :: "'r api \<Rightarrow> uuid list \<Rightarrow> (db \<Rightarrow> 'a outcome) \<Rightarrow> db \<Rightarrow> 'a outcome" where
  "uuid_pipe ap path k s =
     (if list_all (apIsUuid ap) path then k s else (Inl (BadRequest ''Validation failed (uuid is expected)''), s))"

text \<open>An endpoint with \<open>@WorkspaceAuth(...roles)\<close>.\<close>

definition served ::
  "'r api \<Rightarrow> workspace_role list \<Rightarrow> uuid list \<Rightarrow> (uuid \<Rightarrow> uuid \<Rightarrow> db \<Rightarrow> 'a outcome) \<Rightarrow> db \<Rightarrow> 'a outcome" where
  "served ap roles path k s =
     await (workspaceAuth (apCrypto ap) (apIsUuid ap) roles False (apNow ap) (apRequest ap) s)
       (\<lambda>(c, m). uuid_pipe ap (the (rqWorkspaceId (apRequest ap)) # path) (k (clSub c) (the (rqWorkspaceId (apRequest ap)))))"

text \<open>An endpoint without a workspace: \<open>JwtAuthGuard\<close>, and where asked \<open>EmailVerifiedGuard\<close>.\<close>

definition signed_in :: "'r api \<Rightarrow> bool \<Rightarrow> db \<Rightarrow> uuid outcome" where
  "signed_in ap verified s =
     (case jwtAuthGuard_canActivate (apCrypto ap) (apNow ap) (apRequest ap) s of
        Inl e \<Rightarrow> (Inl e, s)
      | Inr c \<Rightarrow>
          if verified
          then await (emailVerifiedGuard_canActivate (apNow ap) False (Some c) (apRequest ap) s) (\<lambda>_ s. (Inr (clSub c), s))
          else (Inr (clSub c), s))"

definition for_user :: "'r api \<Rightarrow> uuid list \<Rightarrow> (uuid \<Rightarrow> db \<Rightarrow> 'a outcome) \<Rightarrow> db \<Rightarrow> 'a outcome" where
  "for_user ap path k s = await (signed_in ap False s) (\<lambda>user. uuid_pipe ap path (k user))"

end
