(* ===== verification/Card_Routes.thy ===== *)
theory Card_Routes
  imports Routes
begin

text \<open>
  The endpoints below a card: \<open>CardController\<close>, \<open>CardTimeController\<close>, \<open>ChecklistController\<close>,
  \<open>CommentController\<close> and \<open>CardFieldValueController\<close>.
\<close>

section \<open>CardController\<close>

definition cardController_create where
  "cardController_create ap board list dto =
     served ap WORKSPACE_WRITE_ROLES [board, list] (\<lambda>user ws. cardService_create (apOrder ap) (apRanks ap) (apNewId ap) (apNow ap) board ws list dto user)"

definition cardController_listArchived where
  "cardController_listArchived ap after board cursor limit =
     served ap WORKSPACE_WRITE_ROLES [board] (\<lambda>_ ws. cardService_listArchivedCardsPaginated after board ws cursor limit)"

definition cardController_getOne where
  "cardController_getOne ap board i =
     served ap WORKSPACE_READ_ROLES [board, i] (\<lambda>_ ws. cardService_getCardDetails board ws i)"

definition cardController_update where
  "cardController_update ap board i dto =
     served ap WORKSPACE_WRITE_ROLES [board, i] (\<lambda>user ws. cardService_update (apNow ap) board ws i dto user)"

definition cardController_updatePriority where
  "cardController_updatePriority ap board i priority =
     served ap WORKSPACE_WRITE_ROLES [board, i] (\<lambda>user ws. cardService_updatePriority (apNow ap) board ws i priority user)"

definition cardController_updateStatus where
  "cardController_updateStatus ap board i status =
     served ap WORKSPACE_WRITE_ROLES [board, i] (\<lambda>user ws. cardService_updateStatus (apNow ap) board ws i status user)"

definition cardController_createSubcard where
  "cardController_createSubcard ap board i dto =
     served ap WORKSPACE_WRITE_ROLES [board, i] (\<lambda>user ws. cardService_createSubcard (apOrder ap) (apRanks ap) (apNewId ap) (apNow ap) board ws i dto user)"

definition cardController_attachSubcard where
  "cardController_attachSubcard ap board i child =
     served ap WORKSPACE_WRITE_ROLES [board, i] (\<lambda>user ws. cardService_attachSubcard (apNow ap) board ws i child user)"

definition cardController_getWithSubcards where
  "cardController_getWithSubcards ap board i =
     served ap WORKSPACE_READ_ROLES [board, i] (\<lambda>_ ws. cardService_getWithSubcards (apOrder ap) board ws i)"

definition cardController_detachSubcard where
  "cardController_detachSubcard ap board i =
     served ap WORKSPACE_WRITE_ROLES [board, i] (\<lambda>user ws. cardService_detachSubcard (apNow ap) board ws i user)"

definition cardController_move where
  "cardController_move ap board i dto =
     served ap WORKSPACE_WRITE_ROLES [board, i] (\<lambda>user ws. cardService_move (apRanks ap) (apNow ap) board ws i dto user)"

definition cardController_archive where
  "cardController_archive ap board i =
     served ap WORKSPACE_WRITE_ROLES [board, i] (\<lambda>user ws. cardService_archive (apNow ap) board ws i user)"

definition cardController_unarchive where
  "cardController_unarchive ap board i =
     served ap WORKSPACE_WRITE_ROLES [board, i] (\<lambda>user ws. cardService_unarchive (apNow ap) board ws i user)"

definition cardController_deletePermanently where
  "cardController_deletePermanently ap board i =
     served ap WORKSPACE_ADMIN_ROLES [board, i] (\<lambda>user ws. cardService_deletePermanently (apNow ap) board ws i user)"

definition cardController_addAssignee where
  "cardController_addAssignee ap board i target =
     served ap WORKSPACE_WRITE_ROLES [board, i, target] (\<lambda>user ws. cardService_addAssignee (apNow ap) board ws i target user)"

definition cardController_removeAssignee where
  "cardController_removeAssignee ap board i target =
     served ap WORKSPACE_WRITE_ROLES [board, i, target] (\<lambda>user ws. cardService_removeAssignee board ws i target user)"

definition cardController_addLabel where
  "cardController_addLabel ap board i label =
     served ap WORKSPACE_WRITE_ROLES [board, i, label] (\<lambda>_ ws. cardService_addLabel board ws i label)"

definition cardController_removeLabel where
  "cardController_removeLabel ap board i label =
     served ap WORKSPACE_WRITE_ROLES [board, i, label] (\<lambda>_ ws. cardService_removeLabel board ws i label)"

section \<open>CardTimeController\<close>

definition timeController_setEstimate where
  "timeController_setEstimate ap board i minutes =
     served ap WORKSPACE_WRITE_ROLES [board, i] (\<lambda>user ws. timeService_setEstimate (apNow ap) board ws i minutes user)"

definition timeController_logTime where
  "timeController_logTime ap board i dto =
     served ap WORKSPACE_WRITE_ROLES [board, i] (\<lambda>user ws. timeService_logTime (apNewId ap) (apNow ap) board ws i dto user)"

definition timeController_getTracking where
  "timeController_getTracking ap after board i cursor limit =
     served ap WORKSPACE_READ_ROLES [board, i] (\<lambda>_ ws. timeService_getTracking after board ws i cursor (Some (case limit of None \<Rightarrow> 20 | Some n \<Rightarrow> n)))"

section \<open>ChecklistController\<close>

definition checklistController_create where
  "checklistController_create ap board i title =
     served ap WORKSPACE_WRITE_ROLES [board, i] (\<lambda>user ws. checklistService_createChecklist (apOrder ap) (apRanks ap) (apNewId ap) ws board i title user)"

definition checklistController_list where
  "checklistController_list ap board i =
     served ap WORKSPACE_WRITE_ROLES [board, i] (\<lambda>_ ws. checklistService_getChecklists (apOrder ap) ws board i)"

definition checklistController_rename where
  "checklistController_rename ap board i checklist title =
     served ap WORKSPACE_WRITE_ROLES [board, i, checklist] (\<lambda>user ws. checklistService_renameChecklist (apOrder ap) ws board i checklist title user)"

definition checklistController_delete where
  "checklistController_delete ap board i checklist =
     served ap WORKSPACE_WRITE_ROLES [board, i, checklist] (\<lambda>user ws. checklistService_deleteChecklist (apOrder ap) ws board i checklist user)"

definition checklistController_addItem where
  "checklistController_addItem ap board i checklist content =
     served ap WORKSPACE_WRITE_ROLES [board, i, checklist] (\<lambda>user ws. checklistService_addItem (apOrder ap) (apRanks ap) (apNewId ap) ws board i checklist content user)"

definition checklistController_updateItem where
  "checklistController_updateItem ap board i checklist item content isDone =
     served ap WORKSPACE_WRITE_ROLES [board, i, checklist, item] (\<lambda>user ws. checklistService_updateItem ws board i checklist item content isDone user)"

definition checklistController_removeItem where
  "checklistController_removeItem ap board i checklist item =
     served ap WORKSPACE_WRITE_ROLES [board, i, checklist, item] (\<lambda>user ws. checklistService_removeItem ws board i checklist item user)"

definition checklistController_promoteItem where
  "checklistController_promoteItem ap board i checklist item =
     served ap WORKSPACE_WRITE_ROLES [board, i, checklist, item] (\<lambda>user ws. checklistService_promoteItemToSubcard (apOrder ap) (apRanks ap) (apNewId ap) (apNow ap) ws board i checklist item user)"

section \<open>CommentController\<close>

definition commentController_create where
  "commentController_create ap board i content parent =
     served ap WORKSPACE_WRITE_ROLES [board, i] (\<lambda>user ws. commentService_create (apNewId ap) (apNow ap) board ws i content parent user)"

definition commentController_list where
  "commentController_list ap after board i cursor limit =
     served ap WORKSPACE_READ_ROLES [board, i] (\<lambda>_ ws. commentService_getCardComments after board ws i cursor limit)"

definition commentController_update where
  "commentController_update ap board i comment content =
     served ap WORKSPACE_WRITE_ROLES [board, i, comment] (\<lambda>user ws. commentService_update (apNow ap) board ws i comment content user)"

definition commentController_listThread where
  "commentController_listThread ap board i comment =
     served ap WORKSPACE_READ_ROLES [board, i, comment] (\<lambda>_ ws. commentService_listThread board ws i comment)"

definition commentController_delete where
  "commentController_delete ap board i comment =
     served ap WORKSPACE_WRITE_ROLES [board, i, comment] (\<lambda>user ws. commentService_delete (apNow ap) board ws i comment user)"

section \<open>CardFieldValueController\<close>

definition fieldValueController_setValue where
  "fieldValueController_setValue ap board i field_id value =
     served ap WORKSPACE_WRITE_ROLES [board, i, field_id] (\<lambda>_ ws. fieldService_setValue (apParses ap) board ws i field_id value)"

definition fieldValueController_listValues where
  "fieldValueController_listValues ap board i =
     served ap WORKSPACE_READ_ROLES [board, i] (\<lambda>_ ws. fieldService_listValues board ws i)"

end
