(* ===== verification/Board_Routes.thy ===== *)
theory Board_Routes
  imports Routes
begin

text \<open>
  The endpoints of boards, lists, labels, field definitions, documents, files and the activity feeds.
\<close>

section \<open>BoardController\<close>

definition boardController_create where
  "boardController_create ap dto =
     served ap WORKSPACE_WRITE_ROLES [] (\<lambda>user ws. boardService_create (apNewId ap) (apNow ap) ws dto user)"

definition boardController_listWorkspaceBoards where
  "boardController_listWorkspaceBoards ap after cursor limit =
     served ap WORKSPACE_READ_ROLES [] (\<lambda>_ ws. reading (boardService_listWorkspaceBoards after ws cursor limit))"

definition boardController_listArchived where
  "boardController_listArchived ap after cursor limit =
     served ap WORKSPACE_WRITE_ROLES [] (\<lambda>_ ws. reading (boardService_listArchivedBoardsPaginated after ws cursor limit))"

definition boardController_update where
  "boardController_update ap board dto =
     served ap WORKSPACE_WRITE_ROLES [board] (\<lambda>user ws. boardService_update (apNow ap) board ws dto user)"

definition boardController_archive where
  "boardController_archive ap board =
     served ap WORKSPACE_ADMIN_ROLES [board] (\<lambda>user ws. boardService_archive (apNow ap) board ws user)"

definition boardController_unarchive where
  "boardController_unarchive ap board =
     served ap WORKSPACE_WRITE_ROLES [board] (\<lambda>user ws. boardService_unarchive (apNow ap) board ws user)"

definition boardController_deletePermanently where
  "boardController_deletePermanently ap board =
     served ap WORKSPACE_ADMIN_ROLES [board] (\<lambda>user ws. boardService_deletePermanently (apNow ap) board ws user)"

definition boardController_star where
  "boardController_star ap board =
     served ap WORKSPACE_READ_ROLES [board] (\<lambda>user ws. boardService_starBoard (apNow ap) user board ws)"

definition boardController_unstar where
  "boardController_unstar ap board =
     served ap WORKSPACE_READ_ROLES [board] (\<lambda>user ws. boardService_unstarBoard user board ws)"

section \<open>ListController\<close>

definition listController_create where
  "listController_create ap board title =
     served ap WORKSPACE_WRITE_ROLES [board] (\<lambda>user ws. listService_create (apOrder ap) (apRanks ap) (apNewId ap) (apNow ap) board ws title user)"

definition listController_update where
  "listController_update ap board list title =
     served ap WORKSPACE_WRITE_ROLES [board, list] (\<lambda>user ws. listService_update (apNow ap) board ws list title user)"

definition listController_move where
  "listController_move ap board list prevRank nextRank =
     served ap WORKSPACE_WRITE_ROLES [board, list] (\<lambda>user ws. listService_move (apRanks ap) (apNow ap) board ws list prevRank nextRank user)"

definition listController_archive where
  "listController_archive ap board list =
     served ap WORKSPACE_WRITE_ROLES [board, list] (\<lambda>user ws. listService_archive (apNow ap) board ws list user)"

definition listController_unarchive where
  "listController_unarchive ap board list =
     served ap WORKSPACE_WRITE_ROLES [board, list] (\<lambda>user ws. listService_unarchive (apNow ap) board ws list user)"

definition listController_listArchived where
  "listController_listArchived ap after board cursor limit =
     served ap WORKSPACE_WRITE_ROLES [board] (\<lambda>_ ws. listService_listArchivedListsPaginated after board ws cursor limit)"

definition listController_deletePermanently where
  "listController_deletePermanently ap board list =
     served ap WORKSPACE_ADMIN_ROLES [board, list] (\<lambda>user ws. listService_deletePermanently (apNow ap) board ws list user)"

section \<open>LabelController and WorkspaceLabelController\<close>

definition labelController_createLabel where
  "labelController_createLabel ap board dto =
     served ap WORKSPACE_WRITE_ROLES [board] (\<lambda>_ ws. labelService_createLabel (apNewId ap) (apNow ap) board ws dto)"

definition labelController_getLabelsForBoard where
  "labelController_getLabelsForBoard ap board =
     served ap WORKSPACE_READ_ROLES [board] (\<lambda>_ ws. labelService_getLabelsForBoard board ws)"

definition labelController_updateLabel where
  "labelController_updateLabel ap board label dto =
     served ap WORKSPACE_WRITE_ROLES [board, label] (\<lambda>_ ws. labelService_updateLabel board ws label dto)"

definition labelController_deleteLabel where
  "labelController_deleteLabel ap board label =
     served ap WORKSPACE_WRITE_ROLES [board, label] (\<lambda>_ ws. labelService_deleteLabel board ws label)"

definition workspaceLabelController_createWorkspaceLabel where
  "workspaceLabelController_createWorkspaceLabel ap dto =
     served ap WORKSPACE_WRITE_ROLES [] (\<lambda>_ ws. labelService_createWorkspaceLabel (apNewId ap) (apNow ap) ws dto)"

definition workspaceLabelController_getWorkspaceLabels where
  "workspaceLabelController_getWorkspaceLabels ap =
     served ap WORKSPACE_READ_ROLES [] (\<lambda>_ ws. reading (\<lambda>s. Inr (labelService_getWorkspaceLabels ws s)))"

definition workspaceLabelController_getCardsForLabel where
  "workspaceLabelController_getCardsForLabel ap label =
     served ap WORKSPACE_READ_ROLES [label] (\<lambda>_ ws. labelService_getCardsForLabel ws label)"

definition workspaceLabelController_updateWorkspaceLabel where
  "workspaceLabelController_updateWorkspaceLabel ap label dto =
     served ap WORKSPACE_WRITE_ROLES [label] (\<lambda>_ ws. labelService_updateWorkspaceLabel ws label dto)"

definition workspaceLabelController_deleteWorkspaceLabel where
  "workspaceLabelController_deleteWorkspaceLabel ap label =
     served ap WORKSPACE_WRITE_ROLES [label] (\<lambda>_ ws. labelService_deleteWorkspaceLabel ws label)"

section \<open>CardFieldDefController\<close>

definition fieldDefController_createDef where
  "fieldDefController_createDef ap dto =
     served ap WORKSPACE_ADMIN_ROLES [] (\<lambda>_ ws. fieldService_createDef (apNewId ap) ws dto)"

definition fieldDefController_listDefs where
  "fieldDefController_listDefs ap =
     served ap WORKSPACE_READ_ROLES [] (\<lambda>_ ws. reading (\<lambda>s. Inr (fieldService_listDefs ws s)))"

definition fieldDefController_updateDef where
  "fieldDefController_updateDef ap field_id dto =
     served ap WORKSPACE_ADMIN_ROLES [field_id] (\<lambda>_ ws. fieldService_updateDef ws field_id dto)"

definition fieldDefController_deleteDef where
  "fieldDefController_deleteDef ap field_id =
     served ap WORKSPACE_ADMIN_ROLES [field_id] (\<lambda>_ ws. fieldService_deleteDef ws field_id)"

section \<open>DocumentController and the listings of documents\<close>

definition documentController_create where
  "documentController_create ap dto =
     served ap WORKSPACE_WRITE_ROLES [] (\<lambda>user ws. documentService_create (apNewId ap) (apNow ap) ws dto user)"

definition documentController_list where
  "documentController_list ap matches after cursor limit search =
     served ap WORKSPACE_READ_ROLES [] (\<lambda>_ ws. reading (documentService_listInWorkspace matches after ws cursor limit search))"

definition documentController_get where
  "documentController_get ap doc =
     served ap WORKSPACE_READ_ROLES [doc] (\<lambda>_ ws. reading (documentService_findById doc (Some ws)))"

definition documentController_rename where
  "documentController_rename ap doc title =
     served ap WORKSPACE_WRITE_ROLES [doc] (\<lambda>user ws. documentService_rename (apNow ap) doc title user (Some ws))"

definition documentController_archive where
  "documentController_archive ap doc =
     served ap WORKSPACE_WRITE_ROLES [doc] (\<lambda>user ws. documentService_archive (apNow ap) doc user (Some ws))"

definition boardDocumentsController_listByBoard where
  "boardDocumentsController_listByBoard ap board =
     served ap WORKSPACE_READ_ROLES [board] (\<lambda>_ ws. reading (\<lambda>s. Inr (documentService_listByBoard ws board s)))"

definition cardDocumentsController_listByCard where
  "cardDocumentsController_listByCard ap i =
     served ap WORKSPACE_READ_ROLES [i] (\<lambda>_ ws. documentService_listByCard i ws)"

section \<open>FileController and the attachments of a card\<close>

definition fileController_requestUpload where
  "fileController_requestUpload ap st random dto =
     served ap WORKSPACE_WRITE_ROLES [] (\<lambda>user ws. fileService_requestUpload st (apNewId ap) random (apNow ap) ws dto user)"

definition fileController_confirm where
  "fileController_confirm ap file_id =
     served ap WORKSPACE_WRITE_ROLES [file_id] (\<lambda>user _. fileService_confirm (apNow ap) file_id user)"

definition fileController_download where
  "fileController_download ap st file_id =
     served ap WORKSPACE_READ_ROLES [file_id] (\<lambda>user _. reading (fileService_download st file_id user))"

definition fileController_delete where
  "fileController_delete ap file_id =
     served ap WORKSPACE_WRITE_ROLES [file_id] (\<lambda>user _. fileService_delete (apNow ap) file_id user)"

definition attachmentController_list where
  "attachmentController_list ap board i =
     served ap WORKSPACE_READ_ROLES [board, i] (\<lambda>user ws.
       assertBoardInWorkspace board (Some ws) (\<lambda>s.
         case cardRepo_findActiveById i (Some board) s of
           None \<Rightarrow> (Inl (EntityNotFound ''Card'' i), s)
         | Some d \<Rightarrow> reading (fileService_listForEntity CardEntity i user ws) s))"

section \<open>ActivityController\<close>

definition activityController_getWorkspaceFeed where
  "activityController_getWorkspaceFeed ap query =
     served ap WORKSPACE_READ_ROLES [] (\<lambda>_ ws. reading (activityService_getWorkspaceFeed ws query))"

definition activityController_getBoardFeed where
  "activityController_getBoardFeed ap board query =
     served ap WORKSPACE_READ_ROLES [board] (\<lambda>_ ws. reading (activityService_getBoardFeed ws board query))"

end
