(* ===== verification/Workspace_Routes.thy ===== *)
theory Workspace_Routes
  imports Routes
begin

text \<open>
  The endpoints of workspaces, their members and invitations, and of notifications, which have no workspace in their path.
\<close>

section \<open>WorkspaceController\<close>

definition workspaceController_create where
  "workspaceController_create ap id1 id2 id3 draws dto s =
     (case signed_in ap True s of
        (Inl e, s1) \<Rightarrow> Some (Inl e, s1)
      | (Inr user, s1) \<Rightarrow> workspaceService_create id1 id2 id3 draws (apNow ap) dto user s1)"

definition workspaceController_listMine where
  "workspaceController_listMine ap after cursor limit =
     for_user ap [] (\<lambda>user. reading (workspaceService_findAllForUser after user cursor limit))"

definition workspaceController_getBySlug where
  "workspaceController_getBySlug ap slug = for_user ap [] (\<lambda>user. reading (workspaceService_findBySlug slug user))"

definition workspaceController_acceptInvitation where
  "workspaceController_acceptInvitation ap token =
     for_user ap [] (\<lambda>user. invitationService_acceptInvitation (apCrypto ap) (apNewId ap) (apNow ap) token user)"

definition workspaceController_getById where
  "workspaceController_getById ap =
     served ap WORKSPACE_READ_ROLES [] (\<lambda>user ws. reading (workspaceService_findByIdWithRole ws user))"

definition workspaceController_update where
  "workspaceController_update ap draws dto s =
     (case served ap WORKSPACE_ADMIN_ROLES [] (\<lambda>user ws s. (Inr ws, s)) s of
        (Inl e, s1) \<Rightarrow> Some (Inl e, s1)
      | (Inr ws, s1) \<Rightarrow> workspaceService_update draws ws dto s1)"

definition workspaceController_archive where
  "workspaceController_archive ap =
     served ap WORKSPACE_OWNER_ROLES [] (\<lambda>_ ws. workspaceService_archive (apNow ap) ws)"

definition workspaceController_leaveWorkspace where
  "workspaceController_leaveWorkspace ap =
     served ap WORKSPACE_READ_ROLES [] (\<lambda>user ws. membershipService_leaveWorkspace ws user)"

definition workspaceController_transferOwnership where
  "workspaceController_transferOwnership ap newOwner =
     served ap WORKSPACE_OWNER_ROLES [] (\<lambda>user ws. membershipService_transferOwnership ws user newOwner)"

definition workspaceController_getMembers where
  "workspaceController_getMembers ap =
     served ap WORKSPACE_READ_ROLES [] (\<lambda>_ ws. reading (membershipService_getMembers ws))"

definition workspaceController_updateMemberRole where
  "workspaceController_updateMemberRole ap member role =
     served ap WORKSPACE_ADMIN_ROLES [member] (\<lambda>user ws. membershipService_updateMemberRole ws member role (Some user))"

definition workspaceController_removeMember where
  "workspaceController_removeMember ap member =
     served ap WORKSPACE_ADMIN_ROLES [member] (\<lambda>user ws. membershipService_removeMember ws member (Some user))"

definition workspaceController_inviteMember where
  "workspaceController_inviteMember ap rawToken dto =
     served ap WORKSPACE_ADMIN_ROLES [] (\<lambda>user ws. invitationService_inviteMember (apCrypto ap) rawToken (apNewId ap) (apNow ap) ws dto user)"

definition workspaceController_getInvitations where
  "workspaceController_getInvitations ap =
     served ap WORKSPACE_ADMIN_ROLES [] (\<lambda>_ ws. reading (invitationService_getInvitations ws))"

definition workspaceController_revokeInvitation where
  "workspaceController_revokeInvitation ap invitation =
     served ap WORKSPACE_ADMIN_ROLES [invitation] (\<lambda>_ ws. invitationService_revokeInvitation ws invitation)"

section \<open>NotificationController\<close>

definition notificationController_list where
  "notificationController_list ap query = for_user ap [] (\<lambda>user. reading (notificationService_listForUser user query))"

definition notificationController_unreadCount where
  "notificationController_unreadCount ap =
     for_user ap [] (\<lambda>user. reading (\<lambda>s. Inr (notificationService_getUnreadCount (apNow ap) user s)))"

definition notificationController_markAllRead where
  "notificationController_markAllRead ap =
     for_user ap [] (\<lambda>user s. (Inr (), notificationService_markAllRead (apNow ap) user s))"

definition notificationController_markRead where
  "notificationController_markRead ap i = for_user ap [i] (\<lambda>user. notificationService_markRead (apNow ap) user i)"

end
