(* ===== verification/Route_Properties.thy ===== *)
theory Route_Properties
  imports Card_Routes Board_Routes Workspace_Routes
begin

text \<open>
  What the guards mean for the data: every endpoint below a workspace that writes, its required roles, and what a caller
  without the role, or a viewer, can change through any of them.
\<close>

section \<open>The writing endpoints of a workspace\<close>

text \<open>Each with the roles of its decorator and its effect on the state; notifications and invitations by token have
  no workspace, and document snapshots are written through the document manager.\<close>

inductive endpoint :: "'r api \<Rightarrow> workspace_role list \<Rightarrow> (db \<Rightarrow> db) \<Rightarrow> bool" where
"endpoint ap WORKSPACE_WRITE_ROLES (\<lambda>s. snd (cardController_create ap board list dto s))"
| "endpoint ap WORKSPACE_WRITE_ROLES (\<lambda>s. snd (cardController_update ap board i dto s))"
| "endpoint ap WORKSPACE_WRITE_ROLES (\<lambda>s. snd (cardController_updatePriority ap board i priority s))"
| "endpoint ap WORKSPACE_WRITE_ROLES (\<lambda>s. snd (cardController_updateStatus ap board i status s))"
| "endpoint ap WORKSPACE_WRITE_ROLES (\<lambda>s. snd (cardController_createSubcard ap board i dto s))"
| "endpoint ap WORKSPACE_WRITE_ROLES (\<lambda>s. snd (cardController_attachSubcard ap board i child s))"
| "endpoint ap WORKSPACE_WRITE_ROLES (\<lambda>s. snd (cardController_detachSubcard ap board i s))"
| "endpoint ap WORKSPACE_WRITE_ROLES (\<lambda>s. snd (cardController_move ap board i dto s))"
| "endpoint ap WORKSPACE_WRITE_ROLES (\<lambda>s. snd (cardController_archive ap board i s))"
| "endpoint ap WORKSPACE_WRITE_ROLES (\<lambda>s. snd (cardController_unarchive ap board i s))"
| "endpoint ap WORKSPACE_ADMIN_ROLES (\<lambda>s. snd (cardController_deletePermanently ap board i s))"
| "endpoint ap WORKSPACE_WRITE_ROLES (\<lambda>s. snd (cardController_addAssignee ap board i target s))"
| "endpoint ap WORKSPACE_WRITE_ROLES (\<lambda>s. snd (cardController_removeAssignee ap board i target s))"
| "endpoint ap WORKSPACE_WRITE_ROLES (\<lambda>s. snd (cardController_addLabel ap board i label s))"
| "endpoint ap WORKSPACE_WRITE_ROLES (\<lambda>s. snd (cardController_removeLabel ap board i label s))"
| "endpoint ap WORKSPACE_WRITE_ROLES (\<lambda>s. snd (timeController_setEstimate ap board i minutes s))"
| "endpoint ap WORKSPACE_WRITE_ROLES (\<lambda>s. snd (timeController_logTime ap board i dto s))"
| "endpoint ap WORKSPACE_WRITE_ROLES (\<lambda>s. snd (checklistController_create ap board i title s))"
| "endpoint ap WORKSPACE_WRITE_ROLES (\<lambda>s. snd (checklistController_rename ap board i checklist title s))"
| "endpoint ap WORKSPACE_WRITE_ROLES (\<lambda>s. snd (checklistController_delete ap board i checklist s))"
| "endpoint ap WORKSPACE_WRITE_ROLES (\<lambda>s. snd (checklistController_addItem ap board i checklist content s))"
| "endpoint ap WORKSPACE_WRITE_ROLES (\<lambda>s. snd (checklistController_updateItem ap board i checklist item content isDone s))"
| "endpoint ap WORKSPACE_WRITE_ROLES (\<lambda>s. snd (checklistController_removeItem ap board i checklist item s))"
| "endpoint ap WORKSPACE_WRITE_ROLES (\<lambda>s. snd (checklistController_promoteItem ap board i checklist item s))"
| "endpoint ap WORKSPACE_WRITE_ROLES (\<lambda>s. snd (commentController_create ap board i content parent s))"
| "endpoint ap WORKSPACE_WRITE_ROLES (\<lambda>s. snd (commentController_update ap board i comment content s))"
| "endpoint ap WORKSPACE_WRITE_ROLES (\<lambda>s. snd (commentController_delete ap board i comment s))"
| "endpoint ap WORKSPACE_WRITE_ROLES (\<lambda>s. snd (fieldValueController_setValue ap board i field_id value s))"
| "endpoint ap WORKSPACE_WRITE_ROLES (\<lambda>s. snd (boardController_create ap dto s))"
| "endpoint ap WORKSPACE_WRITE_ROLES (\<lambda>s. snd (boardController_update ap board dto s))"
| "endpoint ap WORKSPACE_ADMIN_ROLES (\<lambda>s. snd (boardController_archive ap board s))"
| "endpoint ap WORKSPACE_WRITE_ROLES (\<lambda>s. snd (boardController_unarchive ap board s))"
| "endpoint ap WORKSPACE_ADMIN_ROLES (\<lambda>s. snd (boardController_deletePermanently ap board s))"
| "endpoint ap WORKSPACE_READ_ROLES (\<lambda>s. snd (boardController_star ap board s))"
| "endpoint ap WORKSPACE_READ_ROLES (\<lambda>s. snd (boardController_unstar ap board s))"
| "endpoint ap WORKSPACE_WRITE_ROLES (\<lambda>s. snd (listController_create ap board title s))"
| "endpoint ap WORKSPACE_WRITE_ROLES (\<lambda>s. snd (listController_update ap board list title s))"
| "endpoint ap WORKSPACE_WRITE_ROLES (\<lambda>s. snd (listController_move ap board list prevRank nextRank s))"
| "endpoint ap WORKSPACE_WRITE_ROLES (\<lambda>s. snd (listController_archive ap board list s))"
| "endpoint ap WORKSPACE_WRITE_ROLES (\<lambda>s. snd (listController_unarchive ap board list s))"
| "endpoint ap WORKSPACE_ADMIN_ROLES (\<lambda>s. snd (listController_deletePermanently ap board list s))"
| "endpoint ap WORKSPACE_WRITE_ROLES (\<lambda>s. snd (labelController_createLabel ap board dto s))"
| "endpoint ap WORKSPACE_WRITE_ROLES (\<lambda>s. snd (labelController_updateLabel ap board label dto s))"
| "endpoint ap WORKSPACE_WRITE_ROLES (\<lambda>s. snd (labelController_deleteLabel ap board label s))"
| "endpoint ap WORKSPACE_WRITE_ROLES (\<lambda>s. snd (workspaceLabelController_createWorkspaceLabel ap dto s))"
| "endpoint ap WORKSPACE_WRITE_ROLES (\<lambda>s. snd (workspaceLabelController_updateWorkspaceLabel ap label dto s))"
| "endpoint ap WORKSPACE_WRITE_ROLES (\<lambda>s. snd (workspaceLabelController_deleteWorkspaceLabel ap label s))"
| "endpoint ap WORKSPACE_ADMIN_ROLES (\<lambda>s. snd (fieldDefController_createDef ap dto s))"
| "endpoint ap WORKSPACE_ADMIN_ROLES (\<lambda>s. snd (fieldDefController_updateDef ap field_id dto s))"
| "endpoint ap WORKSPACE_ADMIN_ROLES (\<lambda>s. snd (fieldDefController_deleteDef ap field_id s))"
| "endpoint ap WORKSPACE_WRITE_ROLES (\<lambda>s. snd (documentController_create ap dto s))"
| "endpoint ap WORKSPACE_WRITE_ROLES (\<lambda>s. snd (documentController_rename ap doc title s))"
| "endpoint ap WORKSPACE_WRITE_ROLES (\<lambda>s. snd (documentController_archive ap doc s))"
| "endpoint ap WORKSPACE_WRITE_ROLES (\<lambda>s. snd (fileController_requestUpload ap st random dto s))"
| "endpoint ap WORKSPACE_WRITE_ROLES (\<lambda>s. snd (fileController_confirm ap file_id s))"
| "endpoint ap WORKSPACE_WRITE_ROLES (\<lambda>s. snd (fileController_delete ap file_id s))"
| "endpoint ap WORKSPACE_OWNER_ROLES (\<lambda>s. snd (workspaceController_archive ap s))"
| "endpoint ap WORKSPACE_READ_ROLES (\<lambda>s. snd (workspaceController_leaveWorkspace ap s))"
| "endpoint ap WORKSPACE_OWNER_ROLES (\<lambda>s. snd (workspaceController_transferOwnership ap newOwner s))"
| "endpoint ap WORKSPACE_ADMIN_ROLES (\<lambda>s. snd (workspaceController_updateMemberRole ap member role s))"
| "endpoint ap WORKSPACE_ADMIN_ROLES (\<lambda>s. snd (workspaceController_removeMember ap member s))"
| "endpoint ap WORKSPACE_ADMIN_ROLES (\<lambda>s. snd (workspaceController_inviteMember ap rawToken dto s))"
| "endpoint ap WORKSPACE_ADMIN_ROLES (\<lambda>s. snd (workspaceController_revokeInvitation ap invitation s))"
| "endpoint ap WORKSPACE_ADMIN_ROLES (\<lambda>s. case workspaceController_update ap draws dto s of None \<Rightarrow> s | Some (r, s') \<Rightarrow> s')"

lemmas endpoint_defs =
  cardController_create_def cardController_update_def cardController_updatePriority_def cardController_updateStatus_def
  cardController_createSubcard_def cardController_attachSubcard_def cardController_detachSubcard_def
  cardController_move_def cardController_archive_def cardController_unarchive_def cardController_deletePermanently_def
  cardController_addAssignee_def cardController_removeAssignee_def cardController_addLabel_def
  cardController_removeLabel_def timeController_setEstimate_def timeController_logTime_def checklistController_create_def
  checklistController_rename_def checklistController_delete_def checklistController_addItem_def
  checklistController_updateItem_def checklistController_removeItem_def checklistController_promoteItem_def
  commentController_create_def commentController_update_def commentController_delete_def fieldValueController_setValue_def
  boardController_create_def boardController_update_def boardController_archive_def boardController_unarchive_def
  boardController_deletePermanently_def boardController_star_def boardController_unstar_def listController_create_def
  listController_update_def listController_move_def listController_archive_def listController_unarchive_def
  listController_deletePermanently_def labelController_createLabel_def labelController_updateLabel_def
  labelController_deleteLabel_def workspaceLabelController_createWorkspaceLabel_def
  workspaceLabelController_updateWorkspaceLabel_def workspaceLabelController_deleteWorkspaceLabel_def
  fieldDefController_createDef_def fieldDefController_updateDef_def fieldDefController_deleteDef_def
  documentController_create_def documentController_rename_def documentController_archive_def
  fileController_requestUpload_def fileController_confirm_def fileController_delete_def workspaceController_archive_def
  workspaceController_leaveWorkspace_def workspaceController_transferOwnership_def
  workspaceController_updateMemberRole_def workspaceController_removeMember_def workspaceController_inviteMember_def
  workspaceController_revokeInvitation_def

section \<open>Frames\<close>

lemma redis_update_id: "s = s\<lparr>redis := redis s\<rparr>"
  by simp

lemma emailVerified_only_caches:
  "\<exists>r. snd (emailVerifiedGuard_canActivate now skip user rq s) = s\<lparr>redis := r\<rparr>"
proof (cases "snd (emailVerifiedGuard_canActivate now skip user rq s) = s")
  case False
  then show ?thesis
    by (auto simp: emailVerifiedGuard_canActivate_def isVerifiedInDb_def redis_set_ex_def split: option.splits if_splits prod.splits bool.splits)
qed (metis redis_update_id)

text \<open>Who may call: the signed-in user is a member of the workspace in the path with one of the roles, or a higher one.\<close>

definition caller :: "'r api \<Rightarrow> workspace_role list \<Rightarrow> uuid \<Rightarrow> member_row \<Rightarrow> db \<Rightarrow> bool" where
  "caller ap roles user m s \<longleftrightarrow>
     (\<exists>c ws. jwtAuthGuard_canActivate (apCrypto ap) (apNow ap) (apRequest ap) s = Inr c \<and> clSub c = user \<and>
        rqWorkspaceId (apRequest ap) = Some ws \<and> memberRepo_findMember ws user s = Some m \<and>
        (\<exists>r\<in>set roles. r \<le> memRole m))"

lemma find_member_redis [simp]: "memberRepo_findMember ws u (s\<lparr>redis := r\<rparr>) = memberRepo_findMember ws u s"
  by (simp add: memberRepo_findMember_def)

lemma served_cases:
  assumes "roles \<noteq> []"
  obtains e r where "served ap roles path k s = (Inl e, s\<lparr>redis := r\<rparr>)"
  | user ws m r where "caller ap roles user m s" "rqWorkspaceId (apRequest ap) = Some ws" "memberRepo_findMember ws user s = Some m"
      "served ap roles path k s = k user ws (s\<lparr>redis := r\<rparr>)"
proof -
  let ?a = "workspaceAuth (apCrypto ap) (apIsUuid ap) roles False (apNow ap) (apRequest ap) s"
  let ?e = "\<lambda>c. emailVerifiedGuard_canActivate (apNow ap) False (Some c) (apRequest ap) s"
  obtain q s1 where a: "?a = (q, s1)" by (metis surj_pair)
  have s1: "\<exists>r. s1 = s\<lparr>redis := r\<rparr>"
  proof (cases "jwtAuthGuard_canActivate (apCrypto ap) (apNow ap) (apRequest ap) s")
    case (Inl e)
    with a show ?thesis by (auto simp: workspaceAuth_def intro!: exI [of _ "redis s"])
  next
    case (Inr c)
    obtain q1 s2 where e: "?e c = (q1, s2)" by (metis surj_pair)
    with emailVerified_only_caches [of "apNow ap" False "Some c" "apRequest ap" s] have "\<exists>r. s2 = s\<lparr>redis := r\<rparr>" by simp
    moreover have "s1 = s2"
      using a e Inr by (cases q1) (auto simp: workspaceAuth_def split: sum.splits)
    ultimately show ?thesis by simp
  qed
  show thesis
  proof (cases q)
    case (Inl e)
    with a s1 that(1) show ?thesis by (auto simp: served_def)
  next
    case (Inr cm)
    then obtain c m where cm: "q = Inr (c, m)" by (cases cm) auto
    from s1 obtain r where r: "s1 = s\<lparr>redis := r\<rparr>" by blast
    from a cm r have ok: "jwtAuthGuard_canActivate (apCrypto ap) (apNow ap) (apRequest ap) s = Inr c"
      "workspaceMemberGuard_canActivate (apIsUuid ap) (Some c) (apRequest ap) (s\<lparr>redis := r\<rparr>) = Inr m"
      "rbacGuard_canActivate roles (Some m) = Inr ()"
      by (auto simp: workspaceAuth_Inr_iff)
    then obtain ws where ws: "rqWorkspaceId (apRequest ap) = Some ws" "memberRepo_findMember ws (clSub c) s = Some m"
      by (auto simp: workspaceMemberGuard_Inr_iff)
    have "caller ap roles (clSub c) m s"
      using ok ws assms by (auto simp: caller_def rbac_Inr_iff less_eq_workspace_role_def)
    moreover have "served ap roles path k s =
        uuid_pipe ap (the (rqWorkspaceId (apRequest ap)) # path) (k (clSub c) ws) (s\<lparr>redis := r\<rparr>)"
      using a cm r ws(1) by (simp add: served_def)
    ultimately show ?thesis
      using ws that by (cases "list_all (apIsUuid ap) (ws # path)") (auto simp: uuid_pipe_def)
  qed
qed

text \<open>What a viewer may change: the own stars and the own membership.\<close>

definition own_only :: "uuid \<Rightarrow> member_row \<Rightarrow> db \<Rightarrow> db \<Rightarrow> bool" where
  "own_only user m s s' \<longleftrightarrow>
     s' = s\<lparr>redis := redis s', stars := stars s', members := members s', events := events s'\<rparr> \<and>
     filter (\<lambda>x. starUserId x \<noteq> user) (stars s') = filter (\<lambda>x. starUserId x \<noteq> user) (stars s) \<and>
     (members s' = members s \<or> members s' = filter (\<lambda>x. memId x \<noteq> memId m) (members s))"

lemma own_only_redis [intro]: "own_only user m s (s\<lparr>redis := r\<rparr>)"
  by (simp add: own_only_def)

lemma star_own: "own_only user m s (snd (boardService_starBoard now user i ws (s\<lparr>redis := r\<rparr>)))"
  by (auto simp: own_only_def op_defs split: option.splits)

lemma unstar_own: "own_only user m s (snd (boardService_unstarBoard user i ws (s\<lparr>redis := r\<rparr>)))"
  by (auto simp: own_only_def op_defs split: option.splits intro!: filter_cong)

lemma leave_own:
  assumes "memberRepo_findMember ws user s = Some m" "memRole m = Viewer"
  shows "own_only user m s (snd (membershipService_leaveWorkspace ws user (s\<lparr>redis := r\<rparr>)))"
  using assms
  by (auto simp: own_only_def membershipService_leaveWorkspace_def removal_commit_def departure_check_def
      memberRepo_removeMember_def emit_def await_def or_missing_def delete_by_def split: option.splits sum.splits)

text \<open>The shape of an endpoint: refused up to the cache, or called by someone with the role; a viewer then changes only what is
  the viewer's own.\<close>

definition guarded :: "'r api \<Rightarrow> workspace_role list \<Rightarrow> (db \<Rightarrow> db) \<Rightarrow> bool" where
  "guarded ap roles f \<longleftrightarrow>
     (\<forall>s. (\<exists>r. f s = s\<lparr>redis := r\<rparr>) \<or>
        (\<exists>user m. caller ap roles user m s \<and> (memRole m = Viewer \<longrightarrow> own_only user m s (f s))))"

lemma no_viewer:
  assumes "caller ap roles user m s" "\<forall>r\<in>set roles. Viewer < r"
  shows "memRole m \<noteq> Viewer"
  using assms by (fastforce simp: caller_def dest: leD)

lemma served_guarded:
  assumes "roles \<noteq> []" "\<forall>r\<in>set roles. Viewer < r"
  shows "guarded ap roles (\<lambda>s. snd (served ap roles path k s))"
  unfolding guarded_def
proof
  fix s
  show "(\<exists>r. snd (served ap roles path k s) = s\<lparr>redis := r\<rparr>) \<or>
    (\<exists>user m. caller ap roles user m s \<and> (memRole m = Viewer \<longrightarrow> own_only user m s (snd (served ap roles path k s))))"
    (is ?thesis)
  proof (rule served_cases [OF assms(1), of ap path k s])
    fix user ws m r
    assume c: "caller ap roles user m s"
    from no_viewer [OF c assms(2)] c show ?thesis by blast
  qed auto
qed

lemma role_lists_above_viewer:
  "roles \<in> {WORKSPACE_OWNER_ROLES, WORKSPACE_ADMIN_ROLES, WORKSPACE_WRITE_ROLES} \<Longrightarrow> roles \<noteq> [] \<and> (\<forall>r\<in>set roles. Viewer < r)"
  by (auto simp: role_lists less_workspace_role_def)

lemma served_guarded_roles [simp]:
  "guarded ap WORKSPACE_OWNER_ROLES (\<lambda>s. snd (served ap WORKSPACE_OWNER_ROLES path k s))"
  "guarded ap WORKSPACE_ADMIN_ROLES (\<lambda>s. snd (served ap WORKSPACE_ADMIN_ROLES path k s))"
  "guarded ap WORKSPACE_WRITE_ROLES (\<lambda>s. snd (served ap WORKSPACE_WRITE_ROLES path k s))"
  by (rule served_guarded; use role_lists_above_viewer in blast)+

lemma served_guarded_read:
  assumes "\<And>user ws m s r. memberRepo_findMember ws user s = Some m \<Longrightarrow> memRole m = Viewer \<Longrightarrow>
      own_only user m s (snd (k user ws (s\<lparr>redis := r\<rparr>)))"
  shows "guarded ap WORKSPACE_READ_ROLES (\<lambda>s. snd (served ap WORKSPACE_READ_ROLES path k s))"
  unfolding guarded_def
proof
  fix s
  show "(\<exists>r. snd (served ap WORKSPACE_READ_ROLES path k s) = s\<lparr>redis := r\<rparr>) \<or>
    (\<exists>user m. caller ap WORKSPACE_READ_ROLES user m s \<and>
      (memRole m = Viewer \<longrightarrow> own_only user m s (snd (served ap WORKSPACE_READ_ROLES path k s))))"
    (is ?thesis)
  proof (rule served_cases [of WORKSPACE_READ_ROLES ap path k s])
    show "WORKSPACE_READ_ROLES \<noteq> []" by (simp add: role_lists)
    fix user ws m r
    assume c: "caller ap WORKSPACE_READ_ROLES user m s" "memberRepo_findMember ws user s = Some m"
      and out: "served ap WORKSPACE_READ_ROLES path k s = k user ws (s\<lparr>redis := r\<rparr>)"
    from c(1) assms [OF c(2)] show ?thesis unfolding out by blast
  qed auto
qed

lemma update_guarded:
  "guarded ap WORKSPACE_ADMIN_ROLES (\<lambda>s. case workspaceController_update ap draws dto s of None \<Rightarrow> s | Some (r, s') \<Rightarrow> s')"
  unfolding guarded_def
proof
  fix s
  let ?f = "\<lambda>s. case workspaceController_update ap draws dto s of None \<Rightarrow> s | Some (r, s') \<Rightarrow> s'"
  let ?v = "served ap WORKSPACE_ADMIN_ROLES [] (\<lambda>user ws s. (Inr ws, s)) s"
  consider e r where "?v = (Inl e, s\<lparr>redis := r\<rparr>)" | user m where "caller ap WORKSPACE_ADMIN_ROLES user m s"
  proof (rule served_cases [of WORKSPACE_ADMIN_ROLES ap "[]" "\<lambda>user ws s. (Inr ws, s)" s])
    show "WORKSPACE_ADMIN_ROLES \<noteq> []" by (simp add: role_lists)
  qed (auto)
  then show "(\<exists>r. ?f s = s\<lparr>redis := r\<rparr>) \<or>
    (\<exists>user m. caller ap WORKSPACE_ADMIN_ROLES user m s \<and> (memRole m = Viewer \<longrightarrow> own_only user m s (?f s)))"
  proof cases
    case (2 user m)
    moreover have "memRole m \<noteq> Viewer"
      by (rule no_viewer [OF 2]) (simp add: role_lists less_workspace_role_def)
    ultimately show ?thesis by blast
  qed (auto simp: workspaceController_update_def)
qed

lemma every_endpoint_guarded:
  assumes "endpoint ap roles f"
  shows "guarded ap roles f"
  using assms
proof cases
qed (simp_all add: endpoint_defs star_own unstar_own leave_own served_guarded_read update_guarded)

section \<open>Properties\<close>

text \<open>C7: Nothing in a workspace changes over HTTP without the role. If any of the writing endpoints below a workspace (sixty-four
  of them, on boards, lists, cards, checklists, comments, labels, fields, documents, files, members, invitations and the
  workspace itself), with whatever body and path, leaves the state different from before in anything but the cache, then the
  request was made with a valid token of a member of the workspace in its path who has one of the endpoint's roles or a higher
  one; and if that member is only a viewer, nothing changed but the caller's own stars or the caller's own membership.\<close>

theorem http_writes_need_a_role:
  assumes "endpoint ap roles f" "\<forall>r. f s \<noteq> s\<lparr>redis := r\<rparr>"
  shows "\<exists>user m. caller ap roles user m s \<and> (memRole m = Viewer \<longrightarrow> own_only user m s (f s))"
  using every_endpoint_guarded [OF assms(1)] assms(2) by (auto simp: guarded_def)

definition viewer_db :: db where
  "viewer_db = sample_db\<lparr>members := [sample_member ''mu'' ''u'' Owner, sample_member ''mm'' ''m'' Viewer]\<rparr>"

definition demo_api :: "nat api" where
  "demo_api = \<lparr>apCrypto = demo_crypto, apIsUuid = (\<lambda>_. True), apNow = 5, apRequest = demo_request, apOrder = shorter,
     apRanks = unary_lexorank, apParses = (\<lambda>_. True), apNewId = ''new''\<rparr>"

theorem http_writes_need_a_role_witness:
  "\<exists>user m. caller demo_api WORKSPACE_READ_ROLES user m viewer_db \<and>
     (memRole m = Viewer \<longrightarrow> own_only user m viewer_db (snd (boardController_star demo_api ''b'' viewer_db)))"
proof -
  have "endpoint demo_api WORKSPACE_READ_ROLES (\<lambda>s. snd (boardController_star demo_api ''b'' s))"
    by (rule endpoint.intros)
  moreover have "stars (snd (boardController_star demo_api ''b'' viewer_db)) \<noteq> stars viewer_db"
    by (simp add: boardController_star_def served_def workspaceAuth_def jwtAuthGuard_canActivate_def demo_api_def demo_request_def
        bearer_token_def bearer_prefix_def verifyAccessToken_def demo_crypto_def demo_claims_def isBlacklisted_def redis_get_def
        viewer_db_def sample_db_defs emailVerifiedGuard_canActivate_def workspaceMemberGuard_canActivate_def
        memberRepo_findMember_def rbacGuard_canActivate_def role_lists uuid_pipe_def boardService_starBoard_def
        boardRepo_findById_def in_scope_def boardRepo_starBoard_def)
  then have "\<forall>r. snd (boardController_star demo_api ''b'' viewer_db) \<noteq> viewer_db\<lparr>redis := r\<rparr>"
    by auto
  ultimately show ?thesis by (rule http_writes_need_a_role)
qed

end
