(* ===== verification/Auth_Routes.thy ===== *)
theory Auth_Routes
  imports Access_Guards Auth_Sessions
begin

text \<open>
  The endpoints of \<open>AuthController\<close> (\<open>src/modules/auth/controllers/auth.controller.ts\<close>) with their guards, and the
  browser at the other end: what each answer does to its refresh cookie. The throttling of the framework is left out,
  and so is the part of Passport that talks to Google: the profile it obtains is an argument. The logout handler is in
  \<open>Access_Guards\<close>.
\<close>

section \<open>Answers and the cookie\<close>

datatype cookie_change = KeepCookie | SetCookie string | ClearCookie

type_synonym 'a reply = "'a outcome \<times> cookie_change"

fun apply_cookie :: "cookie_change \<Rightarrow> string option \<Rightarrow> string option" where
  "apply_cookie KeepCookie jar = jar"
| "apply_cookie (SetCookie t) jar = Some t"
| "apply_cookie ClearCookie jar = None"

text \<open>A handler that answers with tokens puts the refresh token into the cookie; a failure leaves the cookie alone.\<close>

definition session_reply :: "('a \<Rightarrow> token_pair) \<Rightarrow> 'a outcome \<Rightarrow> 'a reply" where
  "session_reply tokens m =
     (m, case fst m of Inl e \<Rightarrow> KeepCookie | Inr x \<Rightarrow> SetCookie (tpRefreshToken (tokens x)))"

definition plain_reply :: "'a outcome \<Rightarrow> 'a reply" where
  "plain_reply m = (m, KeepCookie)"

definition anonymous_only :: "crypto \<Rightarrow> instant \<Rightarrow> http_request \<Rightarrow> (db \<Rightarrow> 'a reply) \<Rightarrow> db \<Rightarrow> 'a reply" where
  "anonymous_only cr now rq k s =
     (case anonymousGuard_canActivate cr now rq s of Inl e \<Rightarrow> plain_reply (Inl e, s) | Inr _ \<Rightarrow> k s)"

definition with_jwt :: "crypto \<Rightarrow> instant \<Rightarrow> http_request \<Rightarrow> (claims \<Rightarrow> db \<Rightarrow> 'a reply) \<Rightarrow> db \<Rightarrow> 'a reply" where
  "with_jwt cr now rq k s =
     (case jwtAuthGuard_canActivate cr now rq s of Inl e \<Rightarrow> plain_reply (Inl e, s) | Inr c \<Rightarrow> k c s)"

section \<open>The handlers\<close>

definition authController_register ::
  "crypto \<Rightarrow> session_draws \<Rightarrow> uuid \<Rightarrow> string \<Rightarrow> string \<Rightarrow> instant \<Rightarrow> string \<Rightarrow> string \<Rightarrow> string \<Rightarrow> string option \<Rightarrow>
   string option \<Rightarrow> http_request \<Rightarrow> db \<Rightarrow> (auth_user \<times> token_pair) reply" where
  "authController_register cr d newId salt verifyRaw now email password name ip agent rq =
     anonymous_only cr now rq
       (\<lambda>s. session_reply snd (authService_register cr d newId salt verifyRaw now email password name ip agent s))"

definition authController_login ::
  "crypto \<Rightarrow> session_draws \<Rightarrow> instant \<Rightarrow> string \<Rightarrow> string \<Rightarrow> string option \<Rightarrow> string option \<Rightarrow> http_request \<Rightarrow> db \<Rightarrow>
   (auth_user \<times> token_pair) reply" where
  "authController_login cr d now email password ip agent rq =
     anonymous_only cr now rq (\<lambda>s. session_reply snd (authService_login cr d now email password ip agent s))"

definition authController_refresh ::
  "crypto \<Rightarrow> session_draws \<Rightarrow> instant \<Rightarrow> string option \<Rightarrow> string option \<Rightarrow> http_request \<Rightarrow> db \<Rightarrow> token_pair reply" where
  "authController_refresh cr d now ip agent rq s =
     (if truthy (rqRefreshCookie rq)
      then session_reply id (authService_refreshTokens cr d now (the (rqRefreshCookie rq)) ip agent s)
      else plain_reply (Inl (Unauthorized ''TOKEN_INVALID''), s))"

definition authController_logoutAll :: "crypto \<Rightarrow> instant \<Rightarrow> http_request \<Rightarrow> db \<Rightarrow> unit reply" where
  "authController_logoutAll cr now rq =
     with_jwt cr now rq
       (\<lambda>c s. ((Inr (), authService_logoutAllDevices now (clSub c) (Some (clJti c)) (Some (clExp c)) s), ClearCookie))"

definition authController_forgotPassword :: "crypto \<Rightarrow> string \<Rightarrow> instant \<Rightarrow> string \<Rightarrow> http_request \<Rightarrow> db \<Rightarrow> unit reply" where
  "authController_forgotPassword cr raw now email rq =
     anonymous_only cr now rq (\<lambda>s. plain_reply (Inr (), authService_forgotPassword cr raw now email s))"

definition authController_resetPassword ::
  "crypto \<Rightarrow> session_draws \<Rightarrow> string \<Rightarrow> instant \<Rightarrow> string \<Rightarrow> string \<Rightarrow> string option \<Rightarrow> string option \<Rightarrow> http_request \<Rightarrow>
   db \<Rightarrow> token_pair reply" where
  "authController_resetPassword cr d salt now token newPassword ip agent rq =
     anonymous_only cr now rq (\<lambda>s. session_reply id (authService_resetPassword cr d salt now token newPassword ip agent s))"

definition authController_verifyEmail :: "crypto \<Rightarrow> instant \<Rightarrow> string \<Rightarrow> db \<Rightarrow> unit reply" where
  "authController_verifyEmail cr now token s = plain_reply (authService_verifyEmail cr now token s)"

definition authController_resendVerification :: "crypto \<Rightarrow> string \<Rightarrow> instant \<Rightarrow> http_request \<Rightarrow> db \<Rightarrow> unit reply" where
  "authController_resendVerification cr raw now rq =
     with_jwt cr now rq (\<lambda>c s. plain_reply (authService_requestEmailVerification cr raw now (clSub c) s))"

definition authController_getProfile :: "crypto \<Rightarrow> instant \<Rightarrow> http_request \<Rightarrow> db \<Rightarrow> user_row reply" where
  "authController_getProfile cr now rq = with_jwt cr now rq (\<lambda>c s. plain_reply (authService_getProfile (clSub c) s, s))"

definition authController_updateProfile ::
  "crypto \<Rightarrow> instant \<Rightarrow> string option \<Rightarrow> string patch \<Rightarrow> http_request \<Rightarrow> db \<Rightarrow> user_row reply" where
  "authController_updateProfile cr now name avatar rq =
     with_jwt cr now rq (\<lambda>c s. plain_reply (authService_updateProfile (clSub c) name avatar s))"

definition authController_changePassword ::
  "crypto \<Rightarrow> session_draws \<Rightarrow> string \<Rightarrow> instant \<Rightarrow> string \<Rightarrow> string \<Rightarrow> string option \<Rightarrow> string option \<Rightarrow> http_request \<Rightarrow>
   db \<Rightarrow> token_pair reply" where
  "authController_changePassword cr d salt now current newPassword ip agent rq =
     with_jwt cr now rq
       (\<lambda>c s. session_reply id (authService_changePassword cr d salt now (clSub c) current newPassword
                (Some (clJti c)) (Some (clExp c)) ip agent s))"

subsection \<open>Google\<close>

text \<open>The address the browser is sent to; the random state is kept for ten minutes.\<close>

definition authService_getGoogleAuthUrl ::
  "(string \<Rightarrow> string) \<Rightarrow> string \<Rightarrow> string \<Rightarrow> string \<Rightarrow> instant \<Rightarrow> db \<Rightarrow> string outcome" where
  "authService_getGoogleAuthUrl encode clientId callbackUrl st now s =
     (Inr (''https://accounts.google.com/o/oauth2/v2/auth?response_type=code&client_id='' @ encode clientId @
           ''&redirect_uri='' @ encode callbackUrl @ ''&scope='' @ encode ''email profile'' @
           ''&access_type=offline&state='' @ encode st),
      redis_set_ex now (''oauth:state:'' @ st) ''1'' 600 s)"

definition authController_googleAuth ::
  "(string \<Rightarrow> string) \<Rightarrow> string \<Rightarrow> string \<Rightarrow> string \<Rightarrow> crypto \<Rightarrow> instant \<Rightarrow> http_request \<Rightarrow> db \<Rightarrow> string reply" where
  "authController_googleAuth encode clientId callbackUrl st cr now rq =
     anonymous_only cr now rq (\<lambda>s. plain_reply (authService_getGoogleAuthUrl encode clientId callbackUrl st now s))"

text \<open>What Passport learned about the account: each part may be missing.\<close>

record google_answer =
  gaId :: string
  gaEmail :: "string option"
  gaDisplayName :: "string option"
  gaPhoto :: "string option"

definition googleStrategy_validate :: "uuid \<Rightarrow> instant \<Rightarrow> google_answer \<Rightarrow> db \<Rightarrow> user_row outcome" where
  "googleStrategy_validate newId now g s =
     (if \<not> truthy (gaEmail g) then (Inl (Unauthorized ''Google profile must include a verified email address''), s)
      else authService_findOrCreateGoogleUser newId now
             \<lparr>gpGoogleId = gaId g, gpEmail = the (gaEmail g),
              gpDisplayName = (case gaDisplayName g of None \<Rightarrow> ''User'' | Some n \<Rightarrow> n), gpAvatarUrl = gaPhoto g\<rparr> s)"

text \<open>The guard of the callback runs the strategy; the handler then looks at the state and opens the session.\<close>

definition authController_googleCallback ::
  "crypto \<Rightarrow> session_draws \<Rightarrow> uuid \<Rightarrow> instant \<Rightarrow> google_answer \<Rightarrow> string option \<Rightarrow> string option \<Rightarrow> string option \<Rightarrow> db \<Rightarrow>
   (auth_user \<times> token_pair) reply" where
  "authController_googleCallback cr d newId now g st ip agent s =
     session_reply snd
       (await (googleStrategy_validate newId now g s)
          (\<lambda>u s. await (authService_validateOAuthState now st s)
             (\<lambda>_ s. authService_handleGoogleCallback cr d now u ip agent s)))"

section \<open>A browser that renews its session\<close>

datatype visit = Renew session_draws | Sweep

text \<open>Every renewal of the visits is answered with tokens; the browser presents what its cookie holds.\<close>

fun all_renewed :: "crypto \<Rightarrow> http_request \<Rightarrow> (instant \<times> visit) list \<Rightarrow> string option \<Rightarrow> db \<Rightarrow> bool" where
  "all_renewed cr rq [] jar s = True"
| "all_renewed cr rq ((now, Sweep) # vs) jar s = all_renewed cr rq vs jar (handleTokenCleanup now s)"
| "all_renewed cr rq ((now, Renew d) # vs) jar s =
     (case authController_refresh cr d now None None (rq\<lparr>rqRefreshCookie := jar\<rparr>) s of
        ((Inl e, s'), ch) \<Rightarrow> False
      | ((Inr p, s'), ch) \<Rightarrow> all_renewed cr rq vs (apply_cookie ch jar) s')"

text \<open>Time does not run backwards, and each renewal comes within a week of the one before, here at \<open>expiry\<close>.\<close>

fun on_time :: "instant \<Rightarrow> instant \<Rightarrow> (instant \<times> visit) list \<Rightarrow> bool" where
  "on_time expiry t [] = True"
| "on_time expiry t ((now, Sweep) # vs) = (t \<le> now \<and> on_time expiry now vs)"
| "on_time expiry t ((now, Renew d) # vs) = (t \<le> now \<and> now \<le> expiry \<and> on_time (refresh_expiry now) now vs)"

text \<open>The draws of the renewals are new: no two alike, and none already in the table.\<close>

fun fresh_draws :: "crypto \<Rightarrow> (instant \<times> visit) list \<Rightarrow> uuid set \<Rightarrow> string set \<Rightarrow> bool" where
  "fresh_draws cr [] ids hashes = True"
| "fresh_draws cr ((now, Sweep) # vs) ids hashes = fresh_draws cr vs ids hashes"
| "fresh_draws cr ((now, Renew d) # vs) ids hashes =
     (sdRaw d \<noteq> [] \<and> sdTokenId d \<notin> ids \<and> hashToken cr (sdRaw d) \<notin> hashes \<and>
      fresh_draws cr vs (insert (sdTokenId d) ids) (insert (hashToken cr (sdRaw d)) hashes))"

text \<open>The cookie names a token that can be renewed until \<open>expiry\<close>.\<close>

definition usable_cookie :: "crypto \<Rightarrow> string option \<Rightarrow> instant \<Rightarrow> db \<Rightarrow> bool" where
  "usable_cookie cr jar expiry s \<longleftrightarrow>
     (\<exists>raw t u. jar = Some raw \<and> raw \<noteq> [] \<and> tokenRepo_findByTokenHash (hashToken cr raw) s = Some t \<and>
        rtRevokedAt t = None \<and> rtExpiresAt t = expiry \<and> userRepo_findById (rtUserId t) s = Some u)"

lemma fresh_draws_mono:
  "fresh_draws cr vs ids hashes \<Longrightarrow> ids' \<subseteq> ids \<Longrightarrow> hashes' \<subseteq> hashes \<Longrightarrow> fresh_draws cr vs ids' hashes'"
proof (induction cr vs ids hashes arbitrary: ids' hashes' rule: fresh_draws.induct)
  case (3 cr now d vs ids hashes)
  then show ?case by (auto intro: "3.IH" [OF _ insert_mono insert_mono])
qed auto

lemma on_time_late: "on_time expiry t vs \<Longrightarrow> expiry < t \<Longrightarrow> all_renewed cr rq vs jar s"
proof (induction expiry t vs arbitrary: s rule: on_time.induct)
  case (2 expiry t now vs)
  then show ?case by simp
qed auto

lemma find_filter_same: "find P xs = Some x \<Longrightarrow> Q x \<Longrightarrow> find P (filter Q xs) = Some x"
  by (induction xs) (auto split: if_splits)

lemma usable_after_sweep:
  assumes "usable_cookie cr jar expiry s" "now \<le> expiry"
  shows "usable_cookie cr jar expiry (handleTokenCleanup now s)"
proof -
  from assms(1) obtain raw t u where t: "jar = Some raw" "raw \<noteq> []" "rtRevokedAt t = None" "rtExpiresAt t = expiry"
    and found: "find (\<lambda>x. rtTokenHash x = hashToken cr raw) (refreshTokens s) = Some t"
    and u: "userRepo_findById (rtUserId t) s = Some u"
    by (auto simp: usable_cookie_def tokenRepo_findByTokenHash_def)
  let ?old = "\<lambda>x. rtExpiresAt x < now - 30 * 24 * 60 * 60 * 1000 \<or>
      (case rtRevokedAt x of None \<Rightarrow> False | Some r \<Rightarrow> r < now - 30 * 24 * 60 * 60 * 1000)"
  have swept: "handleTokenCleanup now s = s\<lparr>refreshTokens := filter (\<lambda>x. \<not> ?old x) (refreshTokens s)\<rparr>"
    by (simp only: handleTokenCleanup_def tokenRepo_deleteExpiredTokens_def Let_def snd_conv)
  have "\<not> ?old t" using t(3,4) assms(2) by simp
  from find_filter_same [of _ _ _ "\<lambda>x. \<not> ?old x", OF found this]
  have "tokenRepo_findByTokenHash (hashToken cr raw) (handleTokenCleanup now s) = Some t"
    unfolding swept tokenRepo_findByTokenHash_def by simp
  moreover have "userRepo_findById (rtUserId t) (handleTokenCleanup now s) = Some u"
    using u unfolding swept by (simp add: userRepo_findById_def)
  ultimately show ?thesis using t by (auto simp: usable_cookie_def)
qed

lemma sweep_tokens: "set (refreshTokens (handleTokenCleanup now s)) \<subseteq> set (refreshTokens s)"
  by (auto simp: handleTokenCleanup_def tokenRepo_deleteExpiredTokens_def Let_def)

lemma find_appended:
  assumes "\<forall>x. rtTokenHash (g x) = rtTokenHash x" "h \<notin> rtTokenHash ` set xs" "rtTokenHash n = h"
  shows "find (\<lambda>x. rtTokenHash x = h) (map g (xs @ [n])) = Some (g n)"
  using assms by (induction xs) auto

lemma renewal:
  assumes "usable_cookie cr jar expiry s" "now \<le> expiry" "sdRaw d \<noteq> []"
    and "sdTokenId d \<notin> rtId ` set (refreshTokens s)" "hashToken cr (sdRaw d) \<notin> rtTokenHash ` set (refreshTokens s)"
  obtains p s' where "authController_refresh cr d now None None (rq\<lparr>rqRefreshCookie := jar\<rparr>) s = ((Inr p, s'), SetCookie (sdRaw d))"
    and "usable_cookie cr (Some (sdRaw d)) (refresh_expiry now) s'"
    and "rtId ` set (refreshTokens s') \<subseteq> insert (sdTokenId d) (rtId ` set (refreshTokens s))"
    and "rtTokenHash ` set (refreshTokens s') \<subseteq> insert (hashToken cr (sdRaw d)) (rtTokenHash ` set (refreshTokens s))"
proof -
  from assms(1) obtain raw t u where jar: "jar = Some raw" "raw \<noteq> []"
    and t: "tokenRepo_findByTokenHash (hashToken cr raw) s = Some t" "rtRevokedAt t = None" "rtExpiresAt t = expiry"
    and u: "userRepo_findById (rtUserId t) s = Some u"
    by (auto simp: usable_cookie_def)
  have dec: "refresh_decide cr now raw s = Rotate t u"
    unfolding refresh_decide_cases using t u assms(2) by simp
  let ?n = "new_token (sdTokenId d) (rtUserId t) (hashToken cr (sdRaw d)) (rtFamilyId t) None None (refresh_expiry now)"
  let ?rows = "map (\<lambda>x. if rtId x = rtId t then x\<lparr>rtRevokedAt := Some now, rtReplacedBy := Some (rtId ?n)\<rparr> else x)
      (refreshTokens s @ [?n])"
  have mem: "rtId t \<in> rtId ` set (refreshTokens s)" using find_token_SomeD(1) [OF t(1)] by blast
  have "tokenRepo_rotate now (rtId t) ?n s = (Inr ?n, s\<lparr>refreshTokens := ?rows\<rparr>)"
    by (rule rotate_InrI) (use assms(4,5) mem in \<open>simp_all add: new_token_def\<close>)
  with dec jar have run: "authController_refresh cr d now None None (rq\<lparr>rqRefreshCookie := jar\<rparr>) s =
      ((Inr \<lparr>tpAccessToken = generateAccessToken cr now (sdJti d) u, tpRefreshToken = sdRaw d, tpExpiresIn = 900\<rparr>,
        s\<lparr>refreshTokens := ?rows\<rparr>), SetCookie (sdRaw d))"
    by (simp add: authController_refresh_def session_reply_def truthy_def authService_refreshTokens_def refresh_commit_def)
  have "rtId ?n \<noteq> rtId t" using mem assms(4) by (auto simp: new_token_def)
  moreover have "find (\<lambda>x. rtTokenHash x = hashToken cr (sdRaw d)) ?rows =
      Some (if rtId ?n = rtId t then ?n\<lparr>rtRevokedAt := Some now, rtReplacedBy := Some (rtId ?n)\<rparr> else ?n)"
    by (rule find_appended [OF _ assms(5)]) (simp_all add: new_token_def)
  ultimately have found: "tokenRepo_findByTokenHash (hashToken cr (sdRaw d)) (s\<lparr>refreshTokens := ?rows\<rparr>) = Some ?n"
    by (simp add: tokenRepo_findByTokenHash_def del: map_append)
  show thesis
  proof (rule that [OF run])
    show "usable_cookie cr (Some (sdRaw d)) (refresh_expiry now) (s\<lparr>refreshTokens := ?rows\<rparr>)"
      unfolding usable_cookie_def
    proof (intro exI conjI)
      show "tokenRepo_findByTokenHash (hashToken cr (sdRaw d)) (s\<lparr>refreshTokens := ?rows\<rparr>) = Some ?n" by (rule found)
      show "userRepo_findById (rtUserId ?n) (s\<lparr>refreshTokens := ?rows\<rparr>) = Some u"
        using u by (simp add: userRepo_findById_def new_token_def)
    qed (use assms(3) in \<open>simp_all add: new_token_def\<close>)
  qed (use mem in \<open>auto simp: new_token_def\<close>)
qed

lemma all_renewed_from:
  assumes "usable_cookie cr jar expiry s" "on_time expiry t vs"
    and "fresh_draws cr vs (rtId ` set (refreshTokens s)) (rtTokenHash ` set (refreshTokens s))"
  shows "all_renewed cr rq vs jar s"
  using assms
proof (induction expiry t vs arbitrary: jar s rule: on_time.induct)
  case (2 expiry t now vs)
  show ?case
  proof (cases "now \<le> expiry")
    case True
    have "fresh_draws cr vs (rtId ` set (refreshTokens (handleTokenCleanup now s)))
        (rtTokenHash ` set (refreshTokens (handleTokenCleanup now s)))"
      by (rule fresh_draws_mono [OF _ image_mono image_mono, OF _ sweep_tokens sweep_tokens]) (use 2(4) in simp)
    with 2 usable_after_sweep [OF 2(2) True] show ?thesis by simp
  next
    case False
    with 2(3) show ?thesis by (auto intro: on_time_late)
  qed
next
  case (3 expiry t now d vs)
  then have ok: "now \<le> expiry" "sdRaw d \<noteq> []" "sdTokenId d \<notin> rtId ` set (refreshTokens s)"
    "hashToken cr (sdRaw d) \<notin> rtTokenHash ` set (refreshTokens s)" by simp_all
  obtain p s' where run: "authController_refresh cr d now None None (rq\<lparr>rqRefreshCookie := jar\<rparr>) s = ((Inr p, s'), SetCookie (sdRaw d))"
    and use: "usable_cookie cr (Some (sdRaw d)) (refresh_expiry now) s'"
    and new: "rtId ` set (refreshTokens s') \<subseteq> insert (sdTokenId d) (rtId ` set (refreshTokens s))"
      "rtTokenHash ` set (refreshTokens s') \<subseteq> insert (hashToken cr (sdRaw d)) (rtTokenHash ` set (refreshTokens s))"
    by (rule renewal [OF 3(2) ok])
  have "fresh_draws cr vs (rtId ` set (refreshTokens s')) (rtTokenHash ` set (refreshTokens s'))"
    by (rule fresh_draws_mono [OF _ new]) (use 3(4) in simp)
  with 3 use have "all_renewed cr rq vs (Some (sdRaw d)) s'" by simp
  with run show ?case by simp
qed simp

lemma login_cookie:
  assumes "authController_login cr d now email password ip agent rq s = ((Inr x, s1), ch)" "sdRaw d \<noteq> []"
  shows "usable_cookie cr (apply_cookie ch jar) (refresh_expiry now) s1"
proof -
  from assms(1) have run: "authService_login cr d now email password ip agent s = (Inr x, s1)"
    and ch: "ch = SetCookie (tpRefreshToken (snd x))"
    by (auto simp: authController_login_def anonymous_only_def session_reply_def plain_reply_def split: sum.splits)
  from run obtain u where u: "check_password cr (userRepo_findByEmail email s) password = Inr u"
    by (auto simp: authService_login_def split: sum.splits)
  with run obtain u' s2 tokens s3 where upd: "userRepo_update (userId u) (\<lambda>u. u\<lparr>userLastLoginAt := Some now\<rparr>) s = (Inr u', s2)"
    and iss: "issueTokenPair cr d now u ip agent s2 = (Inr tokens, s3)"
    and x: "x = (auth_user_of u, tokens)" and s1: "s1 = emit (UserLoggedIn (userId u) ''email'') s3"
    by (auto simp: authService_login_def await_Inr_iff)
  note i = issue_Inr [OF iss]
  let ?t = "new_token (sdTokenId d) (userId u) (hashToken cr (sdRaw d)) (sdFamilyId d) ip agent (refresh_expiry now)"
  have "find (\<lambda>t. rtTokenHash t = hashToken cr (sdRaw d)) (map id (refreshTokens s2 @ [?t])) = Some (id ?t)"
    by (rule find_appended) (use i(3) in \<open>simp_all add: new_token_def\<close>)
  then have "tokenRepo_findByTokenHash (hashToken cr (sdRaw d)) s1 = Some ?t"
    by (simp add: tokenRepo_findByTokenHash_def s1 i(1))
  moreover have "\<exists>v\<in>set (users s3). userId v = userId u"
  proof -
    have "users s3 = users s2" using iss by (auto simp: issueTokenPair_def tokenRepo_create_def await_Inr_iff or_conflict_Inr_iff)
    moreover from u have "u \<in> set (users s)"
      by (auto simp: check_password_def userRepo_findByEmail_def dest: find_SomeD split: option.splits if_splits)
    moreover have "map userId (users s2) = map userId (users s)"
      using upd by (auto simp: userRepo_update_def or_missing_Inr_iff update_by_def split: if_splits option.splits)
    ultimately show ?thesis by (metis image_eqI image_iff set_map)
  qed
  then have "\<exists>v. userRepo_findById (userId u) s1 = Some v"
    by (auto simp: userRepo_findById_def s1 find_None_iff intro: ccontr)
  ultimately show ?thesis
    using assms(2) i(4) unfolding usable_cookie_def ch x by (auto simp: new_token_def)
qed

section \<open>Properties\<close>



lemma plain_lower: "toLowerCase ''a@b.cd'' = ''a@b.cd''" "toLowerCase ''n@b.cd'' = ''n@b.cd''"
  by code_simp+

text \<open>Whoever registers an address first keeps the password: the owner of the address who later signs in through Google is
  linked to that account, which becomes verified, and the password still opens it.\<close>

lemma google_link_keeps_password:
  "\<exists>s1 s2 u. fst (authController_googleCallback sample_crypto (sample_draws CHR ''2'') ''v'' 5
        \<lparr>gaId = ''g'', gaEmail = Some ''a@b.cd'', gaDisplayName = None, gaPhoto = None\<rparr> (Some ''st'') None None
        (redis_set_ex 0 ''oauth:state:st'' ''1'' 600 sample_account)) = (Inr u, s1) \<and>
     auId (fst u) = ''u'' \<and> auIsEmailVerified (fst u) \<and>
     (\<exists>x. authService_login sample_crypto (sample_draws CHR ''3'') 9 ''a@b.cd'' ''pw'' None None s1 = (Inr x, s2))"
  by (simp add: authController_googleCallback_def googleStrategy_validate_def authService_findOrCreateGoogleUser_def
      session_reply_def truthy_def userRepo_findByGoogleId_def userRepo_findByEmail_def link_google_def plain_lower sample_account_def new_user_def empty_db_def redis_set_ex_def redis_get_def redis_del_def userRepo_update_def
      update_by_def user_clash_def authService_validateOAuthState_def authService_handleGoogleCallback_def issueTokenPair_def
      tokenRepo_create_def insert_token_def insert_row_def new_token_def sample_draws_def hashToken_def sample_crypto_def
      auth_user_of_def authService_login_def check_password_def)

text \<open>The account is created or linked before the state is looked at: a callback without a state fails and still writes.\<close>

lemma callback_writes_before_state_check:
  "fst (authController_googleCallback sample_crypto (sample_draws CHR ''2'') ''v'' 5
      \<lparr>gaId = ''g'', gaEmail = Some ''n@b.cd'', gaDisplayName = None, gaPhoto = None\<rparr> None None None sample_account) =
   (Inl (Unauthorized ''INVALID_OAUTH_STATE''),
    sample_account\<lparr>users := users sample_account @
      [(new_user ''v'' 5 ''n@b.cd'' None ''User'')\<lparr>userGoogleId := Some ''g'', userIsEmailVerified := True,
         userLastLoginAt := Some 5\<rparr>]\<rparr>)"
  by (simp add: authController_googleCallback_def googleStrategy_validate_def authService_findOrCreateGoogleUser_def
      session_reply_def truthy_def userRepo_findByGoogleId_def userRepo_findByEmail_def plain_lower sample_account_def new_user_def empty_db_def userRepo_createGoogleUser_def insert_user_def user_clash_def
      authService_validateOAuthState_def Let_def)

end
