(* ===== verification/Card_Views.thy ===== *)
theory Card_Views
  imports Cards Samples Routes
begin

text \<open>
  The calendar, timeline and table of a board (\<open>src/modules/board/views/\<close>): the repository, the service and the three
  endpoints. The case-insensitive match of the database, its text collation, the reading of a date string (\<open>None\<close> for an
  invalid date, which the database client rejects) and the seek to a cursor are parameters.
\<close>

section \<open>CardViewRepository\<close>

text \<open>The page as these queries build it: the cursor is the last row's id even on the last page.\<close>

definition view_page :: "('r \<Rightarrow> uuid) \<Rightarrow> 'r list \<Rightarrow> nat \<Rightarrow> 'r page" where
  "view_page key rows limit =
     (let hasMore = limit < length rows;
          items = (if hasMore then take limit rows else rows)
      in \<lparr>pageItems = items, pageCursor = (if 0 < length items then Some (key (last items)) else None), pageHasMore = hasMore\<rparr>)"

definition active_on_board :: "uuid \<Rightarrow> db \<Rightarrow> card_row list" where
  "active_on_board board s =
     filter (\<lambda>c. card_on_board board s c \<and> cardArchivedAt c = None \<and> cardDeletedAt c = None) (cards s)"

definition due_between :: "instant \<Rightarrow> instant \<Rightarrow> card_row \<Rightarrow> bool" where
  "due_between from to c = (case cardDueDate c of None \<Rightarrow> False | Some d \<Rightarrow> from \<le> d \<and> d \<le> to)"

definition viewRepo_calendarPage ::
  "card_row cursor_seek \<Rightarrow> uuid \<Rightarrow> instant \<Rightarrow> instant \<Rightarrow> uuid option \<Rightarrow> nat \<Rightarrow> db \<Rightarrow> error + card_row page" where
  "viewRepo_calendarPage after board from to cursor limit s =
     (case take_page after cursor (Suc limit)
             (order_asc (\<lambda>c. (cardDueDate c, cardId c)) (filter (due_between from to) (active_on_board board s))) of
        Inl e \<Rightarrow> Inl e
      | Inr rows \<Rightarrow> Inr (view_page cardId rows limit))"

definition viewRepo_timelinePage ::
  "card_row cursor_seek \<Rightarrow> uuid \<Rightarrow> uuid option \<Rightarrow> nat \<Rightarrow> db \<Rightarrow> error + card_row page" where
  "viewRepo_timelinePage after board cursor limit s =
     (case take_page after cursor (Suc limit) (order_asc (\<lambda>c. (cardCreatedAt c, cardId c)) (active_on_board board s)) of
        Inl e \<Rightarrow> Inl e
      | Inr rows \<Rightarrow> Inr (view_page cardId rows limit))"

record table_filters =
  tfStatus :: "card_status option"
  tfPriority :: "card_priority option"
  tfAssigneeId :: "uuid option"
  tfSearch :: "string option"
  tfSortBy :: "string option"
  tfSortOrder :: "string option"

definition in_table :: "(string \<Rightarrow> string \<Rightarrow> bool) \<Rightarrow> table_filters \<Rightarrow> db \<Rightarrow> card_row \<Rightarrow> bool" where
  "in_table contains f s c \<longleftrightarrow>
     (case tfStatus f of None \<Rightarrow> True | Some x \<Rightarrow> cardStatus c = x) \<and>
     (case tfPriority f of None \<Rightarrow> True | Some x \<Rightarrow> cardPriority c = x) \<and>
     (truthy (tfAssigneeId f) \<longrightarrow>
        list_ex (\<lambda>a. asgCardId a = cardId c \<and> asgUserId a = the (tfAssigneeId f)) (assignees s)) \<and>
     (truthy (tfSearch f) \<longrightarrow> contains (the (tfSearch f)) (cardTitle c))"

datatype sort_column = ByTitle | ByDueDate | ByPriority | ByStatus | ByCreatedAt | ByUpdatedAt

definition sort_column_of :: "string option \<Rightarrow> sort_column" where
  "sort_column_of sortBy =
     (case sortBy of
        None \<Rightarrow> ByUpdatedAt
      | Some x \<Rightarrow>
          if x = ''title'' then ByTitle else if x = ''dueDate'' then ByDueDate else if x = ''priority'' then ByPriority
          else if x = ''status'' then ByStatus else if x = ''createdAt'' then ByCreatedAt else ByUpdatedAt)"

text \<open>An enum column sorts in the order its values are declared in, and a missing value after all others.\<close>

fun priority_order :: "card_priority \<Rightarrow> nat" where
  "priority_order Lowest = 0" | "priority_order Low = 1" | "priority_order Medium = 2"
| "priority_order High = 3" | "priority_order Urgent = 4"

fun status_order :: "card_status \<Rightarrow> nat" where
  "status_order NotStarted = 0" | "status_order Active = 1" | "status_order Done = 2" | "status_order Closed = 3"

fun column_le :: "(string \<Rightarrow> string \<Rightarrow> bool) \<Rightarrow> sort_column \<Rightarrow> card_row \<Rightarrow> card_row \<Rightarrow> bool" where
  "column_le le ByTitle a b = le (cardTitle a) (cardTitle b)"
| "column_le le ByDueDate a b =
     (case cardDueDate b of
        None \<Rightarrow> True
      | Some y \<Rightarrow> (case cardDueDate a of None \<Rightarrow> False | Some x \<Rightarrow> x \<le> y))"
| "column_le le ByPriority a b = (priority_order (cardPriority a) \<le> priority_order (cardPriority b))"
| "column_le le ByStatus a b = (status_order (cardStatus a) \<le> status_order (cardStatus b))"
| "column_le le ByCreatedAt a b = (cardCreatedAt a \<le> cardCreatedAt b)"
| "column_le le ByUpdatedAt a b = (cardUpdatedAt a \<le> cardUpdatedAt b)"

text \<open>\<open>[{ [sortField]: sortDirection }, { id: 'desc' }]\<close>.\<close>

definition table_le :: "(string \<Rightarrow> string \<Rightarrow> bool) \<Rightarrow> table_filters \<Rightarrow> card_row \<Rightarrow> card_row \<Rightarrow> bool" where
  "table_le le f a b =
     (let col = column_le le (sort_column_of (tfSortBy f));
          up = (if tfSortOrder f = Some ''asc'' then col a b else col b a);
          down = (if tfSortOrder f = Some ''asc'' then col b a else col a b)
      in up \<and> (down \<longrightarrow> cardId b \<le> cardId a))"

definition table_rows ::
  "(string \<Rightarrow> string \<Rightarrow> bool) \<Rightarrow> (string \<Rightarrow> string \<Rightarrow> bool) \<Rightarrow> uuid \<Rightarrow> table_filters \<Rightarrow> db \<Rightarrow> card_row list" where
  "table_rows le contains board f s =
     order_by (table_le le f) (\<lambda>c. c) (filter (in_table contains f s) (active_on_board board s))"

definition viewRepo_tablePage ::
  "(string \<Rightarrow> string \<Rightarrow> bool) \<Rightarrow> (string \<Rightarrow> string \<Rightarrow> bool) \<Rightarrow> card_details cursor_seek \<Rightarrow> uuid \<Rightarrow> table_filters \<Rightarrow>
   uuid option \<Rightarrow> nat \<Rightarrow> db \<Rightarrow> error + card_details page" where
  "viewRepo_tablePage le contains after board f cursor limit s =
     (case take_page after cursor (Suc limit) (map (with_details s) (table_rows le contains board f s)) of
        Inl e \<Rightarrow> Inl e
      | Inr rows \<Rightarrow> Inr (view_page (\<lambda>d. cardId (cdCard d)) rows limit))"

section \<open>CardViewService\<close>

record calendar_query =
  cqFrom :: "string option"
  cqStartDate :: "string option"
  cqTo :: "string option"
  cqEndDate :: "string option"
  cqCursor :: "uuid option"
  cqLimit :: "nat option"

definition either_of :: "string option \<Rightarrow> string option \<Rightarrow> string option" where
  "either_of x y = (if truthy x then x else y)"

definition MAX_RANGE_MS :: int where "MAX_RANGE_MS = 366 * 24 * 60 * 60 * 1000"

definition viewService_calendar ::
  "(string \<Rightarrow> instant option) \<Rightarrow> card_row cursor_seek \<Rightarrow> uuid \<Rightarrow> uuid \<Rightarrow> calendar_query \<Rightarrow> db \<Rightarrow> card_row page outcome" where
  "viewService_calendar date after board ws q =
     assertBoardInWorkspace board (Some ws) (\<lambda>s.
       let startStr = either_of (cqFrom q) (cqStartDate q); endStr = either_of (cqTo q) (cqEndDate q)
       in if \<not> truthy startStr \<or> \<not> truthy endStr then (Inl (BusinessRule ''INVALID_DATE_RANGE''), s)
          else case (date (the startStr), date (the endStr)) of
                 (Some from, Some to) \<Rightarrow>
                   if MAX_RANGE_MS < to - from then (Inl (BusinessRule ''DATE_RANGE_TOO_LARGE''), s)
                   else (viewRepo_calendarPage after board from to (cqCursor q)
                           (case cqLimit q of None \<Rightarrow> 20 | Some n \<Rightarrow> n) s, s)
               | _ \<Rightarrow> (Inl (PrismaError ''VALIDATION''), s))"

definition viewService_timeline ::
  "card_row cursor_seek \<Rightarrow> uuid \<Rightarrow> uuid \<Rightarrow> uuid option \<Rightarrow> nat option \<Rightarrow> db \<Rightarrow> card_row page outcome" where
  "viewService_timeline after board ws cursor limit =
     assertBoardInWorkspace board (Some ws) (\<lambda>s.
       (viewRepo_timelinePage after board cursor (case limit of None \<Rightarrow> 20 | Some n \<Rightarrow> n) s, s))"

definition viewService_table ::
  "(string \<Rightarrow> string \<Rightarrow> bool) \<Rightarrow> (string \<Rightarrow> string \<Rightarrow> bool) \<Rightarrow> card_details cursor_seek \<Rightarrow> uuid \<Rightarrow> uuid \<Rightarrow> table_filters \<Rightarrow>
   uuid option \<Rightarrow> nat option \<Rightarrow> db \<Rightarrow> card_details page outcome" where
  "viewService_table le contains after board ws f cursor limit =
     assertBoardInWorkspace board (Some ws) (\<lambda>s.
       (viewRepo_tablePage le contains after board f cursor (case limit of None \<Rightarrow> 20 | Some n \<Rightarrow> n) s, s))"

section \<open>BoardViewController\<close>

definition boardViewController_calendar where
  "boardViewController_calendar ap date after board q =
     served ap WORKSPACE_READ_ROLES [board] (\<lambda>_ ws. viewService_calendar date after board ws q)"

definition boardViewController_timeline where
  "boardViewController_timeline ap after board cursor limit =
     served ap WORKSPACE_READ_ROLES [board] (\<lambda>_ ws. viewService_timeline after board ws cursor limit)"

definition boardViewController_table where
  "boardViewController_table ap contains after board f cursor limit =
     served ap WORKSPACE_READ_ROLES [board] (\<lambda>_ ws. viewService_table (apOrder ap) contains after board ws f cursor limit)"

section \<open>The order of the table\<close>

lemma collation_column: "collation le \<Longrightarrow> collation (column_le le col)"
  by (cases col) (fastforce simp: collation_def split: option.splits)+

lemma tie_break_trans:
  fixes k :: "'a \<Rightarrow> 'b::order"
  assumes tr: "\<And>a b c. C a b \<Longrightarrow> C b c \<Longrightarrow> C a c"
    and "C x y" "C y x \<Longrightarrow> k y \<le> k x" "C y z" "C z y \<Longrightarrow> k z \<le> k y"
  shows "C x z" "C z x \<Longrightarrow> k z \<le> k x"
proof -
  show "C x z" by (rule tr [OF assms(2,4)])
  assume zx: "C z x"
  from assms(3) [OF tr [OF assms(4) zx]] assms(5) [OF tr [OF zx assms(2)]] show "k z \<le> k x" by simp
qed

lemma collation_table:
  assumes "collation le"
  shows "collation (table_le le f)"
proof -
  let ?col = "column_le le (sort_column_of (tfSortBy f))"
  let ?up = "tfSortOrder f = Some ''asc''"
  obtain C where C_def: "C = (\<lambda>a b. if ?up then ?col a b else ?col b a)" by blast
  have eq: "table_le le f a b \<longleftrightarrow> C a b \<and> (C b a \<longrightarrow> cardId b \<le> cardId a)" for a b
    by (simp add: table_le_def C_def Let_def)
  have "?col x y \<or> ?col y x" and "?col x y \<Longrightarrow> ?col y z \<Longrightarrow> ?col x z" for x y z
    using collation_column [OF assms, of "sort_column_of (tfSortBy f)"] unfolding collation_def by blast+
  then have tot: "C x y \<or> C y x" and tr: "C x y \<Longrightarrow> C y z \<Longrightarrow> C x z" for x y z
    unfolding C_def by (metis (full_types))+
  have "table_le le f x y \<or> table_le le f y x" for x y
    using tot [of x y] linear [of "cardId x" "cardId y"] unfolding eq by blast
  moreover have "table_le le f x y \<Longrightarrow> table_le le f y z \<Longrightarrow> table_le le f x z" for x y z
    unfolding eq using tie_break_trans [where C = C and x = x and y = y and z = z and k = cardId] tr by meson
  ultimately show ?thesis unfolding collation_def by blast
qed

section \<open>Following the cursors\<close>

text \<open>The walk does not read the cursor of a last page, so it cannot tell the two ways of building a page apart.\<close>

lemma walk_view_page:
  assumes "0 < limit" "\<And>c. fetch c = (case rows_of c of Inl e \<Rightarrow> Inl e | Inr rows \<Rightarrow> Inr (view_page key rows limit))"
  shows "walk_pages fuel fetch c =
    walk_pages fuel (\<lambda>c. case rows_of c of Inl e \<Rightarrow> Inl e | Inr rows \<Rightarrow> trim_page key rows limit) c"
proof (induction fuel arbitrary: c)
  case (Suc fuel)
  show ?case
  proof (cases "rows_of c")
    case (Inr rows)
    with assms(1) Suc show ?thesis
      by (cases "limit < length rows") (auto simp: assms(2) view_page_def trim_page_def Let_def)
  qed (simp add: assms(2))
qed simp

lemma walk_view:
  assumes "follows_cursor after key rows" "0 < limit" "\<forall>r\<in>set rows. key r \<noteq> []"
    and "\<And>c. fetch c = (case take_page after c (Suc limit) rows of Inl e \<Rightarrow> Inl e | Inr xs \<Rightarrow> Inr (view_page key xs limit))"
  shows "walk_pages (Suc (length rows)) fetch None = Some (Inr rows)"
  using walk_all [OF pages_of_trim [OF assms(1-3)] assms(2)]
  by (simp add: walk_view_page [OF assms(2) assms(4)])

section \<open>Properties\<close>

lemma table_rows_exact:
  "set (table_rows le contains board f s) =
     {c \<in> set (cards s). card_on_board board s c \<and> cardArchivedAt c = None \<and> cardDeletedAt c = None \<and> in_table contains f s c}"
  by (auto simp: table_rows_def active_on_board_def)

text \<open>C29: Reading the table of a board page by page shows every card it should exactly once and in the order asked for. Whatever
  the filters, the column, the direction and the size of the pages, a client that follows the cursor until a page says it is the
  last gets the active cards of the board that match the filters, all of them, none twice, sorted by the column and, where it
  ties, by id.\<close>

theorem table_shows_each_card_once:
  assumes "collation le" "0 < limit" "boardRepo_findById board (Some ws) s = Some b"
    and ids: "unique_key cardId (cards s)" "\<forall>c\<in>set (cards s). cardId c \<noteq> []"
    and seek: "follows_cursor after (\<lambda>d. cardId (cdCard d)) (map (with_details s) (table_rows le contains board f s))"
  shows "\<exists>rows. walk_pages (Suc (length rows)) (\<lambda>c. fst (viewService_table le contains after board ws f c (Some limit) s)) None =
        Some (Inr (map (with_details s) rows)) \<and>
      sorted_by (table_le le f) (\<lambda>c. c) rows \<and> distinct (map cardId rows) \<and>
      set rows = {c \<in> set (cards s). card_on_board board s c \<and> cardArchivedAt c = None \<and> cardDeletedAt c = None \<and>
        in_table contains f s c}"
proof (intro exI conjI)
  let ?rows = "table_rows le contains board f s"
  have "\<forall>d\<in>set (map (with_details s) ?rows). cardId (cdCard d) \<noteq> []"
    using ids(2) by (auto simp: table_rows_exact with_details_def)
  from walk_view [OF seek assms(2) this, of "\<lambda>c. fst (viewService_table le contains after board ws f c (Some limit) s)"]
  show "walk_pages (Suc (length ?rows)) (\<lambda>c. fst (viewService_table le contains after board ws f c (Some limit) s)) None =
      Some (Inr (map (with_details s) ?rows))"
    by (simp add: viewService_table_def assertBoardInWorkspace_def assms(3) viewRepo_tablePage_def)
  show "sorted_by (table_le le f) (\<lambda>c. c) ?rows"
    unfolding table_rows_def by (rule sorted_order_by [OF collation_table [OF assms(1)]])
  show "distinct (map cardId ?rows)"
    unfolding table_rows_def active_on_board_def
    by (rule distinct_order_by) (use ids(1) in \<open>simp add: unique_key_def distinct_map_filter\<close>)
qed (rule table_rows_exact)

definition any_card :: table_filters where
  "any_card = \<lparr>tfStatus = None, tfPriority = None, tfAssigneeId = None, tfSearch = None, tfSortBy = Some ''dueDate'', tfSortOrder = None\<rparr>"

theorem table_shows_each_card_once_witness:
  "\<exists>rows. walk_pages (Suc (length rows))
        (\<lambda>c. fst (viewService_table shorter (\<lambda>_ _. True) (seek_after (\<lambda>d. cardId (cdCard d))) ''b'' ''w'' any_card c (Some 1) sample_db))
        None = Some (Inr (map (with_details sample_db) rows)) \<and>
      sorted_by (table_le shorter any_card) (\<lambda>c. c) rows \<and> distinct (map cardId rows) \<and>
      set rows = {c \<in> set (cards sample_db). card_on_board ''b'' sample_db c \<and> cardArchivedAt c = None \<and>
        cardDeletedAt c = None \<and> in_table (\<lambda>_ _. True) any_card sample_db c}"
proof (rule table_shows_each_card_once [OF collation_shorter])
  show "boardRepo_findById ''b'' (Some ''w'') sample_db = Some sample_board"
    by (simp add: boardRepo_findById_def in_scope_def sample_db_defs)
  show "follows_cursor (seek_after (\<lambda>d. cardId (cdCard d))) (\<lambda>d. cardId (cdCard d))
      (map (with_details sample_db) (table_rows shorter (\<lambda>_ _. True) ''b'' any_card sample_db))"
    by (rule seek_after_follows)
      (simp add: table_rows_def active_on_board_def card_on_board_def in_table_def any_card_def truthy_def with_details_def sample_db_defs
        table_le_def sort_column_of_def Let_def)
qed (simp_all add: unique_key_def sample_db_defs)

text \<open>A card of a permanently deleted list is in no list of the board and still in its timeline.\<close>

lemma deleted_list_stays_in_views:
  "let s = snd (listService_deletePermanently 1 ''b'' ''w'' ''l'' ''u'' sample_db)
   in listRepo_findActiveById ''l'' None s = None \<and>
      fst (viewService_timeline (seek_after cardId) ''b'' ''w'' None None s) =
        Inr \<lparr>pageItems = cards sample_db, pageCursor = Some ''c'', pageHasMore = False\<rparr>"
  by (simp add: listService_deletePermanently_def assertBoardInWorkspace_def boardRepo_findById_def in_scope_def
      listRepo_findByIdIncludingArchived_def listRepo_findByIdIncludingDeleted_def listRepo_deletePermanently_def listRepo_update_def update_by_def
      listRepo_findActiveById_def viewService_timeline_def viewRepo_timelinePage_def active_on_board_def card_on_board_def
      view_page_def Let_def sample_db_defs)

end
