(* ===== verification/Board_Content.thy ===== *)
theory Board_Content
  imports Labels Samples Routes
begin

text \<open>
  What a board shows (\<open>findByIdWithContent\<close>, \<open>getBoardWithContent\<close> and the endpoint \<open>getOne\<close>): its lists page by page,
  the first cards of each list with their relations, the labels of the workspace and the counts. The order in which the
  database returns the unordered relations is the order of their rows.
\<close>

section \<open>The nested query\<close>

record content_query =
  cnListSkip :: "nat option"
  cnListTake :: "nat option"
  cnCardSkip :: "nat option"
  cnCardTake :: "nat option"

text \<open>\<open>skip\<close> and \<open>take\<close>; without a take all remaining rows.\<close>

definition rows_window :: "nat option \<Rightarrow> nat option \<Rightarrow> 'a list \<Rightarrow> 'a list" where
  "rows_window sk tk rows =
     (let rest = drop (case sk of None \<Rightarrow> 0 | Some n \<Rightarrow> n) rows
      in case tk of None \<Rightarrow> rest | Some n \<Rightarrow> take n rest)"

record subcard_summary =
  ssId :: uuid
  ssTitle :: string
  ssIsComplete :: bool
  ssStatus :: card_status
  ssPriority :: card_priority

record content_card =
  ccDetails :: card_details
  ccSubcards :: "subcard_summary list"
  ccParent :: "(uuid \<times> string) option"

record content_list =
  ctList :: list_row
  ctCards :: "content_card list"
  ctCardCount :: nat

record board_content =
  bcBoard :: board_row
  bcIsStarred :: bool
  bcLists :: "content_list list"
  bcLabels :: "label_row list"

definition content_card_of :: "db \<Rightarrow> card_row \<Rightarrow> content_card" where
  "content_card_of s c =
     \<lparr>ccDetails = with_details s c,
      ccSubcards = map (\<lambda>x. \<lparr>ssId = cardId x, ssTitle = cardTitle x, ssIsComplete = cardIsComplete x, ssStatus = cardStatus x,
                              ssPriority = cardPriority x\<rparr>) (active_subcards (cardId c) s),
      ccParent = (case cardParentCardId c of
                    None \<Rightarrow> None
                  | Some p \<Rightarrow> map_option (\<lambda>x. (cardId x, cardTitle x)) (find (\<lambda>x. cardId x = p) (cards s)))\<rparr>"

definition cards_of_list :: "(string \<Rightarrow> string \<Rightarrow> bool) \<Rightarrow> uuid \<Rightarrow> db \<Rightarrow> card_row list" where
  "cards_of_list le list s =
     order_by le cardRank
       (filter (\<lambda>c. cardListId c = list \<and> cardArchivedAt c = None \<and> cardDeletedAt c = None) (cards s))"

definition lists_of_board :: "(string \<Rightarrow> string \<Rightarrow> bool) \<Rightarrow> uuid \<Rightarrow> db \<Rightarrow> list_row list" where
  "lists_of_board le board s =
     order_by le listRank
       (filter (\<lambda>l. listBoardId l = board \<and> listArchivedAt l = None \<and> listDeletedAt l = None) (lists s))"

definition content_list_of ::
  "(string \<Rightarrow> string \<Rightarrow> bool) \<Rightarrow> content_query \<Rightarrow> db \<Rightarrow> list_row \<Rightarrow> content_list" where
  "content_list_of le q s l =
     \<lparr>ctList = l,
      ctCards = map (content_card_of s) (rows_window (cnCardSkip q) (cnCardTake q) (cards_of_list le (listId l) s)),
      ctCardCount = length (cards_of_list le (listId l) s)\<rparr>"

definition boardRepo_findByIdWithContent ::
  "(string \<Rightarrow> string \<Rightarrow> bool) \<Rightarrow> uuid \<Rightarrow> uuid \<Rightarrow> content_query \<Rightarrow> uuid option \<Rightarrow> db \<Rightarrow> board_content option" where
  "boardRepo_findByIdWithContent le i user q ws s =
     map_option
       (\<lambda>b. \<lparr>bcBoard = b,
              bcIsStarred = list_ex (\<lambda>x. starBoardId x = boardId b \<and> starUserId x = user) (stars s),
              bcLists = map (content_list_of le q s)
                          (rows_window (cnListSkip q) (cnListTake q) (lists_of_board le (boardId b) s)),
              bcLabels = order_asc labelCreatedAt (filter (\<lambda>l. labelWorkspaceId l = boardWorkspaceId b) (labels s))\<rparr>)
       (boardRepo_findById i ws s)"

definition boardRepo_countLists :: "uuid \<Rightarrow> db \<Rightarrow> nat" where
  "boardRepo_countLists board s =
     length (filter (\<lambda>l. listBoardId l = board \<and> listArchivedAt l = None \<and> listDeletedAt l = None) (lists s))"

definition boardRepo_countCards :: "uuid \<Rightarrow> db \<Rightarrow> nat" where
  "boardRepo_countCards board s =
     length (filter (\<lambda>c. card_on_board board s c \<and> cardArchivedAt c = None \<and> cardDeletedAt c = None) (cards s))"

section \<open>The service\<close>

record board_content_query =
  bqListPage :: "nat option"
  bqListPageSize :: "nat option"
  bqCardPageSize :: "nat option"

record content_meta =
  cmListPage :: nat
  cmListPageSize :: nat
  cmTotalLists :: nat
  cmTotalPages :: nat
  cmCardPageSize :: nat
  cmTotalCards :: nat

text \<open>\<open>Math.max(1, Math.ceil(n / per))\<close>, for a page size the validation keeps positive.\<close>

definition total_pages :: "nat \<Rightarrow> nat \<Rightarrow> nat" where
  "total_pages n per = max 1 ((n + per - 1) div per)"

definition boardService_getBoardWithContent ::
  "(string \<Rightarrow> string \<Rightarrow> bool) \<Rightarrow> uuid \<Rightarrow> uuid \<Rightarrow> uuid \<Rightarrow> board_content_query \<Rightarrow> db \<Rightarrow> error + board_content \<times> content_meta" where
  "boardService_getBoardWithContent le i ws user q s =
     (let listPage = (case bqListPage q of None \<Rightarrow> 1 | Some n \<Rightarrow> n);
          listPageSize = (case bqListPageSize q of None \<Rightarrow> 50 | Some n \<Rightarrow> n);
          cardPageSize = (case bqCardPageSize q of None \<Rightarrow> 50 | Some n \<Rightarrow> n)
      in case boardRepo_findByIdWithContent le i user
                \<lparr>cnListSkip = Some ((listPage - 1) * listPageSize), cnListTake = Some listPageSize,
                 cnCardSkip = Some 0, cnCardTake = Some cardPageSize\<rparr> (Some ws) s of
           None \<Rightarrow> Inl (EntityNotFound ''Board'' i)
         | Some b \<Rightarrow>
             Inr (b\<lparr>bcLabels := labelRepo_findAvailableLabels ws s\<rparr>,
                  \<lparr>cmListPage = listPage, cmListPageSize = listPageSize, cmTotalLists = boardRepo_countLists i s,
                   cmTotalPages = total_pages (boardRepo_countLists i s) listPageSize,
                   cmCardPageSize = cardPageSize, cmTotalCards = boardRepo_countCards i s\<rparr>))"

definition boardController_getOne where
  "boardController_getOne ap board q =
     served ap WORKSPACE_READ_ROLES [board] (\<lambda>user ws. reading (boardService_getBoardWithContent (apOrder ap) board ws user q))"

section \<open>Pages by number\<close>

text \<open>The client that loads the pages 1 to the reported last one, in order.\<close>

definition load_all ::
  "(nat \<Rightarrow> error + board_content \<times> content_meta) \<Rightarrow> content_list list" where
  "load_all fetch =
     (case fetch 1 of
        Inl e \<Rightarrow> []
      | Inr (b, meta) \<Rightarrow>
          concat (map (\<lambda>p. case fetch p of Inl e \<Rightarrow> [] | Inr (b, _) \<Rightarrow> bcLists b) [1..<Suc (cmTotalPages meta)]))"

lemma pages_take: "concat (map (\<lambda>p. take k (drop ((p - 1) * k) xs)) [1..<Suc n]) = take (n * k) xs"
proof (induction n)
  case (Suc n)
  have "take (n * k) xs @ take k (drop (n * k) xs) = take (n * k + k) xs" by (rule take_add [symmetric])
  with Suc show ?case by (simp add: add.commute)
qed simp

lemma total_pages_enough: "0 < k \<Longrightarrow> n \<le> total_pages n k * k"
proof -
  assume k: "0 < k"
  have "n + k - 1 < ((n + k - 1) div k) * k + k"
    using k by (metis add_strict_left_mono div_mult_mod_eq mod_less_divisor)
  then have "n \<le> ((n + k - 1) div k) * k" using k by simp
  then show ?thesis unfolding total_pages_def by (meson le_trans max.cobounded2 mult_le_mono1)
qed

lemma total_pages_tight: "0 < k \<Longrightarrow> k < n \<Longrightarrow> (total_pages n k - 1) * k < n"
proof -
  assume k: "0 < k" and n: "k < n"
  have le: "((n + k - 1) div k) * k \<le> n + k - 1" by simp
  have pos: "1 \<le> (n + k - 1) div k"
    using k n by (simp add: Suc_leI div_greater_zero_iff)
  then have "total_pages n k = (n + k - 1) div k" by (simp add: total_pages_def)
  moreover have "((n + k - 1) div k) * k - k < n" using le n by linarith
  ultimately show ?thesis by (simp add: diff_mult_distrib)
qed

lemma length_lists_of_board [simp]: "length (lists_of_board le board s) = boardRepo_countLists board s"
  by (simp add: lists_of_board_def boardRepo_countLists_def)

section \<open>Properties\<close>

text \<open>C30: The pages of a board add up to the board. For every page size, the pages 1 to the reported last one together show every
  active list of the board exactly once and in rank order; each list comes with its number of active cards and with the first of
  them in rank order, as many as asked for; and no page is reported in excess: the last one, if it is not the first, is not
  empty.\<close>

theorem board_pages_add_up:
  assumes "0 < per" "boardRepo_findById i (Some ws) s = Some b"
    and fetch: "\<And>p. fetch p = boardService_getBoardWithContent le i ws user
      \<lparr>bqListPage = Some p, bqListPageSize = Some per, bqCardPageSize = Some k\<rparr> s"
  shows "map ctList (load_all fetch) = lists_of_board le i s \<and>
    (\<forall>l\<in>set (load_all fetch). ctCardCount l = length (cards_of_list le (listId (ctList l)) s) \<and>
       ctCards l = map (content_card_of s) (take k (cards_of_list le (listId (ctList l)) s))) \<and>
    (\<exists>c meta. fetch 1 = Inr (c, meta) \<and>
       (1 < cmTotalPages meta \<longrightarrow>
          (\<exists>z m. fetch (cmTotalPages meta) = Inr (z, m) \<and> bcLists z \<noteq> [])))"
proof -
  let ?all = "lists_of_board le i s" and ?n = "total_pages (boardRepo_countLists i s) per"
  let ?q = "\<lambda>p. \<lparr>cnListSkip = Some ((p - 1) * per), cnListTake = Some per, cnCardSkip = Some 0, cnCardTake = Some k\<rparr>"
  have bid: "boardId b = i" using assms(2) by (auto simp: boardRepo_findById_def dest: find_SomeD)
  have page: "fetch p = Inr (\<lparr>bcBoard = b, bcIsStarred = list_ex (\<lambda>x. starBoardId x = i \<and> starUserId x = user) (stars s),
        bcLists = map (content_list_of le (?q p) s) (take per (drop ((p - 1) * per) ?all)),
        bcLabels = labelRepo_findAvailableLabels ws s\<rparr>,
      \<lparr>cmListPage = p, cmListPageSize = per, cmTotalLists = boardRepo_countLists i s, cmTotalPages = ?n, cmCardPageSize = k,
        cmTotalCards = boardRepo_countCards i s\<rparr>)" for p
    by (simp add: fetch boardService_getBoardWithContent_def boardRepo_findByIdWithContent_def assms(2) bid rows_window_def)
  let ?show = "content_list_of le \<lparr>cnListSkip = None, cnListTake = None, cnCardSkip = Some 0, cnCardTake = Some k\<rparr> s"
  have same: "content_list_of le (?q p) s = ?show" for p
    by (simp add: fun_eq_iff content_list_of_def)
  have "load_all fetch = concat (map (\<lambda>p. map (?show) (take per (drop ((p - 1) * per) ?all))) [1..<Suc ?n])"
    unfolding load_all_def page by (simp only: sum.case prod.case content_meta.select_convs board_content.select_convs same)
  also have "\<dots> = map (?show) (concat (map (\<lambda>p. take per (drop ((p - 1) * per) ?all)) [1..<Suc ?n]))"
    by (simp add: map_concat comp_def del: upt_Suc)
  also have "\<dots> = map (?show) ?all"
    using total_pages_enough [OF assms(1), of "boardRepo_countLists i s"] by (simp only: pages_take) simp
  finally have all: "load_all fetch = map (?show) ?all" .
  have "take per (drop ((?n - 1) * per) ?all) \<noteq> []" if "1 < ?n"
  proof -
    have "per < boardRepo_countLists i s"
    proof (rule ccontr)
      assume "\<not> ?thesis"
      then have "(boardRepo_countLists i s + per - 1) div per < 2"
        using assms(1) by (simp add: less_mult_imp_div_less)
      with that show False by (simp add: total_pages_def)
    qed
    from total_pages_tight [OF assms(1) this] show ?thesis using assms(1) by simp
  qed
  then show ?thesis
    by (auto simp: all page content_list_of_def rows_window_def comp_def)
qed

definition some_page :: "nat \<Rightarrow> board_content_query" where
  "some_page p = \<lparr>bqListPage = Some p, bqListPageSize = Some 1, bqCardPageSize = Some 1\<rparr>"

theorem board_pages_add_up_witness:
  "map ctList (load_all (\<lambda>p. boardService_getBoardWithContent shorter ''b'' ''w'' ''m'' (some_page p) sample_db)) =
     lists_of_board shorter ''b'' sample_db"
proof -
  have "boardRepo_findById ''b'' (Some ''w'') sample_db = Some sample_board"
    by (simp add: boardRepo_findById_def in_scope_def sample_db_defs)
  moreover have "boardService_getBoardWithContent shorter ''b'' ''w'' ''m'' (some_page p) sample_db =
      boardService_getBoardWithContent shorter ''b'' ''w'' ''m''
        \<lparr>bqListPage = Some p, bqListPageSize = Some 1, bqCardPageSize = Some 1\<rparr> sample_db" for p
    by (simp add: some_page_def)
  ultimately show ?thesis
    using board_pages_add_up [OF zero_less_one, of "''b''" "''w''" sample_db sample_board
        "\<lambda>p. boardService_getBoardWithContent shorter ''b'' ''w'' ''m'' (some_page p) sample_db" shorter "''m''" 1] by blast
qed

text \<open>The counts disagree: cards of an archived list are counted, the list is not.\<close>

lemma hidden_cards_are_counted:
  "\<exists>c meta. boardService_getBoardWithContent shorter ''b'' ''w'' ''m'' (some_page 1)
       (snd (listRepo_archive 1 ''l'' sample_db)) = Inr (c, meta) \<and>
     cmTotalLists meta = 0 \<and> bcLists c = [] \<and> cmTotalCards meta = 2"
  by (simp add: boardService_getBoardWithContent_def some_page_def boardRepo_findByIdWithContent_def boardRepo_findById_def
      in_scope_def listRepo_archive_def listRepo_update_def update_by_def boardRepo_countLists_def boardRepo_countCards_def
      lists_of_board_def card_on_board_def rows_window_def Let_def sample_db_defs)

end
