(* ===== verification/Once_Consumer.thy ===== *)
theory Once_Consumer
  imports Notifications
begin

text \<open>
  The contract of the two queue consumers: a delivery whose message is marked as processed does nothing, one that has an effect
  leaves the mark for an hour, and no delivery touches the mark of another message. What follows for any sequence of
  deliveries is proved once; the notification consumer keeps the contract here, the mail consumer in \<open>Mails\<close>.
\<close>

text \<open>The effects of a sequence of deliveries, each with its environment (what is up, what is drawn) and its time.\<close>

fun consume_run ::
  "('e \<Rightarrow> instant \<Rightarrow> 'd \<Rightarrow> db \<Rightarrow> ('v \<times> 'o list) \<times> db) \<Rightarrow> ('e \<times> instant \<times> 'd) list \<Rightarrow> db \<Rightarrow> ('d \<times> 'o list) list" where
  "consume_run h [] s = []"
| "consume_run h ((e, now, d) # ds) s = (case h e now d s of ((v, out), s') \<Rightarrow> (d, out) # consume_run h ds s')"

definition effects_of :: "('d \<Rightarrow> uuid) \<Rightarrow> uuid \<Rightarrow> ('d \<times> 'o list) list \<Rightarrow> ('d \<times> 'o list) list" where
  "effects_of ident i = filter (\<lambda>(d, out). ident d = i \<and> out \<noteq> [])"

lemma effects_of_simps [simp]:
  "effects_of ident i [] = []"
  "effects_of ident i ((d, out) # xs) = (if ident d = i \<and> out \<noteq> [] then (d, out) # effects_of ident i xs else effects_of ident i xs)"
  by (simp_all add: effects_of_def)

locale once_consumer =
  fixes handle :: "'e \<Rightarrow> instant \<Rightarrow> 'd \<Rightarrow> db \<Rightarrow> ('v \<times> 'o list) \<times> db"
    and ident :: "'d \<Rightarrow> uuid"
  assumes duplicate: "redis_get now (processedKey (ident d)) s \<noteq> None \<Longrightarrow> \<exists>v. handle e now d s = ((v, []), s)"
    and effective: "handle e now d s = ((v, out), s') \<Longrightarrow> out \<noteq> [] \<Longrightarrow>
      redis s' (processedKey (ident d)) = Some (''1'', now + 3600000)"
    and foreign: "handle e now d s = ((v, out), s') \<Longrightarrow> i \<noteq> ident d \<Longrightarrow>
      redis s' (processedKey i) = redis s (processedKey i)"
begin

text \<open>While the mark of a message lasts, none of its deliveries has an effect.\<close>

lemma silent_while_marked:
  assumes "redis s (processedKey i) = Some (x, till)" "\<forall>(e, t, d)\<in>set ds. t < till"
  shows "effects_of ident i (consume_run handle ds s) = []"
  using assms
proof (induction ds arbitrary: s)
  case (Cons a ds)
  obtain e t d where a: "a = (e, t, d)" by (metis prod_cases3)
  obtain v out s' where h: "handle e t d s = ((v, out), s')" by (metis surj_pair)
  have later: "\<forall>(e, t, d)\<in>set ds. t < till" using Cons.prems(2) by auto
  show ?case
  proof (cases "ident d = i")
    case True
    have "redis_get t (processedKey (ident d)) s \<noteq> None"
      using Cons.prems True by (simp add: redis_get_def a)
    from duplicate [OF this, of e] h have "out = []" "s' = s" by auto
    with Cons.IH [OF Cons.prems(1) later] show ?thesis by (simp add: a h)
  next
    case False
    with foreign [OF h, of i] Cons.prems(1) have "redis s' (processedKey i) = Some (x, till)" by simp
    from Cons.IH [OF this later] False show ?thesis by (simp add: a h)
  qed
qed simp

lemma one_effect_per_hour:
  assumes "\<forall>(e, t, d)\<in>set ds. start \<le> t \<and> t < start + 3600000"
  shows "length (effects_of ident i (consume_run handle ds s)) \<le> 1"
  using assms
proof (induction ds arbitrary: s)
  case (Cons a ds)
  obtain e t d where a: "a = (e, t, d)" by (metis prod_cases3)
  obtain v out s' where h: "handle e t d s = ((v, out), s')" by (metis surj_pair)
  have later: "\<forall>(e, t, d)\<in>set ds. start \<le> t \<and> t < start + 3600000" and t: "start \<le> t" using Cons.prems by (auto simp: a)
  show ?case
  proof (cases "ident d = i \<and> out \<noteq> []")
    case True
    have "\<forall>(e, t', d)\<in>set ds. t' < t + 3600000" using later t by fastforce
    with True effective [OF h] silent_while_marked show ?thesis by (simp add: a h)
  next
    case False
    with Cons.IH [OF later, of s'] show ?thesis by (auto simp: a h)
  qed
qed simp

end

section \<open>The notification consumer\<close>

lemma processedKey_inj [simp]: "processedKey i = processedKey j \<longleftrightarrow> i = j"
  by (simp add: processedKey_def)

lemma processedKey_is_no_counter [simp]: "processedKey i \<noteq> unreadCountKey u" "unreadCountKey u \<noteq> processedKey i"
  by (simp_all add: processedKey_def unreadCountKey_def)

lemma other_key_kept [simp]:
  "k \<noteq> k' \<Longrightarrow> redis (redis_set_ex now k v e s) k' = redis s k'"
  "k \<noteq> k' \<Longrightarrow> redis (redis_del k s) k' = redis s k'"
  by (simp_all add: redis_set_ex_def redis_del_def)

lemma redis_createOnce: "notificationRepo_createOnce up n s = (r, s') \<Longrightarrow> redis s' = redis s"
  by (auto simp: notificationRepo_createOnce_def split: if_splits)

lemma redis_bump [simp]: "redis (bumpUnreadCounter now u s) (processedKey i) = redis s (processedKey i)"
  by (simp add: bumpUnreadCounter_def redis_expire_def redis_add_def split: option.splits)

lemma persist_redis:
  assumes "persistOrScheduleRetry up newId now d s = (r, s')"
  shows "i \<noteq> nmId (ndMessage d) \<Longrightarrow> redis s' (processedKey i) = redis s (processedKey i)"
    and "r = Inr row \<Longrightarrow> redis s' = redis s"
  using assms redis_createOnce
  by (auto simp: persistOrScheduleRetry_def Let_def split: prod.splits sum.splits if_splits)

interpretation ntf: once_consumer "\<lambda>(up, newId). notificationConsumer_handle up newId" "\<lambda>d. nmId (ndMessage d)"
proof (unfold_locales, goal_cases)
  case (1 now d s e)
  then show ?case by (cases e) (auto simp: notificationConsumer_handle_def consumeOnce_def Let_def)
next
  case (2 e now d s v out s')
  then show ?case
    by (cases e)
      (auto simp: notificationConsumer_handle_def consumeOnce_def Let_def redis_set_ex_def
        dest!: persist_redis(2) split: if_splits prod.splits sum.splits option.splits bool.splits)
next
  case (3 e now d s v out s' i)
  then show ?case
    by (cases e)
      (auto simp: notificationConsumer_handle_def consumeOnce_def Let_def
        dest!: persist_redis(1) split: if_splits prod.splits sum.splits option.splits bool.splits)
qed

end
