(* ===== verification/Mails.thy ===== *)
theory Mails
  imports Once_Consumer Auth_Sessions
begin

text \<open>
  Transactional mail (\<open>src/modules/mail/\<close>) and the publisher it goes through
  (\<open>src/common/rabbitmq/publisher.service.ts\<close>): the listener that turns account events into mails, sent at once or through
  the queue, and the consumer of the queue. Whether the mail server takes a mail and how the broker answers are inputs of
  each step; \<open>encodeURIComponent\<close> and the configured client address are parameters. The dash in one subject is written as a hyphen.
\<close>

section \<open>RabbitPublisherService\<close>

datatype broker = Connected | Disconnected | Refusing

record 'p envelope =
  evMessageId :: uuid
  evPayload :: 'p

text \<open>\<open>publish\<close> never fails: without a connection, and when the broker refuses, the message is dropped.\<close>

definition publisher_publish :: "broker \<Rightarrow> uuid \<Rightarrow> 'p \<Rightarrow> 'p envelope list" where
  "publisher_publish br newId payload =
     (case br of Connected \<Rightarrow> [\<lparr>evMessageId = newId, evPayload = payload\<rparr>] | Disconnected \<Rightarrow> [] | Refusing \<Rightarrow> [])"

text \<open>The queue a retry waits in, named after where it goes back to and how long it waits.\<close>

definition key_char :: "char \<Rightarrow> bool" where
  "key_char c \<longleftrightarrow> c \<in> set ''abcdefghijklmnopqrstuvwxyzABCDEFGHIJKLMNOPQRSTUVWXYZ0123456789_-''"

definition waitQueue :: "string \<Rightarrow> string \<Rightarrow> nat \<Rightarrow> string" where
  "waitQueue exchange routingKey delayMs =
     ''retry.wait.'' @ exchange @ ''.'' @ map (\<lambda>c. if key_char c then c else CHR ''_'') routingKey @ ''.'' @ show_nat delayMs"

record 'p delivery =
  dvEnvelope :: "'p envelope"
  dvRetryCount :: nat
  dvRoutingKey :: string

text \<open>
  \<open>publishRetry\<close>: \<open>Some\<close> of what waits in which queue and for how long, \<open>None\<close> of what was dropped without a connection, and
  an error when the broker refuses.
\<close>

definition publisher_publishRetry ::
  "broker \<Rightarrow> string \<Rightarrow> string \<Rightarrow> 'p envelope \<Rightarrow> nat \<Rightarrow> nat \<Rightarrow> unit + (string \<times> 'p delivery \<times> nat) option" where
  "publisher_publishRetry br exchange routingKey m delayMs retryCount =
     (case br of
        Disconnected \<Rightarrow> Inr None
      | Refusing \<Rightarrow> Inl ()
      | Connected \<Rightarrow>
          Inr (Some (waitQueue exchange routingKey delayMs,
                     \<lparr>dvEnvelope = m, dvRetryCount = retryCount, dvRoutingKey = routingKey\<rparr>, delayMs)))"

section \<open>Payloads and mails\<close>

record email_payload =
  epTemplate :: string
  epTo :: string
  epSubject :: string
  epData :: "(string \<times> json) list"

text \<open>A mail as it is handed to the mail server; a context entry may be undefined.\<close>

record email =
  emTo :: string
  emSubject :: string
  emTemplate :: string
  emContext :: "(string \<times> json option) list"

definition isValidEmailPayload :: "email_payload \<Rightarrow> bool" where
  "isValidEmailPayload p \<longleftrightarrow> epTemplate p \<noteq> [] \<and> epTo p \<noteq> [] \<and> epSubject p \<noteq> []"

section \<open>MailListener\<close>

text \<open>The mail of an event, if it has one; a registration without a token has none.\<close>

definition welcome_payload :: "(string \<Rightarrow> string) \<Rightarrow> string \<Rightarrow> string \<Rightarrow> string \<Rightarrow> string \<Rightarrow> string \<Rightarrow> email_payload" where
  "welcome_payload encode clientUrl subject email name token =
     \<lparr>epTemplate = ''welcome-verify'', epTo = email, epSubject = subject,
      epData = [(''displayName'', JString name), (''verifyUrl'', JString (clientUrl @ ''/verify-email?token='' @ encode token)),
                (''expiresHours'', JNumber (Finite 24))]\<rparr>"

fun mailListener_on :: "(string \<Rightarrow> string) \<Rightarrow> string \<Rightarrow> domain_event \<Rightarrow> email_payload option" where
  "mailListener_on encode clientUrl (UserRegistered user email name token) =
     (if token = [] then None
      else Some (welcome_payload encode clientUrl ''Welcome to SyncBoard - verify your email'' email name token))"
| "mailListener_on encode clientUrl (EmailVerificationRequested user email token) =
     Some (welcome_payload encode clientUrl ''Verify your SyncBoard email'' email [] token)"
| "mailListener_on encode clientUrl (EmailVerified user email name) =
     Some \<lparr>epTemplate = ''email-verified'', epTo = email, epSubject = ''Your SyncBoard email is verified'',
           epData = [(''displayName'', JString name)]\<rparr>"
| "mailListener_on encode clientUrl (PasswordResetRequested user email token) =
     Some \<lparr>epTemplate = ''password-reset'', epTo = email, epSubject = ''Reset your SyncBoard password'',
           epData = [(''resetUrl'', JString (clientUrl @ ''/reset-password?token='' @ encode token)),
                     (''expiresMinutes'', JNumber (Finite 60))]\<rparr>"
| "mailListener_on encode clientUrl (InvitationCreated ws email by token) =
     Some \<lparr>epTemplate = ''invitation'', epTo = email, epSubject = ''You're invited to join a workspace on SyncBoard'',
           epData = [(''workspaceName'', JString []), (''inviterName'', JString []),
                     (''acceptUrl'', JString (clientUrl @ ''/invitations/'' @ token @ ''/accept''))]\<rparr>"
| "mailListener_on encode clientUrl _ = None"

text \<open>
  Sent at once, the data is the context and a failure is only logged; with \<open>ASYNC_MAIL\<close> the payload is published. The result
  is the mails that went out and the messages that were queued.
\<close>

definition mailListener_deliver ::
  "bool \<Rightarrow> bool \<Rightarrow> broker \<Rightarrow> uuid \<Rightarrow> email_payload \<Rightarrow> email list \<times> email_payload envelope list" where
  "mailListener_deliver async smtp br newId p =
     (if async then ([], publisher_publish br newId p)
      else (if smtp
            then [\<lparr>emTo = epTo p, emSubject = epSubject p, emTemplate = epTemplate p,
                    emContext = map (\<lambda>(k, v). (k, Some v)) (epData p)\<rparr>]
            else [], []))"

section \<open>EmailConsumer\<close>

definition or_blank :: "json option \<Rightarrow> json option" where
  "or_blank v = (case v of None \<Rightarrow> Some (JString []) | Some JNull \<Rightarrow> Some (JString []) | Some x \<Rightarrow> Some x)"

text \<open>The context each template gets; a payload with another template is dropped.\<close>

definition email_of :: "email_payload \<Rightarrow> email option" where
  "email_of p =
     (let data = map_of (epData p);
          mail = (\<lambda>context. Some \<lparr>emTo = epTo p, emSubject = epSubject p, emTemplate = epTemplate p, emContext = context\<rparr>)
      in if epTemplate p = ''welcome-verify'' then
           mail [(''displayName'', or_blank (data ''displayName'')), (''verifyUrl'', data ''verifyUrl''),
                 (''expiresHours'', Some (JNumber (Finite 24)))]
         else if epTemplate p = ''email-verified'' then mail [(''displayName'', or_blank (data ''displayName''))]
         else if epTemplate p = ''password-reset'' then
           mail [(''resetUrl'', data ''resetUrl''), (''expiresMinutes'', Some (JNumber (Finite 60)))]
         else if epTemplate p = ''invitation'' then
           mail [(''workspaceName'', or_blank (data ''workspaceName'')), (''inviterName'', or_blank (data ''inviterName'')),
                 (''acceptUrl'', data ''acceptUrl'')]
         else None)"

definition EMAIL_MAX_RETRIES :: nat where "EMAIL_MAX_RETRIES = 3"
definition EMAIL_RETRY_BASE_MS :: int where "EMAIL_RETRY_BASE_MS = 1000"

datatype mail_verdict =
    Acknowledged
  | Waiting string "email_payload delivery" nat     \<comment> \<open>acknowledged, and in a wait queue for some milliseconds\<close>
  | Dead_lettered
  | Threw                                           \<comment> \<open>the handler raised; what happens then is the broker client's affair\<close>

definition emailConsumer_handle ::
  "bool \<times> broker \<Rightarrow> instant \<Rightarrow> email_payload delivery \<Rightarrow> db \<Rightarrow> (mail_verdict \<times> email list) \<times> db" where
  "emailConsumer_handle env now d s =
     (let (smtp, br) = env; m = dvEnvelope d; p = evPayload m
      in if \<not> isValidEmailPayload p then ((Acknowledged, []), s)
         else case consumeOnce now (evMessageId m) s of
                (False, s1) \<Rightarrow> ((Acknowledged, []), s1)
              | (True, s1) \<Rightarrow>
                  (case email_of p of
                     None \<Rightarrow> ((Acknowledged, []), s1)
                   | Some e \<Rightarrow>
                       if smtp then ((Acknowledged, [e]), s1)
                       else let s2 = redis_del (processedKey (evMessageId m)) s1
                            in if dvRetryCount d < EMAIL_MAX_RETRIES
                               then (case publisher_publishRetry br ''email.exchange'' (dvRoutingKey d) m
                                             (nat (computeBackoff (dvRetryCount d) EMAIL_RETRY_BASE_MS)) (Suc (dvRetryCount d)) of
                                       Inl _ \<Rightarrow> ((Threw, []), s2)
                                     | Inr None \<Rightarrow> ((Acknowledged, []), s2)
                                     | Inr (Some (q, d', delay)) \<Rightarrow> ((Waiting q d' delay, []), s2))
                               else ((Dead_lettered, []), s2)))"

section \<open>The consumer keeps the contract\<close>

lemma consumeOnce_cases:
  "consumeOnce now i s = (False, s') \<longleftrightarrow> redis_get now (processedKey i) s \<noteq> None \<and> s' = s"
  "consumeOnce now i s = (True, s') \<longleftrightarrow> redis_get now (processedKey i) s = None \<and> s' = redis_set_ex now (processedKey i) ''1'' 3600 s"
  by (auto simp: consumeOnce_def)

interpretation mails: once_consumer emailConsumer_handle "\<lambda>d. evMessageId (dvEnvelope d)"
proof (unfold_locales, goal_cases)
  case (1 now d s e)
  then show ?case by (cases e) (auto simp: emailConsumer_handle_def consumeOnce_def Let_def)
next
  case (2 e now d s v out s')
  then show ?case
    by (cases e)
      (auto simp: emailConsumer_handle_def consumeOnce_cases Let_def redis_set_ex_def
        split: if_splits prod.splits sum.splits option.splits bool.splits)
next
  case (3 e now d s v out s' i)
  then show ?case
    by (cases e)
      (auto simp: emailConsumer_handle_def consumeOnce_cases Let_def
        split: if_splits prod.splits sum.splits option.splits bool.splits)
qed

section \<open>The retries\<close>

text \<open>One mail message and the broker, which stays connected: the list says whether the mail server answers each attempt.\<close>

fun mail_attempts :: "bool list \<Rightarrow> instant \<Rightarrow> email_payload delivery \<Rightarrow> db \<Rightarrow> (mail_verdict \<times> email list) \<times> db" where
  "mail_attempts [] now d s = ((Waiting [] d 0, []), s)"
| "mail_attempts (smtp # ups) now d s =
     (case emailConsumer_handle (smtp, Connected) now d s of
        ((Waiting q d' delay, _), s') \<Rightarrow> mail_attempts ups (now + int delay) d' s'
      | r \<Rightarrow> r)"

lemma marked_then_released: "redis s (processedKey i) = None \<Longrightarrow> redis_del (processedKey i) (redis_set_ex now (processedKey i) v e s) = s"
  by (simp add: redis_del_def redis_set_ex_def fun_upd_idem)

lemma failing_mail:
  assumes "isValidEmailPayload (evPayload (dvEnvelope d))" "email_of (evPayload (dvEnvelope d)) = Some m"
    and "redis s (processedKey (evMessageId (dvEnvelope d))) = None"
  shows "emailConsumer_handle (False, Connected) now d s =
    ((if dvRetryCount d < 3
      then Waiting (waitQueue ''email.exchange'' (dvRoutingKey d) (1000 * 2 ^ dvRetryCount d))
             (d\<lparr>dvRetryCount := Suc (dvRetryCount d)\<rparr>) (1000 * 2 ^ dvRetryCount d)
      else Dead_lettered, []), s)"
  using assms
  by (simp add: emailConsumer_handle_def consumeOnce_def redis_get_def Let_def marked_then_released EMAIL_MAX_RETRIES_def
      EMAIL_RETRY_BASE_MS_def computeBackoff_def publisher_publishRetry_def nat_mult_distrib nat_power_eq)

end
