(* ===== verification/Mail_Properties.thy ===== *)
theory Mail_Properties
  imports Mails
begin

text \<open>What the queue of mails guarantees, what it loses, and that the link of a mail leads to the account it was sent for.\<close>

section \<open>Retries\<close>

lemma sent_mail:
  assumes "isValidEmailPayload (evPayload (dvEnvelope d))" "email_of (evPayload (dvEnvelope d)) = Some m"
    and "redis s (processedKey (evMessageId (dvEnvelope d))) = None"
  shows "emailConsumer_handle (True, br) now d s =
    ((Acknowledged, [m]), redis_set_ex now (processedKey (evMessageId (dvEnvelope d))) ''1'' 3600 s)"
  using assms by (simp add: emailConsumer_handle_def consumeOnce_def redis_get_def Let_def)

lemma mail_after_failures:
  assumes "isValidEmailPayload (evPayload (dvEnvelope d))" "email_of (evPayload (dvEnvelope d)) = Some m"
    and "redis s (processedKey (evMessageId (dvEnvelope d))) = None" "dvRetryCount d + n \<le> 3"
  shows "mail_attempts (replicate n False @ ups) now d s =
    mail_attempts ups (now + 1000 * 2 ^ dvRetryCount d * (2 ^ n - 1)) (d\<lparr>dvRetryCount := dvRetryCount d + n\<rparr>) s"
  using assms
proof (induction n arbitrary: now d)
  case (Suc n)
  let ?d = "d\<lparr>dvRetryCount := Suc (dvRetryCount d)\<rparr>"
  have "mail_attempts (replicate (Suc n) False @ ups) now d s =
      mail_attempts (replicate n False @ ups) (now + 1000 * 2 ^ dvRetryCount d) ?d s"
    using Suc.prems by (simp add: failing_mail)
  also have "\<dots> = mail_attempts ups (now + 1000 * 2 ^ dvRetryCount d + 1000 * 2 ^ dvRetryCount ?d * (2 ^ n - 1))
      (?d\<lparr>dvRetryCount := dvRetryCount ?d + n\<rparr>) s"
    by (rule Suc.IH) (use Suc.prems in simp_all)
  finally show ?case by (simp add: algebra_simps)
qed simp

text \<open>A mail survives an outage of the mail server that is short enough, and never goes out twice for it. When the server misses
  the first n attempts, n at most three, and then answers, exactly one mail goes out, the one of the payload, at the time the
  doubling delays add up to; with four misses the message is dead-lettered and its mark is gone, so that it can be replayed.\<close>

theorem mail_survives_short_outage:
  assumes "isValidEmailPayload p" "email_of p = Some m" "redis s (processedKey i) = None"
  shows "(\<forall>n\<le>3. mail_attempts (replicate n False @ [True]) now \<lparr>dvEnvelope = \<lparr>evMessageId = i, evPayload = p\<rparr>, dvRetryCount = 0, dvRoutingKey = k\<rparr> s =
        ((Acknowledged, [m]), redis_set_ex (now + 1000 * (2 ^ n - 1)) (processedKey i) ''1'' 3600 s)) \<and>
    mail_attempts (replicate 4 False) now \<lparr>dvEnvelope = \<lparr>evMessageId = i, evPayload = p\<rparr>, dvRetryCount = 0, dvRoutingKey = k\<rparr> s =
      ((Dead_lettered, []), s)"
proof (intro conjI allI impI)
  let ?d = "\<lambda>n. \<lparr>dvEnvelope = \<lparr>evMessageId = i, evPayload = p\<rparr>, dvRetryCount = n, dvRoutingKey = k\<rparr>"
  fix n :: nat assume "n \<le> 3"
  with assms have "mail_attempts (replicate n False @ [True]) now (?d 0) s = mail_attempts [True] (now + 1000 * (2 ^ n - 1)) (?d n) s"
    by (subst mail_after_failures) simp_all
  with assms show "mail_attempts (replicate n False @ [True]) now (?d 0) s =
      ((Acknowledged, [m]), redis_set_ex (now + 1000 * (2 ^ n - 1)) (processedKey i) ''1'' 3600 s)"
    by (simp add: sent_mail)
next
  let ?d = "\<lambda>n. \<lparr>dvEnvelope = \<lparr>evMessageId = i, evPayload = p\<rparr>, dvRetryCount = n, dvRoutingKey = k\<rparr>"
  have "mail_attempts (replicate 3 False @ [False]) now (?d 0) s = mail_attempts [False] (now + 1000 * (2 ^ 3 - 1)) (?d 3) s"
    using assms by (subst mail_after_failures) simp_all
  moreover have "replicate 4 False = replicate 3 False @ [False]" by (simp add: numeral_eq_Suc)
  ultimately show "mail_attempts (replicate 4 False) now (?d 0) s = ((Dead_lettered, []), s)"
    using assms by (simp add: failing_mail)
qed

text \<open>A mail is sent at most once. However often the broker delivers messages within an hour, in whatever order, with whatever
  availability of the mail server and of the broker, at most one delivery of each message makes a mail go out.\<close>

theorem mail_goes_out_once:
  assumes "\<forall>(env, t, d)\<in>set ds. start \<le> t \<and> t < start + 3600000"
  shows "length (effects_of (\<lambda>d. evMessageId (dvEnvelope d)) i (consume_run emailConsumer_handle ds s)) \<le> 1"
  by (rule mails.one_effect_per_hour [OF assms])

text \<open>When the mail server and the broker are away at the same time, the message is acknowledged and gone.\<close>

lemma double_outage_loses_mail:
  assumes "isValidEmailPayload (evPayload (dvEnvelope d))" "email_of (evPayload (dvEnvelope d)) = Some m"
    and "redis s (processedKey (evMessageId (dvEnvelope d))) = None" "dvRetryCount d < 3"
  shows "emailConsumer_handle (False, Disconnected) now d s = ((Acknowledged, []), s)"
  using assms
  by (simp add: emailConsumer_handle_def consumeOnce_def redis_get_def Let_def marked_then_released EMAIL_MAX_RETRIES_def
      publisher_publishRetry_def)

section \<open>The link in the mail\<close>

lemma find_last: "\<forall>v\<in>set xs. \<not> P v \<Longrightarrow> P x \<Longrightarrow> find P (xs @ [x]) = Some x"
  by (induction xs) auto

lemma register_effect:
  assumes "authService_register cr d newId salt raw now email password name ip agent s = (Inr x, s1)"
  shows "users s1 = users s @ [new_user newId now email (Some (crBcryptHash cr salt password)) name]"
    and "\<forall>v\<in>set (users s). \<not> user_clash (new_user newId now email (Some (crBcryptHash cr salt password)) name) v"
    and "redis s1 (''email_verification:'' @ hashToken cr raw) = Some (newId, now + 86400000)"
    and "last (events s1) = UserRegistered newId email name raw"
proof -
  from assms obtain tokens s2 where
    ins: "\<not> list_ex (user_clash (new_user newId now email (Some (crBcryptHash cr salt password)) name)) (users s)"
    and iss: "issueTokenPair cr d now (new_user newId now email (Some (crBcryptHash cr salt password)) name) ip agent
      (createEmailVerificationToken cr raw now newId
        (s\<lparr>users := users s @ [new_user newId now email (Some (crBcryptHash cr salt password)) name]\<rparr>)) = (Inr tokens, s2)"
    and s1: "s1 = emit (UserRegistered newId email name raw) s2"
    by (auto simp: authService_register_def userRepo_createUser_def insert_user_def await_Inr_iff Let_def new_user_def
        split: option.splits if_splits)
  note i = issue_Inr(5) [OF iss]
  show "users s1 = users s @ [new_user newId now email (Some (crBcryptHash cr salt password)) name]"
    "redis s1 (''email_verification:'' @ hashToken cr raw) = Some (newId, now + 86400000)"
    "last (events s1) = UserRegistered newId email name raw"
    by (subst s1, subst i, simp add: createEmailVerificationToken_def redis_set_ex_def)+
  show "\<forall>v\<in>set (users s). \<not> user_clash (new_user newId now email (Some (crBcryptHash cr salt password)) name) v"
    using ins by (simp add: list_ex_iff)
qed

text \<open>C18: The link in the welcome mail works. A successful registration leads, through the queue and the consumer, to a mail to the
  registered address whose link carries the token of this registration, and that token, given back within a day, verifies
  exactly the new account.\<close>

theorem welcome_mail_verifies_account:
  assumes "authService_register cr d newId salt raw now email password name ip agent s = (Inr x, s1)"
    and "raw \<noteq> []" "newId \<noteq> []" "email \<noteq> []" "later < now + 86400000"
    and "redis s1 (processedKey i) = None"
  shows "\<exists>p m s2 s3. mailListener_on encode clientUrl (last (events s1)) = Some p \<and>
    publisher_publish Connected i p = [\<lparr>evMessageId = i, evPayload = p\<rparr>] \<and>
    emailConsumer_handle (True, br) now2 \<lparr>dvEnvelope = \<lparr>evMessageId = i, evPayload = p\<rparr>, dvRetryCount = 0, dvRoutingKey = k\<rparr> s1 =
      ((Acknowledged, [m]), s2) \<and>
    emTo m = email \<and>
    map_of (emContext m) ''verifyUrl'' = Some (Some (JString (clientUrl @ ''/verify-email?token='' @ encode raw))) \<and>
    authService_verifyEmail cr later raw s2 = (Inr (), s3) \<and>
    users s3 = map (\<lambda>u. if userId u = newId then u\<lparr>userIsEmailVerified := True\<rparr> else u) (users s2)"
proof -
  note r = register_effect [OF assms(1)]
  let ?u = "new_user newId now email (Some (crBcryptHash cr salt password)) name"
  let ?p = "welcome_payload encode clientUrl ''Welcome to SyncBoard - verify your email'' email name raw"
  let ?m = "\<lparr>emTo = email, emSubject = ''Welcome to SyncBoard - verify your email'', emTemplate = ''welcome-verify'',
    emContext = [(''displayName'', Some (JString name)),
      (''verifyUrl'', Some (JString (clientUrl @ ''/verify-email?token='' @ encode raw))), (''expiresHours'', Some (JNumber (Finite 24)))]\<rparr>"
  obtain key where key: "key = ''email_verification:'' @ hashToken cr raw" by blast
  let ?s2 = "redis_set_ex now2 (processedKey i) ''1'' 3600 s1"
  have "email_of ?p = Some ?m" by (simp add: email_of_def welcome_payload_def or_blank_def)
  moreover have "isValidEmailPayload ?p" using assms(4) by (simp add: isValidEmailPayload_def welcome_payload_def)
  ultimately have sent: "emailConsumer_handle (True, br) now2 \<lparr>dvEnvelope = \<lparr>evMessageId = i, evPayload = ?p\<rparr>, dvRetryCount = 0, dvRoutingKey = k\<rparr> s1 =
      ((Acknowledged, [?m]), ?s2)"
    using assms(6) by (simp add: sent_mail)
  have "redis ?s2 key = Some (newId, now + 86400000)" using r(3) by (simp add: redis_set_ex_def processedKey_def key)
  then have token: "redis_getdel later key ?s2 = (Some newId, redis_del key ?s2)"
    using assms(5) by (simp add: redis_getdel_def redis_get_def)
  let ?s = "redis_del key ?s2"
  have us: "users ?s = users s @ [?u]" using r(1) by (simp add: redis_del_def redis_set_ex_def)
  have new: "\<forall>v\<in>set (users s). userId v \<noteq> newId" using r(2) by (auto simp: user_clash_def new_user_def)
  then have "find (\<lambda>u. userId u = newId) (users s @ [?u]) = Some ?u"
    by (intro find_last) (simp_all add: new_user_def)
  then have found: "userRepo_findById newId ?s = Some ?u" by (simp only: userRepo_findById_def us)
  have "\<not> list_ex (\<lambda>v. userId v \<noteq> newId \<and> user_clash (?u\<lparr>userIsEmailVerified := True\<rparr>) v) (users s @ [?u])"
    using r(2) by (auto simp: list_ex_iff user_clash_def new_user_def)
  then have upd: "userRepo_update newId (\<lambda>u. u\<lparr>userIsEmailVerified := True\<rparr>) ?s =
      (Inr (?u\<lparr>userIsEmailVerified := True\<rparr>),
       ?s\<lparr>users := map (\<lambda>u. if userId u = newId then u\<lparr>userIsEmailVerified := True\<rparr> else u) (users ?s)\<rparr>)"
    using found by (simp add: userRepo_update_def update_by_def userRepo_findById_def us r(1))
  have "authService_verifyEmail cr later raw ?s2 =
      (Inr (), emit (EmailVerified newId email name)
         (?s\<lparr>users := map (\<lambda>u. if userId u = newId then u\<lparr>userIsEmailVerified := True\<rparr> else u) (users ?s)\<rparr>))"
    unfolding authService_verifyEmail_def key [symmetric] token
    using assms(3) by (simp only: Let_def prod.case truthy_def option.case option.sel found upd await_simps) (simp add: new_user_def)
  then obtain s3 where verified: "authService_verifyEmail cr later raw ?s2 = (Inr (), s3)"
    and done_users: "users s3 = map (\<lambda>u. if userId u = newId then u\<lparr>userIsEmailVerified := True\<rparr> else u) (users ?s2)"
    by (simp add: redis_del_def)
  show ?thesis
  proof (intro exI conjI)
    show "mailListener_on encode clientUrl (last (events s1)) = Some ?p" using assms(2) by (simp add: r(4))
    show "map_of (emContext ?m) ''verifyUrl'' = Some (Some (JString (clientUrl @ ''/verify-email?token='' @ encode raw)))"
      by simp
    show "publisher_publish Connected i ?p = [\<lparr>evMessageId = i, evPayload = ?p\<rparr>]" by (simp add: publisher_publish_def)
  qed (rule sent verified done_users | simp)+
qed

section \<open>Witnesses\<close>

definition reset_mail :: email_payload where
  "reset_mail = \<lparr>epTemplate = ''password-reset'', epTo = ''a@b.cd'', epSubject = ''Reset'', epData = [(''resetUrl'', JString ''x'')]\<rparr>"

definition reset_delivery :: "email_payload delivery" where
  "reset_delivery = \<lparr>dvEnvelope = \<lparr>evMessageId = ''i'', evPayload = reset_mail\<rparr>, dvRetryCount = 0, dvRoutingKey = ''email.send''\<rparr>"

theorem mail_survives_short_outage_witness:
  "\<exists>m. emTo m = ''a@b.cd'' \<and>
     mail_attempts [False, False, True] 5 reset_delivery sample_account =
       ((Acknowledged, [m]), redis_set_ex 3005 (processedKey ''i'') ''1'' 3600 sample_account)"
proof -
  let ?m = "\<lparr>emTo = ''a@b.cd'', emSubject = ''Reset'', emTemplate = ''password-reset'',
    emContext = [(''resetUrl'', Some (JString ''x'')), (''expiresMinutes'', Some (JNumber (Finite 60)))]\<rparr>"
  have "isValidEmailPayload reset_mail" "email_of reset_mail = Some ?m" "redis sample_account (processedKey ''i'') = None"
    by (simp_all add: isValidEmailPayload_def email_of_def reset_mail_def sample_account_def empty_db_def)
  from mail_survives_short_outage [OF this, of 5 "''email.send''"]
  have "\<forall>n\<le>3. mail_attempts (replicate n False @ [True]) 5 reset_delivery sample_account =
      ((Acknowledged, [?m]), redis_set_ex (5 + 1000 * (2 ^ n - 1)) (processedKey ''i'') ''1'' 3600 sample_account)"
    unfolding reset_delivery_def by blast
  from this [rule_format, of 2] have "mail_attempts [False, False, True] 5 reset_delivery sample_account =
      ((Acknowledged, [?m]), redis_set_ex 3005 (processedKey ''i'') ''1'' 3600 sample_account)"
    by (simp add: numeral_2_eq_2)
  then show ?thesis by (intro exI [of _ ?m]) simp
qed

theorem mail_goes_out_once_witness:
  "length (effects_of (\<lambda>d. evMessageId (dvEnvelope d)) ''i'' (consume_run emailConsumer_handle
     [((True, Connected), 5, reset_delivery), ((True, Connected), 9, reset_delivery)] sample_account)) \<le> 1"
  by (rule mail_goes_out_once [where start = 0]) simp

theorem welcome_mail_verifies_account_witness:
  "\<exists>p m s2 s3. mailListener_on id ''https://x'' (last (events (snd (authService_register sample_crypto (sample_draws CHR ''1'') ''n'' ''s'' ''r'' 0
       ''n@b.cd'' ''pw'' ''Nan'' None None sample_account)))) = Some p \<and> epTo p = ''n@b.cd'' \<and>
     emailConsumer_handle (True, Connected) 7 \<lparr>dvEnvelope = \<lparr>evMessageId = ''i'', evPayload = p\<rparr>, dvRetryCount = 0, dvRoutingKey = ''email.send''\<rparr>
       (snd (authService_register sample_crypto (sample_draws CHR ''1'') ''n'' ''s'' ''r'' 0 ''n@b.cd'' ''pw'' ''Nan'' None None sample_account)) =
       ((Acknowledged, [m]), s2) \<and>
     authService_verifyEmail sample_crypto 50 ''r'' s2 = (Inr (), s3)"
proof -
  let ?r = "authService_register sample_crypto (sample_draws CHR ''1'') ''n'' ''s'' ''r'' 0 ''n@b.cd'' ''pw'' ''Nan'' None None sample_account"
  obtain x s1 where run: "?r = (Inr x, s1)" and free: "redis s1 (processedKey ''i'') = None"
    by (simp add: authService_register_def userRepo_createUser_def insert_user_def user_clash_def issueTokenPair_def tokenRepo_create_def
        insert_token_def insert_row_def createEmailVerificationToken_def redis_set_ex_def processedKey_def sample_account_def new_user_def
        empty_db_def new_token_def sample_draws_def Let_def hashToken_def sample_crypto_def)
  from welcome_mail_verifies_account [OF run, of 50 "''i''" id "''https://x''" Connected 7 "''email.send''"] free
  obtain p m s2 s3 where "mailListener_on id ''https://x'' (last (events s1)) = Some p"
    "emailConsumer_handle (True, Connected) 7 \<lparr>dvEnvelope = \<lparr>evMessageId = ''i'', evPayload = p\<rparr>, dvRetryCount = 0, dvRoutingKey = ''email.send''\<rparr> s1 =
      ((Acknowledged, [m]), s2)" "emTo m = ''n@b.cd''" "authService_verifyEmail sample_crypto 50 ''r'' s2 = (Inr (), s3)"
    by auto
  moreover from this(1) have "epTo p = ''n@b.cd''"
    unfolding register_effect(4) [OF run] by (auto simp: welcome_payload_def)
  ultimately show ?thesis by (simp add: run)
qed

end
