(* ===== verification/Error_Responses.thy ===== *)
theory Error_Responses
  imports Schema
begin

text \<open>
  The global exception filter (\<open>src/common/filters/all-exceptions.filter.ts\<close>): what the client of an HTTP request sees of an
  exception. An exception is given by what the filter reads of it; \<open>stands_for\<close> says which exceptions an error of the service
  models is raised as (\<open>src/common/exceptions/app.exception.ts\<close> and the framework's own classes). Exceptions outside a request
  are rethrown and not treated here.
\<close>

section \<open>Exceptions\<close>

datatype raw_message = MessageList "string list" | MessageText string | NoMessage

datatype exception_body = ObjectBody "string option" raw_message | TextBody string | OtherBody

text \<open>An \<open>AppException\<close>, another \<open>HttpException\<close> with its own message and its body, or any other error.\<close>

datatype http_exception =
    AppRaised string nat string "(string \<times> json) list"
  | HttpRaised nat string exception_body
  | OtherRaised string

datatype error_details = Details "(string \<times> json) list" | FieldErrors "(string \<times> string) list"

record error_answer =
  eaCode :: string
  eaMessage :: string
  eaStatusCode :: nat
  eaDetails :: error_details
  eaTimestamp :: instant
  eaRequestId :: string

section \<open>The filter\<close>

definition unauthorizedErrorMap :: "(string \<times> string) list" where
  "unauthorizedErrorMap =
     [(''TOKEN_EXPIRED'', ''Access token has expired''), (''TOKEN_INVALID'', ''Invalid or missing authentication token''),
      (''TOKEN_REVOKED'', ''Access token has been revoked''), (''TOKEN_MISSING'', ''Authentication token is missing'')]"

definition forbiddenErrorMap :: "(string \<times> string) list" where
  "forbiddenErrorMap = [(''EMAIL_NOT_VERIFIED'', ''Email verification required before performing this action'')]"

text \<open>\<open>/^[A-Z0-9_]+$/\<close>.\<close>

definition code_shaped :: "string \<Rightarrow> bool" where
  "code_shaped m \<longleftrightarrow> m \<noteq> [] \<and> list_all (\<lambda>c. c \<in> set ''ABCDEFGHIJKLMNOPQRSTUVWXYZ0123456789_'') m"

definition getDefaultErrorCodeForStatus :: "nat \<Rightarrow> string option \<Rightarrow> string" where
  "getDefaultErrorCodeForStatus status raw =
     (let known = (\<lambda>m. truthy raw \<and> the raw \<in> fst ` set m)
      in if status = 401 then
           (if known unauthorizedErrorMap then the raw else if truthy raw \<and> code_shaped (the raw) then the raw else ''UNAUTHORIZED'')
         else if status = 403 then (if known forbiddenErrorMap then the raw else ''FORBIDDEN'')
         else if status = 404 then ''NOT_FOUND''
         else if status = 400 then ''BAD_REQUEST''
         else if status = 409 then ''CONFLICT''
         else if status = 429 then ''TOO_MANY_REQUESTS''
         else if known forbiddenErrorMap then the raw
         else ''HTTP_ERROR'')"

definition getReadableMessageForException :: "nat \<Rightarrow> string \<Rightarrow> string" where
  "getReadableMessageForException status raw =
     (case (if status = 401 then map_of unauthorizedErrorMap raw else None) of
        Some m \<Rightarrow> m
      | None \<Rightarrow>
          if status = 401 \<and> raw = ''Unauthorized'' then ''Authentication required''
          else (case (if raw = [] then None else map_of forbiddenErrorMap raw) of Some m \<Rightarrow> m | None \<Rightarrow> raw))"

definition formatValidationErrors :: "string list \<Rightarrow> (string \<times> string) list" where
  "formatValidationErrors messages = map (\<lambda>m. (takeWhile (\<lambda>c. c \<noteq> CHR '' '') m, m)) messages"

definition or_else :: "string option \<Rightarrow> string \<Rightarrow> string" where
  "or_else x y = (if truthy x then the x else y)"

text \<open>Code, message, status and details of an exception, before the masking.\<close>

fun describe :: "http_exception \<Rightarrow> string \<times> string \<times> nat \<times> error_details" where
  "describe (AppRaised code status message details) = (code, message, status, Details details)"
| "describe (HttpRaised status message (ObjectBody code (MessageList ms))) =
     (or_else code ''VALIDATION_ERROR'', ''Validation failed'', status, FieldErrors (formatValidationErrors ms))"
| "describe (HttpRaised status message (ObjectBody code (MessageText m))) =
     (or_else code (getDefaultErrorCodeForStatus status (Some m)),
      getReadableMessageForException status (or_else (Some m) message), status, Details [])"
| "describe (HttpRaised status message (ObjectBody code NoMessage)) =
     (or_else code (getDefaultErrorCodeForStatus status None), getReadableMessageForException status message, status, Details [])"
| "describe (HttpRaised status message (TextBody t)) =
     (getDefaultErrorCodeForStatus status (Some t), getReadableMessageForException status t, status, Details [])"
| "describe (HttpRaised status message OtherBody) = (getDefaultErrorCodeForStatus status None, message, status, Details [])"
| "describe (OtherRaised message) = (''INTERNAL_ERROR'', ''An unexpected error occurred'', 500, Details [])"

text \<open>The request id of the header, else the one an interceptor attached, else none.\<close>

definition allExceptionsFilter_catch ::
  "bool \<Rightarrow> instant \<Rightarrow> string option \<Rightarrow> string option \<Rightarrow> http_exception \<Rightarrow> error_answer" where
  "allExceptionsFilter_catch production now header correlationId x =
     (case describe x of
        (code, message, status, details) \<Rightarrow>
          let mask = (status = 500 \<and> production)
          in \<lparr>eaCode = code, eaMessage = (if mask then ''An unexpected error occurred'' else message), eaStatusCode = status,
              eaDetails = (if mask then Details [] else details), eaTimestamp = now,
              eaRequestId = or_else header (or_else correlationId [])\<rparr>)"

section \<open>The exceptions behind the modelled errors\<close>

text \<open>A framework exception made from a message carries it in its body; messages and details the models leave out are free.\<close>

fun stands_for :: "error \<Rightarrow> http_exception \<Rightarrow> bool" where
  "stands_for (EntityNotFound name i) x \<longleftrightarrow>
     x = AppRaised (map to_upper name @ ''_NOT_FOUND'') 404 (name @ '' with id '' @ [CHR 39] @ i @ [CHR 39] @ '' was not found'') []"
| "stands_for (BusinessRule code) x \<longleftrightarrow> (case x of AppRaised c st m d \<Rightarrow> c = code \<and> st = 422 | _ \<Rightarrow> False)"
| "stands_for (AppError code status) x \<longleftrightarrow> (case x of AppRaised c st m d \<Rightarrow> c = code \<and> st = status | _ \<Rightarrow> False)"
| "stands_for (BadRequest m) x \<longleftrightarrow> x = HttpRaised 400 m (ObjectBody None (MessageText m))"
| "stands_for (Unauthorized m) x \<longleftrightarrow> x = HttpRaised 401 m (ObjectBody None (MessageText m))"
| "stands_for (Forbidden m) x \<longleftrightarrow> x = HttpRaised 403 m (ObjectBody None (MessageText m))"
| "stands_for (NotFound m) x \<longleftrightarrow> x = HttpRaised 404 m (ObjectBody None (MessageText m))"
| "stands_for (PrismaError code) x \<longleftrightarrow> (case x of OtherRaised m \<Rightarrow> True | _ \<Rightarrow> False)"
| "stands_for JsTypeError x \<longleftrightarrow> (case x of OtherRaised m \<Rightarrow> True | _ \<Rightarrow> False)"

text \<open>The code the client is told.\<close>

fun told_code :: "error \<Rightarrow> string" where
  "told_code (BadRequest m) = ''BAD_REQUEST''"
| "told_code (Unauthorized m) = (if code_shaped m then m else ''UNAUTHORIZED'')"
| "told_code (Forbidden m) = (if m = ''EMAIL_NOT_VERIFIED'' then m else ''FORBIDDEN'')"
| "told_code (NotFound m) = ''NOT_FOUND''"
| "told_code (PrismaError c) = ''INTERNAL_ERROR''"
| "told_code JsTypeError = ''INTERNAL_ERROR''"
| "told_code e = the (error_code e)"

lemma known_codes_shaped: "list_all (\<lambda>(c, m). code_shaped c) unauthorizedErrorMap"
  by code_simp

lemma told_unauthorized: "getDefaultErrorCodeForStatus 401 (Some m) = (if code_shaped m then m else ''UNAUTHORIZED'')"
  using known_codes_shaped
  by (auto simp: getDefaultErrorCodeForStatus_def Let_def truthy_def list_all_iff image_iff) (auto simp: code_shaped_def)

lemma told_forbidden: "getDefaultErrorCodeForStatus 403 (Some m) = (if m = ''EMAIL_NOT_VERIFIED'' then m else ''FORBIDDEN'')"
  by (simp add: getDefaultErrorCodeForStatus_def Let_def truthy_def forbiddenErrorMap_def)

lemma told_not_found: "getDefaultErrorCodeForStatus 404 r = ''NOT_FOUND''"
  by (simp add: getDefaultErrorCodeForStatus_def Let_def)

lemma told_bad_request: "getDefaultErrorCodeForStatus 400 r = ''BAD_REQUEST''"
  by (simp add: getDefaultErrorCodeForStatus_def Let_def)

lemmas told_simps = told_unauthorized told_forbidden told_not_found told_bad_request

lemma described:
  "stands_for e x \<Longrightarrow> \<exists>m d. describe x = (told_code e, m, error_status e, d)"
  by (cases e) (auto simp: or_else_def truthy_def told_simps split: http_exception.splits)

section \<open>Properties\<close>



text \<open>The code of the anonymous guard is not on the list of guard codes and does not survive.\<close>

lemma anonymous_code_is_lost:
  "stands_for (Forbidden ''ALREADY_AUTHENTICATED'') x \<Longrightarrow>
   eaCode (allExceptionsFilter_catch production now header cid x) = ''FORBIDDEN''"
  by (simp add: allExceptionsFilter_catch_def Let_def or_else_def truthy_def told_forbidden)

end
