(* ===== verification/Board_Canvas.thy ===== *)
theory Board_Canvas
  imports Board_Content Card_Properties
begin

text \<open>
  The canvas of the browser client (\<open>src/frontend/src/components/board/BoardCanvas.tsx\<close>): which cards of a board it shows and
  what dropping a list or a card does to its own copy of the board and asks of the server. The copy is the answer of
  \<open>Board_Content\<close>, mapped by \<open>board.mapper.ts\<close>. Rendering is left out.
\<close>

section \<open>The answer in the client\<close>

text \<open>The client knows three shapes of a card's label; the mapper produces the one with a nested label only.\<close>

record shown_label =
  slLabelId :: "uuid option"
  slId :: "uuid option"
  slLabel :: "label_row option"

record shown_card =
  shRow :: card_row
  shAssignees :: "user_profile option list"
  shLabels :: "shown_label list"

record shown_list =
  shList :: list_row
  shCards :: "shown_card list"

definition toCardLabelItem :: "label_row option \<Rightarrow> shown_label" where
  "toCardLabelItem l = \<lparr>slLabelId = None, slId = None, slLabel = l\<rparr>"

definition toCardWithDetailsResponse :: "content_card \<Rightarrow> shown_card" where
  "toCardWithDetailsResponse c =
     \<lparr>shRow = cdCard (ccDetails c), shAssignees = cdAssignees (ccDetails c), shLabels = map toCardLabelItem (cdLabels (ccDetails c))\<rparr>"

definition toListWithCardsResponse :: "content_list \<Rightarrow> shown_list" where
  "toListWithCardsResponse l = \<lparr>shList = ctList l, shCards = map toCardWithDetailsResponse (ctCards l)\<rparr>"

text \<open>What the client holds after loading a board, the first page of it.\<close>

definition loadBoard :: "(string \<Rightarrow> string \<Rightarrow> bool) \<Rightarrow> uuid \<Rightarrow> uuid \<Rightarrow> uuid \<Rightarrow> db \<Rightarrow> shown_list list" where
  "loadBoard le board ws user s =
     (case boardService_getBoardWithContent le board ws user
             \<lparr>bqListPage = Some 1, bqListPageSize = Some 50, bqCardPageSize = Some 50\<rparr> s of
        Inl e \<Rightarrow> []
      | Inr (b, meta) \<Rightarrow> map toListWithCardsResponse (bcLists b))"

section \<open>The filter\<close>

record canvas_filter =
  cfQuery :: string
  cfLabelIds :: "uuid list"
  cfAssigneeId :: "uuid option"

text \<open>\<open>(card.description || '').toLowerCase()\<close>: a description that is neither a string nor falsy makes it throw, which is \<open>None\<close>.\<close>

fun description_text :: "json option \<Rightarrow> string option" where
  "description_text (Some (JString t)) = Some t"
| "description_text (Some (JObject kvs)) = None"
| "description_text (Some (JArray xs)) = None"
| "description_text (Some (JBool b)) = (if b then None else Some [])"
| "description_text (Some (JNumber n)) = (if n = Finite 0 then Some [] else None)"
| "description_text (Some JNull) = Some []"
| "description_text None = Some []"

definition label_selected :: "uuid list \<Rightarrow> shown_label \<Rightarrow> bool" where
  "label_selected ids l =
     (case (case slLabelId l of Some i \<Rightarrow> Some i | None \<Rightarrow> slId l) of None \<Rightarrow> False | Some i \<Rightarrow> i \<in> set ids)"

definition relations_match :: "canvas_filter \<Rightarrow> shown_card \<Rightarrow> bool" where
  "relations_match f c \<longleftrightarrow>
     (cfLabelIds f \<noteq> [] \<longrightarrow> list_ex (label_selected (cfLabelIds f)) (shLabels c)) \<and>
     (truthy (cfAssigneeId f) \<longrightarrow>
        list_ex (\<lambda>a. case a of None \<Rightarrow> False | Some u \<Rightarrow> cfAssigneeId f = Some (upId u)) (shAssignees c))"

definition keeps_card :: "canvas_filter \<Rightarrow> shown_card \<Rightarrow> bool option" where
  "keeps_card f c =
     (if cfQuery f = [] then Some (\<not> truthy (cardParentCardId (shRow c)) \<and> relations_match f c)
      else (case description_text (cardDescription (shRow c)) of
              None \<Rightarrow> None
            | Some description \<Rightarrow>
                let q = toLowerCase (cfQuery f)
                in Some ((js_includes (toLowerCase (cardTitle (shRow c))) q \<or> js_includes (toLowerCase description) q) \<and>
                         relations_match f c)))"

fun filterCards :: "canvas_filter \<Rightarrow> shown_card list \<Rightarrow> shown_card list option" where
  "filterCards f [] = Some []"
| "filterCards f (c # cs) =
     (case keeps_card f c of
        None \<Rightarrow> None
      | Some keep \<Rightarrow> map_option (\<lambda>rest. if keep then c # rest else rest) (filterCards f cs))"

section \<open>Dropping\<close>

datatype drop_type = ListType | CardType

record drop_result =
  drType :: drop_type
  drDraggableId :: uuid
  drSource :: "uuid \<times> nat"
  drDestination :: "(uuid \<times> nat) option"

text \<open>What the client asks for: \<open>listApi.move\<close> or \<open>cardApi.move\<close>.\<close>

datatype canvas_call = MoveListCall uuid "string option" "string option" | MoveCardCall uuid move_card_dto

text \<open>Array access, and the two uses of \<open>splice\<close>.\<close>

definition js_at :: "'a list \<Rightarrow> nat \<Rightarrow> 'a option" where
  "js_at xs i = (if i < length xs then Some (xs ! i) else None)"

definition splice_out :: "nat \<Rightarrow> 'a list \<Rightarrow> 'a list" where
  "splice_out i xs = take i xs @ drop (Suc i) xs"

definition splice_in :: "nat \<Rightarrow> 'a \<Rightarrow> 'a list \<Rightarrow> 'a list" where
  "splice_in i x xs = take i xs @ x # drop i xs"

definition rank_before :: "('a \<Rightarrow> string option) \<Rightarrow> nat \<Rightarrow> 'a list \<Rightarrow> string option" where
  "rank_before rank d xs = (if 0 < d then Option.bind (js_at xs (d - 1)) rank else None)"

definition rank_after_drop :: "('a \<Rightarrow> string option) \<Rightarrow> nat \<Rightarrow> 'a list \<Rightarrow> string option" where
  "rank_after_drop rank d xs = (if Suc d < length xs then Option.bind (js_at xs (Suc d)) rank else None)"

text \<open>
  \<open>None\<close> when nothing happens; else the new copy and the call. An entry \<open>None\<close> of the copy is the \<open>undefined\<close> that an index out
  of range leaves there.
\<close>

definition drop_list :: "drop_result \<Rightarrow> uuid \<times> nat \<Rightarrow> shown_list list \<Rightarrow> (shown_list option list \<times> canvas_call) option" where
  "drop_list r dest local =
     (let d = snd dest;
          reordered = splice_in d (js_at local (snd (drSource r))) (map Some (splice_out (snd (drSource r)) local));
          rank = map_option (\<lambda>l. listRank (shList l))
      in Some (reordered, MoveListCall (drDraggableId r) (rank_before rank d reordered) (rank_after_drop rank d reordered)))"

definition drop_card :: "drop_result \<Rightarrow> uuid \<times> nat \<Rightarrow> shown_list list \<Rightarrow> (shown_list option list \<times> canvas_call) option" where
  "drop_card r dest local =
     (let source = fst (drSource r); target = fst dest; d = snd dest
      in case (find (\<lambda>l. listId (shList l) = source) local, find (\<lambda>l. listId (shList l) = target) local) of
           (Some sourceList, Some targetList) \<Rightarrow>
             (case js_at (shCards sourceList) (snd (drSource r)) of
                None \<Rightarrow> None
              | Some c \<Rightarrow>
                  let sourceCards = splice_out (snd (drSource r)) (shCards sourceList);
                      movedCard = c\<lparr>shRow := (shRow c)\<lparr>cardListId := target\<rparr>\<rparr>;
                      targetCards = splice_in d movedCard (if source = target then sourceCards else shCards targetList);
                      rank = (\<lambda>c. Some (cardRank (shRow c)))
                  in Some (map (\<lambda>l. Some (if listId (shList l) = target then l\<lparr>shCards := targetCards\<rparr>
                                          else if listId (shList l) = source then l\<lparr>shCards := sourceCards\<rparr> else l)) local,
                           MoveCardCall (cardId (shRow c))
                             \<lparr>mcTargetListId = target, mcPrevRank = rank_before rank d targetCards,
                              mcNextRank = rank_after_drop rank d targetCards\<rparr>))
         | _ \<Rightarrow> None)"

definition handleDragEnd :: "drop_result \<Rightarrow> shown_list list \<Rightarrow> (shown_list option list \<times> canvas_call) option" where
  "handleDragEnd r local =
     (case drDestination r of
        None \<Rightarrow> None
      | Some dest \<Rightarrow>
          if dest = drSource r then None
          else (case drType r of ListType \<Rightarrow> drop_list r dest local | CardType \<Rightarrow> drop_card r dest local))"

text \<open>When the call fails, the copy becomes the board as it was loaded; then the board is loaded again.\<close>

definition after_call :: "bool \<Rightarrow> shown_list list \<Rightarrow> shown_list option list \<Rightarrow> shown_list option list" where
  "after_call success board local = (if success then local else map Some board)"

section \<open>Lists in strict order\<close>

lemma strictly_before_irrefl [simp]: "\<not> strictly_before le x x"
  by (simp add: strictly_before_def)

lemma strictly_before_trans: "collation le \<Longrightarrow> strictly_before le x y \<Longrightarrow> strictly_before le y z \<Longrightarrow> strictly_before le x z"
  unfolding strictly_before_def collation_def by blast

abbreviation strictly_by :: "(string \<Rightarrow> string \<Rightarrow> bool) \<Rightarrow> ('r \<Rightarrow> string) \<Rightarrow> 'r list \<Rightarrow> bool" where
  "strictly_by le key \<equiv> sorted_wrt (\<lambda>x y. strictly_before le (key x) (key y))"

lemma strictly_by_distinct: "strictly_by le key ys \<Longrightarrow> distinct ys"
  by (induction ys) auto

lemma sorted_is_strict:
  assumes "sorted_by le key zs" "strictly_by le key ys" "distinct zs" "set zs = set ys"
  shows "zs = ys"
  using assms
proof (induction ys arbitrary: zs)
  case (Cons y ys)
  then obtain z zs' where zs: "zs = z # zs'" by (cases zs) auto
  have "z = y"
  proof (rule ccontr)
    assume "z \<noteq> y"
    with Cons.prems zs have "z \<in> set ys" "y \<in> set zs'" by auto
    with Cons.prems zs show False by (auto simp: strictly_before_def)
  qed
  moreover have "y \<notin> set ys" using strictly_by_distinct [OF Cons.prems(2)] by simp
  ultimately have "set zs' = set ys" using Cons.prems(3,4) zs by auto
  with Cons.IH [of zs'] Cons.prems zs \<open>z = y\<close> show ?case by simp
qed simp

text \<open>Sorting has one answer when the keys are in strict order.\<close>

lemma order_by_is:
  assumes "collation le" "strictly_by le key ys" "distinct (map ident xs)" "set xs = set ys"
  shows "order_by le key xs = ys"
proof (rule sorted_is_strict [OF sorted_order_by [OF assms(1)] assms(2)])
  show "distinct (order_by le key xs)" using distinct_order_by [OF assms(3), of le key] by (simp add: distinct_map)
qed (use assms(4) in simp)

lemma strictly_by_splice_in:
  assumes c: "collation le" and ys: "strictly_by le key ys"
    and "0 < d \<Longrightarrow> strictly_before le (key (ys ! (d - 1))) (key x)"
    and "d < length ys \<Longrightarrow> strictly_before le (key x) (key (ys ! d))" and d: "d \<le> length ys"
  shows "strictly_by le key (splice_in d x ys)"
proof -
  have lt: "strictly_before le (key (ys ! a)) (key (ys ! b))" if "a < b" "b < length ys" for a b
    using ys that by (simp add: sorted_wrt_iff_nth_less)
  have 1: "strictly_before le (key (ys ! a)) (key x)" if a: "a < d" for a
  proof (cases "a = d - 1")
    case False
    then have "strictly_before le (key (ys ! a)) (key (ys ! (d - 1)))" using a d by (intro lt) auto
    from strictly_before_trans [OF c this] assms(3) a show ?thesis by simp
  qed (use assms(3) a in simp)
  have 2: "strictly_before le (key x) (key (ys ! b))" if b: "d \<le> b" "b < length ys" for b
  proof (cases "b = d")
    case False
    then have "strictly_before le (key (ys ! d)) (key (ys ! b))" using b by (intro lt) auto
    from strictly_before_trans [OF c _ this] assms(4) b show ?thesis by simp
  qed (use assms(4) b in simp)
  have "strictly_before le (key y) (key x)" if "y \<in> set (take d ys)" for y
    using that 1 d by (auto simp: in_set_conv_nth)
  moreover have "strictly_before le (key x) (key y)" if "y \<in> set (drop d ys)" for y
    using that 2 d by (auto simp: in_set_conv_nth)
  moreover have "strictly_before le (key y) (key z)" if "y \<in> set (take d ys)" "z \<in> set (drop d ys)" for y z
    using that ys by (metis append_take_drop_id sorted_wrt_append)
  moreover have "strictly_by le key (take d ys)" "strictly_by le key (drop d ys)"
    using ys by (simp_all add: sorted_wrt_take sorted_wrt_drop)
  ultimately show ?thesis by (auto simp: splice_in_def sorted_wrt_append)
qed

text \<open>A rank generated between the neighbours of a place fits there.\<close>

lemma placed_between:
  assumes "lexorank_laws lx le" "collation le" "strictly_by le key ys" "\<And>y. y \<in> set ys \<Longrightarrow> key y \<noteq> []" "d \<le> length ys"
    and "getRankBetween lx (if 0 < d then Some (key (ys ! (d - 1))) else None)
      (if d < length ys then Some (key (ys ! d)) else None) = Inr (key x)"
  shows "strictly_by le key (splice_in d x ys)"
proof -
  have "strictly_before le (key (ys ! (d - 1))) (key (ys ! d))" if "0 < d" "d < length ys"
    using assms(3) that by (simp add: sorted_wrt_iff_nth_less)
  then have places: "(truthy (if 0 < d then Some (key (ys ! (d - 1))) else None) \<longrightarrow>
        strictly_before le (the (if 0 < d then Some (key (ys ! (d - 1))) else None)) (key x)) \<and>
      (truthy (if d < length ys then Some (key (ys ! d)) else None) \<longrightarrow>
        strictly_before le (key x) (the (if d < length ys then Some (key (ys ! d)) else None)))"
    by (intro getRankBetween_places [OF assms(1) _ assms(6)]) (simp split: if_splits)
  have "strictly_before le (key (ys ! (d - 1))) (key x)" if "0 < d"
    using places assms(4) [of "ys ! (d - 1)"] assms(5) that by simp
  moreover have "strictly_before le (key x) (key (ys ! d))" if "d < length ys"
    using places assms(4) [of "ys ! d"] that by simp
  ultimately show ?thesis by (intro strictly_by_splice_in [OF assms(2,3)] assms(5))
qed

lemma splice_out_filter:
  "distinct (map f xs) \<Longrightarrow> k < length xs \<Longrightarrow> splice_out k xs = filter (\<lambda>x. f x \<noteq> f (xs ! k)) xs"
proof (induction xs arbitrary: k)
  case (Cons x xs)
  show ?case
  proof (cases k)
    case 0
    have "filter (\<lambda>y. f y \<noteq> f x) xs = xs" using Cons.prems(1) by (intro filter_True) (metis distinct.simps(2) image_eqI list.set_map list.simps(9))
    with 0 show ?thesis by (simp add: splice_out_def)
  next
    case (Suc n)
    with Cons.prems have "f x \<noteq> f (xs ! n)" by auto
    with Suc Cons show ?thesis by (simp add: splice_out_def)
  qed
qed simp

lemma map_splice: "map f (splice_out k xs) = splice_out k (map f xs)" "map f (splice_in d x xs) = splice_in d (f x) (map f xs)"
  by (simp_all add: splice_out_def splice_in_def take_map drop_map)

lemma set_splice_in [simp]: "set (splice_in d x xs) = insert x (set xs)"
proof -
  have "set (take d xs) \<union> set (drop d xs) = set xs" by (simp flip: set_append)
  then show ?thesis by (auto simp: splice_in_def)
qed

lemma neighbours:
  assumes "d \<le> length xs"
  shows "rank_before rank d (splice_in d x xs) = (if 0 < d then rank (xs ! (d - 1)) else None)"
    and "rank_after_drop rank d (splice_in d x xs) = (if d < length xs then rank (xs ! d) else None)"
  using assms
  by (auto simp: rank_before_def rank_after_drop_def js_at_def splice_in_def nth_append)

section \<open>The server's side of a drop\<close>

definition relocate :: "uuid \<Rightarrow> string \<Rightarrow> instant \<Rightarrow> card_row \<Rightarrow> card_row" where
  "relocate target rank now c = c\<lparr>cardListId := target, cardRank := rank, cardUpdatedAt := now\<rparr>"

lemma relocate_simps [simp]:
  "cardId (relocate t r now c) = cardId c" "cardListId (relocate t r now c) = t" "cardRank (relocate t r now c) = r"
  "cardArchivedAt (relocate t r now c) = cardArchivedAt c" "cardDeletedAt (relocate t r now c) = cardDeletedAt c"
  by (simp_all add: relocate_def)

lemma move_run:
  assumes "cardService_move lx now board ws i dto user s = (Inr moved, s')"
    and "getRankBetween lx (mcPrevRank dto) (mcNextRank dto) = Inr r"
  shows "cards s' = at_id i (relocate (mcTargetListId dto) r now) (cards s)"
  using assms
  by (auto simp: cardService_move_def with_card_Inr_iff await_Inr_iff cardRepo_moveCard_def cardRepo_update_Inr_iff
      relocate_def [abs_def] split: option.splits)

lemma set_cards_of_list:
  "x \<in> set (cards_of_list le l s) \<longleftrightarrow>
     x \<in> set (cards s) \<and> cardListId x = l \<and> cardArchivedAt x = None \<and> cardDeletedAt x = None"
  by (auto simp: cards_of_list_def)

lemma cards_of_list_moved:
  assumes le: "collation le" and ids: "distinct (map cardId (cards s))"
    and c: "c \<in> set (cards_of_list le src s)" "cardId c = i"
    and s': "cards s' = at_id i (relocate t r now) (cards s)"
    and rest: "rest = filter (\<lambda>x. cardId x \<noteq> i) (cards_of_list le l s)"
    and strict: "strictly_by le cardRank (if l = t then splice_in d (relocate t r now c) rest else rest)"
  shows "cards_of_list le l s' = (if l = t then splice_in d (relocate t r now c) rest else rest)"
proof -
  let ?P = "\<lambda>x. cardListId x = l \<and> cardArchivedAt x = None \<and> cardDeletedAt x = None"
  have only: "x = c" if "x \<in> set (cards s)" "cardId x = i" for x
    using that c ids by (auto simp: set_cards_of_list distinct_map dest: inj_onD)
  have mem: "c \<in> set (cards s)" "cardArchivedAt c = None" "cardDeletedAt c = None"
    using c(1) by (simp_all add: set_cards_of_list)
  have new: "x \<in> set (cards s') \<longleftrightarrow> x = relocate t r now c \<or> x \<in> set (cards s) \<and> cardId x \<noteq> i" for x
  proof
    assume "x \<in> set (cards s')"
    then obtain y where "y \<in> set (cards s)" "x = (if cardId y = i then relocate t r now y else y)"
      by (auto simp: s' at_id_def)
    with only [of y] show "x = relocate t r now c \<or> x \<in> set (cards s) \<and> cardId x \<noteq> i" by (auto split: if_splits)
  next
    assume "x = relocate t r now c \<or> x \<in> set (cards s) \<and> cardId x \<noteq> i"
    then show "x \<in> set (cards s')"
      using mem(1) c(2) by (auto simp: s' at_id_def image_iff intro: bexI [of _ c])
  qed
  have "set (filter ?P (cards s')) = set (if l = t then splice_in d (relocate t r now c) rest else rest)"
    by (intro set_eqI) (auto simp: new rest set_cards_of_list mem)
  moreover have "distinct (map cardId (filter ?P (cards s')))"
    using ids by (simp add: s' distinct_map_filter)
  ultimately have "order_by le cardRank (filter ?P (cards s')) = (if l = t then splice_in d (relocate t r now c) rest else rest)"
    by (intro order_by_is [OF le strict])
  then show ?thesis by (simp only: cards_of_list_def)
qed

section \<open>Properties\<close>

text \<open>The copy of the client is in step with the server: every list it shows has all its cards, in strict order, none of them
  filtered out.\<close>

definition in_step :: "(string \<Rightarrow> string \<Rightarrow> bool) \<Rightarrow> canvas_filter \<Rightarrow> shown_list list \<Rightarrow> db \<Rightarrow> bool" where
  "in_step le f local s \<longleftrightarrow>
     distinct (map (\<lambda>L. listId (shList L)) local) \<and>
     (\<forall>L\<in>set local. map shRow (shCards L) = cards_of_list le (listId (shList L)) s \<and>
        strictly_by le cardRank (map shRow (shCards L)) \<and> filterCards f (shCards L) = Some (shCards L))"

text \<open>What the drag-and-drop library reports: the dragged card by its place among the cards shown, and a place in the target list
  among the other cards.\<close>

definition reported_drop :: "canvas_filter \<Rightarrow> shown_list list \<Rightarrow> drop_result \<Rightarrow> shown_list \<Rightarrow> shown_list \<Rightarrow> bool" where
  "reported_drop f local r L1 L2 \<longleftrightarrow>
     drType r = CardType \<and> L1 \<in> set local \<and> listId (shList L1) = fst (drSource r) \<and>
     (\<exists>vis c. filterCards f (shCards L1) = Some vis \<and> js_at vis (snd (drSource r)) = Some c \<and>
        cardId (shRow c) = drDraggableId r) \<and>
     (\<exists>d. drDestination r = Some (listId (shList L2), d) \<and> L2 \<in> set local \<and>
        d \<le> length (filter (\<lambda>c. cardId (shRow c) \<noteq> drDraggableId r) (shCards L2)))"

lemma find_distinct:
  "distinct (map f xs) \<Longrightarrow> x \<in> set xs \<Longrightarrow> find (\<lambda>y. f y = f x) xs = Some x"
  by (induction xs) (auto simp: image_iff)

lemma others_in_step:
  assumes "in_step le f local s" "L1 \<in> set local" "L2 \<in> set local" "distinct (map cardId (cards s))"
    and "js_at (shCards L1) k = Some c"
  shows "map shRow (if listId (shList L1) = listId (shList L2) then splice_out k (shCards L1) else shCards L2) =
    filter (\<lambda>x. cardId x \<noteq> cardId (shRow c)) (cards_of_list le (listId (shList L2)) s)"
proof -
  let ?rows = "\<lambda>L. cards_of_list le (listId (shList L)) s"
  have rows: "map shRow (shCards L) = ?rows L" if "L \<in> set local" for L
    using assms(1) that by (simp add: in_step_def)
  have k: "k < length (?rows L1)" "?rows L1 ! k = shRow c"
    using assms(5) rows [OF assms(2), symmetric] by (auto simp: js_at_def split: if_splits)
  have dist: "distinct (map cardId (?rows L))" for L
    unfolding cards_of_list_def by (intro distinct_order_by) (simp add: distinct_map_filter assms(4))
  show ?thesis
  proof (cases "listId (shList L1) = listId (shList L2)")
    case True
    with splice_out_filter [OF dist k(1)] k(2) rows [OF assms(2)] show ?thesis by (simp add: map_splice)
  next
    case False
    have c: "shRow c \<in> set (?rows L1)" using k by (metis nth_mem)
    have "cardId x \<noteq> cardId (shRow c)" if "x \<in> set (?rows L2)" for x
    proof
      assume "cardId x = cardId (shRow c)"
      then have "x = shRow c" using that c assms(4) by (auto simp: set_cards_of_list distinct_map dest: inj_onD)
      with that c False show False by (simp add: set_cards_of_list)
    qed
    then have "filter (\<lambda>x. cardId x \<noteq> cardId (shRow c)) (?rows L2) = ?rows L2" by (intro filter_True) blast
    with False rows [OF assms(3)] show ?thesis by simp
  qed
qed

text \<open>What a reported drop does to the copy, and what it asks for.\<close>

definition after_drop :: "uuid \<Rightarrow> uuid \<Rightarrow> shown_card list \<Rightarrow> shown_card list \<Rightarrow> shown_list \<Rightarrow> shown_list" where
  "after_drop source t targetCards sourceCards l =
     (if listId (shList l) = t then l\<lparr>shCards := targetCards\<rparr>
      else if listId (shList l) = source then l\<lparr>shCards := sourceCards\<rparr> else l)"

lemma drop_effect:
  assumes copy: "in_step le f local s" and drop: "reported_drop f local r L1 L2" and ids: "distinct (map cardId (cards s))"
    and effect: "handleDragEnd r local = Some (after, MoveCardCall i dto)" and t: "t = listId (shList L2)"
  obtains c d m T where "L1 \<in> set local" "L2 \<in> set local" "i = drDraggableId r" "cardId (shRow m) = i"
    "js_at (shCards L1) (snd (drSource r)) = Some c" "cardId (shRow c) = i"
    "after = map Some (map (after_drop (listId (shList L1)) t (splice_in d m T) (splice_out (snd (drSource r)) (shCards L1))) local)"
    "dto = \<lparr>mcTargetListId = t, mcPrevRank = rank_before (\<lambda>c. Some (cardRank (shRow c))) d (splice_in d m T),
       mcNextRank = rank_after_drop (\<lambda>c. Some (cardRank (shRow c))) d (splice_in d m T)\<rparr>"
    "map shRow T = filter (\<lambda>x. cardId x \<noteq> i) (cards_of_list le t s)" "d \<le> length T"
proof -
  obtain c d where L: "L1 \<in> set local" "L2 \<in> set local" and src: "fst (drSource r) = listId (shList L1)"
    and c: "js_at (shCards L1) (snd (drSource r)) = Some c" "cardId (shRow c) = drDraggableId r"
    and dest: "drDestination r = Some (t, d)" "drType r = CardType"
    and d: "d \<le> length (filter (\<lambda>x. cardId (shRow x) \<noteq> cardId (shRow c)) (shCards L2))"
    using drop copy by (auto simp: reported_drop_def in_step_def t)
  obtain T where T_def: "T = (if listId (shList L1) = t then splice_out (snd (drSource r)) (shCards L1) else shCards L2)" by blast
  obtain m where m_def: "m = c\<lparr>shRow := (shRow c)\<lparr>cardListId := t\<rparr>\<rparr>" by blast
  have found: "find (\<lambda>l. listId (shList l) = listId (shList L)) local = Some L" if "L \<in> set local" for L
    using copy that by (intro find_distinct [where f = "\<lambda>L. listId (shList L)"]) (simp_all add: in_step_def)
  have "drop_card r (t, d) local = Some (after, MoveCardCall i dto)"
    using effect dest by (simp add: handleDragEnd_def split: if_splits)
  moreover have "drop_card r (t, d) local =
      Some (map (\<lambda>l. Some (after_drop (listId (shList L1)) t (splice_in d m T) (splice_out (snd (drSource r)) (shCards L1)) l)) local,
        MoveCardCall (cardId (shRow c))
          \<lparr>mcTargetListId = t, mcPrevRank = rank_before (\<lambda>c. Some (cardRank (shRow c))) d (splice_in d m T),
           mcNextRank = rank_after_drop (\<lambda>c. Some (cardRank (shRow c))) d (splice_in d m T)\<rparr>)"
    unfolding drop_card_def Let_def src fst_conv snd_conv t after_drop_def
    by (simp only: found [OF L(1)] found [OF L(2)] c(1) prod.case option.case T_def m_def t)
  moreover have rest: "map shRow T = filter (\<lambda>x. cardId x \<noteq> cardId (shRow c)) (cards_of_list le t s)"
    using others_in_step [OF copy L ids c(1)] by (simp add: T_def t)
  moreover have "map shRow (shCards L2) = cards_of_list le t s" using copy L(2) by (simp add: in_step_def t)
  then have "d \<le> length T"
    using d arg_cong [OF rest, of length] by (metis (no_types, lifting) comp_apply filter_cong filter_map length_map)
  ultimately show ?thesis using that [of m c d T] L c by (auto simp: m_def)
qed


definition everything :: canvas_filter where
  "everything = \<lparr>cfQuery = [], cfLabelIds = [], cfAssigneeId = None\<rparr>"

definition first_to_second :: "uuid \<Rightarrow> drop_result" where
  "first_to_second i = \<lparr>drType = CardType, drDraggableId = i, drSource = (''l'', 0), drDestination = Some (''l'', 1)\<rparr>"


text \<open>The indices of a drop count the cards shown, the handler counts all cards: with a subcard in front, it moves the subcard.\<close>

definition subcard_first :: db where
  "subcard_first = sample_db\<lparr>cards := [sample_card ''a'' ''l'' (unary 3)\<lparr>cardParentCardId := Some ''c''\<rparr>, sample_card ''c'' ''l'' (unary 7),
     sample_card ''e'' ''l'' (unary 20)]\<rparr>"

lemma hidden_subcard_is_moved_instead:
  "map_option (map (cardId \<circ> shRow)) (filterCards everything (shCards (hd (loadBoard shorter ''b'' ''w'' ''m'' subcard_first)))) =
     Some [''c'', ''e''] \<and>
   map_option snd (handleDragEnd (first_to_second ''c'') (loadBoard shorter ''b'' ''w'' ''m'' subcard_first)) =
     Some (MoveCardCall ''a'' \<lparr>mcTargetListId = ''l'', mcPrevRank = Some (unary 7), mcNextRank = Some (unary 20)\<rparr>)"
  by code_simp

text \<open>No answer of the server has a label in a shape the label filter understands: selecting a label hides every card.\<close>

lemma label_filter_hides_everything:
  assumes "cfLabelIds f \<noteq> []" "cfQuery f = []"
  shows "filterCards f (map toCardWithDetailsResponse cs) = Some []"
  using assms
  by (induction cs)
    (simp_all add: keeps_card_def relations_match_def toCardWithDetailsResponse_def list_ex_iff label_selected_def toCardLabelItem_def)

text \<open>A search throws on a board that holds a card with a structured description.\<close>

lemma search_fails_on_structured_description:
  assumes "cfQuery f \<noteq> []" "c \<in> set cs" "cardDescription (shRow c) = Some (JObject kvs)"
  shows "filterCards f cs = None"
  using assms(2,3) by (induction cs) (auto simp: keeps_card_def assms(1) split: option.splits)

end
