(* ===== verification/Client_Requests.thy ===== *)
theory Client_Requests
  imports Decimals
begin

text \<open>
  What the browser client asks of the server: the functions of \<open>src/frontend/src/api/endpoints.ts\<close>, each with the request it
  makes. The query is the list \<open>URLSearchParams\<close> is filled with, before it is encoded; the body is the value that is
  stringified, an object being the list of its defined fields. The upload of bytes to the object store goes to another
  host and is left out; the token a call may name is in \<open>Client_Session\<close>.
\<close>

named_theorems client_defs \<open>the functions of the client\<close>

section \<open>Requests\<close>

datatype http_method = Get | Post | Patch | Put | Delete

record api_call =
  acMethod :: http_method
  acPath :: string
  acQuery :: "(string \<times> string) list"
  acBody :: "json option"

type_synonym json_object = "(string \<times> json) list"

definition api_get :: "string \<Rightarrow> (string \<times> string) list \<Rightarrow> api_call" where
  "api_get path query = \<lparr>acMethod = Get, acPath = path, acQuery = query, acBody = None\<rparr>"

definition api_send :: "http_method \<Rightarrow> string \<Rightarrow> json option \<Rightarrow> api_call" where
  "api_send verb path body = \<lparr>acMethod = verb, acPath = path, acQuery = [], acBody = body\<rparr>"

text \<open>\<open>if (x) params.set(k, x)\<close>, and \<open>String(x || n)\<close>.\<close>

definition set_text :: "string \<Rightarrow> string option \<Rightarrow> (string \<times> string) list" where
  "set_text k v = (if truthy v then [(k, the v)] else [])"

definition set_number :: "string \<Rightarrow> nat option \<Rightarrow> (string \<times> string) list" where
  "set_number k v = (case v of None \<Rightarrow> [] | Some n \<Rightarrow> if n = 0 then [] else [(k, show_nat n)])"

definition number_or :: "nat \<Rightarrow> nat option \<Rightarrow> string" where
  "number_or d v = show_nat (case v of None \<Rightarrow> d | Some n \<Rightarrow> if n = 0 then d else n)"

text \<open>The first of the fields that is defined, sent under the first name.\<close>

definition pick :: "string list \<Rightarrow> json_object \<Rightarrow> json_object" where
  "pick names dto =
     (case List.map_filter (map_of dto) names of [] \<Rightarrow> [] | v # vs \<Rightarrow> [(hd names, v)])"

record feed_query =
  fqCursor :: "string option"
  fqLimit :: "nat option"
  fqEntityType :: "string option"
  fqEntityId :: "string option"
  fqActorId :: "string option"
  fqBoardId :: "string option"

definition buildActivityQuery :: "feed_query \<Rightarrow> (string \<times> string) list" where
  "buildActivityQuery q =
     set_text ''cursor'' (fqCursor q) @ set_number ''limit'' (fqLimit q) @ set_text ''entityType'' (fqEntityType q) @
     set_text ''entityId'' (fqEntityId q) @ set_text ''actorId'' (fqActorId q) @ set_text ''boardId'' (fqBoardId q)"

section \<open>\<open>authApi\<close>\<close>

definition authApi_register :: "json_object \<Rightarrow> api_call" where
  [client_defs]: "authApi_register dto =
     api_send Post (''/auth/register'') (Some (JObject dto))"

definition authApi_login :: "json_object \<Rightarrow> api_call" where
  [client_defs]: "authApi_login dto =
     api_send Post (''/auth/login'') (Some (JObject dto))"

definition authApi_refresh :: "api_call" where
  [client_defs]: "authApi_refresh =
     api_send Post (''/auth/refresh'') None"

definition authApi_logout :: "api_call" where
  [client_defs]: "authApi_logout =
     api_send Post (''/auth/logout'') None"

definition authApi_logoutAll :: "api_call" where
  [client_defs]: "authApi_logoutAll =
     api_send Post (''/auth/logout-all'') None"

definition authApi_forgotPassword :: "string \<Rightarrow> api_call" where
  [client_defs]: "authApi_forgotPassword mail =
     api_send Post (''/auth/forgot-password'') (Some (JObject [(''email'', JString mail)]))"

definition authApi_resetPassword :: "json_object \<Rightarrow> api_call" where
  [client_defs]: "authApi_resetPassword dto =
     api_send Post (''/auth/reset-password'') (Some (JObject dto))"

definition authApi_verifyEmail :: "string \<Rightarrow> api_call" where
  [client_defs]: "authApi_verifyEmail token =
     api_send Post (''/auth/verify-email'') (Some (JObject [(''token'', JString token)]))"

definition authApi_resendVerification :: "api_call" where
  [client_defs]: "authApi_resendVerification =
     api_send Post (''/auth/resend-verification'') None"

definition authApi_getProfile :: "api_call" where
  [client_defs]: "authApi_getProfile =
     api_get (''/auth/me'') []"

definition authApi_updateProfile :: "json_object \<Rightarrow> api_call" where
  [client_defs]: "authApi_updateProfile dto =
     api_send Patch (''/auth/me'') (Some (JObject dto))"

definition authApi_changePassword :: "json_object \<Rightarrow> api_call" where
  [client_defs]: "authApi_changePassword dto =
     api_send Patch (''/auth/me/password'') (Some (JObject dto))"

definition authApi_getGoogleAuthUrl :: "string \<Rightarrow> string option \<Rightarrow> api_call" where
  [client_defs]: "authApi_getGoogleAuthUrl origin redirect =
     api_get (''/auth/google'') ((if origin = [] then [] else [(''origin'', origin)]) @ set_text ''redirect'' redirect)"

section \<open>\<open>workspaceApi\<close>\<close>

definition workspaceApi_create :: "json_object \<Rightarrow> api_call" where
  [client_defs]: "workspaceApi_create dto =
     api_send Post (''/workspaces'') (Some (JObject dto))"

definition workspaceApi_listMine :: "string option \<Rightarrow> nat option \<Rightarrow> api_call" where
  [client_defs]: "workspaceApi_listMine cursor limit =
     api_get (''/workspaces'') (set_text ''cursor'' cursor @ set_number ''limit'' limit)"

definition workspaceApi_getById :: "string \<Rightarrow> api_call" where
  [client_defs]: "workspaceApi_getById ws =
     api_get (''/workspaces/'' @ ws) []"

definition workspaceApi_getBySlug :: "string \<Rightarrow> api_call" where
  [client_defs]: "workspaceApi_getBySlug slug =
     api_get (''/workspaces/slug/'' @ slug) []"

definition workspaceApi_update :: "string \<Rightarrow> json_object \<Rightarrow> api_call" where
  [client_defs]: "workspaceApi_update ws dto =
     api_send Patch (''/workspaces/'' @ ws) (Some (JObject dto))"

definition workspaceApi_archive :: "string \<Rightarrow> api_call" where
  [client_defs]: "workspaceApi_archive ws =
     api_send Delete (''/workspaces/'' @ ws) None"

definition workspaceApi_leave :: "string \<Rightarrow> api_call" where
  [client_defs]: "workspaceApi_leave ws =
     api_send Delete (''/workspaces/'' @ ws @ ''/leave'') None"

definition workspaceApi_transferOwnership :: "string \<Rightarrow> string \<Rightarrow> api_call" where
  [client_defs]: "workspaceApi_transferOwnership ws newOwner =
     api_send Post (''/workspaces/'' @ ws @ ''/transfer-ownership'') (Some (JObject [(''newOwnerId'', JString newOwner)]))"

definition workspaceApi_getMembers :: "string \<Rightarrow> api_call" where
  [client_defs]: "workspaceApi_getMembers ws =
     api_get (''/workspaces/'' @ ws @ ''/members'') []"

definition workspaceApi_updateMemberRole :: "string \<Rightarrow> string \<Rightarrow> string \<Rightarrow> api_call" where
  [client_defs]: "workspaceApi_updateMemberRole ws m role =
     api_send Patch (''/workspaces/'' @ ws @ ''/members/'' @ m) (Some (JObject [(''role'', JString role)]))"

definition workspaceApi_removeMember :: "string \<Rightarrow> string \<Rightarrow> api_call" where
  [client_defs]: "workspaceApi_removeMember ws m =
     api_send Delete (''/workspaces/'' @ ws @ ''/members/'' @ m) None"

definition workspaceApi_inviteMember :: "string \<Rightarrow> string \<Rightarrow> string option \<Rightarrow> api_call" where
  [client_defs]: "workspaceApi_inviteMember ws mail role =
     api_send Post (''/workspaces/'' @ ws @ ''/invitations'')
       (Some (JObject [(''email'', JString mail), (''role'', JString (if truthy role then the role else ''member''))]))"

definition workspaceApi_getInvitations :: "string \<Rightarrow> api_call" where
  [client_defs]: "workspaceApi_getInvitations ws =
     api_get (''/workspaces/'' @ ws @ ''/invitations'') []"

definition workspaceApi_revokeInvitation :: "string \<Rightarrow> string \<Rightarrow> api_call" where
  [client_defs]: "workspaceApi_revokeInvitation ws ivt =
     api_send Delete (''/workspaces/'' @ ws @ ''/invitations/'' @ ivt) None"

definition workspaceApi_acceptInvitation :: "string \<Rightarrow> api_call" where
  [client_defs]: "workspaceApi_acceptInvitation token =
     api_send Post (''/workspaces/invitations/accept'') (Some (JObject [(''token'', JString token)]))"

section \<open>\<open>boardApi\<close>\<close>

definition boardApi_create :: "string \<Rightarrow> json_object \<Rightarrow> api_call" where
  [client_defs]: "boardApi_create ws dto =
     api_send Post (''/workspaces/'' @ ws @ ''/boards'') (Some (JObject dto))"

definition boardApi_list :: "string \<Rightarrow> string option \<Rightarrow> nat option \<Rightarrow> api_call" where
  [client_defs]: "boardApi_list ws cursor limit =
     api_get (''/workspaces/'' @ ws @ ''/boards'') (set_text ''cursor'' cursor @ set_number ''limit'' limit)"

definition boardApi_getWithContent :: "string \<Rightarrow> string \<Rightarrow> nat option \<Rightarrow> nat option \<Rightarrow> nat option \<Rightarrow> api_call" where
  [client_defs]: "boardApi_getWithContent ws b listPage listPageSize cardPageSize =
     api_get (''/workspaces/'' @ ws @ ''/boards/'' @ b)
       [(''listPage'', number_or 1 listPage), (''listPageSize'', number_or 50 listPageSize), (''cardPageSize'', number_or 50 cardPageSize)]"

definition boardApi_update :: "string \<Rightarrow> string \<Rightarrow> json_object \<Rightarrow> api_call" where
  [client_defs]: "boardApi_update ws b dto =
     api_send Patch (''/workspaces/'' @ ws @ ''/boards/'' @ b) (Some (JObject dto))"

definition boardApi_archive :: "string \<Rightarrow> string \<Rightarrow> api_call" where
  [client_defs]: "boardApi_archive ws b =
     api_send Delete (''/workspaces/'' @ ws @ ''/boards/'' @ b) None"

definition boardApi_listArchived :: "string \<Rightarrow> string option \<Rightarrow> nat option \<Rightarrow> api_call" where
  [client_defs]: "boardApi_listArchived ws cursor limit =
     api_get (''/workspaces/'' @ ws @ ''/boards/archived'') (set_text ''cursor'' cursor @ set_number ''limit'' limit)"

definition boardApi_deletePermanently :: "string \<Rightarrow> string \<Rightarrow> api_call" where
  [client_defs]: "boardApi_deletePermanently ws b =
     api_send Delete (''/workspaces/'' @ ws @ ''/boards/'' @ b @ ''/permanent'') None"

definition boardApi_unarchive :: "string \<Rightarrow> string \<Rightarrow> api_call" where
  [client_defs]: "boardApi_unarchive ws b =
     api_send Patch (''/workspaces/'' @ ws @ ''/boards/'' @ b @ ''/unarchive'') None"

definition boardApi_star :: "string \<Rightarrow> string \<Rightarrow> api_call" where
  [client_defs]: "boardApi_star ws b =
     api_send Post (''/workspaces/'' @ ws @ ''/boards/'' @ b @ ''/star'') None"

definition boardApi_unstar :: "string \<Rightarrow> string \<Rightarrow> api_call" where
  [client_defs]: "boardApi_unstar ws b =
     api_send Delete (''/workspaces/'' @ ws @ ''/boards/'' @ b @ ''/star'') None"

definition boardApi_getActivities :: "string \<Rightarrow> string \<Rightarrow> string option \<Rightarrow> nat option \<Rightarrow> api_call" where
  [client_defs]: "boardApi_getActivities ws b cursor limit =
     api_get (''/workspaces/'' @ ws @ ''/boards/'' @ b @ ''/activity'') (set_text ''cursor'' cursor @ set_number ''limit'' limit)"

section \<open>\<open>listApi\<close>\<close>

definition listApi_create :: "string \<Rightarrow> string \<Rightarrow> json_object \<Rightarrow> api_call" where
  [client_defs]: "listApi_create ws b dto =
     api_send Post (''/workspaces/'' @ ws @ ''/boards/'' @ b @ ''/lists'') (Some (JObject dto))"

definition listApi_update :: "string \<Rightarrow> string \<Rightarrow> string \<Rightarrow> json_object \<Rightarrow> api_call" where
  [client_defs]: "listApi_update ws b l dto =
     api_send Patch (''/workspaces/'' @ ws @ ''/boards/'' @ b @ ''/lists/'' @ l) (Some (JObject dto))"

definition listApi_move :: "string \<Rightarrow> string \<Rightarrow> string \<Rightarrow> json_object \<Rightarrow> api_call" where
  [client_defs]: "listApi_move ws b l dto =
     api_send Patch (''/workspaces/'' @ ws @ ''/boards/'' @ b @ ''/lists/'' @ l @ ''/move'') (Some (JObject dto))"

definition listApi_archive :: "string \<Rightarrow> string \<Rightarrow> string \<Rightarrow> api_call" where
  [client_defs]: "listApi_archive ws b l =
     api_send Delete (''/workspaces/'' @ ws @ ''/boards/'' @ b @ ''/lists/'' @ l) None"

definition listApi_unarchive :: "string \<Rightarrow> string \<Rightarrow> string \<Rightarrow> api_call" where
  [client_defs]: "listApi_unarchive ws b l =
     api_send Patch (''/workspaces/'' @ ws @ ''/boards/'' @ b @ ''/lists/'' @ l @ ''/unarchive'') None"

definition listApi_listArchived :: "string \<Rightarrow> string \<Rightarrow> string option \<Rightarrow> nat option \<Rightarrow> api_call" where
  [client_defs]: "listApi_listArchived ws b cursor limit =
     api_get (''/workspaces/'' @ ws @ ''/boards/'' @ b @ ''/lists/archived'') (set_text ''cursor'' cursor @ set_number ''limit'' limit)"

definition listApi_deletePermanently :: "string \<Rightarrow> string \<Rightarrow> string \<Rightarrow> api_call" where
  [client_defs]: "listApi_deletePermanently ws b l =
     api_send Delete (''/workspaces/'' @ ws @ ''/boards/'' @ b @ ''/lists/'' @ l @ ''/permanent'') None"

section \<open>\<open>cardApi\<close>\<close>

definition cardApi_create :: "string \<Rightarrow> string \<Rightarrow> string \<Rightarrow> json_object \<Rightarrow> api_call" where
  [client_defs]: "cardApi_create ws b l dto =
     api_send Post (''/workspaces/'' @ ws @ ''/boards/'' @ b @ ''/lists/'' @ l @ ''/cards'') (Some (JObject dto))"

definition cardApi_getDetails :: "string \<Rightarrow> string \<Rightarrow> string \<Rightarrow> api_call" where
  [client_defs]: "cardApi_getDetails ws b c =
     api_get (''/workspaces/'' @ ws @ ''/boards/'' @ b @ ''/cards/'' @ c) []"

definition cardApi_update :: "string \<Rightarrow> string \<Rightarrow> string \<Rightarrow> json_object \<Rightarrow> api_call" where
  [client_defs]: "cardApi_update ws b c dto =
     api_send Patch (''/workspaces/'' @ ws @ ''/boards/'' @ b @ ''/cards/'' @ c)
       (Some (JObject (pick [''title''] dto @ pick [''description''] dto @ pick [''dueDate''] dto @
          pick [''isComplete'', ''isCompleted''] dto @ pick [''coverImageUrl'', ''coverUrl''] dto)))"

definition cardApi_move :: "string \<Rightarrow> string \<Rightarrow> string \<Rightarrow> json_object \<Rightarrow> api_call" where
  [client_defs]: "cardApi_move ws b c dto =
     api_send Patch (''/workspaces/'' @ ws @ ''/boards/'' @ b @ ''/cards/'' @ c @ ''/move'') (Some (JObject dto))"

definition cardApi_archive :: "string \<Rightarrow> string \<Rightarrow> string \<Rightarrow> api_call" where
  [client_defs]: "cardApi_archive ws b c =
     api_send Delete (''/workspaces/'' @ ws @ ''/boards/'' @ b @ ''/cards/'' @ c) None"

definition cardApi_listArchived :: "string \<Rightarrow> string \<Rightarrow> string option \<Rightarrow> nat option \<Rightarrow> api_call" where
  [client_defs]: "cardApi_listArchived ws b cursor limit =
     api_get (''/workspaces/'' @ ws @ ''/boards/'' @ b @ ''/cards/archived'') (set_text ''cursor'' cursor @ set_number ''limit'' limit)"

definition cardApi_deletePermanently :: "string \<Rightarrow> string \<Rightarrow> string \<Rightarrow> api_call" where
  [client_defs]: "cardApi_deletePermanently ws b c =
     api_send Delete (''/workspaces/'' @ ws @ ''/boards/'' @ b @ ''/cards/'' @ c @ ''/permanent'') None"

definition cardApi_unarchive :: "string \<Rightarrow> string \<Rightarrow> string \<Rightarrow> api_call" where
  [client_defs]: "cardApi_unarchive ws b c =
     api_send Patch (''/workspaces/'' @ ws @ ''/boards/'' @ b @ ''/cards/'' @ c @ ''/unarchive'') None"

definition cardApi_addAssignee :: "string \<Rightarrow> string \<Rightarrow> string \<Rightarrow> string \<Rightarrow> api_call" where
  [client_defs]: "cardApi_addAssignee ws b c u =
     api_send Post (''/workspaces/'' @ ws @ ''/boards/'' @ b @ ''/cards/'' @ c @ ''/assignees/'' @ u) None"

definition cardApi_removeAssignee :: "string \<Rightarrow> string \<Rightarrow> string \<Rightarrow> string \<Rightarrow> api_call" where
  [client_defs]: "cardApi_removeAssignee ws b c u =
     api_send Delete (''/workspaces/'' @ ws @ ''/boards/'' @ b @ ''/cards/'' @ c @ ''/assignees/'' @ u) None"

definition cardApi_addLabel :: "string \<Rightarrow> string \<Rightarrow> string \<Rightarrow> string \<Rightarrow> api_call" where
  [client_defs]: "cardApi_addLabel ws b c lab =
     api_send Post (''/workspaces/'' @ ws @ ''/boards/'' @ b @ ''/cards/'' @ c @ ''/labels/'' @ lab) None"

definition cardApi_removeLabel :: "string \<Rightarrow> string \<Rightarrow> string \<Rightarrow> string \<Rightarrow> api_call" where
  [client_defs]: "cardApi_removeLabel ws b c lab =
     api_send Delete (''/workspaces/'' @ ws @ ''/boards/'' @ b @ ''/cards/'' @ c @ ''/labels/'' @ lab) None"

definition cardApi_updatePriority :: "string \<Rightarrow> string \<Rightarrow> string \<Rightarrow> json_object \<Rightarrow> api_call" where
  [client_defs]: "cardApi_updatePriority ws b c dto =
     api_send Patch (''/workspaces/'' @ ws @ ''/boards/'' @ b @ ''/cards/'' @ c @ ''/priority'') (Some (JObject dto))"

definition cardApi_updateStatus :: "string \<Rightarrow> string \<Rightarrow> string \<Rightarrow> json_object \<Rightarrow> api_call" where
  [client_defs]: "cardApi_updateStatus ws b c dto =
     api_send Patch (''/workspaces/'' @ ws @ ''/boards/'' @ b @ ''/cards/'' @ c @ ''/status'') (Some (JObject dto))"

definition cardApi_createSubcard :: "string \<Rightarrow> string \<Rightarrow> string \<Rightarrow> json_object \<Rightarrow> api_call" where
  [client_defs]: "cardApi_createSubcard ws b c dto =
     api_send Post (''/workspaces/'' @ ws @ ''/boards/'' @ b @ ''/cards/'' @ c @ ''/subcards'') (Some (JObject dto))"

definition cardApi_attachSubcard :: "string \<Rightarrow> string \<Rightarrow> string \<Rightarrow> string \<Rightarrow> api_call" where
  [client_defs]: "cardApi_attachSubcard ws b c sub =
     api_send Post (''/workspaces/'' @ ws @ ''/boards/'' @ b @ ''/cards/'' @ c @ ''/subcards/attach'') (Some (JObject [(''subcardId'', JString sub)]))"

definition cardApi_getWithSubcards :: "string \<Rightarrow> string \<Rightarrow> string \<Rightarrow> api_call" where
  [client_defs]: "cardApi_getWithSubcards ws b c =
     api_get (''/workspaces/'' @ ws @ ''/boards/'' @ b @ ''/cards/'' @ c @ ''/with-subcards'') []"

definition cardApi_detachSubcard :: "string \<Rightarrow> string \<Rightarrow> string \<Rightarrow> api_call" where
  [client_defs]: "cardApi_detachSubcard ws b c =
     api_send Delete (''/workspaces/'' @ ws @ ''/boards/'' @ b @ ''/cards/'' @ c @ ''/parent'') None"

section \<open>\<open>checklistApi\<close>\<close>

definition checklistApi_createChecklist :: "string \<Rightarrow> string \<Rightarrow> string \<Rightarrow> json_object \<Rightarrow> api_call" where
  [client_defs]: "checklistApi_createChecklist ws b c dto =
     api_send Post (''/workspaces/'' @ ws @ ''/boards/'' @ b @ ''/cards/'' @ c @ ''/checklists'') (Some (JObject dto))"

definition checklistApi_list :: "string \<Rightarrow> string \<Rightarrow> string \<Rightarrow> api_call" where
  [client_defs]: "checklistApi_list ws b c =
     api_get (''/workspaces/'' @ ws @ ''/boards/'' @ b @ ''/cards/'' @ c @ ''/checklists'') []"

definition checklistApi_renameChecklist :: "string \<Rightarrow> string \<Rightarrow> string \<Rightarrow> string \<Rightarrow> json_object \<Rightarrow> api_call" where
  [client_defs]: "checklistApi_renameChecklist ws b c k dto =
     api_send Patch (''/workspaces/'' @ ws @ ''/boards/'' @ b @ ''/cards/'' @ c @ ''/checklists/'' @ k) (Some (JObject dto))"

definition checklistApi_deleteChecklist :: "string \<Rightarrow> string \<Rightarrow> string \<Rightarrow> string \<Rightarrow> api_call" where
  [client_defs]: "checklistApi_deleteChecklist ws b c k =
     api_send Delete (''/workspaces/'' @ ws @ ''/boards/'' @ b @ ''/cards/'' @ c @ ''/checklists/'' @ k) None"

definition checklistApi_addItem :: "string \<Rightarrow> string \<Rightarrow> string \<Rightarrow> string \<Rightarrow> json_object \<Rightarrow> api_call" where
  [client_defs]: "checklistApi_addItem ws b c k dto =
     api_send Post (''/workspaces/'' @ ws @ ''/boards/'' @ b @ ''/cards/'' @ c @ ''/checklists/'' @ k @ ''/items'') (Some (JObject dto))"

definition checklistApi_updateItem :: "string \<Rightarrow> string \<Rightarrow> string \<Rightarrow> string \<Rightarrow> string \<Rightarrow> json_object \<Rightarrow> api_call" where
  [client_defs]: "checklistApi_updateItem ws b c k i dto =
     api_send Patch (''/workspaces/'' @ ws @ ''/boards/'' @ b @ ''/cards/'' @ c @ ''/checklists/'' @ k @ ''/items/'' @ i) (Some (JObject dto))"

definition checklistApi_removeItem :: "string \<Rightarrow> string \<Rightarrow> string \<Rightarrow> string \<Rightarrow> string \<Rightarrow> api_call" where
  [client_defs]: "checklistApi_removeItem ws b c k i =
     api_send Delete (''/workspaces/'' @ ws @ ''/boards/'' @ b @ ''/cards/'' @ c @ ''/checklists/'' @ k @ ''/items/'' @ i) None"

definition checklistApi_promoteItem :: "string \<Rightarrow> string \<Rightarrow> string \<Rightarrow> string \<Rightarrow> string \<Rightarrow> api_call" where
  [client_defs]: "checklistApi_promoteItem ws b c k i =
     api_send Post (''/workspaces/'' @ ws @ ''/boards/'' @ b @ ''/cards/'' @ c @ ''/checklists/'' @ k @ ''/items/'' @ i @ ''/promote'') None"

section \<open>\<open>labelApi\<close>\<close>

definition labelApi_createLabel :: "string \<Rightarrow> string + json_object \<Rightarrow> json_object option \<Rightarrow> api_call" where
  [client_defs]: "labelApi_createLabel ws boardIdOrDto possibleDto =
     (let dto = (case boardIdOrDto of Inr dto \<Rightarrow> Some dto | Inl board \<Rightarrow> possibleDto)
      in api_send Post (''/workspaces/'' @ ws @ ''/labels'') (map_option JObject dto))"

definition labelApi_createWorkspaceLabel :: "string \<Rightarrow> json_object \<Rightarrow> api_call" where
  [client_defs]: "labelApi_createWorkspaceLabel ws dto =
     api_send Post (''/workspaces/'' @ ws @ ''/labels'') (Some (JObject dto))"

definition labelApi_listForBoard :: "string \<Rightarrow> string option \<Rightarrow> api_call" where
  [client_defs]: "labelApi_listForBoard ws board =
     (if truthy board then api_get (''/workspaces/'' @ ws @ ''/boards/'' @ the board @ ''/labels'') []
      else api_get (''/workspaces/'' @ ws @ ''/labels'') [])"

definition labelApi_listForWorkspace :: "string \<Rightarrow> api_call" where
  [client_defs]: "labelApi_listForWorkspace ws =
     api_get (''/workspaces/'' @ ws @ ''/labels'') []"

definition labelApi_getCardsForLabel :: "string \<Rightarrow> string \<Rightarrow> api_call" where
  [client_defs]: "labelApi_getCardsForLabel ws lab =
     api_get (''/workspaces/'' @ ws @ ''/labels/'' @ lab @ ''/cards'') []"

definition labelApi_updateLabel :: "string \<Rightarrow> string \<Rightarrow> json_object \<Rightarrow> api_call" where
  [client_defs]: "labelApi_updateLabel ws lab dto =
     api_send Patch (''/workspaces/'' @ ws @ ''/labels/'' @ lab) (Some (JObject dto))"

definition labelApi_deleteLabel :: "string \<Rightarrow> string \<Rightarrow> api_call" where
  [client_defs]: "labelApi_deleteLabel ws lab =
     api_send Delete (''/workspaces/'' @ ws @ ''/labels/'' @ lab) None"

section \<open>\<open>commentApi\<close>\<close>

definition commentApi_create :: "string \<Rightarrow> string \<Rightarrow> string \<Rightarrow> json_object \<Rightarrow> api_call" where
  [client_defs]: "commentApi_create ws b c dto =
     api_send Post (''/workspaces/'' @ ws @ ''/boards/'' @ b @ ''/cards/'' @ c @ ''/comments'') (Some (JObject dto))"

definition commentApi_list :: "string \<Rightarrow> string \<Rightarrow> string \<Rightarrow> string option \<Rightarrow> nat option \<Rightarrow> api_call" where
  [client_defs]: "commentApi_list ws b c cursor limit =
     api_get (''/workspaces/'' @ ws @ ''/boards/'' @ b @ ''/cards/'' @ c @ ''/comments'') (set_text ''cursor'' cursor @ set_number ''limit'' limit)"

definition commentApi_getThread :: "string \<Rightarrow> string \<Rightarrow> string \<Rightarrow> string \<Rightarrow> api_call" where
  [client_defs]: "commentApi_getThread ws b c cm =
     api_get (''/workspaces/'' @ ws @ ''/boards/'' @ b @ ''/cards/'' @ c @ ''/comments/'' @ cm @ ''/replies'') []"

definition commentApi_listReplies :: "string \<Rightarrow> string \<Rightarrow> string \<Rightarrow> string \<Rightarrow> api_call" where
  [client_defs]: "commentApi_listReplies ws b c cm =
     api_get (''/workspaces/'' @ ws @ ''/boards/'' @ b @ ''/cards/'' @ c @ ''/comments/'' @ cm @ ''/replies'') []"

definition commentApi_update :: "string \<Rightarrow> string \<Rightarrow> string \<Rightarrow> string \<Rightarrow> json_object \<Rightarrow> api_call" where
  [client_defs]: "commentApi_update ws b c cm dto =
     api_send Patch (''/workspaces/'' @ ws @ ''/boards/'' @ b @ ''/cards/'' @ c @ ''/comments/'' @ cm) (Some (JObject dto))"

definition commentApi_delete :: "string \<Rightarrow> string \<Rightarrow> string \<Rightarrow> string \<Rightarrow> api_call" where
  [client_defs]: "commentApi_delete ws b c cm =
     api_send Delete (''/workspaces/'' @ ws @ ''/boards/'' @ b @ ''/cards/'' @ c @ ''/comments/'' @ cm) None"

section \<open>\<open>attachmentApi\<close>\<close>

definition attachmentApi_list :: "string \<Rightarrow> string \<Rightarrow> string \<Rightarrow> api_call" where
  [client_defs]: "attachmentApi_list ws b c =
     api_get (''/workspaces/'' @ ws @ ''/boards/'' @ b @ ''/cards/'' @ c @ ''/attachments'') []"

section \<open>\<open>documentApi\<close>\<close>

definition documentApi_create :: "string \<Rightarrow> string option \<Rightarrow> string option \<Rightarrow> string option \<Rightarrow> api_call" where
  [client_defs]: "documentApi_create ws title parentCard cardOf =
     api_send Post (''/workspaces/'' @ ws @ ''/documents'')
       (Some (JObject ((case title of None \<Rightarrow> [] | Some t \<Rightarrow> [(''title'', JString t)]) @
          (if truthy parentCard then [(''parentCardId'', JString (the parentCard))]
           else if truthy cardOf then [(''parentCardId'', JString (the cardOf))] else []))))"

definition documentApi_list :: "string \<Rightarrow> string option \<Rightarrow> nat option \<Rightarrow> string option \<Rightarrow> api_call" where
  [client_defs]: "documentApi_list ws cursor limit search =
     api_get (''/workspaces/'' @ ws @ ''/documents'') (set_text ''cursor'' cursor @ set_number ''limit'' limit @ set_text ''search'' search)"

definition documentApi_get :: "string \<Rightarrow> string \<Rightarrow> api_call" where
  [client_defs]: "documentApi_get ws d =
     api_get (''/workspaces/'' @ ws @ ''/documents/'' @ d) []"

definition documentApi_getById :: "string \<Rightarrow> string \<Rightarrow> api_call" where
  [client_defs]: "documentApi_getById ws d =
     api_get (''/workspaces/'' @ ws @ ''/documents/'' @ d) []"

definition documentApi_rename :: "string \<Rightarrow> string \<Rightarrow> json_object \<Rightarrow> api_call" where
  [client_defs]: "documentApi_rename ws d dto =
     api_send Patch (''/workspaces/'' @ ws @ ''/documents/'' @ d) (Some (JObject dto))"

definition documentApi_archive :: "string \<Rightarrow> string \<Rightarrow> api_call" where
  [client_defs]: "documentApi_archive ws d =
     api_send Delete (''/workspaces/'' @ ws @ ''/documents/'' @ d) None"

definition documentApi_listByCard :: "string \<Rightarrow> string \<Rightarrow> api_call" where
  [client_defs]: "documentApi_listByCard ws c =
     api_get (''/workspaces/'' @ ws @ ''/cards/'' @ c @ ''/documents'') []"

definition documentApi_listByBoard :: "string \<Rightarrow> string \<Rightarrow> api_call" where
  [client_defs]: "documentApi_listByBoard ws b =
     api_get (''/workspaces/'' @ ws @ ''/boards/'' @ b @ ''/documents'') []"

definition documentApi_createSnapshot :: "string \<Rightarrow> string \<Rightarrow> string option \<Rightarrow> string option \<Rightarrow> api_call" where
  [client_defs]: "documentApi_createSnapshot ws d name snapshotName =
     api_send Post (''/workspaces/'' @ ws @ ''/documents/'' @ d @ ''/snapshots'')
       (Some (JObject (if truthy name \<or> truthy snapshotName
          then [(''name'', JString (the (if truthy name then name else snapshotName))),
                (''snapshotName'', JString (the (if truthy snapshotName then snapshotName else name)))]
          else [])))"

definition documentApi_listSnapshots :: "string \<Rightarrow> string \<Rightarrow> api_call" where
  [client_defs]: "documentApi_listSnapshots ws d =
     api_get (''/workspaces/'' @ ws @ ''/documents/'' @ d @ ''/snapshots'') []"

definition documentApi_restoreSnapshot :: "string \<Rightarrow> string \<Rightarrow> string \<Rightarrow> api_call" where
  [client_defs]: "documentApi_restoreSnapshot ws d sn =
     api_send Post (''/workspaces/'' @ ws @ ''/documents/'' @ d @ ''/snapshots/'' @ sn @ ''/restore'') None"

section \<open>\<open>cardFieldApi\<close>\<close>

definition cardFieldApi_createDef :: "string \<Rightarrow> json_object \<Rightarrow> api_call" where
  [client_defs]: "cardFieldApi_createDef ws dto =
     api_send Post (''/workspaces/'' @ ws @ ''/field-defs'') (Some (JObject dto))"

definition cardFieldApi_listDefs :: "string \<Rightarrow> api_call" where
  [client_defs]: "cardFieldApi_listDefs ws =
     api_get (''/workspaces/'' @ ws @ ''/field-defs'') []"

definition cardFieldApi_updateDef :: "string \<Rightarrow> string \<Rightarrow> json_object \<Rightarrow> api_call" where
  [client_defs]: "cardFieldApi_updateDef ws fd dto =
     api_send Patch (''/workspaces/'' @ ws @ ''/field-defs/'' @ fd) (Some (JObject dto))"

definition cardFieldApi_deleteDef :: "string \<Rightarrow> string \<Rightarrow> api_call" where
  [client_defs]: "cardFieldApi_deleteDef ws fd =
     api_send Delete (''/workspaces/'' @ ws @ ''/field-defs/'' @ fd) None"

definition cardFieldApi_getCardValues :: "string \<Rightarrow> string \<Rightarrow> string \<Rightarrow> api_call" where
  [client_defs]: "cardFieldApi_getCardValues ws b c =
     api_get (''/workspaces/'' @ ws @ ''/boards/'' @ b @ ''/cards/'' @ c @ ''/fields'') []"

definition cardFieldApi_setCardValue :: "string \<Rightarrow> string \<Rightarrow> string \<Rightarrow> string \<Rightarrow> json \<Rightarrow> api_call" where
  [client_defs]: "cardFieldApi_setCardValue ws b c fd value =
     api_send Put (''/workspaces/'' @ ws @ ''/boards/'' @ b @ ''/cards/'' @ c @ ''/fields/'' @ fd) (Some (JObject [(''value'', value)]))"

section \<open>\<open>cardTimeApi\<close>\<close>

definition cardTimeApi_setEstimate :: "string \<Rightarrow> string \<Rightarrow> string \<Rightarrow> json_object \<Rightarrow> api_call" where
  [client_defs]: "cardTimeApi_setEstimate ws b c dto =
     api_send Patch (''/workspaces/'' @ ws @ ''/boards/'' @ b @ ''/cards/'' @ c @ ''/estimate'') (Some (JObject dto))"

definition cardTimeApi_logTime :: "string \<Rightarrow> string \<Rightarrow> string \<Rightarrow> json_object \<Rightarrow> api_call" where
  [client_defs]: "cardTimeApi_logTime ws b c dto =
     api_send Post (''/workspaces/'' @ ws @ ''/boards/'' @ b @ ''/cards/'' @ c @ ''/time'') (Some (JObject dto))"

definition cardTimeApi_listTimeEntries :: "string \<Rightarrow> string \<Rightarrow> string \<Rightarrow> string option \<Rightarrow> nat option \<Rightarrow> api_call" where
  [client_defs]: "cardTimeApi_listTimeEntries ws b c cursor limit =
     api_get (''/workspaces/'' @ ws @ ''/boards/'' @ b @ ''/cards/'' @ c @ ''/time'') (set_text ''cursor'' cursor @ set_number ''limit'' limit)"

definition cardTimeApi_getTimeTracking :: "string \<Rightarrow> string \<Rightarrow> string \<Rightarrow> string option \<Rightarrow> nat option \<Rightarrow> api_call" where
  [client_defs]: "cardTimeApi_getTimeTracking ws b c cursor limit =
     api_get (''/workspaces/'' @ ws @ ''/boards/'' @ b @ ''/cards/'' @ c @ ''/time'') (set_text ''cursor'' cursor @ set_number ''limit'' limit)"

section \<open>\<open>boardViewApi\<close>\<close>

definition boardViewApi_calendar :: "string \<Rightarrow> string \<Rightarrow> string \<Rightarrow> string \<Rightarrow> string option \<Rightarrow> nat option \<Rightarrow> api_call" where
  [client_defs]: "boardViewApi_calendar ws b from_date to_date cursor limit =
     api_get (''/workspaces/'' @ ws @ ''/boards/'' @ b @ ''/views/calendar'')
       ([(''from'', from_date), (''to'', to_date)] @ set_text ''cursor'' cursor @ set_number ''limit'' limit)"

definition boardViewApi_timeline :: "string \<Rightarrow> string \<Rightarrow> string option \<Rightarrow> nat option \<Rightarrow> api_call" where
  [client_defs]: "boardViewApi_timeline ws b cursor limit =
     api_get (''/workspaces/'' @ ws @ ''/boards/'' @ b @ ''/views/timeline'') (set_text ''cursor'' cursor @ set_number ''limit'' limit)"

definition boardViewApi_table :: "string \<Rightarrow> string \<Rightarrow> string option \<Rightarrow> nat option \<Rightarrow> string option \<Rightarrow> string option \<Rightarrow> string option \<Rightarrow> string option \<Rightarrow> string option \<Rightarrow> string option \<Rightarrow> api_call" where
  [client_defs]: "boardViewApi_table ws b cursor limit status priority assignee search sortBy sortOrder =
     api_get (''/workspaces/'' @ ws @ ''/boards/'' @ b @ ''/views/table'')
       (set_text ''cursor'' cursor @ set_number ''limit'' limit @
        set_text ''status'' status @ set_text ''priority'' priority @ set_text ''assigneeId'' assignee @ set_text ''search'' search @ set_text ''sortBy'' sortBy @ set_text ''sortOrder'' sortOrder)"

section \<open>\<open>boardLabelApi\<close>\<close>

definition boardLabelApi_create :: "string \<Rightarrow> string \<Rightarrow> json_object \<Rightarrow> api_call" where
  [client_defs]: "boardLabelApi_create ws b dto =
     api_send Post (''/workspaces/'' @ ws @ ''/boards/'' @ b @ ''/labels'') (Some (JObject dto))"

definition boardLabelApi_list :: "string \<Rightarrow> string \<Rightarrow> api_call" where
  [client_defs]: "boardLabelApi_list ws b =
     api_get (''/workspaces/'' @ ws @ ''/boards/'' @ b @ ''/labels'') []"

definition boardLabelApi_update :: "string \<Rightarrow> string \<Rightarrow> string \<Rightarrow> json_object \<Rightarrow> api_call" where
  [client_defs]: "boardLabelApi_update ws b lab dto =
     api_send Patch (''/workspaces/'' @ ws @ ''/boards/'' @ b @ ''/labels/'' @ lab) (Some (JObject dto))"

definition boardLabelApi_remove :: "string \<Rightarrow> string \<Rightarrow> string \<Rightarrow> api_call" where
  [client_defs]: "boardLabelApi_remove ws b lab =
     api_send Delete (''/workspaces/'' @ ws @ ''/boards/'' @ b @ ''/labels/'' @ lab) None"

section \<open>\<open>notificationsApi\<close>\<close>

definition notificationsApi_list :: "string option \<Rightarrow> nat option \<Rightarrow> bool \<Rightarrow> api_call" where
  [client_defs]: "notificationsApi_list cursor limit unreadOnly =
     api_get (''/notifications'') (set_text ''cursor'' cursor @ set_number ''limit'' limit @ (if unreadOnly then [(''unreadOnly'', ''true'')] else []))"

definition notificationsApi_unreadCount :: "api_call" where
  [client_defs]: "notificationsApi_unreadCount =
     api_get (''/notifications/unread-count'') []"

definition notificationsApi_markRead :: "string \<Rightarrow> api_call" where
  [client_defs]: "notificationsApi_markRead i =
     api_send Patch (''/notifications/'' @ i @ ''/read'') None"

definition notificationsApi_markAllRead :: "api_call" where
  [client_defs]: "notificationsApi_markAllRead =
     api_send Post (''/notifications/read-all'') None"

section \<open>\<open>activityApi\<close>\<close>

definition activityApi_workspaceFeed :: "string \<Rightarrow> feed_query \<Rightarrow> api_call" where
  [client_defs]: "activityApi_workspaceFeed ws query =
     api_get (''/workspaces/'' @ ws @ ''/activity'') (buildActivityQuery query)"

definition activityApi_boardFeed :: "string \<Rightarrow> string \<Rightarrow> feed_query \<Rightarrow> api_call" where
  [client_defs]: "activityApi_boardFeed ws b query =
     api_get (''/workspaces/'' @ ws @ ''/boards/'' @ b @ ''/activity'') (buildActivityQuery query)"

section \<open>\<open>filesApi\<close>\<close>

definition filesApi_requestUpload :: "string \<Rightarrow> json_object \<Rightarrow> api_call" where
  [client_defs]: "filesApi_requestUpload ws dto =
     api_send Post (''/workspaces/'' @ ws @ ''/files/presigned-upload'') (Some (JObject dto))"

definition filesApi_confirm :: "string \<Rightarrow> string \<Rightarrow> api_call" where
  [client_defs]: "filesApi_confirm ws fl =
     api_send Post (''/workspaces/'' @ ws @ ''/files/'' @ fl @ ''/confirm'') None"

definition filesApi_downloadUrl :: "string \<Rightarrow> string \<Rightarrow> api_call" where
  [client_defs]: "filesApi_downloadUrl ws fl =
     api_get (''/workspaces/'' @ ws @ ''/files/'' @ fl @ ''/download'') []"

definition filesApi_remove :: "string \<Rightarrow> string \<Rightarrow> api_call" where
  [client_defs]: "filesApi_remove ws fl =
     api_send Delete (''/workspaces/'' @ ws @ ''/files/'' @ fl) None"

section \<open>\<open>healthApi\<close>\<close>

definition healthApi_getHealth :: "api_call" where
  [client_defs]: "healthApi_getHealth =
     api_get (''/health'') []"

end
