(* ===== verification/Client_Routing.thy ===== *)
theory Client_Routing
  imports Client_Requests
begin

text \<open>
  From a request of the client to the handler that serves it: the route table of every controller of the server
  (the decorators of \<open>src/src/**/*.controller.ts\<close>), how a path is matched against a pattern, and the global prefix both sides
  agree on (\<open>frontend/src/constants/api.constants.ts\<close>, \<open>main.ts\<close>). Within a controller the first matching route wins; the
  order of the controllers depends on the module graph, so what is shown does not depend on it.
\<close>

section \<open>Patterns\<close>

datatype segment = Lit string | Param string

fun push_char :: "char \<Rightarrow> string list \<Rightarrow> string list" where
  "push_char c [] = [[c]]"
| "push_char c (w # ws) = (c # w) # ws"

fun split_slash :: "string \<Rightarrow> string list" where
  "split_slash [] = [[]]"
| "split_slash (c # cs) = (if c = CHR ''/'' then [] # split_slash cs else push_char c (split_slash cs))"

fun match_path :: "segment list \<Rightarrow> string list \<Rightarrow> (string \<times> string) list option" where
  "match_path [] [] = Some []"
| "match_path (Lit a # ps) (s # ss) = (if s = a then match_path ps ss else None)"
| "match_path (Param n # ps) (s # ss) = (if s = [] then None else map_option (\<lambda>r. (n, s) # r) (match_path ps ss))"
| "match_path _ _ = None"

type_synonym route = "http_method \<times> segment list \<times> string"

text \<open>A controller: the prefix in its \<open>@Controller\<close>, and the routes of its handlers below it, in order.\<close>

type_synonym controller = "segment list \<times> route list"

abbreviation "in_workspace_path \<equiv> [Lit ''workspaces'', Param ''workspaceId'']"
abbreviation "on_board_path \<equiv> in_workspace_path @ [Lit ''boards'', Param ''boardId'']"
abbreviation "on_card_path \<equiv> on_board_path @ [Lit ''cards'', Param ''cardId'']"

section \<open>The routes\<close>

definition AppController_routes :: controller where
  "AppController_routes = ([],
     [(Get, [], ''AppController.getHello'')])"

definition HealthController_routes :: controller where
  "HealthController_routes = ([Lit ''health''],
     [(Get, [], ''HealthController.check''),
      (Get, [Lit ''liveness''], ''HealthController.checkLiveness''),
      (Get, [Lit ''readiness''], ''HealthController.checkReadiness'')])"

definition ActivityController_routes :: controller where
  "ActivityController_routes = ((in_workspace_path @ [Lit ''activity'']),
     [(Get, [], ''ActivityController.getWorkspaceFeed'')])"

definition BoardActivityController_routes :: controller where
  "BoardActivityController_routes = ((on_board_path),
     [(Get, [Lit ''activity''], ''BoardActivityController.getBoardFeed'')])"

definition AuthController_routes :: controller where
  "AuthController_routes = ([Lit ''auth''],
     [(Post, [Lit ''register''], ''AuthController.register''),
      (Post, [Lit ''login''], ''AuthController.login''),
      (Post, [Lit ''refresh''], ''AuthController.refresh''),
      (Post, [Lit ''logout''], ''AuthController.logout''),
      (Post, [Lit ''logout-all''], ''AuthController.logoutAll''),
      (Post, [Lit ''forgot-password''], ''AuthController.forgotPassword''),
      (Post, [Lit ''reset-password''], ''AuthController.resetPassword''),
      (Post, [Lit ''verify-email''], ''AuthController.verifyEmail''),
      (Post, [Lit ''resend-verification''], ''AuthController.resendVerification''),
      (Get, [Lit ''google''], ''AuthController.googleAuth''),
      (Get, [Lit ''google'', Lit ''callback''], ''AuthController.googleCallback''),
      (Get, [Lit ''me''], ''AuthController.getProfile''),
      (Patch, [Lit ''me''], ''AuthController.updateProfile''),
      (Patch, [Lit ''me'', Lit ''password''], ''AuthController.changePassword'')])"

definition CardAttachmentController_routes :: controller where
  "CardAttachmentController_routes = ((on_card_path @ [Lit ''attachments'']),
     [(Get, [], ''CardAttachmentController.list'')])"

definition CardFieldDefController_routes :: controller where
  "CardFieldDefController_routes = ((in_workspace_path @ [Lit ''field-defs'']),
     [(Post, [], ''CardFieldDefController.createDef''),
      (Get, [], ''CardFieldDefController.listDefs''),
      (Patch, [Param ''fieldId''], ''CardFieldDefController.updateDef''),
      (Delete, [Param ''fieldId''], ''CardFieldDefController.deleteDef'')])"

definition CardFieldValueController_routes :: controller where
  "CardFieldValueController_routes = ((on_card_path @ [Lit ''fields'']),
     [(Put, [Param ''fieldId''], ''CardFieldValueController.setValue''),
      (Get, [], ''CardFieldValueController.listValues'')])"

definition CardTimeController_routes :: controller where
  "CardTimeController_routes = ((on_card_path),
     [(Patch, [Lit ''estimate''], ''CardTimeController.setEstimate''),
      (Post, [Lit ''time''], ''CardTimeController.logTime''),
      (Get, [Lit ''time''], ''CardTimeController.getTracking'')])"

definition CardController_routes :: controller where
  "CardController_routes = ((on_board_path),
     [(Post, [Lit ''lists'', Param ''listId'', Lit ''cards''], ''CardController.create''),
      (Get, [Lit ''cards'', Lit ''archived''], ''CardController.listArchived''),
      (Get, [Lit ''cards'', Param ''cardId''], ''CardController.getOne''),
      (Patch, [Lit ''cards'', Param ''cardId''], ''CardController.update''),
      (Patch, [Lit ''cards'', Param ''cardId'', Lit ''priority''], ''CardController.updatePriority''),
      (Patch, [Lit ''cards'', Param ''cardId'', Lit ''status''], ''CardController.updateStatus''),
      (Post, [Lit ''cards'', Param ''cardId'', Lit ''subcards''], ''CardController.createSubcard''),
      (Post, [Lit ''cards'', Param ''cardId'', Lit ''subcards'', Lit ''attach''], ''CardController.attachSubcard''),
      (Get, [Lit ''cards'', Param ''cardId'', Lit ''with-subcards''], ''CardController.getWithSubcards''),
      (Delete, [Lit ''cards'', Param ''cardId'', Lit ''parent''], ''CardController.detachSubcard''),
      (Patch, [Lit ''cards'', Param ''cardId'', Lit ''move''], ''CardController.move''),
      (Delete, [Lit ''cards'', Param ''cardId''], ''CardController.archive''),
      (Patch, [Lit ''cards'', Param ''cardId'', Lit ''unarchive''], ''CardController.unarchive''),
      (Delete, [Lit ''cards'', Param ''cardId'', Lit ''permanent''], ''CardController.deletePermanently''),
      (Post, [Lit ''cards'', Param ''cardId'', Lit ''assignees'', Param ''targetUserId''], ''CardController.addAssignee''),
      (Delete, [Lit ''cards'', Param ''cardId'', Lit ''assignees'', Param ''targetUserId''], ''CardController.removeAssignee''),
      (Post, [Lit ''cards'', Param ''cardId'', Lit ''labels'', Param ''labelId''], ''CardController.addLabel''),
      (Delete, [Lit ''cards'', Param ''cardId'', Lit ''labels'', Param ''labelId''], ''CardController.removeLabel'')])"

definition ChecklistController_routes :: controller where
  "ChecklistController_routes = ((on_card_path @ [Lit ''checklists'']),
     [(Post, [], ''ChecklistController.create''),
      (Get, [], ''ChecklistController.list''),
      (Patch, [Param ''checklistId''], ''ChecklistController.rename''),
      (Delete, [Param ''checklistId''], ''ChecklistController.delete''),
      (Post, [Param ''checklistId'', Lit ''items''], ''ChecklistController.addItem''),
      (Patch, [Param ''checklistId'', Lit ''items'', Param ''itemId''], ''ChecklistController.updateItem''),
      (Delete, [Param ''checklistId'', Lit ''items'', Param ''itemId''], ''ChecklistController.removeItem''),
      (Post, [Param ''checklistId'', Lit ''items'', Param ''itemId'', Lit ''promote''], ''ChecklistController.promoteItem'')])"

definition CardCommentController_routes :: controller where
  "CardCommentController_routes = ((on_card_path @ [Lit ''comments'']),
     [(Post, [], ''CardCommentController.create''),
      (Get, [], ''CardCommentController.list''),
      (Patch, [Param ''commentId''], ''CardCommentController.update''),
      (Get, [Param ''commentId'', Lit ''replies''], ''CardCommentController.listThread''),
      (Delete, [Param ''commentId''], ''CardCommentController.delete'')])"

definition BoardController_routes :: controller where
  "BoardController_routes = ((in_workspace_path @ [Lit ''boards'']),
     [(Post, [], ''BoardController.create''),
      (Get, [], ''BoardController.listWorkspaceBoards''),
      (Get, [Lit ''archived''], ''BoardController.listArchived''),
      (Get, [Param ''boardId''], ''BoardController.getOne''),
      (Patch, [Param ''boardId''], ''BoardController.update''),
      (Delete, [Param ''boardId''], ''BoardController.archive''),
      (Patch, [Param ''boardId'', Lit ''unarchive''], ''BoardController.unarchive''),
      (Delete, [Param ''boardId'', Lit ''permanent''], ''BoardController.deletePermanently''),
      (Post, [Param ''boardId'', Lit ''star''], ''BoardController.star''),
      (Delete, [Param ''boardId'', Lit ''star''], ''BoardController.unstar'')])"

definition LabelController_routes :: controller where
  "LabelController_routes = ((on_board_path),
     [(Post, [Lit ''labels''], ''LabelController.createLabel''),
      (Get, [Lit ''labels''], ''LabelController.getLabelsForBoard''),
      (Patch, [Lit ''labels'', Param ''labelId''], ''LabelController.updateLabel''),
      (Delete, [Lit ''labels'', Param ''labelId''], ''LabelController.deleteLabel'')])"

definition WorkspaceLabelController_routes :: controller where
  "WorkspaceLabelController_routes = ((in_workspace_path @ [Lit ''labels'']),
     [(Post, [], ''WorkspaceLabelController.createWorkspaceLabel''),
      (Get, [], ''WorkspaceLabelController.getWorkspaceLabels''),
      (Get, [Param ''labelId'', Lit ''cards''], ''WorkspaceLabelController.getCardsForLabel''),
      (Patch, [Param ''labelId''], ''WorkspaceLabelController.updateWorkspaceLabel''),
      (Delete, [Param ''labelId''], ''WorkspaceLabelController.deleteWorkspaceLabel'')])"

definition ListController_routes :: controller where
  "ListController_routes = ((on_board_path @ [Lit ''lists'']),
     [(Post, [], ''ListController.create''),
      (Patch, [Param ''listId''], ''ListController.update''),
      (Patch, [Param ''listId'', Lit ''move''], ''ListController.move''),
      (Delete, [Param ''listId''], ''ListController.archive''),
      (Patch, [Param ''listId'', Lit ''unarchive''], ''ListController.unarchive''),
      (Get, [Lit ''archived''], ''ListController.listArchived''),
      (Delete, [Param ''listId'', Lit ''permanent''], ''ListController.deletePermanently'')])"

definition BoardViewController_routes :: controller where
  "BoardViewController_routes = ((on_board_path @ [Lit ''views'']),
     [(Get, [Lit ''calendar''], ''BoardViewController.calendar''),
      (Get, [Lit ''timeline''], ''BoardViewController.timeline''),
      (Get, [Lit ''table''], ''BoardViewController.table'')])"

definition BoardDocumentsController_routes :: controller where
  "BoardDocumentsController_routes = ((on_board_path @ [Lit ''documents'']),
     [(Get, [], ''BoardDocumentsController.listByBoard'')])"

definition CardDocumentsController_routes :: controller where
  "CardDocumentsController_routes = ((in_workspace_path @ [Lit ''cards'', Param ''cardId'', Lit ''documents'']),
     [(Get, [], ''CardDocumentsController.listByCard'')])"

definition DocumentSnapshotController_routes :: controller where
  "DocumentSnapshotController_routes = ((in_workspace_path @ [Lit ''documents'', Param ''documentId'', Lit ''snapshots'']),
     [(Post, [], ''DocumentSnapshotController.create''),
      (Get, [], ''DocumentSnapshotController.list''),
      (Post, [Param ''snapshotId'', Lit ''restore''], ''DocumentSnapshotController.restore'')])"

definition DocumentController_routes :: controller where
  "DocumentController_routes = ((in_workspace_path @ [Lit ''documents'']),
     [(Post, [], ''DocumentController.create''),
      (Get, [], ''DocumentController.list''),
      (Get, [Param ''documentId''], ''DocumentController.get''),
      (Patch, [Param ''documentId''], ''DocumentController.rename''),
      (Delete, [Param ''documentId''], ''DocumentController.archive'')])"

definition FileController_routes :: controller where
  "FileController_routes = ((in_workspace_path @ [Lit ''files'']),
     [(Post, [Lit ''presigned-upload''], ''FileController.requestUpload''),
      (Post, [Param ''fileId'', Lit ''confirm''], ''FileController.confirm''),
      (Get, [Param ''fileId'', Lit ''download''], ''FileController.download''),
      (Delete, [Param ''fileId''], ''FileController.delete'')])"

definition NotificationController_routes :: controller where
  "NotificationController_routes = ([Lit ''notifications''],
     [(Get, [], ''NotificationController.list''),
      (Get, [Lit ''unread-count''], ''NotificationController.unreadCount''),
      (Post, [Lit ''read-all''], ''NotificationController.markAllRead''),
      (Patch, [Param ''id'', Lit ''read''], ''NotificationController.markRead'')])"

definition WorkspaceController_routes :: controller where
  "WorkspaceController_routes = ([Lit ''workspaces''],
     [(Post, [], ''WorkspaceController.create''),
      (Get, [], ''WorkspaceController.listMine''),
      (Get, [Lit ''slug'', Param ''slug''], ''WorkspaceController.getBySlug''),
      (Post, [Lit ''invitations'', Lit ''accept''], ''WorkspaceController.acceptInvitation''),
      (Get, [Param ''workspaceId''], ''WorkspaceController.getById''),
      (Patch, [Param ''workspaceId''], ''WorkspaceController.update''),
      (Delete, [Param ''workspaceId''], ''WorkspaceController.archive''),
      (Delete, [Param ''workspaceId'', Lit ''leave''], ''WorkspaceController.leaveWorkspace''),
      (Post, [Param ''workspaceId'', Lit ''transfer-ownership''], ''WorkspaceController.transferOwnership''),
      (Get, [Param ''workspaceId'', Lit ''members''], ''WorkspaceController.getMembers''),
      (Patch, [Param ''workspaceId'', Lit ''members'', Param ''memberId''], ''WorkspaceController.updateMemberRole''),
      (Delete, [Param ''workspaceId'', Lit ''members'', Param ''memberId''], ''WorkspaceController.removeMember''),
      (Post, [Param ''workspaceId'', Lit ''invitations''], ''WorkspaceController.inviteMember''),
      (Get, [Param ''workspaceId'', Lit ''invitations''], ''WorkspaceController.getInvitations''),
      (Delete, [Param ''workspaceId'', Lit ''invitations'', Param ''invitationId''], ''WorkspaceController.revokeInvitation'')])"

definition controllers :: "controller list" where
  "controllers =
     [AppController_routes, HealthController_routes, ActivityController_routes, BoardActivityController_routes,
      AuthController_routes, CardAttachmentController_routes, CardFieldDefController_routes, CardFieldValueController_routes,
      CardTimeController_routes, CardController_routes, ChecklistController_routes, CardCommentController_routes,
      BoardController_routes, LabelController_routes, WorkspaceLabelController_routes, ListController_routes,
      BoardViewController_routes, BoardDocumentsController_routes, CardDocumentsController_routes, DocumentSnapshotController_routes,
      DocumentController_routes, FileController_routes, NotificationController_routes, WorkspaceController_routes]"

section \<open>Serving a request\<close>

definition API_BASE :: string where "API_BASE = ''/api''"

definition globalPrefix :: string where "globalPrefix = ''api''"

text \<open>The route a controller answers with, and the answers of all controllers: a handler with the values of its path parameters.\<close>

definition answer_of :: "http_method \<Rightarrow> string list \<Rightarrow> controller \<Rightarrow> (string \<times> (string \<times> string) list) option" where
  "answer_of verb path c =
     (case List.map_filter (\<lambda>(m, p, h). if m = verb then map_option (Pair h) (match_path (fst c @ p) path) else None) (snd c) of
        [] \<Rightarrow> None | a # as \<Rightarrow> Some a)"

definition answers :: "api_call \<Rightarrow> (string \<times> (string \<times> string) list) list" where
  "answers rq =
     (case split_slash (API_BASE @ acPath rq) of
        lead # base # path \<Rightarrow>
          if lead = [] \<and> base = globalPrefix then List.map_filter (answer_of (acMethod rq) path) controllers else []
      | _ \<Rightarrow> [])"

section \<open>What the client means\<close>

text \<open>Every function of the client with the handler it is meant for; \<open>ids\<close> gives each path parameter its value.\<close>

record call_options =
  coText :: "string \<Rightarrow> string option"
  coNumber :: "string \<Rightarrow> nat option"
  coFlag :: bool
  coBody :: json_object
  coValue :: json

definition the_text :: "call_options \<Rightarrow> string \<Rightarrow> string" where
  "the_text x n = (case coText x n of None \<Rightarrow> [] | Some t \<Rightarrow> t)"

definition authApi_calls :: "(string \<Rightarrow> string) \<Rightarrow> call_options \<Rightarrow> feed_query \<Rightarrow> (api_call \<times> string) list" where
  "authApi_calls ids x feed =
     [(authApi_register (coBody x), ''AuthController.register''),
      (authApi_login (coBody x), ''AuthController.login''),
      (authApi_refresh, ''AuthController.refresh''),
      (authApi_logout, ''AuthController.logout''),
      (authApi_logoutAll, ''AuthController.logoutAll''),
      (authApi_forgotPassword (the_text x ''mail''), ''AuthController.forgotPassword''),
      (authApi_resetPassword (coBody x), ''AuthController.resetPassword''),
      (authApi_verifyEmail (the_text x ''token''), ''AuthController.verifyEmail''),
      (authApi_resendVerification, ''AuthController.resendVerification''),
      (authApi_getProfile, ''AuthController.getProfile''),
      (authApi_updateProfile (coBody x), ''AuthController.updateProfile''),
      (authApi_changePassword (coBody x), ''AuthController.changePassword''),
      (authApi_getGoogleAuthUrl (the_text x ''origin'') (coText x ''redirect''), ''AuthController.googleAuth'')]"

definition authApi_paths :: "(http_method \<times> segment list \<times> string) list" where
  "authApi_paths =
     [(Post, [Lit ''auth'', Lit ''register''], ''AuthController.register''),
      (Post, [Lit ''auth'', Lit ''login''], ''AuthController.login''),
      (Post, [Lit ''auth'', Lit ''refresh''], ''AuthController.refresh''),
      (Post, [Lit ''auth'', Lit ''logout''], ''AuthController.logout''),
      (Post, [Lit ''auth'', Lit ''logout-all''], ''AuthController.logoutAll''),
      (Post, [Lit ''auth'', Lit ''forgot-password''], ''AuthController.forgotPassword''),
      (Post, [Lit ''auth'', Lit ''reset-password''], ''AuthController.resetPassword''),
      (Post, [Lit ''auth'', Lit ''verify-email''], ''AuthController.verifyEmail''),
      (Post, [Lit ''auth'', Lit ''resend-verification''], ''AuthController.resendVerification''),
      (Get, [Lit ''auth'', Lit ''me''], ''AuthController.getProfile''),
      (Patch, [Lit ''auth'', Lit ''me''], ''AuthController.updateProfile''),
      (Patch, [Lit ''auth'', Lit ''me'', Lit ''password''], ''AuthController.changePassword''),
      (Get, [Lit ''auth'', Lit ''google''], ''AuthController.googleAuth'')]"

definition workspaceApi_calls :: "(string \<Rightarrow> string) \<Rightarrow> call_options \<Rightarrow> feed_query \<Rightarrow> (api_call \<times> string) list" where
  "workspaceApi_calls ids x feed =
     [(workspaceApi_create (coBody x), ''WorkspaceController.create''),
      (workspaceApi_listMine (coText x ''cursor'') (coNumber x ''limit''), ''WorkspaceController.listMine''),
      (workspaceApi_getById (ids ''workspaceId''), ''WorkspaceController.getById''),
      (workspaceApi_getBySlug (ids ''slug''), ''WorkspaceController.getBySlug''),
      (workspaceApi_update (ids ''workspaceId'') (coBody x), ''WorkspaceController.update''),
      (workspaceApi_archive (ids ''workspaceId''), ''WorkspaceController.archive''),
      (workspaceApi_leave (ids ''workspaceId''), ''WorkspaceController.leaveWorkspace''),
      (workspaceApi_transferOwnership (ids ''workspaceId'') (the_text x ''newOwner''), ''WorkspaceController.transferOwnership''),
      (workspaceApi_getMembers (ids ''workspaceId''), ''WorkspaceController.getMembers''),
      (workspaceApi_updateMemberRole (ids ''workspaceId'') (ids ''memberId'') (the_text x ''role''), ''WorkspaceController.updateMemberRole''),
      (workspaceApi_removeMember (ids ''workspaceId'') (ids ''memberId''), ''WorkspaceController.removeMember''),
      (workspaceApi_inviteMember (ids ''workspaceId'') (the_text x ''mail'') (coText x ''role''), ''WorkspaceController.inviteMember''),
      (workspaceApi_getInvitations (ids ''workspaceId''), ''WorkspaceController.getInvitations''),
      (workspaceApi_revokeInvitation (ids ''workspaceId'') (ids ''invitationId''), ''WorkspaceController.revokeInvitation''),
      (workspaceApi_acceptInvitation (the_text x ''token''), ''WorkspaceController.acceptInvitation'')]"

definition workspaceApi_paths :: "(http_method \<times> segment list \<times> string) list" where
  "workspaceApi_paths =
     [(Post, [Lit ''workspaces''], ''WorkspaceController.create''),
      (Get, [Lit ''workspaces''], ''WorkspaceController.listMine''),
      (Get, [Lit ''workspaces'', Param ''workspaceId''], ''WorkspaceController.getById''),
      (Get, [Lit ''workspaces'', Lit ''slug'', Param ''slug''], ''WorkspaceController.getBySlug''),
      (Patch, [Lit ''workspaces'', Param ''workspaceId''], ''WorkspaceController.update''),
      (Delete, [Lit ''workspaces'', Param ''workspaceId''], ''WorkspaceController.archive''),
      (Delete, [Lit ''workspaces'', Param ''workspaceId'', Lit ''leave''], ''WorkspaceController.leaveWorkspace''),
      (Post, [Lit ''workspaces'', Param ''workspaceId'', Lit ''transfer-ownership''], ''WorkspaceController.transferOwnership''),
      (Get, [Lit ''workspaces'', Param ''workspaceId'', Lit ''members''], ''WorkspaceController.getMembers''),
      (Patch, [Lit ''workspaces'', Param ''workspaceId'', Lit ''members'', Param ''memberId''], ''WorkspaceController.updateMemberRole''),
      (Delete, [Lit ''workspaces'', Param ''workspaceId'', Lit ''members'', Param ''memberId''], ''WorkspaceController.removeMember''),
      (Post, [Lit ''workspaces'', Param ''workspaceId'', Lit ''invitations''], ''WorkspaceController.inviteMember''),
      (Get, [Lit ''workspaces'', Param ''workspaceId'', Lit ''invitations''], ''WorkspaceController.getInvitations''),
      (Delete, [Lit ''workspaces'', Param ''workspaceId'', Lit ''invitations'', Param ''invitationId''], ''WorkspaceController.revokeInvitation''),
      (Post, [Lit ''workspaces'', Lit ''invitations'', Lit ''accept''], ''WorkspaceController.acceptInvitation'')]"

definition boardApi_calls :: "(string \<Rightarrow> string) \<Rightarrow> call_options \<Rightarrow> feed_query \<Rightarrow> (api_call \<times> string) list" where
  "boardApi_calls ids x feed =
     [(boardApi_create (ids ''workspaceId'') (coBody x), ''BoardController.create''),
      (boardApi_list (ids ''workspaceId'') (coText x ''cursor'') (coNumber x ''limit''), ''BoardController.listWorkspaceBoards''),
      (boardApi_getWithContent (ids ''workspaceId'') (ids ''boardId'') (coNumber x ''listPage'') (coNumber x ''listPageSize'') (coNumber x ''cardPageSize''), ''BoardController.getOne''),
      (boardApi_update (ids ''workspaceId'') (ids ''boardId'') (coBody x), ''BoardController.update''),
      (boardApi_archive (ids ''workspaceId'') (ids ''boardId''), ''BoardController.archive''),
      (boardApi_listArchived (ids ''workspaceId'') (coText x ''cursor'') (coNumber x ''limit''), ''BoardController.listArchived''),
      (boardApi_deletePermanently (ids ''workspaceId'') (ids ''boardId''), ''BoardController.deletePermanently''),
      (boardApi_unarchive (ids ''workspaceId'') (ids ''boardId''), ''BoardController.unarchive''),
      (boardApi_star (ids ''workspaceId'') (ids ''boardId''), ''BoardController.star''),
      (boardApi_unstar (ids ''workspaceId'') (ids ''boardId''), ''BoardController.unstar''),
      (boardApi_getActivities (ids ''workspaceId'') (ids ''boardId'') (coText x ''cursor'') (coNumber x ''limit''), ''BoardActivityController.getBoardFeed'')]"

definition boardApi_paths :: "(http_method \<times> segment list \<times> string) list" where
  "boardApi_paths =
     [(Post, [Lit ''workspaces'', Param ''workspaceId'', Lit ''boards''], ''BoardController.create''),
      (Get, [Lit ''workspaces'', Param ''workspaceId'', Lit ''boards''], ''BoardController.listWorkspaceBoards''),
      (Get, [Lit ''workspaces'', Param ''workspaceId'', Lit ''boards'', Param ''boardId''], ''BoardController.getOne''),
      (Patch, [Lit ''workspaces'', Param ''workspaceId'', Lit ''boards'', Param ''boardId''], ''BoardController.update''),
      (Delete, [Lit ''workspaces'', Param ''workspaceId'', Lit ''boards'', Param ''boardId''], ''BoardController.archive''),
      (Get, [Lit ''workspaces'', Param ''workspaceId'', Lit ''boards'', Lit ''archived''], ''BoardController.listArchived''),
      (Delete, [Lit ''workspaces'', Param ''workspaceId'', Lit ''boards'', Param ''boardId'', Lit ''permanent''], ''BoardController.deletePermanently''),
      (Patch, [Lit ''workspaces'', Param ''workspaceId'', Lit ''boards'', Param ''boardId'', Lit ''unarchive''], ''BoardController.unarchive''),
      (Post, [Lit ''workspaces'', Param ''workspaceId'', Lit ''boards'', Param ''boardId'', Lit ''star''], ''BoardController.star''),
      (Delete, [Lit ''workspaces'', Param ''workspaceId'', Lit ''boards'', Param ''boardId'', Lit ''star''], ''BoardController.unstar''),
      (Get, [Lit ''workspaces'', Param ''workspaceId'', Lit ''boards'', Param ''boardId'', Lit ''activity''], ''BoardActivityController.getBoardFeed'')]"

definition listApi_calls :: "(string \<Rightarrow> string) \<Rightarrow> call_options \<Rightarrow> feed_query \<Rightarrow> (api_call \<times> string) list" where
  "listApi_calls ids x feed =
     [(listApi_create (ids ''workspaceId'') (ids ''boardId'') (coBody x), ''ListController.create''),
      (listApi_update (ids ''workspaceId'') (ids ''boardId'') (ids ''listId'') (coBody x), ''ListController.update''),
      (listApi_move (ids ''workspaceId'') (ids ''boardId'') (ids ''listId'') (coBody x), ''ListController.move''),
      (listApi_archive (ids ''workspaceId'') (ids ''boardId'') (ids ''listId''), ''ListController.archive''),
      (listApi_unarchive (ids ''workspaceId'') (ids ''boardId'') (ids ''listId''), ''ListController.unarchive''),
      (listApi_listArchived (ids ''workspaceId'') (ids ''boardId'') (coText x ''cursor'') (coNumber x ''limit''), ''ListController.listArchived''),
      (listApi_deletePermanently (ids ''workspaceId'') (ids ''boardId'') (ids ''listId''), ''ListController.deletePermanently'')]"

definition listApi_paths :: "(http_method \<times> segment list \<times> string) list" where
  "listApi_paths =
     [(Post, [Lit ''workspaces'', Param ''workspaceId'', Lit ''boards'', Param ''boardId'', Lit ''lists''], ''ListController.create''),
      (Patch, [Lit ''workspaces'', Param ''workspaceId'', Lit ''boards'', Param ''boardId'', Lit ''lists'', Param ''listId''], ''ListController.update''),
      (Patch, [Lit ''workspaces'', Param ''workspaceId'', Lit ''boards'', Param ''boardId'', Lit ''lists'', Param ''listId'', Lit ''move''], ''ListController.move''),
      (Delete, [Lit ''workspaces'', Param ''workspaceId'', Lit ''boards'', Param ''boardId'', Lit ''lists'', Param ''listId''], ''ListController.archive''),
      (Patch, [Lit ''workspaces'', Param ''workspaceId'', Lit ''boards'', Param ''boardId'', Lit ''lists'', Param ''listId'', Lit ''unarchive''], ''ListController.unarchive''),
      (Get, [Lit ''workspaces'', Param ''workspaceId'', Lit ''boards'', Param ''boardId'', Lit ''lists'', Lit ''archived''], ''ListController.listArchived''),
      (Delete, [Lit ''workspaces'', Param ''workspaceId'', Lit ''boards'', Param ''boardId'', Lit ''lists'', Param ''listId'', Lit ''permanent''], ''ListController.deletePermanently'')]"

definition cardApi_calls :: "(string \<Rightarrow> string) \<Rightarrow> call_options \<Rightarrow> feed_query \<Rightarrow> (api_call \<times> string) list" where
  "cardApi_calls ids x feed =
     [(cardApi_create (ids ''workspaceId'') (ids ''boardId'') (ids ''listId'') (coBody x), ''CardController.create''),
      (cardApi_getDetails (ids ''workspaceId'') (ids ''boardId'') (ids ''cardId''), ''CardController.getOne''),
      (cardApi_update (ids ''workspaceId'') (ids ''boardId'') (ids ''cardId'') (coBody x), ''CardController.update''),
      (cardApi_move (ids ''workspaceId'') (ids ''boardId'') (ids ''cardId'') (coBody x), ''CardController.move''),
      (cardApi_archive (ids ''workspaceId'') (ids ''boardId'') (ids ''cardId''), ''CardController.archive''),
      (cardApi_listArchived (ids ''workspaceId'') (ids ''boardId'') (coText x ''cursor'') (coNumber x ''limit''), ''CardController.listArchived''),
      (cardApi_deletePermanently (ids ''workspaceId'') (ids ''boardId'') (ids ''cardId''), ''CardController.deletePermanently''),
      (cardApi_unarchive (ids ''workspaceId'') (ids ''boardId'') (ids ''cardId''), ''CardController.unarchive''),
      (cardApi_addAssignee (ids ''workspaceId'') (ids ''boardId'') (ids ''cardId'') (ids ''targetUserId''), ''CardController.addAssignee''),
      (cardApi_removeAssignee (ids ''workspaceId'') (ids ''boardId'') (ids ''cardId'') (ids ''targetUserId''), ''CardController.removeAssignee''),
      (cardApi_addLabel (ids ''workspaceId'') (ids ''boardId'') (ids ''cardId'') (ids ''labelId''), ''CardController.addLabel''),
      (cardApi_removeLabel (ids ''workspaceId'') (ids ''boardId'') (ids ''cardId'') (ids ''labelId''), ''CardController.removeLabel''),
      (cardApi_updatePriority (ids ''workspaceId'') (ids ''boardId'') (ids ''cardId'') (coBody x), ''CardController.updatePriority''),
      (cardApi_updateStatus (ids ''workspaceId'') (ids ''boardId'') (ids ''cardId'') (coBody x), ''CardController.updateStatus''),
      (cardApi_createSubcard (ids ''workspaceId'') (ids ''boardId'') (ids ''cardId'') (coBody x), ''CardController.createSubcard''),
      (cardApi_attachSubcard (ids ''workspaceId'') (ids ''boardId'') (ids ''cardId'') (the_text x ''sub''), ''CardController.attachSubcard''),
      (cardApi_getWithSubcards (ids ''workspaceId'') (ids ''boardId'') (ids ''cardId''), ''CardController.getWithSubcards''),
      (cardApi_detachSubcard (ids ''workspaceId'') (ids ''boardId'') (ids ''cardId''), ''CardController.detachSubcard'')]"

definition cardApi_paths :: "(http_method \<times> segment list \<times> string) list" where
  "cardApi_paths =
     [(Post, [Lit ''workspaces'', Param ''workspaceId'', Lit ''boards'', Param ''boardId'', Lit ''lists'', Param ''listId'', Lit ''cards''], ''CardController.create''),
      (Get, [Lit ''workspaces'', Param ''workspaceId'', Lit ''boards'', Param ''boardId'', Lit ''cards'', Param ''cardId''], ''CardController.getOne''),
      (Patch, [Lit ''workspaces'', Param ''workspaceId'', Lit ''boards'', Param ''boardId'', Lit ''cards'', Param ''cardId''], ''CardController.update''),
      (Patch, [Lit ''workspaces'', Param ''workspaceId'', Lit ''boards'', Param ''boardId'', Lit ''cards'', Param ''cardId'', Lit ''move''], ''CardController.move''),
      (Delete, [Lit ''workspaces'', Param ''workspaceId'', Lit ''boards'', Param ''boardId'', Lit ''cards'', Param ''cardId''], ''CardController.archive''),
      (Get, [Lit ''workspaces'', Param ''workspaceId'', Lit ''boards'', Param ''boardId'', Lit ''cards'', Lit ''archived''], ''CardController.listArchived''),
      (Delete, [Lit ''workspaces'', Param ''workspaceId'', Lit ''boards'', Param ''boardId'', Lit ''cards'', Param ''cardId'', Lit ''permanent''], ''CardController.deletePermanently''),
      (Patch, [Lit ''workspaces'', Param ''workspaceId'', Lit ''boards'', Param ''boardId'', Lit ''cards'', Param ''cardId'', Lit ''unarchive''], ''CardController.unarchive''),
      (Post, [Lit ''workspaces'', Param ''workspaceId'', Lit ''boards'', Param ''boardId'', Lit ''cards'', Param ''cardId'', Lit ''assignees'', Param ''targetUserId''], ''CardController.addAssignee''),
      (Delete, [Lit ''workspaces'', Param ''workspaceId'', Lit ''boards'', Param ''boardId'', Lit ''cards'', Param ''cardId'', Lit ''assignees'', Param ''targetUserId''], ''CardController.removeAssignee''),
      (Post, [Lit ''workspaces'', Param ''workspaceId'', Lit ''boards'', Param ''boardId'', Lit ''cards'', Param ''cardId'', Lit ''labels'', Param ''labelId''], ''CardController.addLabel''),
      (Delete, [Lit ''workspaces'', Param ''workspaceId'', Lit ''boards'', Param ''boardId'', Lit ''cards'', Param ''cardId'', Lit ''labels'', Param ''labelId''], ''CardController.removeLabel''),
      (Patch, [Lit ''workspaces'', Param ''workspaceId'', Lit ''boards'', Param ''boardId'', Lit ''cards'', Param ''cardId'', Lit ''priority''], ''CardController.updatePriority''),
      (Patch, [Lit ''workspaces'', Param ''workspaceId'', Lit ''boards'', Param ''boardId'', Lit ''cards'', Param ''cardId'', Lit ''status''], ''CardController.updateStatus''),
      (Post, [Lit ''workspaces'', Param ''workspaceId'', Lit ''boards'', Param ''boardId'', Lit ''cards'', Param ''cardId'', Lit ''subcards''], ''CardController.createSubcard''),
      (Post, [Lit ''workspaces'', Param ''workspaceId'', Lit ''boards'', Param ''boardId'', Lit ''cards'', Param ''cardId'', Lit ''subcards'', Lit ''attach''], ''CardController.attachSubcard''),
      (Get, [Lit ''workspaces'', Param ''workspaceId'', Lit ''boards'', Param ''boardId'', Lit ''cards'', Param ''cardId'', Lit ''with-subcards''], ''CardController.getWithSubcards''),
      (Delete, [Lit ''workspaces'', Param ''workspaceId'', Lit ''boards'', Param ''boardId'', Lit ''cards'', Param ''cardId'', Lit ''parent''], ''CardController.detachSubcard'')]"

definition checklistApi_calls :: "(string \<Rightarrow> string) \<Rightarrow> call_options \<Rightarrow> feed_query \<Rightarrow> (api_call \<times> string) list" where
  "checklistApi_calls ids x feed =
     [(checklistApi_createChecklist (ids ''workspaceId'') (ids ''boardId'') (ids ''cardId'') (coBody x), ''ChecklistController.create''),
      (checklistApi_list (ids ''workspaceId'') (ids ''boardId'') (ids ''cardId''), ''ChecklistController.list''),
      (checklistApi_renameChecklist (ids ''workspaceId'') (ids ''boardId'') (ids ''cardId'') (ids ''checklistId'') (coBody x), ''ChecklistController.rename''),
      (checklistApi_deleteChecklist (ids ''workspaceId'') (ids ''boardId'') (ids ''cardId'') (ids ''checklistId''), ''ChecklistController.delete''),
      (checklistApi_addItem (ids ''workspaceId'') (ids ''boardId'') (ids ''cardId'') (ids ''checklistId'') (coBody x), ''ChecklistController.addItem''),
      (checklistApi_updateItem (ids ''workspaceId'') (ids ''boardId'') (ids ''cardId'') (ids ''checklistId'') (ids ''itemId'') (coBody x), ''ChecklistController.updateItem''),
      (checklistApi_removeItem (ids ''workspaceId'') (ids ''boardId'') (ids ''cardId'') (ids ''checklistId'') (ids ''itemId''), ''ChecklistController.removeItem''),
      (checklistApi_promoteItem (ids ''workspaceId'') (ids ''boardId'') (ids ''cardId'') (ids ''checklistId'') (ids ''itemId''), ''ChecklistController.promoteItem'')]"

definition checklistApi_paths :: "(http_method \<times> segment list \<times> string) list" where
  "checklistApi_paths =
     [(Post, [Lit ''workspaces'', Param ''workspaceId'', Lit ''boards'', Param ''boardId'', Lit ''cards'', Param ''cardId'', Lit ''checklists''], ''ChecklistController.create''),
      (Get, [Lit ''workspaces'', Param ''workspaceId'', Lit ''boards'', Param ''boardId'', Lit ''cards'', Param ''cardId'', Lit ''checklists''], ''ChecklistController.list''),
      (Patch, [Lit ''workspaces'', Param ''workspaceId'', Lit ''boards'', Param ''boardId'', Lit ''cards'', Param ''cardId'', Lit ''checklists'', Param ''checklistId''], ''ChecklistController.rename''),
      (Delete, [Lit ''workspaces'', Param ''workspaceId'', Lit ''boards'', Param ''boardId'', Lit ''cards'', Param ''cardId'', Lit ''checklists'', Param ''checklistId''], ''ChecklistController.delete''),
      (Post, [Lit ''workspaces'', Param ''workspaceId'', Lit ''boards'', Param ''boardId'', Lit ''cards'', Param ''cardId'', Lit ''checklists'', Param ''checklistId'', Lit ''items''], ''ChecklistController.addItem''),
      (Patch, [Lit ''workspaces'', Param ''workspaceId'', Lit ''boards'', Param ''boardId'', Lit ''cards'', Param ''cardId'', Lit ''checklists'', Param ''checklistId'', Lit ''items'', Param ''itemId''], ''ChecklistController.updateItem''),
      (Delete, [Lit ''workspaces'', Param ''workspaceId'', Lit ''boards'', Param ''boardId'', Lit ''cards'', Param ''cardId'', Lit ''checklists'', Param ''checklistId'', Lit ''items'', Param ''itemId''], ''ChecklistController.removeItem''),
      (Post, [Lit ''workspaces'', Param ''workspaceId'', Lit ''boards'', Param ''boardId'', Lit ''cards'', Param ''cardId'', Lit ''checklists'', Param ''checklistId'', Lit ''items'', Param ''itemId'', Lit ''promote''], ''ChecklistController.promoteItem'')]"

definition labelApi_calls :: "(string \<Rightarrow> string) \<Rightarrow> call_options \<Rightarrow> feed_query \<Rightarrow> (api_call \<times> string) list" where
  "labelApi_calls ids x feed =
     [(labelApi_createLabel (ids ''workspaceId'') (Inr (coBody x)) None, ''WorkspaceLabelController.createWorkspaceLabel''),
      (labelApi_createWorkspaceLabel (ids ''workspaceId'') (coBody x), ''WorkspaceLabelController.createWorkspaceLabel''),
      (labelApi_listForBoard (ids ''workspaceId'') (Some (ids ''boardId'')), ''LabelController.getLabelsForBoard''),
      (labelApi_listForBoard (ids ''workspaceId'') None, ''WorkspaceLabelController.getWorkspaceLabels''),
      (labelApi_listForWorkspace (ids ''workspaceId''), ''WorkspaceLabelController.getWorkspaceLabels''),
      (labelApi_getCardsForLabel (ids ''workspaceId'') (ids ''labelId''), ''WorkspaceLabelController.getCardsForLabel''),
      (labelApi_updateLabel (ids ''workspaceId'') (ids ''labelId'') (coBody x), ''WorkspaceLabelController.updateWorkspaceLabel''),
      (labelApi_deleteLabel (ids ''workspaceId'') (ids ''labelId''), ''WorkspaceLabelController.deleteWorkspaceLabel'')]"

definition labelApi_paths :: "(http_method \<times> segment list \<times> string) list" where
  "labelApi_paths =
     [(Post, [Lit ''workspaces'', Param ''workspaceId'', Lit ''labels''], ''WorkspaceLabelController.createWorkspaceLabel''),
      (Post, [Lit ''workspaces'', Param ''workspaceId'', Lit ''labels''], ''WorkspaceLabelController.createWorkspaceLabel''),
      (Get, [Lit ''workspaces'', Param ''workspaceId'', Lit ''boards'', Param ''boardId'', Lit ''labels''], ''LabelController.getLabelsForBoard''),
      (Get, [Lit ''workspaces'', Param ''workspaceId'', Lit ''labels''], ''WorkspaceLabelController.getWorkspaceLabels''),
      (Get, [Lit ''workspaces'', Param ''workspaceId'', Lit ''labels''], ''WorkspaceLabelController.getWorkspaceLabels''),
      (Get, [Lit ''workspaces'', Param ''workspaceId'', Lit ''labels'', Param ''labelId'', Lit ''cards''], ''WorkspaceLabelController.getCardsForLabel''),
      (Patch, [Lit ''workspaces'', Param ''workspaceId'', Lit ''labels'', Param ''labelId''], ''WorkspaceLabelController.updateWorkspaceLabel''),
      (Delete, [Lit ''workspaces'', Param ''workspaceId'', Lit ''labels'', Param ''labelId''], ''WorkspaceLabelController.deleteWorkspaceLabel'')]"

definition commentApi_calls :: "(string \<Rightarrow> string) \<Rightarrow> call_options \<Rightarrow> feed_query \<Rightarrow> (api_call \<times> string) list" where
  "commentApi_calls ids x feed =
     [(commentApi_create (ids ''workspaceId'') (ids ''boardId'') (ids ''cardId'') (coBody x), ''CardCommentController.create''),
      (commentApi_list (ids ''workspaceId'') (ids ''boardId'') (ids ''cardId'') (coText x ''cursor'') (coNumber x ''limit''), ''CardCommentController.list''),
      (commentApi_getThread (ids ''workspaceId'') (ids ''boardId'') (ids ''cardId'') (ids ''commentId''), ''CardCommentController.listThread''),
      (commentApi_listReplies (ids ''workspaceId'') (ids ''boardId'') (ids ''cardId'') (ids ''commentId''), ''CardCommentController.listThread''),
      (commentApi_update (ids ''workspaceId'') (ids ''boardId'') (ids ''cardId'') (ids ''commentId'') (coBody x), ''CardCommentController.update''),
      (commentApi_delete (ids ''workspaceId'') (ids ''boardId'') (ids ''cardId'') (ids ''commentId''), ''CardCommentController.delete'')]"

definition commentApi_paths :: "(http_method \<times> segment list \<times> string) list" where
  "commentApi_paths =
     [(Post, [Lit ''workspaces'', Param ''workspaceId'', Lit ''boards'', Param ''boardId'', Lit ''cards'', Param ''cardId'', Lit ''comments''], ''CardCommentController.create''),
      (Get, [Lit ''workspaces'', Param ''workspaceId'', Lit ''boards'', Param ''boardId'', Lit ''cards'', Param ''cardId'', Lit ''comments''], ''CardCommentController.list''),
      (Get, [Lit ''workspaces'', Param ''workspaceId'', Lit ''boards'', Param ''boardId'', Lit ''cards'', Param ''cardId'', Lit ''comments'', Param ''commentId'', Lit ''replies''], ''CardCommentController.listThread''),
      (Get, [Lit ''workspaces'', Param ''workspaceId'', Lit ''boards'', Param ''boardId'', Lit ''cards'', Param ''cardId'', Lit ''comments'', Param ''commentId'', Lit ''replies''], ''CardCommentController.listThread''),
      (Patch, [Lit ''workspaces'', Param ''workspaceId'', Lit ''boards'', Param ''boardId'', Lit ''cards'', Param ''cardId'', Lit ''comments'', Param ''commentId''], ''CardCommentController.update''),
      (Delete, [Lit ''workspaces'', Param ''workspaceId'', Lit ''boards'', Param ''boardId'', Lit ''cards'', Param ''cardId'', Lit ''comments'', Param ''commentId''], ''CardCommentController.delete'')]"

definition attachmentApi_calls :: "(string \<Rightarrow> string) \<Rightarrow> call_options \<Rightarrow> feed_query \<Rightarrow> (api_call \<times> string) list" where
  "attachmentApi_calls ids x feed =
     [(attachmentApi_list (ids ''workspaceId'') (ids ''boardId'') (ids ''cardId''), ''CardAttachmentController.list'')]"

definition attachmentApi_paths :: "(http_method \<times> segment list \<times> string) list" where
  "attachmentApi_paths =
     [(Get, [Lit ''workspaces'', Param ''workspaceId'', Lit ''boards'', Param ''boardId'', Lit ''cards'', Param ''cardId'', Lit ''attachments''], ''CardAttachmentController.list'')]"

definition documentApi_calls :: "(string \<Rightarrow> string) \<Rightarrow> call_options \<Rightarrow> feed_query \<Rightarrow> (api_call \<times> string) list" where
  "documentApi_calls ids x feed =
     [(documentApi_create (ids ''workspaceId'') (coText x ''title'') (coText x ''parentCard'') (coText x ''cardOf''), ''DocumentController.create''),
      (documentApi_list (ids ''workspaceId'') (coText x ''cursor'') (coNumber x ''limit'') (coText x ''search''), ''DocumentController.list''),
      (documentApi_get (ids ''workspaceId'') (ids ''documentId''), ''DocumentController.get''),
      (documentApi_getById (ids ''workspaceId'') (ids ''documentId''), ''DocumentController.get''),
      (documentApi_rename (ids ''workspaceId'') (ids ''documentId'') (coBody x), ''DocumentController.rename''),
      (documentApi_archive (ids ''workspaceId'') (ids ''documentId''), ''DocumentController.archive''),
      (documentApi_listByCard (ids ''workspaceId'') (ids ''cardId''), ''CardDocumentsController.listByCard''),
      (documentApi_listByBoard (ids ''workspaceId'') (ids ''boardId''), ''BoardDocumentsController.listByBoard''),
      (documentApi_createSnapshot (ids ''workspaceId'') (ids ''documentId'') (coText x ''name'') (coText x ''snapshotName''), ''DocumentSnapshotController.create''),
      (documentApi_listSnapshots (ids ''workspaceId'') (ids ''documentId''), ''DocumentSnapshotController.list''),
      (documentApi_restoreSnapshot (ids ''workspaceId'') (ids ''documentId'') (ids ''snapshotId''), ''DocumentSnapshotController.restore'')]"

definition documentApi_paths :: "(http_method \<times> segment list \<times> string) list" where
  "documentApi_paths =
     [(Post, [Lit ''workspaces'', Param ''workspaceId'', Lit ''documents''], ''DocumentController.create''),
      (Get, [Lit ''workspaces'', Param ''workspaceId'', Lit ''documents''], ''DocumentController.list''),
      (Get, [Lit ''workspaces'', Param ''workspaceId'', Lit ''documents'', Param ''documentId''], ''DocumentController.get''),
      (Get, [Lit ''workspaces'', Param ''workspaceId'', Lit ''documents'', Param ''documentId''], ''DocumentController.get''),
      (Patch, [Lit ''workspaces'', Param ''workspaceId'', Lit ''documents'', Param ''documentId''], ''DocumentController.rename''),
      (Delete, [Lit ''workspaces'', Param ''workspaceId'', Lit ''documents'', Param ''documentId''], ''DocumentController.archive''),
      (Get, [Lit ''workspaces'', Param ''workspaceId'', Lit ''cards'', Param ''cardId'', Lit ''documents''], ''CardDocumentsController.listByCard''),
      (Get, [Lit ''workspaces'', Param ''workspaceId'', Lit ''boards'', Param ''boardId'', Lit ''documents''], ''BoardDocumentsController.listByBoard''),
      (Post, [Lit ''workspaces'', Param ''workspaceId'', Lit ''documents'', Param ''documentId'', Lit ''snapshots''], ''DocumentSnapshotController.create''),
      (Get, [Lit ''workspaces'', Param ''workspaceId'', Lit ''documents'', Param ''documentId'', Lit ''snapshots''], ''DocumentSnapshotController.list''),
      (Post, [Lit ''workspaces'', Param ''workspaceId'', Lit ''documents'', Param ''documentId'', Lit ''snapshots'', Param ''snapshotId'', Lit ''restore''], ''DocumentSnapshotController.restore'')]"

definition cardFieldApi_calls :: "(string \<Rightarrow> string) \<Rightarrow> call_options \<Rightarrow> feed_query \<Rightarrow> (api_call \<times> string) list" where
  "cardFieldApi_calls ids x feed =
     [(cardFieldApi_createDef (ids ''workspaceId'') (coBody x), ''CardFieldDefController.createDef''),
      (cardFieldApi_listDefs (ids ''workspaceId''), ''CardFieldDefController.listDefs''),
      (cardFieldApi_updateDef (ids ''workspaceId'') (ids ''fieldId'') (coBody x), ''CardFieldDefController.updateDef''),
      (cardFieldApi_deleteDef (ids ''workspaceId'') (ids ''fieldId''), ''CardFieldDefController.deleteDef''),
      (cardFieldApi_getCardValues (ids ''workspaceId'') (ids ''boardId'') (ids ''cardId''), ''CardFieldValueController.listValues''),
      (cardFieldApi_setCardValue (ids ''workspaceId'') (ids ''boardId'') (ids ''cardId'') (ids ''fieldId'') (coValue x), ''CardFieldValueController.setValue'')]"

definition cardFieldApi_paths :: "(http_method \<times> segment list \<times> string) list" where
  "cardFieldApi_paths =
     [(Post, [Lit ''workspaces'', Param ''workspaceId'', Lit ''field-defs''], ''CardFieldDefController.createDef''),
      (Get, [Lit ''workspaces'', Param ''workspaceId'', Lit ''field-defs''], ''CardFieldDefController.listDefs''),
      (Patch, [Lit ''workspaces'', Param ''workspaceId'', Lit ''field-defs'', Param ''fieldId''], ''CardFieldDefController.updateDef''),
      (Delete, [Lit ''workspaces'', Param ''workspaceId'', Lit ''field-defs'', Param ''fieldId''], ''CardFieldDefController.deleteDef''),
      (Get, [Lit ''workspaces'', Param ''workspaceId'', Lit ''boards'', Param ''boardId'', Lit ''cards'', Param ''cardId'', Lit ''fields''], ''CardFieldValueController.listValues''),
      (Put, [Lit ''workspaces'', Param ''workspaceId'', Lit ''boards'', Param ''boardId'', Lit ''cards'', Param ''cardId'', Lit ''fields'', Param ''fieldId''], ''CardFieldValueController.setValue'')]"

definition cardTimeApi_calls :: "(string \<Rightarrow> string) \<Rightarrow> call_options \<Rightarrow> feed_query \<Rightarrow> (api_call \<times> string) list" where
  "cardTimeApi_calls ids x feed =
     [(cardTimeApi_setEstimate (ids ''workspaceId'') (ids ''boardId'') (ids ''cardId'') (coBody x), ''CardTimeController.setEstimate''),
      (cardTimeApi_logTime (ids ''workspaceId'') (ids ''boardId'') (ids ''cardId'') (coBody x), ''CardTimeController.logTime''),
      (cardTimeApi_listTimeEntries (ids ''workspaceId'') (ids ''boardId'') (ids ''cardId'') (coText x ''cursor'') (coNumber x ''limit''), ''CardTimeController.getTracking''),
      (cardTimeApi_getTimeTracking (ids ''workspaceId'') (ids ''boardId'') (ids ''cardId'') (coText x ''cursor'') (coNumber x ''limit''), ''CardTimeController.getTracking'')]"

definition cardTimeApi_paths :: "(http_method \<times> segment list \<times> string) list" where
  "cardTimeApi_paths =
     [(Patch, [Lit ''workspaces'', Param ''workspaceId'', Lit ''boards'', Param ''boardId'', Lit ''cards'', Param ''cardId'', Lit ''estimate''], ''CardTimeController.setEstimate''),
      (Post, [Lit ''workspaces'', Param ''workspaceId'', Lit ''boards'', Param ''boardId'', Lit ''cards'', Param ''cardId'', Lit ''time''], ''CardTimeController.logTime''),
      (Get, [Lit ''workspaces'', Param ''workspaceId'', Lit ''boards'', Param ''boardId'', Lit ''cards'', Param ''cardId'', Lit ''time''], ''CardTimeController.getTracking''),
      (Get, [Lit ''workspaces'', Param ''workspaceId'', Lit ''boards'', Param ''boardId'', Lit ''cards'', Param ''cardId'', Lit ''time''], ''CardTimeController.getTracking'')]"

definition boardViewApi_calls :: "(string \<Rightarrow> string) \<Rightarrow> call_options \<Rightarrow> feed_query \<Rightarrow> (api_call \<times> string) list" where
  "boardViewApi_calls ids x feed =
     [(boardViewApi_calendar (ids ''workspaceId'') (ids ''boardId'') (the_text x ''from_date'') (the_text x ''to_date'') (coText x ''cursor'') (coNumber x ''limit''), ''BoardViewController.calendar''),
      (boardViewApi_timeline (ids ''workspaceId'') (ids ''boardId'') (coText x ''cursor'') (coNumber x ''limit''), ''BoardViewController.timeline''),
      (boardViewApi_table (ids ''workspaceId'') (ids ''boardId'') (coText x ''cursor'') (coNumber x ''limit'') (coText x ''status'') (coText x ''priority'') (coText x ''assignee'') (coText x ''search'') (coText x ''sortBy'') (coText x ''sortOrder''), ''BoardViewController.table'')]"

definition boardViewApi_paths :: "(http_method \<times> segment list \<times> string) list" where
  "boardViewApi_paths =
     [(Get, [Lit ''workspaces'', Param ''workspaceId'', Lit ''boards'', Param ''boardId'', Lit ''views'', Lit ''calendar''], ''BoardViewController.calendar''),
      (Get, [Lit ''workspaces'', Param ''workspaceId'', Lit ''boards'', Param ''boardId'', Lit ''views'', Lit ''timeline''], ''BoardViewController.timeline''),
      (Get, [Lit ''workspaces'', Param ''workspaceId'', Lit ''boards'', Param ''boardId'', Lit ''views'', Lit ''table''], ''BoardViewController.table'')]"

definition boardLabelApi_calls :: "(string \<Rightarrow> string) \<Rightarrow> call_options \<Rightarrow> feed_query \<Rightarrow> (api_call \<times> string) list" where
  "boardLabelApi_calls ids x feed =
     [(boardLabelApi_create (ids ''workspaceId'') (ids ''boardId'') (coBody x), ''LabelController.createLabel''),
      (boardLabelApi_list (ids ''workspaceId'') (ids ''boardId''), ''LabelController.getLabelsForBoard''),
      (boardLabelApi_update (ids ''workspaceId'') (ids ''boardId'') (ids ''labelId'') (coBody x), ''LabelController.updateLabel''),
      (boardLabelApi_remove (ids ''workspaceId'') (ids ''boardId'') (ids ''labelId''), ''LabelController.deleteLabel'')]"

definition boardLabelApi_paths :: "(http_method \<times> segment list \<times> string) list" where
  "boardLabelApi_paths =
     [(Post, [Lit ''workspaces'', Param ''workspaceId'', Lit ''boards'', Param ''boardId'', Lit ''labels''], ''LabelController.createLabel''),
      (Get, [Lit ''workspaces'', Param ''workspaceId'', Lit ''boards'', Param ''boardId'', Lit ''labels''], ''LabelController.getLabelsForBoard''),
      (Patch, [Lit ''workspaces'', Param ''workspaceId'', Lit ''boards'', Param ''boardId'', Lit ''labels'', Param ''labelId''], ''LabelController.updateLabel''),
      (Delete, [Lit ''workspaces'', Param ''workspaceId'', Lit ''boards'', Param ''boardId'', Lit ''labels'', Param ''labelId''], ''LabelController.deleteLabel'')]"

definition notificationsApi_calls :: "(string \<Rightarrow> string) \<Rightarrow> call_options \<Rightarrow> feed_query \<Rightarrow> (api_call \<times> string) list" where
  "notificationsApi_calls ids x feed =
     [(notificationsApi_list (coText x ''cursor'') (coNumber x ''limit'') (coFlag x), ''NotificationController.list''),
      (notificationsApi_unreadCount, ''NotificationController.unreadCount''),
      (notificationsApi_markRead (ids ''id''), ''NotificationController.markRead''),
      (notificationsApi_markAllRead, ''NotificationController.markAllRead'')]"

definition notificationsApi_paths :: "(http_method \<times> segment list \<times> string) list" where
  "notificationsApi_paths =
     [(Get, [Lit ''notifications''], ''NotificationController.list''),
      (Get, [Lit ''notifications'', Lit ''unread-count''], ''NotificationController.unreadCount''),
      (Patch, [Lit ''notifications'', Param ''id'', Lit ''read''], ''NotificationController.markRead''),
      (Post, [Lit ''notifications'', Lit ''read-all''], ''NotificationController.markAllRead'')]"

definition activityApi_calls :: "(string \<Rightarrow> string) \<Rightarrow> call_options \<Rightarrow> feed_query \<Rightarrow> (api_call \<times> string) list" where
  "activityApi_calls ids x feed =
     [(activityApi_workspaceFeed (ids ''workspaceId'') feed, ''ActivityController.getWorkspaceFeed''),
      (activityApi_boardFeed (ids ''workspaceId'') (ids ''boardId'') feed, ''BoardActivityController.getBoardFeed'')]"

definition activityApi_paths :: "(http_method \<times> segment list \<times> string) list" where
  "activityApi_paths =
     [(Get, [Lit ''workspaces'', Param ''workspaceId'', Lit ''activity''], ''ActivityController.getWorkspaceFeed''),
      (Get, [Lit ''workspaces'', Param ''workspaceId'', Lit ''boards'', Param ''boardId'', Lit ''activity''], ''BoardActivityController.getBoardFeed'')]"

definition filesApi_calls :: "(string \<Rightarrow> string) \<Rightarrow> call_options \<Rightarrow> feed_query \<Rightarrow> (api_call \<times> string) list" where
  "filesApi_calls ids x feed =
     [(filesApi_requestUpload (ids ''workspaceId'') (coBody x), ''FileController.requestUpload''),
      (filesApi_confirm (ids ''workspaceId'') (ids ''fileId''), ''FileController.confirm''),
      (filesApi_downloadUrl (ids ''workspaceId'') (ids ''fileId''), ''FileController.download''),
      (filesApi_remove (ids ''workspaceId'') (ids ''fileId''), ''FileController.delete'')]"

definition filesApi_paths :: "(http_method \<times> segment list \<times> string) list" where
  "filesApi_paths =
     [(Post, [Lit ''workspaces'', Param ''workspaceId'', Lit ''files'', Lit ''presigned-upload''], ''FileController.requestUpload''),
      (Post, [Lit ''workspaces'', Param ''workspaceId'', Lit ''files'', Param ''fileId'', Lit ''confirm''], ''FileController.confirm''),
      (Get, [Lit ''workspaces'', Param ''workspaceId'', Lit ''files'', Param ''fileId'', Lit ''download''], ''FileController.download''),
      (Delete, [Lit ''workspaces'', Param ''workspaceId'', Lit ''files'', Param ''fileId''], ''FileController.delete'')]"

definition healthApi_calls :: "(string \<Rightarrow> string) \<Rightarrow> call_options \<Rightarrow> feed_query \<Rightarrow> (api_call \<times> string) list" where
  "healthApi_calls ids x feed =
     [(healthApi_getHealth, ''HealthController.check'')]"

definition healthApi_paths :: "(http_method \<times> segment list \<times> string) list" where
  "healthApi_paths =
     [(Get, [Lit ''health''], ''HealthController.check'')]"

definition client_calls :: "(string \<Rightarrow> string) \<Rightarrow> call_options \<Rightarrow> feed_query \<Rightarrow> (api_call \<times> string) list" where
  "client_calls ids x feed =
     authApi_calls ids x feed @ workspaceApi_calls ids x feed @ boardApi_calls ids x feed @ listApi_calls ids x feed @
     cardApi_calls ids x feed @ checklistApi_calls ids x feed @ labelApi_calls ids x feed @ commentApi_calls ids x feed @
     attachmentApi_calls ids x feed @ documentApi_calls ids x feed @ cardFieldApi_calls ids x feed @ cardTimeApi_calls ids x feed @
     boardViewApi_calls ids x feed @ boardLabelApi_calls ids x feed @ notificationsApi_calls ids x feed @ activityApi_calls ids x feed @
     filesApi_calls ids x feed @ healthApi_calls ids x feed"

section \<open>Paths with their parameters open\<close>

definition inst :: "(string \<Rightarrow> string) \<Rightarrow> segment \<Rightarrow> string" where
  "inst ids s = (case s of Lit a \<Rightarrow> a | Param n \<Rightarrow> ids n)"

lemma inst_simps [simp]: "inst ids (Lit a) = a" "inst ids (Param n) = ids n"
  by (simp_all add: inst_def)

definition lits :: "segment list \<Rightarrow> string list" where
  "lits ps = List.map_filter (\<lambda>s. case s of Lit a \<Rightarrow> Some a | Param n \<Rightarrow> None) ps"

lemma lits_simps [simp]: "lits [] = []" "lits (Lit a # ps) = a # lits ps" "lits (Param n # ps) = lits ps"
  by (simp_all add: lits_def map_filter_simps)

lemma lits_append [simp]: "lits (ps @ qs) = lits ps @ lits qs"
proof (induction ps)
  case (Cons p ps)
  then show ?case by (cases p) simp_all
qed simp

definition route_words :: "string list" where
  "route_words = concat (map (\<lambda>(pre, routes). lits pre @ concat (map (\<lambda>(m, p, h). lits p) routes)) controllers)"

text \<open>What a path parameter may be: a word without the characters a URL gives a meaning, and none of the words of the routes.\<close>

definition plain_segment :: "string \<Rightarrow> bool" where
  "plain_segment t \<longleftrightarrow> t \<noteq> [] \<and> list_all (\<lambda>c. c \<notin> set ''/?#%.'') t \<and> t \<notin> set route_words"

lemma split_slash_plain:
  "CHR ''/'' \<notin> set w \<Longrightarrow> split_slash w = [w]"
  "CHR ''/'' \<notin> set w \<Longrightarrow> split_slash (w @ CHR ''/'' # r) = w # split_slash r"
  by (induction w) auto

lemma plain_segmentD: "plain_segment t \<Longrightarrow> t \<noteq> []" "plain_segment t \<Longrightarrow> CHR ''/'' \<notin> set t"
  "plain_segment t \<Longrightarrow> a \<in> set route_words \<Longrightarrow> t \<noteq> a"
  by (auto simp: plain_segment_def list_all_iff)

fun unify :: "segment list \<Rightarrow> segment list \<Rightarrow> (string \<times> segment) list option" where
  "unify [] [] = Some []"
| "unify (Lit a # ps) (Lit b # ts) = (if b = a then unify ps ts else None)"
| "unify (Lit a # ps) (Param n # ts) = None"
| "unify (Param n # ps) (Lit b # ts) = (if b = [] then None else map_option (\<lambda>r. (n, Lit b) # r) (unify ps ts))"
| "unify (Param n # ps) (Param m # ts) = map_option (\<lambda>r. (n, Param m) # r) (unify ps ts)"
| "unify _ _ = None"

lemma match_unify:
  assumes "\<And>n. plain_segment (ids n)" "set (lits ps) \<subseteq> set route_words"
  shows "match_path ps (map (inst ids) ts) = map_option (map (\<lambda>(n, t). (n, inst ids t))) (unify ps ts)"
  using assms(2)
  by (induction ps ts rule: unify.induct)
    (auto simp: plain_segmentD(1) [OF assms(1)] plain_segmentD(3) [OF assms(1)] option.map_comp comp_def)

text \<open>The prefix of a controller is matched once, from its end, where prefixes differ.\<close>

fun unify_prefix :: "segment list \<Rightarrow> segment list \<Rightarrow> ((string \<times> segment) list \<times> segment list) option" where
  "unify_prefix [] ts = Some ([], ts)"
| "unify_prefix (Lit a # ps) (Lit b # ts) =
     (case unify_prefix ps ts of None \<Rightarrow> None | Some r \<Rightarrow> if b = a then Some r else None)"
| "unify_prefix (Param n # ps) (Lit b # ts) = (if b = [] then None else map_option (\<lambda>(r, rest). ((n, Lit b) # r, rest)) (unify_prefix ps ts))"
| "unify_prefix (Param n # ps) (Param m # ts) = map_option (\<lambda>(r, rest). ((n, Param m) # r, rest)) (unify_prefix ps ts)"
| "unify_prefix _ _ = None"

lemma map_option_append_Nil [simp]: "map_option ((@) []) x = x"
  by (cases x) simp_all

lemma unify_append:
  "unify (pre @ ps) ts = (case unify_prefix pre ts of None \<Rightarrow> None | Some (b, rest) \<Rightarrow> map_option ((@) b) (unify ps rest))"
  by (induction pre ts rule: unify_prefix.induct)
    (auto simp: option.map_comp comp_def split: option.splits intro!: option.map_cong)

definition open_answer :: "http_method \<Rightarrow> segment list \<Rightarrow> controller \<Rightarrow> (string \<times> (string \<times> segment) list) option" where
  "open_answer verb path c =
     (case unify_prefix (fst c) path of
        None \<Rightarrow> None
      | Some (b, rest) \<Rightarrow>
          (case List.map_filter (\<lambda>(m, p, h). if m = verb then map_option (\<lambda>r. (h, b @ r)) (unify p rest) else None) (snd c) of
             [] \<Rightarrow> None | a # as \<Rightarrow> Some a))"

definition params :: "segment list \<Rightarrow> string list" where
  "params ts = List.map_filter (\<lambda>s. case s of Lit a \<Rightarrow> None | Param n \<Rightarrow> Some n) ts"

definition reaches :: "http_method \<times> segment list \<times> string \<Rightarrow> bool" where
  "reaches c = (case c of (m, ts, h) \<Rightarrow>
     List.map_filter (open_answer m ts) controllers = [(h, map (\<lambda>n. (n, Param n)) (params ts))])"

text \<open>Evaluated controller by controller.\<close>

lemma reaches_code [code]:
  "reaches (m, ts, h) \<longleftrightarrow>
     List.map_filter (\<lambda>x. x)
       [open_answer m ts AppController_routes,
        open_answer m ts HealthController_routes,
        open_answer m ts ActivityController_routes,
        open_answer m ts BoardActivityController_routes,
        open_answer m ts AuthController_routes,
        open_answer m ts CardAttachmentController_routes,
        open_answer m ts CardFieldDefController_routes,
        open_answer m ts CardFieldValueController_routes,
        open_answer m ts CardTimeController_routes,
        open_answer m ts CardController_routes,
        open_answer m ts ChecklistController_routes,
        open_answer m ts CardCommentController_routes,
        open_answer m ts BoardController_routes,
        open_answer m ts LabelController_routes,
        open_answer m ts WorkspaceLabelController_routes,
        open_answer m ts ListController_routes,
        open_answer m ts BoardViewController_routes,
        open_answer m ts BoardDocumentsController_routes,
        open_answer m ts CardDocumentsController_routes,
        open_answer m ts DocumentSnapshotController_routes,
        open_answer m ts DocumentController_routes,
        open_answer m ts FileController_routes,
        open_answer m ts NotificationController_routes,
        open_answer m ts WorkspaceController_routes] =
     [(h, map (\<lambda>n. (n, Param n)) (params ts))]"
proof -
  have "List.map_filter (open_answer m ts) cs = List.map_filter (\<lambda>x. x) (map (open_answer m ts) cs)" for cs
    by (induction cs) (simp_all add: map_filter_simps split: option.split)
  then show ?thesis by (simp only: reaches_def prod.case controllers_def list.map)
qed

lemma map_filter_map: "List.map_filter (\<lambda>x. map_option f (g x)) xs = map f (List.map_filter g xs)"
  by (induction xs) (auto simp: map_filter_simps split: option.splits)

lemma map_filter_cong: "(\<And>x. x \<in> set xs \<Longrightarrow> f x = g x) \<Longrightarrow> List.map_filter f xs = List.map_filter g xs"
  by (induction xs) (simp_all add: map_filter_simps split: option.split)

lemma map_filter_none: "List.map_filter (\<lambda>x. None) xs = []"
  by (induction xs) (simp_all add: map_filter_simps)

lemma open_answer_unfolded:
  "open_answer m ts c =
     (case List.map_filter (\<lambda>(v, p, h). if v = m then map_option (Pair h) (unify (fst c @ p) ts) else None) (snd c) of
        [] \<Rightarrow> None | a # as \<Rightarrow> Some a)"
proof (cases "unify_prefix (fst c) ts")
  case None
  then have "List.map_filter (\<lambda>(v, p, h). if v = m then map_option (Pair h) (unify (fst c @ p) ts) else None) (snd c) =
      List.map_filter (\<lambda>x. None) (snd c)"
    by (intro map_filter_cong) (auto simp: unify_append)
  then show ?thesis by (simp add: open_answer_def None map_filter_none)
next
  case (Some x)
  then obtain b rest where x: "unify_prefix (fst c) ts = Some (b, rest)" by (cases x) auto
  then have "List.map_filter (\<lambda>(v, p, h). if v = m then map_option (Pair h) (unify (fst c @ p) ts) else None) (snd c) =
      List.map_filter (\<lambda>(v, p, h). if v = m then map_option (\<lambda>r. (h, b @ r)) (unify p rest) else None) (snd c)"
    by (intro map_filter_cong) (auto simp: unify_append option.map_comp comp_def)
  then show ?thesis by (simp add: open_answer_def x)
qed

lemma words_of_routes:
  assumes "c \<in> set controllers" "(v, p, h) \<in> set (snd c)"
  shows "set (lits (fst c @ p)) \<subseteq> set route_words"
proof -
  let ?w = "\<lambda>(pre, routes). lits pre @ concat (map (\<lambda>(m, p, h). lits p) routes)"
  have "set (?w c) \<subseteq> set route_words" using assms(1) unfolding route_words_def set_concat set_map by blast
  moreover have "set (lits p) \<subseteq> set (concat (map (\<lambda>(m, p, h). lits p) (snd c)))"
    unfolding set_concat set_map using assms(2) by (intro subsetI UnionI [of "set (lits p)"]) (auto intro!: image_eqI)
  ultimately show ?thesis by (cases c) auto
qed

lemma answer_of_open:
  assumes "\<And>n. plain_segment (ids n)" "c \<in> set controllers"
  shows "answer_of m (map (inst ids) ts) c = map_option (\<lambda>(h, bs). (h, map (\<lambda>(n, t). (n, inst ids t)) bs)) (open_answer m ts c)"
proof -
  let ?f = "\<lambda>(h, bs). (h, map (\<lambda>(n, t). (n, inst ids t)) bs)"
  have "match_path (fst c @ p) (map (inst ids) ts) = map_option (map (\<lambda>(n, t). (n, inst ids t))) (unify (fst c @ p) ts)"
    if "(v, p, h) \<in> set (snd c)" for v p h
    by (intro match_unify [OF assms(1)] words_of_routes [OF assms(2) that])
  then have "List.map_filter (\<lambda>(v, p, h). if v = m then map_option (Pair h) (match_path (fst c @ p) (map (inst ids) ts)) else None) (snd c) =
      List.map_filter (\<lambda>x. map_option ?f (case x of (v, p, h) \<Rightarrow> if v = m then map_option (Pair h) (unify (fst c @ p) ts) else None)) (snd c)"
    by (intro map_filter_cong) (auto simp: option.map_comp comp_def)
  then show ?thesis unfolding answer_of_def open_answer_unfolded map_filter_map by (simp split: list.splits)
qed

lemma reaches_answers:
  assumes plain: "\<And>n. plain_segment (ids n)" and c: "reaches (acMethod rq, ts, h)"
    and path: "split_slash (API_BASE @ acPath rq) = [] # globalPrefix # map (inst ids) ts"
  shows "answers rq = [(h, map (\<lambda>n. (n, ids n)) (params ts))]"
proof -
  let ?f = "\<lambda>(h, bs). (h, map (\<lambda>(n, t). (n, inst ids t)) bs)"
  have "List.map_filter (answer_of (acMethod rq) (map (inst ids) ts)) cs =
      List.map_filter (\<lambda>x. map_option ?f (open_answer (acMethod rq) ts x)) cs" if "set cs \<subseteq> set controllers" for cs
    using that by (intro map_filter_cong answer_of_open [OF plain]) auto
  from this [OF order_refl] c show ?thesis
    unfolding answers_def path map_filter_map reaches_def by simp
qed

section \<open>Each function of the client\<close>

text \<open>The paths the functions build, parameter by parameter, and what the route tables make of them.\<close>

definition same_paths :: "(string \<Rightarrow> string) \<Rightarrow> (api_call \<times> string) list \<Rightarrow> (http_method \<times> segment list \<times> string) list \<Rightarrow> bool" where
  "same_paths ids = list_all2 (\<lambda>(rq, h) (m, ts, h'). acMethod rq = m \<and> h = h' \<and>
     split_slash (API_BASE @ acPath rq) = [] # globalPrefix # map (inst ids) ts)"

lemmas path_simps = same_paths_def client_defs api_get_def api_send_def API_BASE_def globalPrefix_def Let_def

lemma same_paths_reach:
  assumes "\<And>n. plain_segment (ids n)" "same_paths ids calls paths" "list_all reaches paths" "(rq, h) \<in> set calls"
  shows "\<exists>names. answers rq = [(h, map (\<lambda>n. (n, ids n)) names)]"
proof -
  from assms(4) obtain k where k: "k < length calls" "calls ! k = (rq, h)" by (auto simp: in_set_conv_nth)
  obtain m ts h' where q: "paths ! k = (m, ts, h')" by (cases "paths ! k") auto
  have "list_all2 (\<lambda>(rq, h) (m, ts, h'). acMethod rq = m \<and> h = h' \<and>
     split_slash (API_BASE @ acPath rq) = [] # globalPrefix # map (inst ids) ts) calls paths"
    using assms(2) by (simp add: same_paths_def)
  from list_all2_nthD [OF this k(1)] list_all2_lengthD [OF this] have p: "(m, ts, h') \<in> set paths" "acMethod rq = m" "h = h'"
    "split_slash (API_BASE @ acPath rq) = [] # globalPrefix # map (inst ids) ts"
    using k q nth_mem [of k paths] by simp_all
  from assms(3) p have "reaches (acMethod rq, ts, h)" by (auto simp: list_all_iff)
  from reaches_answers [OF assms(1) this p(4)] show ?thesis by blast
qed

lemma authApi_reached:
  assumes "\<And>n. plain_segment (ids n)"
  shows "same_paths ids (authApi_calls ids x feed) authApi_paths" "list_all reaches authApi_paths"
proof -
  note slash [simp] = plain_segmentD(1,2) [OF assms]
  show "same_paths ids (authApi_calls ids x feed) authApi_paths"
    by (simp add: authApi_calls_def authApi_paths_def path_simps split_slash_plain)
qed code_simp

lemma workspaceApi_reached:
  assumes "\<And>n. plain_segment (ids n)"
  shows "same_paths ids (workspaceApi_calls ids x feed) workspaceApi_paths" "list_all reaches workspaceApi_paths"
proof -
  note slash [simp] = plain_segmentD(1,2) [OF assms]
  show "same_paths ids (workspaceApi_calls ids x feed) workspaceApi_paths"
    by (simp add: workspaceApi_calls_def workspaceApi_paths_def path_simps split_slash_plain)
qed code_simp

lemma boardApi_reached:
  assumes "\<And>n. plain_segment (ids n)"
  shows "same_paths ids (boardApi_calls ids x feed) boardApi_paths" "list_all reaches boardApi_paths"
proof -
  note slash [simp] = plain_segmentD(1,2) [OF assms]
  show "same_paths ids (boardApi_calls ids x feed) boardApi_paths"
    by (simp add: boardApi_calls_def boardApi_paths_def path_simps split_slash_plain)
qed code_simp

lemma listApi_reached:
  assumes "\<And>n. plain_segment (ids n)"
  shows "same_paths ids (listApi_calls ids x feed) listApi_paths" "list_all reaches listApi_paths"
proof -
  note slash [simp] = plain_segmentD(1,2) [OF assms]
  show "same_paths ids (listApi_calls ids x feed) listApi_paths"
    by (simp add: listApi_calls_def listApi_paths_def path_simps split_slash_plain)
qed code_simp

lemma cardApi_reached:
  assumes "\<And>n. plain_segment (ids n)"
  shows "same_paths ids (cardApi_calls ids x feed) cardApi_paths" "list_all reaches cardApi_paths"
proof -
  note slash [simp] = plain_segmentD(1,2) [OF assms]
  show "same_paths ids (cardApi_calls ids x feed) cardApi_paths"
    by (simp add: cardApi_calls_def cardApi_paths_def path_simps split_slash_plain)
qed code_simp

lemma checklistApi_reached:
  assumes "\<And>n. plain_segment (ids n)"
  shows "same_paths ids (checklistApi_calls ids x feed) checklistApi_paths" "list_all reaches checklistApi_paths"
proof -
  note slash [simp] = plain_segmentD(1,2) [OF assms]
  show "same_paths ids (checklistApi_calls ids x feed) checklistApi_paths"
    by (simp add: checklistApi_calls_def checklistApi_paths_def path_simps split_slash_plain)
qed code_simp

lemma labelApi_reached:
  assumes "\<And>n. plain_segment (ids n)"
  shows "same_paths ids (labelApi_calls ids x feed) labelApi_paths" "list_all reaches labelApi_paths"
proof -
  note slash [simp] = plain_segmentD(1,2) [OF assms]
  show "same_paths ids (labelApi_calls ids x feed) labelApi_paths"
    by (simp add: labelApi_calls_def labelApi_paths_def path_simps split_slash_plain)
qed code_simp

lemma commentApi_reached:
  assumes "\<And>n. plain_segment (ids n)"
  shows "same_paths ids (commentApi_calls ids x feed) commentApi_paths" "list_all reaches commentApi_paths"
proof -
  note slash [simp] = plain_segmentD(1,2) [OF assms]
  show "same_paths ids (commentApi_calls ids x feed) commentApi_paths"
    by (simp add: commentApi_calls_def commentApi_paths_def path_simps split_slash_plain)
qed code_simp

lemma attachmentApi_reached:
  assumes "\<And>n. plain_segment (ids n)"
  shows "same_paths ids (attachmentApi_calls ids x feed) attachmentApi_paths" "list_all reaches attachmentApi_paths"
proof -
  note slash [simp] = plain_segmentD(1,2) [OF assms]
  show "same_paths ids (attachmentApi_calls ids x feed) attachmentApi_paths"
    by (simp add: attachmentApi_calls_def attachmentApi_paths_def path_simps split_slash_plain)
qed code_simp

lemma documentApi_reached:
  assumes "\<And>n. plain_segment (ids n)"
  shows "same_paths ids (documentApi_calls ids x feed) documentApi_paths" "list_all reaches documentApi_paths"
proof -
  note slash [simp] = plain_segmentD(1,2) [OF assms]
  show "same_paths ids (documentApi_calls ids x feed) documentApi_paths"
    by (simp add: documentApi_calls_def documentApi_paths_def path_simps split_slash_plain)
qed code_simp

lemma cardFieldApi_reached:
  assumes "\<And>n. plain_segment (ids n)"
  shows "same_paths ids (cardFieldApi_calls ids x feed) cardFieldApi_paths" "list_all reaches cardFieldApi_paths"
proof -
  note slash [simp] = plain_segmentD(1,2) [OF assms]
  show "same_paths ids (cardFieldApi_calls ids x feed) cardFieldApi_paths"
    by (simp add: cardFieldApi_calls_def cardFieldApi_paths_def path_simps split_slash_plain)
qed code_simp

lemma cardTimeApi_reached:
  assumes "\<And>n. plain_segment (ids n)"
  shows "same_paths ids (cardTimeApi_calls ids x feed) cardTimeApi_paths" "list_all reaches cardTimeApi_paths"
proof -
  note slash [simp] = plain_segmentD(1,2) [OF assms]
  show "same_paths ids (cardTimeApi_calls ids x feed) cardTimeApi_paths"
    by (simp add: cardTimeApi_calls_def cardTimeApi_paths_def path_simps split_slash_plain)
qed code_simp

lemma boardViewApi_reached:
  assumes "\<And>n. plain_segment (ids n)"
  shows "same_paths ids (boardViewApi_calls ids x feed) boardViewApi_paths" "list_all reaches boardViewApi_paths"
proof -
  note slash [simp] = plain_segmentD(1,2) [OF assms]
  show "same_paths ids (boardViewApi_calls ids x feed) boardViewApi_paths"
    by (simp add: boardViewApi_calls_def boardViewApi_paths_def path_simps split_slash_plain)
qed code_simp

lemma boardLabelApi_reached:
  assumes "\<And>n. plain_segment (ids n)"
  shows "same_paths ids (boardLabelApi_calls ids x feed) boardLabelApi_paths" "list_all reaches boardLabelApi_paths"
proof -
  note slash [simp] = plain_segmentD(1,2) [OF assms]
  show "same_paths ids (boardLabelApi_calls ids x feed) boardLabelApi_paths"
    by (simp add: boardLabelApi_calls_def boardLabelApi_paths_def path_simps split_slash_plain)
qed code_simp

lemma notificationsApi_reached:
  assumes "\<And>n. plain_segment (ids n)"
  shows "same_paths ids (notificationsApi_calls ids x feed) notificationsApi_paths" "list_all reaches notificationsApi_paths"
proof -
  note slash [simp] = plain_segmentD(1,2) [OF assms]
  show "same_paths ids (notificationsApi_calls ids x feed) notificationsApi_paths"
    by (simp add: notificationsApi_calls_def notificationsApi_paths_def path_simps split_slash_plain)
qed code_simp

lemma activityApi_reached:
  assumes "\<And>n. plain_segment (ids n)"
  shows "same_paths ids (activityApi_calls ids x feed) activityApi_paths" "list_all reaches activityApi_paths"
proof -
  note slash [simp] = plain_segmentD(1,2) [OF assms]
  show "same_paths ids (activityApi_calls ids x feed) activityApi_paths"
    by (simp add: activityApi_calls_def activityApi_paths_def path_simps split_slash_plain)
qed code_simp

lemma filesApi_reached:
  assumes "\<And>n. plain_segment (ids n)"
  shows "same_paths ids (filesApi_calls ids x feed) filesApi_paths" "list_all reaches filesApi_paths"
proof -
  note slash [simp] = plain_segmentD(1,2) [OF assms]
  show "same_paths ids (filesApi_calls ids x feed) filesApi_paths"
    by (simp add: filesApi_calls_def filesApi_paths_def path_simps split_slash_plain)
qed code_simp

lemma healthApi_reached:
  assumes "\<And>n. plain_segment (ids n)"
  shows "same_paths ids (healthApi_calls ids x feed) healthApi_paths" "list_all reaches healthApi_paths"
proof -
  note slash [simp] = plain_segmentD(1,2) [OF assms]
  show "same_paths ids (healthApi_calls ids x feed) healthApi_paths"
    by (simp add: healthApi_calls_def healthApi_paths_def path_simps split_slash_plain)
qed code_simp

section \<open>Property\<close>


definition two_ids :: "string \<Rightarrow> string" where
  "two_ids n = (if n = ''boardId'' then ''b-1'' else ''w-1'')"

definition no_options :: call_options where
  "no_options = \<lparr>coText = \<lambda>_. None, coNumber = \<lambda>_. None, coFlag = False, coBody = [], coValue = JNull\<rparr>"

definition whole_feed :: feed_query where
  "whole_feed = \<lparr>fqCursor = None, fqLimit = None, fqEntityType = None, fqEntityId = None, fqActorId = None, fqBoardId = None\<rparr>"


text \<open>
  The validation pipe refuses bodies with fields the data-transfer object does not declare (\<open>whitelist\<close> with
  \<open>forbidNonWhitelisted\<close> in \<open>main.ts\<close>), and \<open>@IsObject()\<close> refuses strings. Three things the client sends are refused.
\<close>

definition UpdateWorkspaceDto_fields :: "string list" where
  "UpdateWorkspaceDto_fields = [''name'', ''description'', ''avatarUrl'']"

definition UpdateChecklistItemDto_fields :: "string list" where
  "UpdateChecklistItemDto_fields = [''content'', ''isDone'']"

definition whitelisted :: "string list \<Rightarrow> json option \<Rightarrow> bool" where
  "whitelisted declared body =
     (case body of Some (JObject fs) \<Rightarrow> list_all (\<lambda>(k, v). k \<in> set declared) fs | _ \<Rightarrow> True)"

definition js_isObject :: "json \<Rightarrow> bool" where
  "js_isObject v = (case v of JObject fs \<Rightarrow> True | _ \<Rightarrow> False)"

lemma refused_bodies:
  "\<not> whitelisted UpdateWorkspaceDto_fields (acBody (workspaceApi_update w [(''name'', JString n), (''slug'', JString s)]))"
  "\<not> whitelisted UpdateChecklistItemDto_fields (acBody (checklistApi_updateItem w b c k i [(''position'', JNumber (Finite p))]))"
  "acBody (cardApi_update w b c [(''description'', JString t)]) = Some (JObject [(''description'', JString t)]) \<and>
   \<not> js_isObject (JString t)"
  by (simp_all add: client_defs api_send_def whitelisted_def UpdateWorkspaceDto_fields_def UpdateChecklistItemDto_fields_def pick_def
      map_filter_simps js_isObject_def)

end
