(* ===== verification/Client_Session.thy ===== *)
theory Client_Session
  imports Auth_Routes Error_Responses Client_Requests
begin

text \<open>
  The client's side of a session: the store of the access token (\<open>src/frontend/src/stores/auth.store.ts\<close>, with its copy in the
  local storage) and \<open>apiFetch\<close> with its renewal (\<open>src/frontend/src/api/client.ts\<close>). The network is a function from the token and
  the call to what comes back. Fields the client reads as strings are strings; the conversion of other values in a list of
  messages is the parameter \<open>str\<close>.
\<close>

section \<open>The store\<close>

record auth_store =
  asToken :: "string option"
  asUser :: "json option"
  asIsAuthenticated :: bool

definition loadInitialState :: "string option \<Rightarrow> json option \<Rightarrow> auth_store" where
  "loadInitialState token user = \<lparr>asToken = token, asUser = user, asIsAuthenticated = truthy token\<rparr>"

definition setAuth :: "string \<Rightarrow> json \<Rightarrow> auth_store \<Rightarrow> auth_store" where
  "setAuth token user st = st\<lparr>asToken := Some token, asUser := Some user, asIsAuthenticated := True\<rparr>"

definition setToken :: "string \<Rightarrow> auth_store \<Rightarrow> auth_store" where
  "setToken token st = st\<lparr>asToken := Some token, asIsAuthenticated := True\<rparr>"

definition setUser :: "json \<Rightarrow> auth_store \<Rightarrow> auth_store" where
  "setUser user st = st\<lparr>asUser := Some user\<rparr>"

definition clearAuth :: "auth_store \<Rightarrow> auth_store" where
  "clearAuth st = st\<lparr>asToken := None, asUser := None, asIsAuthenticated := False\<rparr>"

section \<open>Answers\<close>

text \<open>What comes back: nothing, with the message of the failure, or status, status text and the parsed body if it parses.\<close>

datatype wire = NoAnswer string | Answer nat string "json option"

definition json_field :: "string \<Rightarrow> json option \<Rightarrow> json option" where
  "json_field k v = (case v of Some (JObject fs) \<Rightarrow> map_of fs k | _ \<Rightarrow> None)"

definition text_field :: "string \<Rightarrow> json option \<Rightarrow> string option" where
  "text_field k v = (case json_field k v of Some (JString t) \<Rightarrow> Some t | _ \<Rightarrow> None)"

fun json_truthy :: "json option \<Rightarrow> bool" where
  "json_truthy None = False"
| "json_truthy (Some JNull) = False"
| "json_truthy (Some (JBool b)) = b"
| "json_truthy (Some (JNumber n)) = (n \<noteq> Finite 0 \<and> n \<noteq> NaN)"
| "json_truthy (Some (JString t)) = (t \<noteq> [])"
| "json_truthy (Some (JArray xs)) = True"
| "json_truthy (Some (JObject fs)) = True"

text \<open>\<open>x || y\<close> and \<open>x ?? y\<close>.\<close>

definition js_or :: "json option \<Rightarrow> json option \<Rightarrow> json option" where
  "js_or x y = (if json_truthy x then x else y)"

definition js_nullish :: "json option \<Rightarrow> json option \<Rightarrow> json option" where
  "js_nullish x y = (if x = None \<or> x = Some JNull then y else x)"

record api_error =
  aeCode :: "json option"
  aeMessage :: "json option"

record api_result =
  arSuccess :: bool
  arData :: "json option"
  arError :: "api_error option"

definition response_ok :: "nat \<Rightarrow> bool" where
  "response_ok status \<longleftrightarrow> 200 \<le> status \<and> status \<le> 299"

fun join_comma :: "string list \<Rightarrow> string" where
  "join_comma [] = []"
| "join_comma [x] = x"
| "join_comma (x # y # xs) = x @ '', '' @ join_comma (y # xs)"

definition formatted_message :: "(json \<Rightarrow> string) \<Rightarrow> string \<Rightarrow> json option \<Rightarrow> string" where
  "formatted_message str statusText raw =
     (case js_nullish (json_field ''message'' (json_field ''error'' raw)) (json_field ''message'' raw) of
        Some (JArray ms) \<Rightarrow> join_comma (map (\<lambda>m. case m of JString t \<Rightarrow> t | m \<Rightarrow> str m) ms)
      | Some (JString t) \<Rightarrow> t
      | _ \<Rightarrow> if statusText = [] then ''Request failed'' else statusText)"

definition result_of :: "(json \<Rightarrow> string) \<Rightarrow> nat \<Rightarrow> string \<Rightarrow> json option \<Rightarrow> api_result" where
  "result_of str status statusText raw =
     (if json_field ''success'' raw \<noteq> None then
        \<lparr>arSuccess = json_truthy (json_field ''success'' raw), arData = json_field ''data'' raw,
         arError = (if json_truthy (json_field ''error'' raw)
                    then Some \<lparr>aeCode = json_field ''code'' (json_field ''error'' raw),
                               aeMessage = json_field ''message'' (json_field ''error'' raw)\<rparr> else None)\<rparr>
      else if response_ok status then \<lparr>arSuccess = True, arData = raw, arError = None\<rparr>
      else \<lparr>arSuccess = False, arData = None,
            arError = Some \<lparr>aeCode = js_or (json_field ''code'' (json_field ''error'' raw))
                                      (js_or (json_field ''code'' raw)
                                         (js_or (json_field ''error'' raw) (Some (JString (''HTTP_'' @ show_nat status))))),
                            aeMessage = Some (JString (formatted_message str statusText raw))\<rparr>\<rparr>)"

section \<open>Calls\<close>

type_synonym 'w send = "string option \<Rightarrow> api_call \<Rightarrow> 'w \<Rightarrow> wire \<times> 'w"

text \<open>The renewal, one at a time; what happens to callers that come while it runs is \<open>flight\<close> below.\<close>

definition refreshAccessToken :: "'w send \<Rightarrow> auth_store \<Rightarrow> 'w \<Rightarrow> string option \<times> auth_store \<times> 'w" where
  "refreshAccessToken send st w =
     (case send None authApi_refresh w of
        (NoAnswer m, w') \<Rightarrow> (None, st, w')
      | (Answer status statusText raw, w') \<Rightarrow>
          let newToken = (if truthy (text_field ''accessToken'' (json_field ''data'' raw))
                          then text_field ''accessToken'' (json_field ''data'' raw) else text_field ''accessToken'' raw)
          in if response_ok status \<and> truthy newToken then (newToken, setToken (the newToken) st, w')
             else (None, if status = 401 \<or> status = 403 then clearAuth st else st, w'))"

definition isAuthError :: "nat \<Rightarrow> api_result \<Rightarrow> bool" where
  "isAuthError status r \<longleftrightarrow>
     status = 401 \<or>
     (case arError r of
        None \<Rightarrow> False
      | Some e \<Rightarrow> aeCode e \<in> (\<lambda>c. Some (JString c)) ` set [''TOKEN_EXPIRED'', ''TOKEN_INVALID'', ''TOKEN_REVOKED'', ''UNAUTHORIZED''])"

definition isAuthEndpoint :: "string \<Rightarrow> bool" where
  "isAuthEndpoint path \<longleftrightarrow>
     js_includes path ''/auth/refresh'' \<or> js_includes path ''/auth/login'' \<or>
     js_includes path ''/auth/register'' \<or> js_includes path ''/auth/logout''"

definition network_error :: "string \<Rightarrow> api_result" where
  "network_error m =
     \<lparr>arSuccess = False, arData = None, arError = Some \<lparr>aeCode = Some (JString ''NETWORK_ERROR''), aeMessage = Some (JString m)\<rparr>\<rparr>"

text \<open>The second call of \<open>apiFetch\<close>, with \<open>_retry\<close>, never renews.\<close>

definition retried :: "(json \<Rightarrow> string) \<Rightarrow> 'w send \<Rightarrow> api_call \<Rightarrow> string \<Rightarrow> auth_store \<Rightarrow> 'w \<Rightarrow> api_result \<times> auth_store \<times> 'w" where
  "retried str send rq token st w =
     (case send (Some token) rq w of
        (NoAnswer m, w') \<Rightarrow> (network_error m, st, w')
      | (Answer status statusText raw, w') \<Rightarrow> (result_of str status statusText raw, st, w'))"

text \<open>\<open>at_login\<close>: the page is the login page or an invitation.\<close>

definition apiFetch ::
  "(json \<Rightarrow> string) \<Rightarrow> 'w send \<Rightarrow> bool \<Rightarrow> api_call \<Rightarrow> auth_store \<Rightarrow> 'w \<Rightarrow> api_result \<times> auth_store \<times> 'w" where
  "apiFetch str send at_login rq st w =
     (case send (asToken st) rq w of
        (NoAnswer m, w1) \<Rightarrow> (network_error m, st, w1)
      | (Answer status statusText raw, w1) \<Rightarrow>
          let r = result_of str status statusText raw
          in if isAuthError status r \<and> \<not> isAuthEndpoint (acPath rq) \<and> truthy (asToken st)
             then (case refreshAccessToken send st w1 of
                     (Some fresh, st2, w2) \<Rightarrow> retried str send rq fresh st2 w2
                   | (None, st2, w2) \<Rightarrow> (r, if at_login then st2 else clearAuth st2, w2))
             else (r, st, w1))"

section \<open>One renewal at a time\<close>

text \<open>
  The shared promise: absent, in flight, or settled with its result until the timer of half a second clears it. A caller either
  starts a renewal or shares the one that is there.
\<close>

definition REFRESH_DEBOUNCE_MS :: instant where "REFRESH_DEBOUNCE_MS = 500"

datatype flight = Grounded | Flying | Landed "string option" instant

datatype flight_event = Asked | Settled "string option" | Timer

fun flight_step :: "instant \<Rightarrow> flight_event \<Rightarrow> flight \<Rightarrow> flight" where
  "flight_step now Asked Grounded = Flying"
| "flight_step now (Settled r) Flying = Landed r (now + REFRESH_DEBOUNCE_MS)"
| "flight_step now Timer (Landed r t) = (if t \<le> now then Grounded else Landed r t)"
| "flight_step now e f = f"

definition starts :: "flight_event \<Rightarrow> flight \<Rightarrow> bool" where
  "starts e f \<longleftrightarrow> e = Asked \<and> f = Grounded"

fun flight_run :: "(instant \<times> flight_event) list \<Rightarrow> flight \<Rightarrow> flight" where
  "flight_run [] f = f"
| "flight_run ((now, e) # es) f = flight_run es (flight_step now e f)"

lemma flight_quiet:
  assumes "sorted (map fst es)" "\<forall>(u, e)\<in>set es. t \<le> u \<and> u < t + REFRESH_DEBOUNCE_MS" "f \<noteq> Grounded"
    and "\<And>r u. f = Landed r u \<Longrightarrow> t + REFRESH_DEBOUNCE_MS \<le> u"
  shows "flight_run es f \<noteq> Grounded"
  using assms
proof (induction es arbitrary: f)
  case (Cons x es)
  obtain now e where x: "x = (now, e)" by (cases x)
  from Cons.prems x have now: "t \<le> now" "now < t + REFRESH_DEBOUNCE_MS" by auto
  have "flight_step now e f \<noteq> Grounded"
    "\<And>r u. flight_step now e f = Landed r u \<Longrightarrow> t + REFRESH_DEBOUNCE_MS \<le> u"
    using Cons.prems(3,4) now by (cases e; cases f; auto)+
  with Cons show ?case by (auto simp: x)
qed simp

section \<open>The server at the other end\<close>

text \<open>The envelopes of \<open>ResponseInterceptor\<close> and of the exception filter; timestamps and request ids are left out.\<close>

definition success_body :: "json \<Rightarrow> json" where
  "success_body data = JObject [(''success'', JBool True), (''data'', data)]"

definition error_body :: "error_answer \<Rightarrow> json" where
  "error_body a = JObject [(''success'', JBool False),
     (''error'', JObject [(''code'', JString (eaCode a)), (''message'', JString (eaMessage a)),
                          (''statusCode'', JNumber (Finite (of_nat (eaStatusCode a))))])]"

text \<open>What a request gets over the wire; \<open>raise\<close> is the exception a failure is raised as.\<close>

definition wire_of :: "(error \<Rightarrow> http_exception) \<Rightarrow> instant \<Rightarrow> error + json \<Rightarrow> wire" where
  "wire_of raise now r =
     (case r of
        Inl e \<Rightarrow> (let a = allExceptionsFilter_catch True now None None (raise e)
                  in Answer (eaStatusCode a) [] (Some (error_body a)))
      | Inr x \<Rightarrow> Answer 200 [] (Some (success_body x)))"

definition token_json :: "token_pair \<Rightarrow> json" where
  "token_json p = JObject [(''accessToken'', JString (tpAccessToken p)), (''expiresIn'', JNumber (Finite (of_int (tpExpiresIn p))))]"

definition method_name :: "http_method \<Rightarrow> string" where
  "method_name m = (case m of Get \<Rightarrow> ''GET'' | Post \<Rightarrow> ''POST'' | Patch \<Rightarrow> ''PATCH'' | Put \<Rightarrow> ''PUT'' | Delete \<Rightarrow> ''DELETE'')"

text \<open>The request the browser makes of a call: the header from the token, the cookie from its jar.\<close>

definition to_request :: "string option \<Rightarrow> string option \<Rightarrow> api_call \<Rightarrow> http_request" where
  "to_request token jar rq =
     \<lparr>rqAuthorization = (if truthy token then Some (''Bearer '' @ the token) else None), rqRefreshCookie = jar,
      rqMethod = method_name (acMethod rq), rqWorkspaceId = None\<rparr>"

text \<open>A server with the refresh endpoint and, behind \<open>JwtAuthGuard\<close>, any handler \<open>k\<close>.\<close>

definition server_send ::
  "crypto \<Rightarrow> (error \<Rightarrow> http_exception) \<Rightarrow> session_draws \<Rightarrow> instant \<Rightarrow> (claims \<Rightarrow> api_call \<Rightarrow> db \<Rightarrow> json outcome) \<Rightarrow>
   (string option \<times> db) send" where
  "server_send cr raise d now k token rq w =
     (let req = to_request token (fst w) rq
      in if acPath rq = ''/auth/refresh''
         then (case authController_refresh cr d now None None req (snd w) of
                 ((r, s'), ch) \<Rightarrow> (wire_of raise now (map_sum id token_json r), (apply_cookie ch (fst w), s')))
         else (case with_jwt cr now req (\<lambda>c s. plain_reply (k c rq s)) (snd w) of
                 ((r, s'), ch) \<Rightarrow> (wire_of raise now r, (apply_cookie ch (fst w), s'))))"

text \<open>What the token library promises of a token that it has just signed and that has not expired.\<close>

definition signs_well :: "crypto \<Rightarrow> instant \<Rightarrow> claims \<Rightarrow> bool" where
  "signs_well cr now c \<longleftrightarrow>
     crSign cr c \<noteq> [] \<and> CHR '' '' \<notin> set (crSign cr c) \<and> (now < clExp c \<longrightarrow> crVerify cr now (crSign cr c) = Inr c)"

lemma bearer_of: "t \<noteq> [] \<Longrightarrow> CHR '' '' \<notin> set t \<Longrightarrow> bearer_token (rqAuthorization (to_request (Some t) jar rq)) = Some t"
  by (auto simp: to_request_def truthy_def bearer_token_def bearer_prefix_def takeWhile_eq_all_conv)

lemma error_wire:
  assumes "stands_for e (raise e)"
  shows "\<exists>m. wire_of raise now (Inl e) =
    Answer (error_status e) [] (Some (JObject [(''success'', JBool False),
      (''error'', JObject [(''code'', JString (told_code e)), (''message'', JString m),
         (''statusCode'', JNumber (Finite (of_nat (error_status e))))])]))"
  using described [OF assms] by (auto simp: wire_of_def allExceptionsFilter_catch_def error_body_def Let_def)

text \<open>The user a refresh cookie belongs to.\<close>

definition cookie_user :: "crypto \<Rightarrow> string option \<Rightarrow> db \<Rightarrow> user_row \<Rightarrow> bool" where
  "cookie_user cr jar s u \<longleftrightarrow>
     (\<exists>raw t. jar = Some raw \<and> tokenRepo_findByTokenHash (hashToken cr raw) s = Some t \<and> userRepo_findById (rtUserId t) s = Some u)"

lemma renewed_tokens:
  assumes "authController_refresh cr d now None None rq s = ((Inr p, s'), ch)" "cookie_user cr (rqRefreshCookie rq) s u"
  shows "tpAccessToken p = generateAccessToken cr now (sdJti d) u \<and> redis s' = redis s"
  using assms
  by (auto simp: authController_refresh_def session_reply_def plain_reply_def authService_refreshTokens_def refresh_commit_def
      cookie_user_def refresh_decide_cases rotate_Inr_iff await_Inr_iff split: if_splits refresh_decision.splits)

section \<open>Properties\<close>

lemma refresh_path: "isAuthEndpoint ''/auth/refresh''"
  by code_simp

lemma claims_last: "now < clExp (user_claims now jti u)"
  unfolding user_claims_def by simp

lemma verified_request:
  assumes "signs_well cr now c" "\<not> isBlacklisted now jti s" "now < clExp c" "clJti c = jti"
  shows "jwtAuthGuard_canActivate cr now (to_request (Some (crSign cr c)) jar rq) s = Inr c"
  using assms by (simp add: jwtAuthGuard_canActivate_def bearer_of signs_well_def verifyAccessToken_def)


text \<open>Exceptions the failures are raised as, with the code as the message.\<close>

fun raised :: "error \<Rightarrow> http_exception" where
  "raised (EntityNotFound name i) =
     AppRaised (map to_upper name @ ''_NOT_FOUND'') 404 (name @ '' with id '' @ [CHR 39] @ i @ [CHR 39] @ '' was not found'') []"
| "raised (BusinessRule m) = AppRaised m 422 m []"
| "raised (AppError m status) = AppRaised m status m []"
| "raised (BadRequest m) = HttpRaised 400 m (ObjectBody None (MessageText m))"
| "raised (Unauthorized m) = HttpRaised 401 m (ObjectBody None (MessageText m))"
| "raised (Forbidden m) = HttpRaised 403 m (ObjectBody None (MessageText m))"
| "raised (NotFound m) = HttpRaised 404 m (ObjectBody None (MessageText m))"
| "raised (PrismaError c) = OtherRaised c"
| "raised JsTypeError = OtherRaised ''TypeError''"

lemma raised_stands: "stands_for e (raised e)"
  by (cases e) simp_all

definition ann :: user_row where
  "ann = (new_user ''u'' 0 ''a@b.cd'' (Some ''spw'') ''Ann'')\<lparr>userLastLoginAt := Some 0\<rparr>"

definition renewing_crypto :: crypto where
  "renewing_crypto = sample_crypto\<lparr>crVerify := \<lambda>now t. if t = ''u'' then Inr (user_claims now ''2'' ann) else Inl JwtExpired\<rparr>"

definition whoami :: "claims \<Rightarrow> api_call \<Rightarrow> db \<Rightarrow> json outcome" where
  "whoami c rq s = (Inr (JString (clSub c)), s)"


text \<open>
  Two tabs share the cookie, not the promise. When both renew at once the requests carry the same refresh token: the second one is
  a replay to the server, which ends the session, and the next renewal fails.
\<close>

definition after_first :: db where
  "after_first = snd (authService_refreshTokens sample_crypto (sample_draws CHR ''2'') 5 ''1'' None None sample_session)"

lemma second_tab:
  "authService_refreshTokens sample_crypto (sample_draws CHR ''3'') 6 ''1'' None None after_first =
     (Inl (Unauthorized ''TOKEN_REUSE_DETECTED''), tokenRepo_revokeFamily 6 ''1'' after_first)"
  "fst (authService_refreshTokens sample_crypto (sample_draws CHR ''4'') 7 ''2'' None None (tokenRepo_revokeFamily 6 ''1'' after_first)) =
     Inl (Unauthorized ''TOKEN_REUSE_DETECTED'')"
  unfolding after_first_def sample_refresh snd_conv
  by (simp_all add: authService_refreshTokens_def refresh_decide_def refresh_commit_def sample_session_eq tokenRepo_revokeFamily_def
      revoke_where_def update_many_def revoke_def tokenRepo_findByTokenHashWithUser_def tokenRepo_findByTokenHash_def
      hashToken_def new_token_def sample_crypto_def refresh_expiry_def)

lemma two_tabs_end_the_session:
  assumes "server_send sample_crypto raised (sample_draws CHR ''2'') 5 k None authApi_refresh (Some ''1'', sample_session) = (a1, (jar, s1))"
    and "server_send sample_crypto raised (sample_draws CHR ''3'') 6 k None authApi_refresh (Some ''1'', s1) = (a2, (jar', s2))"
  shows "jar = Some ''2'' \<and> fst (refreshAccessToken (server_send sample_crypto raised (sample_draws CHR ''4'') 7 k) st (jar, s2)) = None"
proof -
  have at: "acPath authApi_refresh = ''/auth/refresh''" by (simp add: authApi_refresh_def api_send_def)
  have 1: "jar = Some ''2''" "s1 = after_first"
    using assms(1)
    by (auto simp: server_send_def at authController_refresh_def to_request_def truthy_def session_reply_def sample_refresh after_first_def)
  have 2: "s2 = tokenRepo_revokeFamily 6 ''1'' after_first"
    using assms(2) second_tab(1) unfolding 1
    by (auto simp: server_send_def at authController_refresh_def to_request_def truthy_def session_reply_def)
  obtain s3 where 3: "authService_refreshTokens sample_crypto (sample_draws CHR ''4'') 7 ''2'' None None s2 =
      (Inl (Unauthorized ''TOKEN_REUSE_DETECTED''), s3)"
    using second_tab(2) unfolding 2 by (metis prod.collapse)
  have "fst (refreshAccessToken (server_send sample_crypto raised (sample_draws CHR ''4'') 7 k) st (Some ''2'', s2)) = None"
    using error_wire [of "Unauthorized ''TOKEN_REUSE_DETECTED''" raised 7, OF raised_stands]
    by (auto simp: refreshAccessToken_def server_send_def at authController_refresh_def to_request_def truthy_def session_reply_def 3
        response_ok_def)
  with 1 show ?thesis by simp
qed

end
