(* ===== verification/Client_Editor.thy ===== *)
theory Client_Editor
  imports Document_Gateway
begin

text \<open>
  \<open>DocumentEditor\<close> (\<open>src/frontend/src/components/document/DocumentEditor.tsx\<close>), the collaborative editor of the
  browser client: its copy of the document, the socket it talks through, and what each event does to them. A socket message
  is a \<open>doc_message\<close> of \<open>Document_Gateway\<close>, what arrives is an event with the payload the gateway emits. Beside the
  library operations of \<open>Document_Manager\<close> the editor uses \<open>ytVector\<close>, the state vector of a document, and \<open>ytReplace\<close>, the
  transaction that replaces the whole text, with the update it reports, if any.
\<close>

record 'd ytext =
  ytVector :: "'d \<Rightarrow> string"
  ytReplace :: "string \<Rightarrow> 'd \<Rightarrow> 'd \<times> string option"

section \<open>State\<close>

text \<open>\<open>deSocket\<close> is the id of the socket while it is connected; \<open>deSent\<close> holds what was handed to it and is still under way.\<close>

record 'd editor =
  deYdoc :: 'd
  deText :: string
  deSocket :: "string option"
  deEditors :: "editor_info list"
  deAwareness :: "((string \<times> wire) list) rhash"
  deLastSaved :: "instant option"
  deLastEmit :: instant
  deSent :: "doc_message list"

definition new_editor :: "'d yjs \<Rightarrow> 'd editor" where
  "new_editor yj = \<lparr>deYdoc = yEmpty yj, deText = [], deSocket = None, deEditors = [], deAwareness = [], deLastSaved = None,
     deLastEmit = 0, deSent = []\<rparr>"

text \<open>Who is editing, and which document of which workspace.\<close>

record editor_props =
  epDocument :: uuid
  epWorkspace :: uuid
  epUser :: uuid
  epName :: string

definition socket_emit :: "doc_message \<Rightarrow> 'd editor \<Rightarrow> 'd editor" where
  "socket_emit m ed = ed\<lparr>deSent := deSent ed @ [m]\<rparr>"

section \<open>What arrives\<close>

definition as_text :: "wire option \<Rightarrow> string option" where
  "as_text w = (case w of Some (WString t) \<Rightarrow> Some t | _ \<Rightarrow> None)"

definition as_instant :: "wire option \<Rightarrow> instant option" where
  "as_instant w = (case w of Some (WInstant t) \<Rightarrow> Some t | _ \<Rightarrow> None)"

definition as_object :: "wire option \<Rightarrow> (string \<times> wire) list option" where
  "as_object w = (case w of Some (WObject fs) \<Rightarrow> Some fs | _ \<Rightarrow> None)"

definition as_array :: "wire option \<Rightarrow> wire list option" where
  "as_array w = (case w of Some (WArray xs) \<Rightarrow> Some xs | _ \<Rightarrow> None)"

definition text_at :: "string \<Rightarrow> (string \<times> wire) list \<Rightarrow> string" where
  "text_at k fs = (case as_text (map_of fs k) of Some t \<Rightarrow> t | None \<Rightarrow> [])"

definition read_editor :: "(string \<times> wire) list \<Rightarrow> editor_info" where
  "read_editor fs = \<lparr>edUserId = text_at ''userId'' fs, edDisplayName = text_at ''displayName'' fs,
     edAvatarUrl = as_text (map_of fs ''avatarUrl''), edColor = text_at ''color'' fs\<rparr>"

lemma read_wire_editor [simp]: "read_editor (wire_editor e) = e"
  by (cases e) (simp add: read_editor_def wire_editor_def text_at_def as_text_def wire_opt_def split: option.split)

text \<open>\<open>Y.applyUpdate(ydoc, raw, 'remote')\<close>; when it throws, the copy stays as it is.\<close>

definition apply_remote :: "'d yjs \<Rightarrow> string \<Rightarrow> 'd editor \<Rightarrow> 'd editor" where
  "apply_remote yj u ed =
     (case yApply yj u (deYdoc ed) of None \<Rightarrow> ed | Some d \<Rightarrow> ed\<lparr>deYdoc := d, deText := yText yj d\<rparr>)"

definition onConnect :: "'d ytext \<Rightarrow> editor_props \<Rightarrow> string \<Rightarrow> 'd editor \<Rightarrow> 'd editor" where
  "onConnect yt p k ed =
     socket_emit (DocJoin (epDocument p) (epWorkspace p) (Some (ytVector yt (deYdoc ed)))) (ed\<lparr>deSocket := Some k\<rparr>)"

definition onDisconnect :: "'d editor \<Rightarrow> 'd editor" where
  "onDisconnect ed = ed\<lparr>deSocket := None\<rparr>"

definition onJoined :: "'d yjs \<Rightarrow> (string \<times> wire) list \<Rightarrow> 'd editor \<Rightarrow> 'd editor" where
  "onJoined yj ack ed =
     (let ed1 = (case as_array (map_of ack ''editors'') of
                   Some xs \<Rightarrow> ed\<lparr>deEditors := map read_editor (List.map_filter (\<lambda>w. as_object (Some w)) xs)\<rparr>
                 | None \<Rightarrow> ed)
      in (case as_text (map_of ack ''state'') of Some u \<Rightarrow> apply_remote yj u ed1 | None \<Rightarrow> ed1))"

definition onEditorJoined :: "editor_info \<Rightarrow> 'd editor \<Rightarrow> 'd editor" where
  "onEditorJoined e ed =
     (if list_ex (\<lambda>x. edUserId x = edUserId e) (deEditors ed) then ed else ed\<lparr>deEditors := deEditors ed @ [e]\<rparr>)"

definition onEditorLeft :: "editor_info \<Rightarrow> 'd editor \<Rightarrow> 'd editor" where
  "onEditorLeft e ed = ed\<lparr>deEditors := filter (\<lambda>x. edUserId x \<noteq> edUserId e) (deEditors ed),
     deAwareness := hdel (edUserId e) (deAwareness ed)\<rparr>"

definition onAwareness :: "editor_props \<Rightarrow> (string \<times> wire) list \<Rightarrow> 'd editor \<Rightarrow> 'd editor" where
  "onAwareness p payload ed =
     (case as_object (map_of payload ''data'') of
        Some fs \<Rightarrow>
          if text_at ''userId'' fs = [] \<or> text_at ''userId'' fs = epUser p then ed
          else ed\<lparr>deAwareness := hset (text_at ''userId'' fs) fs (deAwareness ed)\<rparr>
      | None \<Rightarrow> ed)"

definition onUpdate :: "'d yjs \<Rightarrow> (string \<times> wire) list \<Rightarrow> 'd editor \<Rightarrow> 'd editor" where
  "onUpdate yj payload ed = (case as_text (map_of payload ''update'') of Some u \<Rightarrow> apply_remote yj u ed | None \<Rightarrow> ed)"

definition onSaved :: "(string \<times> wire) list \<Rightarrow> 'd editor \<Rightarrow> 'd editor" where
  "onSaved payload ed = (case as_instant (map_of payload ''savedAt'') of Some t \<Rightarrow> ed\<lparr>deLastSaved := Some t\<rparr> | None \<Rightarrow> ed)"

definition receive :: "'d yjs \<Rightarrow> editor_props \<Rightarrow> string \<times> (string \<times> wire) list \<Rightarrow> 'd editor \<Rightarrow> 'd editor" where
  "receive yj p message ed =
     (let (event, payload) = message
      in if event = ''doc:joined'' then onJoined yj payload ed
         else if event = ''doc:editor-joined'' then onEditorJoined (read_editor payload) ed
         else if event = ''doc:editor-left'' then onEditorLeft (read_editor payload) ed
         else if event = ''doc:awareness'' then onAwareness p payload ed
         else if event = ''doc:update'' then onUpdate yj payload ed
         else if event = ''doc:saved'' then onSaved payload ed
         else ed)"

section \<open>What the user does\<close>

definition emitAwareness :: "editor_props \<Rightarrow> instant \<Rightarrow> nat \<Rightarrow> nat \<Rightarrow> 'd editor \<Rightarrow> 'd editor" where
  "emitAwareness p now start stop ed =
     (if deSocket ed = None \<or> now - deLastEmit ed < 50 then ed
      else socket_emit (DocAwareness (epDocument p) (WObject
             [(''userId'', WString (epUser p)),
              (''displayName'', WString (if epName p = [] then ''Anonymous'' else epName p)),
              (''color'', WString (case find (\<lambda>e. edUserId e = epUser p) (deEditors ed) of
                                     None \<Rightarrow> ''#7c3aed''
                                   | Some e \<Rightarrow> if edColor e = [] then ''#7c3aed'' else edColor e)),
              (''cursor'', WObject [(''start'', WInt (int start)), (''end'', WInt (int stop))]),
              (''updatedAt'', WInstant now)]))
           (ed\<lparr>deLastEmit := now\<rparr>))"

text \<open>A transaction of the user: the update it reports is sent if the socket is connected.\<close>

definition edit_text :: "'d ytext \<Rightarrow> editor_props \<Rightarrow> string \<Rightarrow> 'd editor \<Rightarrow> 'd editor" where
  "edit_text yt p t ed =
     (let (d, u) = ytReplace yt t (deYdoc ed);
          ed1 = ed\<lparr>deYdoc := d, deText := t\<rparr>
      in (case u of
            None \<Rightarrow> ed1
          | Some _ \<Rightarrow> if deSocket ed = None then ed1 else socket_emit (DocUpdate (epDocument p) u) ed1))"

definition handleTextChange :: "'d ytext \<Rightarrow> editor_props \<Rightarrow> instant \<Rightarrow> string \<Rightarrow> nat \<Rightarrow> nat \<Rightarrow> 'd editor \<Rightarrow> 'd editor" where
  "handleTextChange yt p now nextVal start stop ed = emitAwareness p now start stop (edit_text yt p nextVal ed)"

text \<open>The text around the selection, with the markers put in, and where the cursor goes.\<close>

definition markdown_text :: "string \<Rightarrow> string \<Rightarrow> nat \<Rightarrow> nat \<Rightarrow> string \<Rightarrow> string" where
  "markdown_text opening suffix start stop t =
     (let selected = take (stop - start) (drop start t)
      in take start t @ (opening @ (if selected = [] then ''text'' else selected) @ suffix) @ drop stop t)"

definition markdown_cursor :: "string \<Rightarrow> nat \<Rightarrow> nat \<Rightarrow> string \<Rightarrow> nat" where
  "markdown_cursor opening start stop t =
     (let selected = take (stop - start) (drop start t)
      in start + length opening + (if selected = [] then 4 else length selected))"

definition insertMarkdown :: "'d ytext \<Rightarrow> editor_props \<Rightarrow> string \<Rightarrow> string \<Rightarrow> nat \<Rightarrow> nat \<Rightarrow> 'd editor \<Rightarrow> 'd editor" where
  "insertMarkdown yt p opening suffix start stop ed =
     edit_text yt p (markdown_text opening suffix start stop (deText ed)) ed"

section \<open>What the user sees\<close>

fun split_lines :: "string \<Rightarrow> string list" where
  "split_lines [] = [[]]"
| "split_lines (c # t) = (if c = CHR 0x0A then [] # split_lines t
     else (case split_lines t of [] \<Rightarrow> [[c]] | l # ls \<Rightarrow> (c # l) # ls))"

definition getLineAndCol :: "string \<Rightarrow> int \<Rightarrow> nat \<times> nat" where
  "getLineAndCol t offset =
     (let safeOffset = max 0 (min offset (int (length t)));
          ls = split_lines (take (nat safeOffset) t)
      in (length ls, length (last ls) + 1))"

definition otherActiveEditors :: "editor_props \<Rightarrow> instant \<Rightarrow> 'd editor \<Rightarrow> ((string \<times> wire) list) list" where
  "otherActiveEditors p now ed =
     filter (\<lambda>fs. text_at ''userId'' fs \<noteq> epUser p \<and>
         (case as_instant (map_of fs ''updatedAt'') of Some t \<Rightarrow> now - t < 60000 | None \<Rightarrow> False))
       (map snd (deAwareness ed))"

lemma split_lines_not_Nil [simp]: "split_lines t \<noteq> []"
  by (induction t) (auto split: list.split)

text \<open>The line is one more than the number of line ends before the cursor, the column counts from the last of them.\<close>

lemma line_of_cursor:
  assumes "n \<le> length t"
  shows "getLineAndCol t (int n) = (Suc (count_list (take n t) (CHR 0x0A)), Suc (length (takeWhile (\<lambda>c. c \<noteq> CHR 0x0A) (rev (take n t)))))"
proof -
  have lines: "length (split_lines u) = Suc (count_list u (CHR 0x0A))" for u
    by (induction u) (auto split: list.splits)
  have "split_lines (u @ v) = butlast (split_lines u) @ (last (split_lines u) @ hd (split_lines v)) # tl (split_lines v)" for u v
  proof (induction u)
    case (Cons c u)
    then show ?case by (cases "split_lines u") (auto simp: neq_Nil_conv split: list.split)
  qed simp
  then have snoc: "split_lines (u @ [c]) = (if c = CHR 0x0A then split_lines u @ [[]] else butlast (split_lines u) @ [last (split_lines u) @ [c]])" for u c
    by simp
  have "length (last (split_lines u)) = length (takeWhile (\<lambda>c. c \<noteq> CHR 0x0A) (rev u))" for u
    by (induction u rule: rev_induct) (simp_all add: snoc)
  with lines assms show ?thesis by (simp add: getLineAndCol_def min_def)
qed

end
