(* ===== verification/Editor_Network.thy ===== *)
theory Editor_Network
  imports Client_Editor Desk_Properties "HOL-Library.Product_Lexorder"
begin

text \<open>
  Editors of the browser client (\<open>Client_Editor\<close>) that work on one document through the document gateway: what they send is
  served in the order sent, what the gateway emits to a socket arrives in the order emitted, and both are lost with the
  connection. Of the CRDT library the theorem needs what it documents: a document is the set of operations it has seen, and
  applying an update adds the operations of the update.
\<close>

section \<open>The library's law\<close>

definition crdt :: "'d yjs \<Rightarrow> 'd ytext \<Rightarrow> ('d \<Rightarrow> 'o set) \<Rightarrow> (string \<Rightarrow> 'o set option) \<Rightarrow> bool" where
  "crdt yj yt ops V \<longleftrightarrow> inj ops \<and> ops (yEmpty yj) = {} \<and> yText yj (yEmpty yj) = [] \<and>
     (\<forall>u d X. V u = Some X \<longrightarrow> (\<exists>d'. yApply yj u d = Some d' \<and> ops d' = ops d \<union> X)) \<and>
     (\<forall>d. V (yEncode yj d None) = Some (ops d)) \<and>
     (\<forall>d d0. \<exists>X. V (yEncode yj d (Some (ytVector yt d0))) = Some X \<and> X \<subseteq> ops d \<and> ops d \<subseteq> ops d0 \<union> X) \<and>
     (\<forall>t d. yText yj (fst (ytReplace yt t d)) = t \<and>
        (case snd (ytReplace yt t d) of
           None \<Rightarrow> fst (ytReplace yt t d) = d
         | Some u \<Rightarrow> \<exists>X. V u = Some X \<and> ops (fst (ytReplace yt t d)) = ops d \<union> X))"

lemma crdt_apply:
  assumes "crdt yj yt ops V" "V u = Some X"
  obtains d' where "yApply yj u d = Some d'" "ops d' = ops d \<union> X"
  using assms unfolding crdt_def by blast

lemma crdt_merge: "crdt yj yt ops V \<Longrightarrow> V u = Some X \<Longrightarrow> ops (merge yj u d) = ops d \<union> X"
  by (erule crdt_apply [where d = d], assumption) (simp add: merge_def apply_any_def)

lemma crdt_replace:
  "crdt yj yt ops V \<Longrightarrow> yText yj (fst (ytReplace yt t d)) = t \<and>
     (case snd (ytReplace yt t d) of
        None \<Rightarrow> fst (ytReplace yt t d) = d
      | Some u \<Rightarrow> \<exists>X. V u = Some X \<and> ops (fst (ytReplace yt t d)) = ops d \<union> X)"
  unfolding crdt_def by blast

section \<open>The network\<close>

record 'd network =
  nwDesk :: "'d desk"
  nwDb :: db
  nwEditor :: "string \<Rightarrow> 'd editor"
  nwInbox :: "string \<Rightarrow> (string \<times> (string \<times> wire) list) list"

definition start_network :: "'d yjs \<Rightarrow> db \<Rightarrow> 'd network" where
  "start_network yj s = \<lparr>nwDesk = empty_desk, nwDb = s, nwEditor = \<lambda>_. new_editor yj, nwInbox = \<lambda>_. []\<rparr>"

definition set_editor :: "string \<Rightarrow> ('d editor \<Rightarrow> 'd editor) \<Rightarrow> 'd network \<Rightarrow> 'd network" where
  "set_editor c f n = n\<lparr>nwEditor := (nwEditor n)(c := f (nwEditor n c))\<rparr>"

text \<open>The server goes on to \<open>dk\<close>; what it emitted on the way is under way to the sockets it was emitted to.\<close>

definition deliver :: "'d desk \<Rightarrow> 'd network \<Rightarrow> 'd network" where
  "deliver dk n = n\<lparr>nwDesk := dk, nwInbox := \<lambda>c. nwInbox n c @
     map snd (filter (\<lambda>x. deSocket (nwEditor n c) = Some (fst x)) (drop (length (hubSent (dkHub (nwDesk n)))) (hubSent (dkHub dk))))\<rparr>"

text \<open>The guards let the message pass to its handler.\<close>

definition admitted :: "(string \<Rightarrow> bool) \<Rightarrow> instant \<Rightarrow> string \<Rightarrow> db \<Rightarrow> string \<Rightarrow> doc_message \<Rightarrow> 'd desk \<Rightarrow> bool" where
  "admitted is_uuid now suffix s k m dk \<longleftrightarrow>
     (case find_socket k (dkHub dk) of
        None \<Rightarrow> False
      | Some x \<Rightarrow> skUser x \<noteq> None \<and> wsAuthGuard_canActivate now (map_option socket_user_of (skUser x)) s = None \<and>
          fst (wsRateLimitGuard_canActivate now suffix (doc_limit m) (map_option clSub (skUser x)) (hubLimiter (dkHub dk))) = Inr True \<and>
          valid_doc_message is_uuid m)"

fun update_of :: "doc_message \<Rightarrow> string option" where
  "update_of (DocUpdate d u) = u" | "update_of _ = None"

text \<open>
  \<open>session L n\<close>: the network can come to \<open>n\<close>, where \<open>L\<close> holds the editors that lost a change on the way, because they made it without
  a connection, because it was under way when the connection broke, or because the server refused it.
\<close>

inductive session ::
    "'d yjs \<Rightarrow> 'd ytext \<Rightarrow> crypto \<Rightarrow> (string \<Rightarrow> bool) \<Rightarrow> uuid \<Rightarrow> (string \<Rightarrow> editor_props) \<Rightarrow> string set \<Rightarrow> 'd network \<Rightarrow> bool"
  for yj yt cr is_uuid d ps where
  opened: "doc_active d s \<Longrightarrow> session yj yt cr is_uuid d ps {} (start_network yj s)"
| connects: "session yj yt cr is_uuid d ps L n \<Longrightarrow> deSocket (nwEditor n c) = None \<Longrightarrow>
    k \<notin> skId ` set (hubSockets (dkHub (nwDesk n))) \<Longrightarrow> \<forall>c'. deSocket (nwEditor n c') \<noteq> Some k \<Longrightarrow>
    k \<in> skId ` set (hubSockets (handleConnection cr now (nwDb n) hs k (dkHub (nwDesk n)))) \<Longrightarrow>
    session yj yt cr is_uuid d ps L (set_editor c (onConnect yt (ps c) k)
      (deliver (on_hub (handleConnection cr now (nwDb n) hs k) (nwDesk n)) n))"
| edits: "session yj yt cr is_uuid d ps L n \<Longrightarrow>
    session yj yt cr is_uuid d ps (if deSocket (nwEditor n c) = None then insert c L else L)
      (set_editor c (handleTextChange yt (ps c) now t a b) n)"
| marks: "session yj yt cr is_uuid d ps L n \<Longrightarrow>
    session yj yt cr is_uuid d ps (if deSocket (nwEditor n c) = None then insert c L else L)
      (set_editor c (insertMarkdown yt (ps c) opening suffix a b) n)"
| selects: "session yj yt cr is_uuid d ps L n \<Longrightarrow>
    session yj yt cr is_uuid d ps L (set_editor c (emitAwareness (ps c) now a b) n)"
| receives: "session yj yt cr is_uuid d ps L n \<Longrightarrow> nwInbox n c = m # ms \<Longrightarrow>
    session yj yt cr is_uuid d ps L (set_editor c (receive yj (ps c) m) (n\<lparr>nwInbox := (nwInbox n)(c := ms)\<rparr>))"
| serves: "session yj yt cr is_uuid d ps L n \<Longrightarrow> deSocket (nwEditor n c) = Some k \<Longrightarrow> deSent (nwEditor n c) = m # ms \<Longrightarrow>
    session yj yt cr is_uuid d ps (if admitted is_uuid now suffix (nwDb n) k m (nwDesk n) then L else insert c L)
      (deliver (doc_dispatch yj is_uuid now suffix (nwDb n) k m (nwDesk n)) (set_editor c (\<lambda>ed. ed\<lparr>deSent := ms\<rparr>) n))"
| breaks: "session yj yt cr is_uuid d ps L n \<Longrightarrow>
    session yj yt cr is_uuid d ps (if list_ex (\<lambda>m. update_of m \<noteq> None) (deSent (nwEditor n c)) then insert c L else L)
      (set_editor c (\<lambda>ed. (onDisconnect ed)\<lparr>deSent := []\<rparr>) (n\<lparr>nwInbox := (nwInbox n)(c := [])\<rparr>))"
| closes: "session yj yt cr is_uuid d ps L n \<Longrightarrow> \<forall>c. deSocket (nwEditor n c) \<noteq> Some k \<Longrightarrow>
    session yj yt cr is_uuid d ps L (deliver (disconnect now k (nwDesk n)) n)"
| saves: "session yj yt cr is_uuid d ps L n \<Longrightarrow> fire_save yj True now i (dkManager (nwDesk n), nwDb n) = (m, s) \<Longrightarrow>
    session yj yt cr is_uuid d ps L (n\<lparr>nwDesk := (nwDesk n)\<lparr>dkManager := m\<rparr>, nwDb := s\<rparr>)"
| announces: "session yj yt cr is_uuid d ps L n \<Longrightarrow>
    session yj yt cr is_uuid d ps L (deliver (handleDocumentSaved yj d savedAt (nwDesk n)) n)"
| sweeps: "session yj yt cr is_uuid d ps L n \<Longrightarrow> unloadIdle yj (\<lambda>_. True) now (dkManager (nwDesk n)) (nwDb n) = (r, m, s) \<Longrightarrow>
    session yj yt cr is_uuid d ps L (n\<lparr>nwDesk := (nwDesk n)\<lparr>dkManager := m\<rparr>, nwDb := s\<rparr>)"
| elsewhere: "session yj yt cr is_uuid d ps L n \<Longrightarrow>
    \<forall>i. stored_state i s = stored_state i (nwDb n) \<and> doc_active i s = doc_active i (nwDb n) \<Longrightarrow>
    session yj yt cr is_uuid d ps L (n\<lparr>nwDb := s\<rparr>)"

section \<open>What is under way\<close>

definition values_of :: "(string \<Rightarrow> 'o set option) \<Rightarrow> string list \<Rightarrow> 'o set" where
  "values_of V us = (\<Union>u\<in>set us. case V u of None \<Rightarrow> {} | Some X \<Rightarrow> X)"

lemma values_of_simps [simp]:
  "values_of V [] = {}" "values_of V (u # us) = (case V u of None \<Rightarrow> {} | Some X \<Rightarrow> X) \<union> values_of V us"
  "values_of V (us @ vs) = values_of V us \<union> values_of V vs"
  by (auto simp: values_of_def)

definition carried :: "string \<times> (string \<times> wire) list \<Rightarrow> string option" where
  "carried m = (if fst m = ''doc:joined'' \<or> fst m = ''doc:update'' then
     as_text (map_of (snd m) (if fst m = ''doc:joined'' then ''state'' else ''update'')) else None)"

definition incoming :: "(string \<Rightarrow> 'o set option) \<Rightarrow> (string \<times> (string \<times> wire) list) list \<Rightarrow> 'o set" where
  "incoming V ms = values_of V (List.map_filter carried ms)"

definition outgoing :: "(string \<Rightarrow> 'o set option) \<Rightarrow> doc_message list \<Rightarrow> 'o set" where
  "outgoing V ms = values_of V (List.map_filter update_of ms)"

lemma under_way [simp]:
  "incoming V [] = {}" "outgoing V [] = {}"
  "incoming V (m # ms) = (case carried m of None \<Rightarrow> {} | Some u \<Rightarrow> (case V u of None \<Rightarrow> {} | Some X \<Rightarrow> X)) \<union> incoming V ms"
  "outgoing V (x # xs) = (case update_of x of None \<Rightarrow> {} | Some u \<Rightarrow> (case V u of None \<Rightarrow> {} | Some X \<Rightarrow> X)) \<union> outgoing V xs"
  by (auto simp: incoming_def outgoing_def map_filter_simps split: option.split)

lemma under_way_append [simp]:
  "incoming V (ms @ ns) = incoming V ms \<union> incoming V ns" "outgoing V (xs @ ys) = outgoing V xs \<union> outgoing V ys"
  by (induction ms; simp add: Un_assoc) (induction xs; simp add: Un_assoc)

section \<open>The invariant\<close>

fun out_ok :: "('d \<Rightarrow> 'o set) \<Rightarrow> (string \<Rightarrow> 'o set option) \<Rightarrow> 'd ytext \<Rightarrow> uuid \<Rightarrow> 'd \<Rightarrow> doc_message \<Rightarrow> bool" where
  "out_ok ops V yt d D (DocUpdate i u) \<longleftrightarrow> i = d \<and> (\<exists>b X. u = Some b \<and> V b = Some X \<and> X \<subseteq> ops D)"
| "out_ok ops V yt d D (DocJoin i w v) \<longleftrightarrow> i = d \<and> (\<exists>d0. v = Some (ytVector yt d0) \<and> ops d0 \<subseteq> ops D)"
| "out_ok ops V yt d D (DocAwareness i a) \<longleftrightarrow> True"
| "out_ok ops V yt d D (DocLeave i) \<longleftrightarrow> False"

definition in_ok :: "(string \<Rightarrow> 'o set option) \<Rightarrow> 'o set \<Rightarrow> string \<times> (string \<times> wire) list \<Rightarrow> bool" where
  "in_ok V S m \<longleftrightarrow> (\<forall>u. carried m = Some u \<longrightarrow> (\<exists>X. V u = Some X \<and> X \<subseteq> S))"

definition in_document :: "uuid \<Rightarrow> string \<Rightarrow> hub \<Rightarrow> bool" where
  "in_document d k h \<longleftrightarrow> (\<exists>x\<in>set (hubSockets h). skId x = k \<and> document_room d \<in> set (skRooms x))"

definition shared :: "'d yjs \<Rightarrow> uuid \<Rightarrow> 'd network \<Rightarrow> 'd" where
  "shared yj d n = content yj (dkManager (nwDesk n), nwDb n) d"

definition editor_ok where
  "editor_ok yj yt ops V d S h lost ed inbox \<longleftrightarrow>
     (deSocket ed = None \<longrightarrow> deSent ed = [] \<and> inbox = []) \<and> (\<forall>m\<in>set (deSent ed). out_ok ops V yt d (deYdoc ed) m) \<and>
     (\<forall>m\<in>set inbox. in_ok V S m) \<and> (\<not> lost \<longrightarrow> ops (deYdoc ed) \<subseteq> S \<union> outgoing V (deSent ed)) \<and>
     (\<forall>k. deSocket ed = Some k \<and> in_document d k h \<longrightarrow> S \<subseteq> ops (deYdoc ed) \<union> incoming V inbox) \<and>
     deText ed = yText yj (deYdoc ed)"

definition in_sync where
  "in_sync yj yt ops V d L n \<longleftrightarrow> saved_ok yj (dkManager (nwDesk n), nwDb n) \<and> doc_active d (nwDb n) \<and>
     (\<forall>c. editor_ok yj yt ops V d (ops (shared yj d n)) (dkHub (nwDesk n)) (c \<in> L) (nwEditor n c) (nwInbox n c)) \<and>
     (\<forall>c c' k. deSocket (nwEditor n c) = Some k \<longrightarrow> deSocket (nwEditor n c') = Some k \<longrightarrow> c = c')"

section \<open>The steps of an editor\<close>

lemma out_ok_grows: "out_ok ops V yt d D m \<Longrightarrow> ops D \<subseteq> ops D' \<Longrightarrow> out_ok ops V yt d D' m"
  by (cases m) auto

lemma editor_connects:
  assumes "editor_ok yj yt ops V d S h lost ed inbox" "deSocket ed = None" "epDocument p = d" "\<not> in_document d k h"
  shows "editor_ok yj yt ops V d S h lost (onConnect yt p k ed) inbox"
  using assms by (auto simp: editor_ok_def onConnect_def socket_emit_def)

lemma editor_emits_awareness:
  assumes "editor_ok yj yt ops V d S h lost ed inbox"
  shows "editor_ok yj yt ops V d S h lost (emitAwareness p now a b ed) inbox"
  using assms by (auto simp: editor_ok_def emitAwareness_def socket_emit_def)

lemma editor_edits:
  assumes "crdt yj yt ops V" "editor_ok yj yt ops V d S h lost ed inbox" "epDocument p = d"
  shows "editor_ok yj yt ops V d S h (lost \<or> deSocket ed = None) (edit_text yt p t ed) inbox"
proof -
  obtain D u where r: "ytReplace yt t (deYdoc ed) = (D, u)" by (metis surj_pair)
  note law = crdt_replace [OF assms(1), of t "deYdoc ed", unfolded r fst_conv snd_conv]
  then have t: "yText yj D = t"
    and u: "case u of None \<Rightarrow> D = deYdoc ed | Some b \<Rightarrow> \<exists>X. V b = Some X \<and> ops D = ops (deYdoc ed) \<union> X"
    by blast+
  show ?thesis
  proof (cases u)
    case None
    with assms(2) r t u show ?thesis by (auto simp: editor_ok_def edit_text_def)
  next
    case (Some b)
    with u obtain X where X: "V b = Some X" "ops D = ops (deYdoc ed) \<union> X" by auto
    then have grows: "out_ok ops V yt d (deYdoc ed) m \<Longrightarrow> out_ok ops V yt d D m" for m by (auto intro: out_ok_grows)
    show ?thesis
    proof (cases "deSocket ed")
      case None
      with assms(2) r t Some show ?thesis by (simp add: editor_ok_def edit_text_def)
    next
      case (Some k)
      with assms(2,3) r t \<open>u = Some b\<close> X grows show ?thesis
        by (auto simp: editor_ok_def edit_text_def socket_emit_def)
    qed
  qed
qed

lemma apply_remote_keeps [simp]:
  "deSocket (apply_remote yj u ed) = deSocket ed" "deSent (apply_remote yj u ed) = deSent ed"
  by (simp_all add: apply_remote_def split: option.split)

lemma apply_remote_copy:
  "deYdoc ed' = deYdoc ed \<Longrightarrow> deText ed' = deText ed \<Longrightarrow>
     deYdoc (apply_remote yj u ed') = deYdoc (apply_remote yj u ed) \<and> deText (apply_remote yj u ed') = deText (apply_remote yj u ed)"
  by (simp add: apply_remote_def split: option.split)

text \<open>The part of an editor that matters here: its copy, the text shown, the socket, what it sent.\<close>

definition core :: "'d editor \<Rightarrow> 'd \<times> string \<times> string option \<times> doc_message list" where
  "core ed = (deYdoc ed, deText ed, deSocket ed, deSent ed)"

lemma core_events [simp]:
  "core (onEditorJoined e ed) = core ed" "core (onEditorLeft e ed) = core ed"
  by (simp_all add: core_def onEditorJoined_def onEditorLeft_def)

lemma core_awareness [simp]: "core (onAwareness p pl ed) = core ed"
  by (simp add: core_def onAwareness_def split: option.split)

lemma core_saved [simp]: "core (onSaved pl ed) = core ed"
  by (simp add: core_def onSaved_def split: option.split)

lemma core_applied: "core ed' = core ed \<Longrightarrow> core (apply_remote yj u ed') = core (apply_remote yj u ed)"
  by (simp add: core_def apply_remote_def split: option.split)

lemma core_joined:
  "core (onJoined yj pl ed) = core (case as_text (map_of pl ''state'') of Some u \<Rightarrow> apply_remote yj u ed | None \<Rightarrow> ed)"
proof -
  let ?ed = "case as_array (map_of pl ''editors'') of
      Some xs \<Rightarrow> ed\<lparr>deEditors := map read_editor (List.map_filter (\<lambda>w. as_object (Some w)) xs)\<rparr> | None \<Rightarrow> ed"
  have same: "core ?ed = core ed" by (simp add: core_def split: option.split)
  have "onJoined yj pl ed = (case as_text (map_of pl ''state'') of Some u \<Rightarrow> apply_remote yj u ?ed | None \<Rightarrow> ?ed)"
    by (simp only: onJoined_def Let_def)
  with same core_applied [OF same] show ?thesis by (simp split: option.split)
qed

lemma receive_effect:
  "core (receive yj p m ed) = core (case carried m of None \<Rightarrow> ed | Some u \<Rightarrow> apply_remote yj u ed)"
proof -
  obtain e pl where m: "m = (e, pl)" by (cases m)
  show ?thesis
  proof (cases "e = ''doc:joined''")
    case True
    then show ?thesis by (simp add: m receive_def carried_def core_joined split: option.split)
  next
    case False
    then show ?thesis by (simp add: m receive_def carried_def onUpdate_def split: option.split)
  qed
qed

lemma editor_receives:
  assumes "crdt yj yt ops V" "editor_ok yj yt ops V d S h lost ed (m # ms)"
  shows "editor_ok yj yt ops V d S h lost (receive yj p m ed) ms"
proof -
  note r = receive_effect [of yj p m ed, unfolded core_def prod.inject]
  show ?thesis
  proof (cases "carried m")
    case None
    with assms(2) r show ?thesis by (auto simp: editor_ok_def)
  next
    case (Some u)
    with assms(2) obtain X where X: "V u = Some X" "X \<subseteq> S" by (auto simp: editor_ok_def in_ok_def)
    obtain D where D: "yApply yj u (deYdoc ed) = Some D" "ops D = ops (deYdoc ed) \<union> X" by (rule crdt_apply [OF assms(1) X(1)])
    then have grows: "out_ok ops V yt d (deYdoc ed) x \<Longrightarrow> out_ok ops V yt d D x" for x by (auto intro: out_ok_grows)
    from r Some D(1) have e: "deYdoc (receive yj p m ed) = D" "deText (receive yj p m ed) = yText yj D"
      "deSocket (receive yj p m ed) = deSocket ed" "deSent (receive yj p m ed) = deSent ed"
      by (simp_all add: apply_remote_def)
    from assms(2) Some X D(2) grows show ?thesis unfolding editor_ok_def e by auto
  qed
qed

lemma sync_editor:
  assumes "in_sync yj yt ops V d L n"
    and "editor_ok yj yt ops V d (ops (shared yj d n)) (dkHub (nwDesk n)) (c \<in> L') (f (nwEditor n c)) box"
    and "\<And>k c'. deSocket (f (nwEditor n c)) = Some k \<Longrightarrow> c' \<noteq> c \<Longrightarrow> deSocket (nwEditor n c') \<noteq> Some k"
    and "L' = L \<or> L' = insert c L"
  shows "in_sync yj yt ops V d L' (set_editor c f (n\<lparr>nwInbox := (nwInbox n)(c := box)\<rparr>))"
proof -
  let ?n = "set_editor c f (n\<lparr>nwInbox := (nwInbox n)(c := box)\<rparr>)"
  have parts: "nwDesk ?n = nwDesk n" "nwDb ?n = nwDb n" "shared yj d ?n = shared yj d n"
    "nwEditor ?n = (nwEditor n)(c := f (nwEditor n c))" "nwInbox ?n = (nwInbox n)(c := box)"
    by (simp_all add: set_editor_def shared_def)
  have "c' \<noteq> c \<Longrightarrow> (c' \<in> L') = (c' \<in> L)" for c' using assms(4) by auto
  then have "editor_ok yj yt ops V d (ops (shared yj d n)) (dkHub (nwDesk n)) (c' \<in> L') (nwEditor ?n c') (nwInbox ?n c')" for c'
    using assms(1,2) unfolding in_sync_def parts by (cases "c' = c") simp_all
  moreover have "c' = c''" if "deSocket (nwEditor ?n c') = Some k" "deSocket (nwEditor ?n c'') = Some k" for c' c'' k
  proof -
    have "deSocket (nwEditor n a) = Some j \<Longrightarrow> deSocket (nwEditor n b) = Some j \<Longrightarrow> a = b" for a b j
      using assms(1) unfolding in_sync_def by blast
    note old = this
    show ?thesis
    proof (cases "c' = c")
      case True
      with that assms(3) [of k c''] show ?thesis unfolding parts by (cases "c'' = c") simp_all
    next
      case False
      with that assms(3) [of k c'] old [of c' k c''] show ?thesis unfolding parts by (cases "c'' = c") simp_all
    qed
  qed
  moreover have "saved_ok yj (dkManager (nwDesk n), nwDb n)" "doc_active d (nwDb n)" using assms(1) by (simp_all add: in_sync_def)
  ultimately show ?thesis unfolding in_sync_def parts(1-3) by simp
qed

lemma inbox_same [simp]: "n\<lparr>nwInbox := (nwInbox n)(c := nwInbox n c)\<rparr> = n"
  by simp

lemma deliver_editor [simp]: "nwEditor (deliver dk n) = nwEditor n"
  by (simp add: deliver_def)

section \<open>The steps of the server\<close>

definition sent_to :: "string \<Rightarrow> delivery list \<Rightarrow> (string \<times> (string \<times> wire) list) list" where
  "sent_to k new = map snd (filter (\<lambda>x. fst x = k) new)"

lemma sync_deliver:
  assumes "in_sync yj yt ops V d L n" "saved_ok yj (dkManager dk, nwDb n)"
    and "hubSent (dkHub dk) = hubSent (dkHub (nwDesk n)) @ new"
    and S: "S = ops (content yj (dkManager dk, nwDb n) d)" "ops (shared yj d n) \<subseteq> S"
    and new: "\<forall>x\<in>set new. in_ok V S (snd x)"
    and here: "\<And>c k. deSocket (nwEditor n c) = Some k \<Longrightarrow> in_document d k (dkHub dk) \<Longrightarrow>
      S \<subseteq> ops (deYdoc (nwEditor n c)) \<union> incoming V (nwInbox n c) \<union> incoming V (sent_to k new)"
  shows "in_sync yj yt ops V d L (deliver dk n)"
proof -
  have box: "nwInbox (deliver dk n) c = nwInbox n c @ (case deSocket (nwEditor n c) of None \<Rightarrow> [] | Some k \<Rightarrow> sent_to k new)" for c
    using assms(3) by (cases "deSocket (nwEditor n c)") (simp_all add: deliver_def sent_to_def eq_commute [of "fst _"])
  have parts: "nwDesk (deliver dk n) = dk" "nwDb (deliver dk n) = nwDb n" "nwEditor (deliver dk n) = nwEditor n"
    "ops (shared yj d (deliver dk n)) = S"
    by (simp_all add: deliver_def shared_def S(1))
  have "editor_ok yj yt ops V d S (dkHub dk) (c \<in> L) (nwEditor n c)
      (nwInbox n c @ (case deSocket (nwEditor n c) of None \<Rightarrow> [] | Some k \<Rightarrow> sent_to k new))" for c
  proof -
    have old: "editor_ok yj yt ops V d (ops (shared yj d n)) (dkHub (nwDesk n)) (c \<in> L) (nwEditor n c) (nwInbox n c)"
      using assms(1) by (simp add: in_sync_def)
    have "in_ok V S m" if "m \<in> set (sent_to k new)" for k m using that new by (auto simp: sent_to_def)
    moreover have "in_ok V S m" if "m \<in> set (nwInbox n c)" for m
      using that old S(2) by (fastforce simp: editor_ok_def in_ok_def)
    ultimately show ?thesis using old S(2) here [of c]
      unfolding editor_ok_def by (auto split: option.splits)
  qed
  then show ?thesis using assms(1,2) unfolding in_sync_def parts box by simp
qed

text \<open>A step that neither sends content nor changes it.\<close>

definition quietly :: "hub \<Rightarrow> hub \<Rightarrow> bool" where
  "quietly h h' \<longleftrightarrow> (\<exists>new. hubSent h' = hubSent h @ new \<and> (\<forall>x\<in>set new. carried (snd x) = None))"

lemma quietly_refl [simp]: "quietly h h"
  by (simp add: quietly_def)

lemma quietly_trans: "quietly h h' \<Longrightarrow> quietly h' h'' \<Longrightarrow> quietly h h''"
  by (auto simp: quietly_def)

lemma sync_quiet:
  assumes "in_sync yj yt ops V d L n" "saved_ok yj (dkManager dk, nwDb n)" "quietly (dkHub (nwDesk n)) (dkHub dk)"
    and "content yj (dkManager dk, nwDb n) d = shared yj d n"
    and "\<And>k. in_document d k (dkHub dk) \<Longrightarrow> in_document d k (dkHub (nwDesk n))"
  shows "in_sync yj yt ops V d L (deliver dk n)"
proof -
  obtain new where new: "hubSent (dkHub dk) = hubSent (dkHub (nwDesk n)) @ new" "\<forall>x\<in>set new. carried (snd x) = None"
    using assms(3) by (auto simp: quietly_def)
  have "\<forall>x\<in>set new. in_ok V S (snd x)" for S using new(2) by (simp add: in_ok_def)
  moreover have "ops (shared yj d n) \<subseteq> ops (deYdoc (nwEditor n c)) \<union> incoming V (nwInbox n c) \<union> incoming V (sent_to k new)"
    if "deSocket (nwEditor n c) = Some k" "in_document d k (dkHub dk)" for c k
    using assms(1) assms(5) [OF that(2)] that(1) by (auto simp: in_sync_def editor_ok_def)
  ultimately show ?thesis
    using assms(4) by (intro sync_deliver [OF assms(1,2) new(1) refl]) simp_all
qed

lemma sync_db:
  assumes "in_sync yj yt ops V d L n" "saved_ok yj (m, s)" "content yj (m, s) d = shared yj d n" "doc_active d s"
  shows "in_sync yj yt ops V d L (n\<lparr>nwDesk := (nwDesk n)\<lparr>dkManager := m\<rparr>, nwDb := s\<rparr>)"
  using assms by (simp add: in_sync_def shared_def)

text \<open>An editor that is not counted as lost although it lost something is in step all the same if the server has its copy.\<close>

lemma sync_unlost:
  assumes "in_sync yj yt ops V d (insert c L) n"
    and "c \<notin> L \<Longrightarrow> ops (deYdoc (nwEditor n c)) \<subseteq> ops (shared yj d n) \<union> outgoing V (deSent (nwEditor n c))"
  shows "in_sync yj yt ops V d L n"
proof -
  have "editor_ok yj yt ops V d (ops (shared yj d n)) (dkHub (nwDesk n)) (c' \<in> L) (nwEditor n c') (nwInbox n c')" for c'
    using assms by (cases "c' = c") (auto simp: in_sync_def editor_ok_def)
  with assms(1) show ?thesis by (simp add: in_sync_def)
qed

lemma quiet_emits:
  assumes "carried (ev, pl) = None"
  shows "quietly h (emit_client k ev pl h)" "quietly h (emit_room room ev pl h)" "quietly h (emit_others k room ev pl h)"
  unfolding quietly_def emit_client_def emit_room_def emit_others_def using assms by auto

lemma quiet_same: "hubSent h' = hubSent h \<Longrightarrow> quietly h h'"
  by (simp add: quietly_def)

lemma quiet_error [simp]: "quietly h (ws_error now k ec h)"
  unfolding ws_error_def by (rule quiet_emits) (simp add: carried_def)

lemma quiet_sockets [simp]:
  "hubSent (set_socket k f h) = hubSent h" "hubSent (leave_room k room h) = hubSent h" "hubSent (join_room k room h) = hubSent h"
  by (simp_all add: set_socket_def leave_room_def join_room_def)

lemma quiet_leave: "quietly (dkHub dk) (dkHub (leaveDocument now k i dk))"
proof -
  have "quietly h (emit_others k room ''doc:editor-left'' pl h)" for h room pl by (rule quiet_emits) (simp add: carried_def)
  then show ?thesis
    by (auto simp: leaveDocument_def Let_def quietly_def split: option.split prod.split)
qed

lemma quiet_disconnect: "quietly (dkHub dk) (dkHub (disconnect now k dk))"
proof -
  have board: "quietly h (emit_room room ''board:presence'' pl h)" and
    workspace: "quietly h (emit_room room ''workspace:member-offline'' pl h)" for h room pl
    by (rule quiet_emits; simp add: carried_def)+
  have "quietly h (handleDisconnect k h)" for h
  proof -
    have "quietly h (emit_room room ''board:presence'' pl h')" if "hubSent h' = hubSent h" for room pl h'
      using board [of h' room pl] that by (simp add: quietly_def)
    moreover have "quietly h (emit_room room ''workspace:member-offline'' pl h')" if "quietly h h'" for room pl h'
      using that workspace by (rule quietly_trans)
    ultimately show ?thesis
      by (simp add: handleDisconnect_def Let_def quiet_same split: option.split prod.split)
  qed
  moreover have "quietly (dkHub dk) (dkHub (docGateway_handleDisconnect now k dk))"
    by (simp add: docGateway_handleDisconnect_def quiet_leave split: option.split)
  ultimately show ?thesis unfolding disconnect_def on_hub_parts by (metis quietly_trans)
qed

lemma refused_message:
  assumes "\<not> admitted is_uuid now suffix s k m dk"
  shows "dkManager (doc_dispatch yj is_uuid now suffix s k m dk) = dkManager dk \<and>
    hubSockets (dkHub (doc_dispatch yj is_uuid now suffix s k m dk)) = hubSockets (dkHub dk) \<and>
    quietly (dkHub dk) (dkHub (doc_dispatch yj is_uuid now suffix s k m dk))"
proof (cases "find_socket k (dkHub dk)")
  case None
  then show ?thesis by (simp add: doc_dispatch_def)
next
  case (Some x)
  have err: "hubSockets (ws_error now k ec h) = hubSockets h" for ec h by (simp add: core_proj)
  have late: "quietly h (ws_error now k ec (h\<lparr>hubLimiter := L\<rparr>))" for ec h L
    using quiet_error [of "h\<lparr>hubLimiter := L\<rparr>"] by (simp add: quietly_def)
  obtain q L where lim: "wsRateLimitGuard_canActivate now suffix (doc_limit m) (map_option clSub (skUser x)) (hubLimiter (dkHub dk)) = (q, L)"
    by (metis surj_pair)
  show ?thesis
  proof (cases "wsAuthGuard_canActivate now (map_option socket_user_of (skUser x)) s")
    case (Some ec)
    with \<open>find_socket k (dkHub dk) = Some x\<close> show ?thesis by (simp add: doc_dispatch_def err)
  next
    case None
    with Some lim assms show ?thesis
      by (cases q; cases "skUser x") (auto simp: doc_dispatch_def admitted_def Let_def err late quiet_same split: bool.split)
  qed
qed

lemma admitted_message:
  assumes "admitted is_uuid now suffix s k m dk"
  obtains x c L where "find_socket k (dkHub dk) = Some x" "skId x = k"
    "doc_dispatch yj is_uuid now suffix s k m dk = doc_handle yj now x c m s (on_hub (\<lambda>h. h\<lparr>hubLimiter := L\<rparr>) dk)"
proof -
  from assms obtain x c where x: "find_socket k (dkHub dk) = Some x" "skUser x = Some c"
    "wsAuthGuard_canActivate now (map_option socket_user_of (skUser x)) s = None" "valid_doc_message is_uuid m"
    and q: "fst (wsRateLimitGuard_canActivate now suffix (doc_limit m) (map_option clSub (skUser x)) (hubLimiter (dkHub dk))) = Inr True"
    by (auto simp: admitted_def split: option.splits)
  obtain L where "wsRateLimitGuard_canActivate now suffix (doc_limit m) (map_option clSub (skUser x)) (hubLimiter (dkHub dk)) = (Inr True, L)"
    using q by (cases "wsRateLimitGuard_canActivate now suffix (doc_limit m) (map_option clSub (skUser x)) (hubLimiter (dkHub dk))") simp
  with x show ?thesis
    using find_socket_Some [OF x(1)] by (intro that [of x c L]) (simp_all add: doc_dispatch_def)
qed

lemma in_document_at:
  assumes "hubSockets h' = at_socket k f (hubSockets h)" "\<And>x. skId (f x) = skId x" "in_document d j h'"
  shows "in_document d j h \<or> j = k \<and> (\<exists>x\<in>set (hubSockets h). document_room d \<in> set (skRooms (f x)))"
  using assms by (auto simp: in_document_def at_socket_def split: if_splits)

lemma in_document_leave: "in_document d j (dkHub (leaveDocument now k i dk)) \<Longrightarrow> in_document d j (dkHub dk)"
  by (auto simp: in_document_def at_socket_def left_doc_def srem_def split: if_splits)

lemma in_document_enter:
  assumes "in_document d j (dkHub (enterDocument yj now k user current i v s dk))"
  shows "j = k \<or> in_document d j (dkHub dk)"
proof -
  let ?dk = "if truthy current \<and> current \<noteq> Some i then leaveDocument now k (the current) dk else dk"
  have "j = k \<or> in_document d j (dkHub ?dk)"
    using in_document_at [OF enter_parts(1) doc_moves(4) assms] by blast
  then show ?thesis using in_document_leave [of d j now k "the current" dk] by (auto split: if_splits)
qed

lemma in_document_disconnect: "in_document d j (dkHub (disconnect now k dk)) \<Longrightarrow> in_document d j (dkHub dk)"
proof -
  assume "in_document d j (dkHub (disconnect now k dk))"
  then have "in_document d j (dkHub (docGateway_handleDisconnect now k dk))"
    by (auto simp: disconnect_def in_document_def handleDisconnect_sockets)
  then show ?thesis
    using in_document_leave by (auto simp: docGateway_handleDisconnect_def split: option.splits if_splits)
qed

lemma connection_sockets:
  "k \<in> skId ` set (hubSockets (handleConnection cr now s hs k h)) \<Longrightarrow> k \<notin> skId ` set (hubSockets h) \<Longrightarrow>
   hubSent (handleConnection cr now s hs k h) = hubSent h \<and> (in_document d j (handleConnection cr now s hs k h) \<longleftrightarrow> in_document d j h)"
  by (auto simp: handleConnection_def Let_def reject_def emit_client_def in_document_def document_room_def user_room_def
      split: if_splits sum.splits)

section \<open>Serving an update\<close>

lemma sync_update:
  assumes law: "yjs_laws yj" "crdt yj yt ops V" and sync: "in_sync yj yt ops V d L n"
    and c: "deSocket (nwEditor n c) = Some k" and X: "V u = Some X" "X \<subseteq> ops (deYdoc (nwEditor n c))"
    and dk: "dk = docGateway_handleUpdate yj now k d (Some u) (nwDb n) (on_hub (\<lambda>h. h\<lparr>hubLimiter := Q\<rparr>) (nwDesk n))"
  shows "in_sync yj yt ops V d L (deliver dk n)" "ops (shared yj d (deliver dk n)) = ops (shared yj d n) \<union> X"
proof -
  let ?m = "dkManager (nwDesk n)" and ?s = "nwDb n" and ?h = "dkHub (nwDesk n)"
  let ?payload = "[(''documentId'', WString d), (''update'', WString u)]"
  let ?new = "map (\<lambda>x. (skId x, ''doc:update'', ?payload)) (filter (\<lambda>x. skId x \<noteq> k) (in_room (document_room d) ?h))"
  have carried: "carried (''doc:update'', ?payload) = Some u" by (simp add: carried_def as_text_def)
  from sync have ok: "saved_ok yj (?m, ?s)" "doc_active d ?s" by (simp_all add: in_sync_def)
  have m: "(dkManager dk, ?s) = doc_step yj (ReceiveUpdate now d u) (?m, ?s)"
    by (simp add: dk docGateway_handleUpdate_def on_hub_def)
  have step: "saved_ok yj (dkManager dk, ?s) \<and> content yj (dkManager dk, ?s) d = merge yj u (shared yj d n)"
    using doc_step_ok [OF law(1) ok(1), of "ReceiveUpdate now d u" d] ok(2) unfolding m [symmetric] shared_def by simp
  then have S: "ops (content yj (dkManager dk, ?s) d) = ops (shared yj d n) \<union> X"
    using crdt_merge [OF law(2) X(1)] by simp
  have sent: "hubSent (dkHub dk) = hubSent ?h @ ?new" "hubSockets (dkHub dk) = hubSockets ?h"
    by (simp_all add: dk docGateway_handleUpdate_def on_hub_def emit_others_def in_room_def)
  show "in_sync yj yt ops V d L (deliver dk n)"
  proof (rule sync_deliver [OF sync _ sent(1) refl])
    show "saved_ok yj (dkManager dk, ?s)" using step by blast
    show "ops (shared yj d n) \<subseteq> ops (content yj (dkManager dk, ?s) d)" using S by blast
    show "\<forall>x\<in>set ?new. in_ok V (ops (content yj (dkManager dk, ?s) d)) (snd x)"
      using X(1) by (auto simp: in_ok_def carried S)
  next
    fix c' j assume c': "deSocket (nwEditor n c') = Some j" "in_document d j (dkHub dk)"
    then have here: "in_document d j ?h" by (simp add: in_document_def sent(2))
    with c'(1) sync have old: "ops (shared yj d n) \<subseteq> ops (deYdoc (nwEditor n c')) \<union> incoming V (nwInbox n c')"
      by (auto simp: in_sync_def editor_ok_def)
    have "X \<subseteq> ops (deYdoc (nwEditor n c')) \<union> incoming V (sent_to j ?new)"
    proof (cases "j = k")
      case True
      with sync c c'(1) have "c' = c" by (auto simp: in_sync_def)
      with X(2) show ?thesis by blast
    next
      case False
      with here have "(''doc:update'', ?payload) \<in> set (sent_to j ?new)"
        by (auto simp: sent_to_def in_document_def in_room_def image_iff)
      then obtain xs ys where "sent_to j ?new = xs @ (''doc:update'', ?payload) # ys" by (meson split_list)
      then show ?thesis using X(1) by (simp add: carried) blast
    qed
    with old show "ops (content yj (dkManager dk, ?s) d) \<subseteq>
        ops (deYdoc (nwEditor n c')) \<union> incoming V (nwInbox n c') \<union> incoming V (sent_to j ?new)" unfolding S by blast
  qed
  show "ops (shared yj d (deliver dk n)) = ops (shared yj d n) \<union> X" using S by (simp add: shared_def deliver_def)
qed

section \<open>Serving a join\<close>

lemma enter_sent:
  obtains new e pl where "hubSent (dkHub (enterDocument yj now k user current d v s dk)) = hubSent (dkHub dk) @ new @ [(k, ''doc:joined'', pl)]"
    "\<forall>x\<in>set new. carried (snd x) = None" "hget (dkManager (enterDocument yj now k user current d v s dk)) d = Some e"
    "carried (''doc:joined'', pl) = Some (yEncode yj (adYdoc e) v)"
proof -
  let ?dk = "if truthy current \<and> current \<noteq> Some d then leaveDocument now k (the current) dk else dk"
  let ?info = "editor_of d user (dkEditors ?dk)"
  let ?h = "emit_others k (document_room d) ''doc:editor-joined'' (wire_editor ?info)
    (set_socket k (\<lambda>x. x\<lparr>skDocument := Some d\<rparr>) (join_room k (document_room d) (dkHub ?dk)))"
  let ?m = "addConnection d k (getOrLoad yj now d s (dkManager ?dk))"
  obtain e0 where "hget (getOrLoad yj now d s (dkManager ?dk)) d = Some e0" using getOrLoad_loads by blast
  then obtain e where e: "hget ?m d = Some e" by (simp add: addConnection_def store_simps)
  have "quietly (dkHub dk) (dkHub ?dk)" by (cases "truthy current \<and> current \<noteq> Some d") (simp_all add: quiet_leave)
  moreover have "quietly (dkHub ?dk) ?h"
    using quiet_emits(3) [of "''doc:editor-joined''" "wire_editor ?info"
        "set_socket k (\<lambda>x. x\<lparr>skDocument := Some d\<rparr>) (join_room k (document_room d) (dkHub ?dk))" k "document_room d"]
    by (simp add: quietly_def carried_def)
  ultimately have "quietly (dkHub dk) ?h" by (rule quietly_trans)
  then obtain new where new: "hubSent ?h = hubSent (dkHub dk) @ new" "\<forall>x\<in>set new. carried (snd x) = None"
    by (auto simp: quietly_def)
  let ?pl = "[(''documentId'', WString d), (''state'', WString (yEncode yj (adYdoc e) v)),
    (''editors'', WArray (map (\<lambda>e. WObject (wire_editor e)) (getEditors d (addEditor d k ?info (dkEditors ?dk)))))]"
  have "dkHub (enterDocument yj now k user current d v s dk) = emit_client k ''doc:joined'' ?pl ?h"
    using e by (simp add: enterDocument_def Let_def encodeDiff_def)
  then have "hubSent (dkHub (enterDocument yj now k user current d v s dk)) = hubSent (dkHub dk) @ new @ [(k, ''doc:joined'', ?pl)]"
    by (simp add: emit_client_def new(1))
  moreover have "carried (''doc:joined'', ?pl) = Some (yEncode yj (adYdoc e) v)" by (simp add: carried_def as_text_def)
  ultimately show ?thesis using new(2) e by (intro that) (simp_all add: enter_parts(2))
qed

lemma enter_content:
  assumes "yjs_laws yj" "saved_ok yj (dkManager dk, s)" "doc_active d s"
  shows "saved_ok yj (dkManager (enterDocument yj now k user current d v s dk), s)"
    "content yj (dkManager (enterDocument yj now k user current d v s dk), s) d = content yj (dkManager dk, s) d"
proof -
  let ?dk = "if truthy current \<and> current \<noteq> Some d then leaveDocument now k (the current) dk else dk"
  have left: "saved_ok yj (dkManager ?dk, s)" "content yj (dkManager ?dk, s) d = content yj (dkManager dk, s) d"
    using doc_step_ok [OF assms(1,2), of "CloseDoc now (the current) k" d] assms(2) by simp_all
  have "(dkManager (enterDocument yj now k user current d v s dk), s) = doc_step yj (OpenDoc now d k) (dkManager ?dk, s)"
    by (simp add: enter_parts(2))
  with doc_step_ok [OF assms(1) left(1), of "OpenDoc now d k" d] assms(3) left(2)
  show "saved_ok yj (dkManager (enterDocument yj now k user current d v s dk), s)"
    "content yj (dkManager (enterDocument yj now k user current d v s dk), s) d = content yj (dkManager dk, s) d"
    by simp_all
qed

lemma sync_join:
  assumes law: "yjs_laws yj" "crdt yj yt ops V" and sync: "in_sync yj yt ops V d L n"
    and c: "deSocket (nwEditor n c) = Some k" and d0: "ops d0 \<subseteq> ops (deYdoc (nwEditor n c))"
    and dk: "dk = docGateway_handleJoin yj now k user current d w (Some (ytVector yt d0)) (nwDb n)
      (on_hub (\<lambda>h. h\<lparr>hubLimiter := Q\<rparr>) (nwDesk n))"
  shows "in_sync yj yt ops V d L (deliver dk n) \<and> shared yj d (deliver dk n) = shared yj d n"
proof (cases "join_check d w user (nwDb n)")
  case (Some ec)
  have hub: "dkHub dk = ws_error now k ec (dkHub (nwDesk n)\<lparr>hubLimiter := Q\<rparr>)" "dkManager dk = dkManager (nwDesk n)"
    using Some by (simp_all add: dk docGateway_handleJoin_def on_hub_def)
  have "quietly (dkHub (nwDesk n)) (dkHub dk)" using quiet_error [of "dkHub (nwDesk n)\<lparr>hubLimiter := Q\<rparr>" now k ec]
    unfolding hub by (simp add: quietly_def)
  moreover have "in_document d j (dkHub dk) \<Longrightarrow> in_document d j (dkHub (nwDesk n))" for j
    unfolding hub by (simp add: in_document_def core_proj)
  ultimately have "in_sync yj yt ops V d L (deliver dk n)"
    using sync hub(2) by (intro sync_quiet [OF sync]) (simp_all add: in_sync_def shared_def)
  with hub(2) show ?thesis by (simp add: shared_def deliver_def)
next
  case None
  let ?h = "dkHub (nwDesk n)" and ?dk0 = "on_hub (\<lambda>h. h\<lparr>hubLimiter := Q\<rparr>) (nwDesk n)"
  have run: "dk = enterDocument yj now k user current d (Some (ytVector yt d0)) (nwDb n) ?dk0"
    using None by (simp add: dk docGateway_handleJoin_def)
  have start: "saved_ok yj (dkManager ?dk0, nwDb n)" "doc_active d (nwDb n)" "hubSent (dkHub ?dk0) = hubSent ?h"
    using sync by (simp_all add: in_sync_def)
  note con = enter_content [OF law(1) start(1,2), of now k user current "Some (ytVector yt d0)", folded run]
  obtain new e pl where sent: "hubSent (dkHub dk) = hubSent ?h @ new @ [(k, ''doc:joined'', pl)]" "\<forall>x\<in>set new. carried (snd x) = None"
    "hget (dkManager dk) d = Some e" "carried (''doc:joined'', pl) = Some (yEncode yj (adYdoc e) (Some (ytVector yt d0)))"
    using enter_sent [of yj now k user current d "Some (ytVector yt d0)" "nwDb n" ?dk0, folded run] start(3) by metis
  have e: "adYdoc e = shared yj d n" using con(2) sent(3) by (simp add: content_def shared_def)
  obtain X where X: "V (yEncode yj (adYdoc e) (Some (ytVector yt d0))) = Some X" "X \<subseteq> ops (shared yj d n)"
    "ops (shared yj d n) \<subseteq> ops d0 \<union> X"
    using law(2) unfolding crdt_def e by blast
  have same: "content yj (dkManager dk, nwDb n) d = shared yj d n" using con(2) by (simp add: shared_def)
  have "in_sync yj yt ops V d L (deliver dk n)"
  proof (rule sync_deliver [OF sync con(1) sent(1) refl])
    show "ops (shared yj d n) \<subseteq> ops (content yj (dkManager dk, nwDb n) d)" by (simp add: same)
    show "\<forall>x\<in>set (new @ [(k, ''doc:joined'', pl)]). in_ok V (ops (content yj (dkManager dk, nwDb n) d)) (snd x)"
      using sent(2,4) X(1,2) by (auto simp: in_ok_def same)
  next
    fix c' j assume c': "deSocket (nwEditor n c') = Some j" "in_document d j (dkHub dk)"
    have "j = k \<or> in_document d j ?h"
      using in_document_enter [OF c'(2) [unfolded run]] by (simp add: in_document_def on_hub_def)
    then show "ops (content yj (dkManager dk, nwDb n) d) \<subseteq> ops (deYdoc (nwEditor n c')) \<union> incoming V (nwInbox n c') \<union>
        incoming V (sent_to j (new @ [(k, ''doc:joined'', pl)]))"
    proof
      assume "j = k"
      with sync c c'(1) have "c' = c" by (auto simp: in_sync_def)
      with \<open>j = k\<close> d0 X(1,3) sent(4) show ?thesis unfolding same sent_to_def by auto
    next
      assume "in_document d j ?h"
      with c'(1) sync have "ops (shared yj d n) \<subseteq> ops (deYdoc (nwEditor n c')) \<union> incoming V (nwInbox n c')"
        by (auto simp: in_sync_def editor_ok_def)
      then show ?thesis unfolding same by blast
    qed
  qed
  with same show ?thesis by (simp add: shared_def deliver_def)
qed

lemma sync_awareness:
  assumes sync: "in_sync yj yt ops V d L n"
    and dk: "dk = docGateway_handleAwareness k i a (on_hub (\<lambda>h. h\<lparr>hubLimiter := Q\<rparr>) (nwDesk n))"
  shows "in_sync yj yt ops V d L (deliver dk n) \<and> shared yj d (deliver dk n) = shared yj d n"
proof -
  have hub: "hubSockets (dkHub dk) = hubSockets (dkHub (nwDesk n))" "dkManager dk = dkManager (nwDesk n)"
    by (simp_all add: dk docGateway_handleAwareness_def on_hub_def emit_others_def)
  have "quietly (dkHub (nwDesk n)) (dkHub dk)"
    using quiet_emits(3) [of "''doc:awareness''" "[(''documentId'', WString i), (''data'', a)]" "dkHub (nwDesk n)\<lparr>hubLimiter := Q\<rparr>" k "document_room i"]
    by (simp add: dk docGateway_handleAwareness_def on_hub_def quietly_def carried_def)
  with hub sync have "in_sync yj yt ops V d L (deliver dk n)"
    by (intro sync_quiet [OF sync]) (simp_all add: in_sync_def shared_def in_document_def)
  with hub show ?thesis by (simp add: shared_def deliver_def)
qed

section \<open>All editors are in step\<close>

lemma sync_serve:
  assumes law: "yjs_laws yj" "crdt yj yt ops V" and sync: "in_sync yj yt ops V d L n"
    and c: "deSocket (nwEditor n c) = Some k" "deSent (nwEditor n c) = m # ms"
  shows "in_sync yj yt ops V d (if admitted is_uuid now suffix (nwDb n) k m (nwDesk n) then L else insert c L)
    (deliver (doc_dispatch yj is_uuid now suffix (nwDb n) k m (nwDesk n)) (set_editor c (\<lambda>ed. ed\<lparr>deSent := ms\<rparr>) n))"
proof -
  let ?n = "set_editor c (\<lambda>ed. ed\<lparr>deSent := ms\<rparr>) n"
  let ?dk = "doc_dispatch yj is_uuid now suffix (nwDb n) k m (nwDesk n)"
  have old: "editor_ok yj yt ops V d (ops (shared yj d n)) (dkHub (nwDesk n)) (c \<in> L) (nwEditor n c) (nwInbox n c)"
    using sync by (simp add: in_sync_def)
  have uniq: "deSocket (nwEditor n c) = Some j \<Longrightarrow> c' \<noteq> c \<Longrightarrow> deSocket (nwEditor n c') \<noteq> Some j" for j c'
    using sync by (auto simp: in_sync_def)
  have taken: "in_sync yj yt ops V d (insert c L) ?n"
    using sync_editor [OF sync, of c "insert c L" "\<lambda>ed. ed\<lparr>deSent := ms\<rparr>" "nwInbox n c"] old c uniq by (simp add: editor_ok_def)
  have parts: "nwDesk ?n = nwDesk n" "nwDb ?n = nwDb n" "shared yj d ?n = shared yj d n" "deSocket (nwEditor ?n c) = Some k"
    "deYdoc (nwEditor ?n c) = deYdoc (nwEditor n c)" "deSent (nwEditor ?n c) = ms" "nwEditor (deliver dk ?n) = nwEditor ?n" for dk
    using c(1) by (simp_all add: set_editor_def shared_def deliver_def)
  show ?thesis
  proof (cases "admitted is_uuid now suffix (nwDb n) k m (nwDesk n)")
    case False
    from refused_message [OF False] have r: "dkManager ?dk = dkManager (nwDesk n)" "hubSockets (dkHub ?dk) = hubSockets (dkHub (nwDesk n))"
      "quietly (dkHub (nwDesk n)) (dkHub ?dk)" by blast+
    have "in_sync yj yt ops V d (insert c L) (deliver ?dk ?n)"
      using taken r by (intro sync_quiet [OF taken]) (simp_all add: parts in_sync_def shared_def in_document_def)
    with False show ?thesis by simp
  next
    case True
    obtain x q Q where x: "skId x = k"
      and run: "?dk = doc_handle yj now x q m (nwDb n) (on_hub (\<lambda>h. h\<lparr>hubLimiter := Q\<rparr>) (nwDesk n))"
      using admitted_message [OF True] by metis
    have known: "c \<notin> L \<Longrightarrow> ops (deYdoc (nwEditor n c)) \<subseteq> ops (shared yj d n) \<union> outgoing V (m # ms)"
      using old c(2) by (simp add: editor_ok_def)
    have "out_ok ops V yt d (deYdoc (nwEditor n c)) m" using old c(2) by (simp add: editor_ok_def)
    then have "in_sync yj yt ops V d (insert c L) (deliver ?dk ?n) \<and>
        (c \<notin> L \<longrightarrow> ops (deYdoc (nwEditor n c)) \<subseteq> ops (shared yj d (deliver ?dk ?n)) \<union> outgoing V ms)"
    proof (cases m)
      case (DocUpdate i b)
      with \<open>out_ok ops V yt d (deYdoc (nwEditor n c)) m\<close> obtain u X where u: "i = d" "b = Some u" "V u = Some X"
        "X \<subseteq> ops (deYdoc (nwEditor n c))" by auto
      have dk: "?dk = docGateway_handleUpdate yj now k d (Some u) (nwDb ?n) (on_hub (\<lambda>h. h\<lparr>hubLimiter := Q\<rparr>) (nwDesk ?n))"
        using run DocUpdate u x by (simp add: parts)
      from sync_update [OF law taken parts(4) u(3) _ dk] u known DocUpdate show ?thesis by (simp add: parts) blast
    next
      case (DocJoin i w v)
      with \<open>out_ok ops V yt d (deYdoc (nwEditor n c)) m\<close> obtain d0 where d0: "i = d" "v = Some (ytVector yt d0)"
        "ops d0 \<subseteq> ops (deYdoc (nwEditor n c))" by auto
      have dk: "?dk = docGateway_handleJoin yj now k q (skDocument x) d w (Some (ytVector yt d0)) (nwDb ?n)
          (on_hub (\<lambda>h. h\<lparr>hubLimiter := Q\<rparr>) (nwDesk ?n))"
        using run DocJoin d0 x by (simp add: parts)
      from sync_join [OF law taken parts(4) _ dk] d0 known DocJoin show ?thesis by (simp add: parts)
    next
      case (DocAwareness i a)
      have dk: "?dk = docGateway_handleAwareness k i a (on_hub (\<lambda>h. h\<lparr>hubLimiter := Q\<rparr>) (nwDesk ?n))"
        using run DocAwareness x by (simp add: parts)
      from sync_awareness [OF taken dk] known DocAwareness show ?thesis by (simp add: parts)
    next
      case (DocLeave i)
      with \<open>out_ok ops V yt d (deYdoc (nwEditor n c)) m\<close> show ?thesis by simp
    qed
    note served = this
    have "in_sync yj yt ops V d L (deliver ?dk ?n)"
      by (rule sync_unlost [where c = c]) (use served in \<open>unfold parts, blast+\<close>)
    with True show ?thesis by simp
  qed
qed

lemma sync_start:
  assumes "crdt yj yt ops V" "doc_active d s"
  shows "in_sync yj yt ops V d {} (start_network yj s)"
  using assms
  by (simp add: in_sync_def start_network_def editor_ok_def new_editor_def empty_desk_def empty_hub_def nothing_loaded_ok crdt_def)

lemma sync_connect:
  assumes sync: "in_sync yj yt ops V d L n" and p: "epDocument p = d"
    and free: "deSocket (nwEditor n c) = None" "k \<notin> skId ` set (hubSockets (dkHub (nwDesk n)))" "\<forall>c'. deSocket (nwEditor n c') \<noteq> Some k"
    and accepted: "k \<in> skId ` set (hubSockets (handleConnection cr now s hs k (dkHub (nwDesk n))))"
  shows "in_sync yj yt ops V d L (set_editor c (onConnect yt p k) (deliver (on_hub (handleConnection cr now s hs k) (nwDesk n)) n))"
proof -
  let ?dk = "on_hub (handleConnection cr now s hs k) (nwDesk n)" and ?h = "dkHub (nwDesk n)"
  let ?n = "deliver ?dk n"
  note conn = connection_sockets [OF accepted free(2)]
  have "quietly ?h (dkHub ?dk)" using conn by (simp add: quiet_same)
  then have new: "in_sync yj yt ops V d L ?n"
    using sync conn by (intro sync_quiet [OF sync]) (simp_all add: in_sync_def shared_def)
  have parts: "nwEditor ?n = nwEditor n" "nwDesk ?n = ?dk" by (simp_all add: deliver_def)
  have away: "\<not> in_document d k (dkHub ?dk)"
    unfolding on_hub_parts using conn free(2) by (metis (no_types, lifting) image_eqI in_document_def)
  have "editor_ok yj yt ops V d (ops (shared yj d ?n)) (dkHub (nwDesk ?n)) (c \<in> L) (nwEditor ?n c) (nwInbox ?n c)"
    using new by (simp add: in_sync_def)
  then have "editor_ok yj yt ops V d (ops (shared yj d ?n)) (dkHub (nwDesk ?n)) (c \<in> L) (onConnect yt p k (nwEditor ?n c)) (nwInbox ?n c)"
    by (rule editor_connects) (simp_all add: parts free(1) p away [unfolded on_hub_parts])
  then have "in_sync yj yt ops V d L (set_editor c (onConnect yt p k) (?n\<lparr>nwInbox := (nwInbox ?n)(c := nwInbox ?n c)\<rparr>))"
    by (rule sync_editor [OF new]) (use free(3) in \<open>simp_all add: parts onConnect_def socket_emit_def\<close>)
  then show ?thesis by simp
qed

lemma sync_own:
  assumes sync: "in_sync yj yt ops V d L n"
    and keeps: "\<And>S h lost box. editor_ok yj yt ops V d S h lost (nwEditor n c) box \<Longrightarrow>
        editor_ok yj yt ops V d S h (lost \<or> gone) (f (nwEditor n c)) box"
    and sock: "deSocket (f (nwEditor n c)) = deSocket (nwEditor n c)"
  shows "in_sync yj yt ops V d (if gone then insert c L else L) (set_editor c f n)"
proof -
  have "editor_ok yj yt ops V d (ops (shared yj d n)) (dkHub (nwDesk n)) (c \<in> L) (nwEditor n c) (nwInbox n c)"
    using sync by (simp add: in_sync_def)
  from keeps [OF this] have "editor_ok yj yt ops V d (ops (shared yj d n)) (dkHub (nwDesk n))
      (c \<in> (if gone then insert c L else L)) (f (nwEditor n c)) (nwInbox n c)" by (cases gone) simp_all
  moreover have "deSocket (f (nwEditor n c)) = Some k \<Longrightarrow> c' \<noteq> c \<Longrightarrow> deSocket (nwEditor n c') \<noteq> Some k" for k c'
    using sync sock by (auto simp: in_sync_def)
  ultimately show ?thesis
    using sync_editor [OF sync, of c "if gone then insert c L else L" f "nwInbox n c"] by simp
qed

lemma awareness_socket [simp]: "deSocket (emitAwareness p now a b ed) = deSocket ed"
  by (simp add: emitAwareness_def socket_emit_def)

lemma edit_socket [simp]: "deSocket (edit_text yt p t ed) = deSocket ed"
  by (simp add: edit_text_def socket_emit_def Let_def split: prod.split option.split)

lemma session_in_sync:
  assumes law: "yjs_laws yj" "crdt yj yt ops V" and ps: "\<And>c. epDocument (ps c) = d"
  shows "session yj yt cr is_uuid d ps L n \<Longrightarrow> in_sync yj yt ops V d L n"
proof (induction rule: session.induct)
  case (opened s)
  then show ?case by (rule sync_start [OF law(2)])
next
  case (connects L n c k now hs)
  from sync_connect [OF connects.IH ps connects.hyps(2-5)] show ?case .
next
  case (edits L n c now t a b)
  show ?case unfolding handleTextChange_def
    by (rule sync_own [OF edits.IH]) (simp_all add: editor_emits_awareness editor_edits [OF law(2) _ ps])
next
  case (marks L n c pfx suffix a b)
  show ?case unfolding insertMarkdown_def
    by (rule sync_own [OF marks.IH]) (simp_all add: editor_edits [OF law(2) _ ps])
next
  case (selects L n c now a b)
  from sync_own [OF selects.IH, where gone = False and c = c and f = "emitAwareness (ps c) now a b"] show ?case
    by (simp add: editor_emits_awareness)
next
  case (receives L n c m ms)
  have "editor_ok yj yt ops V d (ops (shared yj d n)) (dkHub (nwDesk n)) (c \<in> L) (nwEditor n c) (m # ms)"
    using receives.IH receives.hyps(2) by (metis in_sync_def)
  from editor_receives [OF law(2) this, of "ps c"] show ?case
  proof (rule sync_editor [OF receives.IH])
    fix k c' assume "deSocket (receive yj (ps c) m (nwEditor n c)) = Some k" "c' \<noteq> c"
    moreover have "core (receive yj (ps c) m (nwEditor n c)) = core (case carried m of None \<Rightarrow> nwEditor n c | Some u \<Rightarrow> apply_remote yj u (nwEditor n c))"
      by (rule receive_effect)
    then have "deSocket (receive yj (ps c) m (nwEditor n c)) = deSocket (nwEditor n c)"
      by (simp add: core_def split: option.splits)
    ultimately show "deSocket (nwEditor n c') \<noteq> Some k" using receives.IH by (auto simp: in_sync_def)
  qed simp
next
  case (serves L n c k m ms now suffix)
  from sync_serve [OF law serves.IH serves.hyps(2,3)] show ?case .
next
  case (breaks L n c)
  let ?L = "if list_ex (\<lambda>m. update_of m \<noteq> None) (deSent (nwEditor n c)) then insert c L else L"
  have no_update: "outgoing V xs = {}" if "\<not> list_ex (\<lambda>m. update_of m \<noteq> None) xs" for xs
    using that by (induction xs) simp_all
  have "editor_ok yj yt ops V d (ops (shared yj d n)) (dkHub (nwDesk n)) (c \<in> L) (nwEditor n c) (nwInbox n c)"
    using breaks.IH by (simp add: in_sync_def)
  then have "editor_ok yj yt ops V d (ops (shared yj d n)) (dkHub (nwDesk n)) (c \<in> ?L) ((onDisconnect (nwEditor n c))\<lparr>deSent := []\<rparr>) []"
    using no_update [of "deSent (nwEditor n c)"]
    by (cases "list_ex (\<lambda>m. update_of m \<noteq> None) (deSent (nwEditor n c))") (auto simp: editor_ok_def onDisconnect_def)
  then show ?case by (rule sync_editor [OF breaks.IH]) (simp_all add: onDisconnect_def)
next
  case (closes L n k now)
  have sk: "saved_ok yj (dkManager (disconnect now k (nwDesk n)), nwDb n)"
    and same: "content yj (dkManager (disconnect now k (nwDesk n)), nwDb n) d = shared yj d n"
  proof -
    have m: "dkManager (disconnect now k (nwDesk n)) = dkManager (nwDesk n) \<or>
        (\<exists>i. dkManager (disconnect now k (nwDesk n)) = removeConnection now i k (dkManager (nwDesk n)))"
      by (auto simp: disconnect_def docGateway_handleDisconnect_def split: option.split)
    have ok: "saved_ok yj (dkManager (nwDesk n), nwDb n)" using closes.IH by (simp add: in_sync_def)
    from doc_step_ok [OF law(1) ok, of "CloseDoc now _ k" d] m ok
    show "saved_ok yj (dkManager (disconnect now k (nwDesk n)), nwDb n)"
      "content yj (dkManager (disconnect now k (nwDesk n)), nwDb n) d = shared yj d n"
      by (auto simp: shared_def)
  qed
  show ?case by (rule sync_quiet [OF closes.IH sk quiet_disconnect same in_document_disconnect])
next
  case (saves L n now i m s)
  have ok: "saved_ok yj (dkManager (nwDesk n), nwDb n)" "doc_active d (nwDb n)" using saves.IH by (simp_all add: in_sync_def)
  from fire_ok [OF law(1) ok(1), of now i] ok(2) show ?case
    unfolding saves.hyps(2) same_contents_def by (intro sync_db [OF saves.IH]) (simp_all add: shared_def)
next
  case (announces L n savedAt)
  let ?dk = "handleDocumentSaved yj d savedAt (nwDesk n)" and ?h = "dkHub (nwDesk n)"
  have m: "dkManager ?dk = dkManager (nwDesk n)" "hubSockets (dkHub ?dk) = hubSockets ?h"
    by (simp_all add: handleDocumentSaved_def core_proj split: option.split)
  have old: "saved_ok yj (dkManager (nwDesk n), nwDb n)" using announces.IH by (simp add: in_sync_def)
  obtain new where new: "hubSent (dkHub ?dk) = hubSent ?h @ new" "\<forall>x\<in>set new. in_ok V (ops (shared yj d n)) (snd x)"
  proof (cases "hget (dkManager (nwDesk n)) d")
    case None
    then show ?thesis
      by (intro that) (auto simp: handleDocumentSaved_def encodeDiff_def emit_room_def in_ok_def carried_def)
  next
    case (Some e)
    then have "V (yEncode yj (adYdoc e) None) = Some (ops (shared yj d n))"
      using law(2) by (simp add: crdt_def shared_def content_def)
    with Some show ?thesis
      by (intro that) (auto simp: handleDocumentSaved_def encodeDiff_def emit_room_def in_room_def in_ok_def carried_def as_text_def)
  qed
  show ?case
  proof (rule sync_deliver [OF announces.IH _ new(1) refl])
    fix c k assume "deSocket (nwEditor n c) = Some k" "in_document d k (dkHub ?dk)"
    then show "ops (content yj (dkManager ?dk, nwDb n) d) \<subseteq>
        ops (deYdoc (nwEditor n c)) \<union> incoming V (nwInbox n c) \<union> incoming V (sent_to k new)"
      using announces.IH m by (auto simp: in_sync_def editor_ok_def in_document_def shared_def)
  qed (use old new(2) in \<open>simp_all add: m shared_def\<close>)
next
  case (sweeps L n now r m s)
  have ok: "saved_ok yj (dkManager (nwDesk n), nwDb n)" "doc_active d (nwDb n)" using sweeps.IH by (simp_all add: in_sync_def)
  from doc_step_ok [OF law(1) ok(1), of "IdleSweep now" d] ok(2) show ?case
    by (intro sync_db [OF sweeps.IH]) (simp_all add: sweeps.hyps(2) shared_def)
next
  case (elsewhere L n s)
  have "content yj (dkManager (nwDesk n), s) i = content yj (dkManager (nwDesk n), nwDb n) i" for i
    using elsewhere.hyps(2) by (simp add: content_def split: option.split)
  moreover have "saved_ok yj (dkManager (nwDesk n), s)"
    using elsewhere.IH elsewhere.hyps(2) by (auto simp: in_sync_def saved_ok_def)
  ultimately show ?case
    using sync_db [OF elsewhere.IH, of "dkManager (nwDesk n)" s] elsewhere by (simp add: shared_def in_sync_def)
qed


section \<open>A concrete library\<close>

text \<open>A register that keeps the version with the greatest number, for concrete runs; an update is the number in unary, a mark and the text.\<close>

definition reg_encode :: "nat \<times> string \<Rightarrow> string" where
  "reg_encode d = replicate (fst d) (CHR ''1'') @ CHR ''!'' # snd d"

definition reg_decode :: "string \<Rightarrow> (nat \<times> string) option" where
  "reg_decode u = (if CHR ''!'' \<in> set u then Some (length (takeWhile (\<lambda>c. c \<noteq> CHR ''!'') u), tl (dropWhile (\<lambda>c. c \<noteq> CHR ''!'') u)) else None)"

lemma reg_decode_encode [simp]: "reg_decode (reg_encode d) = Some d"
proof -
  have "takeWhile (\<lambda>c. c \<noteq> CHR ''!'') (replicate n (CHR ''1'') @ CHR ''!'' # t) = replicate n (CHR ''1'')" for n t
    by (induction n) simp_all
  moreover have "dropWhile (\<lambda>c. c \<noteq> CHR ''!'') (replicate n (CHR ''1'') @ CHR ''!'' # t) = CHR ''!'' # t" for n t
    by (induction n) simp_all
  ultimately show ?thesis by (simp add: reg_decode_def reg_encode_def)
qed

definition reg_yjs :: "(nat \<times> string) yjs" where
  "reg_yjs = \<lparr>yEmpty = (0, []), yApply = (\<lambda>u d. map_option (max d) (reg_decode u)), yApplyV2 = (\<lambda>u d. None),
     yEncode = (\<lambda>d v. reg_encode d), yText = snd, ySetText = (\<lambda>t d. (Suc (fst d), t))\<rparr>"

definition reg_text :: "(nat \<times> string) ytext" where
  "reg_text = \<lparr>ytVector = (\<lambda>d. []), ytReplace = (\<lambda>t d. if t = snd d then (d, None)
     else ((Suc (fst d), t), Some (reg_encode (Suc (fst d), t))))\<rparr>"

definition reg_ops :: "nat \<times> string \<Rightarrow> (nat \<times> string) set" where
  "reg_ops d = {p. p \<le> d \<and> p \<noteq> (0, [])}"

lemma reg_laws: "yjs_laws reg_yjs" "crdt reg_yjs reg_text reg_ops (\<lambda>u. map_option reg_ops (reg_decode u))"
proof -
  have least: "(0, []) \<le> (p :: nat \<times> string)" for p by (cases p) (auto simp: less_eq_prod_def)
  then have bottom: "max (0, []) p = p" for p :: "nat \<times> string" by (simp add: max_def)
  show "yjs_laws reg_yjs" by (auto simp: yjs_laws_def reg_yjs_def bottom) (simp add: reg_encode_def)
  have "inj reg_ops"
  proof (rule injI)
    fix x y :: "nat \<times> string" assume eq: "reg_ops x = reg_ops y"
    have le: "p \<le> q" if "reg_ops p \<subseteq> reg_ops q" for p q
      using that least by (cases "p = (0, [])") (auto simp: reg_ops_def)
    show "x = y" using eq le [of x y] le [of y x] by simp
  qed
  moreover have "\<exists>d'. yApply reg_yjs u d = Some d' \<and> reg_ops d' = reg_ops d \<union> X" if V: "map_option reg_ops (reg_decode u) = Some X" for u d X
  proof -
    from V obtain p where p: "reg_decode u = Some p" "X = reg_ops p" by blast
    have "reg_ops (max d p) = reg_ops d \<union> reg_ops p" by (auto simp: reg_ops_def le_max_iff_disj)
    with p show ?thesis by (simp add: reg_yjs_def)
  qed
  moreover have "yText reg_yjs (fst (ytReplace reg_text t d)) = t \<and> (case snd (ytReplace reg_text t d) of
      None \<Rightarrow> fst (ytReplace reg_text t d) = d
    | Some u \<Rightarrow> \<exists>X. map_option reg_ops (reg_decode u) = Some X \<and> reg_ops (fst (ytReplace reg_text t d)) = reg_ops d \<union> X)" for t d
  proof (cases "t = snd d")
    case False
    have "reg_ops (Suc (fst d), t) = reg_ops d \<union> reg_ops (Suc (fst d), t)"
      by (cases d) (auto simp: reg_ops_def less_eq_prod_def)
    with False show ?thesis by (simp add: reg_yjs_def reg_text_def)
  qed (simp add: reg_yjs_def reg_text_def)
  moreover have encode: "map_option reg_ops (reg_decode (yEncode reg_yjs d v)) = Some (reg_ops d)" for d v by (simp add: reg_yjs_def)
  moreover have "\<exists>X. map_option reg_ops (reg_decode (yEncode reg_yjs d (Some (ytVector reg_text d0)))) = Some X \<and>
      X \<subseteq> reg_ops d \<and> reg_ops d \<subseteq> reg_ops d0 \<union> X" for d d0 unfolding encode by auto
  moreover have "reg_ops (yEmpty reg_yjs) = {}" "yText reg_yjs (yEmpty reg_yjs) = []"
    using least by (auto simp: reg_yjs_def reg_ops_def)
  ultimately show "crdt reg_yjs reg_text reg_ops (\<lambda>u. map_option reg_ops (reg_decode u))"
    unfolding crdt_def by blast
qed

section \<open>Runs\<close>

definition serve_next :: "'d yjs \<Rightarrow> (string \<Rightarrow> bool) \<Rightarrow> instant \<Rightarrow> string \<Rightarrow> 'd network \<Rightarrow> 'd network" where
  "serve_next yj is_uuid now c n =
     (case (deSocket (nwEditor n c), deSent (nwEditor n c)) of
        (Some k, m # ms) \<Rightarrow>
          deliver (doc_dispatch yj is_uuid now ''r'' (nwDb n) k m (nwDesk n)) (set_editor c (\<lambda>ed. ed\<lparr>deSent := ms\<rparr>) n)
      | _ \<Rightarrow> n)"

definition receive_next :: "'d yjs \<Rightarrow> (string \<Rightarrow> editor_props) \<Rightarrow> string \<Rightarrow> 'd network \<Rightarrow> 'd network" where
  "receive_next yj ps c n =
     (case nwInbox n c of [] \<Rightarrow> n | m # ms \<Rightarrow> set_editor c (receive yj (ps c) m) (n\<lparr>nwInbox := (nwInbox n)(c := ms)\<rparr>))"

definition connect_as :: "'d ytext \<Rightarrow> crypto \<Rightarrow> (string \<Rightarrow> editor_props) \<Rightarrow> instant \<Rightarrow> string \<Rightarrow> string \<Rightarrow> 'd network \<Rightarrow> 'd network" where
  "connect_as yt cr ps now k c n = set_editor c (onConnect yt (ps c) k)
     (deliver (on_hub (handleConnection cr now (nwDb n) \<lparr>hsAuthToken = Some ''t'', hsAuthorization = None\<rparr> k) (nwDesk n)) n)"

lemma session_receive: "session yj yt cr is_uuid d ps L n \<Longrightarrow> session yj yt cr is_uuid d ps L (receive_next yj ps c n)"
  by (auto simp: receive_next_def intro: session.receives split: list.split)

lemma session_serve:
  assumes "session yj yt cr is_uuid d ps L n" "deSocket (nwEditor n c) = Some k" "deSent (nwEditor n c) = m # ms"
    and "admitted is_uuid now ''r'' (nwDb n) k m (nwDesk n)"
  shows "session yj yt cr is_uuid d ps L (serve_next yj is_uuid now c n)"
  using session.serves [OF assms(1-3), of now "''r''"] assms(2-4) by (simp add: serve_next_def)

definition reg_props :: "string \<Rightarrow> editor_props" where
  "reg_props c = \<lparr>epDocument = ''d'', epWorkspace = ''w'', epUser = ''m'', epName = ''Mia''\<rparr>"

text \<open>One editor joins the document, gets the stored text and replaces it.\<close>

definition net_1 :: "(nat \<times> string) network" where
  "net_1 = connect_as reg_text demo_crypto reg_props 0 ''k1'' ''a'' (start_network reg_yjs document_db)"

definition net_2 :: "(nat \<times> string) network" where
  "net_2 = receive_next reg_yjs reg_props ''a'' (serve_next reg_yjs (\<lambda>i. i \<noteq> []) 0 ''a'' net_1)"

definition net_3 :: "(nat \<times> string) network" where
  "net_3 = set_editor ''a'' (handleTextChange reg_text (reg_props ''a'') 0 ''hi'' 2 2) net_2"

definition net_4 :: "(nat \<times> string) network" where
  "net_4 = serve_next reg_yjs (\<lambda>i. i \<noteq> []) 0 ''a'' net_3"

lemma net_1_parts: "nwDesk net_1 = on_hub (\<lambda>_. one_hub) empty_desk" "nwDb net_1 = document_db"
   "nwEditor net_1 = (\<lambda>_. new_editor reg_yjs)(''a'' := onConnect reg_text (reg_props ''a'') ''k1'' (new_editor reg_yjs))"
   "nwInbox net_1 = (\<lambda>_. [])"
proof -
  have conn: "handleConnection demo_crypto 0 document_db \<lparr>hsAuthToken = Some ''t'', hsAuthorization = None\<rparr> ''k1'' empty_hub = one_hub"
    by (simp add: one_hub_eq handleConnection_def handshake_token_def verifyAccessToken_def demo_crypto_def demo_claims_def
      isBlacklisted_def redis_get_def document_db_def sample_db_def empty_db_def empty_hub_def user_room_def)
  show "nwDesk net_1 = on_hub (\<lambda>_. one_hub) empty_desk" "nwDb net_1 = document_db"
   "nwEditor net_1 = (\<lambda>_. new_editor reg_yjs)(''a'' := onConnect reg_text (reg_props ''a'') ''k1'' (new_editor reg_yjs))"
   "nwInbox net_1 = (\<lambda>_. [])"
  by (simp_all add: net_1_def connect_as_def set_editor_def deliver_def start_network_def on_hub_def fun_eq_iff empty_desk_def conn)
    (simp_all add: one_hub_eq empty_hub_def)
qed

abbreviation after_join :: limiter where
  "after_join \<equiv> [window_key ''m'' ''join'' \<mapsto> ([(attempt_member 0 ''r'', 0)], window_ttl 60000 * 1000)]"

lemma served_join: "doc_dispatch reg_yjs (\<lambda>i. i \<noteq> []) 0 ''r'' document_db ''k1'' (DocJoin ''d'' ''w'' (Some [])) (nwDesk net_1) =
  enterDocument reg_yjs 0 ''k1'' demo_claims None ''d'' (Some []) document_db (on_hub (\<lambda>h. h\<lparr>hubLimiter := after_join\<rparr>) (nwDesk net_1))"
proof -
  have guards: "wsAuthGuard_canActivate 0 (Some (socket_user_of demo_claims)) document_db = None"
    "join_check ''d'' ''w'' demo_claims document_db = None" by code_simp+
  then show ?thesis
    by (simp add: net_1_parts doc_dispatch_def one_hub_eq find_socket_def empty_hub_def demo_claims_def docGateway_handleJoin_def on_hub_def empty_desk_def
      wsRateLimitGuard_canActivate_def DOC_JOINS_def checkRateLimit_def live_window_def Let_def
        zremrangebyscore_def zadd_def zcard_def zrem_def)
qed

lemma join_admitted: "admitted (\<lambda>i. i \<noteq> []) 0 ''r'' document_db ''k1'' (DocJoin ''d'' ''w'' (Some [])) (nwDesk net_1)"
proof -
  have guards: "wsAuthGuard_canActivate 0 (Some (socket_user_of demo_claims)) document_db = None" by code_simp+
  then show ?thesis
    by (simp add: net_1_parts admitted_def one_hub_eq find_socket_def empty_hub_def demo_claims_def on_hub_def empty_desk_def
      wsRateLimitGuard_canActivate_def DOC_JOINS_def checkRateLimit_def live_window_def Let_def
        zremrangebyscore_def zadd_def zcard_def zrem_def)
qed

lemma joined_desk: "\<exists>eds. enterDocument reg_yjs 0 ''k1'' demo_claims None ''d'' (Some []) document_db (on_hub (\<lambda>h. h\<lparr>hubLimiter := after_join\<rparr>) (nwDesk net_1)) =
  \<lparr>dkHub = empty_hub\<lparr>hubSockets := [doc_socket], hubLimiter := after_join, hubSent := [(''k1'', ''doc:joined'', [(''documentId'', WString ''d''),
     (''state'', WString (reg_encode (0, ''a''))), (''editors'', WArray (map (\<lambda>e. WObject (wire_editor e)) (getEditors ''d'' eds)))])]\<rparr>,
   dkManager = [(''d'', \<lparr>adYdoc = (0, ''a''), adConnections = [''k1''], adLastActivity = 0, adSaveTimeout = None, adDirty = False\<rparr>)],
   dkEditors = eds\<rparr>"
proof -
  have stored: "stored_state ''d'' document_db = Some ''!a''" by code_simp
  have hyd: "hydrate reg_yjs (Some ''!a'') = (0, ''a'')" by code_simp
  show ?thesis
   by (simp add: net_1_parts enterDocument_def Let_def truthy_def on_hub_def empty_desk_def one_hub_eq empty_hub_def encodeDiff_def addConnection_def
     getOrLoad_def new_entry_def stored hyd hset_def hget_def emit_client_def emit_others_def in_room_def join_room_def set_socket_def
     doc_socket_def document_room_def sadd_def) (simp add: reg_yjs_def)
qed

lemma net_1_editor: "nwEditor net_1 ''a'' = \<lparr>deYdoc = (0, []), deText = [], deSocket = Some ''k1'', deEditors = [], deAwareness = [],
    deLastSaved = None, deLastEmit = 0, deSent = [DocJoin ''d'' ''w'' (Some [])]\<rparr>"
  by (simp add: net_1_parts onConnect_def socket_emit_def new_editor_def reg_props_def reg_text_def) (simp add: reg_yjs_def)

lemma net_2_parts: "\<exists>eds. nwDesk net_2 = 
  \<lparr>dkHub = empty_hub\<lparr>hubSockets := [doc_socket], hubLimiter := after_join, hubSent := [(''k1'', ''doc:joined'', [(''documentId'', WString ''d''),
     (''state'', WString (reg_encode (0, ''a''))), (''editors'', WArray (map (\<lambda>e. WObject (wire_editor e)) (getEditors ''d'' eds)))])]\<rparr>,
   dkManager = [(''d'', \<lparr>adYdoc = (0, ''a''), adConnections = [''k1''], adLastActivity = 0, adSaveTimeout = None, adDirty = False\<rparr>)],
   dkEditors = eds\<rparr> \<and> nwDb net_2 = document_db \<and> nwInbox net_2 ''a'' = [] \<and>
   core (nwEditor net_2 ''a'') = ((0, ''a''), ''a'', Some ''k1'', []) \<and> deLastEmit (nwEditor net_2 ''a'') = 0"
proof -
  obtain eds where d: "doc_dispatch reg_yjs (\<lambda>i. i \<noteq> []) 0 ''r'' document_db ''k1'' (DocJoin ''d'' ''w'' (Some [])) (nwDesk net_1) =
   \<lparr>dkHub = empty_hub\<lparr>hubSockets := [doc_socket], hubLimiter := after_join, hubSent := [(''k1'', ''doc:joined'', [(''documentId'', WString ''d''),
     (''state'', WString (reg_encode (0, ''a''))), (''editors'', WArray (map (\<lambda>e. WObject (wire_editor e)) (getEditors ''d'' eds)))])]\<rparr>,
   dkManager = [(''d'', \<lparr>adYdoc = (0, ''a''), adConnections = [''k1''], adLastActivity = 0, adSaveTimeout = None, adDirty = False\<rparr>)],
   dkEditors = eds\<rparr>" using joined_desk served_join by metis
  have "hubSent (dkHub (nwDesk net_1)) = []" by (simp add: net_1_parts one_hub_eq empty_hub_def)
  then have served: "serve_next reg_yjs (\<lambda>i. i \<noteq> []) 0 ''a'' net_1 =
     deliver (doc_dispatch reg_yjs (\<lambda>i. i \<noteq> []) 0 ''r'' document_db ''k1'' (DocJoin ''d'' ''w'' (Some [])) (nwDesk net_1)) (set_editor ''a'' (\<lambda>ed. ed\<lparr>deSent := []\<rparr>) net_1)"
    by (simp add: serve_next_def net_1_editor net_1_parts(2))
  have max: "max (0, []) (0, ''a'') = ((0, ''a'') :: nat \<times> string)" by code_simp
  show ?thesis
    unfolding net_2_def served d
    by (rule exI [of _ eds]) (simp add: receive_next_def deliver_def set_editor_def net_1_parts(1,2,4) one_hub_eq empty_hub_def net_1_editor receive_def onJoined_def
       as_array_def as_text_def apply_remote_def core_def reg_yjs_def max)
qed

lemma net_3_parts: "nwDesk net_3 = nwDesk net_2" "nwDb net_3 = nwDb net_2" "nwInbox net_3 = nwInbox net_2"
  "core (nwEditor net_3 ''a'') = ((1, ''hi''), ''hi'', Some ''k1'', [DocUpdate ''d'' (Some (reg_encode (1, ''hi'')))])"
  using net_2_parts by (auto simp: net_3_def set_editor_def core_def handleTextChange_def edit_text_def emitAwareness_def socket_emit_def reg_text_def reg_props_def)

lemma update_admitted: "admitted (\<lambda>i. i \<noteq> []) 0 ''r'' document_db ''k1'' (DocUpdate ''d'' (Some u)) (nwDesk net_3)"
proof -
  have guards: "wsAuthGuard_canActivate 0 (Some (socket_user_of demo_claims)) document_db = None" by code_simp+
  then show ?thesis
    using net_2_parts by (auto simp: net_3_parts admitted_def doc_socket_def find_socket_def empty_hub_def demo_claims_def
      wsRateLimitGuard_canActivate_def DOC_UPDATE_def checkRateLimit_def live_window_def Let_def window_key_def
        zremrangebyscore_def zadd_def zcard_def zrem_def)
qed

lemma net_4_parts: "nwEditor net_4 ''a'' = (nwEditor net_3 ''a'')\<lparr>deSent := []\<rparr>" "nwInbox net_4 ''a'' = []" "in_document ''d'' ''k1'' (dkHub (nwDesk net_4))"
proof -
  let ?u = "reg_encode (1, ''hi'')"
  obtain x q Q where "find_socket ''k1'' (dkHub (nwDesk net_3)) = Some x" "skId x = ''k1''"
    and run: "doc_dispatch reg_yjs (\<lambda>i. i \<noteq> []) 0 ''r'' document_db ''k1'' (DocUpdate ''d'' (Some ?u)) (nwDesk net_3) =
      doc_handle reg_yjs 0 x q (DocUpdate ''d'' (Some ?u)) document_db (on_hub (\<lambda>h. h\<lparr>hubLimiter := Q\<rparr>) (nwDesk net_3))"
    by (rule admitted_message [OF update_admitted]) (rule that)
  have served: "net_4 = deliver (doc_dispatch reg_yjs (\<lambda>i. i \<noteq> []) 0 ''r'' document_db ''k1'' (DocUpdate ''d'' (Some ?u)) (nwDesk net_3))
      (set_editor ''a'' (\<lambda>ed. ed\<lparr>deSent := []\<rparr>) net_3)"
    using net_2_parts net_3_parts by (auto simp: net_4_def serve_next_def core_def)
  show "nwEditor net_4 ''a'' = (nwEditor net_3 ''a'')\<lparr>deSent := []\<rparr>" by (simp add: served set_editor_def)
  show "nwInbox net_4 ''a'' = []" "in_document ''d'' ''k1'' (dkHub (nwDesk net_4))"
    unfolding served run
    using net_2_parts \<open>skId x = ''k1''\<close> by (auto simp: net_3_parts deliver_def set_editor_def docGateway_handleUpdate_def on_hub_def emit_others_def in_room_def doc_socket_def empty_hub_def in_document_def document_room_def)
qed

lemma typed_session: "session reg_yjs reg_text demo_crypto (\<lambda>i. i \<noteq> []) ''d'' reg_props {} net_4"
proof -
  have "session reg_yjs reg_text demo_crypto (\<lambda>i. i \<noteq> []) ''d'' reg_props {} (start_network reg_yjs document_db)"
    by (rule session.opened) (simp add: doc_active_def document_db_def)
  from session.connects [OF this, of "''a''" "''k1''" 0 "\<lparr>hsAuthToken = Some ''t'', hsAuthorization = None\<rparr>"]
  have 1: "session reg_yjs reg_text demo_crypto (\<lambda>i. i \<noteq> []) ''d'' reg_props {} net_1"
    using net_1_parts(1)
    by (simp add: net_1_def connect_as_def start_network_def new_editor_def empty_desk_def empty_hub_def set_editor_def deliver_def on_hub_def one_hub_eq)
  have 2: "session reg_yjs reg_text demo_crypto (\<lambda>i. i \<noteq> []) ''d'' reg_props {} net_2"
    unfolding net_2_def by (rule session_receive [OF session_serve [OF 1 _ _ join_admitted [folded net_1_parts(2)]]]) (simp_all add: net_1_editor)
  have 3: "session reg_yjs reg_text demo_crypto (\<lambda>i. i \<noteq> []) ''d'' reg_props {} net_3"
    using session.edits [OF 2, of "''a''" 0 "''hi''" 2 2] net_2_parts by (auto simp: net_3_def core_def)
  show ?thesis
    unfolding net_4_def by (rule session_serve [OF 3]) (use net_2_parts net_3_parts update_admitted in \<open>auto simp: core_def\<close>)
qed


section \<open>What gets lost\<close>

text \<open>An edit made without a connection is in no message, neither then nor when the editor is connected again: the join asks for what the
  server has and offers nothing.\<close>

lemma offline_edit_is_never_sent:
  assumes "deSocket ed = None" "deSent ed = []"
  shows "deSent (onConnect yt p k (handleTextChange yt p now t a b ed)) =
    [DocJoin (epDocument p) (epWorkspace p) (Some (ytVector yt (fst (ytReplace yt t (deYdoc ed)))))]"
  using assms by (simp add: handleTextChange_def edit_text_def emitAwareness_def onConnect_def socket_emit_def Let_def split: prod.split option.split)

text \<open>An update the guards refuse, the 121st of a minute for one, is gone: the server's document is as before and the editor has nothing
  left to send.\<close>

lemma refused_update_is_lost:
  assumes "\<not> admitted is_uuid now suffix (nwDb n) k m (nwDesk n)"
    and "n' = deliver (doc_dispatch yj is_uuid now suffix (nwDb n) k m (nwDesk n)) (set_editor c (\<lambda>ed. ed\<lparr>deSent := ms\<rparr>) n)"
  shows "shared yj d n' = shared yj d n \<and> deSent (nwEditor n' c) = ms \<and> deYdoc (nwEditor n' c) = deYdoc (nwEditor n c)"
  using refused_message [OF assms(1), of yj] by (simp add: assms(2) shared_def deliver_def set_editor_def)

text \<open>A user with two tabs closes one: the server still lists the other, everyone else drops the user.\<close>

lemma second_tab_disappears:
  assumes "editor_at ed d k1 = Some e1" "editor_at ed d k2 = Some e2" "k1 \<noteq> k2" "edUserId e1 = edUserId e2"
  shows "editor_at (snd (removeEditor d k1 ed)) d k2 = Some e2 \<and>
    (\<forall>x\<in>set (deEditors (onEditorLeft e1 viewer)). edUserId x \<noteq> edUserId e2)"
  using assms by (simp add: editor_at_remove onEditorLeft_def)

end
