(* ===== verification/Spec2Isabelle.thy ===== *)
theory Spec2Isabelle
  imports Card_Properties Card_Fields Comments Labels Ownership Access_Guards Auth_Sessions Realtime_Properties
    Desk_Properties Notification_Properties
  File_Properties Activity_Properties Route_Properties Auth_Routes Card_Views Board_Content Mail_Properties Error_Responses
    Board_Canvas Client_Routing Client_Session Editor_Network
begin

text \<open>
  \<^bold>\<open>SyncBoard.\<close> A server for kanban boards shared by the members of a workspace (\<open>src/src/\<close>, NestJS over PostgreSQL, Redis
  and RabbitMQ) with a browser client (\<open>src/frontend/\<close>). This development models
  the server and the logic of the client, and proves what their parts promise.

  \<^bold>\<open>The program.\<close> An HTTP request passes guards (\<open>common/guards/\<close>, \<open>modules/workspace/guards/\<close>), a controller and a service;
  the service reads and writes rows through a repository and hands domain events to an event emitter. Listeners of those events
  relay them to sockets, record them in the activity log, publish notifications and send mail; queue consumers store the
  notifications and send the mail. Socket messages pass guards of their own and reach the board gateway (presence, rooms,
  cursors) or the document gateway (collaborative texts held in memory by the document manager). The client makes every request
  through one function that renews an expired access token, and keeps a copy of the board that it changes before the server answers.

  \<^bold>\<open>The state.\<close> \<open>Schema.db\<close> holds a list of rows per table of \<open>prisma/schema.prisma\<close>, the key-value store with expiry and the
  log of emitted events. An operation is a function from the state to an error or a result and a new state (\<open>'a outcome\<close>); an
  operation whose exception propagates out of an \<open>await\<close> is sequenced with \<open>Prelude.await\<close>; a transaction is one step, which
  leaves the state as it was when it fails. Identifiers, instants and random draws the code makes are arguments. The gateways add the sockets and their rooms, the document manager the loaded documents.

  \<^bold>\<open>The theories, from the bottom.\<close>
  \<^item> \<open>Prelude\<close>, \<open>Js_Text\<close>, \<open>Decimals\<close>, \<open>Iso_Date\<close>, \<open>Text_Formats\<close>: JavaScript values, strings, numerals, dates and the regular
    expressions of \<open>mention-parser.util.ts\<close> and \<open>validation.util.ts\<close>.
  \<^item> \<open>Tables\<close>, \<open>Schema\<close>, \<open>Soft_Delete\<close>, \<open>Paging\<close>, \<open>Samples\<close>: rows and queries, the data model, the archive-and-delete
    lifecycle, cursor pagination (\<open>common/utils/pagination.util.ts\<close>), a small database for the witnesses.
  \<^item> \<open>Rank_Service\<close>, \<open>Boards\<close>, \<open>Board_Content\<close>, \<open>Board_Lists\<close>, \<open>Cards\<close>, \<open>Card_Time\<close>, \<open>Checklists\<close>, \<open>Labels\<close>, \<open>Comments\<close>,
    \<open>Card_Fields\<close>, \<open>Card_Views\<close>: the components of \<open>modules/board/\<close>, one theory each, repository before service.
    \<open>Card_Writes\<close> is the abstract step relation of the card table, \<open>Card_Effects\<close> shows that every service operation is such
    a step, \<open>Card_System\<close> runs histories of calls, \<open>Card_Properties\<close> has the results on single calls.
  \<^item> \<open>Workspaces\<close>, \<open>Memberships\<close>, \<open>Invitations\<close>, \<open>Ownership\<close>: \<open>modules/workspace/\<close> and who owns a workspace.
  \<^item> \<open>Auth\<close>, \<open>Auth_Sessions\<close>, \<open>Auth_Routes\<close>, \<open>Access_Guards\<close>: \<open>modules/auth/\<close>, refresh-token families, the endpoints with
    the cookie of the browser, and the guards of HTTP and sockets.
  \<^item> \<open>Redis_Sets\<close>, \<open>Presence\<close>, \<open>Collaborator_Color\<close>, \<open>Rate_Limiter\<close>, \<open>Broadcast_Relay\<close>, \<open>Board_Gateway\<close>,
    \<open>Realtime_Properties\<close>: \<open>modules/board/realtime/\<close>.
  \<^item> \<open>Documents\<close>, \<open>Document_Manager\<close>, \<open>Document_Gateway\<close>, \<open>Document_Properties\<close>, \<open>Document_Desk\<close>, \<open>Desk_Properties\<close>,
    \<open>Document_Losses\<close>: \<open>modules/document/\<close>, its snapshots, and the interleavings in which text is lost.
  \<^item> \<open>Notifications\<close>, \<open>Notification_Properties\<close>, \<open>Once_Consumer\<close>, \<open>Mails\<close>, \<open>Mail_Properties\<close>: \<open>modules/notification/\<close>,
    \<open>modules/mail/\<close> and the publisher of \<open>common/rabbitmq/\<close>.
  \<^item> \<open>Files\<close>, \<open>File_Properties\<close>, \<open>Activities\<close>, \<open>Activity_Properties\<close>: \<open>modules/file/\<close> and \<open>modules/activity/\<close>.
  \<^item> \<open>Routes\<close>, \<open>Card_Routes\<close>, \<open>Board_Routes\<close>, \<open>Workspace_Routes\<close>, \<open>Route_Properties\<close>, \<open>Error_Responses\<close>: the controllers,
    what a role lets a caller change, and the answer of the global exception filter.
  \<^item> \<open>Client_Requests\<close>, \<open>Client_Routing\<close>, \<open>Client_Session\<close>, \<open>Board_Canvas\<close>: the client's \<open>api/endpoints.ts\<close>, the routes the
    controllers declare, \<open>api/client.ts\<close> with \<open>stores/auth.store.ts\<close>, and the drag and drop of \<open>BoardCanvas.tsx\<close>.
  \<^item> \<open>Client_Editor\<close>, \<open>Editor_Network\<close>: the editor of \<open>DocumentEditor.tsx\<close>, and any number of them working on one document through
    the document gateway, with messages under way and connections that break.

  \<^bold>\<open>Interfaces.\<close> Each locale is a contract several parts rely on, and each is interpreted on the model's own operations.
  \<^item> \<open>soft_delete_repo\<close>: the lifecycle of boards, lists and cards (\<open>boards\<close>, \<open>lists\<close>, \<open>cards\<close>).
  \<^item> \<open>rank_service\<close>: what lists, cards and checklists need of \<open>LexorankService\<close> (\<open>lexo\<close>).
  \<^item> \<open>keyed_store\<close>: sorted sets and hashes of the key-value store (\<open>zs\<close>, \<open>hs\<close>).
  \<^item> \<open>once_consumer\<close>: queue consumers that mark a message before acting on it (\<open>ntf\<close>, \<open>mails\<close>).

  \<^bold>\<open>What is proved.\<close> Invariants along every history of calls: one usable refresh token per family, an owner in every workspace,
  cards that agree in status and completion and nest one level, logged time equal to the sum of its entries, rooms that follow
  sessions, an exact unread counter. Safety: guards that let nobody but a member with the role write, replayed, revoked, reset
  and invitation tokens that work once, messages that stay in their rooms, queue messages that act once. Functional results:
  where a created or moved card lands, what the views and the pages of a board show, which mail verifies which account, that a
  card dropped in the client stays where it was dropped, and that an expired token is renewed without the caller noticing.
  Refinement and equivalence: a document in memory and in the database is one value on which every operation acts, editors
  converge, the editors in the browser show the document of the server once nothing is under way, and every call of the client
  reaches exactly the handler it is meant for. Termination and liveness: following the cursors of a feed ends with every row seen, a message is stored within its
  retries, a session that is used does not end. The lemmas that belong to no property but show a defect (a lost update, a fork of
  a token family, an owner-less workspace after two concurrent departures) are evaluated on concrete states.

  \<^bold>\<open>Bounds and fuel.\<close> Recursion is structural or has a measure, with two exceptions. \<open>walk_pages\<close> follows cursors with fuel one
  more than the number of rows, which the termination theorems show to be enough. The queue consumers retry three times,
  the number the code has; a run is a list of attempts. Delays are \<open>base * 2 ^ n\<close> as in \<open>retry.util.ts\<close>. The colour hash is
  computed in 32-bit words with wrap-around.

  \<^bold>\<open>Parameters.\<close> Code that is not in the repository is an argument with its documented laws as named hypotheses: bcrypt, SHA-256 and
  JWT (\<open>crypto\<close>), the lexorank package (\<open>lexorank_laws\<close>), Yjs (\<open>yjs_laws\<close>, \<open>crdt\<close>), the collation and text search of PostgreSQL
  (\<open>collation\<close>), the seek to a cursor (\<open>follows_cursor\<close>), the signer of the object store, \<open>Date.parse\<close> beyond ISO dates. Every
  property with such a hypothesis has a witness on a concrete instance.

  \<^bold>\<open>Not modelled.\<close> Start-up, configuration, health checks and the wiring of modules; the decorators that validate single fields of
  request bodies (services and controllers are modelled for validated ones) and the mappers that copy rows into responses, except
  those of a board's content; logging, throttling and tracing; the failure of Redis where the code only logs it; templates of mails; the creation of monthly partitions,
  which is one SQL statement; the rendering of the browser client, its forms and its rich-text editor; the seed data. Database queries are atomic steps, and
  where a service reads and later writes, the two halves are separate definitions so that other calls can come in between.
\<close>

end
